(* ===== verification/Dogwatch_Prelude.thy ===== *)
theory Dogwatch_Prelude
  imports Complex_Main "HOL-Library.Word" "HOL-Library.List_Lexorder" "HOL-Library.Char_ord"
begin

unbundle bit_operations_syntax

text \<open>
  What the components share: names for Go's types, Go's run-time outcomes (a value, an error
  value, a panic), \<open>time.Time\<close> and \<open>time.Duration\<close> arithmetic, fixed-width little-endian
  integers, decimal numerals, the string helpers of package \<open>strings\<close>, and the generic
  lemmas on lists and maps that the component theories use.
\<close>

section \<open>Collections of facts\<close>

named_theorems codec_simps
named_theorems dec_simps

section \<open>Go's types and outcomes\<close>

text \<open>A Go \<open>byte\<close> is an 8-bit word; a \<open>[]byte\<close> is a list of them. A \<open>string\<close> whose
  bytes matter to a codec is a byte list too, elsewhere it is HOL's \<^typ>\<open>string\<close>.\<close>

type_synonym byte = "8 word"
type_synonym u16 = "16 word"
type_synonym u32 = "32 word"
type_synonym u64 = "64 word"

text \<open>\<open>time.Time\<close> is an instant in nanoseconds, \<open>time.Duration\<close> a signed 64-bit number
  of nanoseconds.\<close>

type_synonym go_time = int
type_synonym duration = int

text \<open>A call returns a value, returns an error, or panics.\<close>

datatype 'a outcome = Return 'a | Error string | Panic

text \<open>A \<open>float64\<close> as its value: every finite float is a rational number, and the sign
  of zero never matters to a comparison.\<close>

datatype f64 = NaN | NegInf | Fin rat | PosInf

text \<open>IEEE comparison: a NaN is neither less than, nor greater than, nor equal to anything.\<close>

fun f64_less :: "f64 \<Rightarrow> f64 \<Rightarrow> bool" where
  "f64_less NaN y = False"
| "f64_less x NaN = False"
| "f64_less (Fin a) (Fin b) = (a < b)"
| "f64_less NegInf y = (y \<noteq> NegInf)"
| "f64_less x NegInf = False"
| "f64_less PosInf y = False"
| "f64_less x PosInf = True"

definition f64_eq :: "f64 \<Rightarrow> f64 \<Rightarrow> bool" where
  "f64_eq x y \<longleftrightarrow> x \<noteq> NaN \<and> x = y"

definition f64_le :: "f64 \<Rightarrow> f64 \<Rightarrow> bool" where
  "f64_le x y \<longleftrightarrow> f64_less x y \<or> f64_eq x y"

subsection \<open>Time\<close>

definition max_duration :: duration where "max_duration = 2 ^ 63 - 1"
definition min_duration :: duration where "min_duration = - (2 ^ 63)"

text \<open>\<open>Time.Sub\<close> saturates at the ends of the \<open>Duration\<close> range.\<close>

definition time_sub :: "go_time \<Rightarrow> go_time \<Rightarrow> duration" where
  "time_sub a b = max min_duration (min max_duration (a - b))"

text \<open>The zero value of \<open>time.Time\<close>: January 1 of year 1, UTC.\<close>

definition zero_time :: go_time where "zero_time = - 62135596800000000000"

abbreviation millisecond :: duration where "millisecond \<equiv> 1000000"
abbreviation second :: duration where "second \<equiv> 1000000000"
abbreviation minute :: duration where "minute \<equiv> 60000000000"
abbreviation hour :: duration where "hour \<equiv> 3600000000000"

lemma time_sub_ge_iff:
  "min_duration < d \<Longrightarrow> d \<le> max_duration \<Longrightarrow> d \<le> time_sub a b \<longleftrightarrow> d \<le> a - b"
  by (auto simp: time_sub_def)

lemma time_sub_less_iff:
  "min_duration < d \<Longrightarrow> d \<le> max_duration \<Longrightarrow> time_sub a b < d \<longleftrightarrow> a - b < d"
  by (auto simp: time_sub_def)

section \<open>Little-endian integers\<close>

text \<open>\<open>binary.LittleEndian\<close>: the \<open>n\<close> low bytes of a number, least significant first.\<close>

fun le_bytes :: "nat \<Rightarrow> nat \<Rightarrow> byte list" where
  "le_bytes 0 v = []"
| "le_bytes (Suc n) v = of_nat (v mod 256) # le_bytes n (v div 256)"

fun le_nat :: "byte list \<Rightarrow> nat" where
  "le_nat [] = 0"
| "le_nat (b # bs) = unat b + 256 * le_nat bs"

text \<open>\<open>LittleEndian.UintN(b)\<close> panics (here \<open>None\<close>) on a slice that is too short.\<close>

definition get_le :: "nat \<Rightarrow> byte list \<Rightarrow> nat option" where
  "get_le n bs = (if length bs < n then None else Some (le_nat (take n bs)))"

lemma length_le_bytes [simp]: "length (le_bytes n v) = n"
  by (induction n arbitrary: v) auto

lemma unat_of_nat_byte: "unat (of_nat (v mod 256) :: byte) = v mod 256"
  by (simp add: unat_of_nat)

lemma byte_less: "unat (b :: byte) < 256"
  using unsigned_less [of b, where 'a = nat] by simp

lemma le_nat_le_bytes_mod: "le_nat (le_bytes n v) = v mod 256 ^ n"
proof (induction n arbitrary: v)
  case 0
  then show ?case by simp
next
  case (Suc n)
  have "le_nat (le_bytes (Suc n) v) = v mod 256 + 256 * (v div 256 mod 256 ^ n)"
    using Suc.IH by (simp add: unat_of_nat_byte)
  also have "\<dots> = v mod (256 * 256 ^ n)"
    by (simp add: mod_mult2_eq)
  finally show ?case by simp
qed

lemma le_nat_le_bytes [codec_simps]: "v < 256 ^ n \<Longrightarrow> le_nat (le_bytes n v) = v"
  by (simp add: le_nat_le_bytes_mod)

lemma le_nat_less: "le_nat bs < 256 ^ length bs"
proof (induction bs)
  case Nil
  then show ?case by simp
next
  case (Cons b bs)
  have "unat b < 256" by (rule byte_less)
  with Cons.IH show ?case by simp
qed

lemma le_bytes_le_nat: "le_bytes (length bs) (le_nat bs) = bs"
proof (induction bs)
  case Nil
  then show ?case by simp
next
  case (Cons b bs)
  have "unat b < 256" by (rule byte_less)
  with Cons.IH show ?case by simp
qed

lemma get_le_append [codec_simps]:
  "v < 256 ^ n \<Longrightarrow> get_le n (le_bytes n v @ bs) = Some v"
  by (simp add: get_le_def le_nat_le_bytes)

lemma get_le_short: "length bs < n \<Longrightarrow> get_le n bs = None"
  by (simp add: get_le_def)

section \<open>Decimal numerals\<close>

definition digit_char :: "nat \<Rightarrow> char" where "digit_char d = char_of (48 + d)"
definition is_digit :: "char \<Rightarrow> bool" where
  "is_digit c \<longleftrightarrow> 48 \<le> (of_char c :: nat) \<and> (of_char c :: nat) \<le> 57"
definition digit_val :: "char \<Rightarrow> nat" where "digit_val c = of_char c - 48"

text \<open>\<open>fmt.Sprintf("%d", n)\<close> of a number that is not negative, and the value of a run of
  digits.\<close>

fun dec_str :: "nat \<Rightarrow> string" where
  "dec_str n = (if n < 10 then [digit_char n] else dec_str (n div 10) @ [digit_char (n mod 10)])"

declare dec_str.simps [simp del]

definition int_str :: "int \<Rightarrow> string" where
  "int_str z = (if z < 0 then CHR ''-'' # dec_str (nat (- z)) else dec_str (nat z))"

fun dec_val :: "string \<Rightarrow> nat" where
  "dec_val [] = 0"
| "dec_val (c # cs) = digit_val c * 10 ^ length cs + dec_val cs"

definition pad0 :: "nat \<Rightarrow> string \<Rightarrow> string" where
  "pad0 w s = replicate (w - length s) (CHR ''0'') @ s"

lemma of_char_digit_char [dec_simps]: "d < 10 \<Longrightarrow> (of_char (digit_char d) :: nat) = 48 + d"
  by (simp add: digit_char_def)

lemma is_digit_digit_char [dec_simps]: "d < 10 \<Longrightarrow> is_digit (digit_char d)"
  by (simp add: is_digit_def of_char_digit_char)

lemma digit_val_digit_char [dec_simps]: "d < 10 \<Longrightarrow> digit_val (digit_char d) = d"
  by (simp add: digit_val_def of_char_digit_char)

lemma digit_val_less: "is_digit c \<Longrightarrow> digit_val c < 10"
  by (auto simp: is_digit_def digit_val_def)

lemma dec_str_ne [simp]: "dec_str n \<noteq> []"
  by (subst dec_str.simps) simp

lemma dec_val_append: "dec_val (s @ t) = dec_val s * 10 ^ length t + dec_val t"
  by (induction s) (simp_all add: power_add algebra_simps)

lemma dec_str_digits: "\<forall>c \<in> set (dec_str n). is_digit c"
proof (induction n rule: dec_str.induct)
  case (1 n)
  then show ?case
    by (subst dec_str.simps) (auto simp: dec_simps)
qed

lemma dec_val_dec_str [dec_simps]: "dec_val (dec_str n) = n"
proof (induction n rule: dec_str.induct)
  case (1 n)
  then show ?case
    by (subst dec_str.simps) (simp add: dec_val_append dec_simps)
qed

lemma dec_val_less: "\<forall>c \<in> set s. is_digit c \<Longrightarrow> dec_val s < 10 ^ length s"
proof (induction s)
  case Nil
  then show ?case by simp
next
  case (Cons c s)
  have "digit_val c * 10 ^ length s + dec_val s < digit_val c * 10 ^ length s + 10 ^ length s"
    using Cons by simp
  also have "\<dots> \<le> 10 * 10 ^ length s"
  proof -
    have "(digit_val c + 1) * 10 ^ length s \<le> 10 * 10 ^ length s"
      using digit_val_less [of c] Cons.prems by (intro mult_le_mono1) simp
    then show ?thesis by simp
  qed
  finally show ?case by simp
qed

lemma length_dec_str_le: "n < 10 ^ w \<Longrightarrow> 0 < w \<Longrightarrow> length (dec_str n) \<le> w"
proof (induction n arbitrary: w rule: dec_str.induct)
  case (1 n)
  show ?case
  proof (cases "n < 10")
    case True
    with 1 show ?thesis by (subst dec_str.simps) simp
  next
    case False
    with "1.prems" obtain v where w: "w = Suc v" and v: "0 < v"
      by (cases w; cases "w - 1") auto
    with "1.prems" have "n div 10 < 10 ^ v"
      by (simp add: less_mult_imp_div_less mult.commute)
    then have "length (dec_str (n div 10)) \<le> v"
      using "1.IH" False v by blast
    with False w show ?thesis by (subst dec_str.simps) simp
  qed
qed

lemma dec_val_replicate_zero [simp]: "dec_val (replicate k (CHR ''0'')) = 0"
  by (induction k) (simp_all add: digit_val_def)

lemma dec_val_pad0 [dec_simps]: "dec_val (pad0 w s) = dec_val s"
  by (simp add: pad0_def dec_val_append)

lemma pad0_digits: "\<forall>c \<in> set s. is_digit c \<Longrightarrow> \<forall>c \<in> set (pad0 w s). is_digit c"
  by (auto simp: pad0_def is_digit_def)

lemma length_pad0: "length s \<le> w \<Longrightarrow> length (pad0 w s) = w"
  by (simp add: pad0_def)

text \<open>On digit strings of one length, Go's string order is the numeric order.\<close>

lemma digit_less_iff: "is_digit c \<Longrightarrow> is_digit d \<Longrightarrow> c < d \<longleftrightarrow> digit_val c < digit_val d"
  by (auto simp: less_char_def is_digit_def digit_val_def)

lemma digit_eq_iff: "is_digit c \<Longrightarrow> is_digit d \<Longrightarrow> c = d \<longleftrightarrow> digit_val c = digit_val d"
  by (metis digit_less_iff less_irrefl linorder_neqE)

lemma dec_order:
  assumes "length s = length t" "\<forall>c \<in> set s. is_digit c" "\<forall>c \<in> set t. is_digit c"
  shows "s < t \<longleftrightarrow> dec_val s < dec_val t"
  using assms
proof (induction s t rule: list_induct2)
  case Nil
  then show ?case by simp
next
  case (Cons c s d t)
  note lens = dec_val_less [of s] dec_val_less [of t]
  let ?p = "(10::nat) ^ length t"
  have less: "digit_val x * ?p + a < digit_val y * ?p + b"
    if "digit_val x < digit_val y" "a < ?p" for x y a b
  proof -
    have "digit_val x * ?p + a < (digit_val x + 1) * ?p" using that by simp
    also have "\<dots> \<le> digit_val y * ?p" using that by (intro mult_le_mono1) simp
    finally show ?thesis by simp
  qed
  consider "c < d" | "c = d" | "d < c" by force
  then show ?case
  proof cases
    case 1
    then show ?thesis using Cons lens less [of c d "dec_val s"] by (auto simp: digit_less_iff)
  next
    case 2
    then show ?thesis using Cons by simp
  next
    case 3
    then have "dec_val (d # t) < dec_val (c # s)"
      using Cons lens less [of d c "dec_val t" "dec_val s"] by (auto simp: digit_less_iff)
    with 3 show ?thesis by auto
  qed
qed

section \<open>Package strings\<close>

definition has_prefix :: "'a list \<Rightarrow> 'a list \<Rightarrow> bool" where
  "has_prefix s p \<longleftrightarrow> take (length p) s = p"
definition has_suffix :: "'a list \<Rightarrow> 'a list \<Rightarrow> bool" where
  "has_suffix s p \<longleftrightarrow> length p \<le> length s \<and> drop (length s - length p) s = p"
definition trim_prefix :: "'a list \<Rightarrow> 'a list \<Rightarrow> 'a list" where
  "trim_prefix s p = (if has_prefix s p then drop (length p) s else s)"
definition trim_suffix :: "'a list \<Rightarrow> 'a list \<Rightarrow> 'a list" where
  "trim_suffix s p = (if has_suffix s p then take (length s - length p) s else s)"

lemma has_prefix_append [simp]: "has_prefix (p @ s) p"
  by (simp add: has_prefix_def)

lemma has_suffix_append [simp]: "has_suffix (s @ p) p"
  by (simp add: has_suffix_def)

lemma trim_prefix_append [simp]: "trim_prefix (p @ s) p = s"
  by (simp add: trim_prefix_def)

lemma trim_suffix_append [simp]: "trim_suffix (s @ p) p = s"
  by (simp add: trim_suffix_def)

text \<open>\<open>strings.Join\<close> and \<open>strings.Contains\<close>.\<close>

fun join :: "string list \<Rightarrow> string \<Rightarrow> string" where
  "join [] sep = []"
| "join [x] sep = x"
| "join (x # y # ys) sep = x @ sep @ join (y # ys) sep"

fun contains_sub :: "string \<Rightarrow> string \<Rightarrow> bool" where
  "contains_sub [] p \<longleftrightarrow> p = []"
| "contains_sub (c # cs) p \<longleftrightarrow> has_prefix (c # cs) p \<or> contains_sub cs p"

lemma contains_sub_iff: "contains_sub s p \<longleftrightarrow> (\<exists>a b. s = a @ p @ b)"
proof (induction s)
  case Nil
  then show ?case by auto
next
  case (Cons c cs)
  have "has_prefix (c # cs) p \<longleftrightarrow> (\<exists>b. c # cs = p @ b)"
    unfolding has_prefix_def by (metis append_eq_conv_conj append_take_drop_id)
  with Cons.IH show ?case
    by (auto simp: Cons_eq_append_conv intro: exI [of _ "[]"])
qed

text \<open>\<open>strings.ToLower\<close> on ASCII text.\<close>

definition ascii_lower :: "char \<Rightarrow> char" where
  "ascii_lower c = (if 65 \<le> (of_char c :: nat) \<and> (of_char c :: nat) \<le> 90
     then char_of ((of_char c :: nat) + 32) else c)"

definition to_lower :: "string \<Rightarrow> string" where
  "to_lower s = map ascii_lower s"

text \<open>\<open>strconv.ParseInt(s, 10, 64)\<close>: an optional sign and at least one digit, in range.\<close>

definition parse_int64 :: "string \<Rightarrow> int option" where
  "parse_int64 s =
     (let neg = has_prefix s ''-'';
          ds = (if has_prefix s ''-'' \<or> has_prefix s ''+'' then tl s else s);
          n = int (dec_val ds)
      in if ds = [] \<or> (\<exists>c \<in> set ds. \<not> is_digit c) then None
         else if neg then (if n \<le> 2 ^ 63 then Some (- n) else None)
         else (if n < 2 ^ 63 then Some n else None))"

lemma parse_int64_digits:
  assumes "s \<noteq> []" "\<forall>c \<in> set s. is_digit c" "dec_val s < 2 ^ 63"
  shows "parse_int64 s = Some (int (dec_val s))"
proof -
  obtain c cs where s: "s = c # cs" using assms(1) by (cases s) auto
  then have "is_digit c" using assms(2) by simp
  then have "c \<noteq> CHR ''-''" "c \<noteq> CHR ''+''" by (auto simp: is_digit_def)
  moreover have "int (dec_val s) < 2 ^ 63" using assms(3) by (simp add: zless_nat_eq_int_zless)
  ultimately show ?thesis
    using assms by (simp add: parse_int64_def has_prefix_def s Let_def)
qed

section \<open>Lists and maps\<close>

text \<open>Go visits the entries of a map in an unspecified order: a loop over a map takes the order
  of the keys as an argument, and the theorems hold for every order that visits each key once.\<close>

definition range_order :: "('k \<rightharpoonup> 'v) \<Rightarrow> 'k list \<Rightarrow> bool" where
  "range_order m ks \<longleftrightarrow> distinct ks \<and> set ks = dom m"

fun range_map :: "('k \<rightharpoonup> 'v) \<Rightarrow> 'k list \<Rightarrow> ('k \<times> 'v) list" where
  "range_map m [] = []"
| "range_map m (k # ks) = (case m k of None \<Rightarrow> range_map m ks | Some v \<Rightarrow> (k, v) # range_map m ks)"

lemma set_range_map: "set (range_map m ks) = {(k, v). k \<in> set ks \<and> m k = Some v}"
  by (induction ks) (auto split: option.splits)

lemma set_range_map_order [simp]:
  "range_order m ks \<Longrightarrow> set (range_map m ks) = {(k, v). m k = Some v}"
  by (auto simp: set_range_map range_order_def)

lemma fold_frame: "(\<And>x s. f (g x s) = f s) \<Longrightarrow> f (fold g xs s) = f s"
  by (induction xs arbitrary: s) simp_all

lemma fold_inv: "P s \<Longrightarrow> (\<And>x s. x \<in> set xs \<Longrightarrow> P s \<Longrightarrow> P (g x s)) \<Longrightarrow> P (fold g xs s)"
  by (induction xs arbitrary: s) simp_all

lemma option_bind_split_asm:
  "(case x of None \<Rightarrow> None | Some y \<Rightarrow> f y) = Some z \<longleftrightarrow> (\<exists>y. x = Some y \<and> f y = Some z)"
  by (cases x) auto

lemma take_append_le: "n \<le> length xs \<Longrightarrow> take n (xs @ ys) = take n xs"
  by simp

lemma map_of_filter_key:
  "map_of (filter (\<lambda>(k, v). P k) m) k = (if P k then map_of m k else None)"
  by (induction m) auto

lemma sorted_wrt_insort_last:
  "\<forall>x \<in> set xs. f x < f y \<Longrightarrow> insort_key f y xs = xs @ [y]"
  for f :: "'a \<Rightarrow> 'b::linorder"
  by (induction xs) (auto simp: leD)

end
