(* ===== verification/Framed_Log.thy ===== *)
theory Framed_Log
  imports Dogwatch_Prelude
begin

text \<open>
  The contract of an append-only log of self-delimiting records: an encoder, a reader of one
  record that returns the record and the rest or stops, and the three laws the log relies on.
  From them follow, once and for all, what a whole log reads back as, and that a log cut at
  any byte is a run of whole records followed by a tail on which the reader stops.
\<close>

locale framed_log =
  fixes enc :: "'e \<Rightarrow> 'b list"
    and valid :: "'e \<Rightarrow> bool"
    and got :: "'e \<Rightarrow> 'b list \<Rightarrow> 'r"
    and stops :: "'r \<Rightarrow> bool"
    and read :: "'b list \<Rightarrow> 'r"
  assumes enc_ne: "enc e \<noteq> []"
    and read_enc: "valid e \<Longrightarrow> read (enc e @ rest) = got e rest"
    and read_nil: "stops (read [])"
    and read_torn: "valid e \<Longrightarrow> k < length (enc e) \<Longrightarrow> stops (read (take k (enc e)))"
begin

lemma log_cut:
  assumes "\<forall>e \<in> set es. valid e"
  shows "\<exists>j t. take k (concat (map enc es)) = concat (map enc (take j es)) @ t \<and> j \<le> length es
     \<and> stops (read t)
     \<and> length (concat (map enc (take j es))) \<le> k \<and>
     (j < length es \<longrightarrow> k < length (concat (map enc (take (Suc j) es))))"
  using assms
proof (induction es arbitrary: k)
  case Nil
  then show ?case by (simp add: read_nil)
next
  case (Cons e es)
  show ?case
  proof (cases "k < length (enc e)")
    case True
    with Cons.prems show ?thesis
      by (intro exI [of _ 0] exI [of _ "take k (enc e)"]) (simp add: read_torn)
  next
    case False
    from Cons.prems have "\<forall>e \<in> set es. valid e" by simp
    from Cons.IH [OF this, of "k - length (enc e)"] obtain j t where
      "take (k - length (enc e)) (concat (map enc es)) = concat (map enc (take j es)) @ t"
      "j \<le> length es" "stops (read t)" "length (concat (map enc (take j es))) \<le> k - length (enc e)"
      "j < length es \<longrightarrow> k - length (enc e) < length (concat (map enc (take (Suc j) es)))"
      by blast
    with False show ?thesis by (intro exI [of _ "Suc j"] exI [of _ t]) auto
  qed
qed

text \<open>Two logs of valid records with the same bytes hold the same records: the format is
  unambiguous, provided the reader tells one record from another and from stopping.\<close>

lemma log_unique:
  assumes "\<forall>e \<in> set es. valid e" "\<forall>e \<in> set fs. valid e"
    and "concat (map enc es) = concat (map enc fs)"
    and "\<And>e r f s. got e r = got f s \<Longrightarrow> e = f \<and> r = s"
  shows "es = fs"
  using assms(1-3)
proof (induction es arbitrary: fs)
  case Nil
  from Nil.prems(3) show ?case using enc_ne by (cases fs) auto
next
  case (Cons e es)
  from Cons.prems(3) enc_ne [of e] obtain f gs where fs: "fs = f # gs" by (cases fs) auto
  have e: "read (enc e @ concat (map enc es)) = got e (concat (map enc es))"
    using Cons.prems(1) by (simp add: read_enc)
  have f: "read (enc f @ concat (map enc gs)) = got f (concat (map enc gs))"
    using Cons.prems(2) fs by (simp add: read_enc)
  have "enc e @ concat (map enc es) = enc f @ concat (map enc gs)"
    using Cons.prems(3) fs by simp
  then have "got e (concat (map enc es)) = got f (concat (map enc gs))"
    using e f by simp
  from assms(4) [OF this] have "e = f" "concat (map enc es) = concat (map enc gs)" by simp_all
  moreover have "es = gs" using Cons.IH [of gs] Cons.prems fs \<open>concat (map enc es) = concat (map enc gs)\<close> by simp
  ultimately show ?case using fs by simp
qed

end

end
