(* ===== verification/Wal.thy ===== *)
theory Wal
  imports Framed_Log
begin

text \<open>
  The write-ahead log of \<open>src/internal/storage/wal.go\<close>: the on-disk entry format with its
  CRC, the segment files, and the operations of type \<open>WAL\<close> (\<open>NewWAL\<close>, \<open>Write\<close>,
  \<open>WriteBatch\<close>, \<open>sync\<close>, \<open>checkpoint\<close>, segment rotation and cleaning, recovery). The
  directory that holds the segments is part of the state, so a crash and a restart are
  operations on it. The operating system's calls (open, write, fsync, remove) succeed in this
  model; what a crash can lose is the tail of the current segment.
\<close>

section \<open>Data\<close>

record wal_config =
  cfg_Dir :: string
  cfg_MaxSegmentSize :: int
  cfg_SyncInterval :: duration
  cfg_MaxSegments :: int
  cfg_CheckpointInterval :: duration

definition DefaultWALConfig :: wal_config where
  "DefaultWALConfig = \<lparr>
     cfg_Dir = ''/var/lib/dogwatch/wal'',
     cfg_MaxSegmentSize = 64 * 1024 * 1024,
     cfg_SyncInterval = 100 * millisecond,
     cfg_MaxSegments = 10,
     cfg_CheckpointInterval = minute \<rparr>"

text \<open>\<open>WALOperation\<close> is a \<open>uint8\<close>; its four named values start at 1.\<close>

type_synonym wal_operation = byte

definition WALOpInsert :: wal_operation where "WALOpInsert = 1"
definition WALOpUpdate :: wal_operation where "WALOpUpdate = 2"
definition WALOpDelete :: wal_operation where "WALOpDelete = 3"
definition WALOpBatch :: wal_operation where "WALOpBatch = 4"

text \<open>A timestamp is kept as its \<open>UnixNano\<close>, an \<open>int64\<close> held in 64 bits.\<close>

record wal_entry =
  Sequence :: u64
  Operation :: wal_operation
  Table :: "byte list"
  Data :: "byte list"
  Timestamp :: u64
  Committed :: bool

record wal_stats =
  EntriesWritten :: u64
  BytesWritten :: u64
  Checkpoints :: u64
  SegmentsCreated :: u64
  SegmentsCleaned :: u64
  LastCheckpoint :: u64
  LastSync :: u64
  PendingEntries :: int
  CurrentSegmentID :: int

text \<open>
  The state of a \<open>WAL\<close>. \<open>w_dir\<close> is the segment directory, \<open>w_currentSegment\<close> names the
  open file, \<open>w_writer\<close> holds the bytes the \<open>bufio.Writer\<close> has not flushed (\<open>None\<close> when
  there is no writer yet).
\<close>

type_synonym directory = "(string \<times> byte list) list"

record wal =
  w_config :: wal_config
  w_dir :: directory
  w_currentSegment :: "string option"
  w_segmentSeq :: int
  w_entrySeq :: u64
  w_writer :: "byte list option"
  w_pending :: "wal_entry list"
  w_stats :: wal_stats

section \<open>The directory\<close>

definition dir_get :: "directory \<Rightarrow> string \<Rightarrow> byte list" where
  "dir_get d n = (case map_of d n of None \<Rightarrow> [] | Some c \<Rightarrow> c)"

definition dir_create :: "string \<Rightarrow> directory \<Rightarrow> directory" where
  "dir_create n d = (if n \<in> set (map fst d) then d else insort_key fst (n, []) d)"

definition dir_append :: "string \<Rightarrow> byte list \<Rightarrow> directory \<Rightarrow> directory" where
  "dir_append n bs d = map (\<lambda>(m, c). if m = n then (m, c @ bs) else (m, c)) d"

definition dir_remove :: "string \<Rightarrow> directory \<Rightarrow> directory" where
  "dir_remove n d = filter (\<lambda>(m, c). m \<noteq> n) d"

text \<open>
  \<open>bufio.Writer.Write\<close> with a buffer of \<open>cap\<close> bytes: the bytes that reach the file and the
  new contents of the buffer. A write that does not fit fills the buffer, flushes it and keeps
  the rest, unless the rest is larger than the buffer and goes to the file directly.
\<close>

definition bufio_write :: "nat \<Rightarrow> byte list \<Rightarrow> byte list \<Rightarrow> byte list \<times> byte list" where
  "bufio_write cap buf p =
     (if length p \<le> cap - length buf then ([], buf @ p)
      else if buf = [] then (p, [])
      else let n = cap - length buf; rest = drop n p
           in if length rest \<le> cap then (buf @ take n p, rest)
              else (buf @ take n p @ rest, []))"

definition buf_size :: nat where "buf_size = 256 * 1024"

section \<open>The entry format\<close>

text \<open>\<open>crc32.ChecksumIEEE\<close>: the reflected polynomial, one bit at a time.\<close>

definition crc_bit :: "u32 \<Rightarrow> u32" where
  "crc_bit c = (if bit c 0 then drop_bit 1 c XOR 0xEDB88320 else drop_bit 1 c)"

definition crc_byte :: "u32 \<Rightarrow> byte \<Rightarrow> u32" where
  "crc_byte c b = (crc_bit ^^ 8) (c XOR ucast b)"

definition crc32_ieee :: "byte list \<Rightarrow> u32" where
  "crc32_ieee bs = NOT (foldl crc_byte (NOT 0) bs)"

text \<open>The bytes the checksum covers, as the successive writes of \<open>writeEntry\<close> (lengths are
  truncated to the width of their field).\<close>

definition entry_payload :: "wal_entry \<Rightarrow> byte list list" where
  "entry_payload e =
     [le_bytes 8 (unat (Sequence e)),
      [Operation e],
      le_bytes 2 (length (Table e)),
      Table e,
      le_bytes 8 (unat (Timestamp e)),
      le_bytes 4 (length (Data e)),
      Data e]"

definition entry_len :: "wal_entry \<Rightarrow> nat" where
  "entry_len e = 8 + 1 + 2 + length (Table e) + 8 + 4 + length (Data e) + 4"

definition entry_chunks :: "wal_entry \<Rightarrow> byte list list" where
  "entry_chunks e =
     [le_bytes 4 (entry_len e)] @ entry_payload e @
     [le_bytes 4 (unat (crc32_ieee (concat (entry_payload e))))]"

text \<open>\<open>mw.Write\<close> and \<open>binary.Write\<close> on the current segment's writer.\<close>

definition emit :: "byte list \<Rightarrow> wal \<Rightarrow> wal" where
  "emit p w =
     (case w_writer w of None \<Rightarrow> w
      | Some buf \<Rightarrow>
          let (out, buf') = bufio_write buf_size buf p
          in w\<lparr>w_dir := (case w_currentSegment w of None \<Rightarrow> w_dir w
                           | Some n \<Rightarrow> dir_append n out (w_dir w)),
               w_writer := Some buf'\<rparr>)"

definition writeEntry :: "wal_entry \<Rightarrow> wal \<Rightarrow> string + wal" where
  "writeEntry e w =
     (if w_writer w = None then Inl ''WAL not initialized''
      else let w1 = fold emit (entry_chunks e) w
           in Inr (w1\<lparr>w_stats := (w_stats w1)\<lparr>BytesWritten :=
                 BytesWritten (w_stats w1) + of_nat (4 + entry_len e)\<rparr>\<rparr>))"

text \<open>
  \<open>readEntry\<close> on the bytes left in a segment. \<open>Stop\<close> is an error return (end of file, a
  truncated entry, a CRC mismatch), on which \<open>readSegment\<close> ends; \<open>Crash\<close> is a run-time
  panic: a slice bound or an index out of range. \<open>length-4\<close> is \<open>uint32\<close> arithmetic, so for a
  length below 4 it is a huge bound.
\<close>

datatype read_result = Entry wal_entry "byte list" | Stop string | Crash

definition parse_entry :: "byte list \<Rightarrow> wal_entry option" where
  "parse_entry d =
     (case get_le 8 d of None \<Rightarrow> None | Some sq \<Rightarrow>
      (if length d \<le> 8 then None else
       (case get_le 2 (drop 9 d) of None \<Rightarrow> None | Some tn \<Rightarrow>
        (if length d < 11 + tn then None else
         (case get_le 8 (drop (11 + tn) d) of None \<Rightarrow> None | Some ts \<Rightarrow>
          (case get_le 4 (drop (19 + tn) d) of None \<Rightarrow> None | Some dl \<Rightarrow>
           (if length d < 23 + tn + dl then None else
            Some \<lparr>Sequence = of_nat sq, Operation = d ! 8,
                  Table = take tn (drop 11 d),
                  Data = take dl (drop (23 + tn) d),
                  Timestamp = of_nat ts, Committed = False\<rparr>)))))))"

definition readEntry :: "byte list \<Rightarrow> read_result" where
  "readEntry bs =
     (if bs = [] then Stop ''EOF''
      else case get_le 4 bs of
        None \<Rightarrow> Stop ''unexpected EOF''
      | Some len \<Rightarrow>
          let rest = drop 4 bs; d = take len rest in
          if length rest < len then Stop (if rest = [] then ''EOF'' else ''unexpected EOF'')
          else if len < 4 then Crash
          else if le_nat (drop (len - 4) d) \<noteq> unat (crc32_ieee (take (len - 4) d))
          then Stop ''CRC mismatch''
          else (case parse_entry d of None \<Rightarrow> Crash | Some e \<Rightarrow> Entry e (drop len rest)))"

text \<open>\<open>readSegment\<close>: entries up to the first error, and the highest sequence number.
  \<open>None\<close> is a panic. Every entry consumes at least the four length bytes.\<close>

function readSegment_loop :: "byte list \<Rightarrow> wal_entry list \<Rightarrow> u64 \<Rightarrow> (wal_entry list \<times> u64) option" where
  "readSegment_loop bs es mx =
     (case readEntry bs of
        Stop _ \<Rightarrow> Some (es, mx)
      | Crash \<Rightarrow> None
      | Entry e rest \<Rightarrow>
          readSegment_loop rest (es @ [e]) (if mx < Sequence e then Sequence e else mx))"
  by pat_completeness auto
termination
proof (relation "measure (\<lambda>(bs, es, mx). length bs)")
  show "wf (measure (\<lambda>(bs :: byte list, es :: wal_entry list, mx :: u64). length bs))" by simp
next
  fix bs :: "byte list" and es :: "wal_entry list" and mx e rest
  assume "readEntry bs = Entry e rest"
  then have "bs \<noteq> []" "\<exists>len. rest = drop len (drop 4 bs)"
    by (auto simp: readEntry_def Let_def split: if_splits option.splits)
  then show "((rest, es @ [e], if mx < Sequence e then Sequence e else mx), bs, es, mx)
      \<in> measure (\<lambda>(bs, es, mx). length bs)" by auto
qed

declare readSegment_loop.simps [simp del]

definition readSegment :: "byte list \<Rightarrow> (wal_entry list \<times> u64) option" where
  "readSegment bs = readSegment_loop bs [] 0"

section \<open>Segments\<close>

definition segment_name :: "int \<Rightarrow> string" where
  "segment_name k = ''wal-'' @ pad0 16 (dec_str (nat k)) @ ''.log''"

definition is_segment :: "string \<Rightarrow> bool" where
  "is_segment n \<longleftrightarrow> has_prefix n ''wal-'' \<and> has_suffix n ''.log''"

definition listSegments :: "directory \<Rightarrow> string list" where
  "listSegments d = sort (filter is_segment (map fst d))"

definition segment_seq :: "string \<Rightarrow> int option" where
  "segment_seq n =
     (let s = trim_prefix (trim_suffix n ''.log'') ''wal-'' in
      if s = [] then None else parse_int64 s)"

definition flush :: "wal \<Rightarrow> wal" where
  "flush w =
     (case w_writer w of None \<Rightarrow> w
      | Some buf \<Rightarrow>
          w\<lparr>w_dir := (case w_currentSegment w of None \<Rightarrow> w_dir w
                        | Some n \<Rightarrow> dir_append n buf (w_dir w)),
            w_writer := Some []\<rparr>)"

definition openNextSegment :: "wal \<Rightarrow> wal" where
  "openNextSegment w =
     (let k = w_segmentSeq w + 1; n = segment_name k in
      w\<lparr>w_segmentSeq := k, w_currentSegment := Some n, w_writer := Some [],
        w_dir := dir_create n (w_dir w),
        w_stats := (w_stats w)\<lparr>SegmentsCreated := SegmentsCreated (w_stats w) + 1,
                               CurrentSegmentID := k\<rparr>\<rparr>)"

definition rotateSegment :: "wal \<Rightarrow> wal" where
  "rotateSegment w = openNextSegment (flush w)"

text \<open>\<open>segments[:len(segments)-MaxSegments]\<close> are removed, oldest first.\<close>

definition cleanOldSegments :: "wal \<Rightarrow> wal" where
  "cleanOldSegments w =
     (let segs = listSegments (w_dir w); mx = cfg_MaxSegments (w_config w) in
      if int (length segs) \<le> mx then w
      else let del = take (length segs - nat mx) segs in
           w\<lparr>w_dir := fold dir_remove del (w_dir w),
             w_stats := (w_stats w)\<lparr>SegmentsCleaned :=
                SegmentsCleaned (w_stats w) + of_nat (length del)\<rparr>\<rparr>)"

section \<open>Operations\<close>

definition fill_defaults :: "wal_config \<Rightarrow> wal_config" where
  "fill_defaults c =
     (let c1 = (if cfg_Dir c = [] then c\<lparr>cfg_Dir := cfg_Dir DefaultWALConfig\<rparr> else c);
          c2 = (if cfg_MaxSegmentSize c1 = 0
                then c1\<lparr>cfg_MaxSegmentSize := cfg_MaxSegmentSize DefaultWALConfig\<rparr> else c1);
          c3 = (if cfg_SyncInterval c2 = 0
                then c2\<lparr>cfg_SyncInterval := cfg_SyncInterval DefaultWALConfig\<rparr> else c2);
          c4 = (if cfg_MaxSegments c3 = 0
                then c3\<lparr>cfg_MaxSegments := cfg_MaxSegments DefaultWALConfig\<rparr> else c3)
      in if cfg_CheckpointInterval c4 = 0
         then c4\<lparr>cfg_CheckpointInterval := cfg_CheckpointInterval DefaultWALConfig\<rparr> else c4)"

text \<open>\<open>recover\<close>: one step per segment; \<open>None\<close> when reading a segment panics.\<close>

definition recover_segment :: "string \<Rightarrow> wal \<Rightarrow> wal option" where
  "recover_segment seg w =
     (case readSegment (dir_get (w_dir w) seg) of None \<Rightarrow> None
      | Some (es, mx) \<Rightarrow>
          Some (w\<lparr>w_entrySeq := (if w_entrySeq w < mx then mx else w_entrySeq w),
                  w_pending := w_pending w @ filter (\<lambda>e. \<not> Committed e) es,
                  w_segmentSeq := (case segment_seq seg of None \<Rightarrow> w_segmentSeq w
                     | Some k \<Rightarrow> if w_segmentSeq w < k then k else w_segmentSeq w)\<rparr>))"

fun recover_loop :: "string list \<Rightarrow> wal \<Rightarrow> wal option" where
  "recover_loop [] w = Some w"
| "recover_loop (s # ss) w =
     (case recover_segment s w of None \<Rightarrow> None | Some w' \<Rightarrow> recover_loop ss w')"

definition recover :: "wal \<Rightarrow> wal option" where
  "recover w = recover_loop (listSegments (w_dir w)) w"

definition zero_stats :: wal_stats where
  "zero_stats = \<lparr>EntriesWritten = 0, BytesWritten = 0, Checkpoints = 0, SegmentsCreated = 0,
     SegmentsCleaned = 0, LastCheckpoint = 0, LastSync = 0, PendingEntries = 0,
     CurrentSegmentID = 0\<rparr>"

definition blank_wal :: "wal_config \<Rightarrow> directory \<Rightarrow> wal" where
  "blank_wal c d = \<lparr>w_config = fill_defaults c, w_dir = d, w_currentSegment = None,
     w_segmentSeq = 0, w_entrySeq = 0, w_writer = None, w_pending = [],
     w_stats = zero_stats\<rparr>"

definition NewWAL :: "wal_config \<Rightarrow> directory \<Rightarrow> wal option" where
  "NewWAL c d = map_option openNextSegment (recover (blank_wal c d))"

text \<open>\<open>Write\<close>: the sequence number is spent even when \<open>writeEntry\<close> fails. The segment is
  rotated when the flushed part of its file has reached the limit.\<close>

definition current_size :: "wal \<Rightarrow> int" where
  "current_size w = (case w_currentSegment w of None \<Rightarrow> 0
     | Some n \<Rightarrow> int (length (dir_get (w_dir w) n)))"

definition new_entry :: "wal_operation \<Rightarrow> byte list \<Rightarrow> byte list \<Rightarrow> u64 \<Rightarrow> u64 \<Rightarrow> wal_entry" where
  "new_entry oper table data now sq = \<lparr>Sequence = sq, Operation = oper, Table = table,
     Data = data, Timestamp = now, Committed = False\<rparr>"

definition Write :: "wal_operation \<Rightarrow> byte list \<Rightarrow> byte list \<Rightarrow> u64 \<Rightarrow> wal \<Rightarrow> (string + u64) \<times> wal" where
  "Write oper table data now w =
     (let w1 = w\<lparr>w_entrySeq := w_entrySeq w + 1\<rparr>;
          e = new_entry oper table data now (w_entrySeq w1)
      in case writeEntry e w1 of
           Inl err \<Rightarrow> (Inl err, w1)
         | Inr w2 \<Rightarrow>
             let w3 = w2\<lparr>w_pending := w_pending w2 @ [e],
                         w_stats := (w_stats w2)\<lparr>EntriesWritten := EntriesWritten (w_stats w2) + 1\<rparr>\<rparr>;
                 w4 = (if w_currentSegment w3 \<noteq> None
                          \<and> cfg_MaxSegmentSize (w_config w3) \<le> current_size w3
                       then rotateSegment w3 else w3)
             in (Inr (Sequence e), w4))"

text \<open>\<open>WriteBatch\<close> numbers, stamps and writes each entry; all of them become pending at the
  end, none when a write fails.\<close>

fun write_batch_loop :: "wal_entry list \<Rightarrow> u64 \<Rightarrow> wal \<Rightarrow> wal_entry list \<Rightarrow> string option \<times> wal \<times> wal_entry list" where
  "write_batch_loop [] now w acc = (None, w, acc)"
| "write_batch_loop (e # es) now w acc =
     (let w1 = w\<lparr>w_entrySeq := w_entrySeq w + 1\<rparr>;
          e1 = e\<lparr>Sequence := w_entrySeq w1, Timestamp := now\<rparr>
      in case writeEntry e1 w1 of
           Inl err \<Rightarrow> (Some err, w1, acc)
         | Inr w2 \<Rightarrow>
             write_batch_loop es now
               (w2\<lparr>w_stats := (w_stats w2)\<lparr>EntriesWritten := EntriesWritten (w_stats w2) + 1\<rparr>\<rparr>)
               (acc @ [e1]))"

definition WriteBatch :: "wal_entry list \<Rightarrow> u64 \<Rightarrow> wal \<Rightarrow> string option \<times> wal" where
  "WriteBatch es now w =
     (case write_batch_loop es now w [] of
        (Some err, w', _) \<Rightarrow> (Some err, w')
      | (None, w', es') \<Rightarrow> (None, w'\<lparr>w_pending := w_pending w' @ es'\<rparr>))"

definition sync :: "u64 \<Rightarrow> wal \<Rightarrow> wal" where
  "sync now w = (let w1 = flush w in w1\<lparr>w_stats := (w_stats w1)\<lparr>LastSync := now\<rparr>\<rparr>)"

text \<open>
  \<open>checkpoint\<close> holds \<open>pendingLock\<close> twice: once to copy the pending entries, and, after the
  callback has applied them, once to drop the ones it copied. Writes can come in between.
\<close>

definition checkpoint_copy :: "wal \<Rightarrow> wal_entry list" where
  "checkpoint_copy w = w_pending w"

definition checkpoint_finish :: "wal_entry list \<Rightarrow> u64 \<Rightarrow> wal \<Rightarrow> wal" where
  "checkpoint_finish es now w =
     (let w1 = w\<lparr>w_pending := filter (\<lambda>e. Sequence (last es) < Sequence e) (w_pending w),
                 w_stats := (w_stats w)\<lparr>Checkpoints := Checkpoints (w_stats w) + 1,
                                        LastCheckpoint := now\<rparr>\<rparr>
      in cleanOldSegments w1)"

text \<open>The callback is \<open>nil\<close> or a function that may fail; its success is an argument.\<close>

definition checkpoint :: "(wal_entry list \<Rightarrow> string option) option \<Rightarrow> u64 \<Rightarrow> wal \<Rightarrow> string option \<times> wal" where
  "checkpoint fn now w =
     (let es = checkpoint_copy w in
      if es = [] then (None, w)
      else case (case fn of None \<Rightarrow> None | Some f \<Rightarrow> f es) of
             Some err \<Rightarrow> (Some (''checkpoint callback: '' @ err), w)
           | None \<Rightarrow> (None, checkpoint_finish es now w))"

definition Stats :: "wal \<Rightarrow> wal_stats" where
  "Stats w = (w_stats w)\<lparr>PendingEntries := int (length (w_pending w))\<rparr>"

definition PendingCount :: "wal \<Rightarrow> nat" where
  "PendingCount w = length (w_pending w)"

text \<open>\<open>Stop\<close> flushes the writer and closes the segment.\<close>

definition wal_stop :: "wal \<Rightarrow> wal" where
  "wal_stop w = flush w"

section \<open>The entry format: lemmas\<close>

text \<open>The bytes of one entry, and the entries the format can carry: the table name and the whole
  entry fit their length fields. \<open>Committed\<close> is not written to disk.\<close>

definition entry_bytes :: "wal_entry \<Rightarrow> byte list" where
  "entry_bytes e = concat (entry_chunks e)"

definition wf_entry :: "wal_entry \<Rightarrow> bool" where
  "wf_entry e \<longleftrightarrow> length (Table e) < 2 ^ 16 \<and> entry_len e < 2 ^ 32 \<and> \<not> Committed e"

definition log_bytes :: "wal_entry list \<Rightarrow> byte list" where
  "log_bytes es = concat (map entry_bytes es)"

lemma log_bytes_simps [simp]:
  "log_bytes [] = []"
  "log_bytes (e # es) = entry_bytes e @ log_bytes es"
  "log_bytes (xs @ ys) = log_bytes xs @ log_bytes ys"
  by (simp_all add: log_bytes_def)

lemma length_payload: "length (concat (entry_payload e)) + 4 = entry_len e"
  by (simp add: entry_payload_def entry_len_def)

lemma entry_bytes_split:
  "entry_bytes e = le_bytes 4 (entry_len e) @ concat (entry_payload e) @
     le_bytes 4 (unat (crc32_ieee (concat (entry_payload e))))"
  by (simp add: entry_bytes_def entry_chunks_def)

lemma length_entry_bytes: "length (entry_bytes e) = 4 + entry_len e"
  using length_payload [of e] by (simp add: entry_bytes_split)

lemma entry_len_ge: "27 \<le> entry_len e"
  by (simp add: entry_len_def)

lemma entry_bytes_ne [simp]: "entry_bytes e \<noteq> []"
  using length_entry_bytes [of e] by auto

lemma parse_entry_payload:
  assumes "wf_entry e"
  shows "parse_entry (concat (entry_payload e) @ c) = Some e"
proof -
  have t: "length (Table e) < 256 ^ 2" and d: "length (Data e) < 256 ^ 4"
    using assms by (auto simp: wf_entry_def entry_len_def)
  have sq: "unat (Sequence e) < 256 ^ 8" "unat (Timestamp e) < 256 ^ 8"
    using unsigned_less [of "Sequence e", where 'a = nat]
      unsigned_less [of "Timestamp e", where 'a = nat] by simp_all
  let ?s = "le_bytes 8 (unat (Sequence e))"
  let ?n = "le_bytes 2 (length (Table e))"
  let ?ts = "le_bytes 8 (unat (Timestamp e))"
  let ?dn = "le_bytes 4 (length (Data e))"
  define D where "D = ?s @ [Operation e] @ ?n @ Table e @ ?ts @ ?dn @ Data e @ c"
  have D: "concat (entry_payload e) @ c = D"
    by (simp add: D_def entry_payload_def)
  have drops: "drop 9 D = ?n @ Table e @ ?ts @ ?dn @ Data e @ c"
    "drop 11 D = Table e @ ?ts @ ?dn @ Data e @ c"
    "drop (11 + length (Table e)) D = ?ts @ ?dn @ Data e @ c"
    "drop (19 + length (Table e)) D = ?dn @ Data e @ c"
    "drop (23 + length (Table e)) D = Data e @ c"
    by (simp_all add: D_def drop_Cons')
  have get0: "get_le 8 D = Some (unat (Sequence e))"
    by (simp only: D_def get_le_append sq)
  have gets: "get_le 2 (drop 9 D) = Some (length (Table e))"
    "get_le 8 (drop (11 + length (Table e)) D) = Some (unat (Timestamp e))"
    "get_le 4 (drop (19 + length (Table e)) D) = Some (length (Data e))"
    by (simp_all only: drops get_le_append t d sq)
  have len: "length D = 23 + length (Table e) + length (Data e) + length c"
    by (simp add: D_def)
  have op: "D ! 8 = Operation e"
    by (simp add: D_def nth_append)
  show ?thesis
    unfolding D parse_entry_def using assms
    by (simp add: get0 gets len op drops(2,5) wf_entry_def)
qed

lemma crc_fits: "unat (c :: u32) < 256 ^ 4"
  using unsigned_less [of c, where 'a = nat] by simp

lemma readEntry_entry_bytes:
  assumes "wf_entry e"
  shows "readEntry (entry_bytes e @ rest) = Entry e rest"
proof -
  let ?p = "concat (entry_payload e)"
  let ?c = "le_bytes 4 (unat (crc32_ieee ?p))"
  have n: "entry_len e < 256 ^ 4" using assms by (simp add: wf_entry_def)
  have lp: "length ?p = entry_len e - 4" using length_payload [of e] by simp
  have "get_le 4 (entry_bytes e @ rest) = Some (entry_len e)"
    using n by (simp add: entry_bytes_split get_le_append)
  moreover have "drop 4 (entry_bytes e @ rest) = ?p @ ?c @ rest"
    by (simp add: entry_bytes_split)
  ultimately show ?thesis
    using entry_len_ge [of e] lp parse_entry_payload [OF assms, of ?c] crc_fits
    by (simp add: readEntry_def Let_def le_nat_le_bytes)
qed

lemma readEntry_torn:
  assumes "entry_len e < 2 ^ 32" and "k < length (entry_bytes e)"
  shows "\<exists>s. readEntry (take k (entry_bytes e)) = Stop s"
proof (cases "k < 4")
  case True
  then show ?thesis by (simp add: readEntry_def get_le_short)
next
  case False
  let ?b = "take k (entry_bytes e)"
  have "get_le 4 ?b = Some (entry_len e)"
    using False assms by (simp add: entry_bytes_split take_append get_le_append)
  moreover have "length (drop 4 ?b) < entry_len e"
    using assms False length_entry_bytes [of e] by simp
  moreover have "?b \<noteq> []" using False by auto
  ultimately show ?thesis by (simp add: readEntry_def)
qed

section \<open>Reading a segment: lemmas\<close>

definition max_seq :: "wal_entry list \<Rightarrow> u64 \<Rightarrow> u64" where
  "max_seq es mx = foldl (\<lambda>m e. if m < Sequence e then Sequence e else m) mx es"

lemma readSegment_loop_log:
  assumes "\<forall>e \<in> set es. wf_entry e" and "readEntry tail = Stop s"
  shows "readSegment_loop (log_bytes es @ tail) acc mx = Some (acc @ es, max_seq es mx)"
  using assms(1)
proof (induction es arbitrary: acc mx)
  case Nil
  then show ?case by (simp add: readSegment_loop.simps assms(2) max_seq_def)
next
  case (Cons e es)
  then have "readEntry (log_bytes (e # es) @ tail) = Entry e (log_bytes es @ tail)"
    by (simp add: readEntry_entry_bytes)
  then show ?case
    using Cons by (subst readSegment_loop.simps) (simp add: max_seq_def)
qed

lemma readEntry_Nil: "readEntry [] = Stop ''EOF''"
  by (simp add: readEntry_def)

lemma readSegment_log:
  "\<forall>e \<in> set es. wf_entry e \<Longrightarrow> readSegment (log_bytes es) = Some (es, max_seq es 0)"
  using readSegment_loop_log [OF _ readEntry_Nil, of es "[]" 0] by (simp add: readSegment_def)

definition is_Stop :: "read_result \<Rightarrow> bool" where
  "is_Stop r \<longleftrightarrow> (\<exists>s. r = Stop s)"

interpretation wal_log: framed_log entry_bytes wf_entry Entry is_Stop readEntry
proof
  show "entry_bytes e \<noteq> []" for e by simp
  show "wf_entry e \<Longrightarrow> readEntry (entry_bytes e @ rest) = Entry e rest" for e rest
    by (rule readEntry_entry_bytes)
  show "is_Stop (readEntry [])" by (simp add: is_Stop_def readEntry_Nil)
  show "wf_entry e \<Longrightarrow> k < length (entry_bytes e) \<Longrightarrow> is_Stop (readEntry (take k (entry_bytes e)))"
    for e k by (simp add: is_Stop_def wf_entry_def readEntry_torn)
qed

lemma readSegment_cut:
  assumes "\<forall>e \<in> set es. wf_entry e"
  shows "\<exists>j \<le> length es. readSegment (take k (log_bytes es)) = Some (take j es, max_seq (take j es) 0)
     \<and> length (log_bytes (take j es)) \<le> k
     \<and> (j < length es \<longrightarrow> k < length (log_bytes (take (Suc j) es)))"
proof -
  obtain j t where jt: "take k (log_bytes es) = log_bytes (take j es) @ t" "j \<le> length es"
    "is_Stop (readEntry t)" "length (log_bytes (take j es)) \<le> k"
    "j < length es \<longrightarrow> k < length (log_bytes (take (Suc j) es))"
    using wal_log.log_cut [OF assms, of k] unfolding log_bytes_def by blast
  then obtain s where "readEntry t = Stop s" unfolding is_Stop_def by blast
  moreover have "\<forall>e \<in> set (take j es). wf_entry e" using assms by (auto dest: in_set_takeD)
  ultimately have "readSegment (take k (log_bytes es)) = Some (take j es, max_seq (take j es) 0)"
    using readSegment_loop_log [of "take j es" t s "[]" 0] jt(1) by (simp add: readSegment_def)
  with jt show ?thesis by blast
qed

section \<open>The checksum: lemmas\<close>

lemma xor_right_cancel: "a XOR p = b XOR p \<longleftrightarrow> a = b" for a b p :: "'a::len word"
  by (metis bit.xor_self xor.assoc xor.right_neutral)

lemma crc_bit_top: "bit (crc_bit c) 31 \<longleftrightarrow> bit c 0"
  by (auto simp: crc_bit_def bit_xor_iff bit_drop_bit_eq dest: bit_imp_le_length)

lemma crc_bit_inj: "crc_bit c = crc_bit d \<Longrightarrow> c = d"
proof -
  assume eq: "crc_bit c = crc_bit d"
  then have b0: "bit c 0 \<longleftrightarrow> bit d 0" using crc_bit_top by metis
  with eq have dr: "drop_bit 1 c = drop_bit 1 d"
    by (auto simp: crc_bit_def xor_right_cancel split: if_splits)
  show "c = d"
  proof (rule bit_word_eqI)
    fix n
    show "bit c n \<longleftrightarrow> bit d n"
    proof (cases n)
      case 0
      with b0 show ?thesis by simp
    next
      case (Suc m)
      have "bit (drop_bit 1 c) m \<longleftrightarrow> bit (drop_bit 1 d) m" by (simp only: dr)
      with Suc show ?thesis by (simp add: bit_drop_bit_eq)
    qed
  qed
qed

lemma crc_bits_inj: "(crc_bit ^^ n) c = (crc_bit ^^ n) d \<Longrightarrow> c = d"
  by (induction n) (auto dest: crc_bit_inj)

lemma crc_byte_inj_state: "crc_byte c b = crc_byte d b \<Longrightarrow> c = d"
  by (auto simp: crc_byte_def xor_right_cancel dest: crc_bits_inj)

lemma crc_byte_inj_byte: "crc_byte c b = crc_byte c b' \<Longrightarrow> b = b'"
proof -
  assume "crc_byte c b = crc_byte c b'"
  then have "(ucast b :: u32) = ucast b'"
    unfolding crc_byte_def by (metis crc_bits_inj xor.commute xor_right_cancel)
  then have eq: "bit (ucast b :: u32) n \<longleftrightarrow> bit (ucast b' :: u32) n" for n by simp
  show "b = b'"
  proof (rule bit_word_eqI)
    fix n assume "n < LENGTH(8)"
    with eq [of n] show "bit b n \<longleftrightarrow> bit b' n" by (simp add: bit_ucast_iff)
  qed
qed

lemma crc_fold_inj: "foldl crc_byte c bs = foldl crc_byte d bs \<Longrightarrow> c = d"
  by (induction bs arbitrary: c d) (auto dest: crc_byte_inj_state)

text \<open>A change of one byte always changes the checksum.\<close>

lemma crc32_update:
  assumes "i < length bs" "b \<noteq> bs ! i"
  shows "crc32_ieee (bs[i := b]) \<noteq> crc32_ieee bs"
proof
  assume "crc32_ieee (bs[i := b]) = crc32_ieee bs"
  then have "NOT (NOT (foldl crc_byte (NOT 0) (bs[i := b]))) = NOT (NOT (foldl crc_byte (NOT 0) bs))"
    unfolding crc32_ieee_def by (rule arg_cong)
  then have eq: "foldl crc_byte (NOT 0) (bs[i := b]) = foldl crc_byte (NOT 0) bs"
    by simp
  define s where "s = foldl crc_byte (NOT 0) (take i bs)"
  have "foldl crc_byte (crc_byte s b) (drop (Suc i) bs) = foldl crc_byte (crc_byte s (bs ! i)) (drop (Suc i) bs)"
    using eq assms(1) by (subst (asm) (2) id_take_nth_drop [of i]) (auto simp: upd_conv_take_nth_drop s_def)
  then have "crc_byte s b = crc_byte s (bs ! i)" by (rule crc_fold_inj)
  then show False using assms(2) crc_byte_inj_byte by blast
qed

lemma le_nat_inj: "length a = length b \<Longrightarrow> le_nat a = le_nat b \<Longrightarrow> a = b"
  by (metis le_bytes_le_nat)

lemma list_update_ne: "i < length xs \<Longrightarrow> b \<noteq> xs ! i \<Longrightarrow> xs[i := b] \<noteq> xs"
  by (metis nth_list_update_eq)

lemma readEntry_corrupt:
  assumes "entry_len e < 2 ^ 32" "4 \<le> i" "i < length (entry_bytes e)" "b \<noteq> entry_bytes e ! i"
  shows "readEntry ((entry_bytes e)[i := b] @ rest) = Stop ''CRC mismatch''"
proof -
  let ?p = "concat (entry_payload e)"
  let ?c = "le_bytes 4 (unat (crc32_ieee ?p))"
  define D where "D = (?p @ ?c)[i - 4 := b]"
  have lp: "length ?p = entry_len e - 4" using length_payload [of e] by simp
  have lD: "length D = entry_len e" using lp entry_len_ge [of e] by (simp add: D_def)
  have upd: "(entry_bytes e)[i := b] = le_bytes 4 (entry_len e) @ D"
    using assms(2) by (simp add: entry_bytes_split D_def list_update_append)
  have get: "get_le 4 (le_bytes 4 (entry_len e) @ D @ rest) = Some (entry_len e)"
    using assms(1) by (simp add: get_le_append)
  have "le_nat (drop (entry_len e - 4) D) \<noteq> unat (crc32_ieee (take (entry_len e - 4) D))"
  proof (cases "i - 4 < length ?p")
    case True
    then have "D = ?p[i - 4 := b] @ ?c" by (simp add: D_def list_update_append)
    moreover have "?p ! (i - 4) \<noteq> b"
      using assms(2,4) True by (simp add: entry_bytes_split nth_append)
    moreover have "unat (crc32_ieee (?p[i - 4 := b])) \<noteq> unat (crc32_ieee ?p)"
      using crc32_update [of "i - 4" ?p b] True \<open>?p ! (i - 4) \<noteq> b\<close> by (metis word_unat_eq_iff)
    ultimately show ?thesis
      using True lp crc_fits by (simp add: le_nat_le_bytes)
  next
    case False
    let ?j = "i - 4 - length ?p"
    have j: "?j < length ?c" using False assms(3) lp length_entry_bytes [of e] entry_len_ge [of e] by simp
    have D: "D = ?p @ ?c[?j := b]" using False by (simp add: D_def list_update_append)
    have "?c ! ?j \<noteq> b"
      using assms(2,4) False by (auto simp: entry_bytes_split nth_append)
    then have "?c[?j := b] \<noteq> ?c" using j by (metis list_update_ne)
    then have "le_nat (?c[?j := b]) \<noteq> le_nat ?c" using le_nat_inj by fastforce
    then show ?thesis using D lp crc_fits by (simp add: le_nat_le_bytes)
  qed
  then show ?thesis
    using get upd lD entry_len_ge [of e] by (auto simp: readEntry_def Let_def)
qed

end
