(* ===== verification/Wal_Recovery.thy ===== *)
theory Wal_Recovery
  imports Wal
begin

text \<open>
  The log as a whole: runs of \<open>Write\<close>, \<open>WriteBatch\<close>, \<open>sync\<close> and \<open>checkpoint\<close> from an empty
  directory, the invariant that ties the segment files and the buffer to the entries written,
  and what \<open>NewWAL\<close> recovers from the directory a crash leaves behind.
\<close>

section \<open>Runs\<close>

datatype wal_action =
    DoWrite wal_operation "byte list" "byte list" u64
  | DoBatch "wal_entry list" u64
  | DoSync u64
  | DoCheckpoint "(wal_entry list \<Rightarrow> string option) option" u64

fun wal_step :: "wal_action \<Rightarrow> wal \<Rightarrow> wal" where
  "wal_step (DoWrite oper table data now) w = snd (Write oper table data now w)"
| "wal_step (DoBatch es now) w = snd (WriteBatch es now w)"
| "wal_step (DoSync now) w = sync now w"
| "wal_step (DoCheckpoint fn now) w = snd (checkpoint fn now w)"

text \<open>The entries an action logs, as far as their size goes.\<close>

fun action_entries :: "wal_action \<Rightarrow> wal_entry list" where
  "action_entries (DoWrite oper table data now) = [new_entry oper table data now 0]"
| "action_entries (DoBatch es now) = es"
| "action_entries _ = []"

text \<open>
  An action is within bounds when its entries fit the format, the 64-bit sequence counter does
  not wrap, and segment numbers keep their sixteen digits.
\<close>

definition action_ok :: "wal_action \<Rightarrow> wal \<Rightarrow> bool" where
  "action_ok a w \<longleftrightarrow> (\<forall>e \<in> set (action_entries a). wf_entry e)
     \<and> unat (w_entrySeq w) + length (action_entries a) < 2 ^ 64
     \<and> w_segmentSeq w + 1 < 10 ^ 16"

inductive wal_reach :: "wal_config \<Rightarrow> wal \<Rightarrow> bool" for c where
  start: "NewWAL c [] = Some w \<Longrightarrow> wal_reach c w"
| step: "wal_reach c w \<Longrightarrow> action_ok a w \<Longrightarrow> wal_reach c (wal_step a w)"

fun wal_run :: "wal_action list \<Rightarrow> wal \<Rightarrow> wal" where
  "wal_run [] w = w"
| "wal_run (a # as) w = wal_run as (wal_step a w)"

fun actions_ok :: "wal_action list \<Rightarrow> wal \<Rightarrow> bool" where
  "actions_ok [] w \<longleftrightarrow> True"
| "actions_ok (a # as) w \<longleftrightarrow> action_ok a w \<and> actions_ok as (wal_step a w)"

fun no_checkpoint :: "wal_action \<Rightarrow> bool" where
  "no_checkpoint (DoCheckpoint fn now) \<longleftrightarrow> False"
| "no_checkpoint _ \<longleftrightarrow> True"

text \<open>What a crash leaves on disk: every closed segment, and a prefix of what was written to
  the current one, flushed or not.\<close>

definition crash_dir :: "nat \<Rightarrow> wal \<Rightarrow> directory" where
  "crash_dir k w = butlast (w_dir w) @
     [(fst (last (w_dir w)),
       take k (snd (last (w_dir w)) @ (case w_writer w of None \<Rightarrow> [] | Some buf \<Rightarrow> buf)))]"

section \<open>Segment names\<close>

lemma append_less_append [simp]: "p @ s < p @ t \<longleftrightarrow> s < t" for s t :: string
  by (induction p) simp_all

lemma less_append_same: "length s = length t \<Longrightarrow> s < t \<Longrightarrow> s @ u < t @ u" for s t u :: string
  by (induction s t rule: list_induct2) auto

lemma pad_dec_props:
  assumes "0 \<le> k" "k < 10 ^ 16"
  shows "length (pad0 16 (dec_str (nat k))) = 16"
    and "\<forall>c \<in> set (pad0 16 (dec_str (nat k))). is_digit c"
    and "dec_val (pad0 16 (dec_str (nat k))) = nat k"
proof -
  have "nat k < 10 ^ 16" using assms by simp
  then show "length (pad0 16 (dec_str (nat k))) = 16"
    using length_dec_str_le [of "nat k" 16] by (simp add: length_pad0)
  show "\<forall>c \<in> set (pad0 16 (dec_str (nat k))). is_digit c"
    using dec_str_digits by (rule pad0_digits)
  show "dec_val (pad0 16 (dec_str (nat k))) = nat k" by (simp add: dec_simps)
qed

lemma segment_name_less:
  assumes "0 \<le> i" "i < j" "j < 10 ^ 16"
  shows "segment_name i < segment_name j"
proof -
  have "0 \<le> j" "i < 10 ^ 16" using assms by simp_all
  then have "pad0 16 (dec_str (nat i)) < pad0 16 (dec_str (nat j))"
    using assms pad_dec_props [of i] pad_dec_props [of j]
    by (subst dec_order) simp_all
  then show ?thesis
    using pad_dec_props(1) [of i] pad_dec_props(1) [of j] assms
    by (simp add: segment_name_def less_append_same)
qed

lemma is_segment_name [simp]: "is_segment (segment_name k)"
  unfolding is_segment_def segment_name_def
  by (metis append_assoc has_prefix_append has_suffix_append)

lemma segment_seq_name:
  assumes "0 \<le> k" "k < 10 ^ 16"
  shows "segment_seq (segment_name k) = Some k"
proof -
  let ?s = "pad0 16 (dec_str (nat k))"
  have "trim_suffix (segment_name k) ''.log'' = ''wal-'' @ ?s"
    unfolding segment_name_def by (metis append_assoc trim_suffix_append)
  then have "trim_prefix (trim_suffix (segment_name k) ''.log'') ''wal-'' = ?s"
    by (metis trim_prefix_append)
  moreover have "?s \<noteq> []" using pad_dec_props(1) [OF assms] by auto
  moreover have "nat k < 2 ^ 63" using assms by simp
  ultimately show ?thesis
    using parse_int64_digits [of ?s] pad_dec_props [OF assms] assms
    by (simp add: segment_seq_def)
qed

lemma segment_names_sorted:
  "0 \<le> i \<Longrightarrow> j < 10 ^ 16 \<Longrightarrow> sorted_wrt (<) (map segment_name [i..j])"
  unfolding sorted_wrt_map
proof (rule sorted_wrt_mono_rel [OF _ sorted_wrt_upto [of i j]])
  fix x y assume "x \<in> set [i..j]" "y \<in> set [i..j]" "x < y" and "0 \<le> i" "j < 10 ^ 16"
  then show "segment_name x < segment_name y" by (intro segment_name_less) auto
qed

lemma listSegments_names:
  assumes "map fst d = map segment_name [i..j]" "0 \<le> i" "j < 10 ^ 16"
  shows "listSegments d = map segment_name [i..j]"
proof -
  have "filter is_segment (map fst d) = map fst d"
    unfolding assms(1) by (simp add: filter_map)
  moreover have "sorted (map fst d)"
    using segment_names_sorted [OF assms(2,3)] assms(1) by (simp add: strict_sorted_imp_sorted)
  ultimately show ?thesis
    using assms(1) by (simp add: listSegments_def sorted_sort_id)
qed

section \<open>The invariant\<close>

text \<open>
  \<open>wal_holds w m ess es\<close>: the directory holds segments \<open>m\<close> to the current one; the closed
  ones contain the entry lists \<open>ess\<close>, and the current file together with the buffer contains
  \<open>es\<close>.
\<close>

definition seg_state :: "wal \<Rightarrow> directory \<Rightarrow> byte list \<Rightarrow> byte list \<Rightarrow> bool" where
  "seg_state w ds c buf \<longleftrightarrow> w_dir w = ds @ [(segment_name (w_segmentSeq w), c)]
     \<and> w_currentSegment w = Some (segment_name (w_segmentSeq w)) \<and> w_writer w = Some buf
     \<and> segment_name (w_segmentSeq w) \<notin> fst ` set ds"

definition wal_holds :: "wal \<Rightarrow> int \<Rightarrow> wal_entry list list \<Rightarrow> wal_entry list \<Rightarrow> bool" where
  "wal_holds w m ess es \<longleftrightarrow>
     (\<exists>ds c buf. seg_state w ds c buf \<and> map fst ds = map segment_name [m..w_segmentSeq w - 1]
        \<and> 1 \<le> m \<and> m \<le> w_segmentSeq w \<and> w_segmentSeq w < 10 ^ 16
        \<and> map snd ds = map log_bytes ess \<and> c @ buf = log_bytes es
        \<and> (\<forall>e \<in> set (concat ess @ es). wf_entry e))"

lemma bufio_write_content: "bufio_write cap buf p = (out, buf') \<Longrightarrow> out @ buf' = buf @ p"
  by (auto simp: bufio_write_def Let_def split: if_splits)

lemma dir_append_last:
  "n \<notin> fst ` set ds \<Longrightarrow> dir_append n bs (ds @ [(n, c)]) = ds @ [(n, c @ bs)]"
  unfolding dir_append_def by (induction ds) auto

lemma dir_get_last: "n \<notin> fst ` set ds \<Longrightarrow> dir_get (ds @ [(n, c)]) n = c"
  by (induction ds) (auto simp: dir_get_def)

definition same_meta :: "wal \<Rightarrow> wal \<Rightarrow> bool" where
  "same_meta v w \<longleftrightarrow> w_config v = w_config w \<and> w_segmentSeq v = w_segmentSeq w
     \<and> w_entrySeq v = w_entrySeq w \<and> w_pending v = w_pending w"

lemma same_meta_refl [simp]: "same_meta w w"
  by (simp add: same_meta_def)

lemma same_meta_trans: "same_meta u v \<Longrightarrow> same_meta v w \<Longrightarrow> same_meta u w"
  by (simp add: same_meta_def)

lemma emit_seg:
  assumes "seg_state w ds c buf"
  shows "\<exists>c' buf'. seg_state (emit p w) ds c' buf' \<and> c' @ buf' = c @ buf @ p \<and> same_meta (emit p w) w"
proof -
  obtain out buf' where b: "bufio_write buf_size buf p = (out, buf')" by fastforce
  with assms have "seg_state (emit p w) ds (c @ out) buf' \<and> same_meta (emit p w) w"
    by (auto simp: seg_state_def emit_def same_meta_def dir_append_last)
  with bufio_write_content [OF b] show ?thesis by (intro exI [of _ "c @ out"] exI [of _ buf']) simp
qed

lemma fold_emit_seg:
  assumes "seg_state w ds c buf"
  shows "\<exists>c' buf'. seg_state (fold emit ps w) ds c' buf' \<and> c' @ buf' = c @ buf @ concat ps
     \<and> same_meta (fold emit ps w) w"
  using assms
proof (induction ps arbitrary: w c buf)
  case Nil
  then show ?case by auto
next
  case (Cons p ps)
  obtain c1 b1 where 1: "seg_state (emit p w) ds c1 b1" "c1 @ b1 = c @ buf @ p" "same_meta (emit p w) w"
    using emit_seg [OF Cons.prems] by blast
  obtain c2 b2 where 2: "seg_state (fold emit ps (emit p w)) ds c2 b2"
    "c2 @ b2 = c1 @ b1 @ concat ps" "same_meta (fold emit ps (emit p w)) (emit p w)"
    using Cons.IH [OF 1(1)] by blast
  have "c2 @ b2 = c @ buf @ concat (p # ps)" using 1(2) 2(2) by (metis append_assoc concat.simps(2))
  with 2 1(3) show ?case by (auto intro: same_meta_trans)
qed

text \<open>Statistics do not matter to the invariant.\<close>

lemma seg_state_stats [simp]:
  "seg_state (w\<lparr>w_stats := s\<rparr>) ds c buf = seg_state w ds c buf"
  "seg_state (w\<lparr>w_pending := p\<rparr>) ds c buf = seg_state w ds c buf"
  "seg_state (w\<lparr>w_entrySeq := q\<rparr>) ds c buf = seg_state w ds c buf"
  by (simp_all add: seg_state_def)

lemma wal_holds_frame [simp]:
  "wal_holds (w\<lparr>w_stats := s\<rparr>) m ess es = wal_holds w m ess es"
  "wal_holds (w\<lparr>w_pending := p\<rparr>) m ess es = wal_holds w m ess es"
  "wal_holds (w\<lparr>w_entrySeq := q\<rparr>) m ess es = wal_holds w m ess es"
  by (simp_all add: wal_holds_def)

lemma writeEntry_holds:
  assumes "wal_holds w m ess es" "wf_entry e"
  shows "\<exists>w'. writeEntry e w = Inr w' \<and> wal_holds w' m ess (es @ [e]) \<and> same_meta w' w"
proof -
  obtain ds c buf where w: "seg_state w ds c buf" "map fst ds = map segment_name [m..w_segmentSeq w - 1]"
    "1 \<le> m" "m \<le> w_segmentSeq w" "w_segmentSeq w < 10 ^ 16" "map snd ds = map log_bytes ess"
    "c @ buf = log_bytes es" "\<forall>e \<in> set (concat ess @ es). wf_entry e"
    using assms(1) unfolding wal_holds_def by blast
  obtain c' buf' where w': "seg_state (fold emit (entry_chunks e) w) ds c' buf'"
    "c' @ buf' = c @ buf @ entry_bytes e" "same_meta (fold emit (entry_chunks e) w) w"
    using fold_emit_seg [OF w(1), of "entry_chunks e"] by (auto simp: entry_bytes_def)
  have "c' @ buf' = log_bytes (es @ [e])" using w'(2) w(7) by (simp flip: append_assoc)
  moreover have "w_segmentSeq (fold emit (entry_chunks e) w) = w_segmentSeq w"
    using w'(3) by (simp add: same_meta_def)
  ultimately have "wal_holds (fold emit (entry_chunks e) w) m ess (es @ [e])"
    unfolding wal_holds_def using w w'(1) assms(2)
    by (intro exI [of _ ds] exI [of _ c'] exI [of _ buf']) auto
  moreover have "w_writer w \<noteq> None" using w(1) by (simp add: seg_state_def)
  ultimately show ?thesis
    using w'(3) by (simp add: writeEntry_def Let_def same_meta_def)
qed

lemma flush_holds:
  assumes "wal_holds w m ess es"
  shows "\<exists>ds. seg_state (flush w) ds (log_bytes es) [] \<and> wal_holds (flush w) m ess es
     \<and> same_meta (flush w) w"
proof -
  obtain ds c buf where w: "seg_state w ds c buf" "map fst ds = map segment_name [m..w_segmentSeq w - 1]"
    "1 \<le> m" "m \<le> w_segmentSeq w" "w_segmentSeq w < 10 ^ 16" "map snd ds = map log_bytes ess"
    "c @ buf = log_bytes es" "\<forall>e \<in> set (concat ess @ es). wf_entry e"
    using assms unfolding wal_holds_def by blast
  have f: "seg_state (flush w) ds (c @ buf) []" "same_meta (flush w) w"
    using w(1) by (auto simp: seg_state_def flush_def dir_append_last same_meta_def)
  then have "wal_holds (flush w) m ess es"
    unfolding wal_holds_def using w
    by (intro exI [of _ ds] exI [of _ "c @ buf"] exI [of _ "[]"]) (auto simp: same_meta_def)
  with f w(7) show ?thesis by auto
qed

lemma upto_snoc: "i \<le> j \<Longrightarrow> [i..j - 1] @ [j] = [i..j]" for i j :: int
  by (simp add: upto_rec2)

lemma rotateSegment_holds:
  assumes "wal_holds w m ess es" "w_segmentSeq w + 1 < 10 ^ 16"
  shows "wal_holds (rotateSegment w) m (ess @ [es]) []
     \<and> w_config (rotateSegment w) = w_config w \<and> w_entrySeq (rotateSegment w) = w_entrySeq w
     \<and> w_pending (rotateSegment w) = w_pending w \<and> w_segmentSeq (rotateSegment w) = w_segmentSeq w + 1"
proof -
  let ?v = "flush w" and ?k = "w_segmentSeq w"
  obtain ds where v: "seg_state ?v ds (log_bytes es) []" "wal_holds ?v m ess es" "same_meta ?v w"
    using flush_holds [OF assms(1)] by blast
  have k: "w_segmentSeq ?v = ?k" using v(3) by (simp add: same_meta_def)
  have ds: "map fst ds = map segment_name [m..?k - 1]" "map snd ds = map log_bytes ess"
    and m: "1 \<le> m" "m \<le> ?k" and wf: "\<forall>e \<in> set (concat ess @ es). wf_entry e"
    using v(1,2) k by (auto simp: wal_holds_def seg_state_def)
  let ?d = "ds @ [(segment_name ?k, log_bytes es)]"
  have d: "w_dir ?v = ?d" using v(1) k by (simp add: seg_state_def)
  have names: "map fst ?d = map segment_name [m..?k]"
    using ds(1) arg_cong [OF upto_snoc [OF m(2)], of "map segment_name"] by simp
  have less: "\<forall>x \<in> set ?d. fst x < segment_name (?k + 1)"
  proof
    fix x assume "x \<in> set ?d"
    then have "fst x \<in> set (map segment_name [m..?k])" unfolding names [symmetric] by auto
    then obtain i where "fst x = segment_name i" "m \<le> i" "i \<le> ?k" by auto
    with m assms(2) show "fst x < segment_name (?k + 1)"
      using segment_name_less [of i "?k + 1"] by simp
  qed
  then have fresh: "segment_name (?k + 1) \<notin> fst ` set ?d" by force
  have "dir_create (segment_name (?k + 1)) ?d = ?d @ [(segment_name (?k + 1), [])]"
    using fresh less by (simp add: dir_create_def sorted_wrt_insort_last del: append_assoc)
  then have "seg_state (rotateSegment w) ?d [] []" and r: "w_segmentSeq (rotateSegment w) = ?k + 1"
    using fresh k d by (auto simp: rotateSegment_def openNextSegment_def Let_def seg_state_def)
  then have "wal_holds (rotateSegment w) m (ess @ [es]) []"
    unfolding wal_holds_def using names ds(2) m assms(2) wf
    by (intro exI [of _ ?d] exI [of _ "[]"] exI [of _ "[]"]) auto
  then show ?thesis
    using v(3) by (auto simp: rotateSegment_def openNextSegment_def Let_def same_meta_def)
qed

definition logged :: "wal_entry list list \<Rightarrow> wal_entry list \<Rightarrow> wal_entry list" where
  "logged ess es = concat ess @ es"

lemma wf_new_entry: "wf_entry (new_entry oper table data now s) \<longleftrightarrow> wf_entry (new_entry oper table data now s')"
  by (simp add: wf_entry_def new_entry_def entry_len_def)

lemma Write_holds:
  assumes "wal_holds w m ess es" "wf_entry (new_entry oper table data now 0)"
    "w_segmentSeq w + 1 < 10 ^ 16"
  defines "e \<equiv> new_entry oper table data now (w_entrySeq w + 1)"
  shows "\<exists>w' ess' es'. Write oper table data now w = (Inr (w_entrySeq w + 1), w')
     \<and> wal_holds w' m ess' es' \<and> logged ess' es' = logged ess es @ [e]
     \<and> w_entrySeq w' = w_entrySeq w + 1 \<and> w_pending w' = w_pending w @ [e] \<and> w_config w' = w_config w
     \<and> w_segmentSeq w' \<le> w_segmentSeq w + 1"
proof -
  let ?w1 = "w\<lparr>w_entrySeq := w_entrySeq w + 1\<rparr>"
  have "wf_entry e" using assms(2) wf_new_entry unfolding e_def by blast
  moreover have "wal_holds ?w1 m ess es" using assms(1) by simp
  ultimately obtain w2 where w2: "writeEntry e ?w1 = Inr w2" "wal_holds w2 m ess (es @ [e])" "same_meta w2 ?w1"
    using writeEntry_holds by blast
  define w3 where "w3 = w2\<lparr>w_pending := w_pending w2 @ [e],
    w_stats := (w_stats w2)\<lparr>EntriesWritten := EntriesWritten (w_stats w2) + 1\<rparr>\<rparr>"
  have h3: "wal_holds w3 m ess (es @ [e])" using w2(2) by (simp add: w3_def)
  have f3: "w_entrySeq w3 = w_entrySeq w + 1" "w_pending w3 = w_pending w @ [e]" "w_config w3 = w_config w"
    "w_segmentSeq w3 = w_segmentSeq w"
    using w2(3) by (simp_all add: w3_def same_meta_def)
  have r: "wal_holds (rotateSegment w3) m (ess @ [es @ [e]]) []"
    "w_entrySeq (rotateSegment w3) = w_entrySeq w3" "w_pending (rotateSegment w3) = w_pending w3"
    "w_config (rotateSegment w3) = w_config w3" "w_segmentSeq (rotateSegment w3) = w_segmentSeq w3 + 1"
    using rotateSegment_holds [OF h3] assms(3) f3 by simp_all
  let ?rot = "w_currentSegment w3 \<noteq> None \<and> cfg_MaxSegmentSize (w_config w3) \<le> current_size w3"
  have W: "Write oper table data now w = (Inr (w_entrySeq w + 1), if ?rot then rotateSegment w3 else w3)"
    using w2(1) unfolding Write_def e_def [symmetric]
    by (simp add: Let_def w3_def) (simp add: e_def new_entry_def)
  show ?thesis
  proof (cases ?rot)
    case True
    with W r f3 show ?thesis
      by (intro exI [of _ "rotateSegment w3"] exI [of _ "ess @ [es @ [e]]"] exI [of _ "[]"])
        (simp add: logged_def)
  next
    case False
    with W h3 f3 show ?thesis
      by (intro exI [of _ w3] exI [of _ ess] exI [of _ "es @ [e]"]) (auto simp: logged_def)
  qed
qed

lemma wf_entry_stamp [simp]: "wf_entry (e\<lparr>Sequence := s, Timestamp := t\<rparr>) = wf_entry e"
  by (simp add: wf_entry_def entry_len_def)

text \<open>What \<open>WriteBatch\<close> makes of its entries: numbered from the counter, stamped.\<close>

fun stamp_from :: "u64 \<Rightarrow> u64 \<Rightarrow> wal_entry list \<Rightarrow> wal_entry list" where
  "stamp_from q now [] = []"
| "stamp_from q now (e # es) = e\<lparr>Sequence := q + 1, Timestamp := now\<rparr> # stamp_from (q + 1) now es"

lemma write_batch_loop_holds:
  assumes "wal_holds w m ess es" "\<forall>b \<in> set bs. wf_entry b"
  shows "\<exists>w'. write_batch_loop bs now w acc = (None, w', acc @ stamp_from (w_entrySeq w) now bs)
     \<and> wal_holds w' m ess (es @ stamp_from (w_entrySeq w) now bs)
     \<and> w_entrySeq w' = w_entrySeq w + of_nat (length bs) \<and> w_pending w' = w_pending w
     \<and> w_config w' = w_config w"
  using assms
proof (induction bs arbitrary: w es acc)
  case Nil
  then show ?case by simp
next
  case (Cons b bs)
  let ?q = "w_entrySeq w + 1"
  let ?b = "b\<lparr>Sequence := ?q, Timestamp := now\<rparr>"
  have "wal_holds (w\<lparr>w_entrySeq := ?q\<rparr>) m ess es" "wf_entry ?b" using Cons.prems by simp_all
  then obtain w2 where w2: "writeEntry ?b (w\<lparr>w_entrySeq := ?q\<rparr>) = Inr w2"
    "wal_holds w2 m ess (es @ [?b])" "same_meta w2 (w\<lparr>w_entrySeq := ?q\<rparr>)"
    using writeEntry_holds by blast
  let ?w3 = "w2\<lparr>w_stats := (w_stats w2)\<lparr>EntriesWritten := EntriesWritten (w_stats w2) + 1\<rparr>\<rparr>"
  have "wal_holds ?w3 m ess (es @ [?b])" using w2(2) by simp
  from Cons.IH [OF this, of "acc @ [?b]"] Cons.prems obtain w' where
    "write_batch_loop bs now ?w3 (acc @ [?b]) = (None, w', (acc @ [?b]) @ stamp_from (w_entrySeq ?w3) now bs)"
    "wal_holds w' m ess ((es @ [?b]) @ stamp_from (w_entrySeq ?w3) now bs)"
    "w_entrySeq w' = w_entrySeq ?w3 + of_nat (length bs)" "w_pending w' = w_pending ?w3"
    "w_config w' = w_config ?w3"
    by auto
  moreover have "w_entrySeq ?w3 = ?q" "w_pending ?w3 = w_pending w" "w_config ?w3 = w_config w"
    using w2(3) by (simp_all add: same_meta_def)
  ultimately show ?case using w2(1) by (simp add: Let_def algebra_simps)
qed

lemma WriteBatch_holds:
  assumes "wal_holds w m ess es" "\<forall>b \<in> set bs. wf_entry b"
  shows "\<exists>w'. WriteBatch bs now w = (None, w')
     \<and> wal_holds w' m ess (es @ stamp_from (w_entrySeq w) now bs)
     \<and> w_entrySeq w' = w_entrySeq w + of_nat (length bs)
     \<and> w_pending w' = w_pending w @ stamp_from (w_entrySeq w) now bs
     \<and> w_config w' = w_config w"
  using write_batch_loop_holds [OF assms(1,2), of now "[]"]
  by (auto simp: WriteBatch_def)

section \<open>Sequence numbers\<close>

text \<open>The entries a run has logged carry strictly increasing sequence numbers, none above the
  counter.\<close>

definition seqs_ok :: "u64 \<Rightarrow> wal_entry list \<Rightarrow> bool" where
  "seqs_ok q es \<longleftrightarrow> sorted_wrt (<) (map Sequence es) \<and> (\<forall>e \<in> set es. Sequence e \<le> q)"

lemma u64_succ: "unat q + 1 < 2 ^ 64 \<Longrightarrow> unat (q + 1) = unat q + 1" for q :: u64
  by (simp add: unat_word_ariths)

lemma u64_less_succ: "unat q + 1 < 2 ^ 64 \<Longrightarrow> q < q + 1" for q :: u64
  using u64_succ [of q] by (simp add: word_less_nat_alt)

lemma seqs_ok_snoc:
  assumes "seqs_ok q es" "unat q + 1 < 2 ^ 64" "Sequence e = q + 1"
  shows "seqs_ok (q + 1) (es @ [e])"
proof -
  have "q < q + 1" using assms(2) by (rule u64_less_succ)
  with assms show ?thesis
    by (auto simp: seqs_ok_def sorted_wrt_append dest: order.strict_trans1 order.strict_implies_order)
qed

lemma seqs_ok_stamp:
  assumes "seqs_ok q es" "unat q + length bs < 2 ^ 64"
  shows "seqs_ok (q + of_nat (length bs)) (es @ stamp_from q now bs)"
  using assms
proof (induction bs arbitrary: q es)
  case Nil
  then show ?case by simp
next
  case (Cons b bs)
  let ?b = "b\<lparr>Sequence := q + 1, Timestamp := now\<rparr>"
  have u: "unat q + 1 < 2 ^ 64" using Cons.prems(2) by simp
  have "seqs_ok (q + 1) (es @ [?b])" using seqs_ok_snoc [OF Cons.prems(1) u, of ?b] by simp
  moreover have "unat (q + 1) + length bs < 2 ^ 64" using Cons.prems(2) u64_succ [OF u] by simp
  ultimately have "seqs_ok (q + 1 + of_nat (length bs)) ((es @ [?b]) @ stamp_from (q + 1) now bs)"
    by (rule Cons.IH)
  then show ?case by (simp add: algebra_simps)
qed

lemma seqs_ok_suffix: "seqs_ok q (xs @ ys) \<Longrightarrow> seqs_ok q ys"
  by (auto simp: seqs_ok_def sorted_wrt_append)

text \<open>Dropping what is not newer than the last checkpointed entry drops exactly the copied ones.\<close>

lemma filter_newer:
  assumes "seqs_ok q (xs @ ys)" "xs \<noteq> []"
  shows "filter (\<lambda>e. Sequence (last xs) < Sequence e) (xs @ ys) = ys"
proof -
  have s: "sorted_wrt (<) (map Sequence xs)" "\<forall>x \<in> set xs. \<forall>y \<in> set ys. Sequence x < Sequence y"
    using assms(1) by (auto simp: seqs_ok_def sorted_wrt_append)
  obtain zs z where xs: "xs = zs @ [z]" using assms(2) by (metis rev_exhaust)
  have "filter (\<lambda>e. Sequence (last xs) < Sequence e) xs = []"
    using s(1) xs by (auto simp: filter_empty_conv sorted_wrt_append dest: order.asym)
  moreover have "filter (\<lambda>e. Sequence (last xs) < Sequence e) ys = ys"
    using s(2) xs by (auto simp: filter_id_conv)
  ultimately show ?thesis by simp
qed

section \<open>Cleaning and checkpoints\<close>

lemma fold_dir_remove: "fold dir_remove ns d = filter (\<lambda>(n, c). n \<notin> set ns) d"
  by (induction ns arbitrary: d) (auto simp: dir_remove_def intro!: filter_cong)

lemma filter_drop_names:
  assumes "distinct (map fst d)"
  shows "filter (\<lambda>(n, c). n \<notin> set (take i (map fst d))) d = drop i d"
proof -
  let ?p = "\<lambda>(n, c). n \<notin> set (take i (map fst d))"
  have split: "map fst d = map fst (take i d) @ map fst (drop i d)"
    by (metis append_take_drop_id map_append)
  have "filter ?p (take i d) = []"
    by (force simp: filter_empty_conv take_map)
  moreover have "\<forall>x \<in> set (drop i d). fst x \<notin> set (map fst (take i d))"
    using assms unfolding split distinct_append by force
  then have "filter ?p (drop i d) = drop i d"
    by (force simp: filter_id_conv take_map)
  ultimately show ?thesis
    by (metis append_Nil append_take_drop_id filter_append)
qed

lemma drop_upto: "drop n [i..j] = [i + int n..j]"
proof (induction n arbitrary: i)
  case 0
  then show ?case by simp
next
  case (Suc n)
  then show ?case by (cases "i \<le> j") (simp_all add: upto_rec1 algebra_simps)
qed

lemma cleanOldSegments_holds:
  assumes "wal_holds w m ess es" "1 \<le> cfg_MaxSegments (w_config w)"
  shows "\<exists>m' n. wal_holds (cleanOldSegments w) m' (drop n ess) es \<and> same_meta (cleanOldSegments w) w"
proof -
  obtain ds c buf where w: "seg_state w ds c buf" "map fst ds = map segment_name [m..w_segmentSeq w - 1]"
    "1 \<le> m" "m \<le> w_segmentSeq w" "w_segmentSeq w < 10 ^ 16" "map snd ds = map log_bytes ess"
    "c @ buf = log_bytes es" "\<forall>e \<in> set (concat ess @ es). wf_entry e"
    using assms(1) unfolding wal_holds_def by blast
  let ?k = "w_segmentSeq w" and ?mx = "cfg_MaxSegments (w_config w)"
  let ?cur = "(segment_name ?k, c)"
  have names: "map fst (w_dir w) = map segment_name [m..?k]"
    using w(1,2,4) arg_cong [OF upto_snoc [OF w(4)], of "map segment_name"]
    by (simp add: seg_state_def)
  have segs: "listSegments (w_dir w) = map fst (w_dir w)"
    using listSegments_names [OF names] w(3,5) names by simp
  have dist: "distinct (map fst (w_dir w))"
    using segment_names_sorted [of m ?k] w(3,5) names by (simp add: strict_sorted_iff)
  have dir: "w_dir w = ds @ [?cur]" using w(1) by (simp add: seg_state_def)
  show ?thesis
  proof (cases "int (length (listSegments (w_dir w))) \<le> ?mx")
    case True
    then have "cleanOldSegments w = w" by (simp add: cleanOldSegments_def Let_def)
    with assms(1) show ?thesis by (intro exI [of _ m] exI [of _ 0]) simp
  next
    case False
    define n where "n = length (w_dir w) - nat ?mx"
    have n: "n \<le> length ds" using assms(2) dir by (simp add: n_def)
    have "fold dir_remove (take n (map fst (w_dir w))) (w_dir w) = drop n (w_dir w)"
      unfolding fold_dir_remove using dist by (rule filter_drop_names)
    then have d: "w_dir (cleanOldSegments w) = drop n ds @ [?cur]" and "same_meta (cleanOldSegments w) w"
      and o: "w_currentSegment (cleanOldSegments w) = w_currentSegment w"
        "w_writer (cleanOldSegments w) = w_writer w"
      using False n dir segs
      by (auto simp: cleanOldSegments_def Let_def n_def same_meta_def)
    moreover have "seg_state (cleanOldSegments w) (drop n ds) c buf"
      using d o w(1) \<open>same_meta (cleanOldSegments w) w\<close>
      by (auto simp: seg_state_def same_meta_def dest: in_set_dropD)
    moreover have "map fst (drop n ds) = map segment_name [m + int n..?k - 1]"
      using w(2) by (metis drop_map drop_upto)
    moreover have "m + int n \<le> ?k"
    proof -
      have "length ds = length [m..?k - 1]" using arg_cong [OF w(2), of length] by simp
      with n w(4) show ?thesis by simp
    qed
    moreover have "\<forall>e \<in> set (concat (drop n ess) @ es). wf_entry e"
      using w(8) by (auto dest: in_set_dropD)
    ultimately have "wal_holds (cleanOldSegments w) (m + int n) (drop n ess) es"
      unfolding wal_holds_def using w(3,5,6,7)
      by (intro exI [of _ "drop n ds"] exI [of _ c] exI [of _ buf])
        (auto simp: same_meta_def drop_map [symmetric])
    with \<open>same_meta (cleanOldSegments w) w\<close> show ?thesis by blast
  qed
qed

section \<open>The run invariant\<close>

text \<open>What is pending is the tail of what the segments hold.\<close>

definition wal_inv :: "wal \<Rightarrow> bool" where
  "wal_inv w \<longleftrightarrow> (\<exists>m ess es pre. wal_holds w m ess es \<and> logged ess es = pre @ w_pending w
     \<and> seqs_ok (w_entrySeq w) (logged ess es) \<and> 1 \<le> cfg_MaxSegments (w_config w))"

lemma wal_inv_start:
  assumes "NewWAL c [] = Some w" "0 \<le> cfg_MaxSegments c"
  shows "wal_inv w \<and> w_pending w = []"
proof -
  have w: "w = openNextSegment (blank_wal c [])"
    using assms(1) by (simp add: NewWAL_def recover_def blank_wal_def listSegments_def)
  have "seg_state w [] [] [] \<and> w_segmentSeq w = 1"
    by (simp add: w openNextSegment_def blank_wal_def Let_def seg_state_def dir_create_def)
  then have "wal_holds w 1 [] []"
    unfolding wal_holds_def by (intro exI [of _ "[]"]) simp
  moreover have "1 \<le> cfg_MaxSegments (w_config w)" "w_pending w = []" "w_entrySeq w = 0"
    using assms(2)
    by (simp_all add: w openNextSegment_def blank_wal_def Let_def fill_defaults_def DefaultWALConfig_def)
  ultimately show ?thesis
    unfolding wal_inv_def by (intro conjI exI [of _ 1] exI [of _ "[]"]) (auto simp: logged_def seqs_ok_def)
qed

lemma checkpoint_inv:
  assumes "wal_inv w"
  shows "wal_inv (snd (checkpoint fn now w))"
proof -
  obtain m ess es pre where w: "wal_holds w m ess es" "logged ess es = pre @ w_pending w"
    "seqs_ok (w_entrySeq w) (logged ess es)" "1 \<le> cfg_MaxSegments (w_config w)"
    using assms unfolding wal_inv_def by blast
  show ?thesis
  proof (cases "snd (checkpoint fn now w) = w")
    case True
    with assms show ?thesis by simp
  next
    case False
    then have ne: "w_pending w \<noteq> []"
      and c: "snd (checkpoint fn now w) = checkpoint_finish (w_pending w) now w"
      by (auto simp: checkpoint_def checkpoint_copy_def Let_def split: option.splits if_splits)
    have "seqs_ok (w_entrySeq w) (w_pending w)" using w(2,3) seqs_ok_suffix by simp
    then have "filter (\<lambda>e. Sequence (last (w_pending w)) < Sequence e) (w_pending w) = []"
      using filter_newer [of "w_entrySeq w" "w_pending w" "[]"] ne by simp
    then obtain s where f: "checkpoint_finish (w_pending w) now w
        = cleanOldSegments (w\<lparr>w_pending := [], w_stats := s\<rparr>)"
      by (auto simp: checkpoint_finish_def Let_def)
    obtain m' n where h: "wal_holds (cleanOldSegments (w\<lparr>w_pending := [], w_stats := s\<rparr>)) m' (drop n ess) es"
      "same_meta (cleanOldSegments (w\<lparr>w_pending := [], w_stats := s\<rparr>)) (w\<lparr>w_pending := [], w_stats := s\<rparr>)"
      using cleanOldSegments_holds [of "w\<lparr>w_pending := [], w_stats := s\<rparr>" m ess es] w(1,4) by auto
    have "logged ess es = concat (take n ess) @ logged (drop n ess) es"
      by (simp add: logged_def flip: append_assoc concat_append)
    then have "seqs_ok (w_entrySeq w) (logged (drop n ess) es)"
      using w(3) seqs_ok_suffix by metis
    then show ?thesis
      unfolding c f wal_inv_def using h w(4)
      by (intro exI [of _ m'] exI [of _ "drop n ess"] exI [of _ es] exI [of _ "logged (drop n ess) es"])
        (simp add: same_meta_def)
  qed
qed

lemma wal_step_inv:
  assumes "wal_inv w" "action_ok a w"
  shows "wal_inv (wal_step a w)"
proof -
  obtain m ess es pre where w: "wal_holds w m ess es" "logged ess es = pre @ w_pending w"
    "seqs_ok (w_entrySeq w) (logged ess es)" "1 \<le> cfg_MaxSegments (w_config w)"
    using assms unfolding wal_inv_def by blast
  show ?thesis
  proof (cases a)
    case (DoWrite oper table data now)
    let ?e = "new_entry oper table data now (w_entrySeq w + 1)"
    obtain w' ess' es' where W: "Write oper table data now w = (Inr (w_entrySeq w + 1), w')"
      "wal_holds w' m ess' es'" "logged ess' es' = logged ess es @ [?e]"
      "w_entrySeq w' = w_entrySeq w + 1" "w_pending w' = w_pending w @ [?e]" "w_config w' = w_config w"
      using Write_holds [OF w(1), of oper table data now] assms(2) DoWrite by (auto simp: action_ok_def)
    have "unat (w_entrySeq w) + 1 < 2 ^ 64" using assms(2) DoWrite by (simp add: action_ok_def)
    then have "seqs_ok (w_entrySeq w') (logged ess' es')"
      using seqs_ok_snoc [OF w(3), of ?e] W(3,4) by (simp add: new_entry_def)
    with W w(2,4) DoWrite show ?thesis
      unfolding wal_inv_def
      by (intro exI [of _ m] exI [of _ ess'] exI [of _ es'] exI [of _ pre]) simp
  next
    case (DoBatch bs now)
    let ?bs = "stamp_from (w_entrySeq w) now bs"
    obtain w' where W: "WriteBatch bs now w = (None, w')" "wal_holds w' m ess (es @ ?bs)"
      "w_entrySeq w' = w_entrySeq w + of_nat (length bs)" "w_pending w' = w_pending w @ ?bs"
      "w_config w' = w_config w"
      using WriteBatch_holds [OF w(1), of bs now] assms(2) DoBatch by (auto simp: action_ok_def)
    have l: "logged ess (es @ ?bs) = logged ess es @ ?bs" by (simp add: logged_def)
    have "seqs_ok (w_entrySeq w') (logged ess (es @ ?bs))"
      using seqs_ok_stamp [OF w(3), of bs now] assms(2) DoBatch W(3) l by (simp add: action_ok_def)
    with W l w(2,4) DoBatch show ?thesis
      unfolding wal_inv_def
      by (intro exI [of _ m] exI [of _ ess] exI [of _ "es @ ?bs"] exI [of _ pre]) simp
  next
    case (DoSync now)
    obtain ds where "wal_holds (flush w) m ess es" "same_meta (flush w) w"
      using flush_holds [OF w(1)] by blast
    with w DoSync show ?thesis
      unfolding wal_inv_def
      by (intro exI [of _ m] exI [of _ ess] exI [of _ es] exI [of _ pre])
        (simp add: sync_def Let_def same_meta_def)
  next
    case (DoCheckpoint fn now)
    with checkpoint_inv [OF assms(1)] show ?thesis by simp
  qed
qed

lemma wal_reach_inv: "wal_reach c w \<Longrightarrow> 0 \<le> cfg_MaxSegments c \<Longrightarrow> wal_inv w"
  by (induction rule: wal_reach.induct) (auto simp: wal_inv_start wal_step_inv)

section \<open>Recovery\<close>

lemma max_seq_mono: "mx \<le> max_seq es mx"
proof (induction es arbitrary: mx)
  case Nil
  then show ?case by (simp add: max_seq_def)
next
  case (Cons e es)
  have "mx \<le> (if mx < Sequence e then Sequence e else mx)" by auto
  also have "\<dots> \<le> max_seq es (if mx < Sequence e then Sequence e else mx)" by (rule Cons.IH)
  finally show ?case by (simp add: max_seq_def)
qed

lemma max_seq_ge: "e \<in> set es \<Longrightarrow> Sequence e \<le> max_seq es mx"
proof (induction es arbitrary: mx)
  case Nil
  then show ?case by simp
next
  case (Cons x es)
  have "Sequence x \<le> max_seq es (if mx < Sequence x then Sequence x else mx)"
    using max_seq_mono [of "if mx < Sequence x then Sequence x else mx" es] by (auto split: if_splits)
  with Cons show ?case by (auto simp: max_seq_def)
qed

lemma recover_loop_reads:
  assumes "\<forall>(n, es) \<in> set ns. readSegment (dir_get (w_dir w) n) = Some (es, max_seq es 0)
     \<and> (\<forall>e \<in> set es. \<not> Committed e)"
    and "\<forall>e \<in> set (w_pending w). Sequence e \<le> w_entrySeq w"
  shows "\<exists>w'. recover_loop (map fst ns) w = Some w' \<and> w_dir w' = w_dir w
     \<and> w_pending w' = w_pending w @ concat (map snd ns)
     \<and> (\<forall>e \<in> set (w_pending w'). Sequence e \<le> w_entrySeq w')
     \<and> w_segmentSeq w' = foldl (\<lambda>s n. case segment_seq n of None \<Rightarrow> s
          | Some k \<Rightarrow> if s < k then k else s) (w_segmentSeq w) (map fst ns)"
  using assms
proof (induction ns arbitrary: w)
  case Nil
  then show ?case by simp
next
  case (Cons x ns)
  obtain n es where x: "x = (n, es)" by fastforce
  define v where "v = w\<lparr>w_entrySeq := (if w_entrySeq w < max_seq es 0 then max_seq es 0 else w_entrySeq w),
      w_pending := w_pending w @ es,
      w_segmentSeq := (case segment_seq n of None \<Rightarrow> w_segmentSeq w
        | Some k \<Rightarrow> if w_segmentSeq w < k then k else w_segmentSeq w)\<rparr>"
  have "recover_segment n w = Some v"
    using Cons.prems(1) x by (simp add: recover_segment_def v_def filter_id_conv)
  moreover have "\<forall>e \<in> set (w_pending v). Sequence e \<le> w_entrySeq v"
    using Cons.prems(2) max_seq_ge [of _ es 0] by (fastforce simp: v_def)
  ultimately show ?case
    using Cons.IH [of v] Cons.prems(1) x by (auto simp: v_def)
qed

lemma foldl_segment_seq:
  assumes "\<forall>x \<in> set xs. 0 \<le> x \<and> x < 10 ^ 16"
  shows "foldl (\<lambda>s n. case segment_seq n of None \<Rightarrow> s | Some k \<Rightarrow> if s < k then k else s) s
     (map segment_name xs) = foldl max s xs"
  using assms by (induction xs arbitrary: s) (auto simp: segment_seq_name max_def)

lemma foldl_max_bound: "\<forall>x \<in> set xs. x \<le> b \<Longrightarrow> s \<le> b \<Longrightarrow> foldl max s xs \<le> b" for b :: int
  by (induction xs arbitrary: s) auto

lemma foldl_max_upto:
  fixes j :: int
  assumes "i \<le> j" "s \<le> j"
  shows "foldl max s [i..j] = j"
proof -
  have "foldl max s [i..j - 1] \<le> j" using assms(2) by (intro foldl_max_bound) auto
  moreover have "foldl max s [i..j] = max (foldl max s [i..j - 1]) j"
    by (subst upto_snoc [OF assms(1), symmetric]) simp
  ultimately show ?thesis by simp
qed

lemma dir_get_nth:
  assumes "distinct (map fst d)" "i < length d"
  shows "dir_get d (fst (d ! i)) = snd (d ! i)"
proof -
  have "(fst (d ! i), snd (d ! i)) \<in> set d" using assms(2) by simp
  then have "map_of d (fst (d ! i)) = Some (snd (d ! i))" using assms(1) by simp
  then show ?thesis by (simp add: dir_get_def)
qed

lemma zip_reads:
  assumes "distinct (map fst d)" "length d = length xss"
    and "\<And>i. i < length d \<Longrightarrow> readSegment (snd (d ! i)) = Some (xss ! i, max_seq (xss ! i) 0)
      \<and> (\<forall>e \<in> set (xss ! i). \<not> Committed e)"
  shows "\<forall>(n, xs) \<in> set (zip (map fst d) xss). readSegment (dir_get d n) = Some (xs, max_seq xs 0)
     \<and> (\<forall>e \<in> set xs. \<not> Committed e)"
  using assms by (auto simp: in_set_zip dir_get_nth)

text \<open>Recovery from the directory that any crash leaves: every closed segment comes back whole,
  and the current one up to the last complete entry.\<close>

lemma NewWAL_crash:
  assumes "wal_holds w m ess es"
  shows "\<exists>w' j. NewWAL c (crash_dir k w) = Some w' \<and> w_pending w' = concat ess @ take j es
     \<and> (\<forall>e \<in> set (w_pending w'). Sequence e \<le> w_entrySeq w')
     \<and> w_segmentSeq w' = w_segmentSeq w + 1
     \<and> (length (log_bytes es) \<le> k \<longrightarrow> length es \<le> j)
     \<and> (j < length es \<longrightarrow> k < length (log_bytes (take (Suc j) es)))"
proof -
  obtain ds c0 buf where w: "seg_state w ds c0 buf" "map fst ds = map segment_name [m..w_segmentSeq w - 1]"
    "1 \<le> m" "m \<le> w_segmentSeq w" "w_segmentSeq w < 10 ^ 16" "map snd ds = map log_bytes ess"
    "c0 @ buf = log_bytes es" "\<forall>e \<in> set (concat ess @ es). wf_entry e"
    using assms unfolding wal_holds_def by blast
  let ?k = "w_segmentSeq w"
  obtain j where j: "readSegment (take k (log_bytes es)) = Some (take j es, max_seq (take j es) 0)"
    "length (log_bytes (take j es)) \<le> k" "j < length es \<longrightarrow> k < length (log_bytes (take (Suc j) es))"
    using readSegment_cut [of es k] w(8) by auto
  have full: "length es \<le> j" if "length (log_bytes es) \<le> k"
  proof (rule ccontr)
    assume "\<not> length es \<le> j"
    then have "k < length (log_bytes (take (Suc j) es))" using j(3) by simp
    also have "\<dots> \<le> length (log_bytes es)"
      by (metis append_take_drop_id le_add1 length_append log_bytes_simps(3))
    finally show False using that by simp
  qed
  define d where "d = ds @ [(segment_name ?k, take k (log_bytes es))]"
  have d: "crash_dir k w = d" using w(1,7) by (auto simp: crash_dir_def seg_state_def d_def)
  have names: "map fst d = map segment_name [m..?k]"
    using w(2) arg_cong [OF upto_snoc [OF w(4)], of "map segment_name"] by (simp add: d_def)
  have segs: "listSegments d = map fst d" using listSegments_names [OF names] w(3,5) names by simp
  have dist: "distinct (map fst d)"
    using segment_names_sorted [of m ?k] w(3,5) names by (simp add: strict_sorted_iff)
  let ?w0 = "blank_wal c d"
  let ?xss = "ess @ [take j es]"
  define ns where "ns = zip (map fst d) ?xss"
  have len: "length ess = length ds" using arg_cong [OF w(6), of length] by simp
  have ns: "map fst ns = map fst d" "map snd ns = ?xss"
    using len by (simp_all add: ns_def d_def)
  have "readSegment (snd (d ! i)) = Some (?xss ! i, max_seq (?xss ! i) 0) \<and> (\<forall>e \<in> set (?xss ! i). \<not> Committed e)"
    if "i < length d" for i
  proof (cases "i < length ds")
    case True
    then have "snd (d ! i) = log_bytes (ess ! i)"
      using w(6) len by (metis d_def nth_append nth_map)
    moreover have "ess ! i \<in> set ess" using True len by simp
    then have "\<forall>e \<in> set (ess ! i). wf_entry e" using w(8) by force
    ultimately show ?thesis
      using True len readSegment_log by (simp add: nth_append wf_entry_def)
  next
    case False
    then have "i = length ds" using that by (simp add: d_def)
    moreover have "\<forall>e \<in> set (take j es). \<not> Committed e"
      using w(8) by (auto simp: wf_entry_def dest: in_set_takeD)
    ultimately show ?thesis using j(1) len by (simp add: d_def nth_append)
  qed
  then have reads: "\<forall>(n, xs) \<in> set ns. readSegment (dir_get (w_dir ?w0) n) = Some (xs, max_seq xs 0)
     \<and> (\<forall>e \<in> set xs. \<not> Committed e)"
    using zip_reads [OF dist, of ?xss] len by (simp add: ns_def d_def blank_wal_def)
  have zero: "w_pending ?w0 = []" "w_segmentSeq ?w0 = 0" by (simp_all add: blank_wal_def)
  obtain w' where w': "recover_loop (map fst ns) ?w0 = Some w'"
    "w_pending w' = concat (map snd ns)" "\<forall>e \<in> set (w_pending w'). Sequence e \<le> w_entrySeq w'"
    "w_segmentSeq w' = foldl max 0 [m..?k]"
    using recover_loop_reads [OF reads] foldl_segment_seq [of "[m..?k]" 0] names ns(1) w(3,5) zero
    by auto
  have "NewWAL c (crash_dir k w) = Some (openNextSegment w')"
    using w'(1) d segs ns(1) by (simp add: NewWAL_def recover_def blank_wal_def)
  moreover have "w_segmentSeq w' = ?k" using w'(4) foldl_max_upto [of m ?k 0] w(3,4) by simp
  ultimately show ?thesis
    using w'(2,3) ns(2) full j(3)
    by (intro exI [of _ "openNextSegment w'"] exI [of _ j])
      (simp add: openNextSegment_def Let_def)
qed

section \<open>Concurrent writes during a checkpoint\<close>

lemma wal_step_appends:
  assumes "wal_inv w" "action_ok a w" "no_checkpoint a"
  shows "\<exists>new. w_pending (wal_step a w) = w_pending w @ new"
proof -
  obtain m ess es where w: "wal_holds w m ess es" using assms(1) unfolding wal_inv_def by blast
  show ?thesis
  proof (cases a)
    case (DoWrite oper table data now)
    with Write_holds [OF w, of oper table data now] assms(2) show ?thesis by (auto simp: action_ok_def)
  next
    case (DoBatch bs now)
    with WriteBatch_holds [OF w, of bs now] assms(2) show ?thesis by (auto simp: action_ok_def)
  next
    case (DoSync now)
    with flush_holds [OF w] show ?thesis by (auto simp: sync_def Let_def same_meta_def)
  qed (use assms(3) in simp)
qed

lemma wal_run_appends:
  assumes "wal_inv w" "actions_ok as w" "\<forall>a \<in> set as. no_checkpoint a"
  shows "wal_inv (wal_run as w) \<and> (\<exists>new. w_pending (wal_run as w) = w_pending w @ new)"
  using assms
proof (induction as arbitrary: w)
  case Nil
  then show ?case by simp
next
  case (Cons a as)
  then have "wal_inv (wal_step a w)" by (simp add: wal_step_inv)
  moreover obtain new where "w_pending (wal_step a w) = w_pending w @ new"
    using Cons.prems wal_step_appends [of w a] by (metis actions_ok.simps(2) list.set_intros(1))
  moreover have "wal_inv (wal_run as (wal_step a w))
      \<and> (\<exists>new. w_pending (wal_run as (wal_step a w)) = w_pending (wal_step a w) @ new)"
    using Cons by (simp add: wal_step_inv)
  ultimately show ?case by (metis append_assoc wal_run.simps(2))
qed

lemma wal_inv_pending_seqs: "wal_inv w \<Longrightarrow> seqs_ok (w_entrySeq w) (w_pending w)"
  unfolding wal_inv_def by (metis seqs_ok_suffix)

lemma cleanOldSegments_pending [simp]: "w_pending (cleanOldSegments w) = w_pending w"
  by (simp add: cleanOldSegments_def Let_def)

section \<open>Zeroed tails\<close>

lemma le_nat_zeros [simp]: "le_nat (replicate n 0) = 0"
  by (induction n) simp_all

lemma readEntry_zeros:
  assumes "4 \<le> n"
  shows "readEntry (replicate n 0) = Crash"
proof -
  have "get_le 4 (replicate n 0) = Some 0" using assms by (simp add: get_le_def)
  with assms show ?thesis by (auto simp: readEntry_def)
qed

lemma readSegment_loop_crash:
  assumes "\<forall>e \<in> set es. wf_entry e" "readEntry tail = Crash"
  shows "readSegment_loop (log_bytes es @ tail) acc mx = None"
  using assms(1)
proof (induction es arbitrary: acc mx)
  case Nil
  then show ?case by (simp add: readSegment_loop.simps assms(2))
next
  case (Cons e es)
  then have "readEntry (log_bytes (e # es) @ tail) = Entry e (log_bytes es @ tail)"
    by (simp add: readEntry_entry_bytes)
  with Cons show ?case by (subst readSegment_loop.simps) simp
qed

section \<open>Properties\<close>

text \<open>A run for the witnesses: a fresh log with the default configuration and one write.\<close>

definition fresh_wal :: wal where
  "fresh_wal = openNextSegment (blank_wal DefaultWALConfig [])"

definition one_write :: wal_action where
  "one_write = DoWrite WALOpInsert [109] [1, 2, 3] 5"

lemma fresh_wal_new: "NewWAL DefaultWALConfig [] = Some fresh_wal"
  by (simp add: NewWAL_def recover_def blank_wal_def listSegments_def fresh_wal_def)

lemma one_write_ok: "action_ok one_write fresh_wal"
  by (simp add: action_ok_def one_write_def fresh_wal_def openNextSegment_def blank_wal_def
      Let_def wf_entry_def new_entry_def entry_len_def)

lemma one_write_reach: "wal_reach DefaultWALConfig (wal_step one_write fresh_wal)"
  by (rule wal_reach.step [OF wal_reach.start [OF fresh_wal_new] one_write_ok])

lemma one_write_result:
  "w_pending (wal_step one_write fresh_wal) = [new_entry WALOpInsert [109] [1, 2, 3] 5 1]
   \<and> w_entrySeq (wal_step one_write fresh_wal) = 1 \<and> w_segmentSeq (wal_step one_write fresh_wal) \<le> 2"
proof -
  obtain m ess es where h: "wal_holds fresh_wal m ess es"
    using wal_inv_start [OF fresh_wal_new] unfolding wal_inv_def by (auto simp: DefaultWALConfig_def)
  have "w_pending fresh_wal = []" "w_entrySeq fresh_wal = 0" "w_segmentSeq fresh_wal = 1"
    by (simp_all add: fresh_wal_def openNextSegment_def blank_wal_def Let_def)
  then show ?thesis
    using Write_holds [OF h, of WALOpInsert "[109]" "[1, 2, 3]" 5] one_write_ok
    by (auto simp: action_ok_def one_write_def)
qed

lemma one_write_dir: "length (w_dir (wal_step one_write fresh_wal)) \<le> 2
   \<and> w_config (wal_step one_write fresh_wal) = DefaultWALConfig"
proof -
  obtain m ess es where h: "wal_holds (wal_step one_write fresh_wal) m ess es"
    using wal_reach_inv [OF one_write_reach] unfolding wal_inv_def by (auto simp: DefaultWALConfig_def)
  then have "length (w_dir (wal_step one_write fresh_wal)) \<le> nat (w_segmentSeq (wal_step one_write fresh_wal))"
    by (auto simp: wal_holds_def seg_state_def dest!: arg_cong [where f = length])
  moreover obtain m ess es where h: "wal_holds fresh_wal m ess es"
    using wal_inv_start [OF fresh_wal_new] unfolding wal_inv_def by (auto simp: DefaultWALConfig_def)
  moreover have "w_config fresh_wal = DefaultWALConfig"
    by (simp add: fresh_wal_def openNextSegment_def blank_wal_def Let_def fill_defaults_def DefaultWALConfig_def)
  ultimately show ?thesis
    using Write_holds [OF h, of WALOpInsert "[109]" "[1, 2, 3]" 5] one_write_ok one_write_result
    by (auto simp: action_ok_def one_write_def)
qed



text \<open>Torn writes. A segment cut at any byte reads back as a prefix of the entries it
  held: every entry that is whole, none that is not, and never a panic.\<close>

theorem wal_torn_segment:
  assumes "\<forall>e \<in> set es. wf_entry e"
  shows "\<exists>j \<le> length es. readSegment (take k (concat (map (concat \<circ> entry_chunks) es)))
       = Some (take j es, max_seq (take j es) 0)
     \<and> length (concat (map (concat \<circ> entry_chunks) (take j es))) \<le> k
     \<and> (j < length es \<longrightarrow> k < length (concat (map (concat \<circ> entry_chunks) (take (Suc j) es))))"
proof -
  have "concat (map (concat \<circ> entry_chunks) xs) = log_bytes xs" for xs
    by (simp add: log_bytes_def entry_bytes_def [abs_def] comp_def)
  then show ?thesis using readSegment_cut [OF assms, of k] by simp
qed

theorem wal_torn_segment_witness:
  "\<exists>j \<le> 1. readSegment (take 10 (concat (map (concat \<circ> entry_chunks) [new_entry 1 [] [] 0 1])))
     = Some (take j [new_entry 1 [] [] 0 1], max_seq (take j [new_entry 1 [] [] 0 1]) 0)"
proof -
  have "\<forall>e \<in> set [new_entry 1 [] [] 0 1]. wf_entry e"
    by (simp add: wf_entry_def new_entry_def entry_len_def)
  from wal_torn_segment [OF this, of 10] show ?thesis by (metis length_Cons list.size(3) One_nat_def)
qed

text \<open>C2. Corruption. Changing any one byte of a stored entry after its length field, checksum
  included, makes \<open>readEntry\<close> report a CRC mismatch: it returns neither the entry nor a
  different one.\<close>

theorem wal_corruption_detected:
  assumes "entry_len e < 2 ^ 32" "4 \<le> i" "i < length (concat (entry_chunks e))"
    "b \<noteq> concat (entry_chunks e) ! i"
  shows "readEntry ((concat (entry_chunks e))[i := b] @ rest) = Stop ''CRC mismatch''"
  using readEntry_corrupt [of e i b rest] assms by (simp add: entry_bytes_def)

theorem wal_corruption_detected_witness:
  "readEntry ((concat (entry_chunks (new_entry 1 [] [] 0 1)))[12 := 77] @ [9]) = Stop ''CRC mismatch''"
  by (rule wal_corruption_detected)
    (simp_all add: entry_chunks_def entry_payload_def new_entry_def entry_len_def nth_append)

text \<open>C3. Checkpoints lose nothing. Writes, batches and syncs that happen between the moment a
  checkpoint copies the pending entries and the moment it drops them stay pending, in order,
  and everything that was copied is dropped.\<close>

theorem wal_checkpoint_keeps_newer:
  assumes "wal_reach c w" "0 \<le> cfg_MaxSegments c" "checkpoint_copy w \<noteq> []"
    "actions_ok as w" "\<forall>a \<in> set as. no_checkpoint a"
  shows "w_pending (wal_run as w)
     = checkpoint_copy w @ w_pending (checkpoint_finish (checkpoint_copy w) now (wal_run as w))"
proof -
  obtain new where r: "wal_inv (wal_run as w)" "w_pending (wal_run as w) = w_pending w @ new"
    using wal_run_appends [OF wal_reach_inv [OF assms(1,2)] assms(4,5)] by blast
  have "filter (\<lambda>e. Sequence (last (w_pending w)) < Sequence e) (w_pending w @ new) = new"
    using filter_newer wal_inv_pending_seqs [OF r(1)] assms(3) r(2)
    by (metis checkpoint_copy_def)
  with r(2) show ?thesis
    by (simp add: checkpoint_finish_def checkpoint_copy_def Let_def)
qed

theorem wal_checkpoint_keeps_newer_witness:
  "w_pending (wal_run [DoSync 7] (wal_step one_write fresh_wal))
     = [new_entry WALOpInsert [109] [1, 2, 3] 5 1] @
       w_pending (checkpoint_finish [new_entry WALOpInsert [109] [1, 2, 3] 5 1] 8
         (wal_run [DoSync 7] (wal_step one_write fresh_wal)))"
proof -
  have "actions_ok [DoSync 7] (wal_step one_write fresh_wal)"
    using one_write_result by (simp add: action_ok_def)
  then show ?thesis
    using wal_checkpoint_keeps_newer [OF one_write_reach, of "[DoSync 7]" 8] one_write_result
    by (simp add: DefaultWALConfig_def checkpoint_copy_def)
qed

text \<open>C4. A zeroed tail is fatal. When the current segment ends in four or more zero bytes after
  its entries, as a crash can leave a file whose size was extended before its data was written,
  \<open>readEntry\<close> slices below the start of an empty record and recovery panics: \<open>NewWAL\<close>
  does not return.\<close>

theorem wal_zero_tail_panics:
  assumes "\<forall>e \<in> set es. wf_entry e" "4 \<le> n"
  shows "NewWAL c [(segment_name 1, log_bytes es @ replicate n 0)] = None"
proof -
  have "readSegment (log_bytes es @ replicate n 0) = None"
    using readSegment_loop_crash [OF assms(1) readEntry_zeros [OF assms(2)]]
    by (simp add: readSegment_def)
  then show ?thesis
    by (simp add: NewWAL_def recover_def blank_wal_def listSegments_def recover_segment_def dir_get_def)
qed

theorem wal_zero_tail_panics_witness:
  "NewWAL DefaultWALConfig [(segment_name 1, log_bytes [new_entry 1 [] [] 0 1] @ replicate 4 0)] = None"
  by (rule wal_zero_tail_panics) (simp_all add: wf_entry_def new_entry_def entry_len_def)

text \<open>Checkpointed entries come back. \<open>Committed\<close> is never written to a segment, and a
  checkpoint keeps its segments while there are no more than \<open>MaxSegments\<close> of them: after a
  checkpoint that applied every pending entry, a restart makes all of them pending again, at the
  end of what it recovers.\<close>

theorem wal_checkpointed_entries_replayed:
  assumes "wal_reach c w" "0 \<le> cfg_MaxSegments c" "checkpoint fn now w = (None, w')"
    "int (length (w_dir w)) \<le> cfg_MaxSegments (w_config w)"
  shows "w_pending w' = [] \<and> (\<exists>w'' older. NewWAL c (w_dir (sync now w')) = Some w''
     \<and> w_pending w'' = older @ w_pending w)"
proof -
  obtain m ess es pre where w: "wal_holds w m ess es" "logged ess es = pre @ w_pending w"
    "seqs_ok (w_entrySeq w) (logged ess es)"
    using wal_reach_inv [OF assms(1,2)] unfolding wal_inv_def by blast
  have small: "length (listSegments (w_dir w)) \<le> length (w_dir w)" for w
    by (simp add: listSegments_def)
  have "seqs_ok (w_entrySeq w) (w_pending w)" using w(2,3) seqs_ok_suffix by simp
  then have "w_pending w \<noteq> [] \<Longrightarrow> filter (\<lambda>e. Sequence (last (w_pending w)) < Sequence e) (w_pending w) = []"
    using filter_newer [of "w_entrySeq w" "w_pending w" "[]"] by simp
  then have w': "w_pending w' = []" "wal_holds w' m ess es"
    using assms(3,4) w(1) small [of w]
    by (auto simp: checkpoint_def checkpoint_copy_def checkpoint_finish_def cleanOldSegments_def Let_def
        split: if_splits option.splits)
  obtain ds where "seg_state (flush w') ds (log_bytes es) []" "wal_holds (flush w') m ess es"
    using flush_holds [OF w'(2)] by blast
  then have s: "wal_holds (sync now w') m ess es" "crash_dir (length (log_bytes es)) (sync now w') = w_dir (sync now w')"
    by (auto simp: sync_def Let_def crash_dir_def seg_state_def)
  obtain w'' where "NewWAL c (w_dir (sync now w')) = Some w''" "w_pending w'' = concat ess @ es"
    using NewWAL_crash [OF s(1), of c "length (log_bytes es)"] s(2) by auto
  with w(2) w'(1) show ?thesis by (auto simp: logged_def)
qed

theorem wal_checkpointed_entries_replayed_witness:
  "\<exists>w'' older. w_pending w'' = older @ [new_entry WALOpInsert [109] [1, 2, 3] 5 1]
     \<and> NewWAL DefaultWALConfig (w_dir (sync 9 (snd (checkpoint None 9 (wal_step one_write fresh_wal))))) = Some w''"
proof -
  let ?w = "wal_step one_write fresh_wal"
  have "checkpoint None 9 ?w = (None, snd (checkpoint None 9 ?w))"
    by (simp add: checkpoint_def Let_def)
  moreover have "int (length (w_dir ?w)) \<le> cfg_MaxSegments (w_config ?w)"
    using one_write_dir by (simp add: DefaultWALConfig_def)
  ultimately show ?thesis
    using wal_checkpointed_entries_replayed [OF one_write_reach, of None 9] one_write_result
    by (fastforce simp: DefaultWALConfig_def)
qed

end
