(* ===== verification/Lww.thy ===== *)
theory Lww
  imports Dogwatch_Prelude
begin

text \<open>
  The contract of a last-writer-wins table: a write replaces the entry of its key exactly when
  its time stamp is newer, and a blocked key is left alone. \<open>internal/federation/state.go\<close>
  keeps three such tables (node states, incidents, on-call state); the lemmas of this locale,
  on the outcome of a run of writes, are proved once for all of them.
\<close>

locale lww =
  fixes get :: "'s \<Rightarrow> 'k \<Rightarrow> 'v option"
    and put :: "'v \<Rightarrow> 's \<Rightarrow> 's"
    and key :: "'v \<Rightarrow> 'k"
    and stamp :: "'v \<Rightarrow> int"
    and blocked :: "'s \<Rightarrow> 'k \<Rightarrow> bool"
  assumes put_same: "get (put v s) (key v) =
      (if blocked s (key v) then get s (key v)
       else case get s (key v) of None \<Rightarrow> Some v
            | Some w \<Rightarrow> Some (if stamp w < stamp v then v else w))"
    and put_other: "k \<noteq> key v \<Longrightarrow> get (put v s) k = get s k"
    and put_blocked: "blocked (put v s) k = blocked s k"
begin

text \<open>The values that compete for a key: the one there and those written.\<close>

definition cands :: "'s \<Rightarrow> 'v list \<Rightarrow> 'k \<Rightarrow> 'v set" where
  "cands s vs k = {v. get s k = Some v \<or> (v \<in> set vs \<and> key v = k \<and> \<not> blocked s k)}"

lemma fold_blocked: "blocked (fold put vs s) k = blocked s k"
  by (induction vs arbitrary: s) (simp_all add: put_blocked)

lemma get_blocked: "blocked s k \<Longrightarrow> get (fold put vs s) k = get s k"
proof (induction vs arbitrary: s)
  case Nil
  then show ?case by simp
next
  case (Cons v vs)
  have "get (put v s) k = get s k"
    using Cons.prems put_same [of v s] put_other [of k v s] by (cases "k = key v") auto
  with Cons show ?case by (simp add: put_blocked)
qed

lemma get_put_mem: "get (put v s) k = Some w \<Longrightarrow> w \<in> cands s [v] k"
  using put_same [of v s] put_other [of k v s]
  by (cases "k = key v") (auto simp: cands_def split: if_splits option.splits)

lemma get_put_max:
  "w \<in> cands s [v] k \<Longrightarrow> \<exists>u. get (put v s) k = Some u \<and> stamp w \<le> stamp u"
  using put_same [of v s] put_other [of k v s]
  by (cases "k = key v") (auto simp: cands_def split: if_splits option.splits)

lemma cands_Cons:
  "cands (put v s) vs k \<subseteq> cands s (v # vs) k"
  using get_put_mem [of v s k] by (auto simp: cands_def put_blocked)

lemma fold_mem: "get (fold put vs s) k = Some w \<Longrightarrow> w \<in> cands s vs k"
proof (induction vs arbitrary: s)
  case Nil
  then show ?case by (simp add: cands_def)
next
  case (Cons v vs)
  then show ?case using cands_Cons by fastforce
qed

lemma fold_max:
  "w \<in> cands s vs k \<Longrightarrow> \<exists>u. get (fold put vs s) k = Some u \<and> stamp w \<le> stamp u"
proof (induction vs arbitrary: s w)
  case Nil
  then show ?case by (auto simp: cands_def)
next
  case (Cons v vs)
  consider "w \<in> cands s [v] k" | "w \<in> set vs" "key w = k" "\<not> blocked s k"
    using Cons.prems by (auto simp: cands_def)
  then show ?case
  proof cases
    case 1
    then obtain u where u: "get (put v s) k = Some u" "stamp w \<le> stamp u"
      using get_put_max by blast
    then have "u \<in> cands (put v s) vs k" by (simp add: cands_def)
    with u Cons.IH [of u "put v s"] show ?thesis by (auto intro: order_trans)
  next
    case 2
    then have "w \<in> cands (put v s) vs k" by (simp add: cands_def put_blocked)
    with Cons.IH [of w "put v s"] show ?thesis by auto
  qed
qed

text \<open>When no two competing values carry the same time stamp, the outcome depends on the set of
  values only: not on the order of the writes, nor on how often each one is delivered.\<close>

theorem fold_converges:
  assumes "cands s vs k = cands t ws k" "inj_on stamp (cands s vs k)"
  shows "get (fold put vs s) k = get (fold put ws t) k"
proof (cases "cands s vs k = {}")
  case True
  then have "get (fold put vs s) k = None" "get (fold put ws t) k = None"
    using fold_mem assms(1) by (metis empty_iff option.exhaust)+
  then show ?thesis by simp
next
  case False
  then obtain w where "w \<in> cands s vs k" by blast
  then obtain u u' where u: "get (fold put vs s) k = Some u" and u': "get (fold put ws t) k = Some u'"
    using fold_max assms(1) by metis
  have "u \<in> cands s vs k" "u' \<in> cands s vs k" using u u' fold_mem assms(1) by auto
  moreover from this have "stamp u \<le> stamp u'" "stamp u' \<le> stamp u"
    using fold_max [of u t ws k] fold_max [of u' s vs k] u u' assms(1) by auto
  ultimately have "u = u'" using assms(2) by (simp add: inj_on_def)
  then show ?thesis using u u' by simp
qed

text \<open>Along a run of writes an entry never disappears and its time stamp never decreases.\<close>

lemma fold_mono: "get s k = Some w \<Longrightarrow> \<exists>u. get (fold put vs s) k = Some u \<and> stamp w \<le> stamp u"
  by (rule fold_max) (simp add: cands_def)

end

end
