(* ===== verification/Federation.thy ===== *)
theory Federation
  imports Lww
begin

text \<open>
  The shared state of a cluster node (\<open>internal/federation/state.go\<close>), the gossip messages
  (\<open>messages.go\<close>) and the part of \<open>cluster.go\<close> that sends and handles them. Maps are HOL maps;
  a loop over a map takes the visiting order of the keys. Each operation takes its lock for its
  whole body, so it is one step. JSON encoding and decoding are a parameter (a \<open>codec\<close>), since only
  what survives the wire matters here; entries of a decoded full state are not null. The
  callbacks of a node are represented by the list of values they are called with.
\<close>

section \<open>Messages\<close>

type_synonym MessageType = byte

definition MessageTypeNodeState :: MessageType where "MessageTypeNodeState = 1"
definition MessageTypeIncident :: MessageType where "MessageTypeIncident = 2"
definition MessageTypeIncidentUpdate :: MessageType where "MessageTypeIncidentUpdate = 3"
definition MessageTypeSyncRequest :: MessageType where "MessageTypeSyncRequest = 4"
definition MessageTypeSyncResponse :: MessageType where "MessageTypeSyncResponse = 5"

lemmas message_types = MessageTypeNodeState_def MessageTypeIncident_def
  MessageTypeIncidentUpdate_def MessageTypeSyncRequest_def MessageTypeSyncResponse_def

record Message =
  msg_Type :: MessageType
  msg_NodeID :: string
  msg_Timestamp :: go_time
  msg_Payload :: "byte list"

record NodeState =
  ns_NodeID :: string
  ns_Timestamp :: go_time
  CPUPercent :: f64
  MemPercent :: f64
  DiskPercent :: f64
  LoadAverage :: f64
  ActiveIncidents :: int
  TotalRequests :: int
  ErrorRate :: f64
  Uptime :: int
  Version :: string

record IncidentEvent =
  ie_ID :: string
  ie_Title :: string
  ie_Description :: string
  ie_Severity :: string
  ie_Status :: string
  ie_Service :: string
  ie_Source :: string
  ie_SourceID :: string
  ie_NodeID :: string
  ie_CreatedAt :: go_time
  ie_UpdatedAt :: go_time
  ie_AckedAt :: "go_time option"
  ie_ResolvedAt :: "go_time option"
  ie_AckedBy :: string
  ie_ResolvedBy :: string
  ie_Resolution :: string
  ie_Labels :: "string \<rightharpoonup> string"

record IncidentUpdate =
  iu_IncidentID :: string
  iu_Status :: string
  iu_User :: string
  iu_NodeID :: string
  iu_Timestamp :: go_time
  iu_Resolution :: string

record OnCallChange =
  oc_ScheduleID :: string
  oc_ScheduleName :: string
  oc_CurrentUser :: string
  oc_NextUser :: string
  oc_RotationTime :: go_time
  oc_NodeID :: string
  oc_Timestamp :: go_time

record MetricsSummary =
  ms_NodeID :: string
  ms_Timestamp :: go_time
  HTTPRequests :: int
  HTTPErrors :: int
  AvgLatencyMs :: f64
  P95LatencyMs :: f64
  P99LatencyMs :: f64
  ActiveConnections :: int
  NewConnections :: int
  ContainerCount :: int
  ContainerCPU :: f64
  ContainerMemory :: int

record FullState =
  fs_NodeID :: string
  fs_Timestamp :: go_time
  fs_NodeStates :: "string \<rightharpoonup> NodeState"
  fs_Incidents :: "string \<rightharpoonup> IncidentEvent"
  fs_OnCall :: "string \<rightharpoonup> OnCallChange"

text \<open>\<open>json.Marshal\<close> may fail (on a NaN, for one); \<open>json.Unmarshal\<close> may fail on any bytes.\<close>

record codec =
  marshal_node :: "NodeState \<Rightarrow> byte list option"
  marshal_incident :: "IncidentEvent \<Rightarrow> byte list option"
  marshal_update :: "IncidentUpdate \<Rightarrow> byte list option"
  marshal_full :: "FullState \<Rightarrow> byte list option"
  unmarshal_node :: "byte list \<Rightarrow> NodeState option"
  unmarshal_incident :: "byte list \<Rightarrow> IncidentEvent option"
  unmarshal_update :: "byte list \<Rightarrow> IncidentUpdate option"
  unmarshal_full :: "byte list \<Rightarrow> FullState option"

section \<open>The shared state\<close>

record SharedState =
  localNodeID :: string
  nodeStates :: "string \<rightharpoonup> NodeState"
  incidents :: "string \<rightharpoonup> IncidentEvent"
  onCall :: "string \<rightharpoonup> OnCallChange"
  metrics :: "string \<rightharpoonup> MetricsSummary list"
  tombstones :: "string \<rightharpoonup> go_time"
  onNodeChange_calls :: "NodeState list"
  onIncidentChange_calls :: "IncidentEvent list"

definition NewSharedState :: "string \<Rightarrow> SharedState" where
  "NewSharedState nodeID = \<lparr>localNodeID = nodeID, nodeStates = Map.empty, incidents = Map.empty,
     onCall = Map.empty, metrics = Map.empty, tombstones = Map.empty,
     onNodeChange_calls = [], onIncidentChange_calls = []\<rparr>"

definition UpdateLocalNode ::
  "go_time \<Rightarrow> f64 \<Rightarrow> f64 \<Rightarrow> int \<Rightarrow> int \<Rightarrow> f64 \<Rightarrow> SharedState \<Rightarrow> SharedState" where
  "UpdateLocalNode now cpu mem incs requests errorRate s =
     (let state = \<lparr>ns_NodeID = localNodeID s, ns_Timestamp = now, CPUPercent = cpu,
        MemPercent = mem, DiskPercent = Fin 0, LoadAverage = Fin 0, ActiveIncidents = incs,
        TotalRequests = requests, ErrorRate = errorRate, Uptime = 0, Version = []\<rparr>
      in s\<lparr>nodeStates := (nodeStates s)(localNodeID s \<mapsto> state)\<rparr>)"

definition GetLocalState :: "SharedState \<Rightarrow> NodeState option" where
  "GetLocalState s = nodeStates s (localNodeID s)"

definition GetNodeState :: "string \<Rightarrow> SharedState \<Rightarrow> NodeState option" where
  "GetNodeState nodeID s = nodeStates s nodeID"

definition GetAllNodeStates :: "SharedState \<Rightarrow> string \<rightharpoonup> NodeState" where
  "GetAllNodeStates s = nodeStates s"

definition MergeNodeState :: "string \<Rightarrow> NodeState \<Rightarrow> SharedState \<Rightarrow> SharedState" where
  "MergeNodeState nodeID state s =
     (if (case nodeStates s nodeID of None \<Rightarrow> True
          | Some existing \<Rightarrow> ns_Timestamp existing < ns_Timestamp state)
      then s\<lparr>nodeStates := (nodeStates s)(nodeID \<mapsto> state),
             onNodeChange_calls := onNodeChange_calls s @ [state]\<rparr>
      else s)"

definition RemoveNode :: "string \<Rightarrow> SharedState \<Rightarrow> SharedState" where
  "RemoveNode nodeID s = s\<lparr>nodeStates := (nodeStates s)(nodeID := None),
     metrics := (metrics s)(nodeID := None)\<rparr>"

definition AddIncident :: "IncidentEvent \<Rightarrow> SharedState \<Rightarrow> SharedState" where
  "AddIncident inc s =
     (if tombstones s (ie_ID inc) \<noteq> None then s
      else if (case incidents s (ie_ID inc) of None \<Rightarrow> True
               | Some existing \<Rightarrow> ie_UpdatedAt existing < ie_UpdatedAt inc)
      then s\<lparr>incidents := (incidents s)(ie_ID inc \<mapsto> inc),
             onIncidentChange_calls := onIncidentChange_calls s @ [inc]\<rparr>
      else s)"

text \<open>The incident after an update that is newer, and the whole operation.\<close>

definition apply_update :: "IncidentUpdate \<Rightarrow> IncidentEvent \<Rightarrow> IncidentEvent" where
  "apply_update update inc0 =
     (let inc = inc0\<lparr>ie_Status := iu_Status update, ie_UpdatedAt := iu_Timestamp update\<rparr>
      in if iu_Status update = ''acknowledged'' then
           inc\<lparr>ie_AckedBy := iu_User update, ie_AckedAt := Some (iu_Timestamp update)\<rparr>
         else if iu_Status update = ''resolved'' then
           inc\<lparr>ie_ResolvedBy := iu_User update, ie_Resolution := iu_Resolution update,
               ie_ResolvedAt := Some (iu_Timestamp update)\<rparr>
         else inc)"

definition UpdateIncident :: "IncidentUpdate \<Rightarrow> SharedState \<Rightarrow> SharedState" where
  "UpdateIncident update s =
     (case incidents s (iu_IncidentID update) of
        None \<Rightarrow> s
      | Some inc0 \<Rightarrow>
          if ie_UpdatedAt inc0 < iu_Timestamp update then
            (let inc = apply_update update inc0;
                 s1 = s\<lparr>incidents := (incidents s)(iu_IncidentID update \<mapsto> inc)\<rparr>;
                 s2 = (if iu_Status update = ''resolved''
                       then s1\<lparr>tombstones := (tombstones s)(iu_IncidentID update \<mapsto> iu_Timestamp update)\<rparr>
                       else s1)
             in s2\<lparr>onIncidentChange_calls := onIncidentChange_calls s @ [inc]\<rparr>)
          else s)"

definition GetIncident :: "string \<Rightarrow> SharedState \<Rightarrow> IncidentEvent option" where
  "GetIncident iid s = incidents s iid"

definition GetAllIncidents :: "go_time \<Rightarrow> string list \<Rightarrow> SharedState \<Rightarrow> IncidentEvent list" where
  "GetAllIncidents now ks s =
     filter (\<lambda>inc. ie_Status inc \<noteq> ''resolved'' \<or>
        (case ie_ResolvedAt inc of None \<Rightarrow> False | Some t \<Rightarrow> time_sub now t < 24 * hour))
       (map snd (range_map (incidents s) ks))"

definition GetActiveIncidentCount :: "string list \<Rightarrow> SharedState \<Rightarrow> nat" where
  "GetActiveIncidentCount ks s =
     length (filter (\<lambda>inc. ie_Status inc = ''triggered'' \<or> ie_Status inc = ''acknowledged'')
       (map snd (range_map (incidents s) ks)))"

definition UpdateOnCall :: "OnCallChange \<Rightarrow> SharedState \<Rightarrow> SharedState" where
  "UpdateOnCall change s =
     (if (case onCall s (oc_ScheduleID change) of None \<Rightarrow> True
          | Some existing \<Rightarrow> oc_Timestamp existing < oc_Timestamp change)
      then s\<lparr>onCall := (onCall s)(oc_ScheduleID change \<mapsto> change)\<rparr>
      else s)"

definition GetOnCall :: "SharedState \<Rightarrow> string \<rightharpoonup> OnCallChange" where
  "GetOnCall s = onCall s"

text \<open>A missing key reads as the nil slice.\<close>

definition AddMetricsSummary :: "MetricsSummary \<Rightarrow> SharedState \<Rightarrow> SharedState" where
  "AddMetricsSummary summary s =
     (let nodeMetrics = (case metrics s (ms_NodeID summary) of None \<Rightarrow> [] | Some ms \<Rightarrow> ms);
          kept = (if 12 \<le> length nodeMetrics then drop 1 nodeMetrics else nodeMetrics)
      in s\<lparr>metrics := (metrics s)(ms_NodeID summary \<mapsto> kept @ [summary])\<rparr>)"

definition GetFullState :: "go_time \<Rightarrow> SharedState \<Rightarrow> FullState" where
  "GetFullState now s = \<lparr>fs_NodeID = localNodeID s, fs_Timestamp = now,
     fs_NodeStates = nodeStates s, fs_Incidents = incidents s, fs_OnCall = onCall s\<rparr>"

text \<open>The visiting orders of the three loops of \<open>MergeFullState\<close>.\<close>

record orders =
  node_order :: "string list"
  incident_order :: "string list"
  oncall_order :: "string list"

definition full_orders :: "FullState \<Rightarrow> orders \<Rightarrow> bool" where
  "full_orders fs ord \<longleftrightarrow> range_order (fs_NodeStates fs) (node_order ord) \<and>
     range_order (fs_Incidents fs) (incident_order ord) \<and>
     range_order (fs_OnCall fs) (oncall_order ord)"

definition MergeFullState :: "orders \<Rightarrow> FullState \<Rightarrow> SharedState \<Rightarrow> SharedState" where
  "MergeFullState ord fs s0 =
     (let s1 = fold (\<lambda>(nodeID, nodeState). MergeNodeState nodeID nodeState)
                 (range_map (fs_NodeStates fs) (node_order ord)) s0;
          s2 = fold (\<lambda>(_, inc). AddIncident inc)
                 (range_map (fs_Incidents fs) (incident_order ord)) s1
      in fold (\<lambda>(_, oc). UpdateOnCall oc) (range_map (fs_OnCall fs) (oncall_order ord)) s2)"

text \<open>One tick of the cleanup loop.\<close>

definition cleanupTombstones :: "go_time \<Rightarrow> SharedState \<Rightarrow> SharedState" where
  "cleanupTombstones now s =
     (let cutoff = now - 24 * hour
      in s\<lparr>tombstones := (\<lambda>iid. case tombstones s iid of None \<Rightarrow> None
              | Some ts \<Rightarrow> if ts < cutoff then None else Some ts),
           incidents := (\<lambda>iid. case incidents s iid of None \<Rightarrow> None
              | Some inc \<Rightarrow>
                  if ie_Status inc = ''resolved'' \<and>
                     (case ie_ResolvedAt inc of None \<Rightarrow> False | Some t \<Rightarrow> t < cutoff)
                  then None else Some inc)\<rparr>)"

section \<open>The cluster\<close>

text \<open>The fields of \<open>Cluster\<close> the message handling reads: the node's name, the shared state, and
  the names of the members (\<open>None\<close> while \<open>memberlist\<close> is nil).\<close>

record Cluster =
  NodeName :: string
  cstate :: SharedState
  memberlist :: "string list option"

text \<open>A message to send is paired with the member it goes to.\<close>

type_synonym sent = "(string \<times> Message) list"

definition NewCluster :: "string \<Rightarrow> Cluster" where
  "NewCluster name = \<lparr>NodeName = name, cstate = NewSharedState name, memberlist = None\<rparr>"

definition broadcast :: "go_time \<Rightarrow> MessageType \<Rightarrow> byte list option \<Rightarrow> Cluster \<Rightarrow> sent" where
  "broadcast now msgType payload c =
     (case memberlist c of
        None \<Rightarrow> []
      | Some members \<Rightarrow>
          (case payload of
             None \<Rightarrow> []
           | Some data \<Rightarrow>
               (let msg = \<lparr>msg_Type = msgType, msg_NodeID = NodeName c, msg_Timestamp = now,
                           msg_Payload = data\<rparr>
                in map (\<lambda>member. (member, msg)) (filter (\<lambda>member. member \<noteq> NodeName c) members))))"

text \<open>\<open>SendReliable\<close> to the first member of a name.\<close>

definition send_to :: "string \<Rightarrow> Message \<Rightarrow> string list \<Rightarrow> sent" where
  "send_to nodeID msg members = (if nodeID \<in> set members then [(nodeID, msg)] else [])"

definition UpdateLocalMetrics ::
  "go_time \<Rightarrow> f64 \<Rightarrow> f64 \<Rightarrow> int \<Rightarrow> int \<Rightarrow> f64 \<Rightarrow> Cluster \<Rightarrow> Cluster" where
  "UpdateLocalMetrics now cpu mem incs requests errorRate c =
     c\<lparr>cstate := UpdateLocalNode now cpu mem incs requests errorRate (cstate c)\<rparr>"

definition BroadcastIncident ::
  "codec \<Rightarrow> go_time \<Rightarrow> IncidentEvent \<Rightarrow> Cluster \<Rightarrow> Cluster \<times> sent" where
  "BroadcastIncident J now inc c =
     (let c' = c\<lparr>cstate := AddIncident inc (cstate c)\<rparr>
      in (c', broadcast now MessageTypeIncident (marshal_incident J inc) c'))"

definition BroadcastIncidentUpdate ::
  "codec \<Rightarrow> go_time \<Rightarrow> string \<Rightarrow> string \<Rightarrow> string \<Rightarrow> Cluster \<Rightarrow> Cluster \<times> sent" where
  "BroadcastIncidentUpdate J now incidentID status user c =
     (let update = \<lparr>iu_IncidentID = incidentID, iu_Status = status, iu_User = user,
            iu_NodeID = NodeName c, iu_Timestamp = now, iu_Resolution = []\<rparr>;
          c' = c\<lparr>cstate := UpdateIncident update (cstate c)\<rparr>
      in (c', broadcast now MessageTypeIncidentUpdate (marshal_update J update) c'))"

definition broadcastLocalState :: "codec \<Rightarrow> go_time \<Rightarrow> Cluster \<Rightarrow> sent" where
  "broadcastLocalState J now c =
     (case GetLocalState (cstate c) of
        None \<Rightarrow> []
      | Some state \<Rightarrow> broadcast now MessageTypeNodeState (marshal_node J state) c)"

text \<open>These two run only once \<open>memberlist\<close> is set (a nil list would be a nil dereference; the
  callers run from its callbacks).\<close>

definition requestStateSync :: "go_time \<Rightarrow> string \<Rightarrow> Cluster \<Rightarrow> sent outcome" where
  "requestStateSync now nodeID c =
     (case memberlist c of
        None \<Rightarrow> Panic
      | Some members \<Rightarrow> Return (send_to nodeID \<lparr>msg_Type = MessageTypeSyncRequest,
          msg_NodeID = NodeName c, msg_Timestamp = now, msg_Payload = []\<rparr> members))"

definition sendStateSyncResponse :: "codec \<Rightarrow> go_time \<Rightarrow> string \<Rightarrow> Cluster \<Rightarrow> sent outcome" where
  "sendStateSyncResponse J now toNode c =
     (let data = (case marshal_full J (GetFullState now (cstate c)) of None \<Rightarrow> [] | Some d \<Rightarrow> d)
      in case memberlist c of
        None \<Rightarrow> Panic
      | Some members \<Rightarrow> Return (send_to toNode \<lparr>msg_Type = MessageTypeSyncResponse,
          msg_NodeID = NodeName c, msg_Timestamp = now, msg_Payload = data\<rparr> members))"

text \<open>Membership events: a join asks the new node for its state, a leave drops the node.\<close>

datatype NodeEvent = NodeJoin string | NodeLeave string | NodeUpdate string

definition handleEvent :: "go_time \<Rightarrow> NodeEvent \<Rightarrow> Cluster \<Rightarrow> (Cluster \<times> sent) outcome" where
  "handleEvent now event c =
     (case event of
        NodeJoin name \<Rightarrow>
          (case requestStateSync now name c of
             Return out \<Rightarrow> Return (c, out) | Error e \<Rightarrow> Error e | Panic \<Rightarrow> Panic)
      | NodeLeave name \<Rightarrow> Return (c\<lparr>cstate := RemoveNode name (cstate c)\<rparr>, [])
      | NodeUpdate name \<Rightarrow> Return (c, []))"

definition LocalState :: "codec \<Rightarrow> go_time \<Rightarrow> Cluster \<Rightarrow> byte list" where
  "LocalState J now c =
     (case marshal_full J (GetFullState now (cstate c)) of None \<Rightarrow> [] | Some d \<Rightarrow> d)"

definition MergeRemoteState :: "codec \<Rightarrow> orders \<Rightarrow> byte list \<Rightarrow> Cluster \<Rightarrow> Cluster" where
  "MergeRemoteState J ord buf c =
     (case unmarshal_full J buf of
        None \<Rightarrow> c
      | Some fs \<Rightarrow> c\<lparr>cstate := MergeFullState ord fs (cstate c)\<rparr>)"

definition handleMessage ::
  "codec \<Rightarrow> go_time \<Rightarrow> orders \<Rightarrow> Message \<Rightarrow> Cluster \<Rightarrow> (Cluster \<times> sent) outcome" where
  "handleMessage J now ord msg c =
     (let keep = (\<lambda>s. Return (c\<lparr>cstate := s\<rparr>, []))
      in if msg_Type msg = MessageTypeNodeState then
           (case unmarshal_node J (msg_Payload msg) of
              None \<Rightarrow> Return (c, [])
            | Some state \<Rightarrow> keep (MergeNodeState (msg_NodeID msg) state (cstate c)))
         else if msg_Type msg = MessageTypeIncident then
           (case unmarshal_incident J (msg_Payload msg) of
              None \<Rightarrow> Return (c, [])
            | Some inc \<Rightarrow> keep (AddIncident inc (cstate c)))
         else if msg_Type msg = MessageTypeIncidentUpdate then
           (case unmarshal_update J (msg_Payload msg) of
              None \<Rightarrow> Return (c, [])
            | Some update \<Rightarrow> keep (UpdateIncident update (cstate c)))
         else if msg_Type msg = MessageTypeSyncRequest then
           (case sendStateSyncResponse J now (msg_NodeID msg) c of
              Return out \<Rightarrow> Return (c, out) | Error e \<Rightarrow> Error e | Panic \<Rightarrow> Panic)
         else if msg_Type msg = MessageTypeSyncResponse then
           (case unmarshal_full J (msg_Payload msg) of
              None \<Rightarrow> Return (c, [])
            | Some fs \<Rightarrow> keep (MergeFullState ord fs (cstate c)))
         else Return (c, []))"

end
