(* ===== verification/Federation_Sync.thy ===== *)
theory Federation_Sync
  imports Federation
begin

text \<open>
  What the cluster state guarantees: the three tables of \<open>SharedState\<close> are last-writer-wins
  tables (interpretations of the locale \<open>lww\<close>), so delivery order does not matter and two nodes that
  exchange their full states agree; versions only grow; a resolved incident is not resurrected
  by late messages; the metrics window is the last twelve summaries.
\<close>

section \<open>The three tables\<close>

definition get_node :: "SharedState \<Rightarrow> string \<Rightarrow> (string \<times> NodeState) option" where
  "get_node s k = map_option (Pair k) (nodeStates s k)"

abbreviation put_node :: "string \<times> NodeState \<Rightarrow> SharedState \<Rightarrow> SharedState" where
  "put_node \<equiv> \<lambda>(nodeID, state). MergeNodeState nodeID state"

definition tombstoned :: "SharedState \<Rightarrow> string \<Rightarrow> bool" where
  "tombstoned s k \<longleftrightarrow> tombstones s k \<noteq> None"

interpretation nodes: lww get_node put_node fst "\<lambda>(k, v). ns_Timestamp v" "\<lambda>s k. False"
  by unfold_locales
    (auto simp: get_node_def MergeNodeState_def split: option.splits prod.splits)

interpretation incs: lww incidents AddIncident ie_ID ie_UpdatedAt tombstoned
  by unfold_locales (auto simp: AddIncident_def tombstoned_def split: option.splits)

interpretation oncalls: lww onCall UpdateOnCall oc_ScheduleID oc_Timestamp "\<lambda>s k. False"
  by unfold_locales (auto simp: UpdateOnCall_def split: option.splits)

text \<open>Which fields an operation leaves alone.\<close>

lemma MergeNodeState_frame [simp]:
  "incidents (MergeNodeState k v s) = incidents s" "onCall (MergeNodeState k v s) = onCall s"
  "tombstones (MergeNodeState k v s) = tombstones s" "metrics (MergeNodeState k v s) = metrics s"
  "localNodeID (MergeNodeState k v s) = localNodeID s"
  by (simp_all add: MergeNodeState_def)

lemma AddIncident_frame [simp]:
  "nodeStates (AddIncident inc s) = nodeStates s" "onCall (AddIncident inc s) = onCall s"
  "tombstones (AddIncident inc s) = tombstones s" "metrics (AddIncident inc s) = metrics s"
  "localNodeID (AddIncident inc s) = localNodeID s"
  by (simp_all add: AddIncident_def)

lemma UpdateIncident_frame [simp]:
  "nodeStates (UpdateIncident u s) = nodeStates s" "onCall (UpdateIncident u s) = onCall s"
  "metrics (UpdateIncident u s) = metrics s" "localNodeID (UpdateIncident u s) = localNodeID s"
  by (simp_all add: UpdateIncident_def Let_def split: option.splits)

lemma UpdateOnCall_frame [simp]:
  "nodeStates (UpdateOnCall ch s) = nodeStates s" "incidents (UpdateOnCall ch s) = incidents s"
  "tombstones (UpdateOnCall ch s) = tombstones s" "metrics (UpdateOnCall ch s) = metrics s"
  "localNodeID (UpdateOnCall ch s) = localNodeID s"
  by (simp_all add: UpdateOnCall_def)

lemma UpdateLocalNode_frame [simp]:
  "incidents (UpdateLocalNode now a b i r e s) = incidents s"
  "onCall (UpdateLocalNode now a b i r e s) = onCall s"
  "tombstones (UpdateLocalNode now a b i r e s) = tombstones s"
  "metrics (UpdateLocalNode now a b i r e s) = metrics s"
  by (simp_all add: UpdateLocalNode_def Let_def)

lemma RemoveNode_frame [simp]:
  "incidents (RemoveNode k s) = incidents s" "onCall (RemoveNode k s) = onCall s"
  "tombstones (RemoveNode k s) = tombstones s"
  by (simp_all add: RemoveNode_def)

lemma AddMetricsSummary_frame [simp]:
  "nodeStates (AddMetricsSummary m s) = nodeStates s"
  "incidents (AddMetricsSummary m s) = incidents s" "onCall (AddMetricsSummary m s) = onCall s"
  "tombstones (AddMetricsSummary m s) = tombstones s"
  by (simp_all add: AddMetricsSummary_def Let_def)

lemma cleanupTombstones_frame [simp]:
  "nodeStates (cleanupTombstones now s) = nodeStates s"
  "onCall (cleanupTombstones now s) = onCall s" "metrics (cleanupTombstones now s) = metrics s"
  by (simp_all add: cleanupTombstones_def Let_def)

text \<open>The effect of \<open>MergeFullState\<close> on each table is the run of its writes.\<close>

definition node_entries :: "orders \<Rightarrow> FullState \<Rightarrow> (string \<times> NodeState) list" where
  "node_entries ord fs = range_map (fs_NodeStates fs) (node_order ord)"
definition incident_entries :: "orders \<Rightarrow> FullState \<Rightarrow> IncidentEvent list" where
  "incident_entries ord fs = map snd (range_map (fs_Incidents fs) (incident_order ord))"
definition oncall_entries :: "orders \<Rightarrow> FullState \<Rightarrow> OnCallChange list" where
  "oncall_entries ord fs = map snd (range_map (fs_OnCall fs) (oncall_order ord))"

lemma MergeFullState_folds:
  "MergeFullState ord fs s = fold UpdateOnCall (oncall_entries ord fs)
     (fold AddIncident (incident_entries ord fs) (fold put_node (node_entries ord fs) s))"
proof -
  have "fold (\<lambda>(_, oc). UpdateOnCall oc) xs t = fold UpdateOnCall (map snd xs) t" for xs :: "(string \<times> OnCallChange) list" and t
    by (induction xs arbitrary: t) auto
  moreover have "fold (\<lambda>(_, inc). AddIncident inc) xs t = fold AddIncident (map snd xs) t" for xs :: "(string \<times> IncidentEvent) list" and t
    by (induction xs arbitrary: t) auto
  ultimately show ?thesis
    by (simp add: MergeFullState_def Let_def node_entries_def incident_entries_def oncall_entries_def)
qed

lemma fold_put_node_frame [simp]:
  "incidents (fold put_node vs s) = incidents s" "onCall (fold put_node vs s) = onCall s"
  "tombstones (fold put_node vs s) = tombstones s" "metrics (fold put_node vs s) = metrics s"
  by (rule fold_frame; simp split: prod.splits)+

lemma fold_AddIncident_frame [simp]:
  "nodeStates (fold AddIncident vs s) = nodeStates s" "onCall (fold AddIncident vs s) = onCall s"
  "tombstones (fold AddIncident vs s) = tombstones s" "metrics (fold AddIncident vs s) = metrics s"
  by (rule fold_frame; simp)+

lemma fold_UpdateOnCall_frame [simp]:
  "nodeStates (fold UpdateOnCall vs s) = nodeStates s"
  "incidents (fold UpdateOnCall vs s) = incidents s"
  "tombstones (fold UpdateOnCall vs s) = tombstones s" "metrics (fold UpdateOnCall vs s) = metrics s"
  by (rule fold_frame; simp)+

lemma MergeFullState_frame [simp]:
  "tombstones (MergeFullState ord fs s) = tombstones s" "metrics (MergeFullState ord fs s) = metrics s"
  by (simp_all add: MergeFullState_folds)

lemma get_node_MergeFullState:
  "get_node (MergeFullState ord fs s) k = get_node (fold put_node (node_entries ord fs) s) k"
  by (simp add: MergeFullState_folds get_node_def)

lemma incidents_MergeFullState:
  "incidents (MergeFullState ord fs s)
     = incidents (fold AddIncident (incident_entries ord fs) (fold put_node (node_entries ord fs) s))"
  by (simp add: MergeFullState_folds)

section \<open>Runs of operations\<close>

text \<open>Everything that changes a node's shared state, as one operation each; the order of a list
  of operations is the order in which the locks are taken.\<close>

datatype fed_op =
    OpLocal go_time f64 f64 int int f64
  | OpNode string NodeState
  | OpRemove string
  | OpIncident IncidentEvent
  | OpUpdate IncidentUpdate
  | OpOnCall OnCallChange
  | OpMetrics MetricsSummary
  | OpFull orders FullState
  | OpCleanup go_time

fun apply_op :: "fed_op \<Rightarrow> SharedState \<Rightarrow> SharedState" where
  "apply_op (OpLocal now cpu mem incs reqs er) s = UpdateLocalNode now cpu mem incs reqs er s"
| "apply_op (OpNode k v) s = MergeNodeState k v s"
| "apply_op (OpRemove k) s = RemoveNode k s"
| "apply_op (OpIncident inc) s = AddIncident inc s"
| "apply_op (OpUpdate u) s = UpdateIncident u s"
| "apply_op (OpOnCall ch) s = UpdateOnCall ch s"
| "apply_op (OpMetrics m) s = AddMetricsSummary m s"
| "apply_op (OpFull ord fs) s = MergeFullState ord fs s"
| "apply_op (OpCleanup now) s = cleanupTombstones now s"

text \<open>The operations a message stands for.\<close>

definition msg_ops :: "codec \<Rightarrow> orders \<Rightarrow> Message \<Rightarrow> fed_op list" where
  "msg_ops J ord msg =
     (if msg_Type msg = MessageTypeNodeState then
        (case unmarshal_node J (msg_Payload msg) of None \<Rightarrow> [] | Some st \<Rightarrow> [OpNode (msg_NodeID msg) st])
      else if msg_Type msg = MessageTypeIncident then
        (case unmarshal_incident J (msg_Payload msg) of None \<Rightarrow> [] | Some inc \<Rightarrow> [OpIncident inc])
      else if msg_Type msg = MessageTypeIncidentUpdate then
        (case unmarshal_update J (msg_Payload msg) of None \<Rightarrow> [] | Some u \<Rightarrow> [OpUpdate u])
      else if msg_Type msg = MessageTypeSyncResponse then
        (case unmarshal_full J (msg_Payload msg) of None \<Rightarrow> [] | Some fs \<Rightarrow> [OpFull ord fs])
      else [])"

text \<open>Handling a list of messages, each at its time and with its visiting orders.\<close>

fun receive :: "codec \<Rightarrow> (go_time \<times> orders \<times> Message) list \<Rightarrow> Cluster \<Rightarrow> Cluster outcome" where
  "receive J [] c = Return c"
| "receive J ((now, ord, msg) # ms) c =
     (case handleMessage J now ord msg c of
        Return (c', out) \<Rightarrow> receive J ms c' | Error e \<Rightarrow> Error e | Panic \<Rightarrow> Panic)"

lemma handleMessage_ops:
  assumes "memberlist c \<noteq> None"
  shows "\<exists>out. handleMessage J now ord msg c
           = Return (c\<lparr>cstate := fold apply_op (msg_ops J ord msg) (cstate c)\<rparr>, out)"
  using assms
  by (auto simp: handleMessage_def msg_ops_def Let_def sendStateSyncResponse_def message_types
      split: option.splits)

lemma receive_ops:
  assumes "memberlist c \<noteq> None"
  shows "receive J ms c = Return (c\<lparr>cstate :=
           fold apply_op (concat (map (\<lambda>(now, ord, msg). msg_ops J ord msg) ms)) (cstate c)\<rparr>)"
  using assms
proof (induction ms arbitrary: c)
  case Nil
  then show ?case by simp
next
  case (Cons m ms)
  obtain now ord msg where m: "m = (now, ord, msg)" by (cases m) auto
  obtain out where "handleMessage J now ord msg c
      = Return (c\<lparr>cstate := fold apply_op (msg_ops J ord msg) (cstate c)\<rparr>, out)"
    using handleMessage_ops Cons.prems by blast
  with Cons.IH [of "c\<lparr>cstate := fold apply_op (msg_ops J ord msg) (cstate c)\<rparr>"] Cons.prems
  show ?case by (simp add: m)
qed

text \<open>The node states a list of operations writes, and the states it may reach: merges only,
  no local update or removal of a node.\<close>

fun node_writes :: "fed_op \<Rightarrow> (string \<times> NodeState) list" where
  "node_writes (OpNode k v) = [(k, v)]"
| "node_writes (OpFull ord fs) = node_entries ord fs"
| "node_writes op = []"

fun node_merge_only :: "fed_op \<Rightarrow> bool" where
  "node_merge_only (OpLocal now cpu mem incs reqs er) = False"
| "node_merge_only (OpRemove k) = False"
| "node_merge_only op = True"

lemma put_node_nodeStates:
  "nodeStates s = nodeStates t \<Longrightarrow> nodeStates (put_node v s) = nodeStates (put_node v t)"
  by (auto simp: MergeNodeState_def split: prod.splits option.splits)

lemma fold_put_node_cong:
  "nodeStates s = nodeStates t \<Longrightarrow> nodeStates (fold put_node vs s) = nodeStates (fold put_node vs t)"
proof (induction vs arbitrary: s t)
  case Nil
  then show ?case by simp
next
  case (Cons v vs)
  have "nodeStates (put_node v s) = nodeStates (put_node v t)"
    using Cons.prems by (rule put_node_nodeStates)
  then show ?case unfolding fold_simps by (rule Cons.IH)
qed

lemma nodeStates_apply_op:
  "node_merge_only op \<Longrightarrow> nodeStates (apply_op op s) = nodeStates (fold put_node (node_writes op) s)"
  by (cases op) (simp_all add: MergeFullState_folds)

lemma nodeStates_run:
  "\<forall>op \<in> set ops. node_merge_only op \<Longrightarrow>
     nodeStates (fold apply_op ops s) = nodeStates (fold put_node (concat (map node_writes ops)) s)"
proof (induction ops arbitrary: s)
  case Nil
  then show ?case by simp
next
  case (Cons op ops)
  have "nodeStates (fold apply_op ops (apply_op op s))
      = nodeStates (fold put_node (concat (map node_writes ops)) (apply_op op s))"
    using Cons.prems by (intro Cons.IH) simp
  also have "\<dots> = nodeStates (fold put_node (concat (map node_writes ops)) (fold put_node (node_writes op) s))"
    using Cons.prems by (intro fold_put_node_cong nodeStates_apply_op) simp
  finally show ?case by simp
qed

lemma msg_ops_merge_only: "list_all node_merge_only (msg_ops J ord msg)"
  by (simp add: msg_ops_def split: option.split)

text \<open>Every operation keeps the incident and on-call tables indexed by the entries' own ids.\<close>

definition keyed :: "SharedState \<Rightarrow> bool" where
  "keyed s \<longleftrightarrow> (\<forall>k inc. incidents s k = Some inc \<longrightarrow> ie_ID inc = k) \<and>
     (\<forall>k oc. onCall s k = Some oc \<longrightarrow> oc_ScheduleID oc = k)"

lemma keyed_AddIncident: "keyed s \<Longrightarrow> keyed (AddIncident inc s)"
  by (auto simp: keyed_def AddIncident_def)

lemma keyed_UpdateOnCall: "keyed s \<Longrightarrow> keyed (UpdateOnCall oc s)"
  by (auto simp: keyed_def UpdateOnCall_def)

lemma apply_update_simps [simp]:
  "ie_ID (apply_update u inc) = ie_ID inc" "ie_Status (apply_update u inc) = iu_Status u"
  "ie_UpdatedAt (apply_update u inc) = iu_Timestamp u"
  by (simp_all add: apply_update_def Let_def)

lemma keyed_apply_op: "keyed s \<Longrightarrow> keyed (apply_op op s)"
proof (cases op)
  case (OpUpdate u)
  assume "keyed s"
  with OpUpdate show ?thesis
    by (auto simp: keyed_def UpdateIncident_def Let_def split: option.splits)
next
  case (OpFull ord fs)
  assume "keyed s"
  then have "keyed (fold put_node (node_entries ord fs) s)" by (simp add: keyed_def)
  then have "keyed (fold AddIncident (incident_entries ord fs) (fold put_node (node_entries ord fs) s))"
    by (rule fold_inv) (rule keyed_AddIncident)
  with OpFull show ?thesis
    by (simp add: MergeFullState_folds) (erule fold_inv, rule keyed_UpdateOnCall)
next
  case (OpCleanup now)
  assume "keyed s"
  with OpCleanup show ?thesis
    by (auto simp: keyed_def cleanupTombstones_def Let_def split: option.splits if_splits)
qed (auto simp: keyed_AddIncident keyed_UpdateOnCall, auto simp: keyed_def)

lemma keyed_run: "keyed (fold apply_op ops (NewSharedState n))"
proof (rule fold_inv)
  show "keyed (NewSharedState n)" by (simp add: keyed_def NewSharedState_def)
qed (rule keyed_apply_op)

section \<open>Convergence\<close>

text \<open>No two competing entries of one key carry the same time stamp.\<close>

definition no_ties :: "('k \<times> 'v) set \<Rightarrow> ('v \<Rightarrow> int) \<Rightarrow> bool" where
  "no_ties S stamp \<longleftrightarrow> (\<forall>k v w. (k, v) \<in> S \<longrightarrow> (k, w) \<in> S \<longrightarrow> stamp v = stamp w \<longrightarrow> v = w)"

lemma get_node_eqD: "get_node s k = get_node t k \<Longrightarrow> nodeStates s k = nodeStates t k"
  by (auto simp: get_node_def map_option_case split: option.splits)

lemma inj_on_stampI:
  "no_ties S stamp \<Longrightarrow> C \<subseteq> {v. (k, v) \<in> S} \<Longrightarrow> inj_on stamp C"
  by (auto simp: no_ties_def inj_on_def)

lemma nodes_inj:
  assumes "no_ties S ns_Timestamp" "\<And>v. v \<in> C \<Longrightarrow> v \<in> S \<and> fst v = k"
  shows "inj_on (\<lambda>(k, v). ns_Timestamp v) C"
proof (rule inj_onI)
  fix x y
  assume xy: "x \<in> C" "y \<in> C" "(\<lambda>(k, v). ns_Timestamp v) x = (\<lambda>(k, v). ns_Timestamp v) y"
  obtain v w where "x = (k, v)" "y = (k, w)" using assms(2) xy by (metis prod.collapse)
  with xy assms show "x = y" unfolding no_ties_def by (metis case_prod_conv)
qed

lemma cands_nodes:
  "nodes.cands s vs k = {v. fst v = k \<and> (nodeStates s k = Some (snd v) \<or> v \<in> set vs)}"
  by (auto simp: nodes.cands_def get_node_def)

lemma node_runs_converge:
  assumes "nodeStates s = nodeStates t" "set vs = set ws"
    and "no_ties ({(k, v). nodeStates s k = Some v} \<union> set vs) ns_Timestamp"
  shows "nodeStates (fold put_node vs s) = nodeStates (fold put_node ws t)"
proof
  fix k
  have "get_node (fold put_node vs s) k = get_node (fold put_node ws t) k"
  proof (rule nodes.fold_converges)
    show "nodes.cands s vs k = nodes.cands t ws k"
      using assms(1,2) by (simp add: cands_nodes)
    show "inj_on (\<lambda>(k, v). ns_Timestamp v) (nodes.cands s vs k)"
      using assms(3) by (rule nodes_inj) (auto simp: cands_nodes)
  qed
  then show "nodeStates (fold put_node vs s) k = nodeStates (fold put_node ws t) k"
    by (rule get_node_eqD)
qed


text \<open>A merge of a peer's full state adds the peer's entries to those that compete.\<close>

lemma incident_entries_set:
  "full_orders (GetFullState now s) ord \<Longrightarrow> set (incident_entries ord (GetFullState now s)) = ran (incidents s)"
  by (simp add: incident_entries_def full_orders_def GetFullState_def ran_def) force

lemma oncall_entries_set:
  "full_orders (GetFullState now s) ord \<Longrightarrow> set (oncall_entries ord (GetFullState now s)) = ran (onCall s)"
  by (simp add: oncall_entries_def full_orders_def GetFullState_def ran_def) force

lemma node_entries_set:
  "full_orders (GetFullState now s) ord \<Longrightarrow>
     set (node_entries ord (GetFullState now s)) = {(k, v). nodeStates s k = Some v}"
  by (simp add: node_entries_def full_orders_def GetFullState_def)

text \<open>The time stamps of two states do not clash.\<close>

definition no_clash :: "SharedState \<Rightarrow> SharedState \<Rightarrow> bool" where
  "no_clash s t \<longleftrightarrow>
     no_ties ({(k, v). nodeStates s k = Some v} \<union> {(k, v). nodeStates t k = Some v}) ns_Timestamp \<and>
     no_ties ({(k, v). incidents s k = Some v} \<union> {(k, v). incidents t k = Some v}) ie_UpdatedAt \<and>
     no_ties ({(k, v). onCall s k = Some v} \<union> {(k, v). onCall t k = Some v}) oc_Timestamp"

lemma MergeFullState_cands:
  assumes "keyed t" "full_orders (GetFullState now t) ord"
  shows "nodes.cands s (node_entries ord (GetFullState now t)) k
           = {v. fst v = k \<and> (nodeStates s k = Some (snd v) \<or> nodeStates t k = Some (snd v))}"
    and "\<not> tombstoned s k \<Longrightarrow> incs.cands s (incident_entries ord (GetFullState now t)) k
           = {v. incidents s k = Some v \<or> incidents t k = Some v}"
    and "oncalls.cands s (oncall_entries ord (GetFullState now t)) k
           = {v. onCall s k = Some v \<or> onCall t k = Some v}"
  using assms(1)
  by (auto simp: cands_nodes node_entries_set [OF assms(2)] incident_entries_set [OF assms(2)]
      oncall_entries_set [OF assms(2)] incs.cands_def oncalls.cands_def keyed_def ran_def)

lemma exchange_converges:
  assumes ks: "keyed s" "keyed t" and nc: "no_clash s t"
    and os: "full_orders (GetFullState n1 t) o1" and ot: "full_orders (GetFullState n2 s) o2"
  defines "s' \<equiv> MergeFullState o1 (GetFullState n1 t) s"
    and "t' \<equiv> MergeFullState o2 (GetFullState n2 s) t"
  shows "nodeStates s' k = nodeStates t' k" (is ?N)
    and "onCall s' k = onCall t' k" (is ?O)
    and "\<not> tombstoned s k \<Longrightarrow> \<not> tombstoned t k \<Longrightarrow> incidents s' k = incidents t' k" (is "_ \<Longrightarrow> _ \<Longrightarrow> ?I")
proof -
  note C = MergeFullState_cands [OF ks(2) os] and D = MergeFullState_cands [OF ks(1) ot]
  have "get_node s' k = get_node t' k"
    unfolding s'_def t'_def get_node_MergeFullState
  proof (rule nodes.fold_converges)
    show "inj_on (\<lambda>(k, v). ns_Timestamp v) (nodes.cands s (node_entries o1 (GetFullState n1 t)) k)"
      using nc unfolding no_clash_def by (intro nodes_inj) (auto simp: C)
  qed (auto simp: C D)
  then show ?N by (rule get_node_eqD)
  let ?s1 = "fold AddIncident (incident_entries o1 (GetFullState n1 t)) (fold put_node (node_entries o1 (GetFullState n1 t)) s)"
  let ?t1 = "fold AddIncident (incident_entries o2 (GetFullState n2 s)) (fold put_node (node_entries o2 (GetFullState n2 s)) t)"
  have oc: "oncalls.cands ?s1 vs k = oncalls.cands s vs k" "oncalls.cands ?t1 vs k = oncalls.cands t vs k" for vs
    by (simp_all add: oncalls.cands_def)
  show ?O
    unfolding s'_def t'_def MergeFullState_folds
  proof (rule oncalls.fold_converges)
    show "inj_on oc_Timestamp (oncalls.cands ?s1 (oncall_entries o1 (GetFullState n1 t)) k)"
      using nc unfolding oc C(3) no_clash_def by (auto simp: no_ties_def inj_on_def)
  qed (auto simp: oc C(3) D(3))
  have ic: "incs.cands (fold put_node xs u) vs k = incs.cands u vs k" for xs u vs
    by (simp add: incs.cands_def tombstoned_def)
  assume nt: "\<not> tombstoned s k" "\<not> tombstoned t k"
  show ?I
    unfolding s'_def t'_def incidents_MergeFullState
  proof (rule incs.fold_converges)
    show "inj_on ie_UpdatedAt (incs.cands (fold put_node (node_entries o1 (GetFullState n1 t)) s)
        (incident_entries o1 (GetFullState n1 t)) k)"
      using nc unfolding ic C(2) [OF nt(1)] no_clash_def by (auto simp: no_ties_def inj_on_def)
  qed (auto simp: ic C(2) [OF nt(1)] D(2) [OF nt(2)])
qed

text \<open>A codec carries a full state when it encodes it and decodes it back.\<close>

definition carries :: "codec \<Rightarrow> FullState \<Rightarrow> bool" where
  "carries J fs \<longleftrightarrow> (case marshal_full J fs of None \<Rightarrow> False | Some d \<Rightarrow> unmarshal_full J d = Some fs)"


section \<open>Concrete clusters\<close>

definition demo_state :: "string \<Rightarrow> int \<Rightarrow> NodeState" where
  "demo_state n t = \<lparr>ns_NodeID = n, ns_Timestamp = t, CPUPercent = Fin 10, MemPercent = Fin 20,
     DiskPercent = Fin 0, LoadAverage = Fin 0, ActiveIncidents = 0, TotalRequests = t,
     ErrorRate = Fin 0, Uptime = 0, Version = ''1.0.0''\<rparr>"

definition demo_incident :: "string \<Rightarrow> int \<Rightarrow> IncidentEvent" where
  "demo_incident i t = \<lparr>ie_ID = i, ie_Title = ''disk full'', ie_Description = [], ie_Severity = ''high'',
     ie_Status = ''triggered'', ie_Service = ''api'', ie_Source = ''manual'', ie_SourceID = [],
     ie_NodeID = ''a'', ie_CreatedAt = 0, ie_UpdatedAt = t, ie_AckedAt = None, ie_ResolvedAt = None,
     ie_AckedBy = [], ie_ResolvedBy = [], ie_Resolution = [], ie_Labels = Map.empty\<rparr>"

definition demo_a :: Cluster where
  "demo_a = \<lparr>NodeName = ''a'', cstate = (NewSharedState ''a'')
     \<lparr>nodeStates := [''a'' \<mapsto> demo_state ''a'' 5, ''b'' \<mapsto> demo_state ''b'' 1],
      incidents := [''i'' \<mapsto> demo_incident ''i'' 3]\<rparr>, memberlist = Some [''a'', ''b'']\<rparr>"

definition demo_b :: Cluster where
  "demo_b = \<lparr>NodeName = ''b'', cstate = (NewSharedState ''b'')
     \<lparr>nodeStates := [''b'' \<mapsto> demo_state ''b'' 2]\<rparr>, memberlist = Some [''a'', ''b'']\<rparr>"

text \<open>A codec that knows the two full states, the node states of node \<open>b\<close> and no others.\<close>

definition demo_codec :: codec where
  "demo_codec = \<lparr>marshal_node = (\<lambda>st. if 0 \<le> ns_Timestamp st then Some [of_int (ns_Timestamp st)] else None),
     marshal_incident = (\<lambda>_. None), marshal_update = (\<lambda>_. None),
     marshal_full = (\<lambda>fs. if fs_NodeID fs = ''a'' then Some [1] else Some [2]),
     unmarshal_node = (\<lambda>d. case d of [x] \<Rightarrow> Some (demo_state ''b'' (uint x)) | _ \<Rightarrow> None),
     unmarshal_incident = (\<lambda>_. None), unmarshal_update = (\<lambda>_. None),
     unmarshal_full = (\<lambda>d. if d = [1] then Some (GetFullState 0 (cstate demo_a))
        else if d = [2] then Some (GetFullState 0 (cstate demo_b)) else None)\<rparr>"

lemmas demo_defs = demo_a_def demo_b_def demo_codec_def demo_incident_def demo_state_def
  NewSharedState_def GetFullState_def

definition demo_none :: orders where
  "demo_none = \<lparr>node_order = [], incident_order = [], oncall_order = []\<rparr>"

definition demo_gossip :: "int \<Rightarrow> go_time \<times> orders \<times> Message" where
  "demo_gossip t = (0, demo_none,
     \<lparr>msg_Type = MessageTypeNodeState, msg_NodeID = ''b'', msg_Timestamp = 0, msg_Payload = [of_int t]\<rparr>)"



section \<open>Incidents\<close>

lemma UpdatedAt_apply_op:
  assumes "\<And>now. op \<noteq> OpCleanup now" "incidents s k = Some inc"
  shows "\<exists>inc'. incidents (apply_op op s) k = Some inc' \<and> ie_UpdatedAt inc \<le> ie_UpdatedAt inc'"
proof (cases op)
  case (OpIncident i)
  then show ?thesis using incs.fold_mono [OF assms(2), of "[i]"] by simp
next
  case (OpUpdate u)
  then show ?thesis using assms(2)
    by (auto simp: UpdateIncident_def Let_def split: option.splits)
next
  case (OpFull ord fs)
  then show ?thesis
    using incs.fold_mono [of "fold put_node (node_entries ord fs) s"] assms(2)
    by (simp add: incidents_MergeFullState)
qed (use assms in auto)

text \<open>Between two cleanup ticks an incident never disappears from a node and never goes back to an
  older version, whatever local calls and messages arrive in whatever order.\<close>

theorem incident_versions_grow:
  assumes "\<forall>op \<in> set ops. \<forall>now. op \<noteq> OpCleanup now" "incidents s k = Some inc"
  shows "\<exists>inc'. incidents (fold apply_op ops s) k = Some inc' \<and> ie_UpdatedAt inc \<le> ie_UpdatedAt inc'"
  using assms
proof (induction ops arbitrary: s inc)
  case Nil
  then show ?case by simp
next
  case (Cons op ops)
  obtain i where i: "incidents (apply_op op s) k = Some i" "ie_UpdatedAt inc \<le> ie_UpdatedAt i"
    using UpdatedAt_apply_op [of op s k inc] Cons.prems by auto
  obtain j where "incidents (fold apply_op ops (apply_op op s)) k = Some j" "ie_UpdatedAt i \<le> ie_UpdatedAt j"
    using Cons.IH [of "apply_op op s" i] Cons.prems(1) i(1) by auto
  with i(2) show ?case by auto
qed

definition demo_ack :: IncidentUpdate where
  "demo_ack = \<lparr>iu_IncidentID = ''i'', iu_Status = ''acknowledged'', iu_User = ''ann'', iu_NodeID = ''a'',
     iu_Timestamp = 5, iu_Resolution = []\<rparr>"

definition demo_resolve :: IncidentUpdate where
  "demo_resolve = \<lparr>iu_IncidentID = ''i'', iu_Status = ''resolved'', iu_User = ''ann'', iu_NodeID = ''a'',
     iu_Timestamp = 4, iu_Resolution = ''fixed''\<rparr>"

theorem incident_versions_grow_witness:
  "\<exists>inc'. incidents (fold apply_op [OpUpdate demo_ack, OpIncident (demo_incident ''i'' 4)] (cstate demo_a)) ''i''
     = Some inc' \<and> ie_UpdatedAt (demo_incident ''i'' 3) \<le> ie_UpdatedAt inc'"
  by (rule incident_versions_grow) (simp_all add: demo_a_def)

text \<open>What can still touch an incident with a tombstone: a status update of that incident, and a
  cleanup more than a day after the tombstone.\<close>

fun keeps_tombstone :: "string \<Rightarrow> go_time \<Rightarrow> fed_op \<Rightarrow> bool" where
  "keeps_tombstone k ts (OpUpdate u) = (iu_IncidentID u \<noteq> k)"
| "keeps_tombstone k ts (OpCleanup now) = (now - 24 * hour \<le> ts)"
| "keeps_tombstone k ts op = True"

lemma tombstoned_apply_op:
  assumes "keeps_tombstone k ts op" "tombstones s k = Some ts" "incidents s k = Some inc"
    and "ie_ResolvedAt inc = Some ts"
  shows "tombstones (apply_op op s) k = Some ts \<and> incidents (apply_op op s) k = Some inc"
proof (cases op)
  case (OpIncident i)
  then show ?thesis using assms by (auto simp: AddIncident_def)
next
  case (OpUpdate u)
  then show ?thesis using assms by (auto simp: UpdateIncident_def Let_def split: option.splits)
next
  case (OpFull ord fs)
  then show ?thesis using assms
    by (simp add: incidents_MergeFullState incs.get_blocked tombstoned_def)
next
  case (OpCleanup now)
  then show ?thesis using assms by (simp add: cleanupTombstones_def Let_def)
qed (use assms in auto)

text \<open>C7. A resolved incident is not resurrected: once a node has applied a newer status update that
  resolves an incident, every copy of it that arrives later (a late incident message, an older or
  newer version in a peer's full state) leaves it as it was resolved, for the 24 hours that the
  tombstone is kept, through any run of operations without another status update of it.\<close>

theorem resolved_incident_not_resurrected:
  assumes "incidents s (iu_IncidentID u) = Some inc" "ie_UpdatedAt inc < iu_Timestamp u"
    and "iu_Status u = ''resolved''"
    and "\<forall>op \<in> set ops. keeps_tombstone (iu_IncidentID u) (iu_Timestamp u) op"
  shows "incidents (fold apply_op ops (UpdateIncident u s)) (iu_IncidentID u) = Some (apply_update u inc) \<and>
    ie_Status (apply_update u inc) = ''resolved''"
proof -
  let ?P = "\<lambda>s. tombstones s (iu_IncidentID u) = Some (iu_Timestamp u) \<and>
    incidents s (iu_IncidentID u) = Some (apply_update u inc)"
  have "?P (fold apply_op ops (UpdateIncident u s))"
  proof (rule fold_inv)
    show "?P (UpdateIncident u s)" using assms by (simp add: UpdateIncident_def Let_def)
    show "?P (apply_op op t)" if "op \<in> set ops" "?P t" for op t
      using that assms by (intro tombstoned_apply_op) (auto simp: apply_update_def Let_def)
  qed
  then show ?thesis using assms(3) by simp
qed

theorem resolved_incident_not_resurrected_witness:
  "incidents (fold apply_op [OpIncident (demo_incident ''i'' 9), OpCleanup hour]
     (UpdateIncident demo_resolve (cstate demo_a))) ''i'' = Some (apply_update demo_resolve (demo_incident ''i'' 3))"
  using resolved_incident_not_resurrected [of "cstate demo_a" demo_resolve "demo_incident ''i'' 3"
      "[OpIncident (demo_incident ''i'' 9), OpCleanup hour]"]
  by (simp add: demo_a_def demo_resolve_def demo_incident_def)

text \<open>A status update that overtakes its incident is lost: a node that sees the update first drops it
  and then shows the incident as not updated, while a node that sees them in order applies it;
  merging the second node's full state repairs the incident but leaves no tombstone.\<close>

theorem early_update_is_lost:
  assumes "keyed s" "incidents s (ie_ID inc) = None" "tombstones s (ie_ID inc) = None"
    and "iu_IncidentID u = ie_ID inc" "ie_UpdatedAt inc < iu_Timestamp u" "iu_Status u = ''resolved''"
    and "full_orders (GetFullState now (UpdateIncident u (AddIncident inc s))) ord"
  shows "incidents (UpdateIncident u (AddIncident inc s)) (ie_ID inc) = Some (apply_update u inc) \<and>
      incidents (AddIncident inc (UpdateIncident u s)) (ie_ID inc) = Some inc \<and>
      (let t = MergeFullState ord (GetFullState now (UpdateIncident u (AddIncident inc s)))
                 (AddIncident inc (UpdateIncident u s))
       in incidents t (ie_ID inc) = Some (apply_update u inc) \<and> tombstones t (ie_ID inc) = None)"
proof -
  let ?g = "UpdateIncident u (AddIncident inc s)" and ?l = "AddIncident inc (UpdateIncident u s)"
  have g: "incidents ?g (ie_ID inc) = Some (apply_update u inc)"
    using assms by (simp add: AddIncident_def UpdateIncident_def Let_def)
  have l: "UpdateIncident u s = s" "incidents ?l (ie_ID inc) = Some inc"
    using assms by (simp_all add: AddIncident_def UpdateIncident_def)
  have "incidents (MergeFullState ord (GetFullState now ?g) ?l) (ie_ID inc) = Some (apply_update u inc)"
  proof -
    have "keyed ?g" using assms(1) keyed_AddIncident keyed_apply_op [of _ "OpUpdate u"] by simp
    moreover have "\<not> tombstoned ?l (ie_ID inc)" using assms l(1) by (simp add: tombstoned_def)
    ultimately have C: "incs.cands (fold put_node (node_entries ord (GetFullState now ?g)) ?l)
        (incident_entries ord (GetFullState now ?g)) (ie_ID inc) = {inc, apply_update u inc}"
      using MergeFullState_cands(2) [OF _ assms(7), of ?l "ie_ID inc"] g l
      by (auto simp: incs.cands_def tombstoned_def)
    show ?thesis
      unfolding incidents_MergeFullState
      using incs.fold_max [of "apply_update u inc"] incs.fold_mem C assms(5)
      by (metis apply_update_simps(3) insert_iff linorder_not_less singletonD)
  qed
  then show ?thesis using g l assms(3) by (simp add: Let_def)
qed

theorem early_update_is_lost_witness:
  "incidents (AddIncident (demo_incident ''i'' 3) (UpdateIncident demo_resolve (NewSharedState ''a''))) ''i''
     = Some (demo_incident ''i'' 3)"
  using early_update_is_lost [of "NewSharedState ''a''" "demo_incident ''i'' 3" demo_resolve 0
      "\<lparr>node_order = [], incident_order = [''i''], oncall_order = []\<rparr>"]
  by (simp add: keyed_def NewSharedState_def demo_incident_def demo_resolve_def full_orders_def
      range_order_def GetFullState_def AddIncident_def UpdateIncident_def Let_def apply_update_def)

text \<open>An incident that is reopened by a status update keeps its tombstone: every later incident
  message and full state about it is ignored, however new, until a cleanup more than 24 hours
  after the resolution removes the tombstone.\<close>

theorem reopened_incident_ignores_incidents:
  assumes "incidents s (iu_IncidentID r) = Some inc" "tombstones s (iu_IncidentID r) = Some ts"
    and "ie_UpdatedAt inc < iu_Timestamp r" "iu_Status r \<noteq> ''resolved''"
    and "\<forall>op \<in> set ops. (\<exists>i. op = OpIncident i) \<or> (\<exists>ord fs. op = OpFull ord fs)"
  shows "incidents (fold apply_op ops (UpdateIncident r s)) (iu_IncidentID r) = Some (apply_update r inc) \<and>
    ie_Status (apply_update r inc) = iu_Status r"
proof -
  let ?P = "\<lambda>s. tombstones s (iu_IncidentID r) = Some ts \<and>
    incidents s (iu_IncidentID r) = Some (apply_update r inc)"
  have "?P (fold apply_op ops (UpdateIncident r s))"
  proof (rule fold_inv)
    show "?P (UpdateIncident r s)" using assms by (simp add: UpdateIncident_def Let_def)
    show "?P (apply_op op t)" if "op \<in> set ops" "?P t" for op t
    proof -
      from that assms(5) consider i where "op = OpIncident i" | ord fs where "op = OpFull ord fs" by blast
      then show ?thesis using that(2)
        by cases (auto simp: AddIncident_def incidents_MergeFullState incs.get_blocked tombstoned_def)
    qed
  qed
  then show ?thesis by simp
qed

theorem reopened_incident_ignores_incidents_witness:
  "incidents (fold apply_op [OpIncident (demo_incident ''i'' 9)]
     (UpdateIncident demo_ack (UpdateIncident demo_resolve (cstate demo_a)))) ''i''
   = Some (apply_update demo_ack (apply_update demo_resolve (demo_incident ''i'' 3)))"
  using reopened_incident_ignores_incidents [of "UpdateIncident demo_resolve (cstate demo_a)" demo_ack
      "apply_update demo_resolve (demo_incident ''i'' 3)" 4 "[OpIncident (demo_incident ''i'' 9)]"]
  by (simp add: UpdateIncident_def Let_def demo_a_def demo_resolve_def demo_ack_def demo_incident_def)

section \<open>Metrics\<close>

lemma AddMetricsSummary_last12:
  assumes "metrics s = (\<lambda>k. let l = filter (\<lambda>m. ms_NodeID m = k) xs
                       in if l = [] then None else Some (drop (length l - 12) l))"
  shows "metrics (AddMetricsSummary x s) = (\<lambda>k. let l = filter (\<lambda>m. ms_NodeID m = k) (xs @ [x])
                       in if l = [] then None else Some (drop (length l - 12) l))"
proof
  fix k
  let ?l = "filter (\<lambda>m. ms_NodeID m = ms_NodeID x) xs"
  have d: "drop (Suc (length ?l) - 12) (?l @ [x]) = (if 12 \<le> length (drop (length ?l - 12) ?l)
      then drop 1 (drop (length ?l - 12) ?l) else drop (length ?l - 12) ?l) @ [x]"
  proof (cases "12 \<le> length ?l")
    case True
    then have "Suc (length ?l - 12) = Suc (length ?l) - 12" by arith
    with True show ?thesis by simp
  qed simp
  show "metrics (AddMetricsSummary x s) k = (let l = filter (\<lambda>m. ms_NodeID m = k) (xs @ [x])
                       in if l = [] then None else Some (drop (length l - 12) l))"
    using d by (cases "k = ms_NodeID x"; cases "?l = []")
      (auto simp: AddMetricsSummary_def assms Let_def split: if_splits)
qed

text \<open>The metrics window of a node is exactly the last twelve summaries received for it, in order
  of arrival, so it never holds more than twelve.\<close>

theorem metrics_window:
  "metrics (fold AddMetricsSummary xs (NewSharedState n)) k =
     (let l = filter (\<lambda>m. ms_NodeID m = k) xs
      in if l = [] then None else Some (drop (length l - 12) l))"
proof -
  have "metrics (fold AddMetricsSummary xs (NewSharedState n)) =
     (\<lambda>k. let l = filter (\<lambda>m. ms_NodeID m = k) xs
      in if l = [] then None else Some (drop (length l - 12) l))"
  proof (induction xs rule: rev_induct)
    case Nil
    then show ?case by (simp add: NewSharedState_def)
  next
    case (snoc x xs)
    then show ?case by (simp only: fold_append fold_simps comp_def) (rule AddMetricsSummary_last12)
  qed
  then show ?thesis by simp
qed

end
