(* ===== verification/Alert_Store.thy ===== *)
theory Alert_Store
  imports Dogwatch_Prelude
begin

text \<open>
  The data types of the alerting subsystem and its store (\<open>internal/alerting/rule.go\<close> and the
  store methods of \<open>inhibitor.go\<close>). The SQLite tables are lists of rows in insertion order, and each
  method is the statement it executes: primary keys reject a second insert, \<open>INSERT OR REPLACE\<close>
  replaces, \<open>ORDER BY\<close> is a stable sort, foreign keys are checked when the connection enforces them
  (\<open>fk_on\<close>; \<open>storage.ConfigureDB\<close> switches that on), and every statement fails while the database
  does (\<open>db_ok\<close>). JSON columns hold the value they encode; encoding fails on numbers that are not
  finite. Database times are whole seconds, and SQLite stores a NaN as NULL.
\<close>

section \<open>Types\<close>

datatype RuleType = RuleTypeThreshold | RuleTypeAnomaly | RuleTypeComposite | RuleTypeChange
  | RuleTypeAbsence | RuleTypeOther string

datatype Severity = SeverityCritical | SeverityWarning | SeverityInfo

datatype AlertState = StateInactive | StatePending | StateFiring | StateResolved

type_synonym labels = "string \<rightharpoonup> string"

text \<open>Indexing a Go map of strings: a missing key reads as the empty string.\<close>

definition label :: "labels \<Rightarrow> string \<Rightarrow> string" where
  "label ls k = (case ls k of None \<Rightarrow> [] | Some v \<Rightarrow> v)"

record Rule =
  r_ID :: string
  r_Name :: string
  r_Description :: string
  r_Type :: RuleType
  r_Enabled :: bool
  r_Labels :: labels
  r_Annotations :: labels
  r_Query :: string
  r_Metric :: string
  r_GroupBy :: "string list"
  r_Condition :: string
  r_Threshold :: f64
  r_Threshold2 :: f64
  r_Sensitivity :: f64
  r_Algorithm :: string
  r_ChangeType :: string
  r_ChangeWindow :: string
  r_ChangeThreshold :: f64
  r_Expression :: string
  r_SubRules :: "string list"
  r_EvalInterval :: duration
  r_ForDuration :: duration
  r_KeepFiringFor :: duration
  r_NotifyChannels :: "string list"
  r_EscalationID :: string
  r_CreatedAt :: go_time
  r_UpdatedAt :: go_time
  r_CreatedBy :: string

record Alert =
  a_ID :: string
  a_RuleID :: string
  a_RuleName :: string
  a_State :: AlertState
  a_Severity :: Severity
  a_Labels :: labels
  a_Annotations :: labels
  a_Value :: f64
  a_Threshold :: f64
  a_StartsAt :: go_time
  a_EndsAt :: "go_time option"
  a_FiredAt :: "go_time option"
  a_ResolvedAt :: "go_time option"
  a_LastEvalAt :: go_time
  a_NotifiedAt :: "go_time option"
  a_AcknowledgedAt :: "go_time option"
  a_AcknowledgedBy :: string
  a_Fingerprint :: string

record Matcher =
  m_Name :: string
  m_Value :: string
  m_IsRegex :: bool
  m_IsEqual :: bool

record Silence =
  s_ID :: string
  s_Matchers :: "Matcher list"
  s_StartsAt :: go_time
  s_EndsAt :: go_time
  s_CreatedBy :: string
  s_Comment :: string
  s_CreatedAt :: go_time

record InhibitRule =
  ir_ID :: string
  ir_Name :: string
  ir_SourceMatch :: "Matcher list"
  ir_TargetMatch :: "Matcher list"
  ir_EqualLabels :: "string list"
  ir_CreatedAt :: go_time

datatype Route = Route (rt_ID: string) (rt_Name: string) (rt_Matchers: "Matcher list")
  (rt_Receiver: string) (rt_GroupBy: "string list") (rt_GroupWait: duration)
  (rt_GroupInterval: duration) (rt_RepeatInterval: duration)
  (rt_MuteTimeIntervals: "string list") (rt_Continue: bool) (rt_Children: "Route list")

section \<open>The tables\<close>

text \<open>\<open>Time.Unix()\<close> and \<open>time.Unix(n, 0)\<close>.\<close>

definition to_unix :: "go_time \<Rightarrow> int" where "to_unix t = t div second"
definition of_unix :: "int \<Rightarrow> go_time" where "of_unix n = n * second"

definition trunc_sec :: "go_time \<Rightarrow> go_time" where "trunc_sec t = of_unix (to_unix t)"

text \<open>The \<open>config\<close> column is empty when the rule cannot be encoded.\<close>

record RuleRow =
  rr_id :: string
  rr_name :: string
  rr_description :: string
  rr_type :: RuleType
  rr_enabled :: bool
  rr_config :: "Rule option"
  rr_created_at :: int
  rr_updated_at :: int
  rr_created_by :: string

record AlertRow =
  ar_id :: string
  ar_rule_id :: string
  ar_fingerprint :: string
  ar_state :: AlertState
  ar_severity :: Severity
  ar_labels :: labels
  ar_annotations :: labels
  ar_value :: "f64 option"
  ar_starts_at :: int
  ar_ends_at :: "int option"
  ar_fired_at :: "int option"
  ar_resolved_at :: "int option"
  ar_last_eval_at :: int
  ar_notified_at :: "int option"
  ar_acknowledged_at :: "int option"
  ar_acknowledged_by :: string

record SilenceRow =
  sr_id :: string
  sr_matchers :: "Matcher list"
  sr_starts_at :: int
  sr_ends_at :: int
  sr_created_by :: string
  sr_comment :: string
  sr_created_at :: int

record Store =
  db_ok :: bool
  fk_on :: bool
  alert_rules :: "RuleRow list"
  alerts_table :: "AlertRow list"
  silences :: "SilenceRow list"
  inhibit_rules :: "InhibitRule list"

definition NewStore :: Store where
  "NewStore = \<lparr>db_ok = True, fk_on = True, alert_rules = [], alerts_table = [], silences = [],
     inhibit_rules = []\<rparr>"

section \<open>Rules\<close>

definition finite_f64 :: "f64 \<Rightarrow> bool" where
  "finite_f64 x \<longleftrightarrow> x \<noteq> NaN \<and> x \<noteq> PosInf \<and> x \<noteq> NegInf"

definition rule_json :: "Rule \<Rightarrow> Rule option" where
  "rule_json r = (if finite_f64 (r_Threshold r) \<and> finite_f64 (r_Threshold2 r) \<and>
     finite_f64 (r_Sensitivity r) \<and> finite_f64 (r_ChangeThreshold r) then Some r else None)"

definition CreateRule :: "go_time \<Rightarrow> Rule \<Rightarrow> Store \<Rightarrow> Store outcome" where
  "CreateRule now rule0 s =
     (let rule = rule0\<lparr>r_CreatedAt := now, r_UpdatedAt := now\<rparr>
      in if \<not> db_ok s then Error ''database''
         else if r_ID rule \<in> rr_id ` set (alert_rules s) then Error ''UNIQUE constraint failed''
         else Return (s\<lparr>alert_rules := alert_rules s @ [\<lparr>rr_id = r_ID rule, rr_name = r_Name rule,
           rr_description = r_Description rule, rr_type = r_Type rule, rr_enabled = r_Enabled rule,
           rr_config = rule_json rule, rr_created_at = to_unix now, rr_updated_at = to_unix now,
           rr_created_by = r_CreatedBy rule\<rparr>]\<rparr>))"

definition GetRule :: "string \<Rightarrow> Store \<Rightarrow> Rule outcome" where
  "GetRule rid s =
     (if \<not> db_ok s then Error ''database''
      else case find (\<lambda>row. rr_id row = rid) (alert_rules s) of
        None \<Rightarrow> Error ''sql: no rows in result set''
      | Some row \<Rightarrow> (case rr_config row of None \<Rightarrow> Error ''unexpected end of JSON input''
                     | Some rule \<Rightarrow> Return rule))"

definition UpdateRule :: "go_time \<Rightarrow> Rule \<Rightarrow> Store \<Rightarrow> Store outcome" where
  "UpdateRule now rule0 s =
     (let rule = rule0\<lparr>r_UpdatedAt := now\<rparr>
      in if \<not> db_ok s then Error ''database''
         else Return (s\<lparr>alert_rules := map (\<lambda>row. if rr_id row = r_ID rule
            then row\<lparr>rr_name := r_Name rule, rr_description := r_Description rule,
              rr_type := r_Type rule, rr_enabled := r_Enabled rule, rr_config := rule_json rule,
              rr_updated_at := to_unix now\<rparr>
            else row) (alert_rules s)\<rparr>))"

text \<open>Deleting a rule that an alert row references violates the foreign key.\<close>

definition DeleteRule :: "string \<Rightarrow> Store \<Rightarrow> Store outcome" where
  "DeleteRule rid s =
     (if \<not> db_ok s then Error ''database''
      else if fk_on s \<and> rid \<in> rr_id ` set (alert_rules s) \<and> rid \<in> ar_rule_id ` set (alerts_table s)
      then Error ''FOREIGN KEY constraint failed''
      else Return (s\<lparr>alert_rules := filter (\<lambda>row. rr_id row \<noteq> rid) (alert_rules s)\<rparr>))"

definition rules_of :: "RuleRow list \<Rightarrow> Rule list" where
  "rules_of rows = List.map_filter rr_config (sort_key rr_name rows)"

definition ListRules :: "Store \<Rightarrow> Rule list outcome" where
  "ListRules s = (if \<not> db_ok s then Error ''database'' else Return (rules_of (alert_rules s)))"

definition ListEnabledRules :: "Store \<Rightarrow> Rule list outcome" where
  "ListEnabledRules s = (if \<not> db_ok s then Error ''database''
     else Return (rules_of (filter rr_enabled (alert_rules s))))"

section \<open>Alerts\<close>

definition alert_row :: "Alert \<Rightarrow> AlertRow" where
  "alert_row a = \<lparr>ar_id = a_ID a, ar_rule_id = a_RuleID a, ar_fingerprint = a_Fingerprint a,
     ar_state = a_State a, ar_severity = a_Severity a, ar_labels = a_Labels a,
     ar_annotations = a_Annotations a,
     ar_value = (if a_Value a = NaN then None else Some (a_Value a)),
     ar_starts_at = to_unix (a_StartsAt a), ar_ends_at = map_option to_unix (a_EndsAt a),
     ar_fired_at = map_option to_unix (a_FiredAt a),
     ar_resolved_at = map_option to_unix (a_ResolvedAt a),
     ar_last_eval_at = to_unix (a_LastEvalAt a), ar_notified_at = map_option to_unix (a_NotifiedAt a),
     ar_acknowledged_at = map_option to_unix (a_AcknowledgedAt a),
     ar_acknowledged_by = a_AcknowledgedBy a\<rparr>"

definition SaveAlert :: "Alert \<Rightarrow> Store \<Rightarrow> Store outcome" where
  "SaveAlert alert s =
     (if \<not> db_ok s then Error ''database''
      else if fk_on s \<and> a_RuleID alert \<notin> rr_id ` set (alert_rules s)
      then Error ''FOREIGN KEY constraint failed''
      else Return (s\<lparr>alerts_table := filter (\<lambda>row. ar_id row \<noteq> a_ID alert) (alerts_table s)
                       @ [alert_row alert]\<rparr>))"

text \<open>A NULL value cannot be scanned into a \<open>float64\<close>. The rule name and the threshold are not
  columns of the table.\<close>

definition getAlert :: "string \<Rightarrow> Store \<Rightarrow> Alert outcome" where
  "getAlert aid s =
     (if \<not> db_ok s then Error ''database''
      else case find (\<lambda>row. ar_id row = aid) (alerts_table s) of
        None \<Rightarrow> Error ''sql: no rows in result set''
      | Some row \<Rightarrow> (case ar_value row of
          None \<Rightarrow> Error ''converting NULL to float64 is unsupported''
        | Some v \<Rightarrow> Return \<lparr>a_ID = ar_id row, a_RuleID = ar_rule_id row, a_RuleName = [],
            a_State = ar_state row, a_Severity = ar_severity row, a_Labels = ar_labels row,
            a_Annotations = ar_annotations row, a_Value = v, a_Threshold = Fin 0,
            a_StartsAt = of_unix (ar_starts_at row), a_EndsAt = map_option of_unix (ar_ends_at row),
            a_FiredAt = map_option of_unix (ar_fired_at row),
            a_ResolvedAt = map_option of_unix (ar_resolved_at row),
            a_LastEvalAt = of_unix (ar_last_eval_at row),
            a_NotifiedAt = map_option of_unix (ar_notified_at row),
            a_AcknowledgedAt = map_option of_unix (ar_acknowledged_at row),
            a_AcknowledgedBy = ar_acknowledged_by row, a_Fingerprint = ar_fingerprint row\<rparr>))"

definition GetAlert :: "string \<Rightarrow> Store \<Rightarrow> Alert outcome" where
  "GetAlert aid s = getAlert aid s"

definition newest_first :: "AlertRow list \<Rightarrow> AlertRow list" where
  "newest_first rows = sort_key (\<lambda>row. - ar_starts_at row) rows"

definition GetAlertByFingerprint :: "string \<Rightarrow> Store \<Rightarrow> Alert outcome" where
  "GetAlertByFingerprint fp s =
     (if \<not> db_ok s then Error ''database''
      else case newest_first (filter (\<lambda>row. ar_fingerprint row = fp) (alerts_table s)) of
        [] \<Rightarrow> Error ''sql: no rows in result set''
      | row # _ \<Rightarrow> getAlert (ar_id row) s)"

text \<open>The argument is \<open>None\<close> for the empty state, which lists all alerts.\<close>

definition ListAlerts :: "AlertState option \<Rightarrow> Store \<Rightarrow> Alert list outcome" where
  "ListAlerts state s =
     (if \<not> db_ok s then Error ''database''
      else Return (List.map_filter
        (\<lambda>row. case getAlert (ar_id row) s of Return a \<Rightarrow> Some a | _ \<Rightarrow> None)
        (take 1000 (newest_first (filter (\<lambda>row. case state of None \<Rightarrow> True
           | Some st \<Rightarrow> ar_state row = st) (alerts_table s))))))"

definition ListFiringAlerts :: "Store \<Rightarrow> Alert list outcome" where
  "ListFiringAlerts s = ListAlerts (Some StateFiring) s"

section \<open>Silences\<close>

definition CreateSilence :: "go_time \<Rightarrow> Silence \<Rightarrow> Store \<Rightarrow> Store outcome" where
  "CreateSilence now silence s =
     (if \<not> db_ok s then Error ''database''
      else if s_ID silence \<in> sr_id ` set (silences s) then Error ''UNIQUE constraint failed''
      else Return (s\<lparr>silences := silences s @ [\<lparr>sr_id = s_ID silence, sr_matchers = s_Matchers silence,
        sr_starts_at = to_unix (s_StartsAt silence), sr_ends_at = to_unix (s_EndsAt silence),
        sr_created_by = s_CreatedBy silence, sr_comment = s_Comment silence,
        sr_created_at = to_unix now\<rparr>]\<rparr>))"

definition DeleteSilence :: "string \<Rightarrow> Store \<Rightarrow> Store outcome" where
  "DeleteSilence sid s = (if \<not> db_ok s then Error ''database''
     else Return (s\<lparr>silences := filter (\<lambda>row. sr_id row \<noteq> sid) (silences s)\<rparr>))"

definition silence_of :: "SilenceRow \<Rightarrow> Silence" where
  "silence_of row = \<lparr>s_ID = sr_id row, s_Matchers = sr_matchers row,
     s_StartsAt = of_unix (sr_starts_at row), s_EndsAt = of_unix (sr_ends_at row),
     s_CreatedBy = sr_created_by row, s_Comment = sr_comment row,
     s_CreatedAt = of_unix (sr_created_at row)\<rparr>"

definition ListActiveSilences :: "go_time \<Rightarrow> Store \<Rightarrow> Silence list outcome" where
  "ListActiveSilences now s = (if \<not> db_ok s then Error ''database''
     else Return (map silence_of (filter (\<lambda>row. sr_starts_at row \<le> to_unix now \<and>
       to_unix now < sr_ends_at row) (silences s))))"

definition GetSilence :: "string \<Rightarrow> Store \<Rightarrow> Silence outcome" where
  "GetSilence sid s =
     (if \<not> db_ok s then Error ''database''
      else case find (\<lambda>row. sr_id row = sid) (silences s) of
        None \<Rightarrow> Error ''sql: no rows in result set''
      | Some row \<Rightarrow> Return (silence_of row))"

definition ListAllSilences :: "Store \<Rightarrow> Silence list outcome" where
  "ListAllSilences s = (if \<not> db_ok s then Error ''database''
     else Return (map silence_of (sort_key (\<lambda>row. - sr_starts_at row) (silences s))))"

definition UpdateSilence :: "Silence \<Rightarrow> Store \<Rightarrow> Store outcome" where
  "UpdateSilence silence s = (if \<not> db_ok s then Error ''database''
     else Return (s\<lparr>silences := map (\<lambda>row. if sr_id row = s_ID silence
       then row\<lparr>sr_matchers := s_Matchers silence, sr_starts_at := to_unix (s_StartsAt silence),
                sr_ends_at := to_unix (s_EndsAt silence), sr_comment := s_Comment silence\<rparr>
       else row) (silences s)\<rparr>))"

definition ExpireSilence :: "go_time \<Rightarrow> string \<Rightarrow> Store \<Rightarrow> Store outcome" where
  "ExpireSilence now sid s = (if \<not> db_ok s then Error ''database''
     else Return (s\<lparr>silences := map (\<lambda>row. if sr_id row = sid \<and> to_unix now < sr_ends_at row
       then row\<lparr>sr_ends_at := to_unix now\<rparr> else row) (silences s)\<rparr>))"

definition CleanupExpiredSilences :: "go_time \<Rightarrow> duration \<Rightarrow> Store \<Rightarrow> Store outcome" where
  "CleanupExpiredSilences now olderThan s = (if \<not> db_ok s then Error ''database''
     else Return (s\<lparr>silences := filter (\<lambda>row. \<not> sr_ends_at row < to_unix (now - olderThan)) (silences s)\<rparr>))"

datatype SilenceState = SilenceStateActive | SilenceStatePending | SilenceStateExpired

definition GetState :: "go_time \<Rightarrow> Silence \<Rightarrow> SilenceState" where
  "GetState now silence =
     (if now < s_StartsAt silence then SilenceStatePending
      else if s_EndsAt silence < now then SilenceStateExpired
      else SilenceStateActive)"

definition ListSilencesWithState :: "go_time \<Rightarrow> Store \<Rightarrow> (Silence \<times> SilenceState) list outcome" where
  "ListSilencesWithState now s =
     (case ListAllSilences s of
        Return sils \<Rightarrow> Return (map (\<lambda>silence. (silence, GetState now silence)) sils)
      | Error e \<Rightarrow> Error e | Panic \<Rightarrow> Panic)"

section \<open>Inhibition rules\<close>

definition ListInhibitRules :: "Store \<Rightarrow> InhibitRule list outcome" where
  "ListInhibitRules s = (if \<not> db_ok s then Error ''database'' else Return (inhibit_rules s))"

definition CreateInhibitRule :: "go_time \<Rightarrow> InhibitRule \<Rightarrow> Store \<Rightarrow> Store outcome" where
  "CreateInhibitRule now rule s =
     (if \<not> db_ok s then Error ''database''
      else if ir_ID rule \<in> ir_ID ` set (inhibit_rules s) then Error ''UNIQUE constraint failed''
      else Return (s\<lparr>inhibit_rules := inhibit_rules s @ [rule\<lparr>ir_CreatedAt := trunc_sec now\<rparr>]\<rparr>))"

definition DeleteInhibitRule :: "string \<Rightarrow> Store \<Rightarrow> Store outcome" where
  "DeleteInhibitRule rid s = (if \<not> db_ok s then Error ''database''
     else Return (s\<lparr>inhibit_rules := filter (\<lambda>rule. ir_ID rule \<noteq> rid) (inhibit_rules s)\<rparr>))"

section \<open>Properties\<close>

definition truncate_alert :: "Alert \<Rightarrow> Alert" where
  "truncate_alert a = a\<lparr>a_RuleName := [], a_Threshold := Fin 0, a_StartsAt := trunc_sec (a_StartsAt a),
     a_EndsAt := map_option trunc_sec (a_EndsAt a), a_FiredAt := map_option trunc_sec (a_FiredAt a),
     a_ResolvedAt := map_option trunc_sec (a_ResolvedAt a), a_LastEvalAt := trunc_sec (a_LastEvalAt a),
     a_NotifiedAt := map_option trunc_sec (a_NotifiedAt a),
     a_AcknowledgedAt := map_option trunc_sec (a_AcknowledgedAt a)\<rparr>"

lemma find_filter_append:
  "(\<forall>x \<in> set xs. \<not> P x) \<Longrightarrow> P y \<Longrightarrow> find P (xs @ [y]) = Some y"
  by (induction xs) auto

lemma map_option_trunc: "map_option of_unix (map_option to_unix t) = map_option trunc_sec t"
  by (cases t) (simp_all add: trunc_sec_def)

lemma getAlert_saved:
  assumes "SaveAlert a s = Return s'" "a_Value a \<noteq> NaN"
  shows "getAlert (a_ID a) s' = Return (truncate_alert a)"
proof -
  have s': "db_ok s'" "alerts_table s' = filter (\<lambda>row. ar_id row \<noteq> a_ID a) (alerts_table s) @ [alert_row a]"
    using assms(1) by (auto simp: SaveAlert_def split: if_splits)
  have "find (\<lambda>row. ar_id row = a_ID a) (alerts_table s') = Some (alert_row a)"
    unfolding s' by (rule find_filter_append) (simp_all add: alert_row_def)
  then show ?thesis
    using s'(1) assms(2)
    by (simp add: getAlert_def alert_row_def map_option_trunc truncate_alert_def trunc_sec_def)
qed

text \<open>Reading back a saved alert gives the alert with its times cut to whole seconds, and without
  its rule name and threshold, which the table does not store; every other alert is read as before.\<close>

theorem alert_round_trip:
  assumes "SaveAlert a s = Return s'" "a_Value a \<noteq> NaN"
  shows "GetAlert (a_ID a) s' = Return (truncate_alert a) \<and>
    (\<forall>aid. aid \<noteq> a_ID a \<longrightarrow> GetAlert aid s' = GetAlert aid s)"
proof -
  have s': "db_ok s' = db_ok s" "alerts_table s' = filter (\<lambda>row. ar_id row \<noteq> a_ID a) (alerts_table s) @ [alert_row a]"
    using assms(1) by (auto simp: SaveAlert_def split: if_splits)
  have "find (\<lambda>row. ar_id row = aid) (filter (\<lambda>row. ar_id row \<noteq> a_ID a) xs @ [alert_row a])
      = find (\<lambda>row. ar_id row = aid) xs" if "aid \<noteq> a_ID a" for aid xs
    using that by (induction xs) (auto simp: alert_row_def)
  then have "getAlert aid s' = getAlert aid s" if "aid \<noteq> a_ID a" for aid
    using that by (simp add: getAlert_def s')
  then show ?thesis using getAlert_saved [OF assms] by (simp add: GetAlert_def)
qed

definition demo_alert :: "string \<Rightarrow> Alert" where
  "demo_alert i = \<lparr>a_ID = i, a_RuleID = ''r1'', a_RuleName = ''High CPU'', a_State = StateFiring,
     a_Severity = SeverityWarning, a_Labels = [''service'' \<mapsto> ''api'', ''alertname'' \<mapsto> ''cpu''],
     a_Annotations = Map.empty, a_Value = Fin 97, a_Threshold = Fin 90, a_StartsAt = 1500000000,
     a_EndsAt = None, a_FiredAt = Some 2000000001, a_ResolvedAt = None, a_LastEvalAt = 2000000001,
     a_NotifiedAt = None, a_AcknowledgedAt = None, a_AcknowledgedBy = [], a_Fingerprint = ''f'' @ i\<rparr>"

definition demo_rule :: Rule where
  "demo_rule = \<lparr>r_ID = ''r1'', r_Name = ''High CPU'', r_Description = [], r_Type = RuleTypeThreshold,
     r_Enabled = True, r_Labels = [''severity'' \<mapsto> ''critical''], r_Annotations = Map.empty,
     r_Query = ''cpu'', r_Metric = [], r_GroupBy = [], r_Condition = ''gt'', r_Threshold = Fin 90,
     r_Threshold2 = Fin 0, r_Sensitivity = Fin 0, r_Algorithm = [], r_ChangeType = [],
     r_ChangeWindow = [], r_ChangeThreshold = Fin 0, r_Expression = [], r_SubRules = [],
     r_EvalInterval = minute, r_ForDuration = 5 * minute, r_KeepFiringFor = 0, r_NotifyChannels = [],
     r_EscalationID = [], r_CreatedAt = 0, r_UpdatedAt = 0, r_CreatedBy = []\<rparr>"

definition demo_store :: Store where
  "demo_store = (case CreateRule 0 demo_rule NewStore of Return s \<Rightarrow> s | _ \<Rightarrow> NewStore)"

lemma demo_store_simps [simp]:
  "db_ok demo_store" "fk_on demo_store" "rr_id ` set (alert_rules demo_store) = {''r1''}"
  "alerts_table demo_store = []" "silences demo_store = []"
  by (simp_all add: demo_store_def CreateRule_def demo_rule_def NewStore_def)

theorem alert_round_trip_witness:
  "\<exists>s'. SaveAlert (demo_alert ''x'') demo_store = Return s' \<and>
     GetAlert ''x'' s' = Return (truncate_alert (demo_alert ''x''))"
proof -
  obtain s' where s': "SaveAlert (demo_alert ''x'') demo_store = Return s'"
    by (simp add: SaveAlert_def demo_alert_def)
  then have "GetAlert (a_ID (demo_alert ''x'')) s' = Return (truncate_alert (demo_alert ''x''))"
    using alert_round_trip [OF s'] by (simp add: demo_alert_def)
  with s' show ?thesis by (simp add: demo_alert_def)
qed

text \<open>A rule that has ever had an alert saved cannot be deleted while foreign keys are enforced:
  nothing ever deletes alert rows, and the deletion fails and leaves the store as it was.\<close>

theorem rule_with_alert_not_deleted:
  assumes "SaveAlert a s = Return s'" "fk_on s"
  shows "DeleteRule (a_RuleID a) s' = Error ''FOREIGN KEY constraint failed''"
  using assms by (auto simp: SaveAlert_def DeleteRule_def alert_row_def split: if_splits)

theorem rule_with_alert_not_deleted_witness:
  "\<exists>s'. SaveAlert (demo_alert ''x'') demo_store = Return s' \<and>
     DeleteRule ''r1'' s' = Error ''FOREIGN KEY constraint failed''"
proof -
  obtain s' where s': "SaveAlert (demo_alert ''x'') demo_store = Return s'"
    by (simp add: SaveAlert_def demo_alert_def)
  then show ?thesis using rule_with_alert_not_deleted [OF s'] by (simp add: demo_alert_def)
qed

lemma to_unix_mono: "t \<le> u \<Longrightarrow> to_unix t \<le> to_unix u"
  by (simp add: to_unix_def zdiv_mono1)

lemma of_unix_le_iff: "of_unix n \<le> t \<longleftrightarrow> n \<le> to_unix t"
  by (simp add: of_unix_def to_unix_def) linarith

lemma to_unix_less_iff: "to_unix t < n \<longleftrightarrow> t < of_unix n"
  using of_unix_le_iff [of n t] by linarith

lemma GetState_active:
  "GetState now (silence_of row) = SilenceStateActive \<longleftrightarrow>
     sr_starts_at row \<le> to_unix now \<and> now \<le> of_unix (sr_ends_at row)"
  by (auto simp: GetState_def silence_of_def not_less of_unix_le_iff [symmetric])

text \<open>The silences that are active at a moment are, up to the very instant a silence ends, those
  whose reported state is active; and once a silence is expired by hand it is never active again,
  until it is changed.\<close>

theorem silence_activity:
  assumes "db_ok s"
  shows "(\<exists>act. ListActiveSilences now s = Return act \<and>
       (\<forall>row \<in> set (silences s). GetState now (silence_of row) = SilenceStateActive \<and>
          now \<noteq> of_unix (sr_ends_at row) \<longrightarrow> silence_of row \<in> set act) \<and>
       (\<forall>sil \<in> set act. GetState now sil = SilenceStateActive)) \<and>
     (\<exists>s'. ExpireSilence now sid s = Return s' \<and>
       (\<forall>later. now \<le> later \<longrightarrow> (\<exists>act. ListActiveSilences later s' = Return act \<and>
          (\<forall>sil \<in> set act. s_ID sil \<noteq> sid))))"
proof (intro conjI)
  show "\<exists>act. ListActiveSilences now s = Return act \<and>
     (\<forall>row \<in> set (silences s). GetState now (silence_of row) = SilenceStateActive \<and>
        now \<noteq> of_unix (sr_ends_at row) \<longrightarrow> silence_of row \<in> set act) \<and>
     (\<forall>sil \<in> set act. GetState now sil = SilenceStateActive)"
    using assms by (auto simp: ListActiveSilences_def GetState_active to_unix_less_iff)
  let ?s' = "s\<lparr>silences := map (\<lambda>row. if sr_id row = sid \<and> to_unix now < sr_ends_at row
       then row\<lparr>sr_ends_at := to_unix now\<rparr> else row) (silences s)\<rparr>"
  have "sr_ends_at row \<le> to_unix later"
    if "now \<le> later" "row \<in> set (silences ?s')" "sr_id row = sid" for later row
  proof -
    note row = that
    have "row \<in> (\<lambda>x. if sr_id x = sid \<and> to_unix now < sr_ends_at x
        then x\<lparr>sr_ends_at := to_unix now\<rparr> else x) ` set (silences s)" using row(2) by simp
    then obtain x where "row = (if sr_id x = sid \<and> to_unix now < sr_ends_at x
        then x\<lparr>sr_ends_at := to_unix now\<rparr> else x)" by (elim imageE)
    then have "sr_ends_at row \<le> to_unix now"
      using row(3) by (cases "sr_id x = sid \<and> to_unix now < sr_ends_at x") auto
    also have "\<dots> \<le> to_unix later" using row(1) by (rule to_unix_mono)
    finally show ?thesis .
  qed
  note expired = this
  have "s_ID sil \<noteq> sid" if later: "now \<le> later" and sil: "sil \<in> set (map silence_of
      (filter (\<lambda>row. sr_starts_at row \<le> to_unix later \<and> to_unix later < sr_ends_at row) (silences ?s')))" for later sil
  proof
    assume eq: "s_ID sil = sid"
    obtain row where row: "row \<in> set (silences ?s')" "to_unix later < sr_ends_at row" "sil = silence_of row"
      using sil unfolding set_map set_filter by (elim imageE) blast
    then have "sr_ends_at row \<le> to_unix later"
      using eq by (intro expired [OF later row(1)]) (simp add: silence_of_def)
    with row(2) show False by simp
  qed
  note gone = this
  show "\<exists>s'. ExpireSilence now sid s = Return s' \<and>
     (\<forall>later. now \<le> later \<longrightarrow> (\<exists>act. ListActiveSilences later s' = Return act \<and>
        (\<forall>sil \<in> set act. s_ID sil \<noteq> sid)))"
  proof (intro exI conjI allI impI ballI)
    show "ExpireSilence now sid s = Return ?s'" using assms by (simp add: ExpireSilence_def)
    show "ListActiveSilences later ?s' = Return (map silence_of (filter (\<lambda>row.
        sr_starts_at row \<le> to_unix later \<and> to_unix later < sr_ends_at row) (silences ?s')))" for later
      using assms by (simp add: ListActiveSilences_def)
  qed (rule gone)
qed

definition demo_silence :: SilenceRow where
  "demo_silence = \<lparr>sr_id = ''q'', sr_matchers = [\<lparr>m_Name = ''service'', m_Value = ''api'', m_IsRegex = False,
     m_IsEqual = True\<rparr>], sr_starts_at = 1, sr_ends_at = 100, sr_created_by = [], sr_comment = [],
     sr_created_at = 1\<rparr>"

theorem silence_activity_witness:
  "\<exists>s' act. ExpireSilence 5000000000 ''q'' (demo_store\<lparr>silences := [demo_silence]\<rparr>) = Return s' \<and>
     ListActiveSilences 6000000000 s' = Return act \<and> (\<forall>sil \<in> set act. s_ID sil \<noteq> ''q'') \<and>
     ListActiveSilences 5000000000 (demo_store\<lparr>silences := [demo_silence]\<rparr>) = Return [silence_of demo_silence]"
proof -
  let ?s = "demo_store\<lparr>silences := [demo_silence]\<rparr>"
  obtain s' where s': "ExpireSilence 5000000000 ''q'' ?s = Return s'"
    "\<forall>later. 5000000000 \<le> later \<longrightarrow> (\<exists>act. ListActiveSilences later s' = Return act \<and>
       (\<forall>sil \<in> set act. s_ID sil \<noteq> ''q''))"
    using silence_activity [of ?s 5000000000 "''q''"] by auto
  moreover have "ListActiveSilences 5000000000 ?s = Return [silence_of demo_silence]"
    by (simp add: demo_silence_def ListActiveSilences_def to_unix_def)
  ultimately show ?thesis using s'(2) [rule_format, of 6000000000] by auto
qed

end
