(* ===== verification/Alert_Dependency.thy ===== *)
theory Alert_Dependency
  imports Alert_Store
begin

text \<open>
  Dependency-aware alerting (\<open>internal/alerting/dependency.go\<close>): the health of services as seen
  through their firing alerts, the cached dependency graph, suppression of symptoms, the blast
  radius of a failure and the search for a root cause. The service catalogue is another package; what
  is used of it is a parameter (\<open>Catalog\<close>): the lookup of a service and the dependency edges.
  Its health updates are the list \<open>catalogHealth\<close>. The caches are association lists, which makes
  the graph finite, as a Go map is.
\<close>

section \<open>State\<close>

record Service =
  svc_Name :: string
  svc_Tier :: string

record Catalog =
  cat_GetService :: "string \<Rightarrow> Service option"
  cat_GetServiceGraph :: "string \<Rightarrow> (string \<times> string) list option"

datatype Health = HealthHealthy | HealthDegraded | HealthUnhealthy

record ServiceAlertState =
  sas_ServiceID :: string
  sas_ServiceName :: string
  HasFiringAlerts :: bool
  FiringAlertIDs :: "string list"
  sas_Severity :: Severity
  LastUpdated :: go_time

type_synonym adjacency = "(string \<times> string list) list"

record DependencyAlerting =
  catalogStore :: "Catalog option"
  serviceHealth :: "string \<rightharpoonup> ServiceAlertState"
  upstreamCache :: adjacency
  downstreamCache :: adjacency
  cacheUpdatedAt :: go_time
  cacheTTL :: duration
  catalogHealth :: "(string \<times> Health) list"

record AffectedService =
  af_ServiceID :: string
  af_ServiceName :: string
  af_Tier :: string
  af_Depth :: nat
  af_Path :: "string list"

record BlastRadius =
  FailedService :: string
  FailedServiceName :: string
  AffectedServices :: "AffectedService list"
  TotalAffected :: nat
  CriticalAffected :: nat
  PropagationDepth :: nat
  EstimatedImpact :: string

record DependencyContext =
  UpstreamServices :: "ServiceAlertState list"
  IsLikelySymptom :: bool
  RootCauseHint :: string
  ctx_BlastRadius :: "BlastRadius option"
  ctx_ShouldSuppress :: bool
  SuppressionReason :: string

definition NewDependencyAlerting :: "Catalog option \<Rightarrow> DependencyAlerting" where
  "NewDependencyAlerting cat = \<lparr>catalogStore = cat, serviceHealth = Map.empty, upstreamCache = [],
     downstreamCache = [], cacheUpdatedAt = zero_time, cacheTTL = 5 * minute, catalogHealth = []\<rparr>"

definition severityRank :: "Severity \<Rightarrow> nat" where
  "severityRank s = (case s of SeverityCritical \<Rightarrow> 3 | SeverityWarning \<Rightarrow> 2 | SeverityInfo \<Rightarrow> 1)"

definition severity_str :: "Severity \<Rightarrow> string" where
  "severity_str s = (case s of SeverityCritical \<Rightarrow> ''critical'' | SeverityWarning \<Rightarrow> ''warning''
     | SeverityInfo \<Rightarrow> ''info'')"

section \<open>Service health\<close>

fun worst_severity :: "Severity \<Rightarrow> Alert list \<Rightarrow> Severity" where
  "worst_severity sev [] = sev"
| "worst_severity sev (a # as) =
     worst_severity (if severityRank sev < severityRank (a_Severity a) then a_Severity a else sev) as"

definition catalog_health :: "Alert list \<Rightarrow> Health" where
  "catalog_health firingAlerts =
     (if firingAlerts = [] then HealthHealthy
      else if list_ex (\<lambda>a. a_Severity a = SeverityWarning) firingAlerts then HealthDegraded
      else HealthUnhealthy)"

definition UpdateServiceHealth ::
  "go_time \<Rightarrow> string \<Rightarrow> string \<Rightarrow> Alert list \<Rightarrow> DependencyAlerting \<Rightarrow> DependencyAlerting" where
  "UpdateServiceHealth now serviceID serviceName firingAlerts d =
     (let state = \<lparr>sas_ServiceID = serviceID, sas_ServiceName = serviceName,
            HasFiringAlerts = (firingAlerts \<noteq> []), FiringAlertIDs = map a_ID firingAlerts,
            sas_Severity = worst_severity SeverityInfo firingAlerts, LastUpdated = now\<rparr>;
          d1 = d\<lparr>serviceHealth := (serviceHealth d)(serviceID \<mapsto> state)\<rparr>
      in case catalogStore d of
           None \<Rightarrow> d1
         | Some _ \<Rightarrow> d1\<lparr>catalogHealth := catalogHealth d @ [(serviceID, catalog_health firingAlerts)]\<rparr>)"

section \<open>The dependency cache\<close>

fun adj_get :: "adjacency \<Rightarrow> string \<Rightarrow> string list" where
  "adj_get [] k = []"
| "adj_get ((k', vs) # m) k = (if k' = k then vs else adj_get m k)"

text \<open>\<open>m[k] = append(m[k], v)\<close>\<close>

fun adj_append :: "string \<Rightarrow> string \<Rightarrow> adjacency \<Rightarrow> adjacency" where
  "adj_append k v [] = [(k, [v])]"
| "adj_append k v ((k', vs) # m) = (if k' = k then (k', vs @ [v]) # m else (k', vs) # adj_append k v m)"

definition refreshDependencyCache :: "go_time \<Rightarrow> DependencyAlerting \<Rightarrow> DependencyAlerting" where
  "refreshDependencyCache now d =
     (case catalogStore d of
        None \<Rightarrow> d
      | Some cat \<Rightarrow>
          if time_sub now (cacheUpdatedAt d) < cacheTTL d then d
          else (case cat_GetServiceGraph cat ''default'' of
                  None \<Rightarrow> d
                | Some deps \<Rightarrow>
                    d\<lparr>upstreamCache := fold (\<lambda>(src, tgt). adj_append src tgt) deps [],
                      downstreamCache := fold (\<lambda>(src, tgt). adj_append tgt src) deps [],
                      cacheUpdatedAt := now\<rparr>))"

definition GetUpstreamServices ::
  "go_time \<Rightarrow> string \<Rightarrow> DependencyAlerting \<Rightarrow> string list \<times> DependencyAlerting" where
  "GetUpstreamServices now serviceID d =
     (let d' = refreshDependencyCache now d in (adj_get (upstreamCache d') serviceID, d'))"

definition GetDownstreamServices ::
  "go_time \<Rightarrow> string \<Rightarrow> DependencyAlerting \<Rightarrow> string list \<times> DependencyAlerting" where
  "GetDownstreamServices now serviceID d =
     (let d' = refreshDependencyCache now d in (adj_get (downstreamCache d') serviceID, d'))"

section \<open>Blast radius\<close>

definition estimateImpactByString :: "string \<Rightarrow> nat \<Rightarrow> nat \<Rightarrow> string" where
  "estimateImpactByString failedTier criticalAffected totalAffected =
     (if failedTier = ''critical'' \<or> 0 < criticalAffected then ''critical''
      else if failedTier = ''high'' \<and> 3 < totalAffected then ''high''
      else if 5 < totalAffected then ''high''
      else if 2 < totalAffected then ''medium''
      else ''low'')"

definition estimateImpact :: "string \<Rightarrow> nat \<Rightarrow> nat \<Rightarrow> string" where
  "estimateImpact failedTier criticalAffected totalAffected =
     estimateImpactByString failedTier criticalAffected totalAffected"

type_synonym queueItem = "string \<times> nat \<times> string list"

definition note_affected :: "string \<Rightarrow> Service \<Rightarrow> nat \<Rightarrow> string list \<Rightarrow> BlastRadius \<Rightarrow> BlastRadius" where
  "note_affected sid svc depth path br =
     br\<lparr>AffectedServices := AffectedServices br @ [\<lparr>af_ServiceID = sid, af_ServiceName = svc_Name svc,
          af_Tier = svc_Tier svc, af_Depth = depth, af_Path = path\<rparr>],
        TotalAffected := TotalAffected br + 1,
        CriticalAffected := (if svc_Tier svc = ''critical'' then CriticalAffected br + 1 else CriticalAffected br),
        PropagationDepth := (if PropagationDepth br < depth then depth else PropagationDepth br)\<rparr>"

text \<open>The loop over the services downstream of the current one.\<close>

fun visit_downstream :: "Catalog \<Rightarrow> nat \<Rightarrow> string list \<Rightarrow> string list \<Rightarrow>
    string list \<times> queueItem list \<times> BlastRadius \<Rightarrow> string list \<times> queueItem list \<times> BlastRadius" where
  "visit_downstream cat depth path [] st = st"
| "visit_downstream cat depth path (sid # sids) (visited, queue, br) =
     visit_downstream cat depth path sids
       (if sid \<in> set visited then (visited, queue, br)
        else (case cat_GetService cat sid of
                None \<Rightarrow> (sid # visited, queue, br)
              | Some svc \<Rightarrow>
                  (let newPath = path @ [svc_Name svc]
                   in (sid # visited, queue @ [(sid, depth + 1, newPath)],
                       note_affected sid svc (depth + 1) newPath br))))"

definition adj_targets :: "adjacency \<Rightarrow> string set" where
  "adj_targets m = (\<Union>(k, vs) \<in> set m. set vs)"

lemma finite_adj_targets [simp]: "finite (adj_targets m)"
  by (auto simp: adj_targets_def)

lemma adj_get_targets: "v \<in> set (adj_get m k) \<Longrightarrow> v \<in> adj_targets m"
  by (induction m k rule: adj_get.induct) (auto simp: adj_targets_def split: if_splits)

text \<open>The bound behind the outer loop: every service put in the queue was not visited before.\<close>

lemma visit_downstream_bound:
  assumes "set sids \<subseteq> T" "finite T" "visit_downstream cat depth path sids (visited, queue, br) = (visited', queue', br')"
  shows "length queue' + card (T - set visited') \<le> length queue + card (T - set visited)"
  using assms
proof (induction sids arbitrary: visited queue br)
  case Nil
  then show ?case by simp
next
  case (Cons sid sids)
  show ?case
  proof (cases "sid \<in> set visited")
    case True
    with Cons.IH [of visited queue br] Cons.prems show ?thesis by simp
  next
    case False
    have "T - set (sid # visited) = (T - set visited) - {sid}" by auto
    moreover have "card ((T - set visited) - {sid}) < card (T - set visited)"
      using False Cons.prems(1,2) by (intro card_Diff1_less) auto
    ultimately have "card (T - set (sid # visited)) + 1 \<le> card (T - set visited)" by simp
    with False Cons.IH [of "sid # visited"] Cons.prems show ?thesis
      by (fastforce simp: Let_def split: option.splits)
  qed
qed

function bfs_loop :: "Catalog \<Rightarrow> adjacency \<Rightarrow> string list \<Rightarrow> queueItem list \<Rightarrow> BlastRadius \<Rightarrow> BlastRadius" where
  "bfs_loop cat adj visited [] br = br"
| "bfs_loop cat adj visited ((cur, depth, path) # queue) br =
     (case visit_downstream cat depth path (adj_get adj cur) (visited, queue, br) of
        (visited', queue', br') \<Rightarrow> bfs_loop cat adj visited' queue' br')"
  by pat_completeness auto
termination
proof (relation "measure (\<lambda>(cat, adj, visited, queue, br). length queue + card (adj_targets adj - set visited))", goal_cases)
  case 1
  then show ?case by simp
next
  case (2 cat adj visited cur depth path queue br visited' y queue' br')
  then have "length queue' + card (adj_targets adj - set visited')
      \<le> length queue + card (adj_targets adj - set visited)"
    by (intro visit_downstream_bound [of "adj_get adj cur" _ cat depth path visited queue br visited' queue' br'])
      (auto intro: adj_get_targets)
  then show ?case by simp
qed

definition CalculateBlastRadius ::
  "go_time \<Rightarrow> string \<Rightarrow> DependencyAlerting \<Rightarrow> BlastRadius option \<times> DependencyAlerting" where
  "CalculateBlastRadius now serviceID d =
     (case catalogStore d of
        None \<Rightarrow> (None, d)
      | Some cat \<Rightarrow>
          (let d' = refreshDependencyCache now d
           in case cat_GetService cat serviceID of
                None \<Rightarrow> (None, d')
              | Some service \<Rightarrow>
                  (let br0 = \<lparr>FailedService = serviceID, FailedServiceName = svc_Name service,
                         AffectedServices = [], TotalAffected = 0, CriticalAffected = 0,
                         PropagationDepth = 0, EstimatedImpact = []\<rparr>;
                       br = bfs_loop cat (downstreamCache d') [serviceID]
                              [(serviceID, 0, [svc_Name service])] br0
                   in (Some (br\<lparr>EstimatedImpact := estimateImpact (svc_Tier service)
                          (CriticalAffected br) (TotalAffected br)\<rparr>), d'))))"

section \<open>Suppression of symptoms\<close>

definition quote :: string where "quote = [CHR 0x27]"

fun containsAny :: "string \<Rightarrow> string list \<Rightarrow> bool" where
  "containsAny s [] = False"
| "containsAny s (sub # subs) =
     ((length sub \<le> length s \<and>
        list_ex (\<lambda>i. take (length sub) (drop i s) = sub) [0..<length s - length sub + 1])
      \<or> containsAny s subs)"

fun worst_upstream :: "ServiceAlertState option \<Rightarrow> ServiceAlertState list \<Rightarrow> ServiceAlertState option" where
  "worst_upstream w [] = w"
| "worst_upstream w (u # us) =
     worst_upstream
       (if HasFiringAlerts u \<and> (case w of None \<Rightarrow> True
            | Some x \<Rightarrow> severityRank (sas_Severity x) < severityRank (sas_Severity u))
        then Some u else w) us"

definition shouldSuppressDueToUpstream :: "Alert \<Rightarrow> DependencyContext \<Rightarrow> bool \<times> string" where
  "shouldSuppressDueToUpstream alert ctx =
     (if \<not> IsLikelySymptom ctx then (False, [])
      else case worst_upstream None (UpstreamServices ctx) of
        None \<Rightarrow> (False, [])
      | Some worst \<Rightarrow>
          (let isConnectionAlert = containsAny (label (a_Labels alert) ''alertname'')
                 [''timeout'', ''connection'', ''unavailable'', ''error_rate'']
           in if severityRank (a_Severity alert) \<le> severityRank (sas_Severity worst) \<and> isConnectionAlert
              then (True, ''Upstream service '' @ quote @ sas_ServiceName worst @ quote @ '' has '' @
                 severity_str (sas_Severity worst) @ '' alerts - this alert is likely a symptom'')
              else if sas_Severity worst = SeverityCritical \<and>
                      severityRank (a_Severity alert) \<le> severityRank SeverityWarning
              then (True, ''Upstream service '' @ quote @ sas_ServiceName worst @ quote @ '' has critical alert'')
              else (False, [])))"

text \<open>The loop over the upstream services, collecting those with a known state.\<close>

fun collect_upstreams :: "(string \<rightharpoonup> ServiceAlertState) \<Rightarrow> string list \<Rightarrow> DependencyContext \<Rightarrow> DependencyContext" where
  "collect_upstreams health [] ctx = ctx"
| "collect_upstreams health (u # us) ctx =
     collect_upstreams health us
       (case health u of
          None \<Rightarrow> ctx
        | Some state \<Rightarrow>
            (let ctx1 = ctx\<lparr>UpstreamServices := UpstreamServices ctx @ [state]\<rparr>
             in if HasFiringAlerts state
                then ctx1\<lparr>IsLikelySymptom := True,
                       RootCauseHint := (if RootCauseHint ctx = [] then ''Upstream service '' @ quote @
                          sas_ServiceName state @ quote @ '' has active alerts'' else RootCauseHint ctx)\<rparr>
                else ctx1))"

definition empty_context :: DependencyContext where
  "empty_context = \<lparr>UpstreamServices = [], IsLikelySymptom = False, RootCauseHint = [],
     ctx_BlastRadius = None, ctx_ShouldSuppress = False, SuppressionReason = []\<rparr>"

definition service_label :: "labels \<Rightarrow> string" where
  "service_label ls = (if label ls ''service'' = [] then label ls ''service_id'' else label ls ''service'')"

definition GetDependencyContext ::
  "go_time \<Rightarrow> Alert \<Rightarrow> DependencyAlerting \<Rightarrow> DependencyContext \<times> DependencyAlerting" where
  "GetDependencyContext now alert d =
     (let serviceID = service_label (a_Labels alert)
      in if serviceID = [] then (empty_context, d)
         else case GetUpstreamServices now serviceID d of
           (upstreams, d1) \<Rightarrow>
             (let ctx1 = collect_upstreams (serviceHealth d1) upstreams empty_context;
                  sup = shouldSuppressDueToUpstream alert ctx1;
                  ctx2 = ctx1\<lparr>ctx_ShouldSuppress := fst sup, SuppressionReason := snd sup\<rparr>
              in if IsLikelySymptom ctx2 then (ctx2, d1)
                 else case CalculateBlastRadius now serviceID d1 of
                   (br, d2) \<Rightarrow> (ctx2\<lparr>ctx_BlastRadius := br\<rparr>, d2)))"

definition IsInhibitedByDependency ::
  "go_time \<Rightarrow> Alert \<Rightarrow> DependencyAlerting \<Rightarrow> (bool \<times> string) \<times> DependencyAlerting" where
  "IsInhibitedByDependency now alert d =
     (case GetDependencyContext now alert d of
        (ctx, d') \<Rightarrow> ((ctx_ShouldSuppress ctx, SuppressionReason ctx), d'))"

definition GetServiceAlertState :: "string \<Rightarrow> DependencyAlerting \<Rightarrow> ServiceAlertState option" where
  "GetServiceAlertState serviceID d = serviceHealth d serviceID"

definition GetUnhealthyUpstreams ::
  "go_time \<Rightarrow> string \<Rightarrow> DependencyAlerting \<Rightarrow> ServiceAlertState list \<times> DependencyAlerting" where
  "GetUnhealthyUpstreams now serviceID d =
     (case GetUpstreamServices now serviceID d of
        (upstreams, d') \<Rightarrow> (filter HasFiringAlerts (List.map_filter (serviceHealth d') upstreams), d'))"

section \<open>Root cause\<close>

text \<open>The visited set is shared by all recursive calls, so it is threaded through; the fuel bounds
  the depth of the recursion, which a chain of distinct services bounds too.\<close>

fun findRootCauseRecursive :: "nat \<Rightarrow> (string \<rightharpoonup> ServiceAlertState) \<Rightarrow> adjacency \<Rightarrow> string \<Rightarrow> string list \<Rightarrow>
      (ServiceAlertState option \<times> string list) option"
  and root_cause_loop :: "nat \<Rightarrow> (string \<rightharpoonup> ServiceAlertState) \<Rightarrow> adjacency \<Rightarrow> string list \<Rightarrow>
      ServiceAlertState option \<Rightarrow> string list \<Rightarrow> (ServiceAlertState option \<times> string list) option" where
  "findRootCauseRecursive 0 health adj serviceID visited = None"
| "findRootCauseRecursive (Suc n) health adj serviceID visited =
     (if serviceID \<in> set visited then Some (None, visited)
      else root_cause_loop n health adj (adj_get adj serviceID) None (serviceID # visited))"
| "root_cause_loop n health adj [] deepest visited = Some (deepest, visited)"
| "root_cause_loop n health adj (u # us) deepest visited =
     (case health u of
        None \<Rightarrow> root_cause_loop n health adj us deepest visited
      | Some state \<Rightarrow>
          if \<not> HasFiringAlerts state then root_cause_loop n health adj us deepest visited
          else (case findRootCauseRecursive n health adj u visited of
                  None \<Rightarrow> None
                | Some (deeper, visited') \<Rightarrow>
                    root_cause_loop n health adj us
                      (case deeper of None \<Rightarrow> Some state | Some x \<Rightarrow> Some x) visited'))"

definition FindRootCause ::
  "go_time \<Rightarrow> string \<Rightarrow> DependencyAlerting \<Rightarrow> ServiceAlertState option option \<times> DependencyAlerting" where
  "FindRootCause now serviceID d =
     (let d' = refreshDependencyCache now d
      in (map_option fst (findRootCauseRecursive (card (adj_targets (upstreamCache d')) + 2)
            (serviceHealth d') (upstreamCache d') serviceID []), d'))"

end
