(* ===== verification/Alert_Impact.thy ===== *)
theory Alert_Impact
  imports Alert_Dependency
begin

text \<open>
  Correctness of the graph searches of dependency-aware alerting: the blast radius is the set of
  services that can be reached downstream, each with its shortest distance; the root-cause search
  ends, answers with an unhealthy service reached through unhealthy ones, but not always with the
  deepest one.
\<close>

section \<open>Blast radius\<close>

text \<open>A walk of a given length along dependencies between services the catalogue knows.\<close>

fun walk :: "Catalog \<Rightarrow> adjacency \<Rightarrow> string \<Rightarrow> nat \<Rightarrow> string \<Rightarrow> bool" where
  "walk cat adj s 0 v \<longleftrightarrow> v = s"
| "walk cat adj s (Suc n) v \<longleftrightarrow>
     (\<exists>u. walk cat adj s n u \<and> v \<in> set (adj_get adj u)) \<and> cat_GetService cat v \<noteq> None"

definition dist_is :: "Catalog \<Rightarrow> adjacency \<Rightarrow> string \<Rightarrow> string \<Rightarrow> nat \<Rightarrow> bool" where
  "dist_is cat adj s v d \<longleftrightarrow> walk cat adj s d v \<and> (\<forall>j < d. \<not> walk cat adj s j v)"

definition found :: "string \<Rightarrow> BlastRadius \<Rightarrow> (string \<times> nat) list" where
  "found s br = (s, 0) # map (\<lambda>a. (af_ServiceID a, af_Depth a)) (AffectedServices br)"

definition queued :: "queueItem list \<Rightarrow> (string \<times> nat) list" where
  "queued q = map (\<lambda>(c, d, p). (c, d)) q"

lemma found_start [simp]: "(s, 0) \<in> set (found s br)"
  by (simp add: found_def)

lemma found_start_fst [simp]: "s \<in> fst ` set (found s br)"
  by (simp add: found_def)

lemma found_note [simp]: "found s (note_affected sid svc d path br) = found s br @ [(sid, d)]"
  by (simp add: found_def note_affected_def)

lemma queued_simps [simp]:
  "queued [] = []" "queued ((c, d, p) # q) = (c, d) # queued q" "queued (q @ r) = queued q @ queued r"
  by (simp_all add: queued_def)

text \<open>The invariant: what was found is, in order, the finished services, the current one and the queue;
  it is the visited services that are known, each with its distance, in order of distance.\<close>

definition bfs_inv where
  "bfs_inv cat adj s fin cur visited queue br \<longleftrightarrow>
     found s br = fin @ cur @ queued queue \<and> distinct (map fst (found s br)) \<and>
     fst ` set (found s br) = {v \<in> set visited. v = s \<or> cat_GetService cat v \<noteq> None} \<and>
     (\<forall>(v, k) \<in> set (found s br). dist_is cat adj s v k) \<and>
     (\<forall>(u, k) \<in> set fin. set (adj_get adj u) \<subseteq> set visited) \<and>
     sorted (map snd (found s br)) \<and>
     (\<forall>c \<in> set (take 1 (cur @ queued queue)). \<forall>x \<in> set (found s br). snd x \<le> snd c + 1)"

lemma bfs_invD:
  assumes "bfs_inv cat adj s fin cur visited queue br"
  shows "found s br = fin @ cur @ queued queue" "distinct (map fst (found s br))"
    "fst ` set (found s br) = {v \<in> set visited. v = s \<or> cat_GetService cat v \<noteq> None}"
    "(v, k) \<in> set (found s br) \<Longrightarrow> dist_is cat adj s v k"
    "(u, k) \<in> set fin \<Longrightarrow> set (adj_get adj u) \<subseteq> set visited"
    "sorted (map snd (found s br))"
    "c \<in> set (take 1 (cur @ queued queue)) \<Longrightarrow> x \<in> set (found s br) \<Longrightarrow> snd x \<le> snd c + 1"
  using assms unfolding bfs_inv_def by blast+

lemma bfs_inv_start: "bfs_inv cat adj s fin cur visited queue br \<Longrightarrow> s \<in> set visited"
  using bfs_invD(3) [of cat adj s fin cur visited queue br] found_start_fst [of s br] by auto

lemma bfs_inv_pop:
  "bfs_inv cat adj s fin [] visited ((c, d, p) # q) br \<longleftrightarrow> bfs_inv cat adj s fin [(c, d)] visited q br"
  by (simp only: bfs_inv_def queued_simps append.simps)

lemma bfs_inv_visited:
  assumes "bfs_inv cat adj s fin cur visited queue br" "set visited \<subseteq> set visited'"
    and "{v \<in> set visited'. v = s \<or> cat_GetService cat v \<noteq> None}
       = {v \<in> set visited. v = s \<or> cat_GetService cat v \<noteq> None}"
  shows "bfs_inv cat adj s fin cur visited' queue br"
  using assms unfolding bfs_inv_def assms(3) by blast

lemma bfs_inv_finish:
  assumes "bfs_inv cat adj s fin [(c, d)] visited q br" "set (adj_get adj c) \<subseteq> set visited"
    and "\<And>c x. c \<in> set (take 1 (queued q)) \<Longrightarrow> x \<in> set (found s br) \<Longrightarrow> snd x \<le> snd c + 1"
  shows "bfs_inv cat adj s (fin @ [(c, d)]) [] visited q br"
  unfolding bfs_inv_def
proof (intro conjI)
  show "\<forall>(u, k) \<in> set (fin @ [(c, d)]). set (adj_get adj u) \<subseteq> set visited"
    using assms(1,2) by (auto simp: bfs_inv_def)
qed (use bfs_invD [OF assms(1)] assms(3) in \<open>simp_all only: append_assoc append.simps, auto\<close>)

lemma queue_depth:
  assumes "bfs_inv cat adj s fin [(c, k)] visited queue br" "(x, d) \<in> set ((c, k) # queued queue)"
  shows "k \<le> d"
  using bfs_invD(6) [OF assms(1)] bfs_invD(1) [OF assms(1)] assms(2)
  by (auto simp: sorted_append)

lemma near_found:
  assumes inv: "bfs_inv cat adj s fin [(c, k)] visited queue br" and "walk cat adj s i u" "i \<le> k"
  shows "\<exists>d \<le> i. (u, d) \<in> set (found s br)"
  using assms(2,3)
proof (induction i arbitrary: u)
  case 0
  then show ?case by auto
next
  case (Suc i)
  obtain u' where u': "walk cat adj s i u'" "u \<in> set (adj_get adj u')" "cat_GetService cat u \<noteq> None"
    using Suc.prems(1) by auto
  obtain d' where d': "d' \<le> i" "(u', d') \<in> set (found s br)" using Suc.IH [OF u'(1)] Suc.prems(2) by auto
  then have "(u', d') \<in> set fin"
    using queue_depth [OF inv, of u' d'] bfs_invD(1) [OF inv] Suc.prems(2) by auto
  then have "u \<in> set visited" using bfs_invD(5) [OF inv] u'(2) by blast
  then have "u \<in> fst ` set (found s br)" using bfs_invD(3) [OF inv] u'(3) by simp
  then obtain d where d: "(u, d) \<in> set (found s br)" by force
  then have "dist_is cat adj s u d" by (rule bfs_invD(4) [OF inv])
  then have "d \<le> Suc i" using Suc.prems(1) by (auto simp: dist_is_def not_less [symmetric])
  with d show ?case by blast
qed

lemma visit_downstream_inv:
  assumes "bfs_inv cat adj s fin [(c, k)] visited queue br" "set sids \<subseteq> set (adj_get adj c)"
    and "visit_downstream cat k path sids (visited, queue, br) = (visited', queue', br')"
  shows "bfs_inv cat adj s fin [(c, k)] visited' queue' br' \<and> set visited \<union> set sids \<subseteq> set visited'"
  using assms
proof (induction sids arbitrary: visited queue br)
  case Nil
  then show ?case by simp
next
  case (Cons sid sids)
  note inv = Cons.prems(1)
  consider "sid \<in> set visited" | "sid \<notin> set visited" "cat_GetService cat sid = None"
    | svc where "sid \<notin> set visited" "cat_GetService cat sid = Some svc" by auto
  then show ?case
  proof cases
    case 1
    with Cons show ?thesis by auto
  next
    case 2
    have "bfs_inv cat adj s fin [(c, k)] (sid # visited) queue br"
      using inv by (rule bfs_inv_visited) (use 2 bfs_inv_start [OF inv] in auto)
    from Cons.IH [OF this] Cons.prems(2,3) 2 show ?thesis by simp
  next
    case 3
    let ?br = "note_affected sid svc (k + 1) (path @ [svc_Name svc]) br"
    let ?q = "queue @ [(sid, k + 1, path @ [svc_Name svc])]"
    have s: "sid \<noteq> s" "sid \<notin> fst ` set (found s br)"
      using bfs_inv_start [OF inv] 3(1) bfs_invD(3) [OF inv] by auto
    have "(c, k) \<in> set (found s br)" using bfs_invD(1) [OF inv] by simp
    then have "walk cat adj s k c" using bfs_invD(4) [OF inv] by (auto simp: dist_is_def)
    then have "walk cat adj s (k + 1) sid" using Cons.prems(2) 3(2) by auto
    moreover have "\<not> walk cat adj s j sid" if "j < k + 1" for j
      using near_found [OF inv, of j sid] that s(2) by force
    ultimately have d: "dist_is cat adj s sid (k + 1)" by (simp add: dist_is_def)
    have b: "\<forall>x \<in> set (found s br). snd x \<le> k + 1" using bfs_invD(7) [OF inv, of "(c, k)"] by simp
    have "bfs_inv cat adj s fin [(c, k)] (sid # visited) ?q ?br"
      unfolding bfs_inv_def found_note
    proof (intro conjI)
      show "found s br @ [(sid, k + 1)] = fin @ [(c, k)] @ queued ?q"
        using bfs_invD(1) [OF inv] by simp
      show "distinct (map fst (found s br @ [(sid, k + 1)]))"
        using bfs_invD(2) [OF inv] s(2) by auto
      show "fst ` set (found s br @ [(sid, k + 1)])
          = {v \<in> set (sid # visited). v = s \<or> cat_GetService cat v \<noteq> None}"
        using bfs_invD(3) [OF inv] 3(2) by auto
      show "\<forall>(v, k) \<in> set (found s br @ [(sid, k + 1)]). dist_is cat adj s v k"
        using bfs_invD(4) [OF inv] d by auto
      show "\<forall>(u, k) \<in> set fin. set (adj_get adj u) \<subseteq> set (sid # visited)"
        using bfs_invD(5) [OF inv] by auto
      show "sorted (map snd (found s br @ [(sid, k + 1)]))"
        using bfs_invD(6) [OF inv] b by (simp add: sorted_append)
      show "\<forall>c \<in> set (take 1 ([(c, k)] @ queued ?q)). \<forall>x \<in> set (found s br @ [(sid, k + 1)]). snd x \<le> snd c + 1"
        using b by auto
    qed
    from Cons.IH [OF this] Cons.prems(2,3) 3 show ?thesis by (simp add: Let_def)
  qed
qed

lemma bfs_loop_inv:
  "bfs_inv cat adj s fin [] visited queue br \<Longrightarrow>
     \<exists>fin' visited'. bfs_inv cat adj s fin' [] visited' [] (bfs_loop cat adj visited queue br)"
proof (induction cat adj visited queue br arbitrary: fin rule: bfs_loop.induct)
  case (1 cat adj visited br)
  then show ?case by auto
next
  case (2 cat adj visited cur depth path queue br)
  obtain visited' queue' br' where v: "visit_downstream cat depth path (adj_get adj cur) (visited, queue, br)
      = (visited', queue', br')" by (metis prod_cases3)
  have "bfs_inv cat adj s fin [(cur, depth)] visited queue br"
    using "2.prems" by (simp only: bfs_inv_pop)
  then have J: "bfs_inv cat adj s fin [(cur, depth)] visited' queue' br'"
    "set (adj_get adj cur) \<subseteq> set visited'"
    using visit_downstream_inv [OF _ _ v] by auto
  have "snd x \<le> snd c + 1" if "c \<in> set (take 1 (queued queue'))" "x \<in> set (found s br')" for c x
  proof -
    have "c \<in> set (queued queue')" using that(1) set_take_subset by fast
    then have "depth \<le> snd c" using queue_depth [OF J(1), of "fst c" "snd c"] by simp
    moreover have "snd x \<le> depth + 1" using bfs_invD(7) [OF J(1), of "(cur, depth)" x] that(2) by simp
    ultimately show ?thesis by simp
  qed
  then have "bfs_inv cat adj s (fin @ [(cur, depth)]) [] visited' queue' br'"
    by (rule bfs_inv_finish [OF J])
  then show ?case using "2.IH" v by simp
qed

lemma bfs_complete:
  assumes inv: "bfs_inv cat adj s fin [] visited [] br" and "walk cat adj s n v"
  shows "v \<in> fst ` set (found s br)"
  using assms(2)
proof (induction n arbitrary: v)
  case 0
  then show ?case by simp
next
  case (Suc n)
  obtain u where "walk cat adj s n u" and u: "v \<in> set (adj_get adj u)" "cat_GetService cat v \<noteq> None"
    using Suc.prems by auto
  then have "u \<in> fst ` set (found s br)" using Suc.IH by blast
  then obtain d where "(u, d) \<in> set fin" using bfs_invD(1) [OF inv] by auto
  then have "v \<in> set visited" using bfs_invD(5) [OF inv] u(1) by blast
  then show ?case using bfs_invD(3) [OF inv] u(2) by simp
qed

lemma bfs_found_iff:
  assumes inv: "bfs_inv cat adj s fin [] visited [] br"
  shows "(v, d) \<in> set (found s br) \<longleftrightarrow> dist_is cat adj s v d"
proof
  assume "(v, d) \<in> set (found s br)"
  then show "dist_is cat adj s v d" by (rule bfs_invD(4) [OF inv])
next
  assume d: "dist_is cat adj s v d"
  then obtain e where e: "(v, e) \<in> set (found s br)"
    using bfs_complete [OF inv, of d v] by (force simp: dist_is_def)
  then have "dist_is cat adj s v e" by (rule bfs_invD(4) [OF inv])
  with d have "d = e" by (meson dist_is_def linorder_neqE_nat)
  with e show "(v, d) \<in> set (found s br)" by simp
qed

text \<open>The counters of a blast radius agree with its list of services.\<close>

definition counters_ok :: "BlastRadius \<Rightarrow> bool" where
  "counters_ok br \<longleftrightarrow> TotalAffected br = length (AffectedServices br) \<and>
     CriticalAffected br = length (filter (\<lambda>a. af_Tier a = ''critical'') (AffectedServices br)) \<and>
     PropagationDepth br = Max (insert 0 (af_Depth ` set (AffectedServices br)))"

lemma counters_ok_note: "counters_ok br \<Longrightarrow> counters_ok (note_affected sid svc d path br)"
proof -
  assume ok: "counters_ok br"
  let ?S = "insert 0 (af_Depth ` set (AffectedServices br))"
  have "Max (insert d ?S) = max d (Max ?S)" by (rule Max_insert) auto
  moreover have "insert 0 (af_Depth ` set (AffectedServices (note_affected sid svc d path br))) = insert d ?S"
    by (auto simp: note_affected_def)
  moreover have "PropagationDepth (note_affected sid svc d path br) = max d (PropagationDepth br)"
    by (auto simp: note_affected_def max_def)
  ultimately have "PropagationDepth (note_affected sid svc d path br)
      = Max (insert 0 (af_Depth ` set (AffectedServices (note_affected sid svc d path br))))"
    using ok unfolding counters_ok_def by presburger
  with ok show ?thesis unfolding counters_ok_def by (simp add: note_affected_def)
qed

lemma visit_downstream_counters:
  "counters_ok br \<Longrightarrow> visit_downstream cat k path sids (visited, queue, br) = (visited', queue', br') \<Longrightarrow>
     counters_ok br'"
proof (induction sids arbitrary: visited queue br)
  case Nil
  then show ?case by simp
next
  case (Cons sid sids)
  show ?case
  proof (cases "sid \<in> set visited \<or> cat_GetService cat sid = None")
    case True
    then show ?thesis using Cons.IH [OF Cons.prems(1)] Cons.prems(2) by (auto split: if_splits)
  next
    case False
    then show ?thesis using Cons.IH [OF counters_ok_note [OF Cons.prems(1)]] Cons.prems(2)
      by (auto simp: Let_def)
  qed
qed

lemma bfs_loop_counters: "counters_ok br \<Longrightarrow> counters_ok (bfs_loop cat adj visited queue br)"
  by (induction cat adj visited queue br rule: bfs_loop.induct)
    (auto split: prod.splits dest: visit_downstream_counters)

declare bfs_loop.simps [simp del]

text \<open>C8. The blast radius of a service the catalogue knows is exact: it lists every service that can be
  reached downstream through known services, each once and with the length of a shortest
  dependency path, and nothing else; its counters and its estimate agree with that list.\<close>

theorem blast_radius_exact:
  assumes "catalogStore d = Some cat" "cat_GetService cat sid = Some svc"
  shows "\<exists>br. fst (CalculateBlastRadius now sid d) = Some br \<and> FailedService br = sid \<and>
    distinct (map af_ServiceID (AffectedServices br)) \<and>
    (\<forall>v k. (\<exists>a \<in> set (AffectedServices br). af_ServiceID a = v \<and> af_Depth a = k) \<longleftrightarrow>
       v \<noteq> sid \<and> dist_is cat (downstreamCache (refreshDependencyCache now d)) sid v k) \<and>
    counters_ok br \<and>
    EstimatedImpact br = estimateImpactByString (svc_Tier svc) (CriticalAffected br) (TotalAffected br)"
proof -
  let ?adj = "downstreamCache (refreshDependencyCache now d)"
  let ?init = "\<lparr>FailedService = sid, FailedServiceName = svc_Name svc, AffectedServices = [],
    TotalAffected = 0, CriticalAffected = 0, PropagationDepth = 0, EstimatedImpact = []\<rparr>"
  let ?br = "bfs_loop cat ?adj [sid] [(sid, 0, [svc_Name svc])] ?init"
  have "bfs_inv cat ?adj sid [] [] [sid] [(sid, 0, [svc_Name svc])] ?init"
    by (auto simp: bfs_inv_def found_def dist_is_def)
  then obtain fin visited where inv: "bfs_inv cat ?adj sid fin [] visited [] ?br"
    using bfs_loop_inv by blast
  have fs: "FailedService (bfs_loop c a v q b) = FailedService b" for c a v q b
  proof (induction c a v q b rule: bfs_loop.induct)
    case (2 cat adj visited cur depth path queue br)
    have "FailedService (snd (snd (visit_downstream cat depth path sids (visited, queue, br)))) = FailedService br"
      for sids visited queue br
      by (induction sids arbitrary: visited queue br) (simp_all add: Let_def note_affected_def split: option.splits)
    with 2 show ?case by (auto simp: bfs_loop.simps split: prod.splits) (metis snd_conv)
  qed (simp add: bfs_loop.simps)
  have cnt: "counters_ok ?br" by (rule bfs_loop_counters) (simp add: counters_ok_def)
  have "sid \<notin> af_ServiceID ` set (AffectedServices ?br)" "distinct (map af_ServiceID (AffectedServices ?br))"
    using bfs_invD(2) [OF inv] by (auto simp: found_def comp_def)
  moreover have "(\<exists>a \<in> set (AffectedServices ?br). af_ServiceID a = v \<and> af_Depth a = k) \<longleftrightarrow>
      v \<noteq> sid \<and> dist_is cat ?adj sid v k" for v k
    using bfs_found_iff [OF inv, of v k] calculation(1) by (auto simp: found_def)
  ultimately show ?thesis
    using assms cnt fs by (simp add: CalculateBlastRadius_def Let_def estimateImpact_def counters_ok_def)
qed

definition demo_catalog :: Catalog where
  "demo_catalog = \<lparr>cat_GetService = (\<lambda>sid. if sid \<in> {''db'', ''api'', ''web''} then
       Some \<lparr>svc_Name = sid, svc_Tier = (if sid = ''web'' then ''critical'' else ''high'')\<rparr> else None),
     cat_GetServiceGraph = (\<lambda>_. Some [(''api'', ''db''), (''web'', ''api''), (''web'', ''db''), (''ghost'', ''db'')])\<rparr>"

definition demo_deps :: DependencyAlerting where
  "demo_deps = NewDependencyAlerting (Some demo_catalog)"

theorem blast_radius_exact_witness:
  "\<exists>br. fst (CalculateBlastRadius 0 ''db'' demo_deps) = Some br \<and>
     map (\<lambda>a. (af_ServiceID a, af_Depth a)) (AffectedServices br) = [(''api'', 1), (''web'', 1)] \<and>
     EstimatedImpact br = ''critical'' \<and> counters_ok br"
proof -
  have br: "fst (CalculateBlastRadius 0 ''db'' demo_deps) = Some br \<Longrightarrow>
      map (\<lambda>a. (af_ServiceID a, af_Depth a)) (AffectedServices br) = [(''api'', 1), (''web'', 1)] \<and>
      EstimatedImpact br = ''critical''" for br
    by (simp add: CalculateBlastRadius_def demo_deps_def NewDependencyAlerting_def demo_catalog_def
        refreshDependencyCache_def time_sub_def zero_time_def max_duration_def min_duration_def
        note_affected_def estimateImpact_def estimateImpactByString_def bfs_loop.simps Let_def) auto
  have "catalogStore demo_deps = Some demo_catalog"
    "cat_GetService demo_catalog ''db'' = Some \<lparr>svc_Name = ''db'', svc_Tier = ''high''\<rparr>"
    by (simp_all add: demo_deps_def NewDependencyAlerting_def demo_catalog_def)
  from blast_radius_exact [OF this, of 0] br show ?thesis by blast
qed

section \<open>Health and suppression\<close>

lemma worst_upstream_member:
  "worst_upstream w us = Some x \<Longrightarrow> w = Some x \<or> (x \<in> set us \<and> HasFiringAlerts x)"
proof (induction us arbitrary: w)
  case Nil
  then show ?case by simp
next
  case (Cons u us)
  let ?w = "if HasFiringAlerts u \<and> (case w of None \<Rightarrow> True
    | Some x \<Rightarrow> severityRank (sas_Severity x) < severityRank (sas_Severity u)) then Some u else w"
  have "?w = Some x \<or> x \<in> set us \<and> HasFiringAlerts x"
    using Cons.IH [of ?w] Cons.prems by simp
  then show ?case by (auto split: if_splits)
qed

lemma collect_upstreams_states:
  "set (UpstreamServices (collect_upstreams health us ctx))
     = set (UpstreamServices ctx) \<union> {st. \<exists>u \<in> set us. health u = Some st}"
proof (induction us arbitrary: ctx)
  case Nil
  then show ?case by simp
next
  case (Cons u us)
  then show ?case by (cases "health u") (auto simp: Let_def)
qed

lemma shouldSuppress_worst:
  assumes "fst (shouldSuppressDueToUpstream alert ctx)"
  shows "\<exists>st \<in> set (UpstreamServices ctx). HasFiringAlerts st \<and>
    severityRank (a_Severity alert) \<le> severityRank (sas_Severity st)"
proof -
  obtain w where w: "worst_upstream None (UpstreamServices ctx) = Some w"
    "severityRank (a_Severity alert) \<le> severityRank (sas_Severity w)"
    using assms by (auto simp: shouldSuppressDueToUpstream_def Let_def severityRank_def
        split: if_splits option.splits Severity.splits)
  then show ?thesis using worst_upstream_member by blast
qed

text \<open>An alert is suppressed as a symptom only when a service that its own service depends on has
  firing alerts at least as severe as the alert itself.\<close>

theorem suppressed_only_by_severe_upstream:
  assumes "fst (fst (IsInhibitedByDependency now alert d))"
  shows "\<exists>u st. u \<in> set (fst (GetUpstreamServices now (service_label (a_Labels alert)) d)) \<and>
    serviceHealth d u = Some st \<and> HasFiringAlerts st \<and>
    severityRank (a_Severity alert) \<le> severityRank (sas_Severity st)"
proof -
  obtain ups d1 where g: "GetUpstreamServices now (service_label (a_Labels alert)) d = (ups, d1)" by force
  have h: "serviceHealth d1 = serviceHealth d"
    using g by (auto simp: GetUpstreamServices_def refreshDependencyCache_def Let_def split: option.splits if_splits)
  let ?ctx = "collect_upstreams (serviceHealth d1) ups empty_context"
  have "fst (shouldSuppressDueToUpstream alert ?ctx)"
    using assms g by (auto simp: IsInhibitedByDependency_def GetDependencyContext_def empty_context_def Let_def
        split: if_splits prod.splits)
  then obtain st where "st \<in> set (UpstreamServices ?ctx)" "HasFiringAlerts st"
    "severityRank (a_Severity alert) \<le> severityRank (sas_Severity st)" using shouldSuppress_worst by blast
  moreover from this(1) have "\<exists>u \<in> set ups. serviceHealth d1 u = Some st"
    by (auto simp: collect_upstreams_states empty_context_def)
  ultimately show ?thesis using g h by auto
qed

definition demo_unhealthy :: DependencyAlerting where
  "demo_unhealthy = UpdateServiceHealth 0 ''db'' ''db'' [(demo_alert ''x'')\<lparr>a_Severity := SeverityCritical\<rparr>] demo_deps"

theorem suppressed_only_by_severe_upstream_witness:
  "\<exists>u st. u \<in> set (fst (GetUpstreamServices 0 (service_label (a_Labels (demo_alert ''y''))) demo_unhealthy)) \<and>
    serviceHealth demo_unhealthy u = Some st \<and> HasFiringAlerts st \<and>
    severityRank (a_Severity (demo_alert ''y'')) \<le> severityRank (sas_Severity st)"
proof (rule suppressed_only_by_severe_upstream)
  show "fst (fst (IsInhibitedByDependency 0 (demo_alert ''y'') demo_unhealthy))"
    by (simp add: IsInhibitedByDependency_def GetDependencyContext_def GetUpstreamServices_def
        refreshDependencyCache_def demo_unhealthy_def UpdateServiceHealth_def demo_deps_def
        NewDependencyAlerting_def demo_catalog_def demo_alert_def service_label_def label_def Let_def
        time_sub_def zero_time_def max_duration_def min_duration_def empty_context_def
        shouldSuppressDueToUpstream_def severityRank_def)
qed

text \<open>A service with a critical and a warning alert is reported to the catalogue as degraded, although
  the alerting side records it as critical; without the warning alert it is unhealthy.\<close>

theorem critical_service_reported_degraded:
  assumes "catalogStore d = Some cat" "c \<in> set alerts" "a_Severity c = SeverityCritical"
    and "w \<in> set alerts" "a_Severity w = SeverityWarning"
  shows "catalogHealth (UpdateServiceHealth now sid nm alerts d) = catalogHealth d @ [(sid, HealthDegraded)] \<and>
    (\<exists>st. serviceHealth (UpdateServiceHealth now sid nm alerts d) sid = Some st \<and> sas_Severity st = SeverityCritical) \<and>
    catalogHealth (UpdateServiceHealth now sid nm [c] d) = catalogHealth d @ [(sid, HealthUnhealthy)]"
proof -
  have le3: "severityRank x \<le> 3" for x by (cases x) (simp_all add: severityRank_def)
  have ge: "c \<in> set as \<Longrightarrow> worst_severity sev as = SeverityCritical" for as sev
  proof (induction as arbitrary: sev)
    case (Cons a as)
    have keep: "worst_severity SeverityCritical xs = SeverityCritical" for xs
    proof (induction xs)
      case (Cons x xs)
      then show ?case using le3 [of "a_Severity x"] by (auto simp: severityRank_def)
    qed simp
    from Cons show ?case
      using assms(3) keep by (cases sev) (auto simp: severityRank_def)
  qed simp
  have "list_ex (\<lambda>a. a_Severity a = SeverityWarning) alerts" "alerts \<noteq> []"
    using assms by (auto simp: list_ex_iff)
  then show ?thesis
    using assms ge [OF assms(2)] by (simp add: UpdateServiceHealth_def Let_def catalog_health_def)
qed

theorem critical_service_reported_degraded_witness:
  "catalogHealth (UpdateServiceHealth 0 ''db'' ''db''
     [(demo_alert ''x'')\<lparr>a_Severity := SeverityCritical\<rparr>, demo_alert ''y''] demo_deps) = [(''db'', HealthDegraded)]"
  using critical_service_reported_degraded [of demo_deps demo_catalog "(demo_alert ''x'')\<lparr>a_Severity := SeverityCritical\<rparr>"
      "[(demo_alert ''x'')\<lparr>a_Severity := SeverityCritical\<rparr>, demo_alert ''y'']" "demo_alert ''y''" 0 "''db''" "''db''"]
  by (simp add: demo_deps_def NewDependencyAlerting_def demo_alert_def)

section \<open>Root cause\<close>

definition unhealthy :: "(string \<rightharpoonup> ServiceAlertState) \<Rightarrow> string \<Rightarrow> bool" where
  "unhealthy health u \<longleftrightarrow> (case health u of None \<Rightarrow> False | Some st \<Rightarrow> HasFiringAlerts st)"

text \<open>A service reached upstream through unhealthy services only.\<close>

inductive chain :: "(string \<rightharpoonup> ServiceAlertState) \<Rightarrow> adjacency \<Rightarrow> string \<Rightarrow> string \<Rightarrow> bool"
  for health adj where
  chain_direct: "u \<in> set (adj_get adj s) \<Longrightarrow> unhealthy health u \<Longrightarrow> chain health adj s u"
| chain_step: "u \<in> set (adj_get adj s) \<Longrightarrow> unhealthy health u \<Longrightarrow> chain health adj u v \<Longrightarrow> chain health adj s v"

lemma root_cause_sound_aux:
  "findRootCauseRecursive n health adj sid visited = Some (r, visited') \<Longrightarrow>
     set visited \<subseteq> set visited' \<and> (\<forall>st. r = Some st \<longrightarrow> (\<exists>u. chain health adj sid u \<and> health u = Some st)) \<and>
     (sid \<notin> set visited \<longrightarrow> (r = None \<longleftrightarrow> (\<forall>u \<in> set (adj_get adj sid). \<not> unhealthy health u)))"
  "root_cause_loop n health adj us deepest visited = Some (r, visited') \<Longrightarrow> set us \<subseteq> set (adj_get adj sid) \<Longrightarrow>
     set visited \<subseteq> set visited' \<and>
     (\<forall>st. r = Some st \<longrightarrow> deepest = Some st \<or> (\<exists>u. chain health adj sid u \<and> health u = Some st)) \<and>
     (r = None \<longleftrightarrow> deepest = None \<and> (\<forall>u \<in> set us. \<not> unhealthy health u))"
proof (induction n health adj sid visited and n health adj us deepest visited arbitrary: r visited' and r visited' sid
    rule: findRootCauseRecursive_root_cause_loop.induct)
  case (2 n health adj serviceID visited)
  show ?case
  proof (cases "serviceID \<in> set visited")
    case True
    with "2.prems" show ?thesis by auto
  next
    case False
    with "2.prems" have "root_cause_loop n health adj (adj_get adj serviceID) None (serviceID # visited)
      = Some (r, visited')" by simp
    from "2.IH" [OF False this order_refl] False show ?thesis by auto
  qed
next
  case (4 n health adj u us deepest visited)
  show ?case
  proof (cases "unhealthy health u")
    case False
    then have skip: "root_cause_loop n health adj us deepest visited = Some (r, visited')"
      using "4.prems"(1) by (auto simp: unhealthy_def split: option.splits if_splits)
    have "health u = None \<or> (\<exists>st. health u = Some st \<and> \<not> HasFiringAlerts st)"
      using False by (auto simp: unhealthy_def split: option.splits)
    then show ?thesis
      using "4.IH"(1) [OF _ skip, of sid] "4.IH"(2) [OF _ _ skip, of _ sid] "4.prems"(2) False by auto
  next
    case True
    then obtain st where st: "health u = Some st" "HasFiringAlerts st"
      by (auto simp: unhealthy_def split: option.splits)
    obtain deeper v where d: "findRootCauseRecursive n health adj u visited = Some (deeper, v)"
      "root_cause_loop n health adj us (case deeper of None \<Rightarrow> Some st | Some x \<Rightarrow> Some x) v = Some (r, visited')"
      using "4.prems"(1) st by (auto split: option.splits)
    have u: "u \<in> set (adj_get adj sid)" using "4.prems"(2) by simp
    have A: "set visited \<subseteq> set v" "\<forall>x. deeper = Some x \<longrightarrow> (\<exists>w. chain health adj u w \<and> health w = Some x)"
      using "4.IH"(3) [OF st(1) _ d(1)] st(2) by auto
    have B: "set v \<subseteq> set visited'"
      "\<forall>x. r = Some x \<longrightarrow> (case deeper of None \<Rightarrow> Some st | Some x \<Rightarrow> Some x) = Some x \<or>
        (\<exists>w. chain health adj sid w \<and> health w = Some x)" "r \<noteq> None"
      using "4.IH"(4) [OF st(1) _ d(1) refl d(2), of sid] st(2) "4.prems"(2) by (auto split: option.splits)
    have "\<exists>w. chain health adj sid w \<and> health w = Some x"
      if "(case deeper of None \<Rightarrow> Some st | Some x \<Rightarrow> Some x) = Some x" for x
      using that A(2) chain_direct [OF u True] chain_step [OF u True] st(1)
      by (auto split: option.splits)
    then show ?thesis using A(1) B True by auto
  qed
qed (auto split: if_splits)

lemma root_cause_fuel_aux:
  assumes "finite U" "\<And>x. set (adj_get adj x) \<subseteq> U"
  shows "sid \<in> U \<Longrightarrow> card (U - set visited) < n \<Longrightarrow> findRootCauseRecursive n health adj sid visited \<noteq> None"
    "set us \<subseteq> U \<Longrightarrow> card (U - set visited) < n \<Longrightarrow> root_cause_loop n health adj us deepest visited \<noteq> None"
  using assms
proof (induction n health adj sid visited and n health adj us deepest visited
    rule: findRootCauseRecursive_root_cause_loop.induct)
  case (2 n health adj serviceID visited)
  have "card (U - set (serviceID # visited)) < n" if "serviceID \<notin> set visited"
  proof -
    have "U - set (serviceID # visited) = (U - set visited) - {serviceID}" by auto
    moreover have "card ((U - set visited) - {serviceID}) < card (U - set visited)"
      using that "2.prems" by (intro card_Diff1_less) auto
    ultimately show ?thesis using "2.prems" by simp
  qed
  then show ?case using "2.IH" "2.prems" by auto
next
  case (4 n health adj u us deepest visited)
  show ?case
  proof (cases "unhealthy health u")
    case False
    then have "health u = None \<or> (\<exists>st. health u = Some st \<and> \<not> HasFiringAlerts st)"
      by (auto simp: unhealthy_def split: option.splits)
    then show ?thesis using "4.IH"(1,2) "4.prems" by auto
  next
    case True
    then obtain st where st: "health u = Some st" "HasFiringAlerts st"
      by (auto simp: unhealthy_def split: option.splits)
    obtain deeper v where d: "findRootCauseRecursive n health adj u visited = Some (deeper, v)"
      using "4.IH"(3) [OF st(1)] st(2) "4.prems" by auto
    have "set visited \<subseteq> set v" using root_cause_sound_aux(1) [OF d] by blast
    then have "card (U - set v) \<le> card (U - set visited)" using "4.prems" by (intro card_mono) auto
    then show ?thesis using "4.IH"(4) [OF st(1) _ d refl] st d "4.prems" by auto
  qed
qed auto

text \<open>C9. The root-cause search ends; it answers nothing exactly when no direct dependency has firing
  alerts, and otherwise answers with a service that has firing alerts and is reached upstream
  through services that all have firing alerts.\<close>

theorem root_cause_found:
  "\<exists>r. fst (FindRootCause now sid d) = Some r \<and>
     (r = None \<longleftrightarrow> (\<forall>u \<in> set (fst (GetUpstreamServices now sid d)). \<not> unhealthy (serviceHealth d) u)) \<and>
     (\<forall>st. r = Some st \<longrightarrow> (\<exists>u. chain (serviceHealth d) (upstreamCache (refreshDependencyCache now d)) sid u \<and>
        serviceHealth d u = Some st))"
proof -
  let ?d = "refreshDependencyCache now d"
  let ?adj = "upstreamCache ?d" and ?U = "insert sid (adj_targets (upstreamCache (refreshDependencyCache now d)))"
  have h: "serviceHealth ?d = serviceHealth d"
    by (simp add: refreshDependencyCache_def split: option.splits)
  have "card ?U < card (adj_targets ?adj) + 2" by (simp add: card_insert_if)
  then have "findRootCauseRecursive (card (adj_targets ?adj) + 2) (serviceHealth d) ?adj sid [] \<noteq> None"
    by (intro root_cause_fuel_aux(1) [of ?U]) (auto intro: adj_get_targets)
  then obtain r v where r: "findRootCauseRecursive (card (adj_targets ?adj) + 2) (serviceHealth d) ?adj sid [] = Some (r, v)"
    by auto
  from root_cause_sound_aux(1) [OF r] show ?thesis
    using r by (simp add: FindRootCause_def GetUpstreamServices_def h Let_def)
qed

theorem root_cause_found_witness:
  "\<exists>st u. fst (FindRootCause 0 ''api'' demo_unhealthy) = Some (Some st) \<and>
     chain (serviceHealth demo_unhealthy) (upstreamCache (refreshDependencyCache 0 demo_unhealthy)) ''api'' u \<and>
     serviceHealth demo_unhealthy u = Some st"
proof -
  have "\<exists>u \<in> set (fst (GetUpstreamServices 0 ''api'' demo_unhealthy)). unhealthy (serviceHealth demo_unhealthy) u"
    by (simp add: GetUpstreamServices_def refreshDependencyCache_def demo_unhealthy_def UpdateServiceHealth_def
        demo_deps_def NewDependencyAlerting_def demo_catalog_def Let_def time_sub_def zero_time_def
        max_duration_def min_duration_def unhealthy_def)
  then show ?thesis using root_cause_found [of 0 "''api''" demo_unhealthy] by auto
qed

text \<open>Five services, all with firing alerts: \<open>a\<close> depends on \<open>b\<close> and \<open>d\<close>, \<open>b\<close> on \<open>d\<close>, \<open>d\<close> on \<open>e\<close>.\<close>

definition diamond :: DependencyAlerting where
  "diamond = \<lparr>catalogStore = None,
     serviceHealth = (\<lambda>u. if u \<in> {''a'', ''b'', ''d'', ''e''} then Some \<lparr>sas_ServiceID = u, sas_ServiceName = u,
        HasFiringAlerts = True, FiringAlertIDs = [''x''], sas_Severity = SeverityCritical, LastUpdated = 0\<rparr> else None),
     upstreamCache = [(''a'', [''b'', ''d'']), (''b'', [''d'']), (''d'', [''e''])], downstreamCache = [],
     cacheUpdatedAt = 0, cacheTTL = 5 * minute, catalogHealth = []\<rparr>"

text \<open>The root-cause search does not always find the deepest unhealthy service: when a service is
  reached a second time it answers with that service, although the first visit already found an
  unhealthy service further upstream of it.\<close>

theorem root_cause_not_deepest:
  "\<exists>st. fst (FindRootCause 0 ''a'' diamond) = Some (Some st) \<and> sas_ServiceID st = ''d'' \<and>
     ''e'' \<in> set (adj_get (upstreamCache diamond) ''d'') \<and> unhealthy (serviceHealth diamond) ''e'' \<and>
     (\<exists>st'. fst (FindRootCause 0 ''b'' diamond) = Some (Some st') \<and> sas_ServiceID st' = ''e'')"
proof -
  have T: "adj_targets (upstreamCache diamond) = {''b'', ''d'', ''e''}"
    by (auto simp: adj_targets_def diamond_def)
  have "card (adj_targets (upstreamCache diamond)) + 2 = Suc (Suc (Suc (Suc (Suc 0))))" by (simp add: T)
  then show ?thesis
    by (simp add: FindRootCause_def refreshDependencyCache_def diamond_def Let_def unhealthy_def)
qed

end
