(* ===== verification/Alert_Inhibitor.thy ===== *)
theory Alert_Inhibitor
  imports Alert_Impact
begin

text \<open>
  Label matching, silences and inhibition (\<open>internal/alerting/inhibitor.go\<close>, and the copies of
  the matcher loop in \<open>evaluator.go\<close> and \<open>router.go\<close>). The regular expression engine is a
  parameter: compiling a pattern gives a predicate on strings or fails.
\<close>

section \<open>Matching labels\<close>

type_synonym regex_engine = "string \<Rightarrow> (string \<Rightarrow> bool) option"

text \<open>What one matcher asks of a set of labels; one whose pattern does not compile asks nothing.\<close>

definition matcher_ok :: "regex_engine \<Rightarrow> labels \<Rightarrow> Matcher \<Rightarrow> bool" where
  "matcher_ok compile ls m \<longleftrightarrow>
     (if m_IsRegex m then (case compile (m_Value m) of None \<Rightarrow> True
        | Some re \<Rightarrow> re (label ls (m_Name m)) = m_IsEqual m)
      else (label ls (m_Name m) = m_Value m) = m_IsEqual m)"

text \<open>The contract of the matcher loops, and what follows from it: only the set of matchers counts.\<close>

locale label_matching =
  fixes compile :: regex_engine
    and matches :: "labels \<Rightarrow> Matcher list \<Rightarrow> bool"
  assumes matches_Nil: "matches ls []"
    and matches_Cons: "matches ls (m # ms) \<longleftrightarrow> matcher_ok compile ls m \<and> matches ls ms"
begin

lemma matches_iff: "matches ls ms \<longleftrightarrow> (\<forall>m \<in> set ms. matcher_ok compile ls m)"
  by (induction ms) (simp_all add: matches_Nil matches_Cons)

lemma matches_mono: "set ms \<subseteq> set ms' \<Longrightarrow> matches ls ms' \<Longrightarrow> matches ls ms"
  by (auto simp: matches_iff)

lemma matches_invalid:
  "(\<And>m. m \<in> set ms \<Longrightarrow> m_IsRegex m \<and> compile (m_Value m) = None) \<Longrightarrow> matches ls ms"
  by (simp add: matches_iff matcher_ok_def)

end

text \<open>The loop of \<open>matchesAllMatchers\<close>.\<close>

fun matchesAllMatchers :: "regex_engine \<Rightarrow> labels \<Rightarrow> Matcher list \<Rightarrow> bool" where
  "matchesAllMatchers compile ls [] = True"
| "matchesAllMatchers compile ls (matcher # matchers) =
     (let labelValue = (case ls (m_Name matcher) of None \<Rightarrow> [] | Some v \<Rightarrow> v);
          matched = (if m_IsRegex matcher
                     then (case compile (m_Value matcher) of None \<Rightarrow> None | Some re \<Rightarrow> Some (re labelValue))
                     else Some (labelValue = m_Value matcher))
      in case matched of
           None \<Rightarrow> matchesAllMatchers compile ls matchers
         | Some b \<Rightarrow>
             if m_IsEqual matcher \<and> \<not> b then False
             else if \<not> m_IsEqual matcher \<and> b then False
             else matchesAllMatchers compile ls matchers)"

fun matchesSilence_loop :: "regex_engine \<Rightarrow> Alert \<Rightarrow> Matcher list \<Rightarrow> bool" where
  "matchesSilence_loop compile alert [] = True"
| "matchesSilence_loop compile alert (matcher # matchers) =
     (let labelValue = (case a_Labels alert (m_Name matcher) of None \<Rightarrow> [] | Some v \<Rightarrow> v);
          matched = (if m_IsRegex matcher
                     then (case compile (m_Value matcher) of None \<Rightarrow> None | Some re \<Rightarrow> Some (re labelValue))
                     else Some (labelValue = m_Value matcher))
      in case matched of
           None \<Rightarrow> matchesSilence_loop compile alert matchers
         | Some b \<Rightarrow>
             if m_IsEqual matcher \<and> \<not> b then False
             else if \<not> m_IsEqual matcher \<and> b then False
             else matchesSilence_loop compile alert matchers)"

definition matchesSilence :: "regex_engine \<Rightarrow> Alert \<Rightarrow> Silence \<Rightarrow> bool" where
  "matchesSilence compile alert silence = matchesSilence_loop compile alert (s_Matchers silence)"

fun matchesRoute_loop :: "regex_engine \<Rightarrow> Alert \<Rightarrow> Matcher list \<Rightarrow> bool" where
  "matchesRoute_loop compile alert [] = True"
| "matchesRoute_loop compile alert (matcher # matchers) =
     (let labelValue = (case a_Labels alert (m_Name matcher) of None \<Rightarrow> [] | Some v \<Rightarrow> v);
          matched = (if m_IsRegex matcher
                     then (case compile (m_Value matcher) of None \<Rightarrow> None | Some re \<Rightarrow> Some (re labelValue))
                     else Some (labelValue = m_Value matcher))
      in case matched of
           None \<Rightarrow> matchesRoute_loop compile alert matchers
         | Some b \<Rightarrow>
             if m_IsEqual matcher \<and> \<not> b then False
             else if \<not> m_IsEqual matcher \<and> b then False
             else matchesRoute_loop compile alert matchers)"

definition matchesRoute :: "regex_engine \<Rightarrow> Alert \<Rightarrow> Route \<Rightarrow> bool" where
  "matchesRoute compile alert route =
     (if rt_Matchers route = [] then True else matchesRoute_loop compile alert (rt_Matchers route))"

interpretation all_matchers: label_matching compile "matchesAllMatchers compile" for compile
  by unfold_locales (auto simp: matcher_ok_def label_def Let_def split: option.splits)

interpretation silence_matchers: label_matching compile
  "\<lambda>ls. matchesSilence_loop compile (alert\<lparr>a_Labels := ls\<rparr>)" for compile alert
  by unfold_locales (auto simp: matcher_ok_def label_def Let_def split: option.splits)

interpretation route_matchers: label_matching compile
  "\<lambda>ls. matchesRoute_loop compile (alert\<lparr>a_Labels := ls\<rparr>)" for compile alert
  by unfold_locales (auto simp: matcher_ok_def label_def Let_def split: option.splits)

lemma matchesSilence_loop_iff:
  "matchesSilence_loop compile alert ms \<longleftrightarrow> (\<forall>m \<in> set ms. matcher_ok compile (a_Labels alert) m)"
  using silence_matchers.matches_iff [where compile = compile and alert = alert and ls = "a_Labels alert" and ms = ms]
  by simp

lemma matchesRoute_iff:
  "matchesRoute compile alert route \<longleftrightarrow> (\<forall>m \<in> set (rt_Matchers route). matcher_ok compile (a_Labels alert) m)"
  using route_matchers.matches_iff [where compile = compile and alert = alert and ls = "a_Labels alert"
      and ms = "rt_Matchers route"]
  by (auto simp: matchesRoute_def)

text \<open>The three copies of the matcher loop (silences in the evaluator, silences and inhibition in the
  inhibitor, routes in the router) decide the same thing, and it does not depend on the order or the
  repetition of the matchers.\<close>

theorem matcher_loops_agree:
  assumes "set (s_Matchers silence) = set ms" "set (rt_Matchers route) = set ms"
  shows "matchesSilence compile alert silence = matchesAllMatchers compile (a_Labels alert) ms \<and>
    matchesRoute compile alert route = matchesAllMatchers compile (a_Labels alert) ms"
  by (simp add: matchesSilence_def matchesSilence_loop_iff matchesRoute_iff all_matchers.matches_iff assms)

definition demo_matcher :: Matcher where
  "demo_matcher = \<lparr>m_Name = ''service'', m_Value = ''api'', m_IsRegex = False, m_IsEqual = True\<rparr>"

definition demo_route :: Route where
  "demo_route = Route ''rt'' ''rt'' [demo_matcher] ''ops'' [''service''] 0 0 0 [] False []"

theorem matcher_loops_agree_witness:
  "matchesRoute (\<lambda>_. None) (demo_alert ''x'') demo_route
     = matchesAllMatchers (\<lambda>_. None) (a_Labels (demo_alert ''x'')) [demo_matcher, demo_matcher]"
  using matcher_loops_agree [of "silence_of demo_silence" "[demo_matcher, demo_matcher]" demo_route
      "\<lambda>_. None" "demo_alert ''x''"]
  by (simp add: demo_route_def demo_silence_def silence_of_def demo_matcher_def)

section \<open>The inhibitor\<close>

record Inhibitor =
  ih_rules :: "InhibitRule list"
  ih_firingAlerts :: "string \<rightharpoonup> Alert"
  ih_dependencyAlerting :: "DependencyAlerting option"

definition NewInhibitor :: Inhibitor where
  "NewInhibitor = \<lparr>ih_rules = [], ih_firingAlerts = Map.empty, ih_dependencyAlerting = None\<rparr>"

definition SetDependencyAlerting :: "DependencyAlerting \<Rightarrow> Inhibitor \<Rightarrow> Inhibitor" where
  "SetDependencyAlerting da i = i\<lparr>ih_dependencyAlerting := Some da\<rparr>"

definition SetRules :: "InhibitRule list \<Rightarrow> Inhibitor \<Rightarrow> Inhibitor" where
  "SetRules rules i = i\<lparr>ih_rules := rules\<rparr>"

definition LoadRulesFromDB :: "Store \<Rightarrow> Inhibitor \<Rightarrow> Inhibitor outcome" where
  "LoadRulesFromDB store i =
     (case ListInhibitRules store of
        Return rules \<Rightarrow> Return (SetRules rules i) | Error e \<Rightarrow> Error e | Panic \<Rightarrow> Panic)"

definition UpdateFiringAlerts :: "Alert list \<Rightarrow> Inhibitor \<Rightarrow> Inhibitor" where
  "UpdateFiringAlerts alerts i =
     i\<lparr>ih_firingAlerts := fold (\<lambda>alert m. if a_State alert = StateFiring then m(a_Fingerprint alert \<mapsto> alert) else m)
         alerts Map.empty\<rparr>"

fun equal_labels :: "Alert \<Rightarrow> Alert \<Rightarrow> string list \<Rightarrow> bool" where
  "equal_labels source target [] = True"
| "equal_labels source target (l # ls) =
     (if label (a_Labels source) l \<noteq> label (a_Labels target) l then False else equal_labels source target ls)"

fun inhibit_sources :: "regex_engine \<Rightarrow> Alert \<Rightarrow> InhibitRule \<Rightarrow> (string \<times> Alert) list \<Rightarrow> bool" where
  "inhibit_sources compile target rule [] = False"
| "inhibit_sources compile target rule ((_, source) # sources) =
     (if a_Fingerprint source = a_Fingerprint target then inhibit_sources compile target rule sources
      else if \<not> matchesAllMatchers compile (a_Labels source) (ir_SourceMatch rule)
      then inhibit_sources compile target rule sources
      else if equal_labels source target (ir_EqualLabels rule) then True
      else inhibit_sources compile target rule sources)"

definition isInhibitedByRule ::
  "regex_engine \<Rightarrow> Alert \<Rightarrow> InhibitRule \<Rightarrow> (string \<rightharpoonup> Alert) \<Rightarrow> string list \<Rightarrow> bool" where
  "isInhibitedByRule compile target rule firing ord =
     (if \<not> matchesAllMatchers compile (a_Labels target) (ir_TargetMatch rule) then False
      else inhibit_sources compile target rule (range_map firing ord))"

definition IsInhibited :: "regex_engine \<Rightarrow> string list \<Rightarrow> Alert \<Rightarrow> Inhibitor \<Rightarrow> bool" where
  "IsInhibited compile ord alert i =
     list_ex (\<lambda>rule. isInhibitedByRule compile alert rule (ih_firingAlerts i) ord) (ih_rules i)"

definition IsSilenced :: "regex_engine \<Rightarrow> go_time \<Rightarrow> Store \<Rightarrow> Alert \<Rightarrow> Silence option" where
  "IsSilenced compile now store alert =
     (case ListActiveSilences now store of
        Return sils \<Rightarrow> find (\<lambda>silence. matchesAllMatchers compile (a_Labels alert) (s_Matchers silence)) sils
      | _ \<Rightarrow> None)"

definition ShouldSuppress ::
  "regex_engine \<Rightarrow> go_time \<Rightarrow> string list \<Rightarrow> Store \<Rightarrow> Alert \<Rightarrow> Inhibitor \<Rightarrow> (bool \<times> string) \<times> Inhibitor" where
  "ShouldSuppress compile now ord store alert i =
     (case IsSilenced compile now store alert of
        Some silence \<Rightarrow> ((True, ''silenced:'' @ s_ID silence), i)
      | None \<Rightarrow>
          if IsInhibited compile ord alert i then ((True, ''inhibited''), i)
          else (case ih_dependencyAlerting i of
                  None \<Rightarrow> ((False, []), i)
                | Some da \<Rightarrow>
                    (case IsInhibitedByDependency now alert da of
                       ((suppressed, reason), da') \<Rightarrow>
                         (let i' = i\<lparr>ih_dependencyAlerting := Some da'\<rparr>
                          in if suppressed then ((True, ''dependency:'' @ reason), i') else ((False, []), i')))))"

section \<open>Properties of suppression\<close>

lemma equal_labels_iff:
  "equal_labels source target ls \<longleftrightarrow> (\<forall>l \<in> set ls. label (a_Labels source) l = label (a_Labels target) l)"
  by (induction ls) auto

lemma inhibit_sources_iff:
  "inhibit_sources compile target rule srcs \<longleftrightarrow> (\<exists>(k, src) \<in> set srcs. a_Fingerprint src \<noteq> a_Fingerprint target \<and>
     matchesAllMatchers compile (a_Labels src) (ir_SourceMatch rule) \<and> equal_labels src target (ir_EqualLabels rule))"
proof (induction srcs)
  case Nil
  then show ?case by simp
next
  case (Cons x srcs)
  obtain k src where "x = (k, src)" by (cases x)
  with Cons show ?case by auto
qed

lemma isInhibitedByRule_iff:
  assumes "range_order firing ord"
  shows "isInhibitedByRule compile target rule firing ord \<longleftrightarrow>
    matchesAllMatchers compile (a_Labels target) (ir_TargetMatch rule) \<and>
    (\<exists>fp src. firing fp = Some src \<and> a_Fingerprint src \<noteq> a_Fingerprint target \<and>
       matchesAllMatchers compile (a_Labels src) (ir_SourceMatch rule) \<and>
       (\<forall>l \<in> set (ir_EqualLabels rule). label (a_Labels src) l = label (a_Labels target) l))"
  unfolding isInhibitedByRule_def inhibit_sources_iff set_range_map_order [OF assms] equal_labels_iff
  by auto

text \<open>C10. An alert is inhibited exactly when some rule targets it and another alert, with another
  fingerprint, is in the cache of firing alerts, matches the rule's source matchers and agrees with
  it on the rule's labels (a missing label counting as empty); the order of the cache is irrelevant
  and an alert never inhibits itself.\<close>

theorem inhibited_iff:
  assumes "range_order (ih_firingAlerts i) ord"
  shows "IsInhibited compile ord alert i \<longleftrightarrow>
    (\<exists>rule \<in> set (ih_rules i). matchesAllMatchers compile (a_Labels alert) (ir_TargetMatch rule) \<and>
       (\<exists>fp src. ih_firingAlerts i fp = Some src \<and> a_Fingerprint src \<noteq> a_Fingerprint alert \<and>
          matchesAllMatchers compile (a_Labels src) (ir_SourceMatch rule) \<and>
          (\<forall>l \<in> set (ir_EqualLabels rule). label (a_Labels src) l = label (a_Labels alert) l)))"
  by (simp only: IsInhibited_def list_ex_iff isInhibitedByRule_iff [OF assms])

definition demo_inhibit :: InhibitRule where
  "demo_inhibit = \<lparr>ir_ID = ''n'', ir_Name = ''n'', ir_SourceMatch = [demo_matcher], ir_TargetMatch = [demo_matcher],
     ir_EqualLabels = [''service'', ''zone''], ir_CreatedAt = 0\<rparr>"

definition demo_inhibitor :: Inhibitor where
  "demo_inhibitor = UpdateFiringAlerts [demo_alert ''x'', demo_alert ''y''] (SetRules [demo_inhibit] NewInhibitor)"

theorem inhibited_iff_witness:
  "IsInhibited (\<lambda>_. None) [''fy'', ''fx''] (demo_alert ''x'') demo_inhibitor"
proof -
  have f: "ih_firingAlerts demo_inhibitor = [''fx'' \<mapsto> demo_alert ''x'', ''fy'' \<mapsto> demo_alert ''y'']"
    by (simp add: demo_inhibitor_def UpdateFiringAlerts_def SetRules_def NewInhibitor_def demo_alert_def)
  have r: "ih_rules demo_inhibitor = [demo_inhibit]"
    by (simp add: demo_inhibitor_def UpdateFiringAlerts_def SetRules_def)
  have "range_order (ih_firingAlerts demo_inhibitor) [''fy'', ''fx'']"
    by (auto simp: range_order_def f)
  then show ?thesis
  proof (rule inhibited_iff [THEN iffD2])
    show "\<exists>rule \<in> set (ih_rules demo_inhibitor).
       matchesAllMatchers (\<lambda>_. None) (a_Labels (demo_alert ''x'')) (ir_TargetMatch rule) \<and>
       (\<exists>fp src. ih_firingAlerts demo_inhibitor fp = Some src \<and> a_Fingerprint src \<noteq> a_Fingerprint (demo_alert ''x'') \<and>
          matchesAllMatchers (\<lambda>_. None) (a_Labels src) (ir_SourceMatch rule) \<and>
          (\<forall>l \<in> set (ir_EqualLabels rule). label (a_Labels src) l = label (a_Labels (demo_alert ''x'')) l))"
      unfolding r f
      by (intro bexI [of _ demo_inhibit] conjI exI [of _ "''fy''"] exI [of _ "demo_alert ''y''"])
        (simp_all add: demo_inhibit_def demo_alert_def demo_matcher_def)
  qed
qed

text \<open>An alert is suppressed exactly when an active silence matches it, or it is inhibited, or it is a
  symptom of an upstream failure; a failing database silences nothing.\<close>

theorem suppressed_iff:
  "fst (fst (ShouldSuppress compile now ord store alert i)) \<longleftrightarrow>
     (db_ok store \<and> (\<exists>row \<in> set (silences store). sr_starts_at row \<le> to_unix now \<and> to_unix now < sr_ends_at row \<and>
        matchesAllMatchers compile (a_Labels alert) (sr_matchers row))) \<or>
     IsInhibited compile ord alert i \<or>
     (\<exists>da. ih_dependencyAlerting i = Some da \<and> fst (fst (IsInhibitedByDependency now alert da)))"
proof -
  have "IsSilenced compile now store alert = None \<longleftrightarrow> \<not> (db_ok store \<and> (\<exists>row \<in> set (silences store).
      sr_starts_at row \<le> to_unix now \<and> to_unix now < sr_ends_at row \<and>
        matchesAllMatchers compile (a_Labels alert) (sr_matchers row)))"
    by (auto simp: IsSilenced_def ListActiveSilences_def find_None_iff silence_of_def)
  then show ?thesis
    by (cases "IsSilenced compile now store alert") 
      (auto simp: ShouldSuppress_def Let_def split: option.splits prod.splits)
qed

text \<open>A silence whose patterns do not compile silences every alert: a matcher with a bad regular
  expression is skipped, and a silence with no other matcher is left with nothing to check.\<close>

theorem bad_regex_silences_everything:
  assumes "db_ok store" "row \<in> set (silences store)"
    and "sr_starts_at row \<le> to_unix now" "to_unix now < sr_ends_at row"
    and "\<forall>m \<in> set (sr_matchers row). m_IsRegex m \<and> compile (m_Value m) = None"
  shows "fst (fst (ShouldSuppress compile now ord store alert i))"
proof -
  have "matchesAllMatchers compile (a_Labels alert) (sr_matchers row)"
    using assms(5) by (intro all_matchers.matches_invalid) auto
  then have "IsSilenced compile now store alert \<noteq> None"
    using assms(1-4) by (auto simp: IsSilenced_def ListActiveSilences_def find_None_iff silence_of_def)
  then show ?thesis by (auto simp: ShouldSuppress_def)
qed

theorem bad_regex_silences_everything_witness:
  "fst (fst (ShouldSuppress (\<lambda>_. None) 5000000000 []
     (demo_store\<lparr>silences := [demo_silence\<lparr>sr_matchers := [demo_matcher\<lparr>m_IsRegex := True, m_Value := ''(''\<rparr>]\<rparr>]\<rparr>)
     (demo_alert ''x'') NewInhibitor))"
  by (rule bad_regex_silences_everything) (auto simp: demo_silence_def to_unix_def demo_matcher_def)

end
