(* ===== verification/Alert_Evaluator.thy ===== *)
theory Alert_Evaluator
  imports Alert_Inhibitor
begin

text \<open>
  The rule evaluator (\<open>internal/alerting/evaluator.go\<close>): when a rule is due, the evaluation of its
  type, and the life of each alert instance from pending to firing to resolved. A parameter record
  \<open>env\<close> holds what the evaluator is given or takes from libraries: the metrics provider, the regular
  expression engine, MD5, fresh UUIDs, and \<open>float64\<close> arithmetic with its rounding. One evaluation of a
  rule reads the clock once. The rule state is the entry of \<open>evalState\<close> that the code points to;
  the keys of \<open>FiringAlerts\<close> (whose values are always true) are a list. The calls of the
  notification callback are recorded in order.
\<close>

section \<open>State\<close>

record QueryResult =
  q_Labels :: labels
  q_Value :: f64
  q_Time :: go_time

record EvalResult =
  e_Labels :: labels
  e_Value :: f64
  e_Firing :: bool
  e_Timestamp :: go_time

record RuleEvalState =
  LastEval :: go_time
  ActiveSince :: "string \<rightharpoonup> go_time"
  FiringAlerts :: "string list"
  PendingAlerts :: "string \<rightharpoonup> go_time"

record env =
  Query :: "string \<Rightarrow> QueryResult list outcome"
  GetMetric :: "string \<Rightarrow> labels \<Rightarrow> f64 outcome"
  compile :: regex_engine
  md5_hex :: "string \<Rightarrow> string"
  uuid :: "nat \<Rightarrow> string"
  fadd :: "f64 \<Rightarrow> f64 \<Rightarrow> f64"
  fsub :: "f64 \<Rightarrow> f64 \<Rightarrow> f64"
  fmul :: "f64 \<Rightarrow> f64 \<Rightarrow> f64"
  fdiv :: "f64 \<Rightarrow> f64 \<Rightarrow> f64"

record Evaluator =
  ev_store :: Store
  has_notify :: bool
  ev_alerts :: "string \<rightharpoonup> Alert"
  evalState :: "string \<rightharpoonup> RuleEvalState"
  uuids_used :: nat
  notified :: "(Alert \<times> Rule) list"

definition NewEvaluator :: "Store \<Rightarrow> Evaluator" where
  "NewEvaluator store = \<lparr>ev_store = store, has_notify = False, ev_alerts = Map.empty,
     evalState = Map.empty, uuids_used = 0, notified = []\<rparr>"

definition SetNotifyFunc :: "Evaluator \<Rightarrow> Evaluator" where
  "SetNotifyFunc e = e\<lparr>has_notify := True\<rparr>"

definition new_state :: RuleEvalState where
  "new_state = \<lparr>LastEval = zero_time, ActiveSince = Map.empty, FiringAlerts = [], PendingAlerts = Map.empty\<rparr>"

definition rule_state :: "Evaluator \<Rightarrow> string \<Rightarrow> RuleEvalState" where
  "rule_state e rid = (case evalState e rid of None \<Rightarrow> new_state | Some st \<Rightarrow> st)"

definition set_state :: "string \<Rightarrow> RuleEvalState \<Rightarrow> Evaluator \<Rightarrow> Evaluator" where
  "set_state rid st e = e\<lparr>evalState := (evalState e)(rid \<mapsto> st)\<rparr>"

definition set_alert :: "string \<Rightarrow> Alert \<Rightarrow> Evaluator \<Rightarrow> Evaluator" where
  "set_alert fp a e = e\<lparr>ev_alerts := (ev_alerts e)(fp \<mapsto> a)\<rparr>"

text \<open>\<open>e.store.SaveAlert(alert)\<close> with its error ignored.\<close>

definition save :: "Alert \<Rightarrow> Evaluator \<Rightarrow> Evaluator" where
  "save a e = e\<lparr>ev_store := (case SaveAlert a (ev_store e) of Return s \<Rightarrow> s | _ \<Rightarrow> ev_store e)\<rparr>"

section \<open>Evaluating a rule\<close>

definition checkCondition :: "f64 \<Rightarrow> string \<Rightarrow> f64 \<Rightarrow> bool" where
  "checkCondition value condition threshold =
     (if condition = ''gt'' \<or> condition = ''>'' then f64_less threshold value
      else if condition = ''lt'' \<or> condition = ''<'' then f64_less value threshold
      else if condition = ''gte'' \<or> condition = ''>='' then f64_le threshold value
      else if condition = ''lte'' \<or> condition = ''<='' then f64_le value threshold
      else if condition = ''eq'' \<or> condition = ''=='' then f64_eq value threshold
      else if condition = ''neq'' \<or> condition = ''!='' then \<not> f64_eq value threshold
      else False)"

definition eval_results :: "(f64 \<Rightarrow> bool) \<Rightarrow> QueryResult list \<Rightarrow> EvalResult list" where
  "eval_results firing qrs = map (\<lambda>qr. \<lparr>e_Labels = q_Labels qr, e_Value = q_Value qr,
     e_Firing = firing (q_Value qr), e_Timestamp = q_Time qr\<rparr>) qrs"

definition evaluateThreshold :: "env \<Rightarrow> go_time \<Rightarrow> Rule \<Rightarrow> EvalResult list outcome" where
  "evaluateThreshold E now rule =
     (let finish = (\<lambda>qrs. Return (eval_results (\<lambda>v. checkCondition v (r_Condition rule) (r_Threshold rule)) qrs))
      in if r_Query rule \<noteq> [] then
           (case Query E (r_Query rule) of Return qrs \<Rightarrow> finish qrs | Error e \<Rightarrow> Error e | Panic \<Rightarrow> Panic)
         else if r_Metric rule \<noteq> [] then
           (case GetMetric E (r_Metric rule) (r_Labels rule) of
              Return v \<Rightarrow> finish [\<lparr>q_Labels = r_Labels rule, q_Value = v, q_Time = now\<rparr>]
            | Error e \<Rightarrow> Error e | Panic \<Rightarrow> Panic)
         else Error ''rule has no query or metric'')"

text \<open>The constant \<open>0.1\<close> is the float64 nearest to it.\<close>

definition tenth :: f64 where "tenth = Fin (3602879701896397 / 36028797018963968)"

definition fneg :: "f64 \<Rightarrow> f64" where
  "fneg x = (case x of NaN \<Rightarrow> NaN | NegInf \<Rightarrow> PosInf | PosInf \<Rightarrow> NegInf | Fin r \<Rightarrow> Fin (- r))"

definition evaluateAnomaly :: "env \<Rightarrow> Rule \<Rightarrow> EvalResult list outcome" where
  "evaluateAnomaly E rule =
     (if r_Query rule = [] then Error ''anomaly rule requires a query''
      else case Query E (r_Query rule) of
        Return qrs \<Rightarrow>
          (let sensitivity = (if f64_eq (r_Sensitivity rule) (Fin 0) then Fin (1 / 2) else r_Sensitivity rule);
               zThreshold = fadd E (Fin 1) (fmul E (fsub E (Fin 1) sensitivity) (Fin 3));
               firing = (\<lambda>v. if (r_Algorithm rule = ''zscore'' \<or> r_Algorithm rule = []) \<and> f64_less (Fin 0) (r_Threshold rule)
                 then (let zScore = fdiv E (fsub E v (r_Threshold rule)) (fmul E (r_Threshold rule) tenth)
                       in f64_less zThreshold zScore \<or> f64_less zScore (fneg zThreshold))
                 else False)
           in Return (eval_results firing qrs))
      | Error e \<Rightarrow> Error e | Panic \<Rightarrow> Panic)"

definition evaluateChange :: "env \<Rightarrow> Rule \<Rightarrow> EvalResult list outcome" where
  "evaluateChange E rule =
     (if r_Query rule = [] then Error ''change rule requires a query''
      else case Query E (r_Query rule) of
        Return qrs \<Rightarrow>
          (let baseline = r_Threshold rule;
               changeThreshold = (if f64_eq (r_ChangeThreshold rule) (Fin 0) then Fin 10 else r_ChangeThreshold rule);
               firing = (\<lambda>v. let change = (if r_ChangeType rule = ''percent'' \<and> \<not> f64_eq baseline (Fin 0)
                   then fmul E (fdiv E (fsub E v baseline) baseline) (Fin 100) else fsub E v baseline)
                 in f64_less changeThreshold change \<or> f64_less change (fneg changeThreshold))
           in Return (eval_results firing qrs))
      | Error e \<Rightarrow> Error e | Panic \<Rightarrow> Panic)"

definition absence_result :: "go_time \<Rightarrow> Rule \<Rightarrow> f64 \<Rightarrow> bool \<Rightarrow> EvalResult list outcome" where
  "absence_result now rule v firing = Return [\<lparr>e_Labels = r_Labels rule, e_Value = v, e_Firing = firing,
     e_Timestamp = now\<rparr>]"

definition evaluateAbsence :: "env \<Rightarrow> go_time \<Rightarrow> Rule \<Rightarrow> EvalResult list outcome" where
  "evaluateAbsence E now rule =
     (if r_Query rule = [] \<and> r_Metric rule = [] then Error ''absence rule requires a query or metric''
      else if r_Query rule \<noteq> [] then
        (case Query E (r_Query rule) of
           Return [] \<Rightarrow> absence_result now rule (Fin 0) True
         | Return (qr # _) \<Rightarrow> absence_result now rule (q_Value qr) False
         | Error e \<Rightarrow> absence_result now rule (Fin 0) True
         | Panic \<Rightarrow> Panic)
      else
        (case GetMetric E (r_Metric rule) (r_Labels rule) of
           Return v \<Rightarrow> absence_result now rule (Fin 0) False
         | Error e \<Rightarrow> absence_result now rule (Fin 0) True
         | Panic \<Rightarrow> Panic))"

definition sub_rule_firing :: "Evaluator \<Rightarrow> string \<Rightarrow> bool" where
  "sub_rule_firing e rid = (case evalState e rid of None \<Rightarrow> False | Some st \<Rightarrow> FiringAlerts st \<noteq> [])"

definition evaluateComposite :: "go_time \<Rightarrow> Rule \<Rightarrow> Evaluator \<Rightarrow> EvalResult list outcome" where
  "evaluateComposite now rule e =
     (if r_SubRules rule = [] then Error ''composite rule has no sub-rules''
      else let expr = to_lower (r_Expression rule);
               firing = (if contains_sub expr '' and '' then list_all (sub_rule_firing e) (r_SubRules rule)
                         else list_ex (sub_rule_firing e) (r_SubRules rule))
           in Return [\<lparr>e_Labels = r_Labels rule, e_Value = Fin 0, e_Firing = firing, e_Timestamp = now\<rparr>])"

section \<open>Alert instances\<close>

definition generateFingerprint :: "env \<Rightarrow> string \<Rightarrow> labels \<Rightarrow> string" where
  "generateFingerprint E ruleID ls =
     md5_hex E (join (ruleID # map (\<lambda>k. k @ ''='' @ label ls k) (sorted_list_of_set (dom ls))) ''|'')"

definition getSeverity :: "Rule \<Rightarrow> Severity" where
  "getSeverity rule =
     (case r_Labels rule ''severity'' of
        None \<Rightarrow> SeverityWarning
      | Some sev \<Rightarrow> if sev = ''critical'' then SeverityCritical else if sev = ''warning'' then SeverityWarning
          else if sev = ''info'' then SeverityInfo else SeverityWarning)"

definition mergeLabels :: "labels \<Rightarrow> labels \<Rightarrow> labels" where
  "mergeLabels base overlay = base ++ overlay"

definition isSilenced :: "env \<Rightarrow> go_time \<Rightarrow> Store \<Rightarrow> Alert \<Rightarrow> bool" where
  "isSilenced E now store alert =
     (case ListActiveSilences now store of
        Return sils \<Rightarrow> list_ex (matchesSilence (compile E) alert) sils
      | _ \<Rightarrow> False)"

definition new_alert :: "env \<Rightarrow> Rule \<Rightarrow> string \<Rightarrow> EvalResult \<Rightarrow> go_time \<Rightarrow> go_time \<Rightarrow> nat \<Rightarrow> Alert" where
  "new_alert E rule fp result activeSince now n = \<lparr>a_ID = uuid E n, a_RuleID = r_ID rule,
     a_RuleName = r_Name rule, a_State = StatePending, a_Severity = getSeverity rule,
     a_Labels = mergeLabels (r_Labels rule) (e_Labels result), a_Annotations = r_Annotations rule,
     a_Value = e_Value result, a_Threshold = r_Threshold rule, a_StartsAt = activeSince, a_EndsAt = None,
     a_FiredAt = None, a_ResolvedAt = None, a_LastEvalAt = now, a_NotifiedAt = None,
     a_AcknowledgedAt = None, a_AcknowledgedBy = [], a_Fingerprint = fp\<rparr>"

text \<open>The first half of \<open>handleFiringResult\<close>: note when the condition became true, get or create the
  alert, and record the value.\<close>

definition track_alert :: "env \<Rightarrow> Rule \<Rightarrow> string \<Rightarrow> EvalResult \<Rightarrow> go_time \<Rightarrow> Evaluator \<Rightarrow> go_time \<times> Alert \<times> Evaluator" where
  "track_alert E rule fp result now e =
     (let st = rule_state e (r_ID rule);
          st1 = (if ActiveSince st fp = None then st\<lparr>ActiveSince := (ActiveSince st)(fp \<mapsto> now)\<rparr> else st);
          activeSince = (case ActiveSince st fp of None \<Rightarrow> now | Some t \<Rightarrow> t);
          e1 = set_state (r_ID rule) st1 e;
          (alert, e2) = (case ev_alerts e1 fp of
             None \<Rightarrow> (new_alert E rule fp result activeSince now (uuids_used e1), e1\<lparr>uuids_used := uuids_used e1 + 1\<rparr>)
           | Some a \<Rightarrow> (a, e1));
          alert1 = alert\<lparr>a_Value := e_Value result, a_LastEvalAt := now\<rparr>
      in (activeSince, alert1, set_alert fp alert1 e2))"

text \<open>The transition to firing, with the notification.\<close>

definition fire_alert :: "env \<Rightarrow> Rule \<Rightarrow> string \<Rightarrow> go_time \<Rightarrow> Alert \<Rightarrow> Evaluator \<Rightarrow> Alert \<times> Evaluator" where
  "fire_alert E rule fp now alert e =
     (let alert1 = alert\<lparr>a_State := StateFiring, a_FiredAt := Some now\<rparr>;
          st = rule_state e (r_ID rule);
          st1 = st\<lparr>FiringAlerts := List.insert fp (FiringAlerts st), PendingAlerts := (PendingAlerts st)(fp := None)\<rparr>;
          e1 = set_state (r_ID rule) st1 (set_alert fp alert1 e)
      in if isSilenced E now (ev_store e1) alert1 then (alert1, e1)
         else (let e2 = (if has_notify e1 then e1\<lparr>notified := notified e1 @ [(alert1, rule)]\<rparr> else e1);
                   alert2 = alert1\<lparr>a_NotifiedAt := Some now\<rparr>
               in (alert2, set_alert fp alert2 e2)))"

definition handleFiringResult :: "env \<Rightarrow> Rule \<Rightarrow> string \<Rightarrow> EvalResult \<Rightarrow> go_time \<Rightarrow> Evaluator \<Rightarrow> Evaluator" where
  "handleFiringResult E rule fp result now e =
     (case track_alert E rule fp result now e of
        (activeSince, alert, e1) \<Rightarrow>
          (let pendingDuration = time_sub now activeSince;
               shouldFire = (r_ForDuration rule \<le> pendingDuration)
           in if shouldFire \<and> a_State alert \<noteq> StateFiring then
                (case fire_alert E rule fp now alert e1 of (alert2, e2) \<Rightarrow> save alert2 e2)
              else if \<not> shouldFire \<and> a_State alert = StateInactive then
                (let alert2 = alert\<lparr>a_State := StatePending\<rparr>;
                     st = rule_state e1 (r_ID rule);
                     st2 = st\<lparr>PendingAlerts := (PendingAlerts st)(fp \<mapsto> activeSince)\<rparr>
                 in save alert2 (set_state (r_ID rule) st2 (set_alert fp alert2 e1)))
              else save alert e1))"

definition resolve_alert :: "go_time \<Rightarrow> Alert \<Rightarrow> Alert" where
  "resolve_alert now a = a\<lparr>a_State := StateResolved, a_ResolvedAt := Some now, a_EndsAt := Some now\<rparr>"

definition handleResolvedResult :: "Rule \<Rightarrow> string \<Rightarrow> go_time \<Rightarrow> Evaluator \<Rightarrow> Evaluator" where
  "handleResolvedResult rule fp now e =
     (let st = rule_state e (r_ID rule);
          wasActive = ActiveSince st fp;
          st1 = st\<lparr>ActiveSince := (ActiveSince st)(fp := None), PendingAlerts := (PendingAlerts st)(fp := None)\<rparr>;
          e1 = set_state (r_ID rule) st1 e
      in if wasActive = None \<or> wasActive = Some zero_time then e1
         else case ev_alerts e1 fp of
           None \<Rightarrow> e1
         | Some alert \<Rightarrow>
             (let wasFiring = (a_State alert = StateFiring)
              in if wasFiring \<and> 0 < r_KeepFiringFor rule \<and>
                    (case a_FiredAt alert of None \<Rightarrow> False | Some t \<Rightarrow> time_sub now t < r_KeepFiringFor rule)
                 then e1
                 else
                   (let e2 = (if a_State alert = StateFiring \<or> a_State alert = StatePending
                              then save (resolve_alert now alert) (set_alert fp (resolve_alert now alert) e1) else e1);
                        st2 = rule_state e2 (r_ID rule)
                    in set_state (r_ID rule) (st2\<lparr>FiringAlerts := removeAll fp (FiringAlerts st2)\<rparr>) e2)))"

text \<open>An alert that was firing and whose series is gone.\<close>

definition resolve_unseen :: "Rule \<Rightarrow> go_time \<Rightarrow> string \<Rightarrow> Evaluator \<Rightarrow> Evaluator" where
  "resolve_unseen rule now fp e =
     (let st = rule_state e (r_ID rule);
          st1 = st\<lparr>FiringAlerts := removeAll fp (FiringAlerts st), ActiveSince := (ActiveSince st)(fp := None),
                   PendingAlerts := (PendingAlerts st)(fp := None)\<rparr>;
          e1 = set_state (r_ID rule) st1 e
      in case ev_alerts e1 fp of
           None \<Rightarrow> e1
         | Some alert \<Rightarrow>
             if a_State alert = StateFiring \<or> a_State alert = StatePending
             then save (resolve_alert now alert) (set_alert fp (resolve_alert now alert) e1) else e1)"

definition handle_result :: "env \<Rightarrow> Rule \<Rightarrow> go_time \<Rightarrow> EvalResult \<Rightarrow> Evaluator \<Rightarrow> Evaluator" where
  "handle_result E rule now result e =
     (let fp = generateFingerprint E (r_ID rule) (e_Labels result)
      in if e_Firing result then handleFiringResult E rule fp result now e
         else handleResolvedResult rule fp now e)"

definition processResults :: "env \<Rightarrow> Rule \<Rightarrow> go_time \<Rightarrow> EvalResult list \<Rightarrow> Evaluator \<Rightarrow> Evaluator" where
  "processResults E rule now results e =
     (let e1 = fold (handle_result E rule now) results e;
          seen = map (\<lambda>r. generateFingerprint E (r_ID rule) (e_Labels r)) results
      in fold (resolve_unseen rule now)
           (filter (\<lambda>fp. fp \<notin> set seen) (FiringAlerts (rule_state e1 (r_ID rule)))) e1)"

definition evaluate_type :: "env \<Rightarrow> go_time \<Rightarrow> Rule \<Rightarrow> Evaluator \<Rightarrow> EvalResult list outcome" where
  "evaluate_type E now rule e =
     (case r_Type rule of
        RuleTypeThreshold \<Rightarrow> evaluateThreshold E now rule
      | RuleTypeAnomaly \<Rightarrow> evaluateAnomaly E rule
      | RuleTypeChange \<Rightarrow> evaluateChange E rule
      | RuleTypeAbsence \<Rightarrow> evaluateAbsence E now rule
      | RuleTypeComposite \<Rightarrow> evaluateComposite now rule e
      | RuleTypeOther t \<Rightarrow> Error ''Unknown rule type'')"

definition evaluateRule :: "env \<Rightarrow> go_time \<Rightarrow> Rule \<Rightarrow> Evaluator \<Rightarrow> Evaluator outcome" where
  "evaluateRule E now rule e =
     (let st = rule_state e (r_ID rule);
          e1 = set_state (r_ID rule) st e;
          evalInterval = (if r_EvalInterval rule = 0 then minute else r_EvalInterval rule)
      in if time_sub now (LastEval st) < evalInterval then Return e1
         else (let e2 = set_state (r_ID rule) (st\<lparr>LastEval := now\<rparr>) e1
               in case evaluate_type E now rule e2 of
                    Return results \<Rightarrow> Return (processResults E rule now results e2)
                  | Error _ \<Rightarrow> Return e2
                  | Panic \<Rightarrow> Panic))"

definition cleanupResolvedAlerts :: "go_time \<Rightarrow> Evaluator \<Rightarrow> Evaluator" where
  "cleanupResolvedAlerts now e =
     (let cutoff = now - hour
      in e\<lparr>ev_alerts := (\<lambda>fp. case ev_alerts e fp of None \<Rightarrow> None
           | Some a \<Rightarrow> if a_State a = StateResolved \<and>
               (case a_ResolvedAt a of None \<Rightarrow> False | Some t \<Rightarrow> t < cutoff) then None else Some a)\<rparr>)"

fun evaluate_rules :: "env \<Rightarrow> go_time \<Rightarrow> Rule list \<Rightarrow> Evaluator \<Rightarrow> Evaluator outcome" where
  "evaluate_rules E now [] e = Return e"
| "evaluate_rules E now (rule # rules) e =
     (case evaluateRule E now rule e of Return e' \<Rightarrow> evaluate_rules E now rules e' | Error m \<Rightarrow> Error m | Panic \<Rightarrow> Panic)"

definition evaluateAll :: "env \<Rightarrow> go_time \<Rightarrow> Evaluator \<Rightarrow> Evaluator outcome" where
  "evaluateAll E now e =
     (case ListEnabledRules (ev_store e) of
        Return rules \<Rightarrow>
          (case evaluate_rules E now rules e of
             Return e' \<Rightarrow> Return (cleanupResolvedAlerts now e') | Error m \<Rightarrow> Error m | Panic \<Rightarrow> Panic)
      | Error _ \<Rightarrow> Return e
      | Panic \<Rightarrow> Panic)"

section \<open>Queries and acknowledgement\<close>

definition GetFiringAlerts :: "string list \<Rightarrow> Evaluator \<Rightarrow> Alert list" where
  "GetFiringAlerts ord e = filter (\<lambda>a. a_State a = StateFiring) (map snd (range_map (ev_alerts e) ord))"

definition GetPendingAlerts :: "string list \<Rightarrow> Evaluator \<Rightarrow> Alert list" where
  "GetPendingAlerts ord e = filter (\<lambda>a. a_State a = StatePending) (map snd (range_map (ev_alerts e) ord))"

definition Evaluator_GetAlert :: "string \<Rightarrow> Evaluator \<Rightarrow> Alert option" where
  "Evaluator_GetAlert fp e = ev_alerts e fp"

definition AcknowledgeAlert :: "go_time \<Rightarrow> string list \<Rightarrow> string \<Rightarrow> string \<Rightarrow> Evaluator \<Rightarrow> Evaluator \<times> unit outcome" where
  "AcknowledgeAlert now ord alertID userID e =
     (case find (\<lambda>(fp, a). a_ID a = alertID) (range_map (ev_alerts e) ord) of
        None \<Rightarrow> (e, Error (''alert not found: '' @ alertID))
      | Some (fp, a) \<Rightarrow>
          (let a1 = a\<lparr>a_AcknowledgedAt := Some now, a_AcknowledgedBy := userID\<rparr>; e1 = set_alert fp a1 e
           in case SaveAlert a1 (ev_store e1) of
                Return s \<Rightarrow> (e1\<lparr>ev_store := s\<rparr>, Return ()) | Error m \<Rightarrow> (e1, Error m) | Panic \<Rightarrow> (e1, Panic)))"

end
