(* ===== verification/Alert_Lifecycle.thy ===== *)
theory Alert_Lifecycle
  imports Alert_Evaluator
begin

text \<open>
  The life of an alert instance: when it may fire, how long it stays, when it is notified. The
  effect of each handler of the evaluator on one fingerprint is stated once, with frame lemmas for
  the others; the histories of a rule are lists of events (time, fingerprint, condition).
\<close>

section \<open>Frames\<close>

lemma rule_state_set_state [simp]:
  "rule_state (set_state rid st e) rid' = (if rid' = rid then st else rule_state e rid')"
  by (simp add: rule_state_def set_state_def)

lemma set_state_frame [simp]:
  "ev_alerts (set_state rid st e) = ev_alerts e" "ev_store (set_state rid st e) = ev_store e"
  "notified (set_state rid st e) = notified e" "has_notify (set_state rid st e) = has_notify e"
  "uuids_used (set_state rid st e) = uuids_used e"
  by (simp_all add: set_state_def)

lemma set_alert_frame [simp]:
  "rule_state (set_alert fp a e) rid = rule_state e rid" "ev_store (set_alert fp a e) = ev_store e"
  "notified (set_alert fp a e) = notified e" "has_notify (set_alert fp a e) = has_notify e"
  "uuids_used (set_alert fp a e) = uuids_used e"
  by (simp_all add: set_alert_def rule_state_def)

lemma ev_alerts_set_alert [simp]: "ev_alerts (set_alert fp a e) = (ev_alerts e)(fp \<mapsto> a)"
  by (simp add: set_alert_def)

lemma save_frame [simp]:
  "rule_state (save a e) rid = rule_state e rid" "ev_alerts (save a e) = ev_alerts e"
  "notified (save a e) = notified e" "has_notify (save a e) = has_notify e"
  "uuids_used (save a e) = uuids_used e"
  by (simp_all add: save_def rule_state_def)

lemma uuids_frame [simp]: "rule_state (e\<lparr>uuids_used := n\<rparr>) rid = rule_state e rid"
  by (simp add: rule_state_def)

lemma notified_frame [simp]: "rule_state (e\<lparr>notified := n\<rparr>) rid = rule_state e rid"
  by (simp add: rule_state_def)

section \<open>One result\<close>

text \<open>When the condition of an instance became true, as of a firing result at \<open>now\<close>.\<close>

definition active_since :: "Rule \<Rightarrow> string \<Rightarrow> go_time \<Rightarrow> Evaluator \<Rightarrow> go_time" where
  "active_since rule fp now e = (case ActiveSince (rule_state e (r_ID rule)) fp of None \<Rightarrow> now | Some t \<Rightarrow> t)"

text \<open>The alert a firing result is recorded in.\<close>

definition tracked :: "env \<Rightarrow> Rule \<Rightarrow> string \<Rightarrow> EvalResult \<Rightarrow> go_time \<Rightarrow> Evaluator \<Rightarrow> Alert" where
  "tracked E rule fp result now e =
     (case ev_alerts e fp of None \<Rightarrow> new_alert E rule fp result (active_since rule fp now e) now (uuids_used e)
      | Some a \<Rightarrow> a)\<lparr>a_Value := e_Value result, a_LastEvalAt := now\<rparr>"

lemma track_alert_effect:
  assumes "track_alert E rule fp result now e = (t, a, e1)"
  shows "t = active_since rule fp now e" "a = tracked E rule fp result now e"
    "ev_alerts e1 = (ev_alerts e)(fp \<mapsto> a)" "notified e1 = notified e" "has_notify e1 = has_notify e"
    "ev_store e1 = ev_store e"
    "rule_state e1 rid = (if rid = r_ID rule then (rule_state e rid)\<lparr>ActiveSince :=
       (ActiveSince (rule_state e rid))(fp \<mapsto> active_since rule fp now e)\<rparr> else rule_state e rid)"
  using assms
  by (auto simp: track_alert_def tracked_def active_since_def Let_def fun_upd_idem map_upd_triv split: option.splits)

text \<open>Whether a firing result makes its alert fire.\<close>

definition fires :: "env \<Rightarrow> Rule \<Rightarrow> string \<Rightarrow> EvalResult \<Rightarrow> go_time \<Rightarrow> Evaluator \<Rightarrow> bool" where
  "fires E rule fp result now e \<longleftrightarrow> r_ForDuration rule \<le> time_sub now (active_since rule fp now e) \<and>
     a_State (tracked E rule fp result now e) \<noteq> StateFiring"

lemma handleFiringResult_state:
  "ActiveSince (rule_state (handleFiringResult E rule fp result now e) (r_ID rule))
     = (ActiveSince (rule_state e (r_ID rule)))(fp \<mapsto> active_since rule fp now e)"
  "FiringAlerts (rule_state (handleFiringResult E rule fp result now e) (r_ID rule))
     = (if fires E rule fp result now e then List.insert fp (FiringAlerts (rule_state e (r_ID rule)))
        else FiringAlerts (rule_state e (r_ID rule)))"
  "rid \<noteq> r_ID rule \<Longrightarrow> rule_state (handleFiringResult E rule fp result now e) rid = rule_state e rid"
proof -
  obtain t a e1 where tr: "track_alert E rule fp result now e = (t, a, e1)" by (metis prod_cases3)
  note T = track_alert_effect [OF tr]
  show "ActiveSince (rule_state (handleFiringResult E rule fp result now e) (r_ID rule))
     = (ActiveSince (rule_state e (r_ID rule)))(fp \<mapsto> active_since rule fp now e)"
    by (auto simp: handleFiringResult_def tr Let_def fire_alert_def T(7))
  show "FiringAlerts (rule_state (handleFiringResult E rule fp result now e) (r_ID rule))
     = (if fires E rule fp result now e then List.insert fp (FiringAlerts (rule_state e (r_ID rule)))
        else FiringAlerts (rule_state e (r_ID rule)))"
    using T(1,2) by (auto simp: handleFiringResult_def tr Let_def fire_alert_def T(7) fires_def)
  show "rid \<noteq> r_ID rule \<Longrightarrow> rule_state (handleFiringResult E rule fp result now e) rid = rule_state e rid"
    by (auto simp: handleFiringResult_def tr Let_def fire_alert_def T(7))
qed

text \<open>The alert after a firing result.\<close>

definition silent :: "env \<Rightarrow> go_time \<Rightarrow> Evaluator \<Rightarrow> Alert \<Rightarrow> bool" where
  "silent E now e a = isSilenced E now (ev_store e) (a\<lparr>a_State := StateFiring, a_FiredAt := Some now\<rparr>)"

lemma handleFiringResult_alert:
  "ev_alerts (handleFiringResult E rule fp result now e) = (ev_alerts e)(fp \<mapsto>
     (let a = tracked E rule fp result now e
      in if fires E rule fp result now e then
           (let a1 = a\<lparr>a_State := StateFiring, a_FiredAt := Some now\<rparr>
            in if silent E now e a then a1 else a1\<lparr>a_NotifiedAt := Some now\<rparr>)
         else if \<not> r_ForDuration rule \<le> time_sub now (active_since rule fp now e) \<and> a_State a = StateInactive
         then a\<lparr>a_State := StatePending\<rparr> else a))"
  "notified (handleFiringResult E rule fp result now e) = notified e @
     (if fires E rule fp result now e \<and> \<not> silent E now e (tracked E rule fp result now e) \<and> has_notify e
      then [((tracked E rule fp result now e)\<lparr>a_State := StateFiring, a_FiredAt := Some now\<rparr>, rule)] else [])"
  "has_notify (handleFiringResult E rule fp result now e) = has_notify e"
proof -
  obtain t a e1 where tr: "track_alert E rule fp result now e = (t, a, e1)" by (metis prod_cases3)
  note T = track_alert_effect [OF tr]
  show "ev_alerts (handleFiringResult E rule fp result now e) = (ev_alerts e)(fp \<mapsto>
     (let a = tracked E rule fp result now e
      in if fires E rule fp result now e then
           (let a1 = a\<lparr>a_State := StateFiring, a_FiredAt := Some now\<rparr>
            in if silent E now e a then a1 else a1\<lparr>a_NotifiedAt := Some now\<rparr>)
         else if \<not> r_ForDuration rule \<le> time_sub now (active_since rule fp now e) \<and> a_State a = StateInactive
         then a\<lparr>a_State := StatePending\<rparr> else a))"
    using T(1,2) by (auto simp: handleFiringResult_def tr Let_def fire_alert_def fires_def silent_def T(3,6))
  show "notified (handleFiringResult E rule fp result now e) = notified e @
     (if fires E rule fp result now e \<and> \<not> silent E now e (tracked E rule fp result now e) \<and> has_notify e
      then [((tracked E rule fp result now e)\<lparr>a_State := StateFiring, a_FiredAt := Some now\<rparr>, rule)] else [])"
    using T(1,2) by (auto simp: handleFiringResult_def tr Let_def fire_alert_def fires_def silent_def T(3-6))
  show "has_notify (handleFiringResult E rule fp result now e) = has_notify e"
    using T(1,2) by (auto simp: handleFiringResult_def tr Let_def fire_alert_def T(3-6))
qed

text \<open>What a result that does not fire changes.\<close>

lemma handleResolvedResult_state:
  "ActiveSince (rule_state (handleResolvedResult rule fp now e) (r_ID rule))
     = (ActiveSince (rule_state e (r_ID rule)))(fp := None)"
  "rid \<noteq> r_ID rule \<Longrightarrow> rule_state (handleResolvedResult rule fp now e) rid = rule_state e rid"
  "notified (handleResolvedResult rule fp now e) = notified e"
  "has_notify (handleResolvedResult rule fp now e) = has_notify e"
  by (auto simp: handleResolvedResult_def Let_def split: option.splits)

lemma handleResolvedResult_never_active:
  assumes "ActiveSince (rule_state e (r_ID rule)) fp = None"
  shows "ev_alerts (handleResolvedResult rule fp now e) = ev_alerts e"
    "FiringAlerts (rule_state (handleResolvedResult rule fp now e) (r_ID rule)) = FiringAlerts (rule_state e (r_ID rule))"
  using assms by (simp_all add: handleResolvedResult_def Let_def)

lemma handleResolvedResult_other:
  "fp' \<noteq> fp \<Longrightarrow> ev_alerts (handleResolvedResult rule fp now e) fp' = ev_alerts e fp'"
  by (auto simp: handleResolvedResult_def Let_def split: option.splits)

lemma resolve_unseen_state:
  "ActiveSince (rule_state (resolve_unseen rule now fp e) (r_ID rule)) = (ActiveSince (rule_state e (r_ID rule)))(fp := None)"
  "FiringAlerts (rule_state (resolve_unseen rule now fp e) (r_ID rule)) = removeAll fp (FiringAlerts (rule_state e (r_ID rule)))"
  "rid \<noteq> r_ID rule \<Longrightarrow> rule_state (resolve_unseen rule now fp e) rid = rule_state e rid"
  "notified (resolve_unseen rule now fp e) = notified e"
  "has_notify (resolve_unseen rule now fp e) = has_notify e"
  by (auto simp: resolve_unseen_def Let_def split: option.splits)

lemma resolve_unseen_alerts:
  "ev_alerts (resolve_unseen rule now fp e) = (case ev_alerts e fp of None \<Rightarrow> ev_alerts e
     | Some a \<Rightarrow> if a_State a = StateFiring \<or> a_State a = StatePending
         then (ev_alerts e)(fp \<mapsto> resolve_alert now a) else ev_alerts e)"
  by (auto simp: resolve_unseen_def Let_def split: option.splits)

section \<open>Histories\<close>

type_synonym event = "go_time \<times> string \<times> bool"

text \<open>The condition of an instance held at \<open>t\<close> and was not seen to fail since.\<close>

definition since :: "string \<Rightarrow> go_time \<Rightarrow> event list \<Rightarrow> bool" where
  "since fp t evs \<longleftrightarrow> (\<exists>ev1 ev2. evs = ev1 @ (t, fp, True) # ev2 \<and> (\<forall>t'. (t', fp, False) \<notin> set ev2))"

lemma since_snoc: "since fp t evs \<Longrightarrow> fp' \<noteq> fp \<or> b \<Longrightarrow> since fp t (evs @ [(now, fp', b)])"
proof -
  assume "since fp t evs" and b: "fp' \<noteq> fp \<or> b"
  then obtain ev1 ev2 where ev: "evs = ev1 @ (t, fp, True) # ev2" "\<forall>t'. (t', fp, False) \<notin> set ev2"
    by (auto simp: since_def)
  have "evs @ [(now, fp', b)] = ev1 @ (t, fp, True) # (ev2 @ [(now, fp', b)])" using ev(1) by simp
  moreover have "\<forall>t'. (t', fp, False) \<notin> set (ev2 @ [(now, fp', b)])" using ev(2) b by auto
  ultimately show ?thesis unfolding since_def by blast
qed

lemma since_new: "since fp now (evs @ [(now, fp, True)])"
  unfolding since_def by (intro exI [of _ evs] exI [of _ "[]"]) simp

text \<open>A firing alert went to firing at a time when its condition had held for the rule's duration.\<close>

definition fired_ok :: "Rule \<Rightarrow> event list \<Rightarrow> string \<Rightarrow> Alert \<Rightarrow> bool" where
  "fired_ok rule evs fp a \<longleftrightarrow> (\<exists>f pre post t. a_FiredAt a = Some f \<and> evs = pre @ (f, fp, True) # post \<and>
     since fp t (pre @ [(f, fp, True)]) \<and> r_ForDuration rule \<le> time_sub f t)"

lemma fired_ok_snoc: "fired_ok rule evs fp a \<Longrightarrow> fired_ok rule (evs @ evs2) fp a"
  unfolding fired_ok_def by force

definition hist_inv :: "Rule \<Rightarrow> event list \<Rightarrow> Evaluator \<Rightarrow> bool" where
  "hist_inv rule evs e \<longleftrightarrow>
     (\<forall>fp t. ActiveSince (rule_state e (r_ID rule)) fp = Some t \<longrightarrow> since fp t evs) \<and>
     (\<forall>fp a. ev_alerts e fp = Some a \<longrightarrow> a_State a = StateFiring \<longrightarrow> fired_ok rule evs fp a)"

lemma tracked_state:
  "a_State (tracked E rule fp result now e) = StateFiring \<Longrightarrow> \<exists>a. ev_alerts e fp = Some a \<and>
     a_State a = StateFiring \<and> a_FiredAt (tracked E rule fp result now e) = a_FiredAt a"
  by (auto simp: tracked_def new_alert_def split: option.splits)

lemma hist_inv_firing:
  assumes "hist_inv rule evs e"
  shows "hist_inv rule (evs @ [(now, fp, True)]) (handleFiringResult E rule fp result now e)"
proof -
  let ?e = "handleFiringResult E rule fp result now e" and ?evs = "evs @ [(now, fp, True)]"
  have act: "since fp (active_since rule fp now e) ?evs"
    using assms by (auto simp: active_since_def hist_inv_def intro: since_snoc since_new split: option.splits)
  have "since fp' t ?evs" if "ActiveSince (rule_state ?e (r_ID rule)) fp' = Some t" for fp' t
    using that act assms by (auto simp: handleFiringResult_state hist_inv_def intro: since_snoc split: if_splits)
  moreover have "fired_ok rule ?evs fp' a" if a: "ev_alerts ?e fp' = Some a" "a_State a = StateFiring" for fp' a
  proof (cases "fp' = fp")
    case False
    with a assms show ?thesis by (auto simp: handleFiringResult_alert hist_inv_def intro: fired_ok_snoc)
  next
    case True
    show ?thesis
    proof (cases "fires E rule fp result now e")
      case fire: True
      then have "a_FiredAt a = Some now" using a True by (auto simp: handleFiringResult_alert Let_def split: if_splits)
      then show ?thesis
        using act fire True unfolding fired_ok_def fires_def by blast
    next
      case False
      then have "a_FiredAt a = a_FiredAt (tracked E rule fp result now e)"
        "a_State (tracked E rule fp result now e) = StateFiring"
        using a True by (auto simp: handleFiringResult_alert Let_def split: if_splits)
      then obtain b where "ev_alerts e fp = Some b" "a_State b = StateFiring" "a_FiredAt a = a_FiredAt b"
        using tracked_state by metis
      then have "fired_ok rule evs fp b" "a_FiredAt a = a_FiredAt b" using assms by (auto simp: hist_inv_def)
      then have "fired_ok rule evs fp a" by (simp add: fired_ok_def)
      then show ?thesis using True by (simp add: fired_ok_snoc)
    qed
  qed
  ultimately show ?thesis by (simp add: hist_inv_def)
qed

lemma handleResolvedResult_firing:
  "ev_alerts (handleResolvedResult rule fp now e) fp' = Some a \<Longrightarrow> a_State a = StateFiring \<Longrightarrow>
     ev_alerts e fp' = Some a"
  by (auto simp: handleResolvedResult_def Let_def resolve_alert_def split: option.splits if_splits)

lemma resolve_unseen_firing:
  "ev_alerts (resolve_unseen rule now fp e) fp' = Some a \<Longrightarrow> a_State a = StateFiring \<Longrightarrow> ev_alerts e fp' = Some a"
  by (auto simp: resolve_unseen_alerts resolve_alert_def split: option.splits if_splits)

lemma hist_inv_resolved:
  assumes "hist_inv rule evs e"
  shows "hist_inv rule (evs @ [(now, fp, False)]) (handleResolvedResult rule fp now e)"
  using assms handleResolvedResult_firing [of rule fp now e]
  by (auto simp: hist_inv_def handleResolvedResult_state intro!: since_snoc fired_ok_snoc split: if_splits)

lemma hist_inv_unseen:
  assumes "hist_inv rule evs e"
  shows "hist_inv rule evs (resolve_unseen rule now fp e)"
  using assms
  by (auto simp: hist_inv_def resolve_unseen_state dest: resolve_unseen_firing split: if_splits)

definition result_event :: "env \<Rightarrow> Rule \<Rightarrow> go_time \<Rightarrow> EvalResult \<Rightarrow> event" where
  "result_event E rule now r = (now, generateFingerprint E (r_ID rule) (e_Labels r), e_Firing r)"

lemma hist_inv_results:
  "hist_inv rule evs e \<Longrightarrow>
     hist_inv rule (evs @ map (result_event E rule now) results) (fold (handle_result E rule now) results e)"
proof (induction results arbitrary: evs e)
  case Nil
  then show ?case by simp
next
  case (Cons r rs)
  have "hist_inv rule (evs @ [result_event E rule now r]) (handle_result E rule now r e)"
    using Cons.prems by (simp add: handle_result_def result_event_def Let_def hist_inv_firing hist_inv_resolved)
  from Cons.IH [OF this] show ?case by simp
qed

lemma hist_inv_process:
  "hist_inv rule evs e \<Longrightarrow>
     hist_inv rule (evs @ map (result_event E rule now) results) (processResults E rule now results e)"
  unfolding processResults_def Let_def
  by (rule fold_inv) (auto intro: hist_inv_results hist_inv_unseen)

text \<open>The evaluations of one rule: for each, the time and the results.\<close>

definition run_rule :: "env \<Rightarrow> Rule \<Rightarrow> (go_time \<times> EvalResult list) list \<Rightarrow> Evaluator \<Rightarrow> Evaluator" where
  "run_rule E rule hist e = fold (\<lambda>(now, results). processResults E rule now results) hist e"

definition history :: "env \<Rightarrow> Rule \<Rightarrow> (go_time \<times> EvalResult list) list \<Rightarrow> event list" where
  "history E rule hist = concat (map (\<lambda>(now, results). map (result_event E rule now) results) hist)"

lemma hist_inv_run: "hist_inv rule evs e \<Longrightarrow> hist_inv rule (evs @ history E rule hist) (run_rule E rule hist e)"
proof (induction hist arbitrary: evs e)
  case Nil
  then show ?case by (simp add: run_rule_def history_def)
next
  case (Cons h hist)
  obtain now results where h: "h = (now, results)" by (cases h)
  from Cons.IH [OF hist_inv_process [OF Cons.prems]] show ?case
    by (simp add: run_rule_def history_def h)
qed

text \<open>C11. An alert fires only after its condition has held for the rule's duration: in every run of
  evaluations of a rule, each alert that is firing went to firing at an evaluation where its condition
  held, and at least \<open>ForDuration\<close> before it there was an evaluation where the condition held, with no
  evaluation in between where it was seen to fail.\<close>

theorem fires_only_after_duration:
  assumes "e = run_rule E rule hist (NewEvaluator store)" "ev_alerts e fp = Some a" "a_State a = StateFiring"
  shows "\<exists>f pre post t. a_FiredAt a = Some f \<and> history E rule hist = pre @ (f, fp, True) # post \<and>
    since fp t (pre @ [(f, fp, True)]) \<and> r_ForDuration rule \<le> time_sub f t"
proof -
  have "hist_inv rule [] (NewEvaluator store)"
    by (simp add: hist_inv_def NewEvaluator_def rule_state_def new_state_def)
  from hist_inv_run [OF this, of E hist] assms show ?thesis
    by (simp add: hist_inv_def fired_ok_def)
qed

definition demo_env :: env where
  "demo_env = \<lparr>Query = (\<lambda>_. Return []), GetMetric = (\<lambda>_ _. Error ''metric not found''), compile = (\<lambda>_. None),
     md5_hex = (\<lambda>s. s), uuid = dec_str, fadd = (\<lambda>_ _. NaN), fsub = (\<lambda>_ _. NaN), fmul = (\<lambda>_ _. NaN),
     fdiv = (\<lambda>_ _. NaN)\<rparr>"

definition demo_result :: "bool \<Rightarrow> EvalResult" where
  "demo_result firing = \<lparr>e_Labels = [''host'' \<mapsto> ''h1''], e_Value = Fin 95, e_Firing = firing, e_Timestamp = 0\<rparr>"

lemma demo_fingerprint [simp]:
  "generateFingerprint demo_env (r_ID demo_rule) (e_Labels (demo_result b)) = ''r1|host=h1''"
  by (simp add: generateFingerprint_def demo_env_def demo_rule_def demo_result_def label_def)

lemma demo_rule_simps [simp]:
  "r_ForDuration demo_rule = 5 * minute" "r_KeepFiringFor demo_rule = 0" "r_ID demo_rule = ''r1''"
  by (simp_all add: demo_rule_def)

text \<open>An evaluation with one result, when no other instance of the rule fires.\<close>

lemma processResults_one:
  assumes "fp = generateFingerprint E (r_ID rule) (e_Labels r)" "set (FiringAlerts (rule_state e (r_ID rule))) \<subseteq> {fp}"
  shows "e_Firing r \<Longrightarrow> processResults E rule now [r] e = handleFiringResult E rule fp r now e"
    and "\<not> e_Firing r \<Longrightarrow> processResults E rule now [r] e = handleResolvedResult rule fp now e"
proof -
  have none: "filter (\<lambda>x. x \<noteq> fp) xs = []" if "set xs \<subseteq> {fp}" for xs
    using that by (auto simp: filter_empty_conv)
  show "e_Firing r \<Longrightarrow> processResults E rule now [r] e = handleFiringResult E rule fp r now e"
    using assms none by (simp add: processResults_def handle_result_def Let_def handleFiringResult_state)
  have "set (FiringAlerts (rule_state (handleResolvedResult rule fp now e) (r_ID rule)))
      \<subseteq> set (FiringAlerts (rule_state e (r_ID rule)))"
    by (auto simp: handleResolvedResult_def Let_def split: option.splits if_splits)
  then show "\<not> e_Firing r \<Longrightarrow> processResults E rule now [r] e = handleResolvedResult rule fp now e"
    using assms none [of "FiringAlerts (rule_state (handleResolvedResult rule fp now e) (r_ID rule))"]
    by (auto simp: processResults_def handle_result_def Let_def)
qed

definition demo_pending :: Evaluator where
  "demo_pending = handleFiringResult demo_env demo_rule ''r1|host=h1'' (demo_result True) 0 (NewEvaluator demo_store)"

lemma demo_pending_simps [simp]:
  "ActiveSince (rule_state demo_pending ''r1'') = [''r1|host=h1'' \<mapsto> 0]"
  "FiringAlerts (rule_state demo_pending ''r1'') = []"
  "\<exists>a. ev_alerts demo_pending ''r1|host=h1'' = Some a \<and> a_State a = StatePending"
  using handleFiringResult_state(1,2) [where E = demo_env and rule = demo_rule and fp = "''r1|host=h1''"
      and result = "demo_result True" and now = 0 and e = "NewEvaluator demo_store"]
  by (simp_all add: demo_pending_def handleFiringResult_alert fires_def active_since_def tracked_def new_alert_def
      NewEvaluator_def rule_state_def new_state_def time_sub_def max_duration_def min_duration_def Let_def)

lemma demo_first:
  "processResults demo_env demo_rule 0 [demo_result True] (NewEvaluator demo_store) = demo_pending"
  using processResults_one(1) [of "''r1|host=h1''" demo_env demo_rule "demo_result True" "NewEvaluator demo_store" 0]
    demo_fingerprint [of True]
  by (simp add: demo_pending_def NewEvaluator_def rule_state_def new_state_def demo_result_def)

lemma demo_fires:
  "\<exists>a. ev_alerts (run_rule demo_env demo_rule [(0, [demo_result True]), (5 * minute, [demo_result True])]
     (NewEvaluator demo_store)) ''r1|host=h1'' = Some a \<and> a_State a = StateFiring"
proof -
  have "e_Firing (demo_result True)" by (simp add: demo_result_def)
  then have "processResults demo_env demo_rule (5 * minute) [demo_result True] demo_pending
      = handleFiringResult demo_env demo_rule ''r1|host=h1'' (demo_result True) (5 * minute) demo_pending"
    using demo_fingerprint [of True] by (intro processResults_one(1)) simp_all
  then show ?thesis
    using demo_pending_simps(3)
    by (auto simp: run_rule_def demo_first handleFiringResult_alert fires_def active_since_def tracked_def
        time_sub_def max_duration_def min_duration_def Let_def)
qed

theorem fires_only_after_duration_witness:
  "\<exists>a f pre post t. ev_alerts (run_rule demo_env demo_rule [(0, [demo_result True]), (5 * minute, [demo_result True])]
     (NewEvaluator demo_store)) ''r1|host=h1'' = Some a \<and> a_FiredAt a = Some f \<and>
    history demo_env demo_rule [(0, [demo_result True]), (5 * minute, [demo_result True])]
      = pre @ (f, ''r1|host=h1'', True) # post \<and>
    since ''r1|host=h1'' t (pre @ [(f, ''r1|host=h1'', True)]) \<and> r_ForDuration demo_rule \<le> time_sub f t"
  using demo_fires fires_only_after_duration [OF refl] by blast

section \<open>Consistency of the evaluator's tables\<close>

definition fingerprint :: "(string \<Rightarrow> string) \<Rightarrow> string \<Rightarrow> labels \<Rightarrow> string" where
  "fingerprint md5 rid ls = md5 (join (rid # map (\<lambda>k. k @ ''='' @ label ls k) (sorted_list_of_set (dom ls))) ''|'')"

lemma generateFingerprint_eq: "generateFingerprint E rid ls = fingerprint (md5_hex E) rid ls"
  by (simp add: generateFingerprint_def fingerprint_def)

text \<open>No two rules of a set get one fingerprint from labels of another set.\<close>

definition collision_free :: "(string \<Rightarrow> string) \<Rightarrow> string set \<Rightarrow> labels set \<Rightarrow> bool" where
  "collision_free md5 R L \<longleftrightarrow> (\<forall>r \<in> R. \<forall>r' \<in> R. \<forall>l \<in> L. \<forall>l' \<in> L. fingerprint md5 r l = fingerprint md5 r' l' \<longrightarrow> r = r')"

definition tables_ok :: "(string \<Rightarrow> string) \<Rightarrow> string set \<Rightarrow> labels set \<Rightarrow> Evaluator \<Rightarrow> bool" where
  "tables_ok md5 R L e \<longleftrightarrow>
     (\<forall>fp a. ev_alerts e fp = Some a \<longrightarrow> a_RuleID a \<in> R \<and> (\<exists>ls \<in> L. fp = fingerprint md5 (a_RuleID a) ls) \<and>
        a_State a \<noteq> StateInactive) \<and>
     (\<forall>rid fp. fp \<in> set (FiringAlerts (rule_state e rid)) \<longleftrightarrow>
        (\<exists>a. ev_alerts e fp = Some a \<and> a_State a = StateFiring \<and> a_RuleID a = rid)) \<and>
     (\<forall>rid fp. PendingAlerts (rule_state e rid) fp = None)"

lemma tables_okD:
  assumes "tables_ok md5 R L e"
  shows "ev_alerts e fp = Some a \<Longrightarrow> a_RuleID a \<in> R \<and> (\<exists>ls \<in> L. fp = fingerprint md5 (a_RuleID a) ls) \<and> a_State a \<noteq> StateInactive"
    "fp \<in> set (FiringAlerts (rule_state e rid)) \<longleftrightarrow>
       (\<exists>a. ev_alerts e fp = Some a \<and> a_State a = StateFiring \<and> a_RuleID a = rid)"
    "PendingAlerts (rule_state e rid) fp = None"
  using assms unfolding tables_ok_def by blast+

lemma tables_ok_ruleID:
  assumes "tables_ok md5 R L e" "collision_free md5 R L" "rid \<in> R" "ls \<in> L"
    and "ev_alerts e (fingerprint md5 rid ls) = Some a"
  shows "a_RuleID a = rid"
  using tables_okD(1) [OF assms(1,5)] assms(2-4) unfolding collision_free_def by metis

text \<open>Changing the alert and the state of one rule at one fingerprint.\<close>

lemma tables_ok_update:
  assumes ok: "tables_ok md5 R L e" and R: "rid \<in> R" "ls \<in> L" and fp: "fp = fingerprint md5 rid ls"
    and old: "\<And>a. ev_alerts e fp = Some a \<Longrightarrow> a_RuleID a = rid"
    and al: "ev_alerts e' = (ev_alerts e)(fp := al)"
    and new: "\<And>a. al = Some a \<Longrightarrow> a_RuleID a = rid \<and> a_State a \<noteq> StateInactive"
    and st: "\<And>r. r \<noteq> rid \<Longrightarrow> rule_state e' r = rule_state e r"
    and fa: "\<And>x. x \<noteq> fp \<Longrightarrow> x \<in> set (FiringAlerts (rule_state e' rid)) \<longleftrightarrow> x \<in> set (FiringAlerts (rule_state e rid))"
      "fp \<in> set (FiringAlerts (rule_state e' rid)) \<longleftrightarrow> (\<exists>a. al = Some a \<and> a_State a = StateFiring)"
    and pend: "PendingAlerts (rule_state e' rid) = Map.empty"
  shows "tables_ok md5 R L e'"
  unfolding tables_ok_def
proof (intro conjI allI impI)
  fix x a
  assume "ev_alerts e' x = Some a"
  then show "a_RuleID a \<in> R" "\<exists>ls \<in> L. x = fingerprint md5 (a_RuleID a) ls" "a_State a \<noteq> StateInactive"
    using al new R fp tables_okD(1) [OF ok, of x a] by (auto split: if_splits)
next
  fix r x
  show "x \<in> set (FiringAlerts (rule_state e' r)) \<longleftrightarrow>
      (\<exists>a. ev_alerts e' x = Some a \<and> a_State a = StateFiring \<and> a_RuleID a = r)"
  proof (cases "r = rid")
    case True
    show ?thesis
    proof (cases "x = fp")
      case x: True
      then show ?thesis using fa(2) new al True by auto
    next
      case False
      then show ?thesis using fa(1) [OF False] tables_okD(2) [OF ok, of x rid] al True by simp
    qed
  next
    case False
    then show ?thesis
      using tables_okD(2) [OF ok, of x r] st [OF False] al new old by (cases "x = fp") auto
  qed
next
  fix r x
  show "PendingAlerts (rule_state e' r) x = None"
    using pend st [of r] tables_okD(3) [OF ok, of r x] by (cases "r = rid") auto
qed

lemma handleFiringResult_pending:
  "PendingAlerts (rule_state (handleFiringResult E rule fp result now e) (r_ID rule)) =
     (if fires E rule fp result now e then (PendingAlerts (rule_state e (r_ID rule)))(fp := None)
      else if \<not> r_ForDuration rule \<le> time_sub now (active_since rule fp now e) \<and>
              a_State (tracked E rule fp result now e) = StateInactive
      then (PendingAlerts (rule_state e (r_ID rule)))(fp \<mapsto> active_since rule fp now e)
      else PendingAlerts (rule_state e (r_ID rule)))"
proof -
  obtain t a e1 where tr: "track_alert E rule fp result now e = (t, a, e1)" by (metis prod_cases3)
  note T = track_alert_effect [OF tr]
  show ?thesis
    using T(1,2) by (auto simp: handleFiringResult_def tr Let_def fire_alert_def T(7) fires_def)
qed

lemma tables_ok_firing:
  assumes ok: "tables_ok md5 R L e" and cf: "collision_free md5 R L" and R: "r_ID rule \<in> R" "ls \<in> L"
    and fp: "fp = fingerprint md5 (r_ID rule) ls"
  shows "tables_ok md5 R L (handleFiringResult E rule fp result now e)"
proof -
  note old = tables_ok_ruleID [OF ok cf R, folded fp]
  let ?a = "tracked E rule fp result now e"
  have tr: "a_RuleID ?a = r_ID rule" "a_State ?a \<noteq> StateInactive"
    using old tables_okD(1) [OF ok, of fp] by (auto simp: tracked_def new_alert_def split: option.splits)
  have fire: "a_State ?a = StateFiring \<longleftrightarrow> fp \<in> set (FiringAlerts (rule_state e (r_ID rule)))"
    using old tables_okD(2) [OF ok, of fp "r_ID rule"]
    by (auto simp: tracked_def new_alert_def split: option.splits)
  show ?thesis
  proof (rule tables_ok_update [OF ok R fp old handleFiringResult_alert(1)])
    show "rule_state (handleFiringResult E rule fp result now e) r = rule_state e r" if "r \<noteq> r_ID rule" for r
      using that by (rule handleFiringResult_state(3))
    show "PendingAlerts (rule_state (handleFiringResult E rule fp result now e) (r_ID rule)) = Map.empty"
      using tables_okD(3) [OF ok, of "r_ID rule"] tr(2) by (auto simp: handleFiringResult_pending)
  qed (use tr fire in \<open>auto simp: handleFiringResult_state(2) Let_def fires_def split: if_splits\<close>)
qed

lemma tables_ok_resolved:
  assumes ok: "tables_ok md5 R L e" and cf: "collision_free md5 R L" and R: "r_ID rule \<in> R" "ls \<in> L"
    and fp: "fp = fingerprint md5 (r_ID rule) ls"
  shows "tables_ok md5 R L (handleResolvedResult rule fp now e)"
proof -
  note old = tables_ok_ruleID [OF ok cf R, folded fp]
  let ?e = "handleResolvedResult rule fp now e"
  have al: "ev_alerts ?e = (ev_alerts e)(fp := ev_alerts ?e fp)"
    using handleResolvedResult_other [of _ fp rule now e] by (auto simp: fun_eq_iff)
  have pend: "PendingAlerts (rule_state ?e (r_ID rule)) = Map.empty"
    using tables_okD(3) [OF ok, of "r_ID rule"] by (auto simp: handleResolvedResult_def Let_def split: option.splits)
  have fa: "x \<noteq> fp \<Longrightarrow> x \<in> set (FiringAlerts (rule_state ?e (r_ID rule))) \<longleftrightarrow> x \<in> set (FiringAlerts (rule_state e (r_ID rule)))" for x
    by (auto simp: handleResolvedResult_def Let_def split: option.splits)
  have "a_RuleID a = r_ID rule \<and> a_State a \<noteq> StateInactive" if "ev_alerts ?e fp = Some a" for a
    using that old tables_okD(1) [OF ok, of fp]
    by (auto simp: handleResolvedResult_def resolve_alert_def Let_def split: option.splits if_splits)
  moreover have "fp \<in> set (FiringAlerts (rule_state ?e (r_ID rule))) \<longleftrightarrow>
      (\<exists>a. ev_alerts ?e fp = Some a \<and> a_State a = StateFiring)"
    using old tables_okD(2) [OF ok, of fp "r_ID rule"]
    by (auto simp: handleResolvedResult_def resolve_alert_def Let_def split: option.splits if_splits)
  ultimately show ?thesis
    using fa pend by (intro tables_ok_update [OF ok R fp old al]) (auto simp: handleResolvedResult_state(2))
qed

lemma tables_ok_unseen:
  assumes ok: "tables_ok md5 R L e" and cf: "collision_free md5 R L" and R: "r_ID rule \<in> R" "ls \<in> L"
    and fp: "fp = fingerprint md5 (r_ID rule) ls"
  shows "tables_ok md5 R L (resolve_unseen rule now fp e)"
proof -
  note old = tables_ok_ruleID [OF ok cf R, folded fp]
  show ?thesis
  proof (rule tables_ok_update [OF ok R fp old])
    show "ev_alerts (resolve_unseen rule now fp e) = (ev_alerts e)(fp := map_option (\<lambda>a.
        if a_State a = StateFiring \<or> a_State a = StatePending then resolve_alert now a else a) (ev_alerts e fp))"
      by (auto simp: resolve_unseen_alerts fun_eq_iff split: option.splits)
    show "PendingAlerts (rule_state (resolve_unseen rule now fp e) (r_ID rule)) = Map.empty"
      using tables_okD(3) [OF ok, of "r_ID rule"] by (auto simp: resolve_unseen_def Let_def split: option.splits)
    show "a_RuleID a = r_ID rule \<and> a_State a \<noteq> StateInactive"
      if "map_option (\<lambda>a. if a_State a = StateFiring \<or> a_State a = StatePending then resolve_alert now a else a)
        (ev_alerts e fp) = Some a" for a
      using that old tables_okD(1) [OF ok, of fp] by (auto simp: resolve_alert_def split: if_splits)
  qed (auto simp: resolve_unseen_state resolve_alert_def split: if_splits)
qed

lemma tables_ok_process:
  assumes ok: "tables_ok (md5_hex E) R L e" and cf: "collision_free (md5_hex E) R L" and R: "r_ID rule \<in> R"
    and L: "\<forall>r \<in> set results. e_Labels r \<in> L"
  shows "tables_ok (md5_hex E) R L (processResults E rule now results e)"
proof -
  let ?e1 = "fold (handle_result E rule now) results e"
  have ok1: "tables_ok (md5_hex E) R L ?e1"
  proof (rule fold_inv [where P = "tables_ok (md5_hex E) R L", OF ok])
    show "tables_ok (md5_hex E) R L (handle_result E rule now r s)"
      if "r \<in> set results" "tables_ok (md5_hex E) R L s" for r s
      using that L R cf
      by (auto simp: handle_result_def Let_def generateFingerprint_eq intro!: tables_ok_firing tables_ok_resolved)
  qed
  show ?thesis
    unfolding processResults_def Let_def
  proof (rule fold_inv [where P = "tables_ok (md5_hex E) R L", OF ok1])
    fix fp s
    assume "fp \<in> set (filter (\<lambda>fp. fp \<notin> set (map (\<lambda>r. generateFingerprint E (r_ID rule) (e_Labels r)) results))
        (FiringAlerts (rule_state ?e1 (r_ID rule))))" and s: "tables_ok (md5_hex E) R L s"
    then have "fp \<in> set (FiringAlerts (rule_state ?e1 (r_ID rule)))" by simp
    then obtain a where a: "ev_alerts ?e1 fp = Some a" "a_RuleID a = r_ID rule"
      using tables_okD(2) [OF ok1] by blast
    from tables_okD(1) [OF ok1 a(1)] a(2)
    obtain ls where "ls \<in> L" "fp = fingerprint (md5_hex E) (r_ID rule) ls" by auto
    with s show "tables_ok (md5_hex E) R L (resolve_unseen rule now fp s)"
      by (intro tables_ok_unseen [OF s cf R])
  qed
qed

lemma tables_ok_LastEval:
  assumes "tables_ok md5 R L e" "st = rule_state e rid \<or> st = (rule_state e rid)\<lparr>LastEval := t\<rparr>"
  shows "tables_ok md5 R L (set_state rid st e)"
  using assms unfolding tables_ok_def by auto

text \<open>The states an evaluator reaches: any evaluation of a rule of \<open>R\<close> whose results have labels in \<open>L\<close>,
  with whatever the metrics are at that time; cleanup; acknowledgement; and any change of the store.\<close>

inductive reach :: "(string \<Rightarrow> string) \<Rightarrow> string set \<Rightarrow> labels set \<Rightarrow> Evaluator \<Rightarrow> bool" for md5 R L where
  reach_new: "reach md5 R L (NewEvaluator store)"
| reach_notify: "reach md5 R L e \<Longrightarrow> reach md5 R L (SetNotifyFunc e)"
| reach_rule: "reach md5 R L e \<Longrightarrow> md5_hex E = md5 \<Longrightarrow> r_ID rule \<in> R \<Longrightarrow>
    (\<And>e' results. evaluate_type E now rule e' = Return results \<Longrightarrow> \<forall>r \<in> set results. e_Labels r \<in> L) \<Longrightarrow>
    evaluateRule E now rule e = Return e2 \<Longrightarrow> reach md5 R L e2"
| reach_cleanup: "reach md5 R L e \<Longrightarrow> reach md5 R L (cleanupResolvedAlerts now e)"
| reach_ack: "reach md5 R L e \<Longrightarrow> reach md5 R L (fst (AcknowledgeAlert now ord aid user e))"
| reach_store: "reach md5 R L e \<Longrightarrow> reach md5 R L (e\<lparr>ev_store := store\<rparr>)"

lemma tables_ok_cong:
  assumes "tables_ok md5 R L e" "\<And>rid. rule_state e' rid = rule_state e rid"
    and "\<And>fp. map_option (\<lambda>a. (a_RuleID a, a_State a)) (ev_alerts e' fp) = map_option (\<lambda>a. (a_RuleID a, a_State a)) (ev_alerts e fp)
      \<or> (ev_alerts e' fp = None \<and> map_option a_State (ev_alerts e fp) = Some StateResolved)"
  shows "tables_ok md5 R L e'"
proof -
  have fire: "(\<exists>a. ev_alerts e' fp = Some a \<and> a_State a = StateFiring \<and> a_RuleID a = rid) \<longleftrightarrow>
      (\<exists>a. ev_alerts e fp = Some a \<and> a_State a = StateFiring \<and> a_RuleID a = rid)" for fp rid
    using assms(3) [of fp] by (cases "ev_alerts e fp"; cases "ev_alerts e' fp") auto
  have al: "\<exists>b. ev_alerts e fp = Some b \<and> a_RuleID b = a_RuleID a \<and> a_State b = a_State a"
    if "ev_alerts e' fp = Some a" for fp a
    using assms(3) [of fp] that by (cases "ev_alerts e fp") auto
  have "a_RuleID a \<in> R \<and> (\<exists>ls \<in> L. fp = fingerprint md5 (a_RuleID a) ls) \<and> a_State a \<noteq> StateInactive"
    if "ev_alerts e' fp = Some a" for fp a
    using al [OF that] tables_okD(1) [OF assms(1), of fp] by auto
  then show ?thesis
    unfolding tables_ok_def assms(2) fire using tables_okD(2,3) [OF assms(1)] by blast
qed

lemma tables_ok_reach: "reach md5 R L e \<Longrightarrow> collision_free md5 R L \<Longrightarrow> tables_ok md5 R L e"
proof (induction rule: reach.induct)
  case (reach_new store)
  then show ?case by (simp add: tables_ok_def NewEvaluator_def rule_state_def new_state_def)
next
  case (reach_notify e)
  then have "tables_ok md5 R L e" by simp
  then show ?case by (rule tables_ok_cong) (auto simp: SetNotifyFunc_def rule_state_def)
next
  case (reach_rule e E rule now e2)
  then have ok: "tables_ok (md5_hex E) R L e" and cf: "collision_free (md5_hex E) R L" by simp_all
  let ?st = "rule_state e (r_ID rule)"
  let ?e1 = "set_state (r_ID rule) ?st e"
  let ?e2 = "set_state (r_ID rule) (?st\<lparr>LastEval := now\<rparr>) ?e1"
  have ok1: "tables_ok (md5_hex E) R L ?e1" using ok by (rule tables_ok_LastEval) simp
  have ok2: "tables_ok (md5_hex E) R L ?e2"
    using ok1 by (rule tables_ok_LastEval [where t = now]) simp
  have "tables_ok (md5_hex E) R L (processResults E rule now results ?e2)"
    if "evaluate_type E now rule ?e2 = Return results" for results
    using reach_rule.hyps(4) [OF that] by (intro tables_ok_process ok2 cf reach_rule.hyps(3))
  then show ?case
    using reach_rule.hyps(2,5) ok1 ok2
    by (auto simp: evaluateRule_def Let_def split: if_splits outcome.splits)
next
  case (reach_cleanup e now)
  then have "tables_ok md5 R L e" by simp
  then show ?case
    by (rule tables_ok_cong) (auto simp: cleanupResolvedAlerts_def rule_state_def Let_def split: option.splits)
next
  case (reach_ack e now ord aid user)
  then have "tables_ok md5 R L e" by simp
  then show ?case
  proof (rule tables_ok_cong)
    have "ev_alerts e fp = Some a" if "find (\<lambda>(fp, a). a_ID a = aid) (range_map (ev_alerts e) ord) = Some (fp, a)" for fp a
    proof -
      have "(fp, a) \<in> set (range_map (ev_alerts e) ord)" using that by (metis find_Some_iff nth_mem)
      then show ?thesis by (simp add: set_range_map)
    qed
    then show "map_option (\<lambda>a. (a_RuleID a, a_State a)) (ev_alerts (fst (AcknowledgeAlert now ord aid user e)) fp)
        = map_option (\<lambda>a. (a_RuleID a, a_State a)) (ev_alerts e fp)
      \<or> (ev_alerts (fst (AcknowledgeAlert now ord aid user e)) fp = None \<and> map_option a_State (ev_alerts e fp) = Some StateResolved)" for fp
      by (auto simp: AcknowledgeAlert_def Let_def split: option.splits outcome.splits prod.splits)
  qed (auto simp: AcknowledgeAlert_def Let_def rule_state_def set_alert_def split: option.splits outcome.splits)
next
  case (reach_store e store)
  then have "tables_ok md5 R L e" by simp
  then show ?case by (rule tables_ok_cong) (auto simp: rule_state_def)
qed

text \<open>C12. The evaluator's tables stay consistent: as long as fingerprints do not collide, in every reachable
  state a fingerprint is in the firing set of a rule exactly when the alert with that fingerprint
  belongs to the rule and is firing, no alert is ever inactive, and the pending tables are always empty.\<close>

theorem evaluator_tables_consistent:
  assumes "reach md5 R L e" "collision_free md5 R L"
  shows "(fp \<in> set (FiringAlerts (rule_state e rid)) \<longleftrightarrow>
      (\<exists>a. ev_alerts e fp = Some a \<and> a_State a = StateFiring \<and> a_RuleID a = rid)) \<and>
    (\<forall>a. ev_alerts e fp = Some a \<longrightarrow> a_State a \<noteq> StateInactive) \<and>
    PendingAlerts (rule_state e rid) fp = None"
  using tables_okD [OF tables_ok_reach [OF assms]] by blast

lemma demo_evaluate: "evaluate_type demo_env 0 demo_rule e' = Return []"
  by (simp add: evaluate_type_def demo_rule_def demo_env_def evaluateThreshold_def eval_results_def Let_def)

theorem evaluator_tables_consistent_witness:
  "\<exists>e. evaluateRule demo_env 0 demo_rule (NewEvaluator demo_store) = Return e \<and>
     PendingAlerts (rule_state e ''r1'') ''r1'' = None"
proof -
  have "\<exists>e. evaluateRule demo_env 0 demo_rule (NewEvaluator demo_store) = Return e"
    by (simp add: evaluateRule_def demo_evaluate Let_def)
  then obtain e where e: "evaluateRule demo_env 0 demo_rule (NewEvaluator demo_store) = Return e" by blast
  have "reach (md5_hex demo_env) {''r1''} {Map.empty} e"
    by (rule reach_rule [OF reach_new refl _ _ e]) (simp_all add: demo_evaluate)
  moreover have "collision_free (md5_hex demo_env) {''r1''} {Map.empty}" by (simp add: collision_free_def)
  ultimately show ?thesis using e evaluator_tables_consistent by blast
qed

section \<open>Resolution\<close>

text \<open>Results of other instances leave an instance alone.\<close>

definition fp_of :: "env \<Rightarrow> Rule \<Rightarrow> EvalResult \<Rightarrow> string" where
  "fp_of E rule r = generateFingerprint E (r_ID rule) (e_Labels r)"

lemma handle_result_other:
  assumes "fp_of E rule r \<noteq> fp"
  shows "ev_alerts (handle_result E rule now r e) fp = ev_alerts e fp"
    "ActiveSince (rule_state (handle_result E rule now r e) (r_ID rule)) fp = ActiveSince (rule_state e (r_ID rule)) fp"
    "fp \<in> set (FiringAlerts (rule_state (handle_result E rule now r e) (r_ID rule))) \<longleftrightarrow>
       fp \<in> set (FiringAlerts (rule_state e (r_ID rule)))"
proof -
  have "fp' \<noteq> fp \<Longrightarrow> fp \<in> set (FiringAlerts (rule_state (handleResolvedResult rule fp' now e) (r_ID rule))) \<longleftrightarrow>
       fp \<in> set (FiringAlerts (rule_state e (r_ID rule)))" for fp'
    by (auto simp: handleResolvedResult_def Let_def split: option.splits)
  then show "ev_alerts (handle_result E rule now r e) fp = ev_alerts e fp"
    "ActiveSince (rule_state (handle_result E rule now r e) (r_ID rule)) fp = ActiveSince (rule_state e (r_ID rule)) fp"
    "fp \<in> set (FiringAlerts (rule_state (handle_result E rule now r e) (r_ID rule))) \<longleftrightarrow>
       fp \<in> set (FiringAlerts (rule_state e (r_ID rule)))"
    using assms
    by (auto simp: handle_result_def fp_of_def Let_def handleFiringResult_alert handleFiringResult_state
        handleResolvedResult_state handleResolvedResult_other)
qed

lemma resolve_unseen_other:
  assumes "fp' \<noteq> fp"
  shows "ev_alerts (resolve_unseen rule now fp' e) fp = ev_alerts e fp"
    "ActiveSince (rule_state (resolve_unseen rule now fp' e) (r_ID rule)) fp = ActiveSince (rule_state e (r_ID rule)) fp"
    "fp \<in> set (FiringAlerts (rule_state (resolve_unseen rule now fp' e) (r_ID rule))) \<longleftrightarrow>
       fp \<in> set (FiringAlerts (rule_state e (r_ID rule)))"
  using assms by (auto simp: resolve_unseen_alerts resolve_unseen_state split: option.splits)

text \<open>A property of an instance that every result of an evaluation keeps holds afterwards, if the
  instance was seen or is not in the firing set.\<close>

lemma processResults_instance:
  assumes frame: "\<And>e e'. ev_alerts e' fp = ev_alerts e fp \<Longrightarrow>
      ActiveSince (rule_state e' (r_ID rule)) fp = ActiveSince (rule_state e (r_ID rule)) fp \<Longrightarrow>
      fp \<in> set (FiringAlerts (rule_state e' (r_ID rule))) \<longleftrightarrow> fp \<in> set (FiringAlerts (rule_state e (r_ID rule))) \<Longrightarrow> P e \<Longrightarrow> P e'"
    and keep: "\<And>r e. r \<in> set results \<Longrightarrow> fp_of E rule r = fp \<Longrightarrow> P e \<Longrightarrow> P (handle_result E rule now r e)"
    and seen: "(\<exists>r \<in> set results. fp_of E rule r = fp) \<or> (\<forall>e. P e \<longrightarrow> fp \<notin> set (FiringAlerts (rule_state e (r_ID rule))))"
    and P: "P e"
  shows "P (processResults E rule now results e)"
proof -
  let ?e1 = "fold (handle_result E rule now) results e"
  have P1: "P ?e1"
  proof (rule fold_inv [where P = P, OF P])
    show "P (handle_result E rule now r s)" if "r \<in> set results" "P s" for r s
      using that keep handle_result_other [of E rule r fp now s] frame [of "handle_result E rule now r s" s]
      by (cases "fp_of E rule r = fp") auto
  qed
  have "fp \<notin> set (filter (\<lambda>fp. fp \<notin> set (map (\<lambda>r. generateFingerprint E (r_ID rule) (e_Labels r)) results))
      (FiringAlerts (rule_state ?e1 (r_ID rule))))"
    using seen P1 by (auto simp: fp_of_def)
  then show ?thesis
    unfolding processResults_def Let_def
  proof (intro fold_inv [where P = P, OF P1])
    fix x s
    assume x: "x \<in> set (filter (\<lambda>fp. fp \<notin> set (map (\<lambda>r. generateFingerprint E (r_ID rule) (e_Labels r)) results))
        (FiringAlerts (rule_state ?e1 (r_ID rule))))" and s: "P s"
    assume "fp \<notin> set (filter (\<lambda>fp. fp \<notin> set (map (\<lambda>r. generateFingerprint E (r_ID rule) (e_Labels r)) results))
        (FiringAlerts (rule_state ?e1 (r_ID rule))))"
    with x have "x \<noteq> fp" by blast
    from resolve_unseen_other [OF this] frame [OF _ _ _ s] show "P (resolve_unseen rule now x s)" by blast
  qed
qed

text \<open>A result that does not fire ends the alert: when the rule keeps nothing firing, the alert of an
  active instance is resolved at once, with that time, and leaves the firing set.\<close>

theorem false_result_resolves:
  assumes "ActiveSince (rule_state e (r_ID rule)) fp = Some t" "t \<noteq> zero_time" "ev_alerts e fp = Some a"
    and "a_State a = StateFiring \<or> a_State a = StatePending" "r_KeepFiringFor rule \<le> 0"
  shows "ev_alerts (handleResolvedResult rule fp now e) fp = Some (resolve_alert now a) \<and>
    fp \<notin> set (FiringAlerts (rule_state (handleResolvedResult rule fp now e) (r_ID rule))) \<and>
    ActiveSince (rule_state (handleResolvedResult rule fp now e) (r_ID rule)) fp = None"
  using assms by (auto simp: handleResolvedResult_def Let_def)

theorem false_result_resolves_witness:
  "\<exists>a. ev_alerts (handleResolvedResult demo_rule ''r1|host=h1'' minute demo_pending) ''r1|host=h1'' = Some a \<and>
     a_State a = StateResolved"
proof -
  obtain a where a: "ev_alerts demo_pending ''r1|host=h1'' = Some a" "a_State a = StatePending"
    using demo_pending_simps(3) by blast
  have "ActiveSince (rule_state demo_pending (r_ID demo_rule)) ''r1|host=h1'' = Some 0" "(0::int) \<noteq> zero_time"
    by (simp_all add: zero_time_def)
  from false_result_resolves [OF this a(1)] a(2) show ?thesis by (simp add: resolve_alert_def)
qed

lemma false_keeps_firing:
  assumes "ev_alerts e fp = Some a" "a_State a = StateFiring" "a_FiredAt a = Some f"
    and "ActiveSince (rule_state e (r_ID rule)) fp = None \<or> (0 < r_KeepFiringFor rule \<and> time_sub now f < r_KeepFiringFor rule)"
  shows "ev_alerts (handleResolvedResult rule fp now e) fp = Some a"
  using assms by (auto simp: handleResolvedResult_def Let_def)

lemma seen_false_inactive:
  assumes "\<exists>r \<in> set results. fp_of E rule r = fp" "\<forall>r \<in> set results. fp_of E rule r = fp \<longrightarrow> \<not> e_Firing r"
  shows "ActiveSince (rule_state (processResults E rule now results e) (r_ID rule)) fp = None"
proof -
  let ?N = "\<lambda>e. ActiveSince (rule_state e (r_ID rule)) fp = None"
  have stay: "?N (fold (handle_result E rule now) rs e)" if "?N e" "set rs \<subseteq> set results" for rs e
    using that
  proof (intro fold_inv [where P = ?N])
    fix r s
    assume "?N e" "set rs \<subseteq> set results" "r \<in> set rs" "?N s"
    then show "?N (handle_result E rule now r s)"
      using assms(2) handle_result_other(2) [of E rule r fp now s]
      by (cases "fp_of E rule r = fp") (auto simp: handle_result_def fp_of_def Let_def handleResolvedResult_state)
  qed
  obtain rs1 r rs2 where rs: "results = rs1 @ r # rs2" "fp_of E rule r = fp" using assms(1) by (metis split_list)
  have "?N (fold (handle_result E rule now) results e)"
    unfolding rs(1) fold_append comp_def fold_simps
    using rs assms(2) by (intro stay) (auto simp: handle_result_def fp_of_def Let_def handleResolvedResult_state)
  then show ?thesis
    unfolding processResults_def Let_def
    by (rule fold_inv [where P = ?N]) (auto simp: resolve_unseen_state)
qed

text \<open>C13. \<open>KeepFiringFor\<close> keeps an alert firing forever: if the condition is first seen to fail within that
  time of the alert's start, the alert stays firing at every later evaluation, however late, as long
  as the condition keeps failing.\<close>

theorem keep_firing_never_resolves:
  assumes "ev_alerts e fp = Some a" "a_State a = StateFiring" "a_FiredAt a = Some f"
    and "0 < r_KeepFiringFor rule" "time_sub now f < r_KeepFiringFor rule"
    and "\<forall>(t, results) \<in> set ((now, results0) # hist). (\<exists>r \<in> set results. fp_of E rule r = fp) \<and>
      (\<forall>r \<in> set results. fp_of E rule r = fp \<longrightarrow> \<not> e_Firing r)"
  shows "ev_alerts (run_rule E rule ((now, results0) # hist) e) fp = Some a"
proof -
  let ?e1 = "processResults E rule now results0 e"
  have res: "(\<exists>r \<in> set results0. fp_of E rule r = fp) \<and> (\<forall>r \<in> set results0. fp_of E rule r = fp \<longrightarrow> \<not> e_Firing r)"
    using assms(6) by simp
  have false: "handle_result E rule t r s = handleResolvedResult rule fp t s" if "fp_of E rule r = fp" "\<not> e_Firing r" for t r s
    using that by (simp add: handle_result_def fp_of_def Let_def)
  have first: "ev_alerts ?e1 fp = Some a"
  proof (rule processResults_instance [where fp = fp and P = "\<lambda>e. ev_alerts e fp = Some a"])
    show "ev_alerts (handle_result E rule now r s) fp = Some a"
      if "r \<in> set results0" "fp_of E rule r = fp" "ev_alerts s fp = Some a" for r s
      using that res assms(2-5) by (auto simp: false intro: false_keeps_firing)
  qed (use res assms(1) in auto)
  have act: "ActiveSince (rule_state ?e1 (r_ID rule)) fp = None"
    using res by (intro seen_false_inactive) auto
  let ?P = "\<lambda>e. ev_alerts e fp = Some a \<and> ActiveSince (rule_state e (r_ID rule)) fp = None"
  have "?P (fold (\<lambda>(t, results). processResults E rule t results) hist ?e1)"
  proof (rule fold_inv [where P = ?P])
    fix x s
    assume x: "x \<in> set hist" and s: "?P s"
    obtain t results where h: "x = (t, results)" by (cases x)
    have r: "(\<exists>r \<in> set results. fp_of E rule r = fp) \<and> (\<forall>r \<in> set results. fp_of E rule r = fp \<longrightarrow> \<not> e_Firing r)"
      using assms(6) x h by auto
    have "?P (processResults E rule t results s)"
    proof (rule processResults_instance [where fp = fp and P = ?P])
      show "?P (handle_result E rule t r s)" if "r \<in> set results" "fp_of E rule r = fp" "?P s" for r s
        using that r assms(2,3) by (auto simp: false handleResolvedResult_state intro: false_keeps_firing)
    qed (use r s in auto)
    then show "?P ((\<lambda>(t, results). processResults E rule t results) x s)" using h by simp
  qed (use first act in simp)
  then show ?thesis by (simp add: run_rule_def)
qed

definition demo_fp :: string where "demo_fp = ''r1|host=h1''"

definition demo_firing :: Evaluator where
  "demo_firing = set_alert demo_fp (demo_alert ''x'') (NewEvaluator demo_store)"

lemma demo_fp_of [simp]:
  "fp_of demo_env demo_rule (demo_result b) = demo_fp" "fp_of demo_env (demo_rule\<lparr>r_KeepFiringFor := k\<rparr>) (demo_result b) = demo_fp"
  using demo_fingerprint [of b] by (simp_all add: fp_of_def demo_fp_def)

theorem keep_firing_never_resolves_witness:
  "ev_alerts (run_rule demo_env (demo_rule\<lparr>r_KeepFiringFor := minute\<rparr>)
     ((10 * second, [demo_result False]) # [(1000 * hour, [demo_result False])]) demo_firing) demo_fp = Some (demo_alert ''x'')"
  by (rule keep_firing_never_resolves [where f = 2000000001])
    (auto simp: demo_firing_def demo_alert_def time_sub_def max_duration_def min_duration_def demo_result_def
      simp del: demo_fp_of intro: demo_fp_of [unfolded demo_result_def])

section \<open>Gaps, silences and re-firing\<close>

text \<open>A pending instance survives a gap in its data: while its series is missing nothing is reset, and
  if the condition holds again after the rule's duration has passed since it first held, the alert
  fires at once, although the condition was not observed in between.\<close>

theorem pending_survives_gap:
  assumes "ActiveSince (rule_state e (r_ID rule)) fp = Some t" "fp \<notin> set (FiringAlerts (rule_state e (r_ID rule)))"
    and "ev_alerts e fp = Some a" "a_State a \<noteq> StateFiring"
    and "\<forall>(u, results) \<in> set gap. \<forall>r \<in> set results. fp_of E rule r \<noteq> fp"
    and "fp_of E rule r = fp" "e_Firing r" "r_ForDuration rule \<le> time_sub now t"
  shows "\<exists>b. ev_alerts (run_rule E rule (gap @ [(now, [r])]) e) fp = Some b \<and> a_State b = StateFiring \<and> a_FiredAt b = Some now"
proof -
  let ?P = "\<lambda>e. ev_alerts e fp = Some a \<and> ActiveSince (rule_state e (r_ID rule)) fp = Some t \<and>
    fp \<notin> set (FiringAlerts (rule_state e (r_ID rule)))"
  let ?e1 = "fold (\<lambda>(u, results). processResults E rule u results) gap e"
  have P1: "?P ?e1"
  proof (rule fold_inv [where P = ?P])
    fix x s
    assume x: "x \<in> set gap" and s: "?P s"
    obtain u results where h: "x = (u, results)" by (cases x)
    have "?P (processResults E rule u results s)"
      by (rule processResults_instance [where fp = fp and P = ?P]) (use assms(5) x h s in auto)
    then show "?P ((\<lambda>(u, results). processResults E rule u results) x s)" using h by simp
  qed (use assms in simp)
  let ?Q = "\<lambda>e. \<exists>b. ev_alerts e fp = Some b \<and> a_State b = StateFiring \<and> a_FiredAt b = Some now"
  have fire: "?Q (handleFiringResult E rule fp r now ?e1)"
    using P1 assms(4,8) by (simp add: handleFiringResult_alert fires_def active_since_def tracked_def Let_def)
  have "?Q (fold (resolve_unseen rule now) (filter (\<lambda>x. x \<noteq> fp) xs) (handleFiringResult E rule fp r now ?e1))" for xs
  proof (rule fold_inv [where P = ?Q])
    show "?Q (resolve_unseen rule now x s)" if "x \<in> set (filter (\<lambda>x. x \<noteq> fp) xs)" "?Q s" for x s
      using that resolve_unseen_other(1) [of x fp rule now s] by simp
  qed (rule fire)
  then show ?thesis
    using assms(6,7) by (simp add: run_rule_def processResults_def handle_result_def fp_of_def Let_def)
qed

theorem pending_survives_gap_witness:
  "\<exists>b. ev_alerts (run_rule demo_env demo_rule ([(minute, [])] @ [(5 * minute, [demo_result True])]) demo_pending) demo_fp = Some b \<and>
     a_State b = StateFiring \<and> a_FiredAt b = Some (5 * minute)"
proof -
  obtain a where "ev_alerts demo_pending demo_fp = Some a" "a_State a = StatePending"
    using demo_pending_simps(3) unfolding demo_fp_def by blast
  then show ?thesis
    by (intro pending_survives_gap [where t = 0 and a = a])
      (simp_all add: demo_fp_def [symmetric] time_sub_def max_duration_def min_duration_def
        demo_pending_simps(1) [folded demo_fp_def], simp_all add: demo_result_def)
qed

lemma firing_not_notified:
  "ev_alerts e fp = Some a \<Longrightarrow> a_State a = StateFiring \<Longrightarrow>
     notified (handleFiringResult E rule fp r now e) = notified e \<and>
     (\<exists>b. ev_alerts (handleFiringResult E rule fp r now e) fp = Some b \<and> a_State b = StateFiring)"
  by (auto simp: handleFiringResult_alert fires_def tracked_def Let_def)

text \<open>An alert that starts to fire while it is silenced is never notified: the silence may end, but while
  the condition keeps holding no later evaluation sends a notification.\<close>

theorem silenced_alert_never_notified:
  assumes "fires E rule fp r0 now e" "silent E now e (tracked E rule fp r0 now e)"
    and "\<forall>(t, r) \<in> set later. e_Firing r"
  shows "notified (fold (\<lambda>(t, r). handleFiringResult E rule fp r t) later (handleFiringResult E rule fp r0 now e)) = notified e"
proof -
  let ?P = "\<lambda>s. notified s = notified e \<and> (\<exists>b. ev_alerts s fp = Some b \<and> a_State b = StateFiring)"
  have "?P (fold (\<lambda>(t, r). handleFiringResult E rule fp r t) later (handleFiringResult E rule fp r0 now e))"
  proof (rule fold_inv [where P = ?P])
    show "?P (handleFiringResult E rule fp r0 now e)" using assms(1,2) by (simp add: handleFiringResult_alert Let_def)
    show "?P ((\<lambda>(t, r). handleFiringResult E rule fp r t) x s)" if "x \<in> set later" "?P s" for x s
      using that(2) firing_not_notified [of s fp] by (cases x) auto
  qed
  then show ?thesis by blast
qed

definition demo_silenced :: Evaluator where
  "demo_silenced = SetNotifyFunc (NewEvaluator (demo_store\<lparr>silences := [demo_silence\<lparr>sr_matchers := []\<rparr>]\<rparr>))"

theorem silenced_alert_never_notified_witness:
  "notified (fold (\<lambda>(t, r). handleFiringResult demo_env (demo_rule\<lparr>r_ForDuration := 0\<rparr>) demo_fp r t)
     [(1000 * hour, demo_result True)]
     (handleFiringResult demo_env (demo_rule\<lparr>r_ForDuration := 0\<rparr>) demo_fp (demo_result True) (5 * second) demo_silenced)) = []"
proof -
  have "fires demo_env (demo_rule\<lparr>r_ForDuration := 0\<rparr>) demo_fp (demo_result True) (5 * second) demo_silenced"
    by (simp add: fires_def active_since_def tracked_def new_alert_def demo_silenced_def SetNotifyFunc_def
        NewEvaluator_def rule_state_def new_state_def time_sub_def max_duration_def min_duration_def)
  moreover have "silent demo_env (5 * second) demo_silenced
      (tracked demo_env (demo_rule\<lparr>r_ForDuration := 0\<rparr>) demo_fp (demo_result True) (5 * second) demo_silenced)"
    by (simp add: silent_def isSilenced_def demo_silenced_def SetNotifyFunc_def NewEvaluator_def
        ListActiveSilences_def demo_silence_def silence_of_def matchesSilence_def to_unix_def)
  ultimately have "notified (fold (\<lambda>(t, r). handleFiringResult demo_env (demo_rule\<lparr>r_ForDuration := 0\<rparr>) demo_fp r t)
     [(1000 * hour, demo_result True)]
     (handleFiringResult demo_env (demo_rule\<lparr>r_ForDuration := 0\<rparr>) demo_fp (demo_result True) (5 * second) demo_silenced))
     = notified demo_silenced"
    by (rule silenced_alert_never_notified) (simp add: demo_result_def)
  then show ?thesis by (simp add: demo_silenced_def SetNotifyFunc_def NewEvaluator_def)
qed

text \<open>An alert that fires again keeps the end of its previous episode: the alert is firing and still
  carries the old resolution and end times, and the old start.\<close>

theorem refired_alert_keeps_resolution:
  assumes "ev_alerts e fp = Some a" "a_State a = StateResolved"
    and "r_ForDuration rule \<le> time_sub now (active_since rule fp now e)"
  shows "\<exists>b. ev_alerts (handleFiringResult E rule fp r now e) fp = Some b \<and> a_State b = StateFiring \<and>
    a_ResolvedAt b = a_ResolvedAt a \<and> a_EndsAt b = a_EndsAt a \<and> a_StartsAt b = a_StartsAt a"
  using assms by (auto simp: handleFiringResult_alert fires_def tracked_def Let_def)

theorem refired_alert_keeps_resolution_witness:
  "\<exists>b. ev_alerts (handleFiringResult demo_env (demo_rule\<lparr>r_ForDuration := 0\<rparr>) demo_fp (demo_result True) (2 * hour)
       (set_alert demo_fp (resolve_alert hour (demo_alert ''x'')) (NewEvaluator demo_store))) demo_fp = Some b \<and>
     a_State b = StateFiring \<and> a_ResolvedAt b = Some hour"
proof -
  let ?e = "set_alert demo_fp (resolve_alert hour (demo_alert ''x'')) (NewEvaluator demo_store)"
  have "ev_alerts ?e demo_fp = Some (resolve_alert hour (demo_alert ''x''))"
    "a_State (resolve_alert hour (demo_alert ''x'')) = StateResolved"
    "r_ForDuration (demo_rule\<lparr>r_ForDuration := 0\<rparr>) \<le> time_sub (2 * hour) (active_since (demo_rule\<lparr>r_ForDuration := 0\<rparr>) demo_fp (2 * hour) ?e)"
    by (simp_all add: resolve_alert_def active_since_def NewEvaluator_def rule_state_def new_state_def set_alert_def
        time_sub_def max_duration_def min_duration_def)
  from refired_alert_keeps_resolution [OF this] show ?thesis by (auto simp: resolve_alert_def)
qed

end
