(* ===== verification/Alert_Router.thy ===== *)
theory Alert_Router
  imports Alert_Inhibitor
begin

text \<open>
  The notification router (\<open>internal/alerting/router.go\<close>): matching of routes, grouping, and the
  timing of group notifications. A group points to alert objects that the evaluator goes on
  changing, so a group holds references (the alerts' ids) and each operation takes the heap of
  alert objects as it is at that moment. Receivers are a parameter that says whether a delivery
  succeeds; the deliveries made are recorded. The clock is read once per call.
\<close>

section \<open>State\<close>

type_synonym heap = "string \<Rightarrow> Alert"

record AlertGroup =
  g_Key :: string
  g_Labels :: labels
  g_Alerts :: "string list"
  g_Receiver :: string
  g_CreatedAt :: go_time
  g_UpdatedAt :: go_time
  g_NotifiedAt :: "go_time option"

text \<open>A delivery: when, for which group, to which receiver, and the alerts in it.\<close>

record delivery =
  d_time :: go_time
  d_key :: string
  d_receiver :: string
  d_alerts :: "string list"

record Router =
  rt_routes :: "Route list"
  groups :: "string \<rightharpoonup> AlertGroup"
  receivers :: "string list"
  lastNotify :: "string \<rightharpoonup> go_time"
  sent :: "delivery list"

definition NewRouter :: Router where
  "NewRouter = \<lparr>rt_routes = [], groups = Map.empty, receivers = [], lastNotify = Map.empty, sent = []\<rparr>"

definition RegisterReceiver :: "string \<Rightarrow> Router \<Rightarrow> Router" where
  "RegisterReceiver nm r = r\<lparr>receivers := List.insert nm (receivers r)\<rparr>"

definition SetRoutes :: "Route list \<Rightarrow> Router \<Rightarrow> Router" where
  "SetRoutes rs r = r\<lparr>rt_routes := rs\<rparr>"

section \<open>Routing\<close>

definition default_route :: "Route list \<Rightarrow> Route list \<Rightarrow> Route list" where
  "default_route routes matched = (if matched = [] \<and> routes \<noteq> [] then matched @ [hd routes] else matched)"

text \<open>The loop of \<open>findMatchingRoutes\<close>; it descends into the children of a matching route, and
  goes on to the next route only if the route says so.\<close>

fun match_loop :: "regex_engine \<Rightarrow> Alert \<Rightarrow> Route list \<Rightarrow> Route list" where
  "match_loop compile alert [] = []"
| "match_loop compile alert (Route i n ms rc gb gw gi ri mt cont children # routes) =
     (let route = Route i n ms rc gb gw gi ri mt cont children
      in if matchesRoute compile alert route then
           [route] @ (if children \<noteq> [] then default_route children (match_loop compile alert children) else []) @
           (if \<not> cont then [] else match_loop compile alert routes)
         else match_loop compile alert routes)"

definition findMatchingRoutes :: "regex_engine \<Rightarrow> Alert \<Rightarrow> Route list \<Rightarrow> Route list" where
  "findMatchingRoutes compile alert routes = default_route routes (match_loop compile alert routes)"

definition buildGroupKey :: "Alert \<Rightarrow> string list \<Rightarrow> string" where
  "buildGroupKey alert groupBy =
     (if groupBy = [] then a_RuleName alert
      else join (sort (List.map_filter (\<lambda>l. map_option (\<lambda>v. l @ ''='' @ v) (a_Labels alert l)) groupBy)) '','')"

fun group_labels :: "labels \<Rightarrow> string list \<Rightarrow> labels" where
  "group_labels ls [] = Map.empty"
| "group_labels ls (l # gs) = (case ls l of None \<Rightarrow> group_labels ls gs | Some v \<Rightarrow> (group_labels ls gs)(l \<mapsto> v))"

text \<open>Replace the first alert with the same fingerprint, or append.\<close>

fun put_alert :: "heap \<Rightarrow> string \<Rightarrow> string list \<Rightarrow> string list" where
  "put_alert h ref [] = [ref]"
| "put_alert h ref (a # as) = (if a_Fingerprint (h a) = a_Fingerprint (h ref) then ref # as else a # put_alert h ref as)"

definition addToGroup :: "heap \<Rightarrow> go_time \<Rightarrow> string \<Rightarrow> string \<Rightarrow> Route \<Rightarrow> Router \<Rightarrow> Router" where
  "addToGroup h now groupKey ref route r =
     (let grp = (case groups r groupKey of
          Some g \<Rightarrow> g
        | None \<Rightarrow> \<lparr>g_Key = groupKey, g_Labels = group_labels (a_Labels (h ref)) (rt_GroupBy route), g_Alerts = [],
            g_Receiver = rt_Receiver route, g_CreatedAt = now, g_UpdatedAt = now, g_NotifiedAt = None\<rparr>);
          group1 = grp\<lparr>g_Alerts := put_alert h ref (g_Alerts grp), g_UpdatedAt := now\<rparr>
      in r\<lparr>groups := (groups r)(groupKey \<mapsto> group1)\<rparr>)"

definition Route_alert :: "regex_engine \<Rightarrow> heap \<Rightarrow> go_time \<Rightarrow> string \<Rightarrow> Router \<Rightarrow> Router" where
  "Route_alert compile h now ref r =
     fold (\<lambda>route. addToGroup h now (buildGroupKey (h ref) (rt_GroupBy route)) ref route)
       (findMatchingRoutes compile (h ref) (rt_routes r)) r"

section \<open>Notification\<close>

definition sendGroupNotification ::
  "(string \<Rightarrow> delivery \<Rightarrow> bool) \<Rightarrow> go_time \<Rightarrow> AlertGroup \<Rightarrow> string list \<Rightarrow> Router \<Rightarrow> Router" where
  "sendGroupNotification deliver now grp firing r =
     (let note = \<lparr>d_time = now, d_key = g_Key grp, d_receiver = g_Receiver grp, d_alerts = firing\<rparr>
      in if g_Receiver grp \<notin> set (receivers r) then r
         else if \<not> deliver (g_Receiver grp) note then r
         else r\<lparr>groups := (groups r)(g_Key grp \<mapsto> grp\<lparr>g_NotifiedAt := Some now\<rparr>),
                lastNotify := (lastNotify r)(g_Key grp \<mapsto> now), sent := sent r @ [note]\<rparr>)"

definition handleResolvedGroup :: "heap \<Rightarrow> go_time \<Rightarrow> AlertGroup \<Rightarrow> Router \<Rightarrow> Router" where
  "handleResolvedGroup h now grp r =
     (case g_NotifiedAt grp of
        Some _ \<Rightarrow>
          (let hasUnresolved = list_ex (\<lambda>a. a_State (h a) \<noteq> StateResolved \<and> a_State (h a) \<noteq> StateInactive) (g_Alerts grp)
           in if \<not> hasUnresolved \<and> 15 * minute < time_sub now (g_UpdatedAt grp)
              then r\<lparr>groups := (groups r)(g_Key grp := None)\<rparr> else r)
      | None \<Rightarrow>
          if 5 * minute < time_sub now (g_CreatedAt grp)
          then r\<lparr>groups := (groups r)(g_Key grp := None)\<rparr> else r)"

text \<open>The timing of a group: that of the first route with its receiver, or the defaults.\<close>

definition route_config :: "string \<Rightarrow> Router \<Rightarrow> Route option" where
  "route_config receiver r = find (\<lambda>route. rt_Receiver route = receiver) (rt_routes r)"

definition group_wait :: "Route option \<Rightarrow> duration" where
  "group_wait c = (case c of None \<Rightarrow> 30 * second | Some rt \<Rightarrow> if 0 < rt_GroupWait rt then rt_GroupWait rt else 30 * second)"
definition group_interval :: "Route option \<Rightarrow> duration" where
  "group_interval c = (case c of None \<Rightarrow> 5 * minute | Some rt \<Rightarrow> if 0 < rt_GroupInterval rt then rt_GroupInterval rt else 5 * minute)"
definition repeat_interval :: "Route option \<Rightarrow> duration" where
  "repeat_interval c = (case c of None \<Rightarrow> 4 * hour | Some rt \<Rightarrow> if 0 < rt_RepeatInterval rt then rt_RepeatInterval rt else 4 * hour)"

definition processGroup :: "(string \<Rightarrow> delivery \<Rightarrow> bool) \<Rightarrow> heap \<Rightarrow> go_time \<Rightarrow> AlertGroup \<Rightarrow> Router \<Rightarrow> Router" where
  "processGroup deliver h now grp r =
     (let firing = filter (\<lambda>a. a_State (h a) = StateFiring) (g_Alerts grp)
      in if firing = [] then handleResolvedGroup h now grp r
         else
           (let config = route_config (g_Receiver grp) r;
                last_t = (case lastNotify r (g_Key grp) of None \<Rightarrow> zero_time | Some t \<Rightarrow> t);
                shouldNotify = (case g_NotifiedAt grp of
                    None \<Rightarrow> group_wait config \<le> time_sub now (g_CreatedAt grp)
                  | Some t \<Rightarrow>
                      if t < g_UpdatedAt grp then group_interval config \<le> time_sub now t
                      else repeat_interval config \<le> time_sub now last_t)
            in if shouldNotify then sendGroupNotification deliver now grp firing r else r))"

definition processGroups :: "(string \<Rightarrow> delivery \<Rightarrow> bool) \<Rightarrow> heap \<Rightarrow> go_time \<Rightarrow> string list \<Rightarrow> Router \<Rightarrow> Router" where
  "processGroups deliver h now ord r = fold (\<lambda>(k, g). processGroup deliver h now g) (range_map (groups r) ord) r"

definition GetGroups :: "string list \<Rightarrow> Router \<Rightarrow> AlertGroup list" where
  "GetGroups ord r = map snd (range_map (groups r) ord)"

definition GetGroup :: "string \<Rightarrow> Router \<Rightarrow> AlertGroup option" where
  "GetGroup k r = groups r k"

section \<open>Properties of routing\<close>

lemma findMatchingRoutes_ne: "routes \<noteq> [] \<Longrightarrow> findMatchingRoutes compile alert routes \<noteq> []"
  by (simp add: findMatchingRoutes_def default_route_def)

lemma put_alert_mem: "ref \<in> set (put_alert h ref as)"
  by (induction as) auto

lemma addToGroup_mem:
  "\<exists>g. groups (addToGroup h now k ref route r) k = Some g \<and> ref \<in> set (g_Alerts g)"
  by (auto simp: addToGroup_def Let_def put_alert_mem)

lemma put_alert_keeps:
  assumes "x \<in> set as" "a_Fingerprint (h x) \<noteq> a_Fingerprint (h ref) \<or> x = ref"
  shows "x \<in> set (put_alert h ref as)"
  using assms by (induction as) (auto simp: put_alert_mem)

lemma addToGroup_keeps:
  assumes "groups r k = Some g" "ref \<in> set (g_Alerts g)"
  shows "\<exists>g'. groups (addToGroup h now k' ref route r) k = Some g' \<and> ref \<in> set (g_Alerts g') \<and> g_Receiver g' = g_Receiver g"
  using assms put_alert_mem by (auto simp: addToGroup_def Let_def)

lemma grouped_by_route:
  assumes "route \<in> set rs"
  shows "\<exists>g. groups (fold (\<lambda>route. addToGroup h now (buildGroupKey (h ref) (rt_GroupBy route)) ref route) rs s)
    (buildGroupKey (h ref) (rt_GroupBy route)) = Some g \<and> ref \<in> set (g_Alerts g)"
proof -
  let ?add = "\<lambda>route. addToGroup h now (buildGroupKey (h ref) (rt_GroupBy route)) ref route"
  obtain rs1 rs2 where rs: "rs = rs1 @ route # rs2" using assms by (metis split_list)
  let ?P = "\<lambda>s. \<exists>g. groups s (buildGroupKey (h ref) (rt_GroupBy route)) = Some g \<and> ref \<in> set (g_Alerts g)"
  have "?P (fold ?add rs2 (?add route (fold ?add rs1 s)))"
    by (rule fold_inv [where P = ?P]) (use addToGroup_mem addToGroup_keeps in \<open>blast+\<close>)
  then show ?thesis by (simp add: rs)
qed

text \<open>No alert is dropped by routing: when there is any route at all, routing an alert puts it into a
  group for every matched route, and at least one route is matched (the first one by default).\<close>

theorem routed_alert_is_grouped:
  assumes "rt_routes r \<noteq> []"
  shows "findMatchingRoutes compile (h ref) (rt_routes r) \<noteq> [] \<and>
    (\<forall>route \<in> set (findMatchingRoutes compile (h ref) (rt_routes r)).
       \<exists>g. groups (Route_alert compile h now ref r) (buildGroupKey (h ref) (rt_GroupBy route)) = Some g \<and>
         ref \<in> set (g_Alerts g))"
  using findMatchingRoutes_ne [OF assms] grouped_by_route by (simp add: Route_alert_def)

theorem routed_alert_is_grouped_witness:
  "\<exists>g. groups (Route_alert (\<lambda>_. None) demo_alert 0 ''x'' (SetRoutes [demo_route] NewRouter))
     (buildGroupKey (demo_alert ''x'') (rt_GroupBy demo_route)) = Some g \<and> ''x'' \<in> set (g_Alerts g)"
proof -
  have "rt_routes (SetRoutes [demo_route] NewRouter) \<noteq> []" by (simp add: SetRoutes_def)
  moreover have "demo_route \<in> set (findMatchingRoutes (\<lambda>_. None) (demo_alert ''x'') (rt_routes (SetRoutes [demo_route] NewRouter)))"
    by (simp add: SetRoutes_def findMatchingRoutes_def default_route_def demo_route_def demo_matcher_def
        matchesRoute_iff matcher_ok_def demo_alert_def label_def)
  ultimately show ?thesis using routed_alert_is_grouped by blast
qed

text \<open>An alert that matches two routes with one group key reaches only the first receiver: the group is
  created for the first route's receiver, and the second route adds the alert to that group.\<close>

theorem shared_group_key_one_receiver:
  assumes "buildGroupKey (h ref) (rt_GroupBy r1) = k" "buildGroupKey (h ref) (rt_GroupBy r2) = k"
    and "rt_Continue r1" "matchesRoute compile (h ref) r1" "matchesRoute compile (h ref) r2"
    and "rt_Children r1 = []" "rt_Children r2 = []" "rt_routes r = [r1, r2]" "groups r k = None"
  shows "findMatchingRoutes compile (h ref) (rt_routes r) = [r1, r2] \<and>
    (\<exists>g. groups (Route_alert compile h now ref r) k = Some g \<and> g_Receiver g = rt_Receiver r1 \<and>
       (\<forall>k'. k' \<noteq> k \<longrightarrow> groups (Route_alert compile h now ref r) k' = groups r k'))"
proof -
  have m: "findMatchingRoutes compile (h ref) (rt_routes r) = [r1, r2]"
    using assms by (cases r1; cases r2) (simp add: findMatchingRoutes_def default_route_def)
  then show ?thesis using assms by (auto simp: Route_alert_def addToGroup_def Let_def)
qed

definition demo_route2 :: Route where
  "demo_route2 = Route ''r2'' ''r2'' [] ''dev'' [''service''] 0 0 0 [] False []"

definition demo_route1 :: Route where
  "demo_route1 = Route ''r1'' ''r1'' [] ''ops'' [''service''] 0 0 0 [] True []"

theorem shared_group_key_one_receiver_witness:
  "\<exists>g. groups (Route_alert (\<lambda>_. None) demo_alert 0 ''x'' (SetRoutes [demo_route1, demo_route2] NewRouter)) ''service=api'' = Some g \<and>
     g_Receiver g = ''ops''"
  using shared_group_key_one_receiver [of demo_alert "''x''" demo_route1 "''service=api''" demo_route2 "\<lambda>_. None"
      "SetRoutes [demo_route1, demo_route2] NewRouter" 0]
  by (simp add: demo_route1_def demo_route2_def SetRoutes_def NewRouter_def buildGroupKey_def demo_alert_def
      map_filter_simps matchesRoute_def) blast

section \<open>Properties of notification\<close>

text \<open>A notified group knows when; the tracking table agrees.\<close>

definition router_ok :: "Router \<Rightarrow> bool" where
  "router_ok r \<longleftrightarrow> (\<forall>k g. groups r k = Some g \<longrightarrow> g_Key g = k \<and>
     (\<forall>t. g_NotifiedAt g = Some t \<longrightarrow> lastNotify r k = Some t))"

lemma router_ok_new: "router_ok NewRouter"
  by (simp add: router_ok_def NewRouter_def)

lemma router_ok_addToGroup: "router_ok r \<Longrightarrow> router_ok (addToGroup h now k ref route r)"
  by (auto simp: router_ok_def addToGroup_def Let_def split: option.splits)

lemma router_ok_Route: "router_ok r \<Longrightarrow> router_ok (Route_alert compile h now ref r)"
  unfolding Route_alert_def by (rule fold_inv) (auto intro: router_ok_addToGroup)

lemma router_ok_processGroup:
  "router_ok r \<Longrightarrow> groups r k = Some g \<Longrightarrow> router_ok (processGroup deliver h now g r)"
  by (auto simp: router_ok_def processGroup_def sendGroupNotification_def handleResolvedGroup_def Let_def
      split: option.splits)


definition demo_router :: Router where
  "demo_router = (Route_alert (\<lambda>_. None) demo_alert 0 ''x'' (SetRoutes [demo_route1] NewRouter))\<lparr>receivers := [''ops'']\<rparr>"


end
