(* ===== verification/Alert_Manager.thy ===== *)
theory Alert_Manager
  imports Alert_Lifecycle Alert_Router
begin

text \<open>
  The alert manager (\<open>AlertManager\<close> in \<open>internal/alerting/inhibitor.go\<close>), which ties the parts
  together: the callback that takes a firing alert through suppression to the router, and the
  maintenance tick. The evaluator records the calls of its callback; here they are executed. The
  dependency state is the one the inhibitor points to.
\<close>

section \<open>State and operations\<close>

record AlertManager =
  am_Store :: Store
  am_Evaluator :: Evaluator
  am_Router :: Router
  am_Inhibitor :: Inhibitor
  am_broadcasting :: bool
  broadcasts :: "Alert list"

definition NewAlertManager :: "Store \<Rightarrow> AlertManager" where
  "NewAlertManager store = \<lparr>am_Store = store, am_Evaluator = SetNotifyFunc (NewEvaluator store), am_Router = NewRouter,
     am_Inhibitor = NewInhibitor, am_broadcasting = False, broadcasts = []\<rparr>"

definition EnableDependencyAlerting :: "DependencyAlerting \<Rightarrow> AlertManager \<Rightarrow> AlertManager" where
  "EnableDependencyAlerting da am = am\<lparr>am_Inhibitor := SetDependencyAlerting da (am_Inhibitor am)\<rparr>"

definition SetBroadcaster :: "AlertManager \<Rightarrow> AlertManager" where
  "SetBroadcaster am = am\<lparr>am_broadcasting := True\<rparr>"

text \<open>The notification callback.\<close>

definition notify_alert ::
  "regex_engine \<Rightarrow> heap \<Rightarrow> go_time \<Rightarrow> string list \<Rightarrow> string \<Rightarrow> AlertManager \<Rightarrow> AlertManager" where
  "notify_alert cmp h now ord ref am =
     (case ShouldSuppress cmp now ord (am_Store am) (h ref) (am_Inhibitor am) of
        ((suppressed, reason), inh) \<Rightarrow>
          (let am1 = am\<lparr>am_Inhibitor := inh\<rparr>
           in if suppressed then am1
              else (let am2 = am1\<lparr>am_Router := Route_alert cmp h now ref (am_Router am1)\<rparr>
                    in if am_broadcasting am2 then am2\<lparr>broadcasts := broadcasts am2 @ [h ref]\<rparr> else am2)))"

text \<open>Alerts by the service they are about, in the order of the list.\<close>

definition alerts_of_service :: "Alert list \<Rightarrow> string \<Rightarrow> Alert list" where
  "alerts_of_service alerts sid = filter (\<lambda>a. sid \<noteq> [] \<and> service_label (a_Labels a) = sid) alerts"

definition update_one_service :: "go_time \<Rightarrow> Alert list \<Rightarrow> string \<Rightarrow> DependencyAlerting \<Rightarrow> DependencyAlerting" where
  "update_one_service now alerts sid da =
     (case alerts_of_service alerts sid of
        [] \<Rightarrow> da
      | a # as \<Rightarrow>
          (let nm = (if label (a_Labels a) ''service_name'' \<noteq> [] then label (a_Labels a) ''service_name'' else sid)
           in UpdateServiceHealth now sid nm (a # as) da))"

text \<open>The loop over the services visits the keys of a map in some order.\<close>

definition updateServiceHealthFromAlerts :: "go_time \<Rightarrow> string list \<Rightarrow> Alert list \<Rightarrow> AlertManager \<Rightarrow> AlertManager" where
  "updateServiceHealthFromAlerts now service_order alerts am =
     (case ih_dependencyAlerting (am_Inhibitor am) of
        None \<Rightarrow> am
      | Some da \<Rightarrow> am\<lparr>am_Inhibitor := (am_Inhibitor am)\<lparr>ih_dependencyAlerting :=
          Some (fold (update_one_service now alerts) service_order da)\<rparr>\<rparr>)"

definition maintenance_tick :: "go_time \<Rightarrow> string list \<Rightarrow> string list \<Rightarrow> AlertManager \<Rightarrow> AlertManager" where
  "maintenance_tick now alert_order service_order am =
     (let firing = GetFiringAlerts alert_order (am_Evaluator am);
          am1 = am\<lparr>am_Inhibitor := UpdateFiringAlerts firing (am_Inhibitor am)\<rparr>;
          am2 = updateServiceHealthFromAlerts now service_order firing am1;
          am3 = (case CleanupExpiredSilences now (7 * 24 * hour) (am_Store am2) of
                   Return s \<Rightarrow> am2\<lparr>am_Store := s\<rparr> | _ \<Rightarrow> am2)
      in case LoadRulesFromDB (am_Store am3) (am_Inhibitor am3) of
           Return inh \<Rightarrow> am3\<lparr>am_Inhibitor := inh\<rparr> | _ \<Rightarrow> am3)"

definition GetBlastRadius :: "go_time \<Rightarrow> string \<Rightarrow> AlertManager \<Rightarrow> BlastRadius option" where
  "GetBlastRadius now sid am =
     (case ih_dependencyAlerting (am_Inhibitor am) of
        None \<Rightarrow> None | Some da \<Rightarrow> fst (CalculateBlastRadius now sid da))"

section \<open>Properties\<close>

text \<open>The callback delivers exactly the alerts that are not suppressed: an alert under an active silence,
  inhibited or a symptom changes neither the router nor the broadcasts; any other alert is put into
  a group of every route it matches, and broadcast when a broadcaster is set.\<close>

theorem notify_routes_unless_suppressed:
  assumes "rt_routes (am_Router am) \<noteq> []"
    and am': "am' = notify_alert cmp h now ord ref am"
  shows "if fst (fst (ShouldSuppress cmp now ord (am_Store am) (h ref) (am_Inhibitor am)))
    then am_Router am' = am_Router am \<and> broadcasts am' = broadcasts am
    else (\<forall>route \<in> set (findMatchingRoutes cmp (h ref) (rt_routes (am_Router am))).
        \<exists>g. groups (am_Router am') (buildGroupKey (h ref) (rt_GroupBy route)) = Some g \<and> ref \<in> set (g_Alerts g)) \<and>
      broadcasts am' = broadcasts am @ (if am_broadcasting am then [h ref] else [])"
proof -
  obtain sup reason inh where S: "ShouldSuppress cmp now ord (am_Store am) (h ref) (am_Inhibitor am) = ((sup, reason), inh)"
    by (metis prod.exhaust)
  have R: "am_Router am' = (if sup then am_Router am else Route_alert cmp h now ref (am_Router am))"
    "broadcasts am' = broadcasts am @ (if \<not> sup \<and> am_broadcasting am then [h ref] else [])"
    by (simp_all add: am' notify_alert_def S Let_def)
  show ?thesis
  proof (cases sup)
    case True
    then show ?thesis by (simp add: S R)
  next
    case False
    have "\<exists>g. groups (fold (\<lambda>route. addToGroup h now (buildGroupKey (h ref) (rt_GroupBy route)) ref route) rs s)
        (buildGroupKey (h ref) (rt_GroupBy route)) = Some g \<and> ref \<in> set (g_Alerts g)" if "route \<in> set rs" for route rs s
      by (rule grouped_by_route [OF that])
    with False show ?thesis by (simp add: S R Route_alert_def)
  qed
qed

theorem notify_routes_unless_suppressed_witness:
  "\<exists>g. groups (am_Router (notify_alert (\<lambda>_. None) demo_alert 0 [] ''x''
     ((NewAlertManager demo_store)\<lparr>am_Router := SetRoutes [demo_route1] NewRouter\<rparr>))) ''service=api'' = Some g \<and> ''x'' \<in> set (g_Alerts g)"
proof -
  let ?am = "(NewAlertManager demo_store)\<lparr>am_Router := SetRoutes [demo_route1] NewRouter\<rparr>"
  have "\<not> fst (fst (ShouldSuppress (\<lambda>_. None) 0 [] (am_Store ?am) (demo_alert ''x'') (am_Inhibitor ?am)))"
    by (simp add: ShouldSuppress_def IsSilenced_def ListActiveSilences_def NewAlertManager_def NewInhibitor_def
        IsInhibited_def)
  moreover have "demo_route1 \<in> set (findMatchingRoutes (\<lambda>_. None) (demo_alert ''x'') (rt_routes (am_Router ?am)))"
    "buildGroupKey (demo_alert ''x'') (rt_GroupBy demo_route1) = ''service=api''"
    by (simp_all add: SetRoutes_def findMatchingRoutes_def default_route_def demo_route1_def matchesRoute_def
        buildGroupKey_def demo_alert_def map_filter_simps)
  moreover have "rt_routes (am_Router ?am) \<noteq> []" by (simp add: SetRoutes_def)
  ultimately show ?thesis
    using notify_routes_unless_suppressed [of ?am _ "\<lambda>_. None" demo_alert 0 "[]" "''x''", OF _ refl] by fastforce
qed

end
