(* ===== verification/Promql_Lexer.thy ===== *)
theory Promql_Lexer
  imports Dogwatch_Prelude "HOL-Library.Monad_Syntax"
begin

text \<open>
  The PromQL lexer (\<open>internal/promql/lexer.go\<close>). A Go string is a sequence of bytes, which is
  what \<^typ>\<open>string\<close> is; runes are decoded from it as \<open>utf8.DecodeRuneInString\<close> does. What Unicode
  says of runes outside ASCII (letters, digits, lower case, quoting) is a parameter. Loops of the
  scanner are recursive functions on the lexer state; \<open>Lex\<close> itself may not end and is a partial
  function, whose value is \<open>None\<close> when it runs forever.
\<close>

section \<open>Tokens\<close>

datatype ItemType = ItemError | ItemEOF | ItemIdentifier | ItemMetricIdentifier | ItemNumber | ItemString
  | ItemDuration | ItemAdd | ItemSub | ItemMul | ItemDiv | ItemMod | ItemPow | ItemEql | ItemNeq | ItemLss
  | ItemGtr | ItemLte | ItemGte | ItemEqlMatch | ItemNeqMatch | ItemAssign | ItemLeftParen | ItemRightParen
  | ItemLeftBracket | ItemRightBracket | ItemLeftBrace | ItemRightBrace | ItemComma | ItemColon | ItemAt
  | ItemSum | ItemAvg | ItemMin | ItemMax | ItemCount | ItemStddev | ItemStdvar | ItemTopK | ItemBottomK
  | ItemCountValues | ItemQuantile | ItemGroup | ItemBy | ItemWithout | ItemAnd | ItemOr | ItemUnless
  | ItemAtan2 | ItemOn | ItemIgnoring | ItemGroupLeft | ItemGroupRight | ItemBool | ItemOffset | ItemStart
  | ItemEnd

fun itemTypeStr :: "ItemType \<Rightarrow> string" where
  "itemTypeStr ItemError = ''error''" | "itemTypeStr ItemEOF = ''EOF''"
| "itemTypeStr ItemIdentifier = ''identifier''" | "itemTypeStr ItemMetricIdentifier = ''metric''"
| "itemTypeStr ItemNumber = ''number''" | "itemTypeStr ItemString = ''string''"
| "itemTypeStr ItemDuration = ''duration''" | "itemTypeStr ItemAdd = ''+''" | "itemTypeStr ItemSub = ''-''"
| "itemTypeStr ItemMul = ''*''" | "itemTypeStr ItemDiv = ''/''" | "itemTypeStr ItemMod = ''%''"
| "itemTypeStr ItemPow = ''^''" | "itemTypeStr ItemEql = ''==''" | "itemTypeStr ItemNeq = ''!=''"
| "itemTypeStr ItemLss = ''<''" | "itemTypeStr ItemGtr = ''>''" | "itemTypeStr ItemLte = ''<=''"
| "itemTypeStr ItemGte = ''>=''" | "itemTypeStr ItemEqlMatch = ''=~''" | "itemTypeStr ItemNeqMatch = ''!~''"
| "itemTypeStr ItemAssign = ''=''" | "itemTypeStr ItemLeftParen = ''(''" | "itemTypeStr ItemRightParen = '')''"
| "itemTypeStr ItemLeftBracket = ''[''" | "itemTypeStr ItemRightBracket = '']''"
| "itemTypeStr ItemLeftBrace = ''{''" | "itemTypeStr ItemRightBrace = ''}''" | "itemTypeStr ItemComma = '',''"
| "itemTypeStr ItemColon = '':''" | "itemTypeStr ItemAt = ''@''" | "itemTypeStr ItemSum = ''sum''"
| "itemTypeStr ItemAvg = ''avg''" | "itemTypeStr ItemMin = ''min''" | "itemTypeStr ItemMax = ''max''"
| "itemTypeStr ItemCount = ''count''" | "itemTypeStr ItemStddev = ''stddev''" | "itemTypeStr ItemStdvar = ''stdvar''"
| "itemTypeStr ItemTopK = ''topk''" | "itemTypeStr ItemBottomK = ''bottomk''"
| "itemTypeStr ItemCountValues = ''count_values''" | "itemTypeStr ItemQuantile = ''quantile''"
| "itemTypeStr ItemGroup = ''group''" | "itemTypeStr ItemBy = ''by''" | "itemTypeStr ItemWithout = ''without''"
| "itemTypeStr ItemAnd = ''and''" | "itemTypeStr ItemOr = ''or''" | "itemTypeStr ItemUnless = ''unless''"
| "itemTypeStr ItemAtan2 = ''atan2''" | "itemTypeStr ItemOn = ''on''" | "itemTypeStr ItemIgnoring = ''ignoring''"
| "itemTypeStr ItemGroupLeft = ''group_left''" | "itemTypeStr ItemGroupRight = ''group_right''"
| "itemTypeStr ItemBool = ''bool''" | "itemTypeStr ItemOffset = ''offset''" | "itemTypeStr ItemStart = ''start''"
| "itemTypeStr ItemEnd = ''end''"

definition IsOperator :: "ItemType \<Rightarrow> bool" where
  "IsOperator t \<longleftrightarrow> t \<in> {ItemAdd, ItemSub, ItemMul, ItemDiv, ItemMod, ItemPow, ItemEql, ItemNeq, ItemLss, ItemGtr,
     ItemLte, ItemGte, ItemAnd, ItemOr, ItemUnless, ItemAtan2}"

definition IsAggregator :: "ItemType \<Rightarrow> bool" where
  "IsAggregator t \<longleftrightarrow> t \<in> {ItemSum, ItemAvg, ItemMin, ItemMax, ItemCount, ItemStddev, ItemStdvar, ItemTopK,
     ItemBottomK, ItemCountValues, ItemQuantile, ItemGroup}"

definition keyword_types :: "ItemType list" where
  "keyword_types = [ItemSum, ItemAvg, ItemMin, ItemMax, ItemCount, ItemStddev, ItemStdvar, ItemTopK, ItemBottomK,
     ItemCountValues, ItemQuantile, ItemGroup, ItemBy, ItemWithout, ItemAnd, ItemOr, ItemUnless, ItemAtan2, ItemOn,
     ItemIgnoring, ItemGroupLeft, ItemGroupRight, ItemBool, ItemOffset, ItemStart, ItemEnd]"

text \<open>Each keyword is spelled as its token prints.\<close>

definition keywords_table :: "string \<rightharpoonup> ItemType" where
  "keywords_table s = find (\<lambda>t. itemTypeStr t = s) keyword_types"

record Pos =
  Offset :: nat
  Line :: int
  Column :: int

record Item =
  Typ :: ItemType
  ItemPos :: Pos
  Val :: string

section \<open>Runes\<close>

type_synonym rune = nat

record unicode_tables =
  uni_letter :: "rune \<Rightarrow> bool"
  uni_digit :: "rune \<Rightarrow> bool"
  uni_lower :: "string \<Rightarrow> string"
  quote_rune :: "rune \<Rightarrow> string"

abbreviation byte_at :: "string \<Rightarrow> nat \<Rightarrow> nat" where "byte_at s i \<equiv> of_char (s ! i)"

definition cont_byte :: "nat \<Rightarrow> bool" where "cont_byte b \<longleftrightarrow> 128 \<le> b \<and> b \<le> 191"

text \<open>\<open>utf8.DecodeRuneInString\<close> of a string that is not empty: the rune and its width; a byte that
  starts no valid encoding is the replacement rune of width 1.\<close>

definition decode_rune :: "string \<Rightarrow> rune \<times> nat" where
  "decode_rune s =
     (let b0 = byte_at s 0; n = length s; bad = (0xFFFD, 1) in
      if b0 < 128 then (b0, 1)
      else if 194 \<le> b0 \<and> b0 \<le> 223 then
        (if 2 \<le> n \<and> cont_byte (byte_at s 1) then ((b0 - 192) * 64 + (byte_at s 1 - 128), 2) else bad)
      else if 224 \<le> b0 \<and> b0 \<le> 239 then
        (if 3 \<le> n \<and> cont_byte (byte_at s 1) \<and> cont_byte (byte_at s 2) \<and>
            (b0 = 224 \<longrightarrow> 160 \<le> byte_at s 1) \<and> (b0 = 237 \<longrightarrow> byte_at s 1 \<le> 159)
         then ((b0 - 224) * 4096 + (byte_at s 1 - 128) * 64 + (byte_at s 2 - 128), 3) else bad)
      else if 240 \<le> b0 \<and> b0 \<le> 244 then
        (if 4 \<le> n \<and> cont_byte (byte_at s 1) \<and> cont_byte (byte_at s 2) \<and> cont_byte (byte_at s 3) \<and>
            (b0 = 240 \<longrightarrow> 144 \<le> byte_at s 1) \<and> (b0 = 244 \<longrightarrow> byte_at s 1 \<le> 143)
         then ((b0 - 240) * 262144 + (byte_at s 1 - 128) * 4096 + (byte_at s 2 - 128) * 64 + (byte_at s 3 - 128), 4)
         else bad)
      else bad)"

text \<open>\<open>WriteRune\<close>: the UTF-8 encoding; \<open>None\<close> stands for the end-of-input rune -1, which is written as
  the replacement rune.\<close>

definition encode_rune :: "rune option \<Rightarrow> string" where
  "encode_rune ro =
     (let r = (case ro of None \<Rightarrow> 0xFFFD | Some x \<Rightarrow> x) in
      if r < 128 then [char_of r]
      else if r < 2048 then [char_of (192 + r div 64), char_of (128 + r mod 64)]
      else if r < 65536 then [char_of (224 + r div 4096), char_of (128 + r div 64 mod 64), char_of (128 + r mod 64)]
      else [char_of (240 + r div 262144), char_of (128 + r div 4096 mod 64), char_of (128 + r div 64 mod 64),
            char_of (128 + r mod 64)])"

definition ascii_letter :: "rune \<Rightarrow> bool" where
  "ascii_letter r \<longleftrightarrow> (65 \<le> r \<and> r \<le> 90) \<or> (97 \<le> r \<and> r \<le> 122)"

definition IsDigit :: "unicode_tables \<Rightarrow> rune \<Rightarrow> bool" where
  "IsDigit U r = (if r < 256 then 48 \<le> r \<and> r \<le> 57 else uni_digit U r)"

definition IsLetter :: "unicode_tables \<Rightarrow> rune \<Rightarrow> bool" where
  "IsLetter U r = (if r < 128 then ascii_letter r else uni_letter U r)"

definition ToLower :: "unicode_tables \<Rightarrow> string \<Rightarrow> string" where
  "ToLower U s = (if list_all (\<lambda>c. (of_char c :: nat) < 128) s then to_lower s else uni_lower U s)"

definition isIdentifierStart :: "unicode_tables \<Rightarrow> rune \<Rightarrow> bool" where
  "isIdentifierStart U r \<longleftrightarrow> r = 95 \<or> IsLetter U r"

definition isIdentifierChar :: "unicode_tables \<Rightarrow> rune \<Rightarrow> bool" where
  "isIdentifierChar U r \<longleftrightarrow> r = 95 \<or> r = 58 \<or> IsLetter U r \<or> IsDigit U r"

section \<open>The scanner\<close>

text \<open>The fields of the scanner that are read: \<open>start\<close> and \<open>items\<close> never are, and \<open>width\<close> only by
  \<open>backup\<close>, which nothing calls.\<close>

record Lexer =
  input :: string
  pos :: nat
  line :: int
  col :: int

definition NewLexer :: "string \<Rightarrow> Lexer" where
  "NewLexer s = \<lparr>input = s, pos = 0, line = 1, col = 1\<rparr>"

definition position :: "Lexer \<Rightarrow> Pos" where
  "position l = \<lparr>Offset = pos l, Line = line l, Column = col l\<rparr>"

text \<open>The rune at the position, \<open>None\<close> at the end of the input.\<close>

definition peek :: "Lexer \<Rightarrow> rune option" where
  "peek l = (if length (input l) \<le> pos l then None else Some (fst (decode_rune (drop (pos l) (input l)))))"

definition lex_next :: "Lexer \<Rightarrow> rune option \<times> Lexer" where
  "lex_next l =
     (if length (input l) \<le> pos l then (None, l)
      else case decode_rune (drop (pos l) (input l)) of
        (r, w) \<Rightarrow>
          (let l1 = l\<lparr>pos := pos l + w\<rparr>
           in (Some r, if r = 10 then l1\<lparr>line := line l + 1, col := 1\<rparr> else l1\<lparr>col := col l + 1\<rparr>)))"

abbreviation skip :: "Lexer \<Rightarrow> Lexer" where "skip l \<equiv> snd (lex_next l)"

definition left :: "Lexer \<Rightarrow> nat" where "left l = length (input l) - pos l"

lemma decode_rune_width: "s \<noteq> [] \<Longrightarrow> 1 \<le> snd (decode_rune s) \<and> snd (decode_rune s) \<le> length s"
proof -
  assume "s \<noteq> []"
  then have "1 \<le> length s" by (cases s) auto
  then show ?thesis by (auto simp: decode_rune_def Let_def)
qed

lemma next_input [simp]: "input (skip l) = input l"
  by (auto simp: lex_next_def Let_def split: prod.splits)

lemma next_pos: "pos l < length (input l) \<Longrightarrow> pos l < pos (skip l) \<and> pos (skip l) \<le> length (input l)"
  using decode_rune_width [of "drop (pos l) (input l)"] by (auto simp: lex_next_def Let_def split: prod.splits)

lemma peek_Some: "peek l = Some r \<Longrightarrow> pos l < length (input l)"
  by (auto simp: peek_def split: if_splits)

lemma next_fst: "fst (lex_next l) = peek l"
  by (auto simp: lex_next_def peek_def Let_def split: prod.splits)

lemma left_next: "peek l \<noteq> None \<Longrightarrow> left (skip l) < left l"
  using next_pos [of l] peek_Some [of l] by (auto simp: left_def)

lemma left_skip: "left (skip l) \<le> left l"
  using left_next [of l] by (cases "peek l") (auto simp: left_def lex_next_def peek_def split: if_splits)

text \<open>The inner loop of a comment.\<close>

function skip_comment :: "Lexer \<Rightarrow> Lexer" where
  "skip_comment l = (case lex_next l of (r, l1) \<Rightarrow> if r = Some 10 \<or> r = None then l1 else skip_comment l1)"
  by pat_completeness auto
termination
proof (relation "measure left", goal_cases)
  case 1
  then show ?case by simp
next
  case (2 l r l1)
  then have "r = peek l" "l1 = skip l" "r \<noteq> None" using next_fst [of l] by (auto dest: sym)
  then show ?case using left_next [of l] by simp
qed

declare skip_comment.simps [simp del]

lemma next_mono: "pos l \<le> length (input l) \<Longrightarrow> pos l \<le> pos (skip l) \<and> pos (skip l) \<le> length (input l)"
  using next_pos [of l] by (cases "pos l < length (input l)") (auto simp: lex_next_def)

lemma skip_comment_pos:
  "input (skip_comment l) = input l \<and> (pos l \<le> length (input l) \<longrightarrow> pos (skip l) \<le> pos (skip_comment l) \<and>
     pos (skip_comment l) \<le> length (input l))"
proof (induction l rule: skip_comment.induct)
  case (1 l)
  obtain r l1 where n: "lex_next l = (r, l1)" by force
  have l1: "input l1 = input l" "pos l \<le> length (input l) \<longrightarrow> pos l \<le> pos l1 \<and> pos l1 \<le> length (input l)"
    using next_mono [of l] next_input [of l] n by auto
  show ?case
  proof (cases "r = Some 10 \<or> r = None")
    case True
    with n l1 show ?thesis by (subst (1 2 3) skip_comment.simps) auto
  next
    case False
    have "pos l1 \<le> pos (skip l1)" if "pos l1 \<le> length (input l1)" using next_mono that by blast
    with "1.IH" [OF n [symmetric] False] False n l1 show ?thesis
      by (subst (1 2 3) skip_comment.simps) auto
  qed
qed

function skipWhitespace :: "Lexer \<Rightarrow> Lexer" where
  "skipWhitespace l =
     (case peek l of
        None \<Rightarrow> l
      | Some r \<Rightarrow> if r = 32 \<or> r = 9 \<or> r = 10 \<or> r = 13 then skipWhitespace (skip l)
                  else if r = 35 then skipWhitespace (skip_comment l)
                  else l)"
  by pat_completeness auto
termination
proof (relation "measure left")
  show "(skip l, l) \<in> measure left" if "peek l = Some r" for l r
    using left_next that by simp
  show "(skip_comment l, l) \<in> measure left" if "peek l = Some r" for l r
    using skip_comment_pos [of l] next_pos [of l] peek_Some [OF that] by (auto simp: left_def)
qed simp

declare skipWhitespace.simps [simp del]

definition singleChar :: "ItemType \<Rightarrow> Lexer \<Rightarrow> Item \<times> Lexer" where
  "singleChar typ l = (\<lparr>Typ = typ, ItemPos = position l, Val = itemTypeStr typ\<rparr>, skip l)"

definition scanEquals :: "Lexer \<Rightarrow> Item \<times> Lexer" where
  "scanEquals l =
     (let l1 = skip l in
      if peek l1 = Some 61 then (\<lparr>Typ = ItemEql, ItemPos = position l, Val = ''==''\<rparr>, skip l1)
      else if peek l1 = Some 126 then (\<lparr>Typ = ItemEqlMatch, ItemPos = position l, Val = ''=~''\<rparr>, skip l1)
      else (\<lparr>Typ = ItemAssign, ItemPos = position l, Val = ''=''\<rparr>, l1))"

definition scanBang :: "Lexer \<Rightarrow> Item \<times> Lexer" where
  "scanBang l =
     (let l1 = skip l in
      if peek l1 = Some 61 then (\<lparr>Typ = ItemNeq, ItemPos = position l, Val = ''!=''\<rparr>, skip l1)
      else if peek l1 = Some 126 then (\<lparr>Typ = ItemNeqMatch, ItemPos = position l, Val = ''!~''\<rparr>, skip l1)
      else (\<lparr>Typ = ItemError, ItemPos = position l,
             Val = ''unexpected character after '' @ [CHR 0x27] @ ''!'' @ [CHR 0x27]\<rparr>, l1))"

definition scanLess :: "Lexer \<Rightarrow> Item \<times> Lexer" where
  "scanLess l =
     (let l1 = skip l in
      if peek l1 = Some 61 then (\<lparr>Typ = ItemLte, ItemPos = position l, Val = ''<=''\<rparr>, skip l1)
      else (\<lparr>Typ = ItemLss, ItemPos = position l, Val = ''<''\<rparr>, l1))"

definition scanGreater :: "Lexer \<Rightarrow> Item \<times> Lexer" where
  "scanGreater l =
     (let l1 = skip l in
      if peek l1 = Some 61 then (\<lparr>Typ = ItemGte, ItemPos = position l, Val = ''>=''\<rparr>, skip l1)
      else (\<lparr>Typ = ItemGtr, ItemPos = position l, Val = ''>''\<rparr>, l1))"

text \<open>What an escape sequence stands for.\<close>

definition escape_text :: "rune option \<Rightarrow> string" where
  "escape_text r =
     (if r = Some 110 then [CHR 0x0A] else if r = Some 116 then [CHR 0x09] else if r = Some 114 then [CHR 0x0D]
      else if r = Some 92 then [CHR 0x5C] else if r = Some 34 then [CHR 0x22] else if r = Some 39 then [CHR 0x27]
      else CHR 0x5C # encode_rune r)"

text \<open>The loop of \<open>scanString\<close> after the opening quote: the text, or \<open>None\<close> when it is not terminated.\<close>

function string_loop :: "rune option \<Rightarrow> string \<Rightarrow> Lexer \<Rightarrow> string option \<times> Lexer" where
  "string_loop quote b l =
     (case lex_next l of
        (r, l1) \<Rightarrow>
          if r = None then (None, l1)
          else if r = quote then (Some b, l1)
          else if r = Some 92 \<and> quote \<noteq> Some 96 then
            (case lex_next l1 of (r2, l2) \<Rightarrow> string_loop quote (b @ escape_text r2) l2)
          else string_loop quote (b @ encode_rune r) l1)"
  by pat_completeness auto
termination
proof (relation "measure (\<lambda>(q, b, l). left l)", goal_cases)
  case 1
  then show ?case by simp
next
  case (2 quote b l r l1 r2 l2)
  then have "r = peek l" "l1 = skip l" "r \<noteq> None" "l2 = skip l1" using next_fst [of l] by (auto dest: sym)
  then show ?case using left_next [of l] left_skip [of l1] by simp
next
  case (3 quote b l r l1)
  then have "r = peek l" "l1 = skip l" "r \<noteq> None" using next_fst [of l] by (auto dest: sym)
  then show ?case using left_next [of l] by simp
qed

declare string_loop.simps [simp del]

definition scanString :: "Lexer \<Rightarrow> Item \<times> Lexer" where
  "scanString l =
     (case lex_next l of
        (quote, l1) \<Rightarrow>
          (case string_loop quote [] l1 of
             (None, l2) \<Rightarrow> (\<lparr>Typ = ItemError, ItemPos = position l, Val = ''unterminated string''\<rparr>, l2)
           | (Some b, l2) \<Rightarrow> (\<lparr>Typ = ItemString, ItemPos = position l, Val = b\<rparr>, l2)))"

text \<open>\<open>acceptRun\<close> is only called with the decimal digits; the result says whether one was consumed.\<close>

definition digit_rune :: "rune option \<Rightarrow> bool" where
  "digit_rune r = (case r of None \<Rightarrow> False | Some x \<Rightarrow> 48 \<le> x \<and> x \<le> 57)"

function accept_digits :: "Lexer \<Rightarrow> Lexer" where
  "accept_digits l = (if digit_rune (peek l) then accept_digits (skip l) else l)"
  by pat_completeness auto
termination
  by (relation "measure left") (use left_next in \<open>auto simp: digit_rune_def split: option.splits\<close>)

declare accept_digits.simps [simp del]

definition acceptRun :: "Lexer \<Rightarrow> bool \<times> Lexer" where
  "acceptRun l = (digit_rune (peek l), accept_digits l)"

definition slice :: "Lexer \<Rightarrow> nat \<Rightarrow> string" where
  "slice l start = take (pos l - start) (drop start (input l))"

definition unit_rune :: "rune option \<Rightarrow> bool" where
  "unit_rune r \<longleftrightarrow> r \<in> {Some 121, Some 119, Some 100, Some 104, Some 109, Some 115}"

lemma accept_digits_pos: "input (accept_digits l) = input l \<and> left (accept_digits l) \<le> left l"
proof (induction l rule: accept_digits.induct)
  case (1 l)
  show ?case
  proof (cases "digit_rune (peek l)")
    case True
    then show ?thesis using "1.IH" left_skip [of l] by (subst (1 2) accept_digits.simps) auto
  next
    case False
    then show ?thesis by (subst (1 2) accept_digits.simps) auto
  qed
qed

text \<open>One unit of a duration, \<open>ms\<close> being the only one of two letters.\<close>

definition skip_unit :: "Lexer \<Rightarrow> Lexer" where
  "skip_unit l = (let l1 = skip l in if peek l = Some 109 \<and> peek l1 = Some 115 then skip l1 else l1)"

function duration_loop :: "Lexer \<Rightarrow> Lexer" where
  "duration_loop l =
     (if unit_rune (peek l) then
        (case acceptRun (skip_unit l) of (got, l2) \<Rightarrow> if \<not> got then l2 else duration_loop l2)
      else l)"
  by pat_completeness auto
termination
proof (relation "measure left", goal_cases)
  case 1
  then show ?case by simp
next
  case (2 l got l2)
  then have "peek l \<noteq> None" "l2 = accept_digits (skip_unit l)" by (auto simp: unit_rune_def acceptRun_def)
  then show ?case
    using left_next [of l] left_skip [of "skip l"] accept_digits_pos [of "skip_unit l"]
    by (auto simp: skip_unit_def Let_def split: if_splits)
qed

declare duration_loop.simps [simp del]

definition scanDuration :: "Pos \<Rightarrow> nat \<Rightarrow> Lexer \<Rightarrow> Item \<times> Lexer" where
  "scanDuration p start l =
     (let l1 = duration_loop l in (\<lparr>Typ = ItemDuration, ItemPos = p, Val = slice l1 start\<rparr>, l1))"

text \<open>The part of \<open>scanNumber\<close> that moves past the digits, the fraction and the exponent.\<close>

definition number_end :: "Lexer \<Rightarrow> Lexer" where
  "number_end l =
     (let l1 = accept_digits l;
          l2 = (if peek l1 = Some 46 then accept_digits (skip l1) else l1)
      in if peek l2 = Some 101 \<or> peek l2 = Some 69 then
           (let l3 = skip l2;
                l4 = (if peek l3 = Some 43 \<or> peek l3 = Some 45 then skip l3 else l3)
            in accept_digits l4)
         else l2)"

definition scanNumber :: "Lexer \<Rightarrow> Item \<times> Lexer" where
  "scanNumber l =
     (let l1 = number_end l; v = slice l1 (pos l)
      in if to_lower v = ''inf'' \<or> to_lower v = ''nan'' then (\<lparr>Typ = ItemNumber, ItemPos = position l, Val = v\<rparr>, l1)
         else if unit_rune (peek l1) then scanDuration (position l) (pos l) l1
         else (\<lparr>Typ = ItemNumber, ItemPos = position l, Val = v\<rparr>, l1))"

function identifier_end :: "unicode_tables \<Rightarrow> Lexer \<Rightarrow> Lexer" where
  "identifier_end U l =
     (if (case peek l of None \<Rightarrow> False | Some r \<Rightarrow> isIdentifierChar U r) then identifier_end U (skip l) else l)"
  by pat_completeness auto
termination
  by (relation "measure (\<lambda>(U, l). left l)") (use left_next in \<open>auto split: option.splits\<close>)

declare identifier_end.simps [simp del]

definition scanIdentifier :: "unicode_tables \<Rightarrow> Lexer \<Rightarrow> Item \<times> Lexer" where
  "scanIdentifier U l =
     (let l1 = identifier_end U l; v = slice l1 (pos l); lower = ToLower U v
      in case keywords_table lower of
           Some typ \<Rightarrow> (\<lparr>Typ = typ, ItemPos = position l, Val = v\<rparr>, l1)
         | None \<Rightarrow>
             if lower = ''inf'' \<or> lower = ''nan'' then (\<lparr>Typ = ItemNumber, ItemPos = position l, Val = v\<rparr>, l1)
             else (\<lparr>Typ = ItemIdentifier, ItemPos = position l, Val = v\<rparr>, l1))"

definition single_char_type :: "rune \<Rightarrow> ItemType option" where
  "single_char_type r =
     (if r = 43 then Some ItemAdd else if r = 45 then Some ItemSub else if r = 42 then Some ItemMul
      else if r = 47 then Some ItemDiv else if r = 37 then Some ItemMod else if r = 94 then Some ItemPow
      else if r = 40 then Some ItemLeftParen else if r = 41 then Some ItemRightParen
      else if r = 91 then Some ItemLeftBracket else if r = 93 then Some ItemRightBracket
      else if r = 123 then Some ItemLeftBrace else if r = 125 then Some ItemRightBrace
      else if r = 44 then Some ItemComma else if r = 58 then Some ItemColon else if r = 64 then Some ItemAt
      else None)"

definition starts_number :: "unicode_tables \<Rightarrow> rune \<Rightarrow> Lexer \<Rightarrow> bool" where
  "starts_number U r l \<longleftrightarrow> IsDigit U r \<or>
     (r = 46 \<and> pos l + 1 < length (input l) \<and> IsDigit U (byte_at (input l) (pos l + 1)))"

definition NextItem :: "unicode_tables \<Rightarrow> Lexer \<Rightarrow> Item \<times> Lexer" where
  "NextItem U l0 =
     (let l = skipWhitespace l0 in
      case peek l of
        None \<Rightarrow> (\<lparr>Typ = ItemEOF, ItemPos = position l, Val = []\<rparr>, l)
      | Some r \<Rightarrow>
          (case single_char_type r of
             Some typ \<Rightarrow> singleChar typ l
           | None \<Rightarrow>
               if r = 61 then scanEquals l
               else if r = 33 then scanBang l
               else if r = 60 then scanLess l
               else if r = 62 then scanGreater l
               else if r = 34 \<or> r = 39 \<or> r = 96 then scanString l
               else if starts_number U r l then scanNumber l
               else if isIdentifierStart U r then scanIdentifier U l
               else (\<lparr>Typ = ItemError, ItemPos = position l,
                      Val = ''unexpected character: '' @ quote_rune U r\<rparr>, l)))"

partial_function (option) lex_loop :: "unicode_tables \<Rightarrow> Item list \<Rightarrow> Lexer \<Rightarrow> Item list option" where
  "lex_loop U items l =
     (case NextItem U l of
        (item, l1) \<Rightarrow>
          if Typ item = ItemEOF \<or> Typ item = ItemError then Some (items @ [item])
          else lex_loop U (items @ [item]) l1)"

definition Lex :: "unicode_tables \<Rightarrow> string \<Rightarrow> Item list option" where
  "Lex U s = lex_loop U [] (NewLexer s)"

section \<open>Printing a string literal\<close>

text \<open>\<open>StringLiteral.String\<close> prints with the verb \<open>%q\<close>, as Go quotes a string. The translation covers
  ASCII text.\<close>

definition hex_digit :: "nat \<Rightarrow> char" where
  "hex_digit k = (if k < 10 then char_of (48 + k) else char_of (87 + k))"

definition quote_char :: "char \<Rightarrow> string" where
  "quote_char c =
     (let b = of_char c :: nat in
      if b = 34 \<or> b = 92 then [CHR 0x5C, c]
      else if 32 \<le> b \<and> b < 127 then [c]
      else if b = 7 then [CHR 0x5C, CHR ''a''] else if b = 8 then [CHR 0x5C, CHR ''b'']
      else if b = 12 then [CHR 0x5C, CHR ''f''] else if b = 10 then [CHR 0x5C, CHR ''n'']
      else if b = 13 then [CHR 0x5C, CHR ''r''] else if b = 9 then [CHR 0x5C, CHR ''t'']
      else if b = 11 then [CHR 0x5C, CHR ''v'']
      else [CHR 0x5C, CHR ''x'', hex_digit (b div 16), hex_digit (b mod 16)])"

definition StringLiteral_String :: "string \<Rightarrow> string" where
  "StringLiteral_String s = [CHR 0x22] @ concat (map quote_char s) @ [CHR 0x22]"

end
