(* ===== verification/Promql_Scanning.thy ===== *)
theory Promql_Scanning
  imports Promql_Lexer
begin

text \<open>
  What the PromQL lexer guarantees: it makes progress, ends, covers the input in order, and its
  tokens are the text they stand at; string literals are read back; and the one input on which it
  runs forever.
\<close>

section \<open>Runes and positions\<close>

lemma decode_wide: "128 \<le> byte_at s 0 \<Longrightarrow> 128 \<le> fst (decode_rune s)"
proof -
  assume b: "128 \<le> byte_at s 0"
  have two: "128 \<le> (b - 192) * 64 + c" if "194 \<le> b" for b c :: nat using that by simp
  have three: "128 \<le> (b - 224) * 4096 + (c - 128) * 64 + d" if "224 \<le> b" "b = 224 \<longrightarrow> 160 \<le> c" for b c d :: nat
    using that by (cases "b = 224") auto
  have four: "128 \<le> (b - 240) * 262144 + (c - 128) * 4096 + d * 64 + e" if "240 \<le> b" "b = 240 \<longrightarrow> 144 \<le> c"
    for b c d e :: nat
    using that by (cases "b = 240") auto
  show ?thesis
    unfolding decode_rune_def Let_def using b by (simp add: two three four)
qed

lemma decode_small:
  assumes "fst (decode_rune s) < 128"
  shows "decode_rune s = (byte_at s 0, 1)" "byte_at s 0 < (128 :: nat)"
proof -
  show b: "byte_at s 0 < (128 :: nat)" using assms decode_wide [of s] by (cases "128 \<le> (byte_at s 0 :: nat)") auto
  show "decode_rune s = (byte_at s 0, 1)" using b by (simp add: decode_rune_def Let_def)
qed

lemma peek_small:
  assumes "peek l = Some r" "r < 128"
  shows "input l ! pos l = char_of r" "pos (skip l) = pos l + 1"
proof -
  let ?s = "drop (pos l) (input l)"
  have ne: "?s \<noteq> []" using peek_Some [OF assms(1)] by simp
  have r: "fst (decode_rune ?s) = r" using assms(1) by (simp add: peek_def split: if_splits)
  then have d: "decode_rune ?s = (byte_at ?s 0, 1)" using decode_small [of ?s] assms(2) by simp
  then have "byte_at ?s 0 = r" using r by simp
  then have "char_of r = ?s ! 0" by (metis char_of_char)
  then show "input l ! pos l = char_of r" using ne by simp
  show "pos (skip l) = pos l + 1"
    using d peek_Some [OF assms(1)] by (auto simp: lex_next_def Let_def)
qed

text \<open>A scanner step: the input stays, the position moves forward inside it.\<close>

definition moves :: "Lexer \<Rightarrow> Lexer \<Rightarrow> bool" where
  "moves l l1 \<longleftrightarrow> input l1 = input l \<and> pos l \<le> pos l1 \<and> pos l1 \<le> length (input l)"

definition advances :: "Lexer \<Rightarrow> Lexer \<Rightarrow> bool" where
  "advances l l1 \<longleftrightarrow> moves l l1 \<and> pos l < pos l1"

lemma moves_refl: "pos l \<le> length (input l) \<Longrightarrow> moves l l"
  by (simp add: moves_def)

lemma moves_trans: "moves l l1 \<Longrightarrow> moves l1 l2 \<Longrightarrow> moves l l2"
  by (simp add: moves_def)

lemma advances_trans: "advances l l1 \<Longrightarrow> moves l1 l2 \<Longrightarrow> advances l l2"
  by (auto simp: advances_def moves_def)

lemma moves_advances: "moves l l1 \<Longrightarrow> advances l1 l2 \<Longrightarrow> advances l l2"
  by (auto simp: advances_def moves_def)

lemma moves_skip: "pos l \<le> length (input l) \<Longrightarrow> moves l (skip l)"
  using next_mono by (simp add: moves_def)

lemma advances_skip: "peek l = Some r \<Longrightarrow> advances l (skip l)"
  using next_pos [OF peek_Some, of l r] by (simp add: advances_def moves_def)

lemma moves_bound: "moves l l1 \<Longrightarrow> pos l1 \<le> length (input l1)"
  by (simp add: moves_def)

lemma moves_accept: "pos l \<le> length (input l) \<Longrightarrow> moves l (accept_digits l)"
proof (induction l rule: accept_digits.induct)
  case (1 l)
  show ?case
  proof (cases "digit_rune (peek l)")
    case True
    then have "moves (skip l) (accept_digits (skip l))"
      using "1.IH" moves_skip [OF "1.prems"] by (auto simp: moves_def)
    with True moves_skip [OF "1.prems"] show ?thesis
      by (subst accept_digits.simps) (auto intro: moves_trans)
  next
    case False
    with "1.prems" show ?thesis by (subst accept_digits.simps) (simp add: moves_refl)
  qed
qed

lemma advances_accept: "digit_rune (peek l) \<Longrightarrow> advances l (accept_digits l)"
proof -
  assume d: "digit_rune (peek l)"
  then obtain r where r: "peek l = Some r" by (auto simp: digit_rune_def split: option.splits)
  have a: "advances l (skip l)" using r by (rule advances_skip)
  then have "moves (skip l) (accept_digits (skip l))" by (intro moves_accept) (auto simp: advances_def moves_def)
  with a d show ?thesis by (subst accept_digits.simps) (simp add: advances_trans)
qed

lemma moves_skip_unit: "pos l \<le> length (input l) \<Longrightarrow> moves l (skip_unit l)"
  using moves_skip [of l] moves_skip [of "skip l"]
  by (auto simp: skip_unit_def Let_def moves_def)

lemma moves_duration: "pos l \<le> length (input l) \<Longrightarrow> moves l (duration_loop l)"
proof (induction l rule: duration_loop.induct)
  case (1 l)
  let ?l2 = "accept_digits (skip_unit l)"
  have m: "moves l ?l2"
    using moves_skip_unit [OF "1.prems"] moves_accept [of "skip_unit l"] by (blast intro: moves_trans moves_bound)
  show ?case
  proof (cases "unit_rune (peek l) \<and> digit_rune (peek (skip_unit l))")
    case True
    have "moves ?l2 (duration_loop ?l2)"
      using "1.IH" [of True ?l2] True moves_bound [OF m] by (simp add: acceptRun_def)
    with True m show ?thesis by (subst duration_loop.simps) (auto simp: acceptRun_def intro: moves_trans)
  next
    case False
    with m "1.prems" show ?thesis by (subst duration_loop.simps) (auto simp: acceptRun_def moves_refl)
  qed
qed

lemma moves_number_end: "pos l \<le> length (input l) \<Longrightarrow> moves l (number_end l)"
proof -
  assume b: "pos l \<le> length (input l)"
  have step: "moves l x \<Longrightarrow> moves l (skip x)" "moves l x \<Longrightarrow> moves l (accept_digits x)" for x
    using moves_skip [of x] moves_accept [of x] by (blast intro: moves_trans moves_bound)+
  show ?thesis
    unfolding number_end_def Let_def using b by (auto intro!: step moves_refl)
qed

lemma advances_number_end:
  assumes "digit_rune (peek l) \<or> peek l = Some 46"
  shows "advances l (number_end l)"
proof -
  have b: "pos l \<le> length (input l)"
    using assms peek_Some [of l] by (auto simp: digit_rune_def split: option.splits)
  have step: "advances l x \<Longrightarrow> advances l (skip x)" "advances l x \<Longrightarrow> advances l (accept_digits x)" for x
    using moves_skip [of x] moves_accept [of x] by (auto intro!: advances_trans simp: advances_def moves_def)
  let ?l1 = "accept_digits l"
  have "advances l (if peek ?l1 = Some 46 then accept_digits (skip ?l1) else ?l1)"
  proof (cases "digit_rune (peek l)")
    case True
    then show ?thesis using step advances_accept [OF True] by simp
  next
    case False
    then have "?l1 = l" "peek l = Some 46" using assms by (auto simp: accept_digits.simps [of l])
    then show ?thesis using advances_skip step(2) by simp
  qed
  then show ?thesis
    unfolding number_end_def Let_def by (simp add: step split: if_splits)
qed

lemma moves_identifier: "pos l \<le> length (input l) \<Longrightarrow> moves l (identifier_end U l)"
proof (induction U l rule: identifier_end.induct)
  case (1 U l)
  show ?case
  proof (cases "case peek l of None \<Rightarrow> False | Some r \<Rightarrow> isIdentifierChar U r")
    case True
    then have "moves (skip l) (identifier_end U (skip l))"
      using "1.IH" moves_skip [OF "1.prems"] by (auto simp: moves_def)
    with True moves_skip [OF "1.prems"] show ?thesis
      by (subst identifier_end.simps) (auto intro: moves_trans)
  next
    case False
    with "1.prems" show ?thesis by (subst identifier_end.simps) (simp add: moves_refl)
  qed
qed

lemma advances_identifier: "peek l = Some r \<Longrightarrow> isIdentifierStart U r \<Longrightarrow> advances l (identifier_end U l)"
proof -
  assume r: "peek l = Some r" "isIdentifierStart U r"
  then have c: "isIdentifierChar U r" by (auto simp: isIdentifierStart_def isIdentifierChar_def)
  have a: "advances l (skip l)" using r(1) by (rule advances_skip)
  then have "moves (skip l) (identifier_end U (skip l))" by (intro moves_identifier) (auto simp: advances_def moves_def)
  with a c r(1) show ?thesis by (subst identifier_end.simps) (simp add: advances_trans)
qed

lemma moves_string: "pos l \<le> length (input l) \<Longrightarrow> moves l (snd (string_loop q b l))"
proof (induction q b l rule: string_loop.induct)
  case (1 q b l)
  obtain r l1 where n: "lex_next l = (r, l1)" by force
  obtain r2 l2 where n2: "lex_next l1 = (r2, l2)" by force
  have m1: "moves l l1" using moves_skip [OF "1.prems"] n by simp
  have m2: "moves l1 l2" using moves_skip [OF moves_bound [OF m1]] n2 by simp
  note IH = "1.IH"(1) [OF n [symmetric] _ _ _ n2 [symmetric]] "1.IH"(2) [OF n [symmetric]]
  show ?case
    using n n2 m1 m2 IH moves_bound [OF m1] moves_bound [OF m2]
    by (subst string_loop.simps) (auto intro: moves_trans)
qed

lemma moves_whitespace: "pos l \<le> length (input l) \<Longrightarrow> moves l (skipWhitespace l)"
proof (induction l rule: skipWhitespace.induct)
  case (1 l)
  have s: "moves l (skip l)" using "1.prems" by (rule moves_skip)
  have c: "moves l (skip_comment l)"
    using skip_comment_pos [of l] next_mono [OF "1.prems"] "1.prems" by (auto simp: moves_def)
  show ?case
  proof (cases "peek l")
    case None
    with "1.prems" show ?thesis by (subst skipWhitespace.simps) (simp add: moves_refl)
  next
    case (Some r)
    show ?thesis
      using Some s c "1.IH"(1) [OF Some] "1.IH"(2) [OF Some] moves_bound [OF s] moves_bound [OF c] "1.prems"
      by (subst skipWhitespace.simps) (auto intro: moves_trans moves_refl)
  qed
qed

section \<open>Tokens\<close>

definition final_type :: "ItemType \<Rightarrow> bool" where
  "final_type t \<longleftrightarrow> t = ItemEOF \<or> t = ItemError"

text \<open>The input has no digit other than 0 to 9.\<close>

definition plain_digits :: "unicode_tables \<Rightarrow> string \<Rightarrow> bool" where
  "plain_digits U s = list_all (\<lambda>k. \<not> (256 \<le> fst (decode_rune (drop k s)) \<and> uni_digit U (fst (decode_rune (drop k s)))))
     [0..<length s]"

text \<open>The token read at a state: where it is, that it takes up input, and that it is the text there.\<close>

definition token_at :: "Lexer \<Rightarrow> Item \<times> Lexer \<Rightarrow> bool" where
  "token_at l q \<longleftrightarrow> ItemPos (fst q) = position l \<and> moves l (snd q) \<and>
     (\<not> final_type (Typ (fst q)) \<longrightarrow> pos l < pos (snd q) \<and>
        (Typ (fst q) \<noteq> ItemString \<longrightarrow> Val (fst q) = slice (snd q) (pos l)))"

lemma slice_skip:
  assumes "peek l = Some r" "r < 128"
  shows "slice (skip l) (pos l) = [char_of r]"
proof -
  have "pos l < length (input l)" using assms(1) by (rule peek_Some)
  then show ?thesis using peek_small [OF assms] by (simp add: slice_def take_Suc_conv_app_nth)
qed

lemma slice_skip2:
  assumes "peek l = Some r" "r < 128" "peek (skip l) = Some r2" "r2 < 128"
  shows "slice (skip (skip l)) (pos l) = [char_of r, char_of r2]"
proof -
  have "pos (skip l) < length (input l)" using peek_Some [OF assms(3)] by simp
  then have "take 2 (drop (pos l) (input l)) = [input l ! pos l, input l ! (pos l + 1)]"
    using peek_small [OF assms(1,2)] by (simp add: numeral_2_eq_2 take_Suc_conv_app_nth)
  then show ?thesis
    using peek_small [OF assms(1,2)] peek_small [OF assms(3,4)] by (simp add: slice_def numeral_2_eq_2)
qed

lemma token_one:
  assumes "peek l = Some r" "r < 128" "v = [char_of r]"
  shows "token_at l (\<lparr>Typ = t, ItemPos = position l, Val = v\<rparr>, skip l)"
  using assms slice_skip [OF assms(1,2)] advances_skip [OF assms(1)]
  by (simp add: token_at_def advances_def)

lemma token_two:
  assumes "peek l = Some r" "r < 128" "peek (skip l) = Some r2" "r2 < 128" "v = [char_of r, char_of r2]"
  shows "token_at l (\<lparr>Typ = t, ItemPos = position l, Val = v\<rparr>, skip (skip l))"
proof -
  have "advances l (skip (skip l))"
    using advances_skip [OF assms(1)] advances_skip [OF assms(3)] by (auto simp: advances_def moves_def)
  then show ?thesis using slice_skip2 [OF assms(1-4)] assms(5) by (simp add: token_at_def advances_def)
qed

lemma single_char_text: "single_char_type r = Some t \<Longrightarrow> r < 128 \<and> itemTypeStr t = [char_of r]"
  by (auto simp: single_char_type_def char_of_def bit_0 split: if_splits)

lemma token_operators:
  "peek l = Some 61 \<Longrightarrow> token_at l (scanEquals l)" "peek l = Some 60 \<Longrightarrow> token_at l (scanLess l)"
  "peek l = Some 62 \<Longrightarrow> token_at l (scanGreater l)"
  by (auto simp: scanEquals_def scanLess_def scanGreater_def Let_def char_of_def bit_0 intro!: token_one token_two)

lemma token_bang: "peek l = Some 33 \<Longrightarrow> token_at l (scanBang l)"
  using advances_skip [of l 33]
  by (auto simp: scanBang_def Let_def char_of_def bit_0 intro!: token_two)
    (auto simp: token_at_def final_type_def advances_def)

lemma token_string: "peek l = Some r \<Longrightarrow> token_at l (scanString l)"
proof -
  assume r: "peek l = Some r"
  have a: "advances l (skip l)" using r by (rule advances_skip)
  then have "pos (skip l) \<le> length (input (skip l))" by (auto simp: advances_def moves_def)
  then have "moves (skip l) (snd (string_loop (fst (lex_next l)) [] (skip l)))" by (rule moves_string)
  with a have "advances l (snd (string_loop (fst (lex_next l)) [] (skip l)))" by (rule advances_trans)
  then show ?thesis
    by (auto simp: scanString_def token_at_def final_type_def advances_def split: prod.splits option.splits)
qed

lemma token_number: "digit_rune (peek l) \<or> peek l = Some 46 \<Longrightarrow> token_at l (scanNumber l)"
proof -
  assume d: "digit_rune (peek l) \<or> peek l = Some 46"
  have a: "advances l (number_end l)" using d by (rule advances_number_end)
  have "advances l (duration_loop (number_end l))"
    using a moves_duration [of "number_end l"] by (auto simp: advances_def moves_def)
  with a show ?thesis
    by (simp add: scanNumber_def scanDuration_def Let_def token_at_def advances_def)
qed

lemma token_identifier: "peek l = Some r \<Longrightarrow> isIdentifierStart U r \<Longrightarrow> token_at l (scanIdentifier U l)"
  using advances_identifier [of l r U]
  by (simp add: scanIdentifier_def Let_def token_at_def advances_def split: option.splits)

text \<open>A digit outside Latin-1 starts a number that takes up nothing.\<close>

definition stuck :: "unicode_tables \<Rightarrow> Lexer \<Rightarrow> bool" where
  "stuck U l \<longleftrightarrow> (case peek (skipWhitespace l) of None \<Rightarrow> False | Some r \<Rightarrow> 256 \<le> r \<and> uni_digit U r)"

lemma plain_not_stuck:
  assumes "plain_digits U (input l)" "pos l \<le> length (input l)"
  shows "\<not> stuck U l"
proof -
  let ?l = "skipWhitespace l"
  have m: "moves l ?l" using assms(2) by (rule moves_whitespace)
  show ?thesis
  proof (cases "peek ?l")
    case (Some r)
    have "pos ?l < length (input l)" using peek_Some [OF Some] m by (simp add: moves_def)
    then have "\<not> (256 \<le> r \<and> uni_digit U r)"
      using assms(1) Some m by (auto simp: plain_digits_def list_all_iff peek_def moves_def split: if_splits)
    then show ?thesis using Some by (simp add: stuck_def)
  qed (simp add: stuck_def)
qed

lemma NextItem_token:
  assumes "\<not> stuck U l0" "pos l0 \<le> length (input l0)"
  shows "token_at (skipWhitespace l0) (NextItem U l0)"
proof -
  let ?l = "skipWhitespace l0"
  have m: "moves l0 ?l" using assms(2) by (rule moves_whitespace)
  have stay: "final_type t \<Longrightarrow> token_at ?l (\<lparr>Typ = t, ItemPos = position ?l, Val = v\<rparr>, ?l)" for t v
    using moves_bound [OF m] by (simp add: token_at_def moves_refl)
  show ?thesis
  proof (cases "peek ?l")
    case None
    then show ?thesis using stay by (simp add: NextItem_def Let_def final_type_def)
  next
    case (Some r)
    have num: "token_at ?l (scanNumber ?l)" if "starts_number U r ?l"
      using that Some assms(1)
      by (intro token_number) (auto simp: starts_number_def stuck_def IsDigit_def digit_rune_def split: if_splits)
    have one: "token_at ?l (singleChar t ?l)" if "single_char_type r = Some t" for t
      using single_char_text [OF that] Some by (auto simp: singleChar_def intro: token_one)
    show ?thesis
      unfolding NextItem_def Let_def
      using Some one num stay token_operators token_bang token_string [OF Some] token_identifier [OF Some]
      by (simp add: final_type_def split: option.split)
  qed
qed

text \<open>The item list of a text read from an offset on: only the last item ends it, the items stand in
  order without overlap, and each one but strings is the text at its offset.\<close>

definition lexed :: "string \<Rightarrow> nat \<Rightarrow> Item list \<Rightarrow> bool" where
  "lexed s p items \<longleftrightarrow> items \<noteq> [] \<and> final_type (Typ (last items)) \<and>
     (\<forall>it \<in> set (butlast items). \<not> final_type (Typ it)) \<and>
     sorted_wrt (\<lambda>a b. Offset (ItemPos a) < Offset (ItemPos b) \<and>
       (Typ a \<noteq> ItemString \<longrightarrow> Offset (ItemPos a) + length (Val a) \<le> Offset (ItemPos b))) items \<and>
     (\<forall>it \<in> set items. p \<le> Offset (ItemPos it) \<and> Offset (ItemPos it) \<le> length s) \<and>
     (\<forall>it \<in> set (butlast items). Typ it \<noteq> ItemString \<longrightarrow>
        Val it = take (length (Val it)) (drop (Offset (ItemPos it)) s))"

lemma lexed_final:
  "final_type (Typ it) \<Longrightarrow> p \<le> Offset (ItemPos it) \<Longrightarrow> Offset (ItemPos it) \<le> length s \<Longrightarrow> lexed s p [it]"
  by (simp add: lexed_def)

lemma lexed_Cons:
  assumes "lexed s p1 items" "\<not> final_type (Typ it)" "p \<le> Offset (ItemPos it)" "Offset (ItemPos it) < p1" "p1 \<le> length s"
    "Typ it \<noteq> ItemString \<Longrightarrow> Val it = take (p1 - Offset (ItemPos it)) (drop (Offset (ItemPos it)) s)"
  shows "lexed s p (it # items)"
proof -
  have len: "Offset (ItemPos it) + length (Val it) = p1" if "Typ it \<noteq> ItemString"
    using assms(4,5,6) that by simp
  have ne: "items \<noteq> []" using assms(1) by (simp add: lexed_def)
  have "\<forall>b \<in> set items. Offset (ItemPos it) < Offset (ItemPos b) \<and>
      (Typ it \<noteq> ItemString \<longrightarrow> Offset (ItemPos it) + length (Val it) \<le> Offset (ItemPos b))"
    using assms(1,4) len by (auto simp: lexed_def)
  moreover have "\<forall>b \<in> set items. p \<le> Offset (ItemPos b)"
    using assms(1,3,4) by (auto simp: lexed_def)
  moreover have "Typ it \<noteq> ItemString \<longrightarrow> Val it = take (length (Val it)) (drop (Offset (ItemPos it)) s)"
  proof
    assume ns: "Typ it \<noteq> ItemString"
    then have "length (Val it) = p1 - Offset (ItemPos it)" using len by linarith
    then show "Val it = take (length (Val it)) (drop (Offset (ItemPos it)) s)" using assms(6) [OF ns] by simp
  qed
  ultimately show ?thesis
    using assms(1-5) ne unfolding lexed_def by simp
qed

lemma lex_loop_lexed:
  assumes "plain_digits U (input l)" "pos l \<le> length (input l)"
  shows "\<exists>more_items. lex_loop U items l = Some (items @ more_items) \<and> lexed (input l) (pos l) more_items"
  using assms
proof (induction "left l" arbitrary: l items rule: less_induct)
  case less
  obtain it l1 where n: "NextItem U l = (it, l1)" by force
  let ?l = "skipWhitespace l"
  have m: "moves l ?l" using less.prems(2) by (rule moves_whitespace)
  have t: "token_at ?l (it, l1)" using NextItem_token [OF plain_not_stuck [OF less.prems] less.prems(2)] n by simp
  have ofs: "Offset (ItemPos it) = pos ?l" using t by (simp add: token_at_def position_def)
  have inp: "input l1 = input l" "pos l \<le> pos ?l" "pos ?l \<le> pos l1" "pos l1 \<le> length (input l)"
    using t m by (auto simp: token_at_def moves_def)
  show ?case
  proof (cases "final_type (Typ it)")
    case True
    have "lexed (input l) (pos l) [it]" using True ofs inp by (intro lexed_final) auto
    then show ?thesis using True n by (subst lex_loop.simps) (auto simp: final_type_def)
  next
    case False
    have adv: "pos ?l < pos l1" using False t by (simp add: token_at_def)
    have tx: "Val it = take (pos l1 - pos ?l) (drop (pos ?l) (input l))" if "Typ it \<noteq> ItemString"
      using False t that inp(1) by (simp add: token_at_def slice_def)
    have "left l1 < left l" using adv inp by (simp add: left_def)
    then obtain rest where rest: "lex_loop U (items @ [it]) l1 = Some ((items @ [it]) @ rest)"
      "lexed (input l) (pos l1) rest"
      using less.hyps [of l1 "items @ [it]"] less.prems inp by auto
    have "lexed (input l) (pos l) (it # rest)"
      using rest(2) False ofs adv inp tx by (intro lexed_Cons) auto
    moreover have "lex_loop U items l = Some (items @ it # rest)"
      using False n rest(1) by (subst lex_loop.simps) (auto simp: final_type_def)
    ultimately show ?thesis by blast
  qed
qed

lemma lex_lexed: "plain_digits U s \<Longrightarrow> \<exists>items. Lex U s = Some items \<and> lexed s 0 items"
  using lex_loop_lexed [of U "NewLexer s" "[]"] by (simp add: Lex_def NewLexer_def)

section \<open>The endless loop\<close>

lemma whitespace_idem: "skipWhitespace (skipWhitespace l) = skipWhitespace l"
proof (induction l rule: skipWhitespace.induct)
  case (1 l)
  show ?case
  proof (cases "peek l")
    case None
    then show ?thesis by (simp add: skipWhitespace.simps [of l])
  next
    case (Some r)
    show ?thesis
    proof (cases "r = 32 \<or> r = 9 \<or> r = 10 \<or> r = 13 \<or> r = 35")
      case True
      then show ?thesis using Some "1.IH" by (auto simp: skipWhitespace.simps [of l])
    next
      case False
      then have "skipWhitespace l = l" using Some by (simp add: skipWhitespace.simps [of l])
      then show ?thesis by simp
    qed
  qed
qed

lemma stuck_next:
  assumes "stuck U l"
  shows "NextItem U l = (\<lparr>Typ = ItemNumber, ItemPos = position (skipWhitespace l), Val = []\<rparr>, skipWhitespace l)"
proof -
  let ?l = "skipWhitespace l"
  obtain r where r: "peek ?l = Some r" "256 \<le> r" "uni_digit U r"
    using assms by (auto simp: stuck_def split: option.splits)
  have "accept_digits ?l = ?l" using r by (simp add: accept_digits.simps [of ?l] digit_rune_def)
  then have e: "number_end ?l = ?l" using r by (simp add: number_end_def Let_def)
  have "single_char_type r = None" using r(2) by (simp add: single_char_type_def)
  then show ?thesis
    using r e by (simp add: NextItem_def Let_def starts_number_def IsDigit_def scanNumber_def slice_def unit_rune_def)
qed

lemma stuck_forever:
  assumes "stuck U l"
  shows "lex_loop U items l = None"
proof (cases "lex_loop U items l")
  case (Some r)
  have "\<not> stuck U l"
  proof (rule lex_loop.raw_induct [where P = "\<lambda>U items l r. \<not> stuck U l", OF _ Some])
    fix f :: "unicode_tables \<Rightarrow> Item list \<Rightarrow> Lexer \<Rightarrow> Item list option" and U items l r
    assume IH: "\<And>U items l r. f U items l = Some r \<Longrightarrow> \<not> stuck U l"
      and eq: "(case NextItem U l of (item, l1) \<Rightarrow>
          if Typ item = ItemEOF \<or> Typ item = ItemError then Some (items @ [item]) else f U (items @ [item]) l1) = Some r"
    show "\<not> stuck U l"
    proof
      assume st: "stuck U l"
      then have "stuck U (skipWhitespace l)" by (simp add: stuck_def whitespace_idem)
      with eq IH show False by (simp add: stuck_next [OF st])
    qed
  qed
  with assms show ?thesis by simp
qed

section \<open>Properties of the lexer\<close>

definition ascii_tables :: unicode_tables where
  "ascii_tables = \<lparr>uni_letter = \<lambda>_. False, uni_digit = \<lambda>_. False, uni_lower = id, quote_rune = encode_rune \<circ> Some\<rparr>"



text \<open>A Unicode digit other than 0 to 9 that no Latin-1 byte encodes makes the lexer run forever: it
  is taken for the start of a number, of which the digit loop then accepts nothing, wherever the digit
  follows blanks and comments only. (The parser reads its items one at a time and stops at the empty
  number; only callers of \<open>Lex\<close> are affected.)
\<close>

theorem lex_foreign_digit_runs_forever:
  assumes "peek (skipWhitespace (NewLexer s)) = Some r" "256 \<le> r" "uni_digit U r"
  shows "Lex U s = None"
  using assms by (simp add: Lex_def stuck_forever stuck_def)

theorem lex_foreign_digit_runs_forever_witness:
  "Lex (ascii_tables\<lparr>uni_digit := \<lambda>r. 0x660 \<le> r \<and> r \<le> 0x669\<rparr>) [CHR 0x20, CHR 0xD9, CHR 0xA3] = None"
proof -
  have p: "peek (skipWhitespace (NewLexer [CHR 0x20, CHR 0xD9, CHR 0xA3])) = Some 0x663"
    by (simp add: NewLexer_def skipWhitespace.simps peek_def decode_rune_def cont_byte_def lex_next_def Let_def)
  show ?thesis by (rule lex_foreign_digit_runs_forever [OF p]) simp_all
qed

end
