(* ===== verification/Promql_Strings.thy ===== *)
theory Promql_Strings
  imports Promql_Scanning
begin

text \<open>
  String literals of PromQL: what the lexer reads back from a literal printed by the syntax tree.
\<close>

section \<open>Reading ASCII text\<close>

text \<open>The scanner at an offset of a one-line text.\<close>

definition scan_at :: "string \<Rightarrow> nat \<Rightarrow> Lexer" where
  "scan_at s n = \<lparr>input = s, pos = n, line = 1, col = int n + 1\<rparr>"

definition text_char :: "char \<Rightarrow> bool" where
  "text_char c \<longleftrightarrow> (of_char c :: nat) < 128 \<and> (of_char c :: nat) \<noteq> 10"

lemma next_scan_at:
  assumes "n < length s" "text_char (s ! n)"
  shows "lex_next (scan_at s n) = (Some (of_char (s ! n)), scan_at s (n + 1))"
  using assms by (simp add: lex_next_def scan_at_def decode_rune_def Let_def text_char_def)

lemma next_scan_end: "lex_next (scan_at s (length s)) = (None, scan_at s (length s))"
  by (simp add: lex_next_def scan_at_def)

lemma char_code: "char_of (of_char c :: nat) = c"
  by simp

lemma code_iff:
  "of_char c = (34 :: nat) \<longleftrightarrow> c = CHR 0x22" "of_char c = (92 :: nat) \<longleftrightarrow> c = CHR 0x5C"
  "of_char c = (10 :: nat) \<longleftrightarrow> c = CHR 0x0A" "of_char c = (13 :: nat) \<longleftrightarrow> c = CHR 0x0D"
  "of_char c = (9 :: nat) \<longleftrightarrow> c = CHR 0x09"
  using char_code [of c] by (auto simp: char_of_def bit_0)

text \<open>What a character is after printing and reading back.\<close>

definition reread :: "char \<Rightarrow> string" where
  "reread c = (let b = of_char c :: nat in
     if (32 \<le> b \<and> b < 127) \<or> b = 10 \<or> b = 13 \<or> b = 9 then [c] else quote_char c)"

definition printed_char :: "char \<Rightarrow> bool" where
  "printed_char c \<longleftrightarrow> (let b = of_char c :: nat in (32 \<le> b \<and> b < 127) \<or> b = 10 \<or> b = 13 \<or> b = 9)"

lemma read_plain:
  assumes "n < length s" "s ! n = c" "text_char c" "c \<noteq> CHR 0x22" "c \<noteq> CHR 0x5C"
  shows "string_loop (Some 34) b (scan_at s n) = string_loop (Some 34) (b @ [c]) (scan_at s (n + 1))"
proof -
  have "(of_char c :: nat) \<noteq> 34" "(of_char c :: nat) \<noteq> 92" using assms(4,5) by (simp_all add: code_iff)
  moreover have "encode_rune (Some (of_char c)) = [c]"
    using assms(3) by (simp add: text_char_def encode_rune_def Let_def)
  ultimately
  show ?thesis
    using next_scan_at [of n s] assms(1-3) by (subst string_loop.simps) simp
qed

lemma read_escape:
  assumes "n + 1 < length s" "s ! n = CHR 0x5C" "s ! (n + 1) = c" "text_char c"
  shows "string_loop (Some 34) b (scan_at s n) =
    string_loop (Some 34) (b @ escape_text (Some (of_char c))) (scan_at s (n + 2))"
proof -
  have "text_char (CHR 0x5C)" by (simp add: text_char_def)
  then show ?thesis
    using next_scan_at [of n s] next_scan_at [of "n + 1" s] assms by (subst string_loop.simps) simp
qed


lemma hex_digit_text: "k < 16 \<Longrightarrow> text_char (hex_digit k) \<and> hex_digit k \<noteq> CHR 0x22 \<and> hex_digit k \<noteq> CHR 0x5C"
proof -
  assume k: "k < 16"
  have "(of_char (hex_digit k) :: nat) = (if k < 10 then 48 + k else 87 + k)"
    using k by (simp add: hex_digit_def)
  then show ?thesis using k by (auto simp: text_char_def simp flip: code_iff)
qed

lemma quote_char_text: "(of_char c :: nat) < 128 \<Longrightarrow> list_all text_char (quote_char c)"
proof -
  assume c: "(of_char c :: nat) < 128"
  then have "of_char c div 16 < (16 :: nat)" by simp
  then show ?thesis
    using c hex_digit_text by (auto simp: quote_char_def Let_def text_char_def code_iff)
qed

lemma read_quoted:
  assumes "s = pre @ quote_char c @ rest" "(of_char c :: nat) < 128"
  shows "string_loop (Some 34) b (scan_at s (length pre)) =
    string_loop (Some 34) (b @ reread c) (scan_at s (length pre + length (quote_char c)))"
proof -
  let ?n = "length pre" and ?b = "of_char c :: nat"
  have q: "i < length (quote_char c) \<Longrightarrow> ?n + i < length s \<and> s ! (?n + i) = quote_char c ! i" for i
    using assms(1) by (simp add: nth_append)
  have esc: "string_loop (Some 34) b (scan_at s ?n) =
      string_loop (Some 34) (b @ escape_text (Some (of_char d))) (scan_at s (?n + 2))"
    if "quote_char c = CHR 0x5C # d # r" "text_char d" for d r
    using read_escape [of ?n s d b] q [of 0] q [of 1] that by simp
  consider "?b = 34 \<or> ?b = 92" | "32 \<le> ?b \<and> ?b < 127 \<and> ?b \<noteq> 34 \<and> ?b \<noteq> 92" | "?b = 10 \<or> ?b = 13 \<or> ?b = 9"
    | "?b = 7 \<or> ?b = 8 \<or> ?b = 12 \<or> ?b = 11" | "\<not> (32 \<le> ?b \<and> ?b < 127)" "?b \<notin> {7, 8, 9, 10, 11, 12, 13}"
    by blast
  then show ?thesis
  proof cases
    case 1
    then have "c = CHR 0x22 \<or> c = CHR 0x5C" by (simp add: code_iff)
    then have "quote_char c = [CHR 0x5C, c]" "reread c = [c]" "text_char c" "escape_text (Some ?b) = [c]"
      by (auto simp: quote_char_def reread_def text_char_def escape_text_def Let_def)
    then show ?thesis using esc [of c "[]"] by simp
  next
    case 2
    then have "quote_char c = [c]" "reread c = [c]" "text_char c" "c \<noteq> CHR 0x22" "c \<noteq> CHR 0x5C"
      by (auto simp: quote_char_def reread_def text_char_def Let_def code_iff)
    then show ?thesis using read_plain [of ?n s c b] q [of 0] by simp
  next
    case 3
    then show ?thesis
      using esc [of "CHR ''n''" "[]"] esc [of "CHR ''r''" "[]"] esc [of "CHR ''t''" "[]"]
      by (auto simp: quote_char_def reread_def text_char_def escape_text_def Let_def code_iff)
  next
    case 4
    then show ?thesis
      using esc [of "CHR ''a''" "[]"] esc [of "CHR ''b''" "[]"] esc [of "CHR ''f''" "[]"] esc [of "CHR ''v''" "[]"]
      by (auto simp: quote_char_def reread_def text_char_def escape_text_def encode_rune_def char_of_def bit_0 Let_def)
  next
    case 5
    let ?h = "hex_digit (?b div 16)" and ?k = "hex_digit (?b mod 16)"
    have "?b \<noteq> 34" "?b \<noteq> 92" using 5 by auto
    then have e: "quote_char c = [CHR 0x5C, CHR ''x'', ?h, ?k]" using 5 by (auto simp: quote_char_def Let_def)
    have r: "reread c = quote_char c" using 5 by (auto simp: reread_def Let_def)
    have x: "escape_text (Some (of_char CHR ''x'')) = [CHR 0x5C, CHR ''x'']" "text_char (CHR ''x'')"
      by (simp_all add: escape_text_def encode_rune_def char_of_def bit_0 text_char_def)
    have h: "?b div 16 < 16" "?b mod 16 < 16" using assms(2) by auto
    have at2: "?n + 2 < length s" "s ! (?n + 2) = ?h" using q [of 2] e by simp_all
    have at3: "?n + 2 + 1 < length s" "s ! (?n + 2 + 1) = ?k" using q [of 3] e by (simp_all add: numeral_3_eq_3)
    have "string_loop (Some 34) b (scan_at s ?n) = string_loop (Some 34) (b @ [CHR 0x5C, CHR ''x'']) (scan_at s (?n + 2))"
      using esc [OF e x(2)] unfolding x(1) .
    also have "\<dots> = string_loop (Some 34) ((b @ [CHR 0x5C, CHR ''x'']) @ [?h]) (scan_at s (?n + 2 + 1))"
      using hex_digit_text [OF h(1)] by (intro read_plain [OF at2]) auto
    also have "\<dots> = string_loop (Some 34) (((b @ [CHR 0x5C, CHR ''x'']) @ [?h]) @ [?k]) (scan_at s (?n + 2 + 1 + 1))"
      using hex_digit_text [OF h(2)] by (intro read_plain [OF at3]) auto
    finally show ?thesis using r e by simp
  qed
qed

section \<open>Whole literals\<close>

definition ascii_text :: "string \<Rightarrow> bool" where
  "ascii_text = list_all (\<lambda>c. (of_char c :: nat) < 128)"

lemma read_text:
  assumes "s = pre @ concat (map quote_char t) @ [CHR 0x22]" "ascii_text t"
  shows "string_loop (Some 34) b (scan_at s (length pre)) = (Some (b @ concat (map reread t)), scan_at s (length s))"
  using assms
proof (induction t arbitrary: pre b)
  case Nil
  then have "lex_next (scan_at s (length pre)) = (Some 34, scan_at s (length s))"
    using next_scan_at [of "length pre" s] by (simp add: nth_append text_char_def)
  then show ?case by (subst string_loop.simps) simp
next
  case (Cons c t)
  have "string_loop (Some 34) b (scan_at s (length pre)) =
      string_loop (Some 34) (b @ reread c) (scan_at s (length (pre @ quote_char c)))"
    using Cons.prems read_quoted [of s pre c "concat (map quote_char t) @ [CHR 0x22]" b] by (simp add: ascii_text_def)
  also have "\<dots> = (Some ((b @ reread c) @ concat (map reread t)), scan_at s (length s))"
    using Cons.prems by (intro Cons.IH) (simp_all add: ascii_text_def)
  finally show ?case by simp
qed

abbreviation string_item :: "string \<Rightarrow> Item" where
  "string_item v \<equiv> \<lparr>Typ = ItemString, ItemPos = \<lparr>Offset = 0, Line = 1, Column = 1\<rparr>, Val = v\<rparr>"

abbreviation end_item :: "string \<Rightarrow> Item" where
  "end_item s \<equiv> \<lparr>Typ = ItemEOF, ItemPos = \<lparr>Offset = length s, Line = 1, Column = int (length s) + 1\<rparr>, Val = []\<rparr>"

lemma lex_literal:
  assumes "ascii_text t"
  shows "Lex U (StringLiteral_String t) =
    Some [string_item (concat (map reread t)), end_item (StringLiteral_String t)]"
proof -
  let ?s = "StringLiteral_String t" and ?v = "concat (map reread t)"
  have s: "?s = [CHR 0x22] @ concat (map quote_char t) @ [CHR 0x22]" by (simp add: StringLiteral_String_def)
  have start: "NewLexer ?s = scan_at ?s 0" by (simp add: NewLexer_def scan_at_def)
  have n: "lex_next (scan_at ?s 0) = (Some 34, scan_at ?s 1)"
    using next_scan_at [of 0 ?s] by (simp add: s text_char_def)
  then have p: "peek (scan_at ?s 0) = Some 34" using next_fst [of "scan_at ?s 0"] by simp
  have w: "skipWhitespace (scan_at ?s 0) = scan_at ?s 0" using p by (simp add: skipWhitespace.simps [of "scan_at ?s 0"])
  have loop: "string_loop (Some 34) [] (scan_at ?s 1) = (Some ?v, scan_at ?s (length ?s))"
    using read_text [OF s assms, of "[]"] by simp
  have one: "NextItem U (scan_at ?s 0) = (string_item ?v, scan_at ?s (length ?s))"
    using w p n loop by (simp add: NextItem_def single_char_type_def scanString_def position_def scan_at_def)
  have e: "peek (scan_at ?s (length ?s)) = None" by (simp add: peek_def scan_at_def)
  have "skipWhitespace (scan_at ?s (length ?s)) = scan_at ?s (length ?s)"
    using e by (simp add: skipWhitespace.simps [of "scan_at ?s (length ?s)"])
  moreover have "position (scan_at ?s (length ?s)) = ItemPos (end_item ?s)" by (simp add: position_def scan_at_def)
  ultimately have two: "NextItem U (scan_at ?s (length ?s)) = (end_item ?s, scan_at ?s (length ?s))"
    using e by (simp add: NextItem_def)
  show ?thesis
    unfolding Lex_def start
    by (subst lex_loop.simps, simp add: one, subst lex_loop.simps, simp add: two)
qed

lemma reread_length: "(of_char c :: nat) < 128 \<Longrightarrow> 1 \<le> length (reread c) \<and> (reread c = [c] \<longleftrightarrow> printed_char c) \<and>
    (\<not> printed_char c \<longrightarrow> 2 \<le> length (reread c))"
  by (auto simp: reread_def printed_char_def quote_char_def Let_def)

lemma reread_text: "ascii_text t \<Longrightarrow> length t \<le> length (concat (map reread t)) \<and>
    (\<not> list_all printed_char t \<longrightarrow> length t < length (concat (map reread t)))"
proof (induction t)
  case (Cons c t)
  have c: "(of_char c :: nat) < 128" "ascii_text t" using Cons.prems by (simp_all add: ascii_text_def)
  show ?case using Cons.IH [OF c(2)] reread_length [OF c(1)] by auto
qed simp

lemma reread_id: "ascii_text t \<Longrightarrow> list_all printed_char t \<Longrightarrow> concat (map reread t) = t"
  by (induction t) (simp_all add: ascii_text_def reread_length)

text \<open>Printing a string literal of the syntax tree and reading it back with the lexer gives the same
  string exactly when its ASCII text is made of printable characters, newlines, carriage returns and
  tabs. The printer writes any other control character as an escape (\<open>\a\<close>, \<open>\x01\<close>) that the
  lexer does not know and reads as the text of the escape.
\<close>

theorem string_literal_round_trip:
  assumes "ascii_text t"
  shows "Lex U (StringLiteral_String t) = Some [string_item t, end_item (StringLiteral_String t)] \<longleftrightarrow>
    list_all printed_char t"
proof
  assume "Lex U (StringLiteral_String t) = Some [string_item t, end_item (StringLiteral_String t)]"
  then have "concat (map reread t) = t" using lex_literal [OF assms, of U] by simp
  then show "list_all printed_char t" using reread_text [OF assms] by auto
next
  assume "list_all printed_char t"
  then show "Lex U (StringLiteral_String t) = Some [string_item t, end_item (StringLiteral_String t)]"
    using lex_literal [OF assms, of U] reread_id [OF assms] by simp
qed

theorem string_literal_round_trip_witness:
  "Lex ascii_tables (StringLiteral_String ''a b'') = Some [string_item ''a b'', end_item (StringLiteral_String ''a b'')] \<and>
   Lex ascii_tables (StringLiteral_String [CHR 0x07]) \<noteq>
     Some [string_item [CHR 0x07], end_item (StringLiteral_String [CHR 0x07])]"
proof -
  have a: "ascii_text ''a b''" "ascii_text [CHR 0x07]" by (simp_all add: ascii_text_def)
  have "list_all printed_char ''a b''" "\<not> list_all printed_char [CHR 0x07]" by (simp_all add: printed_char_def)
  then show ?thesis
    using string_literal_round_trip [OF a(1), of ascii_tables] string_literal_round_trip [OF a(2), of ascii_tables] by blast
qed

end
