(* ===== verification/Float64.thy ===== *)
theory Float64
  imports Dogwatch_Prelude "HOL-Library.Log_Nat"
begin

text \<open>
  Go's \<open>float64\<close> arithmetic on finite values: a result is the exact rational rounded to the nearest
  number with a 53-bit significand (ties to even, gradual underflow, overflow to infinity). The sign
  of zero is not represented.
\<close>

text \<open>The exponent of a positive rational: the greatest \<open>e\<close> with \<open>2 ^ e \<le> q\<close>.\<close>

definition rat_exp :: "rat \<Rightarrow> int" where
  "rat_exp q = (if 1 \<le> q then int (floorlog 2 (nat \<lfloor>q\<rfloor>)) - 1 else - int (floorlog 2 (nat (\<lceil>1 / q\<rceil> - 1))))"

text \<open>Rounding to an integer, ties to even.\<close>

definition round_even :: "rat \<Rightarrow> int" where
  "round_even q = (let f = \<lfloor>q\<rfloor>; d = q - of_int f in
     if d < 1 / 2 then f else if 1 / 2 < d then f + 1 else if even f then f else f + 1)"

definition f64_round :: "rat \<Rightarrow> f64" where
  "f64_round q =
     (if q = 0 then Fin 0
      else let e = max (rat_exp \<bar>q\<bar>) (- 1022);
               u = 2 powi (e - 52);
               r = of_int (round_even (q / u)) * u
           in if 2 ^ 1024 \<le> r then PosInf else if r \<le> - (2 ^ 1024) then NegInf else Fin r)"

text \<open>Conversion to \<open>int64\<close> drops the fraction; what it gives outside the range is up to the
  implementation, hence a parameter.\<close>

definition f64_to_int64 :: "(f64 \<Rightarrow> int) \<Rightarrow> f64 \<Rightarrow> int" where
  "f64_to_int64 out x =
     (case x of
        Fin q \<Rightarrow> (let z = (if 0 \<le> q then \<lfloor>q\<rfloor> else \<lceil>q\<rceil>) in if - (2 ^ 63) \<le> z \<and> z < 2 ^ 63 then z else out x)
      | _ \<Rightarrow> out x)"

definition wrap64 :: "int \<Rightarrow> int" where
  "wrap64 z = (z + 2 ^ 63) mod 2 ^ 64 - 2 ^ 63"

lemma wrap64_id [simp]: "- (2 ^ 63) \<le> z \<Longrightarrow> z < 2 ^ 63 \<Longrightarrow> wrap64 z = z"
  by (simp add: wrap64_def)

lemma round_even_int [simp]: "round_even (of_int z) = z"
  by (simp add: round_even_def Let_def)

lemma rat_exp_int: "0 < m \<Longrightarrow> rat_exp (of_int (m * 2 ^ k)) = int (floorlog 2 (nat m)) + int k - 1"
proof -
  assume m: "0 < m"
  then have "1 \<le> m * 2 ^ k" by (metis int_one_le_iff_zero_less mult_pos_pos zero_less_numeral zero_less_power)
  moreover have "nat (m * 2 ^ k) = nat m * 2 ^ k" using m by (simp add: nat_mult_distrib nat_power_eq)
  moreover have "\<lfloor>(of_int (m * 2 ^ k) :: rat)\<rfloor> = m * 2 ^ k" by (rule floor_of_int)
  moreover have "(1 :: rat) \<le> of_int (m * 2 ^ k)" using calculation(1) by (metis of_int_1_le_iff)
  ultimately show ?thesis using m unfolding rat_exp_def by (simp add: zless_nat_eq_int_zless)
qed

text \<open>An integer whose significand fits is exact.\<close>

lemma f64_round_exact:
  assumes "0 \<le> m" "m < 2 ^ 53" "k \<le> 900"
  shows "f64_round (of_int (m * 2 ^ k)) = Fin (of_int (m * 2 ^ k))"
proof (cases "m = 0")
  case False
  then have m: "0 < m" using assms(1) by simp
  let ?q = "of_int (m * 2 ^ k) :: rat" and ?L = "int (floorlog 2 (nat m))"
  have pos: "0 < ?q" using m by simp
  have e: "rat_exp \<bar>?q\<bar> = ?L + int k - 1" using rat_exp_int [OF m] pos by (metis abs_of_pos)
  have "nat m < 2 ^ 53" using assms(2) m by (simp add: nat_less_iff)
  then have L: "?L \<le> 53" using floorlog_leI [of "nat m" 2 53] by simp
  then obtain j :: nat where j: "?L + int j = 53" by (metis add_diff_cancel_left' int_nat_eq le_add_diff_inverse diff_ge_0_iff_ge nat_0_le)
  have u: "max (rat_exp \<bar>?q\<bar>) (- 1022) - 52 = int k - int j" using e j by simp
  have "?q / 2 powi (int k - int j) = of_int (m * 2 ^ j)"
    by (simp add: power_int_diff)
  then have r: "of_int (round_even (?q / 2 powi (int k - int j))) * 2 powi (int k - int j) = ?q"
    using round_even_int [of "m * 2 ^ j"] by (simp add: power_int_diff)
  have "(2 :: int) ^ k \<le> 2 ^ 900" using assms(3) by (rule power_increasing) simp
  then have "m * 2 ^ k < 2 ^ 53 * 2 ^ 900"
    using assms(1,2) by (intro mult_less_le_imp_less) auto
  also have "\<dots> < 2 ^ 1024" by simp
  finally have "?q < of_int (2 ^ 1024)" by (rule of_int_less_iff [THEN iffD2])
  then have "?q < 2 ^ 1024" by (simp only: of_int_power of_int_numeral)
  moreover have "\<not> ?q \<le> - (2 ^ 1024)" using pos by (simp add: not_le)
  ultimately show ?thesis using False r unfolding f64_round_def Let_def u by auto
qed (simp add: f64_round_def)

lemma f64_to_int64_int [simp]: "0 \<le> z \<Longrightarrow> z < 2 ^ 63 \<Longrightarrow> f64_to_int64 out (Fin (of_int z)) = z"
  by (simp add: f64_to_int64_def Let_def)

section \<open>Operations\<close>

text \<open>Infinities and NaN as in IEEE 754. As the sign of zero is not represented, a division by zero takes
  the sign of the dividend.\<close>

definition f64_of_int :: "int \<Rightarrow> f64" where "f64_of_int z = f64_round (of_int z)"

fun f64_neg :: "f64 \<Rightarrow> f64" where
  "f64_neg NaN = NaN" | "f64_neg NegInf = PosInf" | "f64_neg PosInf = NegInf" | "f64_neg (Fin q) = Fin (- q)"

fun f64_add :: "f64 \<Rightarrow> f64 \<Rightarrow> f64" where
  "f64_add (Fin x) (Fin y) = f64_round (x + y)"
| "f64_add NaN y = NaN"
| "f64_add PosInf y = (if y = NaN \<or> y = NegInf then NaN else PosInf)"
| "f64_add NegInf y = (if y = NaN \<or> y = PosInf then NaN else NegInf)"
| "f64_add (Fin x) y = y"

definition f64_sub :: "f64 \<Rightarrow> f64 \<Rightarrow> f64" where "f64_sub x y = f64_add x (f64_neg y)"

fun f64_sgn :: "f64 \<Rightarrow> int" where
  "f64_sgn NaN = 0" | "f64_sgn PosInf = 1" | "f64_sgn NegInf = - 1"
| "f64_sgn (Fin q) = (if 0 < q then 1 else if q < 0 then - 1 else 0)"

definition signed_inf :: "int \<Rightarrow> f64" where
  "signed_inf s = (if 0 < s then PosInf else if s < 0 then NegInf else NaN)"

fun f64_mul :: "f64 \<Rightarrow> f64 \<Rightarrow> f64" where
  "f64_mul (Fin x) (Fin y) = f64_round (x * y)"
| "f64_mul x y = (if x = NaN \<or> y = NaN then NaN else signed_inf (f64_sgn x * f64_sgn y))"

fun f64_div :: "f64 \<Rightarrow> f64 \<Rightarrow> f64" where
  "f64_div (Fin x) (Fin y) = (if y = 0 then signed_inf (f64_sgn (Fin x)) else f64_round (x / y))"
| "f64_div x (Fin y) = (if x = NaN then NaN else signed_inf (f64_sgn x * (if y < 0 then - 1 else 1)))"
| "f64_div (Fin x) y = (if y = NaN then NaN else Fin 0)"
| "f64_div x y = NaN"

definition f64_abs :: "f64 \<Rightarrow> f64" where
  "f64_abs x = (case x of Fin q \<Rightarrow> Fin \<bar>q\<bar> | NegInf \<Rightarrow> PosInf | _ \<Rightarrow> x)"

definition f64_floor :: "f64 \<Rightarrow> f64" where
  "f64_floor x = (case x of Fin q \<Rightarrow> Fin (of_int \<lfloor>q\<rfloor>) | _ \<Rightarrow> x)"

definition f64_ceil :: "f64 \<Rightarrow> f64" where
  "f64_ceil x = (case x of Fin q \<Rightarrow> Fin (of_int \<lceil>q\<rceil>) | _ \<Rightarrow> x)"

text \<open>\<open>math.Round\<close> rounds halves away from zero.\<close>

definition f64_nearest :: "f64 \<Rightarrow> f64" where
  "f64_nearest x = (case x of Fin q \<Rightarrow> Fin (of_int (if 0 \<le> q then \<lfloor>q + 1 / 2\<rfloor> else \<lceil>q - 1 / 2\<rceil>)) | _ \<Rightarrow> x)"

text \<open>Go's remainder takes the sign of the dividend; its quotient drops the fraction.\<close>

definition go_rem :: "int \<Rightarrow> int \<Rightarrow> int" where "go_rem a b = sgn a * (\<bar>a\<bar> mod \<bar>b\<bar>)"
definition go_quot :: "int \<Rightarrow> int \<Rightarrow> int" where "go_quot a b = sgn a * sgn b * (\<bar>a\<bar> div \<bar>b\<bar>)"

text \<open>\<open>time.Duration.Seconds\<close>.\<close>

definition dur_seconds :: "duration \<Rightarrow> f64" where
  "dur_seconds d = f64_add (f64_of_int (go_quot d second)) (f64_div (f64_of_int (go_rem d second)) (Fin 1000000000))"

section \<open>The order of sorting\<close>

text \<open>\<open>sort.Float64s\<close> puts NaN first, then the values in order. (Comparisons of the program are
  \<^const>\<open>f64_less\<close> and its kin, which no NaN satisfies.)\<close>

fun f64_rank :: "f64 \<Rightarrow> nat" where
  "f64_rank NaN = 0" | "f64_rank NegInf = 1" | "f64_rank (Fin q) = 2" | "f64_rank PosInf = 3"

fun f64_rat :: "f64 \<Rightarrow> rat" where
  "f64_rat (Fin q) = q" | "f64_rat _ = 0"

instantiation f64 :: linorder
begin

definition less_eq_f64 :: "f64 \<Rightarrow> f64 \<Rightarrow> bool" where
  "less_eq_f64 x y \<longleftrightarrow> f64_rank x < f64_rank y \<or> (f64_rank x = f64_rank y \<and> f64_rat x \<le> f64_rat y)"

definition less_f64 :: "f64 \<Rightarrow> f64 \<Rightarrow> bool" where
  "less_f64 x y \<longleftrightarrow> f64_rank x < f64_rank y \<or> (f64_rank x = f64_rank y \<and> f64_rat x < f64_rat y)"

instance
proof
  fix x y :: f64
  show "x \<le> y \<Longrightarrow> y \<le> x \<Longrightarrow> x = y"
    by (cases x; cases y) (auto simp: less_eq_f64_def)
qed (auto simp: less_eq_f64_def less_f64_def)

end

lemma f64_less_iff: "x \<noteq> NaN \<Longrightarrow> y \<noteq> NaN \<Longrightarrow> f64_less x y \<longleftrightarrow> x < y"
  by (cases x; cases y) (auto simp: less_f64_def)

end
