(* ===== verification/Promql_Duration.thy ===== *)
theory Promql_Duration
  imports Promql_Strings Float64
begin

text \<open>
  Durations of PromQL: \<open>ParseDuration\<close> (\<open>internal/promql/parser.go\<close>) and \<open>formatDuration\<close>
  (\<open>internal/promql/ast.go\<close>). A duration is an \<open>int64\<close> number of nanoseconds; the parser computes
  it through \<open>float64\<close>.
\<close>

section \<open>Parsing and printing\<close>

definition number_char :: "char \<Rightarrow> bool" where
  "number_char c \<longleftrightarrow> is_digit c \<or> c = CHR ''.''"

text \<open>\<open>strconv.ParseFloat\<close> on a text of digits and dots: the decimal value, rounded; no digit, a
  second dot and a value out of range are errors.\<close>

definition ParseFloat_digits :: "string \<Rightarrow> rat option" where
  "ParseFloat_digits s =
     (let whole = takeWhile is_digit s; rest = drop (length whole) s; frac = drop 1 rest
      in if whole @ frac = [] \<or> \<not> list_all is_digit frac then None
         else case f64_round (of_nat (dec_val (whole @ frac)) / 10 ^ length frac) of
                Fin q \<Rightarrow> Some q
              | _ \<Rightarrow> None)"

text \<open>\<open>time.Duration (num * float64 (unit))\<close>.\<close>

definition scaled :: "(f64 \<Rightarrow> int) \<Rightarrow> rat \<Rightarrow> duration \<Rightarrow> duration" where
  "scaled out num u = f64_to_int64 out (f64_round (num * of_int u))"

definition unit_of :: "char \<Rightarrow> duration option" where
  "unit_of c =
     (if c = CHR ''y'' then Some (365 * 24 * hour) else if c = CHR ''w'' then Some (7 * 24 * hour)
      else if c = CHR ''d'' then Some (24 * hour) else if c = CHR ''h'' then Some hour
      else if c = CHR ''m'' then Some minute else if c = CHR ''s'' then Some second else None)"

text \<open>The loop of \<open>ParseDuration\<close> on what is left of the text.\<close>

function parse_duration_loop :: "(f64 \<Rightarrow> int) \<Rightarrow> string \<Rightarrow> string \<Rightarrow> duration \<Rightarrow> duration outcome" where
  "parse_duration_loop out s rest tot =
     (if rest = [] then Return tot
      else
        let numStr = takeWhile number_char rest; after = dropWhile number_char rest in
        if numStr = [] then Error (''invalid duration: '' @ s)
        else case ParseFloat_digits numStr of
          None \<Rightarrow> Error (''invalid duration number: '' @ numStr)
        | Some num \<Rightarrow>
            (case after of
               [] \<Rightarrow> Return (scaled out num second)
             | u # after1 \<Rightarrow>
                 if u = CHR ''m'' \<and> after1 \<noteq> [] \<and> hd after1 = CHR ''s'' then
                   parse_duration_loop out s (drop 1 after1) (wrap64 (tot + scaled out num millisecond))
                 else case unit_of u of
                   None \<Rightarrow> Error (''invalid duration unit: '' @ encode_rune (Some (of_char u)))
                 | Some d \<Rightarrow> parse_duration_loop out s after1 (wrap64 (tot + scaled out num d))))"
  by pat_completeness auto
termination
proof (relation "measure (\<lambda>(out, s, rest, tot). length rest)", goal_cases)
  case 1
  then show ?case by simp
next
  case (2 out s rest tot x y num u after1)
  then have "length (u # after1) \<le> length rest" using length_dropWhile_le [of number_char rest] by simp
  then show ?case by simp
next
  case (3 out s rest tot x y num u after1 d)
  then have "length (u # after1) \<le> length rest" using length_dropWhile_le [of number_char rest] by simp
  then show ?case by simp
qed

declare parse_duration_loop.simps [simp del]

definition ParseDuration :: "(f64 \<Rightarrow> int) \<Rightarrow> string \<Rightarrow> duration outcome" where
  "ParseDuration out s = parse_duration_loop out s s 0"

definition format_unit :: "duration \<Rightarrow> string \<Rightarrow> string \<times> duration \<Rightarrow> string \<times> duration" where
  "format_unit u name bd = (case bd of (b, d) \<Rightarrow>
     if u \<le> d then (b @ dec_str (nat (d div u)) @ name, d - d div u * u) else (b, d))"

definition formatDuration :: "duration \<Rightarrow> string" where
  "formatDuration d =
     (if d = 0 then ''0s''
      else fst (format_unit millisecond ''ms'' (format_unit second ''s'' (format_unit minute ''m''
             (format_unit hour ''h'' (format_unit (24 * hour) ''d'' (format_unit (7 * 24 * hour) ''w''
               (format_unit (365 * 24 * hour) ''y'' ([], d)))))))))"

section \<open>Reading one component\<close>

text \<open>A count and its unit, for every unit the printer writes: the product is exact in \<open>float64\<close>.\<close>

definition unit_name :: "string \<Rightarrow> duration \<Rightarrow> bool" where
  "unit_name name u \<longleftrightarrow> (name, u) \<in> {(''y'', 365 * 24 * hour), (''w'', 7 * 24 * hour), (''d'', 24 * hour), (''h'', hour),
     (''m'', minute), (''s'', second), (''ms'', millisecond)}"

lemma scaled_exact:
  assumes "unit_name name u" "n \<le> 999" "int n * u < 2 ^ 63"
  shows "scaled out (of_nat n) u = int n * u"
proof -
  have "u = 962402343750 * 2 ^ 15 \<or> u = 18457031250 * 2 ^ 15 \<or> u = 2636718750 * 2 ^ 15 \<or> u = 56250000000 * 2 ^ 6 \<or>
      u = 937500000 * 2 ^ 6 \<or> u = 15625000 * 2 ^ 6 \<or> u = 15625 * 2 ^ 6"
    using assms(1) unfolding unit_name_def by auto
  then have "\<exists>c k. u = c * 2 ^ k \<and> k \<le> (900 :: nat) \<and> 0 \<le> c \<and> c < 2 ^ 40"
    by (elim disjE) (rule exI, rule exI, erule conjI, simp)+
  then obtain c k where c: "u = c * 2 ^ k" "k \<le> (900 :: nat)" "0 \<le> c" "c < 2 ^ 40" by blast
  have "int n * c \<le> 999 * c" using assms(2) c(3) by (intro mult_right_mono) auto
  then have "int n * c < 2 ^ 53" using c(4) by simp
  then have "f64_round (of_int ((int n * c) * 2 ^ k)) = Fin (of_int ((int n * c) * 2 ^ k))"
    using c by (intro f64_round_exact) auto
  moreover have "(int n * c) * 2 ^ k = int n * u" using c(1) by simp
  ultimately have "f64_round (of_int (int n * u)) = Fin (of_int (int n * u))" by simp
  moreover have "0 \<le> int n * u" using c by simp
  moreover have "(of_nat n * of_int u :: rat) = of_int (int n * u)" by simp
  ultimately show ?thesis using assms(3) f64_to_int64_int [of "int n * u" out] unfolding scaled_def by metis
qed

lemma number_text:
  assumes "n \<le> 999"
  shows "ParseFloat_digits (dec_str n) = Some (of_nat n)"
proof -
  have w: "takeWhile is_digit (dec_str n) = dec_str n" using dec_str_digits by (simp add: takeWhile_eq_all_conv)
  have "f64_round (of_int (int n * 2 ^ 0)) = Fin (of_int (int n * 2 ^ 0))"
    using assms by (intro f64_round_exact) auto
  then show ?thesis by (simp add: ParseFloat_digits_def w Let_def dec_val_dec_str)
qed

lemma number_prefix:
  assumes "\<not> number_char c"
  shows "takeWhile number_char (dec_str n @ c # r) = dec_str n" "dropWhile number_char (dec_str n @ c # r) = c # r"
  using assms dec_str_digits [of n]
  by (auto simp: number_char_def takeWhile_append2 dropWhile_append2)

text \<open>Reading a count and a unit adds their product, if what follows cannot extend the unit.\<close>

definition fresh :: "string \<Rightarrow> bool" where
  "fresh r \<longleftrightarrow> r = [] \<or> is_digit (hd r)"

lemma read_component:
  assumes "unit_name name u" "n \<le> 999" "int n * u < 2 ^ 63" "fresh r"
  shows "parse_duration_loop out s (dec_str n @ name @ r) tot = parse_duration_loop out s r (wrap64 (tot + int n * u))"
proof -
  have sc: "scaled out (of_nat n) u = int n * u" using assms(1-3) by (rule scaled_exact)
  have ns: "r \<noteq> [] \<Longrightarrow> hd r \<noteq> CHR ''s''" using assms(4) by (auto simp: fresh_def is_digit_def)
  have nc: "\<not> number_char c" if "c \<in> {CHR ''y'', CHR ''w'', CHR ''d'', CHR ''h'', CHR ''m'', CHR ''s''}" for c
    using that by (auto simp: number_char_def is_digit_def)
  show ?thesis
  proof (cases "name = ''ms''")
    case True
    then have u: "u = millisecond" using assms(1) by (auto simp: unit_name_def)
    show ?thesis
      using sc True number_text [OF assms(2)] number_prefix [OF nc, of "CHR ''m''" n "CHR ''s'' # r"]
      by (subst parse_duration_loop.simps) (simp add: u)
  next
    case False
    define c where "c = hd name"
    have c: "name = [c]" "unit_of c = Some u" "c \<in> {CHR ''y'', CHR ''w'', CHR ''d'', CHR ''h'', CHR ''m'', CHR ''s''}"
      using assms(1) False by (auto simp: unit_name_def unit_of_def c_def)
    have "\<not> (c = CHR ''m'' \<and> r \<noteq> [] \<and> hd r = CHR ''s'')" using ns by blast
    then show ?thesis
      using sc c(1,2) number_text [OF assms(2)] number_prefix [OF nc [OF c(3)], of n r]
      by (subst parse_duration_loop.simps) auto
  qed
qed

section \<open>Reading what was printed\<close>

text \<open>A text that stands for an amount: reading it adds the amount, whatever follows.\<close>

definition reads :: "(f64 \<Rightarrow> int) \<Rightarrow> string \<Rightarrow> duration \<Rightarrow> bool" where
  "reads out b t \<longleftrightarrow> (\<forall>s r. fresh r \<longrightarrow> parse_duration_loop out s (b @ r) 0 = parse_duration_loop out s r t)"

lemma fresh_number: "fresh (dec_str n @ r)"
  using dec_str_digits [of n] dec_str_ne [of n] by (auto simp: fresh_def)

lemma format_unit_reads:
  assumes "reads out b (D - d)" "unit_name name u" "0 \<le> d" "d \<le> D" "D < 2 ^ 63" "d < 1000 * u"
    "format_unit u name (b, d) = (b1, d1)"
  shows "reads out b1 (D - d1) \<and> d1 = d mod u \<and> 0 \<le> d1 \<and> d1 \<le> D \<and> d1 < u"
proof -
  have u: "0 < u" using assms(2) by (auto simp: unit_name_def)
  have m: "0 \<le> d mod u" "d mod u < u" "d mod u \<le> D" using u assms(3,4) zmod_le_nonneg_dividend [of d u] by auto
  show ?thesis
  proof (cases "u \<le> d")
    case True
    let ?n = "nat (d div u)"
    have n: "int ?n = d div u" using assms(3) u by (simp add: pos_imp_zdiv_nonneg_iff)
    have le: "d div u * u \<le> d" using minus_mod_eq_div_mult [of d u] pos_mod_sign [OF u, of d] by simp
    have "d div u * u < 1000 * u" using le assms(6) by linarith
    then have k: "d div u \<le> 999" using u by simp
    have d1: "b1 = b @ dec_str ?n @ name" "d1 = d - d div u * u" using assms(7) True by (auto simp: format_unit_def)
    have "int ?n * u \<ge> 0" using u by simp
    then have w: "wrap64 (D - d + int ?n * u) = D - d1" using d1 n le assms(3-5) by (subst wrap64_id) auto
    have "parse_duration_loop out s (b1 @ r) 0 = parse_duration_loop out s r (D - d1)" if "fresh r" for s r
    proof -
      have "parse_duration_loop out s (b @ dec_str ?n @ name @ r) 0 = parse_duration_loop out s (dec_str ?n @ name @ r) (D - d)"
        using assms(1) fresh_number by (simp add: reads_def)
      also have "\<dots> = parse_duration_loop out s r (D - d1)"
        using read_component [OF assms(2) _ _ that, of ?n out s "D - d"] n le w k assms(4,5) by simp
      finally show ?thesis using d1 by simp
    qed
    then show ?thesis using d1 m by (simp add: reads_def minus_div_mult_eq_mod)
  next
    case False
    then show ?thesis using assms(1,3,4,7) by (auto simp: format_unit_def)
  qed
qed

text \<open>The remainders of the printer are the remainders of the whole.\<close>

lemma format_remainder:
  "d mod (365 * 24 * hour) mod (7 * 24 * hour) mod (24 * hour) mod hour mod minute mod second mod millisecond =
   d mod (millisecond :: int)"
  by (simp add: mod_mod_cancel)

lemma format_reads:
  assumes "0 < D" "D < 2 ^ 63"
  shows "reads out (formatDuration D) (D - D mod millisecond)"
proof -
  have start: "reads out [] (D - D)" by (simp add: reads_def)
  obtain b1 d1 where 1: "format_unit (365 * 24 * hour) ''y'' ([], D) = (b1, d1)" by force
  obtain b2 d2 where 2: "format_unit (7 * 24 * hour) ''w'' (b1, d1) = (b2, d2)" by force
  obtain b3 d3 where 3: "format_unit (24 * hour) ''d'' (b2, d2) = (b3, d3)" by force
  obtain b4 d4 where 4: "format_unit hour ''h'' (b3, d3) = (b4, d4)" by force
  obtain b5 d5 where 5: "format_unit minute ''m'' (b4, d4) = (b5, d5)" by force
  obtain b6 d6 where 6: "format_unit second ''s'' (b5, d5) = (b6, d6)" by force
  obtain b7 d7 where 7: "format_unit millisecond ''ms'' (b6, d6) = (b7, d7)" by force
  have r1: "reads out b1 (D - d1) \<and> d1 = D mod (365 * 24 * hour) \<and> 0 \<le> d1 \<and> d1 \<le> D \<and> d1 < 365 * 24 * hour"
    using assms by (intro format_unit_reads [OF start _ _ _ _ _ 1]) (auto simp: unit_name_def)
  have r2: "reads out b2 (D - d2) \<and> d2 = d1 mod (7 * 24 * hour) \<and> 0 \<le> d2 \<and> d2 \<le> D \<and> d2 < 7 * 24 * hour"
    using r1 assms(2) by (intro format_unit_reads [OF _ _ _ _ _ _ 2]) (auto simp: unit_name_def)
  have r3: "reads out b3 (D - d3) \<and> d3 = d2 mod (24 * hour) \<and> 0 \<le> d3 \<and> d3 \<le> D \<and> d3 < 24 * hour"
    using r2 assms(2) by (intro format_unit_reads [OF _ _ _ _ _ _ 3]) (auto simp: unit_name_def)
  have r4: "reads out b4 (D - d4) \<and> d4 = d3 mod (hour) \<and> 0 \<le> d4 \<and> d4 \<le> D \<and> d4 < hour"
    using r3 assms(2) by (intro format_unit_reads [OF _ _ _ _ _ _ 4]) (auto simp: unit_name_def)
  have r5: "reads out b5 (D - d5) \<and> d5 = d4 mod (minute) \<and> 0 \<le> d5 \<and> d5 \<le> D \<and> d5 < minute"
    using r4 assms(2) by (intro format_unit_reads [OF _ _ _ _ _ _ 5]) (auto simp: unit_name_def)
  have r6: "reads out b6 (D - d6) \<and> d6 = d5 mod (second) \<and> 0 \<le> d6 \<and> d6 \<le> D \<and> d6 < second"
    using r5 assms(2) by (intro format_unit_reads [OF _ _ _ _ _ _ 6]) (auto simp: unit_name_def)
  have r7: "reads out b7 (D - d7) \<and> d7 = d6 mod (millisecond) \<and> 0 \<le> d7 \<and> d7 \<le> D \<and> d7 < millisecond"
    using r6 assms(2) by (intro format_unit_reads [OF _ _ _ _ _ _ 7]) (auto simp: unit_name_def)
  have "d7 = D mod millisecond" using r1 r2 r3 r4 r5 r6 r7 format_remainder [of D] by metis
  moreover have "formatDuration D = b7" using assms(1) unfolding formatDuration_def 1 2 3 4 5 6 7 by simp
  ultimately show ?thesis using r7 by metis
qed

lemma format_zero_reads: "reads out (formatDuration 0) 0"
proof -
  have "parse_duration_loop out s (''0s'' @ r) 0 = parse_duration_loop out s r 0" if "fresh r" for s r
    using read_component [of "''s''" second 0 r out s 0] that by (simp add: unit_name_def dec_str.simps digit_char_def char_of_def bit_0)
  then show ?thesis by (simp add: reads_def formatDuration_def)
qed

lemma duration_reads: "0 \<le> d \<Longrightarrow> d < 2 ^ 63 \<Longrightarrow> reads out (formatDuration d) (d - d mod millisecond)"
  using format_reads [of d out] format_zero_reads [of out] by (cases "d = 0") auto

lemma number_alone:
  assumes "n \<le> 999"
  shows "parse_duration_loop out s (dec_str n) tot = Return (int n * second)"
proof -
  have t: "takeWhile number_char (dec_str n) = dec_str n" "dropWhile number_char (dec_str n) = []"
    using dec_str_digits [of n] by (auto simp: takeWhile_eq_all_conv dropWhile_eq_Nil_conv number_char_def)
  have "scaled out (of_nat n) second = int n * second"
    using assms by (intro scaled_exact [of "''s''"]) (auto simp: unit_name_def)
  then show ?thesis using number_text [OF assms] by (subst parse_duration_loop.simps) (simp add: t)
qed

text \<open>Printing a duration and parsing it back gives the duration cut to whole milliseconds, the
  smallest unit the printer writes, for every duration that is not negative; no count the printer
  writes loses precision on its way through \<open>float64\<close>.
\<close>

theorem duration_round_trip:
  assumes "0 \<le> d" "d < 2 ^ 63"
  shows "ParseDuration out (formatDuration d) = Return (d - d mod millisecond)"
proof -
  have "parse_duration_loop out s (formatDuration d @ []) 0 = parse_duration_loop out s [] (d - d mod millisecond)" for s
    using duration_reads [OF assms, of out] unfolding reads_def by (simp add: fresh_def)
  then show ?thesis by (simp add: ParseDuration_def parse_duration_loop.simps [of out _ "[]"])
qed

theorem duration_round_trip_witness:
  "formatDuration 5400500000001 = ''1h30m500ms'' \<and> ParseDuration (\<lambda>_. 0) (formatDuration 5400500000001) = Return 5400500000000"
proof -
  have "ParseDuration (\<lambda>_. 0) (formatDuration 5400500000001) = Return (5400500000001 - 5400500000001 mod millisecond)"
    by (rule duration_round_trip) simp_all
  then show ?thesis by (simp add: formatDuration_def format_unit_def dec_str.simps digit_char_def char_of_def bit_0)
qed

text \<open>A number with no unit at the end of a duration is not added to what was read before it but
  replaces it: whatever the printed duration \<open>d\<close>, the text of \<open>d\<close> followed by the number \<open>n\<close> is
  taken as \<open>n\<close> seconds. The lexer makes one token of such a text (\<open>1h30\<close>), so a query can hold it.
\<close>

theorem trailing_number_replaces_duration:
  assumes "0 \<le> d" "d < 2 ^ 63" "n \<le> 999"
  shows "ParseDuration out (formatDuration d @ dec_str n) = Return (int n * second)"
proof -
  have "parse_duration_loop out s (formatDuration d @ dec_str n) 0 =
      parse_duration_loop out s (dec_str n) (d - d mod millisecond)" for s
    using duration_reads [OF assms(1,2), of out] fresh_number [of n "[]"] unfolding reads_def by simp
  then show ?thesis by (simp add: ParseDuration_def number_alone [OF assms(3)])
qed

theorem trailing_number_replaces_duration_witness:
  "ParseDuration (\<lambda>_. 0) ''1h30'' = Return (30 * second)"
proof -
  have "ParseDuration (\<lambda>_. 0) (formatDuration hour @ dec_str 30) = Return (int 30 * second)"
    by (rule trailing_number_replaces_duration) simp_all
  then show ?thesis by (simp add: formatDuration_def format_unit_def dec_str.simps digit_char_def char_of_def bit_0)
qed

end
