(* ===== verification/Promql_Ast.thy ===== *)
theory Promql_Ast
  imports Promql_Duration
begin

text \<open>
  The syntax tree of PromQL (\<open>internal/promql/ast.go\<close>), its printer and traversal, and the registry
  of functions (\<open>Functions\<close> of \<open>functions.go\<close> with the entries that \<open>init\<close> of \<open>metricsql.go\<close>
  adds). The implementations of the functions are not part of the tree.
\<close>

section \<open>Matchers and selectors\<close>

datatype LabelMatchType = MatchEqual | MatchNotEqual | MatchRegexp | MatchNotRegexp

fun LabelMatchType_String :: "LabelMatchType \<Rightarrow> string" where
  "LabelMatchType_String MatchEqual = ''=''"
| "LabelMatchType_String MatchNotEqual = ''!=''"
| "LabelMatchType_String MatchRegexp = ''=~''"
| "LabelMatchType_String MatchNotRegexp = ''!~''"

record LabelMatcher =
  MatchType :: LabelMatchType
  MatchName :: string
  MatchValue :: string

text \<open>\<open>%q\<close> of a string is what a string literal prints.\<close>

definition LabelMatcher_String :: "LabelMatcher \<Rightarrow> string" where
  "LabelMatcher_String m = MatchName m @ LabelMatchType_String (MatchType m) @ StringLiteral_String (MatchValue m)"

text \<open>\<open>regexp.Compile\<close> gives a matcher for a pattern or fails; \<open>compiledRe\<close> drops the failure and
  keeps a nil pointer, on which \<open>MatchString\<close> panics.\<close>

type_synonym regexps = "string \<Rightarrow> (string \<Rightarrow> bool) option"

definition compiledRe :: "regexps \<Rightarrow> LabelMatcher \<Rightarrow> (string \<Rightarrow> bool) option" where
  "compiledRe re m = re (''^(?:'' @ MatchValue m @ '')$'')"

definition Matches :: "regexps \<Rightarrow> LabelMatcher \<Rightarrow> string \<Rightarrow> bool outcome" where
  "Matches re m val =
     (case MatchType m of
        MatchEqual \<Rightarrow> Return (val = MatchValue m)
      | MatchNotEqual \<Rightarrow> Return (val \<noteq> MatchValue m)
      | MatchRegexp \<Rightarrow> (case compiledRe re m of None \<Rightarrow> Panic | Some f \<Rightarrow> Return (f val))
      | MatchNotRegexp \<Rightarrow> (case compiledRe re m of None \<Rightarrow> Panic | Some f \<Rightarrow> Return (\<not> f val)))"

text \<open>\<open>StartOrEnd\<close> is 0 for none, 1 for \<open>start()\<close>, 2 for \<open>end()\<close>.\<close>

record VectorSelectorNode =
  SelName :: string
  LabelMatchers :: "LabelMatcher list"
  SelOffset :: duration
  Timestamp :: "int option"
  StartOrEnd :: nat
  SelPos :: Pos

section \<open>Operators\<close>

datatype BinaryOp = OpAdd | OpSub | OpMul | OpDiv | OpMod | OpPow | OpEql | OpNeq | OpLss | OpGtr | OpLte | OpGte
  | OpAnd | OpOr | OpUnless | OpAtan2

fun BinaryOp_String :: "BinaryOp \<Rightarrow> string" where
  "BinaryOp_String OpAdd = ''+''" | "BinaryOp_String OpSub = ''-''" | "BinaryOp_String OpMul = ''*''"
| "BinaryOp_String OpDiv = ''/''" | "BinaryOp_String OpMod = ''%''" | "BinaryOp_String OpPow = ''^''"
| "BinaryOp_String OpEql = ''==''" | "BinaryOp_String OpNeq = ''!=''" | "BinaryOp_String OpLss = ''<''"
| "BinaryOp_String OpGtr = ''>''" | "BinaryOp_String OpLte = ''<=''" | "BinaryOp_String OpGte = ''>=''"
| "BinaryOp_String OpAnd = ''and''" | "BinaryOp_String OpOr = ''or''" | "BinaryOp_String OpUnless = ''unless''"
| "BinaryOp_String OpAtan2 = ''atan2''"

definition IsComparisonOp :: "BinaryOp \<Rightarrow> bool" where
  "IsComparisonOp op \<longleftrightarrow> op \<in> {OpEql, OpNeq, OpLss, OpGtr, OpLte, OpGte}"

definition IsSetOp :: "BinaryOp \<Rightarrow> bool" where
  "IsSetOp op \<longleftrightarrow> op \<in> {OpAnd, OpOr, OpUnless}"

datatype VectorMatchCardinality = CardOneToOne | CardManyToOne | CardOneToMany | CardManyToMany

record VectorMatching =
  Card :: VectorMatchCardinality
  MatchingLabels :: "string list"
  On :: bool
  Include :: "string list"

section \<open>The function registry\<close>

datatype ValueType = ValueTypeNone | ValueTypeScalar | ValueTypeVector | ValueTypeMatrix | ValueTypeString

record Function =
  FnName :: string
  ArgTypes :: "ValueType list"
  Variadic :: int
  ReturnType :: ValueType

definition fn :: "string \<Rightarrow> ValueType list \<Rightarrow> int \<Rightarrow> ValueType \<Rightarrow> Function" where
  "fn name args v ret = \<lparr>FnName = name, ArgTypes = args, Variadic = v, ReturnType = ret\<rparr>"

definition promql_functions1 :: "Function list" where
  "promql_functions1 = [
     fn ''rate'' [ValueTypeMatrix] (0) ValueTypeVector, fn ''irate'' [ValueTypeMatrix] (0) ValueTypeVector,
     fn ''increase'' [ValueTypeMatrix] (0) ValueTypeVector, fn ''delta'' [ValueTypeMatrix] (0) ValueTypeVector,
     fn ''idelta'' [ValueTypeMatrix] (0) ValueTypeVector, fn ''deriv'' [ValueTypeMatrix] (0) ValueTypeVector,
     fn ''predict_linear'' [ValueTypeMatrix, ValueTypeScalar] (0) ValueTypeVector,
     fn ''resets'' [ValueTypeMatrix] (0) ValueTypeVector, fn ''changes'' [ValueTypeMatrix] (0) ValueTypeVector,
     fn ''avg_over_time'' [ValueTypeMatrix] (0) ValueTypeVector,
     fn ''sum_over_time'' [ValueTypeMatrix] (0) ValueTypeVector,
     fn ''min_over_time'' [ValueTypeMatrix] (0) ValueTypeVector,
     fn ''max_over_time'' [ValueTypeMatrix] (0) ValueTypeVector,
     fn ''count_over_time'' [ValueTypeMatrix] (0) ValueTypeVector,
     fn ''stddev_over_time'' [ValueTypeMatrix] (0) ValueTypeVector,
     fn ''stdvar_over_time'' [ValueTypeMatrix] (0) ValueTypeVector,
     fn ''quantile_over_time'' [ValueTypeScalar, ValueTypeMatrix] (0) ValueTypeVector,
     fn ''last_over_time'' [ValueTypeMatrix] (0) ValueTypeVector,
     fn ''present_over_time'' [ValueTypeMatrix] (0) ValueTypeVector,
     fn ''histogram_quantile'' [ValueTypeScalar, ValueTypeVector] (0) ValueTypeVector,
     fn ''label_replace'' [ValueTypeVector, ValueTypeString, ValueTypeString, ValueTypeString, ValueTypeString] (0) ValueTypeVector,
     fn ''label_join'' [ValueTypeVector, ValueTypeString, ValueTypeString] (- 1) ValueTypeVector,
     fn ''absent'' [ValueTypeVector] (0) ValueTypeVector]"

definition promql_functions2 :: "Function list" where
  "promql_functions2 = [
     fn ''absent_over_time'' [ValueTypeMatrix] (0) ValueTypeVector, fn ''abs'' [ValueTypeVector] (0) ValueTypeVector,
     fn ''ceil'' [ValueTypeVector] (0) ValueTypeVector, fn ''floor'' [ValueTypeVector] (0) ValueTypeVector,
     fn ''round'' [ValueTypeVector] (1) ValueTypeVector, fn ''sqrt'' [ValueTypeVector] (0) ValueTypeVector,
     fn ''ln'' [ValueTypeVector] (0) ValueTypeVector, fn ''log2'' [ValueTypeVector] (0) ValueTypeVector,
     fn ''log10'' [ValueTypeVector] (0) ValueTypeVector, fn ''exp'' [ValueTypeVector] (0) ValueTypeVector,
     fn ''sgn'' [ValueTypeVector] (0) ValueTypeVector,
     fn ''clamp'' [ValueTypeVector, ValueTypeScalar, ValueTypeScalar] (0) ValueTypeVector,
     fn ''clamp_min'' [ValueTypeVector, ValueTypeScalar] (0) ValueTypeVector,
     fn ''clamp_max'' [ValueTypeVector, ValueTypeScalar] (0) ValueTypeVector,
     fn ''scalar'' [ValueTypeVector] (0) ValueTypeScalar, fn ''vector'' [ValueTypeScalar] (0) ValueTypeVector,
     fn ''time'' [] (0) ValueTypeScalar, fn ''timestamp'' [ValueTypeVector] (0) ValueTypeVector,
     fn ''day_of_month'' [ValueTypeVector] (1) ValueTypeVector,
     fn ''day_of_week'' [ValueTypeVector] (1) ValueTypeVector,
     fn ''day_of_year'' [ValueTypeVector] (1) ValueTypeVector,
     fn ''days_in_month'' [ValueTypeVector] (1) ValueTypeVector]"

definition promql_functions3 :: "Function list" where
  "promql_functions3 = [
     fn ''hour'' [ValueTypeVector] (1) ValueTypeVector, fn ''minute'' [ValueTypeVector] (1) ValueTypeVector,
     fn ''month'' [ValueTypeVector] (1) ValueTypeVector, fn ''year'' [ValueTypeVector] (1) ValueTypeVector,
     fn ''sort'' [ValueTypeVector] (0) ValueTypeVector, fn ''sort_desc'' [ValueTypeVector] (0) ValueTypeVector,
     fn ''acos'' [ValueTypeVector] (0) ValueTypeVector, fn ''acosh'' [ValueTypeVector] (0) ValueTypeVector,
     fn ''asin'' [ValueTypeVector] (0) ValueTypeVector, fn ''asinh'' [ValueTypeVector] (0) ValueTypeVector,
     fn ''atan'' [ValueTypeVector] (0) ValueTypeVector, fn ''atanh'' [ValueTypeVector] (0) ValueTypeVector,
     fn ''cos'' [ValueTypeVector] (0) ValueTypeVector, fn ''cosh'' [ValueTypeVector] (0) ValueTypeVector,
     fn ''sin'' [ValueTypeVector] (0) ValueTypeVector, fn ''sinh'' [ValueTypeVector] (0) ValueTypeVector,
     fn ''tan'' [ValueTypeVector] (0) ValueTypeVector, fn ''tanh'' [ValueTypeVector] (0) ValueTypeVector,
     fn ''deg'' [ValueTypeVector] (0) ValueTypeVector, fn ''rad'' [ValueTypeVector] (0) ValueTypeVector,
     fn ''pi'' [] (0) ValueTypeScalar]"

definition promql_functions :: "Function list" where
  "promql_functions = promql_functions1 @ promql_functions2 @ promql_functions3"

definition metricsql_functions1 :: "Function list" where
  "metricsql_functions1 = [
     fn ''label_set'' [ValueTypeVector, ValueTypeString, ValueTypeString] (- 1) ValueTypeVector,
     fn ''label_del'' [ValueTypeVector, ValueTypeString] (- 1) ValueTypeVector,
     fn ''label_keep'' [ValueTypeVector, ValueTypeString] (- 1) ValueTypeVector,
     fn ''label_copy'' [ValueTypeVector, ValueTypeString, ValueTypeString] (- 1) ValueTypeVector,
     fn ''label_move'' [ValueTypeVector, ValueTypeString, ValueTypeString] (- 1) ValueTypeVector,
     fn ''label_transform'' [ValueTypeVector, ValueTypeString, ValueTypeString, ValueTypeString] (0) ValueTypeVector,
     fn ''label_match'' [ValueTypeVector, ValueTypeString, ValueTypeString] (0) ValueTypeVector,
     fn ''label_mismatch'' [ValueTypeVector, ValueTypeString, ValueTypeString] (0) ValueTypeVector,
     fn ''union'' [ValueTypeVector] (- 1) ValueTypeVector,
     fn ''ru'' [ValueTypeVector, ValueTypeVector] (0) ValueTypeVector,
     fn ''ttf'' [ValueTypeMatrix] (0) ValueTypeVector, fn ''range_median'' [ValueTypeMatrix] (0) ValueTypeVector,
     fn ''range_first'' [ValueTypeMatrix] (0) ValueTypeVector,
     fn ''range_last'' [ValueTypeMatrix] (0) ValueTypeVector,
     fn ''running_sum'' [ValueTypeMatrix] (0) ValueTypeMatrix,
     fn ''running_max'' [ValueTypeMatrix] (0) ValueTypeMatrix,
     fn ''running_min'' [ValueTypeMatrix] (0) ValueTypeMatrix,
     fn ''running_avg'' [ValueTypeMatrix] (0) ValueTypeMatrix,
     fn ''smooth_exponential'' [ValueTypeMatrix, ValueTypeScalar] (0) ValueTypeMatrix,
     fn ''outliers_mad'' [ValueTypeVector, ValueTypeScalar] (0) ValueTypeVector,
     fn ''outliers_iqr'' [ValueTypeVector, ValueTypeScalar] (0) ValueTypeVector]"

definition metricsql_functions2 :: "Function list" where
  "metricsql_functions2 = [
     fn ''histogram_share'' [ValueTypeVector, ValueTypeScalar] (0) ValueTypeVector,
     fn ''histogram_avg'' [ValueTypeVector] (0) ValueTypeVector,
     fn ''histogram_stdvar'' [ValueTypeVector] (0) ValueTypeVector,
     fn ''duration_over_time'' [ValueTypeMatrix, ValueTypeScalar] (0) ValueTypeVector,
     fn ''share_gt_over_time'' [ValueTypeMatrix, ValueTypeScalar] (0) ValueTypeVector,
     fn ''share_le_over_time'' [ValueTypeMatrix, ValueTypeScalar] (0) ValueTypeVector,
     fn ''count_gt_over_time'' [ValueTypeMatrix, ValueTypeScalar] (0) ValueTypeVector,
     fn ''count_le_over_time'' [ValueTypeMatrix, ValueTypeScalar] (0) ValueTypeVector,
     fn ''lag'' [ValueTypeMatrix] (0) ValueTypeVector, fn ''lifetime'' [ValueTypeMatrix] (0) ValueTypeVector,
     fn ''scrape_interval'' [ValueTypeMatrix] (0) ValueTypeVector,
     fn ''first_over_time'' [ValueTypeMatrix] (0) ValueTypeVector,
     fn ''median_over_time'' [ValueTypeMatrix] (0) ValueTypeVector]"

definition metricsql_functions :: "Function list" where
  "metricsql_functions = metricsql_functions1 @ metricsql_functions2"

text \<open>The entries of \<open>init\<close> are written over those of the initial map.\<close>

definition GetFunction :: "string \<Rightarrow> Function option" where
  "GetFunction name = find (\<lambda>f. FnName f = name) (metricsql_functions @ promql_functions)"

section \<open>Expressions\<close>

datatype Expr =
    VectorSelector VectorSelectorNode
  | MatrixSelector VectorSelectorNode duration Pos
  | NumberLiteral f64 Pos
  | StringLiteral string Pos
  | UnaryExpr ItemType Expr Pos
  | BinaryExpr BinaryOp Expr Expr "VectorMatching option" bool Pos
  | AggregateExpr ItemType Expr "Expr option" "string list" bool Pos
  | Call Function "Expr list" Pos
  | Subquery Expr duration duration duration Pos
  | ParenExpr Expr Pos

definition VectorSelector_String :: "VectorSelectorNode \<Rightarrow> string" where
  "VectorSelector_String v =
     SelName v @
     (if LabelMatchers v = [] then [] else ''{'' @ join (map LabelMatcher_String (LabelMatchers v)) '','' @ ''}'') @
     (if SelOffset v \<noteq> 0 then '' offset '' @ formatDuration (SelOffset v) else []) @
     (case Timestamp v of None \<Rightarrow> [] | Some t \<Rightarrow> '' @ '' @ int_str t)"

definition matching_String :: "VectorMatching option \<Rightarrow> string" where
  "matching_String mo =
     (case mo of
        None \<Rightarrow> []
      | Some m \<Rightarrow>
          (if On m then '' on('' @ join (MatchingLabels m) '','' @ '')''
           else if MatchingLabels m \<noteq> [] then '' ignoring('' @ join (MatchingLabels m) '','' @ '')'' else []) @
          (if Include m = [] then []
           else case Card m of
                  CardManyToOne \<Rightarrow> '' group_left('' @ join (Include m) '','' @ '')''
                | CardOneToMany \<Rightarrow> '' group_right('' @ join (Include m) '','' @ '')''
                | _ \<Rightarrow> []))"

text \<open>\<open>String\<close> of a node; \<open>%g\<close> of a float is a parameter.\<close>

fun Expr_String :: "(f64 \<Rightarrow> string) \<Rightarrow> Expr \<Rightarrow> string" where
  "Expr_String g (VectorSelector v) = VectorSelector_String v"
| "Expr_String g (MatrixSelector v r p) = VectorSelector_String v @ ''['' @ formatDuration r @ '']''"
| "Expr_String g (NumberLiteral x p) = g x"
| "Expr_String g (StringLiteral s p) = StringLiteral_String s"
| "Expr_String g (UnaryExpr op e p) = itemTypeStr op @ Expr_String g e"
| "Expr_String g (BinaryExpr op l r m rb p) =
     Expr_String g l @ '' '' @ BinaryOp_String op @ (if rb then '' bool'' else []) @ matching_String m @ '' '' @ Expr_String g r"
| "Expr_String g (AggregateExpr op e param ls without p) =
     itemTypeStr op @
     (if ls = [] then [] else (if without then '' without('' else '' by('') @ join ls '','' @ '')'') @
     ''('' @ (case param of None \<Rightarrow> [] | Some pe \<Rightarrow> Expr_String g pe @ '','') @ Expr_String g e @ '')''"
| "Expr_String g (Call f args p) = FnName f @ ''('' @ join (map (Expr_String g) args) '','' @ '')''"
| "Expr_String g (Subquery e r st ofs p) =
     Expr_String g e @ ''['' @ formatDuration r @ (if 0 < st then '':'' @ formatDuration st else []) @ '']'' @
     (if 0 < ofs then '' offset '' @ formatDuration ofs else [])"
| "Expr_String g (ParenExpr e p) = ''('' @ Expr_String g e @ '')''"

text \<open>\<open>Walk\<close> with a visitor that changes a state and says whether to go below the node, as
  \<open>Inspect\<close> uses it.\<close>

fun Walk :: "(Expr \<Rightarrow> 's \<Rightarrow> bool \<times> 's) \<Rightarrow> Expr \<Rightarrow> 's \<Rightarrow> 's" where
  "Walk v (VectorSelector n) s = snd (v (VectorSelector n) s)"
| "Walk v (MatrixSelector n r p) s =
     (case v (MatrixSelector n r p) s of (go, s1) \<Rightarrow> if go then snd (v (VectorSelector n) s1) else s1)"
| "Walk v (NumberLiteral x p) s = snd (v (NumberLiteral x p) s)"
| "Walk v (StringLiteral x p) s = snd (v (StringLiteral x p) s)"
| "Walk v (UnaryExpr op e p) s = (case v (UnaryExpr op e p) s of (go, s1) \<Rightarrow> if go then Walk v e s1 else s1)"
| "Walk v (BinaryExpr op l r m rb p) s =
     (case v (BinaryExpr op l r m rb p) s of (go, s1) \<Rightarrow> if go then Walk v r (Walk v l s1) else s1)"
| "Walk v (AggregateExpr op e param ls w p) s =
     (case v (AggregateExpr op e param ls w p) s of
        (go, s1) \<Rightarrow> if go then Walk v e (case param of None \<Rightarrow> s1 | Some pe \<Rightarrow> Walk v pe s1) else s1)"
| "Walk v (Call f args p) s = (case v (Call f args p) s of (go, s1) \<Rightarrow> if go then fold (Walk v) args s1 else s1)"
| "Walk v (Subquery e r st ofs p) s =
     (case v (Subquery e r st ofs p) s of (go, s1) \<Rightarrow> if go then Walk v e s1 else s1)"
| "Walk v (ParenExpr e p) s = (case v (ParenExpr e p) s of (go, s1) \<Rightarrow> if go then Walk v e s1 else s1)"

end
