(* ===== verification/Promql_Parser.thy ===== *)
theory Promql_Parser
  imports Promql_Ast
begin

text \<open>
  The PromQL parser (\<open>internal/promql/parser.go\<close>), a recursive descent over the items of the lexer.
  A parsing function takes the parser state and gives a value and the state after it, or an error.
  The recursion of \<open>parseExpr\<close>, \<open>parsePower\<close> and \<open>parseUnaryExpr\<close> and the loops take a fuel; a
  result \<open>NoFuel\<close> says that it ran out. \<open>Parse\<close> gives the length of the query, which
  \<open>Promql_Parsing\<close> shows to be enough.
\<close>

section \<open>Parser state and results\<close>

datatype ParseErr = ParseError Pos string string | DurationError string

record Parser =
  lexer :: Lexer
  token :: Item
  query :: string

datatype 'a parsed = Parsed 'a Parser | Failed ParseErr | NoFuel

definition bindp :: "'a parsed \<Rightarrow> ('a \<Rightarrow> Parser \<Rightarrow> 'b parsed) \<Rightarrow> 'b parsed" where
  "bindp m f = (case m of Parsed x p \<Rightarrow> f x p | Failed e \<Rightarrow> Failed e | NoFuel \<Rightarrow> NoFuel)"

abbreviation tok :: "Parser \<Rightarrow> ItemType" where "tok p \<equiv> Typ (token p)"
abbreviation tok_pos :: "Parser \<Rightarrow> Pos" where "tok_pos p \<equiv> ItemPos (token p)"
abbreviation tok_val :: "Parser \<Rightarrow> string" where "tok_val p \<equiv> Val (token p)"

definition advance :: "unicode_tables \<Rightarrow> Parser \<Rightarrow> Parser" where
  "advance U p = (case NextItem U (lexer p) of (it, l) \<Rightarrow> p\<lparr>lexer := l, token := it\<rparr>)"

definition errorf :: "string \<Rightarrow> Parser \<Rightarrow> 'a parsed" where
  "errorf msg p = Failed (ParseError (tok_pos p) msg (query p))"

definition expect :: "unicode_tables \<Rightarrow> ItemType \<Rightarrow> Parser \<Rightarrow> unit parsed" where
  "expect U typ p =
     (if tok p \<noteq> typ then errorf (''expected '' @ itemTypeStr typ @ '', got '' @ itemTypeStr (tok p)) p
      else Parsed () (advance U p))"

section \<open>Literals\<close>

text \<open>\<open>strconv.ParseFloat\<close> on what the lexer makes a number: decimal digits with at most one dot, an
  optional exponent, or a name of infinity or NaN. A value out of rng is an error.\<close>

definition parse_exponent :: "string \<Rightarrow> int option" where
  "parse_exponent s =
     (if s = [] then Some 0
      else if hd s \<noteq> CHR ''e'' \<and> hd s \<noteq> CHR ''E'' then None
      else let neg = (drop 1 s \<noteq> [] \<and> hd (drop 1 s) = CHR ''-'');
               signed = (drop 1 s \<noteq> [] \<and> (hd (drop 1 s) = CHR ''-'' \<or> hd (drop 1 s) = CHR ''+''));
               ds = (if signed then drop 2 s else drop 1 s)
           in if ds = [] \<or> \<not> list_all is_digit ds then None
              else Some (if neg then - int (dec_val ds) else int (dec_val ds)))"

definition ParseFloat :: "string \<Rightarrow> f64 option" where
  "ParseFloat s =
     (if to_lower s = ''inf'' then Some PosInf
      else if to_lower s = ''nan'' then Some NaN
      else let whole = takeWhile is_digit s; r1 = dropWhile is_digit s;
               dot = (r1 \<noteq> [] \<and> hd r1 = CHR ''.'');
               frac = (if dot then takeWhile is_digit (drop 1 r1) else []);
               r2 = (if dot then dropWhile is_digit (drop 1 r1) else r1)
           in if whole @ frac = [] then None
              else case parse_exponent r2 of
                None \<Rightarrow> None
              | Some e \<Rightarrow>
                  (case f64_round (of_nat (dec_val (whole @ frac)) * 10 powi (e - int (length frac))) of
                     Fin q \<Rightarrow> Some (Fin q)
                   | _ \<Rightarrow> None))"

definition parseNumber :: "unicode_tables \<Rightarrow> Parser \<Rightarrow> Expr parsed" where
  "parseNumber U p =
     (let lower = ToLower U (tok_val p);
          val = (case ParseFloat (tok_val p) of
                   Some x \<Rightarrow> Some x
                 | None \<Rightarrow> if lower = ''inf'' \<or> lower = ''+inf'' then Some PosInf
                           else if lower = ''-inf'' then Some NegInf
                           else if lower = ''nan'' then Some NaN
                           else None)
      in case val of
           None \<Rightarrow> errorf (''invalid number: '' @ tok_val p) p
         | Some x \<Rightarrow> Parsed (NumberLiteral x (tok_pos p)) (advance U p))"

definition parseString :: "unicode_tables \<Rightarrow> Parser \<Rightarrow> Expr parsed" where
  "parseString U p = Parsed (StringLiteral (tok_val p) (tok_pos p)) (advance U p)"

definition parseDuration :: "unicode_tables \<Rightarrow> (f64 \<Rightarrow> int) \<Rightarrow> Parser \<Rightarrow> duration parsed" where
  "parseDuration U out p =
     (if tok p \<noteq> ItemDuration \<and> tok p \<noteq> ItemNumber
      then errorf (''expected duration, got '' @ itemTypeStr (tok p)) p
      else case ParseDuration out (tok_val p) of
        Return d \<Rightarrow> Parsed d (advance U p)
      | Error e \<Rightarrow> Failed (DurationError e)
      | Panic \<Rightarrow> Failed (DurationError []))"

section \<open>Label lists and matchers\<close>

text \<open>The loop of \<open>parseGrouping\<close>.\<close>

fun grouping_loop :: "unicode_tables \<Rightarrow> nat \<Rightarrow> string list \<Rightarrow> Parser \<Rightarrow> string list parsed" where
  "grouping_loop U 0 labels p = NoFuel"
| "grouping_loop U (Suc n) labels p =
     (if tok p \<noteq> ItemIdentifier then errorf (''expected label name, got '' @ itemTypeStr (tok p)) p
      else let labels1 = labels @ [tok_val p]; p1 = advance U p in
        if tok p1 \<noteq> ItemComma then Parsed labels1 p1 else grouping_loop U n labels1 (advance U p1))"

definition parseGrouping :: "unicode_tables \<Rightarrow> nat \<Rightarrow> Parser \<Rightarrow> string list parsed" where
  "parseGrouping U n p =
     bindp (expect U ItemLeftParen p) (\<lambda>_ p1.
       if tok p1 = ItemRightParen then Parsed [] (advance U p1)
       else bindp (grouping_loop U n [] p1) (\<lambda>labels p2.
         bindp (expect U ItemRightParen p2) (\<lambda>_ p3. Parsed labels p3)))"

definition group_include :: "unicode_tables \<Rightarrow> nat \<Rightarrow> VectorMatching \<Rightarrow> Parser \<Rightarrow> VectorMatching option parsed" where
  "group_include U n vm p =
     (if tok p = ItemLeftParen
      then bindp (parseGrouping U n p) (\<lambda>include p1. Parsed (Some (vm\<lparr>Include := include\<rparr>)) p1)
      else Parsed (Some vm) p)"

definition parseVectorMatching :: "unicode_tables \<Rightarrow> nat \<Rightarrow> Parser \<Rightarrow> VectorMatching option parsed" where
  "parseVectorMatching U n p =
     (if tok p \<noteq> ItemOn \<and> tok p \<noteq> ItemIgnoring then Parsed None p
      else bindp (parseGrouping U n (advance U p)) (\<lambda>labels p1.
        let vm = \<lparr>Card = CardOneToOne, MatchingLabels = labels, On = (tok p = ItemOn), Include = []\<rparr> in
        if tok p1 = ItemGroupLeft then group_include U n (vm\<lparr>Card := CardManyToOne\<rparr>) (advance U p1)
        else if tok p1 = ItemGroupRight then group_include U n (vm\<lparr>Card := CardOneToMany\<rparr>) (advance U p1)
        else Parsed (Some vm) p1))"

definition match_op :: "ItemType \<Rightarrow> LabelMatchType option" where
  "match_op t = (if t = ItemAssign then Some MatchEqual else if t = ItemNeq then Some MatchNotEqual
     else if t = ItemEqlMatch then Some MatchRegexp else if t = ItemNeqMatch then Some MatchNotRegexp else None)"

definition parseLabelMatcher :: "unicode_tables \<Rightarrow> Parser \<Rightarrow> LabelMatcher parsed" where
  "parseLabelMatcher U p =
     (if tok p \<noteq> ItemIdentifier then errorf (''expected label name, got '' @ itemTypeStr (tok p)) p
      else let p1 = advance U p in
        case match_op (tok p1) of
          None \<Rightarrow> errorf (''expected label match operator, got '' @ itemTypeStr (tok p1)) p1
        | Some mt \<Rightarrow>
            (let p2 = advance U p1 in
             if tok p2 \<noteq> ItemString then errorf (''expected string, got '' @ itemTypeStr (tok p2)) p2
             else Parsed \<lparr>MatchType = mt, MatchName = tok_val p, MatchValue = tok_val p2\<rparr> (advance U p2)))"

text \<open>The loop of \<open>parseLabelMatchers\<close>, which allows a trailing comma.\<close>

fun matchers_loop :: "unicode_tables \<Rightarrow> nat \<Rightarrow> LabelMatcher list \<Rightarrow> Parser \<Rightarrow> LabelMatcher list parsed" where
  "matchers_loop U 0 ms p = NoFuel"
| "matchers_loop U (Suc n) ms p =
     bindp (parseLabelMatcher U p) (\<lambda>m p1.
       let ms1 = ms @ [m] in
       if tok p1 \<noteq> ItemComma then Parsed ms1 p1
       else let p2 = advance U p1 in if tok p2 = ItemRightBrace then Parsed ms1 p2 else matchers_loop U n ms1 p2)"

definition parseLabelMatchers :: "unicode_tables \<Rightarrow> nat \<Rightarrow> Parser \<Rightarrow> LabelMatcher list parsed" where
  "parseLabelMatchers U n p =
     bindp (expect U ItemLeftBrace p) (\<lambda>_ p1.
       if tok p1 = ItemRightBrace then Parsed [] (advance U p1)
       else bindp (matchers_loop U n [] p1) (\<lambda>ms p2.
         bindp (expect U ItemRightBrace p2) (\<lambda>_ p3. Parsed ms p3)))"

section \<open>Selectors\<close>

text \<open>The \<open>offset\<close> and \<open>@\<close> modifiers, the same code for both kinds of selector.\<close>

definition parse_offset :: "unicode_tables \<Rightarrow> (f64 \<Rightarrow> int) \<Rightarrow> VectorSelectorNode \<Rightarrow> Parser \<Rightarrow> VectorSelectorNode parsed" where
  "parse_offset U out vs p =
     (if tok p = ItemOffset
      then bindp (parseDuration U out (advance U p)) (\<lambda>d p1. Parsed (vs\<lparr>SelOffset := d\<rparr>) p1)
      else Parsed vs p)"

definition parse_parens :: "unicode_tables \<Rightarrow> VectorSelectorNode \<Rightarrow> Parser \<Rightarrow> VectorSelectorNode parsed" where
  "parse_parens U vs p =
     bindp (expect U ItemLeftParen p) (\<lambda>_ p1. bindp (expect U ItemRightParen p1) (\<lambda>_ p2. Parsed vs p2))"

definition parse_at :: "unicode_tables \<Rightarrow> VectorSelectorNode \<Rightarrow> Parser \<Rightarrow> VectorSelectorNode parsed" where
  "parse_at U vs p =
     (if tok p \<noteq> ItemAt then Parsed vs p
      else let p1 = advance U p in
        if tok p1 = ItemStart then parse_parens U (vs\<lparr>StartOrEnd := 1\<rparr>) (advance U p1)
        else if tok p1 = ItemEnd then parse_parens U (vs\<lparr>StartOrEnd := 2\<rparr>) (advance U p1)
        else if tok p1 = ItemNumber then
          (case parse_int64 (tok_val p1) of
             None \<Rightarrow> errorf (''invalid timestamp: '' @ tok_val p1) p1
           | Some ts \<Rightarrow> Parsed (vs\<lparr>Timestamp := Some ts\<rparr>) (advance U p1))
        else errorf ''expected timestamp or start()/end() after @'' p1)"

definition parse_subquery :: "unicode_tables \<Rightarrow> (f64 \<Rightarrow> int) \<Rightarrow> VectorSelectorNode \<Rightarrow> duration \<Rightarrow> Pos \<Rightarrow> Parser \<Rightarrow> Expr parsed"
  where
  "parse_subquery U out vs rng pos0 p =
     bindp (if tok p = ItemDuration then parseDuration U out p else Parsed 0 p) (\<lambda>step p1.
       bindp (expect U ItemRightBracket p1) (\<lambda>_ p2.
         if tok p2 = ItemOffset
         then bindp (parseDuration U out (advance U p2)) (\<lambda>ofs p3.
           Parsed (Subquery (VectorSelector vs) rng step ofs pos0) p3)
         else Parsed (Subquery (VectorSelector vs) rng step 0 pos0) p2))"

definition parseMatrixSelector :: "unicode_tables \<Rightarrow> (f64 \<Rightarrow> int) \<Rightarrow> VectorSelectorNode \<Rightarrow> Parser \<Rightarrow> Expr parsed" where
  "parseMatrixSelector U out vs p =
     bindp (expect U ItemLeftBracket p) (\<lambda>_ p1.
       bindp (parseDuration U out p1) (\<lambda>rng p2.
         if tok p2 = ItemColon then parse_subquery U out vs rng (tok_pos p) (advance U p2)
         else bindp (expect U ItemRightBracket p2) (\<lambda>_ p3.
           bindp (parse_offset U out vs p3) (\<lambda>vs1 p4.
             bindp (parse_at U vs1 p4) (\<lambda>vs2 p5. Parsed (MatrixSelector vs2 rng (tok_pos p)) p5)))))"

definition parseVectorSelector :: "unicode_tables \<Rightarrow> (f64 \<Rightarrow> int) \<Rightarrow> nat \<Rightarrow> string \<Rightarrow> Pos \<Rightarrow> Parser \<Rightarrow> Expr parsed" where
  "parseVectorSelector U out n name pos0 p =
     bindp (if tok p = ItemLeftBrace then parseLabelMatchers U n p else Parsed [] p) (\<lambda>ms p1.
       let vs = \<lparr>SelName = name, LabelMatchers = ms, SelOffset = 0, Timestamp = None, StartOrEnd = 0, SelPos = pos0\<rparr> in
       if tok p1 = ItemLeftBracket then parseMatrixSelector U out vs p1
       else bindp (parse_offset U out vs p1) (\<lambda>vs1 p2.
         bindp (parse_at U vs1 p2) (\<lambda>vs2 p3. Parsed (VectorSelector vs2) p3)))"

section \<open>Primary expressions\<close>

text \<open>\<open>pe\<close> stands for \<open>parseExpr\<close>.\<close>

fun args_loop :: "unicode_tables \<Rightarrow> nat \<Rightarrow> (Parser \<Rightarrow> Expr parsed) \<Rightarrow> Expr list \<Rightarrow> Parser \<Rightarrow> Expr list parsed" where
  "args_loop U 0 pe args p = NoFuel"
| "args_loop U (Suc n) pe args p =
     bindp (pe p) (\<lambda>a p1.
       if tok p1 \<noteq> ItemComma then Parsed (args @ [a]) p1 else args_loop U n pe (args @ [a]) (advance U p1))"

definition parseCallArgs :: "unicode_tables \<Rightarrow> nat \<Rightarrow> (Parser \<Rightarrow> Expr parsed) \<Rightarrow> Parser \<Rightarrow> Expr list parsed" where
  "parseCallArgs U n pe p = (if tok p = ItemRightParen then Parsed [] p else args_loop U n pe [] p)"

definition parseFunctionCall :: "unicode_tables \<Rightarrow> nat \<Rightarrow> (Parser \<Rightarrow> Expr parsed) \<Rightarrow> string \<Rightarrow> Pos \<Rightarrow> Parser \<Rightarrow> Expr parsed"
  where
  "parseFunctionCall U n pe name pos0 p =
     (case GetFunction name of
        None \<Rightarrow> errorf (''unknown function: '' @ name) p
      | Some f \<Rightarrow>
          bindp (expect U ItemLeftParen p) (\<lambda>_ p1.
            bindp (parseCallArgs U n pe p1) (\<lambda>args p2.
              bindp (expect U ItemRightParen p2) (\<lambda>_ p3. Parsed (Call f args pos0) p3))))"

definition parseVectorSelectorOrFunction ::
  "unicode_tables \<Rightarrow> (f64 \<Rightarrow> int) \<Rightarrow> nat \<Rightarrow> (Parser \<Rightarrow> Expr parsed) \<Rightarrow> Parser \<Rightarrow> Expr parsed" where
  "parseVectorSelectorOrFunction U out n pe p =
     (let p1 = advance U p in
      if tok p1 = ItemLeftParen then parseFunctionCall U n pe (tok_val p) (tok_pos p) p1
      else parseVectorSelector U out n (tok_val p) (tok_pos p) p1)"

definition parseParen :: "unicode_tables \<Rightarrow> (Parser \<Rightarrow> Expr parsed) \<Rightarrow> Parser \<Rightarrow> Expr parsed" where
  "parseParen U pe p =
     bindp (expect U ItemLeftParen p) (\<lambda>_ p1.
       bindp (pe p1) (\<lambda>e p2.
         bindp (expect U ItemRightParen p2) (\<lambda>_ p3. Parsed (ParenExpr e (tok_pos p)) p3)))"

definition has_param :: "ItemType \<Rightarrow> bool" where
  "has_param op \<longleftrightarrow> op = ItemTopK \<or> op = ItemBottomK \<or> op = ItemQuantile \<or> op = ItemCountValues"

definition parse_by :: "unicode_tables \<Rightarrow> nat \<Rightarrow> Parser \<Rightarrow> (string list \<times> bool) parsed" where
  "parse_by U n p =
     (if tok p = ItemBy \<or> tok p = ItemWithout
      then bindp (parseGrouping U n (advance U p)) (\<lambda>labels p1. Parsed (labels, tok p = ItemWithout) p1)
      else Parsed ([], False) p)"

text \<open>A grouping after the arguments is read only when none stood before them; an empty list \<open>by ()\<close>
  is a nil slice and counts as none.\<close>

definition parseAggregateExpr :: "unicode_tables \<Rightarrow> nat \<Rightarrow> (Parser \<Rightarrow> Expr parsed) \<Rightarrow> Parser \<Rightarrow> Expr parsed" where
  "parseAggregateExpr U n pe p =
     bindp (parse_by U n (advance U p)) (\<lambda>(grouping, without) p1.
       bindp (expect U ItemLeftParen p1) (\<lambda>_ p2.
         bindp (if has_param (tok p)
                then bindp (pe p2) (\<lambda>param q. bindp (expect U ItemComma q) (\<lambda>_ q1. Parsed (Some param) q1))
                else Parsed None p2) (\<lambda>param p3.
           bindp (pe p3) (\<lambda>e p4.
             bindp (expect U ItemRightParen p4) (\<lambda>_ p5.
               bindp (if grouping = [] \<and> (tok p5 = ItemBy \<or> tok p5 = ItemWithout) then parse_by U n p5
                      else Parsed (grouping, without) p5) (\<lambda>(grouping1, without1) p6.
                 Parsed (AggregateExpr (tok p) e param grouping1 without1 (tok_pos p)) p6))))))"

definition parsePrimaryExpr ::
  "unicode_tables \<Rightarrow> (f64 \<Rightarrow> int) \<Rightarrow> nat \<Rightarrow> (Parser \<Rightarrow> Expr parsed) \<Rightarrow> Parser \<Rightarrow> Expr parsed" where
  "parsePrimaryExpr U out n pe p =
     (if tok p = ItemNumber then parseNumber U p
      else if tok p = ItemString then parseString U p
      else if tok p = ItemLeftParen then parseParen U pe p
      else if tok p = ItemIdentifier then parseVectorSelectorOrFunction U out n pe p
      else if IsAggregator (tok p) then parseAggregateExpr U n pe p
      else errorf (''unexpected token '' @ itemTypeStr (tok p)) p)"

section \<open>Operators\<close>

fun parseUnaryExpr :: "unicode_tables \<Rightarrow> nat \<Rightarrow> (Parser \<Rightarrow> Expr parsed) \<Rightarrow> Parser \<Rightarrow> Expr parsed" where
  "parseUnaryExpr U 0 prim p = NoFuel"
| "parseUnaryExpr U (Suc n) prim p =
     (if tok p = ItemAdd then
        bindp (parseUnaryExpr U n prim (advance U p)) (\<lambda>e p1. Parsed (UnaryExpr ItemAdd e (tok_pos p)) p1)
      else if tok p = ItemSub then
        bindp (parseUnaryExpr U n prim (advance U p)) (\<lambda>e p1. Parsed (UnaryExpr ItemSub e (tok_pos p)) p1)
      else prim p)"

fun parsePower :: "unicode_tables \<Rightarrow> nat \<Rightarrow> (Parser \<Rightarrow> Expr parsed) \<Rightarrow> Parser \<Rightarrow> Expr parsed" where
  "parsePower U 0 prim p = NoFuel"
| "parsePower U (Suc n) prim p =
     bindp (parseUnaryExpr U (Suc n) prim p) (\<lambda>lhs p1.
       if tok p1 = ItemPow then
         bindp (parseVectorMatching U n (advance U p1)) (\<lambda>vm p2.
           bindp (parsePower U n prim p2) (\<lambda>rhs p3.
             Parsed (BinaryExpr OpPow lhs rhs vm False (tok_pos p1)) p3))
       else Parsed lhs p1)"

text \<open>The loop that the left-associative levels share: while the item is an operator of the level,
  read the modifiers and the right operand. Only comparisons look for \<open>bool\<close>.\<close>

fun binary_loop :: "unicode_tables \<Rightarrow> nat \<Rightarrow> (ItemType \<Rightarrow> BinaryOp option) \<Rightarrow> bool \<Rightarrow> (Parser \<Rightarrow> Expr parsed) \<Rightarrow> Expr \<Rightarrow>
    Parser \<Rightarrow> Expr parsed" where
  "binary_loop U 0 ops cmp sub lhs p = NoFuel"
| "binary_loop U (Suc n) ops cmp sub lhs p =
     (case ops (tok p) of
        None \<Rightarrow> Parsed lhs p
      | Some op \<Rightarrow>
          (let p1 = advance U p;
               returnBool = (cmp \<and> tok p1 = ItemBool);
               p2 = (if returnBool then advance U p1 else p1)
           in bindp (parseVectorMatching U n p2) (\<lambda>vm p3.
                bindp (sub p3) (\<lambda>rhs p4.
                  binary_loop U n ops cmp sub (BinaryExpr op lhs rhs vm returnBool (tok_pos p)) p4))))"

definition binary_level :: "unicode_tables \<Rightarrow> nat \<Rightarrow> (ItemType \<Rightarrow> BinaryOp option) \<Rightarrow> bool \<Rightarrow> (Parser \<Rightarrow> Expr parsed) \<Rightarrow>
    Parser \<Rightarrow> Expr parsed" where
  "binary_level U n ops cmp sub p = bindp (sub p) (\<lambda>lhs p1. binary_loop U n ops cmp sub lhs p1)"

definition mul_ops :: "ItemType \<Rightarrow> BinaryOp option" where
  "mul_ops t = (if t = ItemMul then Some OpMul else if t = ItemDiv then Some OpDiv else if t = ItemMod then Some OpMod
     else if t = ItemAtan2 then Some OpAtan2 else None)"

definition add_ops :: "ItemType \<Rightarrow> BinaryOp option" where
  "add_ops t = (if t = ItemAdd then Some OpAdd else if t = ItemSub then Some OpSub else None)"

definition cmp_ops :: "ItemType \<Rightarrow> BinaryOp option" where
  "cmp_ops t = (if t = ItemEql then Some OpEql else if t = ItemNeq then Some OpNeq else if t = ItemLss then Some OpLss
     else if t = ItemGtr then Some OpGtr else if t = ItemLte then Some OpLte else if t = ItemGte then Some OpGte else None)"

definition one_op :: "ItemType \<Rightarrow> BinaryOp \<Rightarrow> ItemType \<Rightarrow> BinaryOp option" where
  "one_op typ op t = (if t = typ then Some op else None)"

definition parseMultiplicative :: "unicode_tables \<Rightarrow> nat \<Rightarrow> (Parser \<Rightarrow> Expr parsed) \<Rightarrow> Parser \<Rightarrow> Expr parsed" where
  "parseMultiplicative U n prim = binary_level U n mul_ops False (parsePower U n prim)"

definition parseAdditive :: "unicode_tables \<Rightarrow> nat \<Rightarrow> (Parser \<Rightarrow> Expr parsed) \<Rightarrow> Parser \<Rightarrow> Expr parsed" where
  "parseAdditive U n prim = binary_level U n add_ops False (parseMultiplicative U n prim)"

definition parseComparison :: "unicode_tables \<Rightarrow> nat \<Rightarrow> (Parser \<Rightarrow> Expr parsed) \<Rightarrow> Parser \<Rightarrow> Expr parsed" where
  "parseComparison U n prim = binary_level U n cmp_ops True (parseAdditive U n prim)"

definition parseUnless :: "unicode_tables \<Rightarrow> nat \<Rightarrow> (Parser \<Rightarrow> Expr parsed) \<Rightarrow> Parser \<Rightarrow> Expr parsed" where
  "parseUnless U n prim = binary_level U n (one_op ItemUnless OpUnless) False (parseComparison U n prim)"

definition parseAnd :: "unicode_tables \<Rightarrow> nat \<Rightarrow> (Parser \<Rightarrow> Expr parsed) \<Rightarrow> Parser \<Rightarrow> Expr parsed" where
  "parseAnd U n prim = binary_level U n (one_op ItemAnd OpAnd) False (parseUnless U n prim)"

definition parseOr :: "unicode_tables \<Rightarrow> nat \<Rightarrow> (Parser \<Rightarrow> Expr parsed) \<Rightarrow> Parser \<Rightarrow> Expr parsed" where
  "parseOr U n prim = binary_level U n (one_op ItemOr OpOr) False (parseAnd U n prim)"

fun parseExpr :: "unicode_tables \<Rightarrow> (f64 \<Rightarrow> int) \<Rightarrow> nat \<Rightarrow> Parser \<Rightarrow> Expr parsed" where
  "parseExpr U out 0 p = NoFuel"
| "parseExpr U out (Suc n) p = parseOr U (Suc n) (parsePrimaryExpr U out (Suc n) (parseExpr U out n)) p"

definition start_parser :: "unicode_tables \<Rightarrow> string \<Rightarrow> Parser" where
  "start_parser U q =
     advance U \<lparr>lexer = NewLexer q, token = \<lparr>Typ = ItemError, ItemPos = \<lparr>Offset = 0, Line = 0, Column = 0\<rparr>, Val = []\<rparr>,
       query = q\<rparr>"

definition Parse :: "unicode_tables \<Rightarrow> (f64 \<Rightarrow> int) \<Rightarrow> string \<Rightarrow> Expr parsed" where
  "Parse U out q = parseExpr U out (length q + 1) (start_parser U q)"

end
