(* ===== verification/Promql_Parsing.thy ===== *)
theory Promql_Parsing
  imports Promql_Parser
begin

text \<open>
  What the PromQL parser guarantees: it ends on every query with an expression or an error, and the
  expression it gives is well formed.
\<close>

section \<open>Progress\<close>

text \<open>Items that take up input. A number may be empty (a digit outside Latin-1), and the end and
  errors do not move.\<close>

definition consuming :: "ItemType \<Rightarrow> bool" where
  "consuming t \<longleftrightarrow> t \<noteq> ItemEOF \<and> t \<noteq> ItemError \<and> t \<noteq> ItemNumber"

definition ok_pos :: "Parser \<Rightarrow> bool" where
  "ok_pos p \<longleftrightarrow> pos (lexer p) \<le> length (input (lexer p))"

text \<open>What is left to parse.\<close>

definition rem :: "Parser \<Rightarrow> nat" where
  "rem p = left (lexer p) + (if consuming (tok p) then 1 else 0)"

lemma NextItem_progress:
  assumes "pos l \<le> length (input l)" "NextItem U l = (it, l1)"
  shows "moves l l1 \<and> (consuming (Typ it) \<longrightarrow> pos l < pos l1)"
proof (cases "stuck U l")
  case True
  then show ?thesis using stuck_next [OF True] assms moves_whitespace [OF assms(1)] by (auto simp: consuming_def)
next
  case False
  then have "token_at (skipWhitespace l) (it, l1)" using NextItem_token [OF False assms(1)] assms(2) by simp
  with moves_whitespace [OF assms(1)] show ?thesis
    by (auto simp: token_at_def moves_def consuming_def final_type_def)
qed

lemma advance_progress:
  assumes "ok_pos p"
  shows "ok_pos (advance U p) \<and> rem (advance U p) + (if consuming (tok p) then 1 else 0) \<le> rem p"
proof -
  obtain it l1 where n: "NextItem U (lexer p) = (it, l1)" by force
  have m: "input l1 = input (lexer p)" "pos (lexer p) \<le> pos l1" "pos l1 \<le> length (input (lexer p))"
      "consuming (Typ it) \<longrightarrow> pos (lexer p) < pos l1"
    using NextItem_progress [OF _ n] assms by (auto simp: ok_pos_def moves_def)
  then have "left l1 + (if consuming (Typ it) then 1 else 0) \<le> left (lexer p)" by (auto simp: left_def)
  then show ?thesis using n m by (simp add: advance_def ok_pos_def rem_def)
qed

lemma advance_ok: "ok_pos p \<Longrightarrow> ok_pos (advance U p)"
  using advance_progress by blast

lemma advance_le: "ok_pos p \<Longrightarrow> rem (advance U p) \<le> rem p"
  using advance_progress [of p U] by simp

lemma advance_less: "ok_pos p \<Longrightarrow> consuming (tok p) \<Longrightarrow> rem (advance U p) \<le> rem p - 1"
  using advance_progress [of p U] by auto

lemma rem_pos: "consuming (tok p) \<Longrightarrow> 0 < rem p"
  by (simp add: rem_def)

section \<open>Results that did not run out of fuel\<close>

definition runs :: "nat \<Rightarrow> 'a parsed \<Rightarrow> bool" where
  "runs b r \<longleftrightarrow> (case r of NoFuel \<Rightarrow> False | Failed e \<Rightarrow> True | Parsed x p \<Rightarrow> ok_pos p \<and> rem p \<le> b)"

lemma runs_simps [simp]: "\<not> runs b NoFuel" "runs b (Failed e)" "runs b (Parsed x p) \<longleftrightarrow> ok_pos p \<and> rem p \<le> b"
  by (simp_all add: runs_def)

lemma runs_errorf [simp]: "runs b (errorf msg p)"
  by (simp add: errorf_def)

lemma runs_bind:
  assumes "runs b m" "\<And>x p. m = Parsed x p \<Longrightarrow> ok_pos p \<Longrightarrow> rem p \<le> b \<Longrightarrow> runs c (f x p)"
  shows "runs c (bindp m f)"
  using assms by (cases m) (auto simp: bindp_def)

lemma runs_mono: "runs b r \<Longrightarrow> b \<le> c \<Longrightarrow> runs c r"
  by (cases r) auto

lemma runs_expect: "ok_pos p \<Longrightarrow> consuming typ \<Longrightarrow> runs (rem p - 1) (expect U typ p)"
  using advance_ok advance_less by (auto simp: expect_def)

lemma expect_pos: "expect U typ p = Parsed x p1 \<Longrightarrow> consuming typ \<Longrightarrow> 0 < rem p"
  by (cases "tok p = typ") (auto simp: expect_def errorf_def rem_def)

lemma runs_number: "ok_pos p \<Longrightarrow> runs (rem p) (parseNumber U p)"
  by (auto simp: parseNumber_def Let_def advance_ok advance_le split: option.split)

lemma runs_string: "ok_pos p \<Longrightarrow> runs (rem p) (parseString U p)"
  by (auto simp: parseString_def advance_ok advance_le)

lemma runs_duration: "ok_pos p \<Longrightarrow> runs (rem p) (parseDuration U out p)"
  by (auto simp: parseDuration_def advance_ok advance_le split: outcome.split)

lemma consuming_types [simp]:
  "consuming ItemLeftParen" "consuming ItemRightParen" "consuming ItemLeftBrace" "consuming ItemRightBrace"
  "consuming ItemLeftBracket" "consuming ItemRightBracket" "consuming ItemComma" "consuming ItemIdentifier"
  "consuming ItemColon" "consuming ItemAt" "consuming ItemOffset" "consuming ItemOn" "consuming ItemIgnoring"
  "consuming ItemBy" "consuming ItemWithout" "consuming ItemPow" "consuming ItemAdd" "consuming ItemSub"
  by (simp_all add: consuming_def)

lemma runs_grouping_loop: "ok_pos p \<Longrightarrow> rem p < n \<Longrightarrow> runs (rem p) (grouping_loop U n labels p)"
proof (induction n arbitrary: labels p)
  case (Suc n)
  show ?case
  proof (cases "tok p = ItemIdentifier")
    case True
    let ?p1 = "advance U p" and ?p2 = "advance U (advance U p)"
    have c: "consuming (tok p)" using True by simp
    have 1: "ok_pos ?p1" "rem ?p1 \<le> rem p - 1" using Suc.prems(1) c advance_less [of p U] advance_ok by auto
    have 2: "ok_pos ?p2" "rem ?p2 \<le> rem ?p1" using 1 by (auto intro: advance_ok advance_le)
    have "runs (rem ?p2) (grouping_loop U n (labels @ [tok_val p]) ?p2)"
      using Suc.prems(2) rem_pos [OF c] 1 2 by (intro Suc.IH) auto
    then show ?thesis using True 1 2 by (auto simp: Let_def intro: runs_mono)
  qed simp
qed simp

lemma runs_grouping:
  assumes "ok_pos p" "rem p < Suc n"
  shows "runs (rem p) (parseGrouping U n p)"
  unfolding parseGrouping_def
proof (rule runs_bind [OF runs_expect [OF assms(1)]])
  fix x p1 assume e: "expect U ItemLeftParen p = Parsed x p1" and p1: "ok_pos p1" "rem p1 \<le> rem p - 1"
  have "0 < rem p" using expect_pos [OF e] by simp
  then have "rem p1 < n" using p1 assms by simp
  then have loop: "runs (rem p1) (grouping_loop U n [] p1)" using p1 by (intro runs_grouping_loop)
  show "runs (rem p) (if tok p1 = ItemRightParen then Parsed [] (advance U p1)
      else bindp (grouping_loop U n [] p1) (\<lambda>labels p2. bindp (expect U ItemRightParen p2) (\<lambda>_. Parsed labels)))"
    using p1 advance_ok [OF p1(1)] advance_le [OF p1(1), of U]
    by (auto intro!: runs_bind [OF loop] runs_bind [OF runs_expect])
qed simp

lemma runs_include:
  assumes "ok_pos p" "rem p < Suc n"
  shows "runs (rem p) (group_include U n vm p)"
  using assms by (auto simp: group_include_def intro!: runs_bind [OF runs_grouping])

lemma runs_vector_matching:
  assumes "ok_pos p" "rem p < Suc n"
  shows "runs (rem p) (parseVectorMatching U n p)"
proof (cases "tok p \<noteq> ItemOn \<and> tok p \<noteq> ItemIgnoring")
  case False
  let ?q = "advance U p"
  have q: "ok_pos ?q" "rem ?q \<le> rem p" "rem ?q < Suc n"
    using assms advance_ok [of p U] advance_le [of p U] by auto
  have inc: "runs (rem p) (group_include U n vm (advance U p1))" if "ok_pos p1" "rem p1 \<le> rem ?q" for p1 vm
  proof -
    have "ok_pos (advance U p1)" "rem (advance U p1) \<le> rem p"
      using that q advance_ok [of p1 U] advance_le [of p1 U] by auto
    then show ?thesis using runs_include [of "advance U p1" n U vm] assms(2) runs_mono by auto
  qed
  show ?thesis
    unfolding parseVectorMatching_def
    using False q inc by (auto simp: Let_def intro!: runs_bind [OF runs_grouping])
qed (use assms in \<open>simp add: parseVectorMatching_def\<close>)

lemma label_matcher_start: "parseLabelMatcher U p = Parsed m p1 \<Longrightarrow> 0 < rem p"
  by (cases "tok p = ItemIdentifier") (auto simp: parseLabelMatcher_def errorf_def rem_def)

lemma runs_label_matcher:
  assumes "ok_pos p"
  shows "runs (rem p - 1) (parseLabelMatcher U p)"
proof (cases "tok p = ItemIdentifier")
  case True
  let ?p1 = "advance U p" and ?p2 = "advance U (advance U p)"
  have 1: "ok_pos ?p1" "rem ?p1 \<le> rem p - 1" using assms True advance_ok advance_less [of p U] by auto
  have 2: "ok_pos ?p2" "rem ?p2 \<le> rem p - 1" using 1 advance_ok advance_le [of ?p1 U] by auto
  have "ok_pos (advance U ?p2)" "rem (advance U ?p2) \<le> rem p - 1" using 2 advance_ok advance_le [of ?p2 U] by auto
  then show ?thesis by (simp add: parseLabelMatcher_def Let_def split: option.split)
qed (simp add: parseLabelMatcher_def)

lemma runs_matchers_loop: "ok_pos p \<Longrightarrow> rem p < n \<Longrightarrow> runs (rem p) (matchers_loop U n ms p)"
proof (induction n arbitrary: ms p)
  case (Suc n)
  show ?case
    unfolding matchers_loop.simps
  proof (rule runs_bind [OF runs_label_matcher [OF Suc.prems(1)]])
    fix m p1 assume m: "parseLabelMatcher U p = Parsed m p1" and p1: "ok_pos p1" "rem p1 \<le> rem p - 1"
    let ?p2 = "advance U p1"
    have p2: "ok_pos ?p2" "rem ?p2 \<le> rem p1" using p1 advance_ok advance_le by auto
    have "rem ?p2 < n" using label_matcher_start [OF m] p1 p2 Suc.prems(2) by simp
    then have "runs (rem ?p2) (matchers_loop U n (ms @ [m]) ?p2)" using p2 by (intro Suc.IH)
    then show "runs (rem p) (let ms1 = ms @ [m] in if tok p1 \<noteq> ItemComma then Parsed ms1 p1
        else let p2 = advance U p1 in if tok p2 = ItemRightBrace then Parsed ms1 p2 else matchers_loop U n ms1 p2)"
      using p1 p2 by (auto simp: Let_def intro: runs_mono)
  qed
qed simp

lemma runs_label_matchers:
  assumes "ok_pos p" "rem p < Suc n"
  shows "runs (rem p) (parseLabelMatchers U n p)"
  unfolding parseLabelMatchers_def
proof (rule runs_bind [OF runs_expect [OF assms(1)]])
  fix x p1 assume e: "expect U ItemLeftBrace p = Parsed x p1" and p1: "ok_pos p1" "rem p1 \<le> rem p - 1"
  have "rem p1 < n" using expect_pos [OF e] p1 assms by simp
  then have loop: "runs (rem p1) (matchers_loop U n [] p1)" using p1 by (intro runs_matchers_loop)
  show "runs (rem p) (if tok p1 = ItemRightBrace then Parsed [] (advance U p1)
      else bindp (matchers_loop U n [] p1) (\<lambda>ms p2. bindp (expect U ItemRightBrace p2) (\<lambda>_. Parsed ms)))"
    using p1 advance_ok [OF p1(1)] advance_le [OF p1(1), of U]
    by (auto intro!: runs_bind [OF loop] runs_bind [OF runs_expect])
qed simp

section \<open>Selectors\<close>

lemma runs_offset: "ok_pos p \<Longrightarrow> runs (rem p) (parse_offset U out vs p)"
  using advance_ok [of p U] advance_le [of p U]
  by (auto simp: parse_offset_def intro!: runs_bind [OF runs_duration])

lemma runs_parens: "ok_pos p \<Longrightarrow> runs (rem p) (parse_parens U vs p)"
  by (auto simp: parse_parens_def intro!: runs_bind [OF runs_expect])

lemma runs_at:
  assumes "ok_pos p"
  shows "runs (rem p) (parse_at U vs p)"
proof -
  let ?p1 = "advance U p" and ?p2 = "advance U (advance U p)"
  have 1: "ok_pos ?p1" "rem ?p1 \<le> rem p" using assms advance_ok advance_le by auto
  have 2: "ok_pos ?p2" "rem ?p2 \<le> rem p" using 1 advance_ok advance_le [of ?p1 U] by auto
  have "runs (rem p) (parse_parens U w ?p2)" for w using runs_parens [OF 2(1)] 2(2) runs_mono by blast
  then show ?thesis using assms 2 by (auto simp: parse_at_def Let_def split: option.split)
qed

lemma runs_subquery:
  assumes "ok_pos p"
  shows "runs (rem p) (parse_subquery U out vs r q p)"
proof -
  have first: "runs (rem p) (if tok p = ItemDuration then parseDuration U out p else Parsed 0 p)"
    using assms runs_duration by auto
  have adv: "ok_pos p2 \<Longrightarrow> ok_pos (advance U p2) \<and> rem (advance U p2) \<le> rem p2" for p2
    using advance_ok advance_le by blast
  show ?thesis
    unfolding parse_subquery_def
    by (rule runs_bind [OF first], rule runs_bind [OF runs_expect])
      (auto intro!: runs_bind [OF runs_duration] dest: adv)
qed

lemma runs_matrix:
  assumes "ok_pos p"
  shows "runs (rem p) (parseMatrixSelector U out vs p)"
  unfolding parseMatrixSelector_def
proof (rule runs_bind [OF runs_expect [OF assms]])
  fix x p1 assume p1: "ok_pos p1" "rem p1 \<le> rem p - 1"
  show "runs (rem p) (bindp (parseDuration U out p1) (\<lambda>rng p2.
      if tok p2 = ItemColon then parse_subquery U out vs rng (tok_pos p) (advance U p2)
      else bindp (expect U ItemRightBracket p2) (\<lambda>_ p3. bindp (parse_offset U out vs p3) (\<lambda>vs1 p4.
        bindp (parse_at U vs1 p4) (\<lambda>vs2. Parsed (MatrixSelector vs2 rng (tok_pos p)))))))"
  proof (rule runs_bind [OF runs_duration [OF p1(1)]])
    fix rng p2 assume p2: "ok_pos p2" "rem p2 \<le> rem p1"
    have "ok_pos (advance U p2)" "rem (advance U p2) \<le> rem p" using p1 p2 advance_ok advance_le [of p2 U] by auto
    then have sub: "runs (rem p) (parse_subquery U out vs rng (tok_pos p) (advance U p2))"
      using runs_subquery runs_mono by blast
    show "runs (rem p) (if tok p2 = ItemColon then parse_subquery U out vs rng (tok_pos p) (advance U p2)
      else bindp (expect U ItemRightBracket p2) (\<lambda>_ p3. bindp (parse_offset U out vs p3) (\<lambda>vs1 p4.
        bindp (parse_at U vs1 p4) (\<lambda>vs2. Parsed (MatrixSelector vs2 rng (tok_pos p))))))"
      using sub p1 p2
      by (auto intro!: runs_bind [OF runs_expect] runs_bind [OF runs_offset] runs_bind [OF runs_at])
  qed
qed simp

lemma runs_selector:
  assumes "ok_pos p" "rem p < Suc n"
  shows "runs (rem p) (parseVectorSelector U out n name q p)"
proof -
  have first: "runs (rem p) (if tok p = ItemLeftBrace then parseLabelMatchers U n p else Parsed [] p)"
    using assms runs_label_matchers by auto
  have matrix: "ok_pos p1 \<Longrightarrow> rem p1 \<le> rem p \<Longrightarrow> runs (rem p) (parseMatrixSelector U out vs p1)" for vs p1
    using runs_matrix runs_mono by blast
  show ?thesis
    unfolding parseVectorSelector_def
    by (rule runs_bind [OF first])
      (auto simp: Let_def intro!: matrix runs_bind [OF runs_offset] runs_bind [OF runs_at])
qed

section \<open>Expressions\<close>

text \<open>A parsing function that has enough fuel for every state with less than \<open>n\<close> left.\<close>

definition fits :: "nat \<Rightarrow> (Parser \<Rightarrow> 'a parsed) \<Rightarrow> bool" where
  "fits n f \<longleftrightarrow> (\<forall>p. ok_pos p \<longrightarrow> rem p < n \<longrightarrow> runs (rem p) (f p))"

lemma fitsD: "fits n f \<Longrightarrow> ok_pos p \<Longrightarrow> rem p < n \<Longrightarrow> runs (rem p) (f p)"
  by (simp add: fits_def)

lemma runs_args_loop:
  assumes pe: "fits N pe"
  shows "ok_pos p \<Longrightarrow> rem p < N \<Longrightarrow> rem p < n \<Longrightarrow> runs (rem p) (args_loop U n pe args p)"
proof (induction n arbitrary: args p)
  case (Suc n)
  show ?case
    unfolding args_loop.simps
  proof (rule runs_bind [OF fitsD [OF pe Suc.prems(1,2)]])
    fix a p1 assume p1: "ok_pos p1" "rem p1 \<le> rem p"
    have "runs (rem p) (args_loop U n pe (args @ [a]) (advance U p1))" if "tok p1 = ItemComma"
    proof -
      have c: "consuming (tok p1)" using that by simp
      have p2: "ok_pos (advance U p1)" "rem (advance U p1) \<le> rem p1 - 1"
        using p1 c advance_ok advance_less by auto
      then have "runs (rem (advance U p1)) (args_loop U n pe (args @ [a]) (advance U p1))"
        using rem_pos [OF c] p1 Suc.prems by (intro Suc.IH) auto
      then show ?thesis using p1 p2 by (auto intro: runs_mono)
    qed
    then show "runs (rem p) (if tok p1 \<noteq> ItemComma then Parsed (args @ [a]) p1
        else args_loop U n pe (args @ [a]) (advance U p1))"
      using p1 by simp
  qed
qed simp

lemma runs_call:
  assumes pe: "fits n pe" and p: "ok_pos p" "rem p < Suc n"
  shows "runs (rem p) (parseFunctionCall U (Suc n) pe name q p)"
proof (cases "GetFunction name")
  case (Some f)
  have args: "runs (rem p) (parseCallArgs U (Suc n) pe p1)" if "ok_pos p1" "rem p1 \<le> rem p - 1" "0 < rem p" for p1
  proof -
    have "runs (rem p1) (args_loop U (Suc n) pe [] p1)" using that p(2) by (intro runs_args_loop [OF pe]) auto
    then show ?thesis using that by (auto simp: parseCallArgs_def intro: runs_mono)
  qed
  have "runs (rem p) (bindp (expect U ItemLeftParen p) (\<lambda>_ p1. bindp (parseCallArgs U (Suc n) pe p1) (\<lambda>args p2.
      bindp (expect U ItemRightParen p2) (\<lambda>_. Parsed (Call f args q)))))"
  proof (rule runs_bind [OF runs_expect [OF p(1)]])
    fix x p1 assume e: "expect U ItemLeftParen p = Parsed x p1" and p1: "ok_pos p1" "rem p1 \<le> rem p - 1"
    show "runs (rem p) (bindp (parseCallArgs U (Suc n) pe p1) (\<lambda>args p2.
        bindp (expect U ItemRightParen p2) (\<lambda>_. Parsed (Call f args q))))"
      using expect_pos [OF e] by (auto intro!: runs_bind [OF args [OF p1]] runs_bind [OF runs_expect])
  qed simp
  then show ?thesis using Some by (simp add: parseFunctionCall_def)
qed (simp add: parseFunctionCall_def)

lemma runs_selector_or_call:
  assumes pe: "fits n pe" and p: "ok_pos p" "rem p < Suc n"
  shows "runs (rem p) (parseVectorSelectorOrFunction U out (Suc n) pe p)"
proof -
  let ?p1 = "advance U p"
  have 1: "ok_pos ?p1" "rem ?p1 \<le> rem p" "rem ?p1 < Suc n" using p advance_ok advance_le [of p U] by auto
  have "runs (rem p) (parseFunctionCall U (Suc n) pe name q ?p1)" for name q
    using runs_call [OF pe 1(1,3)] 1(2) runs_mono by blast
  moreover have "runs (rem p) (parseVectorSelector U out (Suc n) name q ?p1)" for name q
    using runs_selector [OF 1(1), of "Suc n"] 1(2,3) runs_mono less_SucI by blast
  ultimately show ?thesis by (simp add: parseVectorSelectorOrFunction_def Let_def)
qed

lemma runs_paren:
  assumes pe: "fits n pe" and p: "ok_pos p" "rem p < Suc n"
  shows "runs (rem p) (parseParen U pe p)"
  unfolding parseParen_def
proof (rule runs_bind [OF runs_expect [OF p(1)]])
  fix x p1 assume e: "expect U ItemLeftParen p = Parsed x p1" and p1: "ok_pos p1" "rem p1 \<le> rem p - 1"
  have "rem p1 < n" using expect_pos [OF e] p1 p(2) by simp
  then have "runs (rem p1) (pe p1)" using fitsD [OF pe p1(1)] by simp
  then show "runs (rem p) (bindp (pe p1) (\<lambda>e p2. bindp (expect U ItemRightParen p2) (\<lambda>_. Parsed (ParenExpr e (tok_pos p)))))"
    using p1 by (auto intro!: runs_bind [of _ "pe p1"] runs_bind [OF runs_expect])
qed simp

lemma runs_by:
  assumes "ok_pos p" "rem p < Suc n"
  shows "runs (rem p) (parse_by U n p)"
proof -
  have "ok_pos (advance U p)" "rem (advance U p) \<le> rem p" using assms advance_ok advance_le by auto
  then show ?thesis using assms by (auto simp: parse_by_def intro!: runs_bind [OF runs_grouping])
qed

lemma runs_aggregate:
  assumes pe: "fits n pe" and p: "ok_pos p" "rem p < Suc n" and agg: "IsAggregator (tok p)"
  shows "runs (rem p) (parseAggregateExpr U (Suc n) pe p)"
proof -
  have c: "consuming (tok p)" using agg by (auto simp: IsAggregator_def consuming_def)
  let ?a = "advance U p"
  have a: "ok_pos ?a" "rem ?a \<le> rem p - 1" "rem ?a < n"
    using p c advance_ok advance_less [OF p(1) c, of U] rem_pos [OF c] by auto
  have pe': "ok_pos q \<Longrightarrow> rem q \<le> rem ?a \<Longrightarrow> runs (rem ?a) (pe q)" for q
    using fitsD [OF pe, of q] a(3) runs_mono by auto
  have param: "ok_pos q \<Longrightarrow> rem q \<le> rem ?a \<Longrightarrow> runs (rem ?a) (if has_param t
      then bindp (pe q) (\<lambda>param q. bindp (expect U ItemComma q) (\<lambda>_ q1. Parsed (Some param) q1)) else Parsed None q)" for q t
    by (auto intro!: runs_bind [OF pe'] runs_bind [OF runs_expect])
  have late: "ok_pos q \<Longrightarrow> rem q \<le> rem ?a \<Longrightarrow> runs (rem ?a) (if g = [] \<and> (tok q = ItemBy \<or> tok q = ItemWithout)
      then parse_by U (Suc n) q else Parsed (g, w) q)" for q g w
    using runs_by [of q "Suc n" U] a(3) by (auto intro: runs_mono)
  have "runs (rem ?a) (parseAggregateExpr U (Suc n) pe p)"
    unfolding parseAggregateExpr_def
  proof (rule runs_bind [OF runs_by])
    fix gw p1 assume p1: "ok_pos p1" "rem p1 \<le> rem ?a"
    show "runs (rem ?a) ((case gw of (grouping, without) \<Rightarrow> \<lambda>p1. bindp (expect U ItemLeftParen p1) (\<lambda>_ p2.
         bindp (if has_param (tok p)
                then bindp (pe p2) (\<lambda>param q. bindp (expect U ItemComma q) (\<lambda>_ q1. Parsed (Some param) q1))
                else Parsed None p2) (\<lambda>param p3.
           bindp (pe p3) (\<lambda>e p4.
             bindp (expect U ItemRightParen p4) (\<lambda>_ p5.
               bindp (if grouping = [] \<and> (tok p5 = ItemBy \<or> tok p5 = ItemWithout) then parse_by U (Suc n) p5
                      else Parsed (grouping, without) p5) (\<lambda>(grouping1, without1) p6.
                 Parsed (AggregateExpr (tok p) e param grouping1 without1 (tok_pos p)) p6)))))) p1)"
      using p1
      by (cases gw) (auto intro!: runs_bind [OF runs_expect] runs_bind [OF param] runs_bind [OF pe'] runs_bind [OF late])
  qed (use a in auto)
  then show ?thesis using a(2) by (auto intro: runs_mono)
qed

lemma fits_primary:
  assumes "fits n pe"
  shows "fits (Suc n) (parsePrimaryExpr U out (Suc n) pe)"
  unfolding fits_def parsePrimaryExpr_def
  by (auto intro: runs_number runs_string runs_paren [OF assms] runs_selector_or_call [OF assms] runs_aggregate [OF assms])

lemma runs_unary:
  assumes prim: "fits N prim"
  shows "ok_pos p \<Longrightarrow> rem p < N \<Longrightarrow> rem p < n \<Longrightarrow> runs (rem p) (parseUnaryExpr U n prim p)"
proof (induction n arbitrary: p)
  case (Suc n)
  have sign: "runs (rem p) (bindp (parseUnaryExpr U n prim (advance U p)) (\<lambda>e. Parsed (UnaryExpr t e (tok_pos p))))"
    if "consuming (tok p)" for t
  proof -
    have a: "ok_pos (advance U p)" "rem (advance U p) \<le> rem p - 1"
      using Suc.prems(1) that advance_ok advance_less by auto
    then have "runs (rem (advance U p)) (parseUnaryExpr U n prim (advance U p))"
      using Suc.prems rem_pos [OF that] by (intro Suc.IH) auto
    then show ?thesis using a by (auto intro!: runs_bind [of _ "parseUnaryExpr U n prim (advance U p)"])
  qed
  show ?case
  proof (cases "tok p = ItemAdd \<or> tok p = ItemSub")
    case True
    then have "consuming (tok p)" by auto
    with True show ?thesis using sign by auto
  next
    case False
    then show ?thesis using fitsD [OF prim Suc.prems(1,2)] by simp
  qed
qed simp

lemma runs_power:
  assumes prim: "fits N prim"
  shows "ok_pos p \<Longrightarrow> rem p < N \<Longrightarrow> rem p < n \<Longrightarrow> runs (rem p) (parsePower U n prim p)"
proof (induction n arbitrary: p)
  case (Suc n)
  show ?case
    unfolding parsePower.simps
  proof (rule runs_bind [OF runs_unary [OF prim Suc.prems]])
    fix l p1 assume p1: "ok_pos p1" "rem p1 \<le> rem p"
    have "runs (rem p) (bindp (parseVectorMatching U n (advance U p1)) (\<lambda>vm p2. bindp (parsePower U n prim p2)
        (\<lambda>r. Parsed (BinaryExpr OpPow l r vm False (tok_pos p1)))))" if t: "tok p1 = ItemPow"
    proof -
      have c: "consuming (tok p1)" using t by simp
      let ?a = "advance U p1"
      have a: "ok_pos ?a" "rem ?a < n" "rem ?a < N" "rem ?a \<le> rem p"
        using p1 c advance_ok advance_less [OF p1(1) c, of U] rem_pos [OF c] Suc.prems by auto
      have rec: "runs (rem ?a) (parsePower U n prim p2)" if "ok_pos p2" "rem p2 \<le> rem ?a" for p2
        using Suc.IH [of p2] that a runs_mono by auto
      have vm: "runs (rem ?a) (parseVectorMatching U n ?a)" using a by (intro runs_vector_matching) auto
      show ?thesis using a by (auto intro!: runs_bind [OF vm] runs_bind [OF rec])
    qed
    then show "runs (rem p) (if tok p1 = ItemPow then bindp (parseVectorMatching U n (advance U p1)) (\<lambda>vm p2.
        bindp (parsePower U n prim p2) (\<lambda>r. Parsed (BinaryExpr OpPow l r vm False (tok_pos p1)))) else Parsed l p1)"
      using p1 by simp
  qed
qed simp

lemma runs_binary_loop:
  assumes sub: "fits N sub" and ops: "\<And>t op. ops t = Some op \<Longrightarrow> consuming t"
  shows "ok_pos p \<Longrightarrow> rem p < N \<Longrightarrow> rem p < n \<Longrightarrow> runs (rem p) (binary_loop U n ops cmp sub l p)"
proof (induction n arbitrary: p l)
  case (Suc n)
  show ?case
  proof (cases "ops (tok p)")
    case (Some op)
    have c: "consuming (tok p)" using ops Some by blast
    let ?rb = "cmp \<and> tok (advance U p) = ItemBool"
    let ?a = "if ?rb then advance U (advance U p) else advance U p"
    have one: "ok_pos (advance U p)" "rem (advance U p) \<le> rem p - 1"
      using Suc.prems(1) c advance_ok advance_less by auto
    have a: "ok_pos ?a" "rem ?a \<le> rem p - 1" "rem ?a < n" "rem ?a < N"
      using one advance_ok [OF one(1), of U] advance_le [OF one(1), of U] rem_pos [OF c] Suc.prems by auto
    have rec: "runs (rem ?a) (binary_loop U n ops cmp sub e q)" if "ok_pos q" "rem q \<le> rem ?a" for e q
      using Suc.IH [of q e] that a(3,4) by (auto intro: runs_mono)
    have right: "runs (rem ?a) (sub q)" if "ok_pos q" "rem q \<le> rem ?a" for q
      using fitsD [OF sub, of q] that a(4) by (auto intro: runs_mono)
    have vm: "runs (rem ?a) (parseVectorMatching U n ?a)" using a by (intro runs_vector_matching) auto
    have "runs (rem ?a) (bindp (parseVectorMatching U n ?a) (\<lambda>vm p3. bindp (sub p3) (\<lambda>r.
        binary_loop U n ops cmp sub (BinaryExpr op l r vm ?rb (tok_pos p)))))"
      by (rule runs_bind [OF vm], rule runs_bind [OF right], assumption, assumption, rule rec)
    then have "runs (rem p) (bindp (parseVectorMatching U n ?a) (\<lambda>vm p3. bindp (sub p3) (\<lambda>r.
        binary_loop U n ops cmp sub (BinaryExpr op l r vm ?rb (tok_pos p)))))"
      using a(2) by (auto intro: runs_mono)
    then show ?thesis using Some by (simp only: binary_loop.simps option.simps Let_def)
  qed (use Suc.prems in simp)
qed simp

lemma fits_level:
  assumes sub: "fits n sub" and ops: "\<And>t op. ops t = Some op \<Longrightarrow> consuming t"
  shows "fits n (binary_level U n ops cmp sub)"
  unfolding fits_def binary_level_def
proof (intro allI impI)
  fix p assume p: "ok_pos p" "rem p < n"
  show "runs (rem p) (bindp (sub p) (binary_loop U n ops cmp sub))"
  proof (rule runs_bind [OF fitsD [OF sub p]])
    fix l p1 assume p1: "ok_pos p1" "rem p1 \<le> rem p"
    have "runs (rem p1) (binary_loop U n ops cmp sub l p1)"
      using p1 p(2) by (intro runs_binary_loop [OF sub]) (auto intro: ops)
    then show "runs (rem p) (binary_loop U n ops cmp sub l p1)" using p1(2) by (rule runs_mono)
  qed
qed

lemma fits_parseOr: "fits n prim \<Longrightarrow> fits n (parseOr U n prim)"
proof -
  assume prim: "fits n prim"
  have "fits n (parsePower U n prim)" unfolding fits_def using runs_power [OF prim] by blast
  then have "fits n (parseMultiplicative U n prim)" unfolding parseMultiplicative_def
    by (rule fits_level) (auto simp: mul_ops_def consuming_def split: if_splits)
  then have "fits n (parseAdditive U n prim)" unfolding parseAdditive_def
    by (rule fits_level) (auto simp: add_ops_def consuming_def split: if_splits)
  then have "fits n (parseComparison U n prim)" unfolding parseComparison_def
    by (rule fits_level) (auto simp: cmp_ops_def consuming_def split: if_splits)
  then have "fits n (parseUnless U n prim)" unfolding parseUnless_def
    by (rule fits_level) (auto simp: one_op_def consuming_def split: if_splits)
  then have "fits n (parseAnd U n prim)" unfolding parseAnd_def
    by (rule fits_level) (auto simp: one_op_def consuming_def split: if_splits)
  then show ?thesis unfolding parseOr_def
    by (rule fits_level) (auto simp: one_op_def consuming_def split: if_splits)
qed

lemma fits_parseExpr: "fits n (parseExpr U out n)"
proof (induction n)
  case 0
  then show ?case by (simp add: fits_def)
next
  case (Suc n)
  have "fits (Suc n) (parseOr U (Suc n) (parsePrimaryExpr U out (Suc n) (parseExpr U out n)))"
    by (intro fits_parseOr fits_primary Suc.IH)
  then show ?case by (simp add: fits_def)
qed

lemma start_parser_rem: "ok_pos (start_parser U q) \<and> rem (start_parser U q) \<le> length q"
proof -
  let ?p = "\<lparr>lexer = NewLexer q, token = \<lparr>Typ = ItemError, ItemPos = \<lparr>Offset = 0, Line = 0, Column = 0\<rparr>, Val = []\<rparr>, query = q\<rparr>"
  have "ok_pos ?p" "rem ?p = length q" by (simp_all add: ok_pos_def rem_def NewLexer_def left_def consuming_def)
  then show ?thesis using advance_progress [of ?p U] by (simp add: start_parser_def)
qed

text \<open>C15. The parser ends on every query, whatever its bytes: with fuel for the length of the query it
  never runs out, so it returns an expression or an error.
\<close>

theorem parse_terminates: "Parse U out q \<noteq> NoFuel"
proof -
  have "runs (rem (start_parser U q)) (Parse U out q)"
    unfolding Parse_def using start_parser_rem [of U q] by (intro fitsD [OF fits_parseExpr]) auto
  then show ?thesis by auto
qed

end
