(* ===== verification/Promql_Shape.thy ===== *)
theory Promql_Shape
  imports Promql_Parsing
begin

text \<open>
  The well-formedness of the expressions that the PromQL parser builds: operators nest by their level
  and associativity, and every node has what the evaluator takes for granted.
\<close>

section \<open>Well-formed expressions\<close>

text \<open>How tightly an expression binds: an operator by its level, a sign tighter than every operator, a
  primary expression tightest.\<close>

fun op_level :: "BinaryOp \<Rightarrow> nat" where
  "op_level OpOr = 1" | "op_level OpAnd = 2" | "op_level OpUnless = 3"
| "op_level OpEql = 4" | "op_level OpNeq = 4" | "op_level OpLss = 4" | "op_level OpGtr = 4" | "op_level OpLte = 4"
| "op_level OpGte = 4" | "op_level OpAdd = 5" | "op_level OpSub = 5" | "op_level OpMul = 6" | "op_level OpDiv = 6"
| "op_level OpMod = 6" | "op_level OpAtan2 = 6" | "op_level OpPow = 7"

fun level :: "Expr \<Rightarrow> nat" where
  "level (BinaryExpr op l r m rb p) = op_level op"
| "level (UnaryExpr op e p) = 8"
| "level _ = 9"

definition valid_matching :: "VectorMatching option \<Rightarrow> bool" where
  "valid_matching mo = (case mo of None \<Rightarrow> True
     | Some m \<Rightarrow> Card m \<noteq> CardManyToMany \<and> (Include m \<noteq> [] \<longrightarrow> Card m \<noteq> CardOneToOne))"

definition valid_selector :: "VectorSelectorNode \<Rightarrow> bool" where
  "valid_selector v \<longleftrightarrow> StartOrEnd v \<le> 2 \<and> (Timestamp v \<noteq> None \<longrightarrow> StartOrEnd v = 0)"

fun shaped :: "Expr \<Rightarrow> bool" where
  "shaped (VectorSelector v) = valid_selector v"
| "shaped (MatrixSelector v r p) = valid_selector v"
| "shaped (NumberLiteral x p) = True"
| "shaped (StringLiteral s p) = True"
| "shaped (UnaryExpr op e p) = ((op = ItemAdd \<or> op = ItemSub) \<and> 8 \<le> level e \<and> shaped e)"
| "shaped (BinaryExpr op l r m rb p) =
     (shaped l \<and> shaped r \<and> valid_matching m \<and> (rb \<longrightarrow> IsComparisonOp op) \<and>
      (if op = OpPow then 8 \<le> level l \<and> 7 \<le> level r else op_level op \<le> level l \<and> op_level op < level r))"
| "shaped (AggregateExpr op e param ls w p) =
     (IsAggregator op \<and> shaped e \<and> (case param of None \<Rightarrow> \<not> has_param op | Some pe \<Rightarrow> has_param op \<and> shaped pe))"
| "shaped (Call f args p) = (GetFunction (FnName f) = Some f \<and> list_all shaped args)"
| "shaped (Subquery e r st ofs p) = (\<exists>v. e = VectorSelector v \<and> valid_selector v)"
| "shaped (ParenExpr e p) = shaped e"

section \<open>Every parsing function builds them\<close>

definition gives :: "('a \<Rightarrow> bool) \<Rightarrow> 'a parsed \<Rightarrow> bool" where
  "gives Q r \<longleftrightarrow> (case r of Parsed x p \<Rightarrow> Q x | _ \<Rightarrow> True)"

lemma gives_simps [simp]: "gives Q (Parsed x p) = Q x" "gives Q (Failed e)" "gives Q NoFuel" "gives Q (errorf m p)"
  by (simp_all add: gives_def errorf_def)

lemma bindp_simps [simp]: "bindp (Parsed x p) f = f x p" "bindp (Failed e) f = Failed e" "bindp NoFuel f = NoFuel"
  by (simp_all add: bindp_def)

lemma gives_any: "gives (\<lambda>_. True) r"
  by (cases r) simp_all

lemma gives_bind:
  assumes "gives P m" "\<And>x p. P x \<Longrightarrow> gives Q (f x p)"
  shows "gives Q (bindp m f)"
  using assms by (cases m) (auto simp: bindp_def)

text \<open>The steps whose value does not matter for the shape.\<close>

lemmas gives_expect = gives_bind [OF gives_any [of "expect U t q"]] for U t q
lemmas gives_duration = gives_bind [OF gives_any [of "parseDuration U out q"]] for U out q
lemmas gives_grouping = gives_bind [OF gives_any [of "parseGrouping U n q"]] for U n q
lemmas gives_by = gives_bind [OF gives_any [of "parse_by U n q"]] for U n q
lemmas gives_matchers = gives_bind [OF gives_any [of "parseLabelMatchers U n q"]] for U n q
lemmas gives_step = gives_expect gives_duration gives_grouping gives_by gives_matchers

lemma gives_mono: "gives P r \<Longrightarrow> (\<And>x. P x \<Longrightarrow> Q x) \<Longrightarrow> gives Q r"
  by (cases r) auto

lemma gives_matching: "gives valid_matching (parseVectorMatching U n p)"
  by (auto simp: parseVectorMatching_def group_include_def valid_matching_def Let_def intro!: gives_step)

lemma gives_offset: "valid_selector v \<Longrightarrow> Timestamp v = None \<Longrightarrow> StartOrEnd v = 0 \<Longrightarrow>
    gives (\<lambda>v. valid_selector v \<and> Timestamp v = None \<and> StartOrEnd v = 0) (parse_offset U out v p)"
  by (auto simp: parse_offset_def valid_selector_def intro!: gives_step)

lemma gives_at: "valid_selector v \<and> Timestamp v = None \<and> StartOrEnd v = 0 \<Longrightarrow> gives valid_selector (parse_at U v p)"
  by (auto simp: parse_at_def parse_parens_def valid_selector_def Let_def split: option.split intro!: gives_step)

abbreviation primary :: "Expr \<Rightarrow> bool" where "primary e \<equiv> shaped e \<and> level e = 9"

lemma gives_subquery: "valid_selector v \<Longrightarrow> gives primary (parse_subquery U out v r q p)"
  by (auto simp: parse_subquery_def intro!: gives_step)

lemma gives_selector: "gives primary (parseVectorSelector U out n name q p)"
proof -
  define v where "v ms = \<lparr>SelName = name, LabelMatchers = ms, SelOffset = 0, Timestamp = None, StartOrEnd = 0, SelPos = q\<rparr>" for ms
  have v: "valid_selector (v ms)" "Timestamp (v ms) = None" "StartOrEnd (v ms) = 0" for ms
    by (simp_all add: v_def valid_selector_def)
  have "gives primary (parseMatrixSelector U out (v ms) p1)" for ms p1
    unfolding parseMatrixSelector_def
    by (auto intro!: gives_step gives_subquery v gives_bind [OF gives_offset [OF v]] gives_bind [OF gives_at])
  then show ?thesis
    unfolding parseVectorSelector_def v_def [symmetric] Let_def
    by (auto intro!: gives_step gives_bind [OF gives_offset [OF v]] gives_bind [OF gives_at])
qed

lemma GetFunction_name: "GetFunction name = Some f \<Longrightarrow> GetFunction (FnName f) = Some f"
  by (auto simp: GetFunction_def find_Some_iff)

lemma gives_args_loop:
  assumes "\<And>q. gives shaped (pe q)"
  shows "list_all shaped args \<Longrightarrow> gives (list_all shaped) (args_loop U n pe args p)"
proof (induction n arbitrary: args p)
  case (Suc n)
  then show ?case by (auto intro!: gives_bind [OF assms])
qed simp

lemma gives_call:
  assumes "\<And>q. gives shaped (pe q)"
  shows "gives primary (parseFunctionCall U n pe name q p)"
proof (cases "GetFunction name")
  case (Some f)
  have "gives (list_all shaped) (parseCallArgs U n pe p1)" for p1
    using gives_args_loop [OF assms] by (simp add: parseCallArgs_def)
  then show ?thesis
    using Some GetFunction_name [OF Some]
    by (auto simp: parseFunctionCall_def intro!: gives_step gives_bind [of "list_all shaped"])
qed (simp add: parseFunctionCall_def)

lemma gives_aggregate:
  assumes "\<And>q. gives shaped (pe q)" "IsAggregator (tok p)"
  shows "gives primary (parseAggregateExpr U n pe p)"
proof -
  let ?ok = "\<lambda>param. case param of None \<Rightarrow> \<not> has_param (tok p) | Some e \<Rightarrow> has_param (tok p) \<and> shaped e"
  have param: "gives ?ok (if has_param (tok p)
      then bindp (pe q) (\<lambda>param q. bindp (expect U ItemComma q) (\<lambda>_ q1. Parsed (Some param) q1)) else Parsed None q)" for q
    by (auto intro!: gives_bind [OF assms(1)] gives_step)
  show ?thesis
    unfolding parseAggregateExpr_def using assms(2)
    by (auto intro!: gives_step gives_bind [OF param] gives_bind [OF assms(1)])
qed

lemma gives_primary:
  assumes "\<And>q. gives shaped (pe q)"
  shows "gives primary (parsePrimaryExpr U out n pe p)"
  unfolding parsePrimaryExpr_def
  using assms gives_selector gives_call [OF assms] gives_aggregate [OF assms]
  by (auto simp: parseNumber_def parseString_def parseParen_def parseVectorSelectorOrFunction_def Let_def
      split: option.split intro!: gives_step gives_bind [of shaped])

lemma gives_unary:
  assumes "\<And>q. gives primary (prim q)"
  shows "gives (\<lambda>e. shaped e \<and> 8 \<le> level e) (parseUnaryExpr U n prim p)"
proof (induction n arbitrary: p)
  case (Suc n)
  have "gives (\<lambda>e. shaped e \<and> 8 \<le> level e) (prim p)" using assms by (rule gives_mono) auto
  then show ?case by (auto intro!: gives_bind [OF Suc.IH])
qed simp

lemma gives_power:
  assumes "\<And>q. gives primary (prim q)"
  shows "gives (\<lambda>e. shaped e \<and> 7 \<le> level e) (parsePower U n prim p)"
proof (induction n arbitrary: p)
  case (Suc n)
  show ?case
    unfolding parsePower.simps
    by (rule gives_bind [OF gives_unary [OF assms]])
      (auto intro!: gives_bind [OF gives_matching] gives_bind [OF Suc.IH])
qed simp

lemma gives_binary_loop:
  assumes sub: "\<And>q. gives (\<lambda>e. shaped e \<and> k < level e) (sub q)"
    and ops: "\<And>t op. ops t = Some op \<Longrightarrow> op_level op = k \<and> op \<noteq> OpPow \<and> (cmp \<longrightarrow> IsComparisonOp op)"
  shows "shaped l \<Longrightarrow> k \<le> level l \<Longrightarrow> gives (\<lambda>e. shaped e \<and> k \<le> level e) (binary_loop U n ops cmp sub l p)"
proof (induction n arbitrary: p l)
  case (Suc n)
  show ?case
  proof (cases "ops (tok p)")
    case (Some op)
    let ?rb = "cmp \<and> tok (advance U p) = ItemBool"
    let ?q = "if ?rb then advance U (advance U p) else advance U p"
    have node: "gives (\<lambda>e. shaped e \<and> k \<le> level e) (binary_loop U n ops cmp sub (BinaryExpr op l r vm ?rb (tok_pos p)) p1)"
      if "shaped r \<and> k < level r" "valid_matching vm" for r vm p1
      using ops [OF Some] Suc.prems that by (intro Suc.IH) auto
    have "gives (\<lambda>e. shaped e \<and> k \<le> level e) (bindp (parseVectorMatching U n ?q) (\<lambda>vm p3. bindp (sub p3) (\<lambda>r.
        binary_loop U n ops cmp sub (BinaryExpr op l r vm ?rb (tok_pos p)))))"
      by (rule gives_bind [OF gives_matching], rule gives_bind [OF sub], rule node)
    then show ?thesis using Some by (simp only: binary_loop.simps option.simps Let_def)
  qed (use Suc.prems in simp)
qed simp

lemma gives_level:
  assumes "\<And>q. gives (\<lambda>e. shaped e \<and> k < level e) (sub q)"
    and "\<And>t op. ops t = Some op \<Longrightarrow> op_level op = k \<and> op \<noteq> OpPow \<and> (cmp \<longrightarrow> IsComparisonOp op)"
  shows "gives (\<lambda>e. shaped e \<and> k \<le> level e) (binary_level U n ops cmp sub p)"
  unfolding binary_level_def
proof (rule gives_bind [OF assms(1)])
  fix l p1 assume "shaped l \<and> k < level l"
  then show "gives (\<lambda>e. shaped e \<and> k \<le> level e) (binary_loop U n ops cmp sub l p1)"
    using assms by (intro gives_binary_loop) auto
qed

lemma gives_or:
  assumes prim: "\<And>q. gives primary (prim q)"
  shows "gives shaped (parseOr U n prim p)"
proof -
  have suc: "(\<lambda>e. shaped e \<and> Suc k \<le> level e) = (\<lambda>e. shaped e \<and> k < level e)" for k by auto
  have "gives (\<lambda>e. shaped e \<and> 7 \<le> level e) (parsePower U n prim q)" for q
    using prim by (rule gives_power)
  then have "gives (\<lambda>e. shaped e \<and> 6 < level e) (parsePower U n prim q)" for q using suc [of 6] by simp
  then have "gives (\<lambda>e. shaped e \<and> 6 \<le> level e) (parseMultiplicative U n prim q)" for q
    unfolding parseMultiplicative_def by (rule gives_level) (auto simp: mul_ops_def split: if_splits)
  then have "gives (\<lambda>e. shaped e \<and> 5 < level e) (parseMultiplicative U n prim q)" for q using suc [of 5] by simp
  then have "gives (\<lambda>e. shaped e \<and> 5 \<le> level e) (parseAdditive U n prim q)" for q
    unfolding parseAdditive_def by (rule gives_level) (auto simp: add_ops_def split: if_splits)
  then have "gives (\<lambda>e. shaped e \<and> 4 < level e) (parseAdditive U n prim q)" for q using suc [of 4] by simp
  then have "gives (\<lambda>e. shaped e \<and> 4 \<le> level e) (parseComparison U n prim q)" for q
    unfolding parseComparison_def by (rule gives_level) (auto simp: cmp_ops_def IsComparisonOp_def split: if_splits)
  then have "gives (\<lambda>e. shaped e \<and> 3 < level e) (parseComparison U n prim q)" for q using suc [of 3] by simp
  then have "gives (\<lambda>e. shaped e \<and> 3 \<le> level e) (parseUnless U n prim q)" for q
    unfolding parseUnless_def by (rule gives_level) (auto simp: one_op_def split: if_splits)
  then have "gives (\<lambda>e. shaped e \<and> 2 < level e) (parseUnless U n prim q)" for q using suc [of 2] by simp
  then have "gives (\<lambda>e. shaped e \<and> 2 \<le> level e) (parseAnd U n prim q)" for q
    unfolding parseAnd_def by (rule gives_level) (auto simp: one_op_def split: if_splits)
  then have "gives (\<lambda>e. shaped e \<and> 1 < level e) (parseAnd U n prim q)" for q using suc [of 1] by (simp add: numeral_2_eq_2)
  then have "gives (\<lambda>e. shaped e \<and> 1 \<le> level e) (parseOr U n prim p)"
    unfolding parseOr_def by (rule gives_level) (auto simp: one_op_def split: if_splits)
  then show ?thesis by (rule gives_mono) simp
qed

lemma gives_parseExpr: "gives shaped (parseExpr U out n p)"
proof (induction n arbitrary: p)
  case (Suc n)
  then show ?case by (auto intro!: gives_or gives_primary)
qed simp

section \<open>A query evaluated\<close>

lemmas scan_eval = NextItem_def skipWhitespace.simps peek_def decode_rune_def lex_next_def Let_def single_char_type_def
  singleChar_def position_def starts_number_def IsDigit_def isIdentifierStart_def IsLetter_def ascii_letter_def
  scanIdentifier_def identifier_end.simps isIdentifierChar_def slice_def ToLower_def to_lower_def ascii_lower_def
  keywords_table_def keyword_types_def

lemmas primary_eval = parsePrimaryExpr_def parseVectorSelectorOrFunction_def parseVectorSelector_def parse_offset_def
  parse_at_def parseVectorMatching_def advance_def Let_def

abbreviation item_at :: "ItemType \<Rightarrow> nat \<Rightarrow> int \<Rightarrow> string \<Rightarrow> Item" where
  "item_at t n c v \<equiv> \<lparr>Typ = t, ItemPos = \<lparr>Offset = n, Line = 1, Column = c\<rparr>, Val = v\<rparr>"

abbreviation scan_of :: "string \<Rightarrow> nat \<Rightarrow> int \<Rightarrow> Lexer" where
  "scan_of s n c \<equiv> \<lparr>input = s, pos = n, line = 1, col = c\<rparr>"

abbreviation name_node :: "string \<Rightarrow> nat \<Rightarrow> int \<Rightarrow> Expr" where
  "name_node v n c \<equiv> VectorSelector \<lparr>SelName = v, LabelMatchers = [], SelOffset = 0, Timestamp = None, StartOrEnd = 0,
     SelPos = \<lparr>Offset = n, Line = 1, Column = c\<rparr>\<rparr>"

lemma neg_pow_items:
  "NextItem ascii_tables (NewLexer ''-a^b'') = (item_at ItemSub 0 1 ''-'', scan_of ''-a^b'' 1 2)"
  "NextItem ascii_tables (scan_of ''-a^b'' 1 2) = (item_at ItemIdentifier 1 2 ''a'', scan_of ''-a^b'' 2 3)"
  "NextItem ascii_tables (scan_of ''-a^b'' 2 3) = (item_at ItemPow 2 3 ''^'', scan_of ''-a^b'' 3 4)"
  "NextItem ascii_tables (scan_of ''-a^b'' 3 4) = (item_at ItemIdentifier 3 4 ''b'', scan_of ''-a^b'' 4 5)"
  "NextItem ascii_tables (scan_of ''-a^b'' 4 5) = (item_at ItemEOF 4 5 [], scan_of ''-a^b'' 4 5)"
  by (simp_all add: scan_eval NewLexer_def)

abbreviation neg_pow_state :: "nat \<Rightarrow> int \<Rightarrow> Item \<Rightarrow> Parser" where
  "neg_pow_state n c it \<equiv> \<lparr>lexer = scan_of ''-a^b'' n c, token = it, query = ''-a^b''\<rparr>"

lemma neg_pow_names:
  "parsePrimaryExpr ascii_tables out m pe (neg_pow_state 2 3 (item_at ItemIdentifier 1 2 ''a'')) =
     Parsed (name_node ''a'' 1 2) (neg_pow_state 3 4 (item_at ItemPow 2 3 ''^''))"
  "parsePrimaryExpr ascii_tables out m pe (neg_pow_state 4 5 (item_at ItemIdentifier 3 4 ''b'')) =
     Parsed (name_node ''b'' 3 4) (neg_pow_state 4 5 (item_at ItemEOF 4 5 []))"
  by (simp_all add: primary_eval neg_pow_items del: One_nat_def)

text \<open>Where no operator follows, the levels above hand the expression through.\<close>

definition operator_item :: "ItemType \<Rightarrow> bool" where
  "operator_item t \<longleftrightarrow> mul_ops t \<noteq> None \<or> add_ops t \<noteq> None \<or> cmp_ops t \<noteq> None \<or> t = ItemUnless \<or> t = ItemAnd \<or> t = ItemOr"

lemma level_done: "sub p = Parsed e p1 \<Longrightarrow> ops (tok p1) = None \<Longrightarrow> binary_level U (Suc n) ops cmp sub p = Parsed e p1"
  by (simp add: binary_level_def)

lemma parseOr_done:
  assumes "parsePower U (Suc n) prim p = Parsed e p1" "\<not> operator_item (tok p1)"
  shows "parseOr U (Suc n) prim p = Parsed e p1"
  unfolding parseOr_def parseAnd_def parseUnless_def parseComparison_def parseAdditive_def parseMultiplicative_def
  using assms by (intro level_done) (auto simp: operator_item_def one_op_def)

abbreviation neg_pow_tree :: Expr where
  "neg_pow_tree \<equiv> BinaryExpr OpPow (UnaryExpr ItemSub (name_node ''a'' 1 2) \<lparr>Offset = 0, Line = 1, Column = 1\<rparr>)
     (name_node ''b'' 3 4) None False \<lparr>Offset = 2, Line = 1, Column = 3\<rparr>"

lemma neg_pow_power:
  "parsePower ascii_tables (Suc (Suc n)) (parsePrimaryExpr ascii_tables out m pe) (start_parser ascii_tables ''-a^b'') =
     Parsed neg_pow_tree (neg_pow_state 4 5 (item_at ItemEOF 4 5 []))"
  by (simp add: start_parser_def advance_def neg_pow_items neg_pow_names parseVectorMatching_def del: One_nat_def)

lemma neg_pow_parse: "Parse ascii_tables out ''-a^b'' = Parsed neg_pow_tree (neg_pow_state 4 5 (item_at ItemEOF 4 5 []))"
proof -
  have n: "length ''-a^b'' + 1 = Suc (Suc 3)" by simp
  show ?thesis unfolding Parse_def n parseExpr.simps
    by (rule parseOr_done [OF neg_pow_power]) (simp add: operator_item_def mul_ops_def add_ops_def cmp_ops_def)
qed

section \<open>The parser's trees\<close>

text \<open>C16. Every expression the parser returns is well formed: the operands of a binary operator bind at
  least as tightly as it does, on the right of a left-associative one and on the left of a power more
  tightly, so that the tree is the one that precedence and associativity give; \<open>bool\<close> stands on
  comparisons only; an aggregation has a parameter exactly when its operator takes one; a call is to
  a registered function; a subquery is over a plain selector; a selector has a timestamp or
  \<open>start()\<close>/\<open>end()\<close>, not both.
\<close>

theorem parse_well_formed:
  assumes "Parse U out q = Parsed e p"
  shows "shaped e"
  using gives_parseExpr [of U out "length q + 1" "start_parser U q"] assms by (simp add: Parse_def gives_def)

theorem parse_well_formed_witness: "shaped neg_pow_tree"
  by (rule parse_well_formed [OF neg_pow_parse])

end
