(* ===== verification/Promql_Value.thy ===== *)
theory Promql_Value
  imports Promql_Ast
begin

text \<open>
  The values of the PromQL evaluator (\<open>internal/promql/functions.go\<close>), their labels and keys
  (\<open>translate.go\<close>), and what the functions take from Go's libraries as one record of parameters.
\<close>

section \<open>Values\<close>

text \<open>A label map as the list of its entries, in no particular order and without duplicate names.\<close>

type_synonym lset = "(string \<times> string) list"

record Sample =
  s_Timestamp :: go_time
  s_Value :: f64

record Series =
  se_Labels :: lset
  se_Samples :: "Sample list"

record VectorSample =
  v_Labels :: lset
  v_Value :: f64
  v_Timestamp :: go_time

datatype PValue = Scalar f64 go_time | Vector "VectorSample list" | Matrix "Series list" | StringVal string go_time

record EvalContext =
  cx_Start :: go_time
  cx_End :: go_time
  cx_Interval :: duration

text \<open>A histogram bucket: upper bound and count.\<close>

type_synonym bucket = "f64 \<times> f64"

text \<open>What comes from Go: compiled regular expressions and their replacement, the order in which a map
  is ranged over, \<open>sort.Slice\<close> (which may reorder equal elements), \<open>fmt.Sscanf\<close> with \<open>%f\<close>, the
  functions of package \<open>math\<close> by name, float conversion out of range, the calendar, and \<open>%g\<close>.\<close>

record go_env =
  ge_re :: regexps
  ge_replace :: "string \<Rightarrow> string \<Rightarrow> string \<Rightarrow> string"
  ge_iter :: "string list \<Rightarrow> string list"
  ge_sort :: "(VectorSample \<Rightarrow> VectorSample \<Rightarrow> bool) \<Rightarrow> VectorSample list \<Rightarrow> VectorSample list"
  ge_sort_buckets :: "bucket list \<Rightarrow> bucket list"
  ge_scan :: "string \<Rightarrow> f64 option"
  ge_math :: "string \<Rightarrow> f64 \<Rightarrow> f64"
  ge_out :: "f64 \<Rightarrow> int"
  ge_calendar :: "string \<Rightarrow> go_time \<Rightarrow> int"
  ge_format :: "f64 \<Rightarrow> string"

section \<open>Outcomes in sequence\<close>

fun obind :: "'a outcome \<Rightarrow> ('a \<Rightarrow> 'b outcome) \<Rightarrow> 'b outcome" where
  "obind (Return x) f = f x"
| "obind (Error e) f = Error e"
| "obind Panic f = Panic"

text \<open>\<open>args[i].(T)\<close> panics when there is no such argument or it has another type.\<close>

definition arg :: "PValue list \<Rightarrow> nat \<Rightarrow> PValue outcome" where
  "arg args i = (if i < length args then Return (args ! i) else Panic)"

definition vector_arg :: "PValue list \<Rightarrow> nat \<Rightarrow> VectorSample list outcome" where
  "vector_arg args i = obind (arg args i) (\<lambda>v. case v of Vector x \<Rightarrow> Return x | _ \<Rightarrow> Panic)"

definition matrix_arg :: "PValue list \<Rightarrow> nat \<Rightarrow> Series list outcome" where
  "matrix_arg args i = obind (arg args i) (\<lambda>v. case v of Matrix x \<Rightarrow> Return x | _ \<Rightarrow> Panic)"

definition scalar_arg :: "PValue list \<Rightarrow> nat \<Rightarrow> f64 outcome" where
  "scalar_arg args i = obind (arg args i) (\<lambda>v. case v of Scalar x t \<Rightarrow> Return x | _ \<Rightarrow> Panic)"

definition string_arg :: "PValue list \<Rightarrow> nat \<Rightarrow> string outcome" where
  "string_arg args i = obind (arg args i) (\<lambda>v. case v of StringVal x t \<Rightarrow> Return x | _ \<Rightarrow> Panic)"

fun string_args :: "PValue list \<Rightarrow> string list outcome" where
  "string_args [] = Return []"
| "string_args (v # vs) =
     (case v of StringVal x t \<Rightarrow> obind (string_args vs) (\<lambda>xs. Return (x # xs)) | _ \<Rightarrow> Panic)"

section \<open>Labels\<close>

definition label_of :: "lset \<Rightarrow> string \<Rightarrow> string" where
  "label_of ls k = (case map_of ls k of None \<Rightarrow> [] | Some v \<Rightarrow> v)"

definition set_label :: "string \<Rightarrow> string \<Rightarrow> lset \<Rightarrow> lset" where
  "set_label k v ls = (if k \<in> fst ` set ls then map (\<lambda>(k1, v1). (k1, if k1 = k then v else v1)) ls else ls @ [(k, v)])"

definition del_label :: "string \<Rightarrow> lset \<Rightarrow> lset" where
  "del_label k ls = filter (\<lambda>(k1, v1). k1 \<noteq> k) ls"

text \<open>The text that stands for some labels of a sample: \<open>name=value,\<close> for each.\<close>

definition render_labels :: "lset \<Rightarrow> string list \<Rightarrow> string" where
  "render_labels ls ks = concat (map (\<lambda>k. k @ ''='' @ label_of ls k @ '','') ks)"

definition labelKey :: "lset \<Rightarrow> string" where
  "labelKey ls = render_labels ls (sort (map fst ls))"

definition labelsToKey :: "lset \<Rightarrow> string" where
  "labelsToKey ls = concat (map (\<lambda>k. k @ ''='' @ label_of ls k @ '','') (sort (map fst ls)))"

definition labelsWithout :: "lset \<Rightarrow> string \<Rightarrow> string" where
  "labelsWithout ls exclude = render_labels ls (sort (filter (\<lambda>k. k \<noteq> exclude) (map fst ls)))"

definition matchingKey :: "lset \<Rightarrow> VectorMatching \<Rightarrow> string" where
  "matchingKey ls m =
     (if On m then render_labels ls (sort (MatchingLabels m))
      else render_labels ls (sort (filter (\<lambda>k. k \<notin> set (MatchingLabels m)) (map fst ls))))"

definition mergeLabels :: "lset \<Rightarrow> lset \<Rightarrow> VectorMatching \<Rightarrow> lset" where
  "mergeLabels lhs rhs m =
     fold (\<lambda>l res. case map_of rhs l of None \<Rightarrow> res | Some v \<Rightarrow> set_label l v res) (Include m) lhs"

definition groupKey :: "lset \<Rightarrow> string list \<Rightarrow> bool \<Rightarrow> string" where
  "groupKey ls grouping without =
     (if without then render_labels ls (sort (filter (\<lambda>k. k \<notin> set grouping) (map fst ls)))
      else if grouping \<noteq> [] then render_labels ls (sort grouping)
      else [])"

definition groupLabelSet :: "lset \<Rightarrow> string list \<Rightarrow> bool \<Rightarrow> lset" where
  "groupLabelSet ls grouping without =
     (if without then filter (\<lambda>(k, v). k \<notin> set grouping) ls
      else fold (\<lambda>l res. case map_of ls l of None \<Rightarrow> res | Some v \<Rightarrow> set_label l v res) grouping [])"

text \<open>A Go map from keys to sample lists, in order of first insertion; ranging over it takes the order
  from the environment.\<close>

fun add_group :: "string \<Rightarrow> 'a \<Rightarrow> (string \<times> 'a list) list \<Rightarrow> (string \<times> 'a list) list" where
  "add_group k x [] = [(k, [x])]"
| "add_group k x ((k1, xs) # gs) = (if k1 = k then (k1, xs @ [x]) # gs else (k1, xs) # add_group k x gs)"

definition group_by :: "('a \<Rightarrow> string) \<Rightarrow> 'a list \<Rightarrow> (string \<times> 'a list) list" where
  "group_by key xs = fold (\<lambda>x gs. add_group (key x) x gs) xs []"

definition group_of :: "(string \<times> 'a list) list \<Rightarrow> string \<Rightarrow> 'a list" where
  "group_of gs k = (case map_of gs k of None \<Rightarrow> [] | Some xs \<Rightarrow> xs)"

definition range_groups :: "go_env \<Rightarrow> (string \<times> 'a list) list \<Rightarrow> (string \<times> 'a list) list" where
  "range_groups E gs = map (\<lambda>k. (k, group_of gs k)) (ge_iter E (map fst gs))"

section \<open>Matching labels\<close>

fun matchLabels :: "regexps \<Rightarrow> lset \<Rightarrow> LabelMatcher list \<Rightarrow> bool outcome" where
  "matchLabels re ls [] = Return True"
| "matchLabels re ls (m # ms) =
     obind (Matches re m (label_of ls (MatchName m))) (\<lambda>b. if b then matchLabels re ls ms else Return False)"

end
