(* ===== verification/Promql_Functions.thy ===== *)
theory Promql_Functions
  imports Promql_Value
begin

text \<open>
  The implementations of the PromQL functions (\<open>internal/promql/functions.go\<close>). Each takes the
  evaluated arguments and the context. A wrong or missing argument panics in a type assertion or an
  index, as in the code: nothing checks the declared argument types.
\<close>

section \<open>Shared steps\<close>

definition sample_out :: "VectorSample \<Rightarrow> f64 \<Rightarrow> VectorSample" where
  "sample_out s x = \<lparr>v_Labels = v_Labels s, v_Value = x, v_Timestamp = v_Timestamp s\<rparr>"

definition series_out :: "Series \<Rightarrow> f64 \<Rightarrow> go_time \<Rightarrow> VectorSample" where
  "series_out se x t = \<lparr>v_Labels = se_Labels se, v_Value = x, v_Timestamp = t\<rparr>"

text \<open>The functions that change the value of every sample.\<close>

definition map_values :: "(VectorSample \<Rightarrow> f64) \<Rightarrow> PValue list \<Rightarrow> PValue outcome" where
  "map_values f args = obind (vector_arg args 0) (\<lambda>vec. Return (Vector (map (\<lambda>s. sample_out s (f s)) vec)))"

definition makeSimpleMathFunc :: "(f64 \<Rightarrow> f64) \<Rightarrow> PValue list \<Rightarrow> PValue outcome" where
  "makeSimpleMathFunc f args = map_values (f \<circ> v_Value) args"

definition sum_f64 :: "f64 list \<Rightarrow> f64" where "sum_f64 xs = foldl f64_add (Fin 0) xs"

text \<open>Consecutive pairs of a list, as loops from index 1 read them.\<close>

definition pairs :: "'a list \<Rightarrow> ('a \<times> 'a) list" where "pairs xs = zip xs (drop 1 xs)"

definition aggregateOverTime :: "Series list \<Rightarrow> (Sample list \<Rightarrow> f64) \<Rightarrow> PValue" where
  "aggregateOverTime matrix f =
     Vector (concat (map (\<lambda>se.
       let val = f (se_Samples se) in
       if val = NaN then []
       else [series_out se val (if se_Samples se = [] then zero_time else s_Timestamp (last (se_Samples se)))]) matrix))"

definition over_time :: "(Sample list \<Rightarrow> f64) \<Rightarrow> PValue list \<Rightarrow> PValue outcome" where
  "over_time f args = obind (matrix_arg args 0) (\<lambda>matrix. Return (aggregateOverTime matrix f))"

section \<open>Rates\<close>

definition extrapolatedRate :: "Series list \<Rightarrow> bool \<Rightarrow> bool \<Rightarrow> VectorSample list" where
  "extrapolatedRate matrix isCounter isRate =
     concat (map (\<lambda>se.
       let samples = se_Samples se in
       if length samples < 2 then []
       else let
         first = hd samples;
         lst = last samples;
         counterCorrection = (if isCounter
            then foldl (\<lambda>c (p, s). if f64_less (s_Value s) (s_Value p) then f64_add c (s_Value p) else c) (Fin 0) (pairs samples)
            else Fin 0);
         durationToStart = dur_seconds (time_sub (s_Timestamp first) (s_Timestamp first));
         sampledInterval = dur_seconds (time_sub (s_Timestamp lst) (s_Timestamp first));
         averageDuration = f64_div sampledInterval (f64_of_int (int (length samples) - 1));
         durationToEnd = (if isCounter \<and> f64_less (s_Value lst) (s_Value first) then averageDuration else sampledInterval);
         x1 = f64_add sampledInterval
                (if f64_less durationToStart averageDuration then durationToStart else f64_div averageDuration (Fin 2));
         extrapolateToInterval = f64_add x1
                (if f64_less durationToEnd averageDuration then durationToEnd else f64_div averageDuration (Fin 2));
         factor1 = f64_div extrapolateToInterval sampledInterval;
         factor = (if isRate then f64_div factor1 sampledInterval else factor1);
         resultVal = f64_mul (f64_add (f64_sub (s_Value lst) (s_Value first)) counterCorrection) factor
       in [series_out se resultVal (s_Timestamp lst)]) matrix)"

definition funcRate :: "PValue list \<Rightarrow> PValue outcome" where
  "funcRate args = obind (matrix_arg args 0) (\<lambda>m. Return (Vector (extrapolatedRate m True True)))"

definition funcIncrease :: "PValue list \<Rightarrow> PValue outcome" where
  "funcIncrease args = obind (matrix_arg args 0) (\<lambda>m. Return (Vector (extrapolatedRate m True False)))"

definition funcDelta :: "PValue list \<Rightarrow> PValue outcome" where
  "funcDelta args = obind (matrix_arg args 0) (\<lambda>m. Return (Vector (extrapolatedRate m False False)))"

text \<open>Functions of the last two samples of each series.\<close>

definition last_two :: "(Sample \<Rightarrow> Sample \<Rightarrow> f64 option) \<Rightarrow> PValue list \<Rightarrow> PValue outcome" where
  "last_two f args =
     obind (matrix_arg args 0) (\<lambda>matrix. Return (Vector (concat (map (\<lambda>se.
       let samples = se_Samples se in
       if length samples < 2 then []
       else (case f (last samples) (samples ! (length samples - 2)) of
               None \<Rightarrow> []
             | Some x \<Rightarrow> [series_out se x (s_Timestamp (last samples))])) matrix))))"

definition funcIrate :: "PValue list \<Rightarrow> PValue outcome" where
  "funcIrate = last_two (\<lambda>lst prev.
     let dt = dur_seconds (time_sub (s_Timestamp lst) (s_Timestamp prev)) in
     if f64_eq dt (Fin 0) then None
     else Some (if f64_less (s_Value lst) (s_Value prev) then f64_div (s_Value lst) dt
                else f64_div (f64_sub (s_Value lst) (s_Value prev)) dt))"

definition funcIdelta :: "PValue list \<Rightarrow> PValue outcome" where
  "funcIdelta = last_two (\<lambda>lst prev. Some (f64_sub (s_Value lst) (s_Value prev)))"

definition linearRegression :: "Sample list \<Rightarrow> f64 \<times> f64" where
  "linearRegression samples =
     (let n = f64_of_int (int (length samples));
          base = s_Timestamp (hd samples);
          x = (\<lambda>s. dur_seconds (time_sub (s_Timestamp s) base));
          sumX = sum_f64 (map x samples);
          sumY = sum_f64 (map s_Value samples);
          sumXY = sum_f64 (map (\<lambda>s. f64_mul (x s) (s_Value s)) samples);
          sumX2 = sum_f64 (map (\<lambda>s. f64_mul (x s) (x s)) samples);
          slope = f64_div (f64_sub (f64_mul n sumXY) (f64_mul sumX sumY)) (f64_sub (f64_mul n sumX2) (f64_mul sumX sumX));
          intercept = f64_div (f64_sub sumY (f64_mul slope sumX)) n
      in (slope, intercept))"

definition regression_values :: "(f64 \<times> f64 \<Rightarrow> f64) \<Rightarrow> Series list \<Rightarrow> VectorSample list" where
  "regression_values f matrix =
     concat (map (\<lambda>se. if length (se_Samples se) < 2 then []
       else [series_out se (f (linearRegression (se_Samples se))) (s_Timestamp (last (se_Samples se)))]) matrix)"

definition funcDeriv :: "PValue list \<Rightarrow> PValue outcome" where
  "funcDeriv args = obind (matrix_arg args 0) (\<lambda>m. Return (Vector (regression_values fst m)))"

definition funcPredictLinear :: "PValue list \<Rightarrow> PValue outcome" where
  "funcPredictLinear args =
     obind (matrix_arg args 0) (\<lambda>m. obind (scalar_arg args 1) (\<lambda>t.
       Return (Vector (regression_values (\<lambda>(slope, intercept). f64_add (f64_mul slope t) intercept) m))))"

text \<open>The number of pairs with a property, for every series with samples.\<close>

definition count_pairs :: "(Sample \<Rightarrow> Sample \<Rightarrow> bool) \<Rightarrow> PValue list \<Rightarrow> PValue outcome" where
  "count_pairs P args =
     obind (matrix_arg args 0) (\<lambda>matrix. Return (Vector (concat (map (\<lambda>se.
       if se_Samples se = [] then []
       else [series_out se (f64_of_int (int (length (filter (\<lambda>(p, s). P p s) (pairs (se_Samples se))))))
               (s_Timestamp (last (se_Samples se)))]) matrix))))"

definition funcResets :: "PValue list \<Rightarrow> PValue outcome" where
  "funcResets = count_pairs (\<lambda>p s. f64_less (s_Value s) (s_Value p))"

definition funcChanges :: "PValue list \<Rightarrow> PValue outcome" where
  "funcChanges = count_pairs (\<lambda>p s. \<not> f64_eq (s_Value s) (s_Value p))"

section \<open>Over time\<close>

abbreviation values_of :: "Sample list \<Rightarrow> f64 list" where "values_of ss \<equiv> map s_Value ss"

definition mean_of :: "f64 list \<Rightarrow> f64" where
  "mean_of xs = f64_div (sum_f64 xs) (f64_of_int (int (length xs)))"

definition variance_of :: "f64 list \<Rightarrow> f64" where
  "variance_of xs = (let mean = mean_of xs in mean_of (map (\<lambda>x. let d = f64_sub x mean in f64_mul d d) xs))"

definition min_of :: "f64 list \<Rightarrow> f64" where
  "min_of xs = foldl (\<lambda>m x. if f64_less x m then x else m) (hd xs) (drop 1 xs)"

definition max_of :: "f64 list \<Rightarrow> f64" where
  "max_of xs = foldl (\<lambda>m x. if f64_less m x then x else m) (hd xs) (drop 1 xs)"

definition quantile :: "go_env \<Rightarrow> f64 \<Rightarrow> f64 list \<Rightarrow> f64" where
  "quantile E q values =
     (if values = [] \<or> q = NaN \<or> f64_less q (Fin 0) \<or> f64_less (Fin 1) q then NaN
      else if f64_eq q (Fin 0) then hd values
      else if f64_eq q (Fin 1) then last values
      else let rank = f64_mul q (f64_sub (f64_of_int (int (length values))) (Fin 1));
               lower = f64_to_int64 (ge_out E) rank
           in if int (length values) \<le> lower + 1 then last values
              else let frac = f64_sub rank (f64_of_int lower)
                   in f64_add (f64_mul (values ! nat lower) (f64_sub (Fin 1) frac)) (f64_mul (values ! nat (lower + 1)) frac))"

definition funcAvgOverTime :: "PValue list \<Rightarrow> PValue outcome" where
  "funcAvgOverTime = over_time (\<lambda>ss. if ss = [] then NaN else mean_of (values_of ss))"

definition funcSumOverTime :: "PValue list \<Rightarrow> PValue outcome" where
  "funcSumOverTime = over_time (\<lambda>ss. sum_f64 (values_of ss))"

definition funcMinOverTime :: "PValue list \<Rightarrow> PValue outcome" where
  "funcMinOverTime = over_time (\<lambda>ss. if ss = [] then NaN else min_of (values_of ss))"

definition funcMaxOverTime :: "PValue list \<Rightarrow> PValue outcome" where
  "funcMaxOverTime = over_time (\<lambda>ss. if ss = [] then NaN else max_of (values_of ss))"

definition funcCountOverTime :: "PValue list \<Rightarrow> PValue outcome" where
  "funcCountOverTime = over_time (\<lambda>ss. f64_of_int (int (length ss)))"

definition funcStddevOverTime :: "go_env \<Rightarrow> PValue list \<Rightarrow> PValue outcome" where
  "funcStddevOverTime E = over_time (\<lambda>ss. if length ss < 2 then NaN else ge_math E ''Sqrt'' (variance_of (values_of ss)))"

definition funcStdvarOverTime :: "PValue list \<Rightarrow> PValue outcome" where
  "funcStdvarOverTime = over_time (\<lambda>ss. if length ss < 2 then NaN else variance_of (values_of ss))"

definition funcQuantileOverTime :: "go_env \<Rightarrow> PValue list \<Rightarrow> PValue outcome" where
  "funcQuantileOverTime E args =
     obind (scalar_arg args 0) (\<lambda>q. obind (matrix_arg args 1) (\<lambda>m.
       Return (aggregateOverTime m (\<lambda>ss. if ss = [] then NaN else quantile E q (sort (values_of ss))))))"

definition funcLastOverTime :: "PValue list \<Rightarrow> PValue outcome" where
  "funcLastOverTime = over_time (\<lambda>ss. if ss = [] then NaN else s_Value (last ss))"

definition funcPresentOverTime :: "PValue list \<Rightarrow> PValue outcome" where
  "funcPresentOverTime = over_time (\<lambda>ss. if ss \<noteq> [] then Fin 1 else NaN)"

section \<open>Histograms\<close>

text \<open>The buckets of the samples that have an upper bound; a bound that does not scan is 0.\<close>

definition read_buckets :: "go_env \<Rightarrow> VectorSample list \<Rightarrow> bucket list" where
  "read_buckets E ss =
     concat (map (\<lambda>s. case map_of (v_Labels s) ''le'' of
        None \<Rightarrow> []
      | Some le \<Rightarrow> [(if le = ''+Inf'' then PosInf else (case ge_scan E le of None \<Rightarrow> Fin 0 | Some x \<Rightarrow> x), v_Value s)]) ss)"

fun quantile_buckets :: "f64 \<Rightarrow> f64 \<times> f64 \<Rightarrow> bucket list \<Rightarrow> f64 option" where
  "quantile_buckets rank prev [] = None"
| "quantile_buckets rank (lower, lowerCount) ((bound, count) # bs) =
     (if f64_le rank count
      then Some (if f64_eq count lowerCount then lower
                 else f64_add lower (f64_div (f64_mul (f64_sub bound lower) (f64_sub rank lowerCount)) (f64_sub count lowerCount)))
      else quantile_buckets rank (bound, count) bs)"

definition histogramQuantile :: "go_env \<Rightarrow> f64 \<Rightarrow> VectorSample list \<Rightarrow> f64" where
  "histogramQuantile E q ss =
     (if q = NaN \<or> f64_less q (Fin 0) \<or> f64_less (Fin 1) q then NaN
      else let b = ge_sort_buckets E (read_buckets E ss) in
        if b = [] then NaN
        else let tot = snd (last b) in
          if f64_eq tot (Fin 0) then NaN
          else (case quantile_buckets (f64_mul q tot) (Fin 0, Fin 0) b of Some x \<Rightarrow> x | None \<Rightarrow> fst (last b)))"

text \<open>One value per group of samples that differ in \<open>le\<close> only.\<close>

definition per_histogram :: "go_env \<Rightarrow> (VectorSample list \<Rightarrow> f64 option) \<Rightarrow> VectorSample list \<Rightarrow> PValue" where
  "per_histogram E f vec =
     Vector (concat (map (\<lambda>(k, ss). case f ss of
        None \<Rightarrow> []
      | Some x \<Rightarrow> [\<lparr>v_Labels = del_label ''le'' (v_Labels (hd ss)), v_Value = x, v_Timestamp = v_Timestamp (hd ss)\<rparr>])
      (range_groups E (group_by (\<lambda>s. labelsWithout (v_Labels s) ''le'') vec))))"

definition funcHistogramQuantile :: "go_env \<Rightarrow> PValue list \<Rightarrow> PValue outcome" where
  "funcHistogramQuantile E args =
     obind (scalar_arg args 0) (\<lambda>q. obind (vector_arg args 1) (\<lambda>vec.
       Return (per_histogram E (\<lambda>ss. Some (histogramQuantile E q ss)) vec)))"

section \<open>Labels\<close>

definition funcLabelReplace :: "PValue list \<Rightarrow> PValue outcome" where
  "funcLabelReplace args =
     obind (vector_arg args 0) (\<lambda>vec. obind (string_arg args 1) (\<lambda>dst. obind (string_arg args 2) (\<lambda>replacement.
       obind (string_arg args 3) (\<lambda>src. obind (string_arg args 4) (\<lambda>regexStr.
         Return (Vector (map (\<lambda>s.
           s\<lparr>v_Labels := (if label_of (v_Labels s) src = regexStr \<or> regexStr = ''.*''
                          then set_label dst replacement (v_Labels s) else v_Labels s)\<rparr>) vec)))))))"

text \<open>\<open>len(args)-3\<close> is negative with fewer than three arguments, which \<open>make\<close> panics on; the first
  three accesses panic before.\<close>

definition funcLabelJoin :: "PValue list \<Rightarrow> PValue outcome" where
  "funcLabelJoin args =
     obind (vector_arg args 0) (\<lambda>vec. obind (string_arg args 1) (\<lambda>dst. obind (string_arg args 2) (\<lambda>sep.
       obind (string_args (drop 3 args)) (\<lambda>srcs.
         Return (Vector (map (\<lambda>s.
           s\<lparr>v_Labels := set_label dst (join (concat (map (\<lambda>src. case map_of (v_Labels s) src of
               None \<Rightarrow> [] | Some v \<Rightarrow> [v]) srcs)) sep) (v_Labels s)\<rparr>) vec))))))"

section \<open>Absence, arithmetic, clamping\<close>

abbreviation absent_result :: "EvalContext \<Rightarrow> PValue" where
  "absent_result ctx \<equiv> Vector [\<lparr>v_Labels = [], v_Value = Fin 1, v_Timestamp = cx_End ctx\<rparr>]"

definition funcAbsent :: "PValue list \<Rightarrow> EvalContext \<Rightarrow> PValue outcome" where
  "funcAbsent args ctx = obind (vector_arg args 0) (\<lambda>vec. Return (if vec \<noteq> [] then Vector [] else absent_result ctx))"

definition funcAbsentOverTime :: "PValue list \<Rightarrow> EvalContext \<Rightarrow> PValue outcome" where
  "funcAbsentOverTime args ctx =
     obind (matrix_arg args 0) (\<lambda>m. Return (if list_ex (\<lambda>se. se_Samples se \<noteq> []) m then Vector [] else absent_result ctx))"

definition funcAbs :: "PValue list \<Rightarrow> PValue outcome" where "funcAbs = map_values (f64_abs \<circ> v_Value)"
definition funcCeil :: "PValue list \<Rightarrow> PValue outcome" where "funcCeil = map_values (f64_ceil \<circ> v_Value)"
definition funcFloor :: "PValue list \<Rightarrow> PValue outcome" where "funcFloor = map_values (f64_floor \<circ> v_Value)"

definition funcRound :: "PValue list \<Rightarrow> PValue outcome" where
  "funcRound args =
     obind (vector_arg args 0) (\<lambda>_. obind (if 1 < length args then scalar_arg args 1 else Return (Fin 1)) (\<lambda>toNearest.
       map_values (\<lambda>s. f64_mul (f64_nearest (f64_div (v_Value s) toNearest)) toNearest) args))"

definition funcSqrt :: "go_env \<Rightarrow> PValue list \<Rightarrow> PValue outcome" where "funcSqrt E = map_values (ge_math E ''Sqrt'' \<circ> v_Value)"
definition funcLn :: "go_env \<Rightarrow> PValue list \<Rightarrow> PValue outcome" where "funcLn E = map_values (ge_math E ''Log'' \<circ> v_Value)"
definition funcLog2 :: "go_env \<Rightarrow> PValue list \<Rightarrow> PValue outcome" where "funcLog2 E = map_values (ge_math E ''Log2'' \<circ> v_Value)"
definition funcLog10 :: "go_env \<Rightarrow> PValue list \<Rightarrow> PValue outcome" where "funcLog10 E = map_values (ge_math E ''Log10'' \<circ> v_Value)"
definition funcExp :: "go_env \<Rightarrow> PValue list \<Rightarrow> PValue outcome" where "funcExp E = map_values (ge_math E ''Exp'' \<circ> v_Value)"

definition funcSgn :: "PValue list \<Rightarrow> PValue outcome" where
  "funcSgn = map_values (\<lambda>s. if f64_less (Fin 0) (v_Value s) then Fin 1 else if f64_less (v_Value s) (Fin 0) then Fin (- 1) else Fin 0)"

definition at_least :: "f64 \<Rightarrow> f64 \<Rightarrow> f64" where "at_least lo x = (if f64_less x lo then lo else x)"
definition at_most :: "f64 \<Rightarrow> f64 \<Rightarrow> f64" where "at_most hi x = (if f64_less hi x then hi else x)"

definition funcClamp :: "PValue list \<Rightarrow> PValue outcome" where
  "funcClamp args =
     obind (vector_arg args 0) (\<lambda>_. obind (scalar_arg args 1) (\<lambda>lo. obind (scalar_arg args 2) (\<lambda>hi.
       map_values (\<lambda>s. at_most hi (at_least lo (v_Value s))) args)))"

definition funcClampMin :: "PValue list \<Rightarrow> PValue outcome" where
  "funcClampMin args =
     obind (vector_arg args 0) (\<lambda>_. obind (scalar_arg args 1) (\<lambda>lo. map_values (\<lambda>s. at_least lo (v_Value s)) args))"

definition funcClampMax :: "PValue list \<Rightarrow> PValue outcome" where
  "funcClampMax args =
     obind (vector_arg args 0) (\<lambda>_. obind (scalar_arg args 1) (\<lambda>hi. map_values (\<lambda>s. at_most hi (v_Value s)) args))"

section \<open>Conversions and time\<close>

definition unix_seconds :: "go_time \<Rightarrow> int" where "unix_seconds t = t div second"

definition funcScalar :: "PValue list \<Rightarrow> EvalContext \<Rightarrow> PValue outcome" where
  "funcScalar args ctx = obind (vector_arg args 0) (\<lambda>vec.
     Return (case vec of [s] \<Rightarrow> Scalar (v_Value s) (v_Timestamp s) | _ \<Rightarrow> Scalar NaN (cx_End ctx)))"

definition funcVector :: "PValue list \<Rightarrow> PValue outcome" where
  "funcVector args = obind (arg args 0) (\<lambda>v. case v of
     Scalar x t \<Rightarrow> Return (Vector [\<lparr>v_Labels = [], v_Value = x, v_Timestamp = t\<rparr>]) | _ \<Rightarrow> Panic)"

definition funcTime :: "EvalContext \<Rightarrow> PValue outcome" where
  "funcTime ctx = Return (Scalar (f64_of_int (unix_seconds (cx_End ctx))) (cx_End ctx))"

definition funcTimestamp :: "PValue list \<Rightarrow> PValue outcome" where
  "funcTimestamp = map_values (\<lambda>s. f64_of_int (unix_seconds (v_Timestamp s)))"

text \<open>The functions of the date of a sample, in the location of its timestamp.\<close>

definition calendar_func :: "go_env \<Rightarrow> string \<Rightarrow> PValue list \<Rightarrow> PValue outcome" where
  "calendar_func E part = map_values (\<lambda>s. f64_of_int (ge_calendar E part (v_Timestamp s)))"

definition funcSort :: "go_env \<Rightarrow> PValue list \<Rightarrow> PValue outcome" where
  "funcSort E args = obind (vector_arg args 0) (\<lambda>vec.
     Return (Vector (ge_sort E (\<lambda>a b. f64_less (v_Value a) (v_Value b)) vec)))"

definition funcSortDesc :: "go_env \<Rightarrow> PValue list \<Rightarrow> PValue outcome" where
  "funcSortDesc E args = obind (vector_arg args 0) (\<lambda>vec.
     Return (Vector (ge_sort E (\<lambda>a b. f64_less (v_Value b) (v_Value a)) vec)))"

text \<open>\<open>math.Pi\<close>, and the constants of the conversions between degrees and radians.\<close>

definition pi64 :: f64 where "pi64 = Fin (884279719003555 / 281474976710656)"

definition funcPi :: "EvalContext \<Rightarrow> PValue outcome" where
  "funcPi ctx = Return (Scalar pi64 (cx_End ctx))"

definition funcDeg :: "PValue list \<Rightarrow> PValue outcome" where
  "funcDeg = makeSimpleMathFunc (\<lambda>v. f64_div (f64_mul v (Fin 180)) pi64)"

definition funcRad :: "PValue list \<Rightarrow> PValue outcome" where
  "funcRad = makeSimpleMathFunc (\<lambda>v. f64_div (f64_mul v pi64) (Fin 180))"

end
