(* ===== verification/Promql_Metricsql.thy ===== *)
theory Promql_Metricsql
  imports Promql_Functions
begin

text \<open>
  The MetricsQL extensions (\<open>internal/promql/metricsql.go\<close>) and the dispatch of a call to its
  implementation.
\<close>

section \<open>Label manipulation\<close>

text \<open>The label functions that run through pairs of string arguments for every sample: the type
  assertions run only when there is a sample.\<close>

fun label_pairs :: "(string \<Rightarrow> string \<Rightarrow> lset \<Rightarrow> lset) \<Rightarrow> PValue list \<Rightarrow> lset \<Rightarrow> lset outcome" where
  "label_pairs f (a # b # rest) ls =
     (case a of
        StringVal x t \<Rightarrow> (case b of StringVal y u \<Rightarrow> label_pairs f rest (f x y ls) | _ \<Rightarrow> Panic)
      | _ \<Rightarrow> Panic)"
| "label_pairs f _ ls = Return ls"

fun map_outcome :: "('a \<Rightarrow> 'b outcome) \<Rightarrow> 'a list \<Rightarrow> 'b list outcome" where
  "map_outcome f [] = Return []"
| "map_outcome f (x # xs) = obind (f x) (\<lambda>y. obind (map_outcome f xs) (\<lambda>ys. Return (y # ys)))"

definition with_pairs :: "(string \<Rightarrow> string \<Rightarrow> lset \<Rightarrow> lset) \<Rightarrow> PValue list \<Rightarrow> PValue outcome" where
  "with_pairs f args =
     obind (vector_arg args 0) (\<lambda>vec.
       obind (map_outcome (\<lambda>s. obind (label_pairs f (drop 1 args) (v_Labels s)) (\<lambda>ls. Return (s\<lparr>v_Labels := ls\<rparr>))) vec)
         (\<lambda>res. Return (Vector res)))"

definition funcLabelSet :: "PValue list \<Rightarrow> PValue outcome" where
  "funcLabelSet = with_pairs (\<lambda>label value ls. if value = [] then del_label label ls else set_label label value ls)"

definition funcLabelCopy :: "PValue list \<Rightarrow> PValue outcome" where
  "funcLabelCopy = with_pairs (\<lambda>src dst ls. case map_of ls src of None \<Rightarrow> ls | Some v \<Rightarrow> set_label dst v ls)"

definition funcLabelMove :: "PValue list \<Rightarrow> PValue outcome" where
  "funcLabelMove = with_pairs (\<lambda>src dst ls. case map_of ls src of None \<Rightarrow> ls | Some v \<Rightarrow> del_label src (set_label dst v ls))"

definition funcLabelDel :: "PValue list \<Rightarrow> PValue outcome" where
  "funcLabelDel args =
     obind (vector_arg args 0) (\<lambda>vec. obind (string_args (drop 1 args)) (\<lambda>names.
       Return (Vector (map (\<lambda>s. s\<lparr>v_Labels := filter (\<lambda>(k, v). k \<notin> set names) (v_Labels s)\<rparr>) vec))))"

definition funcLabelKeep :: "PValue list \<Rightarrow> PValue outcome" where
  "funcLabelKeep args =
     obind (vector_arg args 0) (\<lambda>vec. obind (string_args (drop 1 args)) (\<lambda>names.
       Return (Vector (map (\<lambda>s. s\<lparr>v_Labels := filter (\<lambda>(k, v). k \<in> set names \<or> k = ''__name__'') (v_Labels s)\<rparr>) vec))))"

text \<open>The error of a pattern that does not compile is not spelled out.\<close>

definition with_regexp :: "go_env \<Rightarrow> PValue list \<Rightarrow> (VectorSample list \<Rightarrow> string \<Rightarrow> string \<Rightarrow> (string \<Rightarrow> bool) \<Rightarrow> PValue outcome) \<Rightarrow>
    PValue outcome" where
  "with_regexp E args f =
     obind (vector_arg args 0) (\<lambda>vec. obind (string_arg args 1) (\<lambda>label. obind (string_arg args 2) (\<lambda>regexStr.
       case ge_re E regexStr of None \<Rightarrow> Error ''error parsing regexp'' | Some re \<Rightarrow> f vec label regexStr re)))"

definition funcLabelTransform :: "go_env \<Rightarrow> PValue list \<Rightarrow> PValue outcome" where
  "funcLabelTransform E args =
     obind (vector_arg args 0) (\<lambda>vec. obind (string_arg args 1) (\<lambda>label. obind (string_arg args 2) (\<lambda>regexStr.
       obind (string_arg args 3) (\<lambda>replacement.
         case ge_re E regexStr of
           None \<Rightarrow> Error ''error parsing regexp''
         | Some re \<Rightarrow> Return (Vector (map (\<lambda>s.
             s\<lparr>v_Labels := (case map_of (v_Labels s) label of None \<Rightarrow> v_Labels s
                | Some v \<Rightarrow> set_label label (ge_replace E regexStr v replacement) (v_Labels s))\<rparr>) vec))))))"

definition funcLabelMatch :: "go_env \<Rightarrow> PValue list \<Rightarrow> PValue outcome" where
  "funcLabelMatch E args = with_regexp E args (\<lambda>vec label pat re.
     Return (Vector (filter (\<lambda>s. case map_of (v_Labels s) label of None \<Rightarrow> False | Some v \<Rightarrow> re v) vec)))"

definition funcLabelMismatch :: "go_env \<Rightarrow> PValue list \<Rightarrow> PValue outcome" where
  "funcLabelMismatch E args = with_regexp E args (\<lambda>vec label pat re.
     Return (Vector (filter (\<lambda>s. case map_of (v_Labels s) label of None \<Rightarrow> True | Some v \<Rightarrow> \<not> re v) vec)))"

section \<open>Union and utilisation\<close>

fun union_samples :: "string list \<Rightarrow> VectorSample list \<Rightarrow> VectorSample list" where
  "union_samples seen [] = []"
| "union_samples seen (s # ss) =
     (let key = labelsToKey (v_Labels s) in
      if key \<in> set seen then union_samples seen ss else s # union_samples (key # seen) ss)"

definition funcUnion :: "PValue list \<Rightarrow> PValue outcome" where
  "funcUnion args =
     obind (map_outcome (\<lambda>a. case a of Vector v \<Rightarrow> Return v | _ \<Rightarrow> Panic) args) (\<lambda>vs.
       Return (Vector (union_samples [] (concat vs))))"

text \<open>Of several capacities with one key the last counts.\<close>

definition funcRU :: "PValue list \<Rightarrow> PValue outcome" where
  "funcRU args =
     obind (vector_arg args 0) (\<lambda>freeVec. obind (vector_arg args 1) (\<lambda>maxVec.
       Return (Vector (concat (map (\<lambda>free.
         case map_of (rev (map (\<lambda>s. (labelsToKey (v_Labels s), v_Value s)) maxVec)) (labelsToKey (v_Labels free)) of
           None \<Rightarrow> []
         | Some mx \<Rightarrow> if f64_eq mx (Fin 0) then []
                      else [sample_out free (f64_div (f64_sub mx (v_Value free)) mx)]) freeVec)))))"

definition funcTTF :: "PValue list \<Rightarrow> PValue outcome" where
  "funcTTF args = obind (matrix_arg args 0) (\<lambda>m. Return (Vector (regression_values (\<lambda>(slope, intercept).
     if f64_le (Fin 0) slope then PosInf
     else let ttf = f64_div (f64_neg intercept) slope in if f64_less ttf (Fin 0) then Fin 0 else ttf) m)))"

section \<open>Ranges and running aggregates\<close>

definition funcRangeMedian :: "go_env \<Rightarrow> PValue list \<Rightarrow> PValue outcome" where
  "funcRangeMedian E = over_time (\<lambda>ss. if ss = [] then NaN else quantile E (Fin (1 / 2)) (sort (values_of ss)))"

definition funcRangeFirst :: "PValue list \<Rightarrow> PValue outcome" where
  "funcRangeFirst = over_time (\<lambda>ss. if ss = [] then NaN else s_Value (hd ss))"

definition funcRangeLast :: "PValue list \<Rightarrow> PValue outcome" where
  "funcRangeLast = over_time (\<lambda>ss. if ss = [] then NaN else s_Value (last ss))"

text \<open>A running value over the samples of each series: the state after a sample, and the value shown.\<close>

fun run_samples :: "('a \<Rightarrow> f64 \<Rightarrow> 'a) \<Rightarrow> ('a \<Rightarrow> nat \<Rightarrow> f64) \<Rightarrow> 'a \<Rightarrow> nat \<Rightarrow> Sample list \<Rightarrow> Sample list" where
  "run_samples step show_val st j [] = []"
| "run_samples step show_val st j (s # ss) =
     (let st1 = step st (s_Value s) in
      \<lparr>s_Timestamp = s_Timestamp s, s_Value = show_val st1 j\<rparr> # run_samples step show_val st1 (Suc j) ss)"

definition running :: "('a \<Rightarrow> f64 \<Rightarrow> 'a) \<Rightarrow> ('a \<Rightarrow> nat \<Rightarrow> f64) \<Rightarrow> (Sample list \<Rightarrow> 'a) \<Rightarrow> Series list \<Rightarrow> PValue" where
  "running step show_val start matrix =
     Matrix (map (\<lambda>se. \<lparr>se_Labels = se_Labels se,
       se_Samples = run_samples step show_val (start (se_Samples se)) 0 (se_Samples se)\<rparr>) matrix)"

definition funcRunningSum :: "PValue list \<Rightarrow> PValue outcome" where
  "funcRunningSum args = obind (matrix_arg args 0) (\<lambda>m. Return (running f64_add (\<lambda>x j. x) (\<lambda>_. Fin 0) m))"

definition funcRunningMax :: "PValue list \<Rightarrow> PValue outcome" where
  "funcRunningMax args = obind (matrix_arg args 0) (\<lambda>m.
     Return (running (\<lambda>mx x. if f64_less mx x then x else mx) (\<lambda>x j. x) (\<lambda>_. NegInf) m))"

definition funcRunningMin :: "PValue list \<Rightarrow> PValue outcome" where
  "funcRunningMin args = obind (matrix_arg args 0) (\<lambda>m.
     Return (running (\<lambda>mn x. if f64_less x mn then x else mn) (\<lambda>x j. x) (\<lambda>_. PosInf) m))"

definition funcRunningAvg :: "PValue list \<Rightarrow> PValue outcome" where
  "funcRunningAvg args = obind (matrix_arg args 0) (\<lambda>m.
     Return (running f64_add (\<lambda>x j. f64_div x (f64_of_int (int j + 1))) (\<lambda>_. Fin 0) m))"

definition funcSmoothExponential :: "PValue list \<Rightarrow> PValue outcome" where
  "funcSmoothExponential args =
     obind (matrix_arg args 0) (\<lambda>m. obind (scalar_arg args 1) (\<lambda>sf0.
       let sf = (if f64_less sf0 (Fin 0) \<or> f64_less (Fin 1) sf0 then Fin (1 / 2) else sf0) in
       Return (running (\<lambda>sm x. f64_add (f64_mul sf x) (f64_mul (f64_sub (Fin 1) sf) sm)) (\<lambda>x j. x)
         (\<lambda>ss. if ss = [] then Fin 0 else s_Value (hd ss)) m)))"

section \<open>Outliers\<close>

text \<open>The constant 0.6745 as a \<open>float64\<close>.\<close>

definition mad_factor :: f64 where "mad_factor = f64_round (6745 / 10000)"

definition funcOutliersMAD :: "go_env \<Rightarrow> PValue list \<Rightarrow> PValue outcome" where
  "funcOutliersMAD E args =
     obind (vector_arg args 0) (\<lambda>vec. obind (scalar_arg args 1) (\<lambda>threshold.
       if vec = [] then Return (Vector [])
       else let values = sort (map v_Value vec);
                median = quantile E (Fin (1 / 2)) values;
                mad = quantile E (Fin (1 / 2)) (sort (map (\<lambda>v. f64_abs (f64_sub v median)) values))
            in Return (Vector (filter (\<lambda>s. \<not> f64_eq mad (Fin 0) \<and>
                 f64_less threshold (f64_div (f64_mul mad_factor (f64_abs (f64_sub (v_Value s) median))) mad)) vec))))"

definition funcOutliersIQR :: "go_env \<Rightarrow> PValue list \<Rightarrow> PValue outcome" where
  "funcOutliersIQR E args =
     obind (vector_arg args 0) (\<lambda>vec. obind (scalar_arg args 1) (\<lambda>threshold.
       if vec = [] then Return (Vector [])
       else let values = sort (map v_Value vec);
                q1 = quantile E (Fin (1 / 4)) values;
                q3 = quantile E (Fin (3 / 4)) values;
                iqr = f64_sub q3 q1;
                lower = f64_sub q1 (f64_mul threshold iqr);
                upper = f64_add q3 (f64_mul threshold iqr)
            in Return (Vector (filter (\<lambda>s. f64_less (v_Value s) lower \<or> f64_less upper (v_Value s)) vec))))"

section \<open>Histogram utilities\<close>

text \<open>The buckets whose bound scans; the total is the last count of an infinite bucket.\<close>

fun share_buckets :: "go_env \<Rightarrow> f64 \<Rightarrow> bucket list \<Rightarrow> VectorSample list \<Rightarrow> bucket list \<times> f64" where
  "share_buckets E tot b [] = (b, tot)"
| "share_buckets E tot b (s # ss) =
     (case map_of (v_Labels s) ''le'' of
        None \<Rightarrow> share_buckets E tot b ss
      | Some le \<Rightarrow>
          if le = ''+Inf'' then share_buckets E (v_Value s) (b @ [(PosInf, v_Value s)]) ss
          else (case ge_scan E le of None \<Rightarrow> share_buckets E tot b ss
                | Some x \<Rightarrow> share_buckets E tot (b @ [(x, v_Value s)]) ss))"

fun share_loop :: "f64 \<Rightarrow> f64 \<Rightarrow> bucket option \<Rightarrow> bucket list \<Rightarrow> f64" where
  "share_loop le tot prev [] = Fin 1"
| "share_loop le tot prev ((bound, count) # bs) =
     (if f64_le le bound then
        (case prev of
           None \<Rightarrow> f64_div count tot
         | Some (pb, pc) \<Rightarrow>
             if f64_eq bound pb then f64_div count tot
             else let fraction = f64_div (f64_sub le pb) (f64_sub bound pb)
                  in f64_div (f64_add pc (f64_mul fraction (f64_sub count pc))) tot)
      else share_loop le tot (Some (bound, count)) bs)"

definition histogramShare :: "go_env \<Rightarrow> f64 \<Rightarrow> VectorSample list \<Rightarrow> f64" where
  "histogramShare E le ss =
     (case share_buckets E (Fin 0) [] ss of
        (b, tot) \<Rightarrow> if f64_eq tot (Fin 0) then NaN else share_loop le tot None (ge_sort_buckets E b))"

abbreviation unless_nan :: "f64 \<Rightarrow> f64 option" where
  "unless_nan x \<equiv> (if x = NaN then None else Some x)"

definition funcHistogramShare :: "go_env \<Rightarrow> PValue list \<Rightarrow> PValue outcome" where
  "funcHistogramShare E args =
     obind (vector_arg args 0) (\<lambda>vec. obind (scalar_arg args 1) (\<lambda>le.
       Return (per_histogram E (\<lambda>ss. unless_nan (histogramShare E le ss)) vec)))"

text \<open>The finite buckets, sorted.\<close>

definition finite_buckets :: "go_env \<Rightarrow> VectorSample list \<Rightarrow> bucket list" where
  "finite_buckets E ss =
     concat (map (\<lambda>s. case map_of (v_Labels s) ''le'' of
        None \<Rightarrow> []
      | Some le \<Rightarrow> if le = ''+Inf'' then [] else (case ge_scan E le of None \<Rightarrow> [] | Some x \<Rightarrow> [(x, v_Value s)])) ss)"

text \<open>Sums over the buckets of a weight of their midpoint times their own count, and of the counts.\<close>

definition bucket_sums :: "(f64 \<Rightarrow> f64) \<Rightarrow> bucket list \<Rightarrow> f64 \<times> f64" where
  "bucket_sums w b =
     (case foldl (\<lambda>(sm, tot, pb, pc) (bound, count).
         let own = f64_sub count pc; mid = f64_div (f64_add pb bound) (Fin 2)
         in (f64_add sm (f64_mul (w mid) own), f64_add tot own, bound, count)) (Fin 0, Fin 0, Fin 0, Fin 0) b of
        (sm, tot, pb, pc) \<Rightarrow> (sm, tot))"

definition histogramAverage :: "go_env \<Rightarrow> VectorSample list \<Rightarrow> f64" where
  "histogramAverage E ss =
     (let b = finite_buckets E ss in
      if b = [] then NaN
      else case bucket_sums (\<lambda>mid. mid) (ge_sort_buckets E b) of
             (sm, tot) \<Rightarrow> if f64_eq tot (Fin 0) then NaN else f64_div sm tot)"

definition funcHistogramAvg :: "go_env \<Rightarrow> PValue list \<Rightarrow> PValue outcome" where
  "funcHistogramAvg E args = obind (vector_arg args 0) (\<lambda>vec.
     Return (per_histogram E (\<lambda>ss. unless_nan (histogramAverage E ss)) vec))"

definition histogramVariance :: "go_env \<Rightarrow> VectorSample list \<Rightarrow> f64" where
  "histogramVariance E ss =
     (let avg = histogramAverage E ss in
      if avg = NaN then NaN
      else case bucket_sums (\<lambda>mid. let d = f64_sub mid avg in f64_mul d d) (ge_sort_buckets E (finite_buckets E ss)) of
             (sm, tot) \<Rightarrow> if f64_eq tot (Fin 0) then NaN else f64_div sm tot)"

definition funcHistogramStdvar :: "go_env \<Rightarrow> PValue list \<Rightarrow> PValue outcome" where
  "funcHistogramStdvar E args = obind (vector_arg args 0) (\<lambda>vec.
     Return (per_histogram E (\<lambda>ss. unless_nan (histogramVariance E ss)) vec))"

section \<open>Thresholds and intervals\<close>

definition with_threshold :: "(f64 \<Rightarrow> Sample list \<Rightarrow> f64) \<Rightarrow> PValue list \<Rightarrow> PValue outcome" where
  "with_threshold f args =
     obind (matrix_arg args 0) (\<lambda>m. obind (scalar_arg args 1) (\<lambda>threshold. Return (aggregateOverTime m (f threshold))))"

definition funcDurationOverTime :: "PValue list \<Rightarrow> PValue outcome" where
  "funcDurationOverTime = with_threshold (\<lambda>th ss.
     if length ss < 2 then Fin 0
     else foldl (\<lambda>d (p, s). if f64_less th (s_Value p)
                            then f64_add d (dur_seconds (time_sub (s_Timestamp s) (s_Timestamp p))) else d) (Fin 0) (pairs ss))"

definition count_of :: "(f64 \<Rightarrow> bool) \<Rightarrow> Sample list \<Rightarrow> f64" where
  "count_of P ss = f64_of_int (int (length (filter (\<lambda>s. P (s_Value s)) ss)))"

definition funcShareGTOverTime :: "PValue list \<Rightarrow> PValue outcome" where
  "funcShareGTOverTime = with_threshold (\<lambda>th ss.
     if ss = [] then NaN else f64_div (count_of (\<lambda>x. f64_less th x) ss) (f64_of_int (int (length ss))))"

definition funcShareLEOverTime :: "PValue list \<Rightarrow> PValue outcome" where
  "funcShareLEOverTime = with_threshold (\<lambda>th ss.
     if ss = [] then NaN else f64_div (count_of (\<lambda>x. f64_le x th) ss) (f64_of_int (int (length ss))))"

definition funcCountGTOverTime :: "PValue list \<Rightarrow> PValue outcome" where
  "funcCountGTOverTime = with_threshold (\<lambda>th ss. count_of (\<lambda>x. f64_less th x) ss)"

definition funcCountLEOverTime :: "PValue list \<Rightarrow> PValue outcome" where
  "funcCountLEOverTime = with_threshold (\<lambda>th ss. count_of (\<lambda>x. f64_le x th) ss)"

definition funcLag :: "PValue list \<Rightarrow> EvalContext \<Rightarrow> PValue outcome" where
  "funcLag args ctx = obind (matrix_arg args 0) (\<lambda>m. Return (Vector (concat (map (\<lambda>se.
     if se_Samples se = [] then []
     else [series_out se (dur_seconds (time_sub (cx_End ctx) (s_Timestamp (last (se_Samples se))))) (cx_End ctx)]) m))))"

text \<open>The time between the first and the last sample of the series with at least two.\<close>

definition with_span :: "(f64 \<Rightarrow> nat \<Rightarrow> f64) \<Rightarrow> PValue list \<Rightarrow> PValue outcome" where
  "with_span f args = obind (matrix_arg args 0) (\<lambda>m. Return (Vector (concat (map (\<lambda>se.
     let ss = se_Samples se in
     if length ss < 2 then []
     else [series_out se (f (dur_seconds (time_sub (s_Timestamp (last ss)) (s_Timestamp (hd ss)))) (length ss))
             (s_Timestamp (last ss))]) m))))"

definition funcLifetime :: "PValue list \<Rightarrow> PValue outcome" where
  "funcLifetime = with_span (\<lambda>span n. span)"

definition funcScrapeInterval :: "PValue list \<Rightarrow> PValue outcome" where
  "funcScrapeInterval = with_span (\<lambda>span n. f64_div span (f64_of_int (int n - 1)))"

section \<open>Dispatch\<close>

text \<open>The \<open>Call\<close> fields of the registry.\<close>

definition promql_calls1 :: "go_env \<Rightarrow> (string \<times> (PValue list \<Rightarrow> EvalContext \<Rightarrow> PValue outcome)) list" where
  "promql_calls1 E = [
     (''rate'', \<lambda>args ctx. funcRate args), (''irate'', \<lambda>args ctx. funcIrate args),
     (''increase'', \<lambda>args ctx. funcIncrease args), (''delta'', \<lambda>args ctx. funcDelta args),
     (''idelta'', \<lambda>args ctx. funcIdelta args), (''deriv'', \<lambda>args ctx. funcDeriv args),
     (''predict_linear'', \<lambda>args ctx. funcPredictLinear args),
     (''resets'', \<lambda>args ctx. funcResets args), (''changes'', \<lambda>args ctx. funcChanges args),
     (''avg_over_time'', \<lambda>args ctx. funcAvgOverTime args),
     (''sum_over_time'', \<lambda>args ctx. funcSumOverTime args),
     (''min_over_time'', \<lambda>args ctx. funcMinOverTime args),
     (''max_over_time'', \<lambda>args ctx. funcMaxOverTime args),
     (''count_over_time'', \<lambda>args ctx. funcCountOverTime args),
     (''stddev_over_time'', \<lambda>args ctx. funcStddevOverTime E args),
     (''stdvar_over_time'', \<lambda>args ctx. funcStdvarOverTime args),
     (''quantile_over_time'', \<lambda>args ctx. funcQuantileOverTime E args),
     (''last_over_time'', \<lambda>args ctx. funcLastOverTime args),
     (''present_over_time'', \<lambda>args ctx. funcPresentOverTime args),
     (''histogram_quantile'', \<lambda>args ctx. funcHistogramQuantile E args),
     (''label_replace'', \<lambda>args ctx. funcLabelReplace args),
     (''label_join'', \<lambda>args ctx. funcLabelJoin args), (''absent'', funcAbsent)]"

definition promql_calls2 :: "go_env \<Rightarrow> (string \<times> (PValue list \<Rightarrow> EvalContext \<Rightarrow> PValue outcome)) list" where
  "promql_calls2 E = [
     (''absent_over_time'', funcAbsentOverTime), (''abs'', \<lambda>args ctx. funcAbs args),
     (''ceil'', \<lambda>args ctx. funcCeil args), (''floor'', \<lambda>args ctx. funcFloor args),
     (''round'', \<lambda>args ctx. funcRound args), (''sqrt'', \<lambda>args ctx. funcSqrt E args),
     (''ln'', \<lambda>args ctx. funcLn E args), (''log2'', \<lambda>args ctx. funcLog2 E args),
     (''log10'', \<lambda>args ctx. funcLog10 E args), (''exp'', \<lambda>args ctx. funcExp E args),
     (''sgn'', \<lambda>args ctx. funcSgn args), (''clamp'', \<lambda>args ctx. funcClamp args),
     (''clamp_min'', \<lambda>args ctx. funcClampMin args), (''clamp_max'', \<lambda>args ctx. funcClampMax args),
     (''scalar'', funcScalar), (''vector'', \<lambda>args ctx. funcVector args),
     (''time'', \<lambda>args ctx. funcTime ctx), (''timestamp'', \<lambda>args ctx. funcTimestamp args),
     (''day_of_month'', \<lambda>args ctx. calendar_func E ''Day'' args),
     (''day_of_week'', \<lambda>args ctx. calendar_func E ''Weekday'' args),
     (''day_of_year'', \<lambda>args ctx. calendar_func E ''YearDay'' args),
     (''days_in_month'', \<lambda>args ctx. calendar_func E ''DaysInMonth'' args)]"

definition promql_calls3 :: "go_env \<Rightarrow> (string \<times> (PValue list \<Rightarrow> EvalContext \<Rightarrow> PValue outcome)) list" where
  "promql_calls3 E = [
     (''hour'', \<lambda>args ctx. calendar_func E ''Hour'' args),
     (''minute'', \<lambda>args ctx. calendar_func E ''Minute'' args),
     (''month'', \<lambda>args ctx. calendar_func E ''Month'' args),
     (''year'', \<lambda>args ctx. calendar_func E ''Year'' args), (''sort'', \<lambda>args ctx. funcSort E args),
     (''sort_desc'', \<lambda>args ctx. funcSortDesc E args),
     (''acos'', \<lambda>args ctx. makeSimpleMathFunc (ge_math E ''Acos'') args),
     (''acosh'', \<lambda>args ctx. makeSimpleMathFunc (ge_math E ''Acosh'') args),
     (''asin'', \<lambda>args ctx. makeSimpleMathFunc (ge_math E ''Asin'') args),
     (''asinh'', \<lambda>args ctx. makeSimpleMathFunc (ge_math E ''Asinh'') args),
     (''atan'', \<lambda>args ctx. makeSimpleMathFunc (ge_math E ''Atan'') args),
     (''atanh'', \<lambda>args ctx. makeSimpleMathFunc (ge_math E ''Atanh'') args),
     (''cos'', \<lambda>args ctx. makeSimpleMathFunc (ge_math E ''Cos'') args),
     (''cosh'', \<lambda>args ctx. makeSimpleMathFunc (ge_math E ''Cosh'') args),
     (''sin'', \<lambda>args ctx. makeSimpleMathFunc (ge_math E ''Sin'') args),
     (''sinh'', \<lambda>args ctx. makeSimpleMathFunc (ge_math E ''Sinh'') args),
     (''tan'', \<lambda>args ctx. makeSimpleMathFunc (ge_math E ''Tan'') args),
     (''tanh'', \<lambda>args ctx. makeSimpleMathFunc (ge_math E ''Tanh'') args),
     (''deg'', \<lambda>args ctx. funcDeg args), (''rad'', \<lambda>args ctx. funcRad args),
     (''pi'', \<lambda>args ctx. funcPi ctx)]"

definition metricsql_calls1 :: "go_env \<Rightarrow> (string \<times> (PValue list \<Rightarrow> EvalContext \<Rightarrow> PValue outcome)) list" where
  "metricsql_calls1 E = [
     (''label_set'', \<lambda>args ctx. funcLabelSet args), (''label_del'', \<lambda>args ctx. funcLabelDel args),
     (''label_keep'', \<lambda>args ctx. funcLabelKeep args),
     (''label_copy'', \<lambda>args ctx. funcLabelCopy args),
     (''label_move'', \<lambda>args ctx. funcLabelMove args),
     (''label_transform'', \<lambda>args ctx. funcLabelTransform E args),
     (''label_match'', \<lambda>args ctx. funcLabelMatch E args),
     (''label_mismatch'', \<lambda>args ctx. funcLabelMismatch E args),
     (''union'', \<lambda>args ctx. funcUnion args), (''ru'', \<lambda>args ctx. funcRU args),
     (''ttf'', \<lambda>args ctx. funcTTF args), (''range_median'', \<lambda>args ctx. funcRangeMedian E args),
     (''range_first'', \<lambda>args ctx. funcRangeFirst args),
     (''range_last'', \<lambda>args ctx. funcRangeLast args),
     (''running_sum'', \<lambda>args ctx. funcRunningSum args),
     (''running_max'', \<lambda>args ctx. funcRunningMax args),
     (''running_min'', \<lambda>args ctx. funcRunningMin args),
     (''running_avg'', \<lambda>args ctx. funcRunningAvg args),
     (''smooth_exponential'', \<lambda>args ctx. funcSmoothExponential args),
     (''outliers_mad'', \<lambda>args ctx. funcOutliersMAD E args),
     (''outliers_iqr'', \<lambda>args ctx. funcOutliersIQR E args)]"

definition metricsql_calls2 :: "go_env \<Rightarrow> (string \<times> (PValue list \<Rightarrow> EvalContext \<Rightarrow> PValue outcome)) list" where
  "metricsql_calls2 E = [
     (''histogram_share'', \<lambda>args ctx. funcHistogramShare E args),
     (''histogram_avg'', \<lambda>args ctx. funcHistogramAvg E args),
     (''histogram_stdvar'', \<lambda>args ctx. funcHistogramStdvar E args),
     (''duration_over_time'', \<lambda>args ctx. funcDurationOverTime args),
     (''share_gt_over_time'', \<lambda>args ctx. funcShareGTOverTime args),
     (''share_le_over_time'', \<lambda>args ctx. funcShareLEOverTime args),
     (''count_gt_over_time'', \<lambda>args ctx. funcCountGTOverTime args),
     (''count_le_over_time'', \<lambda>args ctx. funcCountLEOverTime args), (''lag'', funcLag),
     (''lifetime'', \<lambda>args ctx. funcLifetime args),
     (''scrape_interval'', \<lambda>args ctx. funcScrapeInterval args),
     (''first_over_time'', \<lambda>args ctx. funcRangeFirst args),
     (''median_over_time'', \<lambda>args ctx. funcRangeMedian E args)]"

definition function_table :: "go_env \<Rightarrow> (string \<times> (PValue list \<Rightarrow> EvalContext \<Rightarrow> PValue outcome)) list" where
  "function_table E = promql_calls1 E @ promql_calls2 E @ promql_calls3 E @ metricsql_calls1 E @ metricsql_calls2 E"

definition call_function :: "go_env \<Rightarrow> string \<Rightarrow> PValue list \<Rightarrow> EvalContext \<Rightarrow> PValue outcome" where
  "call_function E name args ctx =
     (case map_of (function_table E) name of
        None \<Rightarrow> Error (''function '' @ name @ '' not implemented'')
      | Some f \<Rightarrow> f args ctx)"

end
