(* ===== verification/Promql_Eval.thy ===== *)
theory Promql_Eval
  imports Promql_Metricsql Promql_Parser
begin

text \<open>
  The PromQL evaluator (\<open>Evaluator\<close> of \<open>internal/promql/translate.go\<close>) and the engine above it
  (\<open>engine.go\<close>). The evaluator reads from a store through \<open>ScanRange\<close>; a store may change at a
  read (the prefetching one fills its cache), so evaluation threads its state.
\<close>

section \<open>Evaluation results\<close>

text \<open>A value, an error or a panic, with the store after it. \<open>Unbounded\<close> says that a loop was entered
  whose step never reaches its end, which only a failing iteration could leave; the model stops there.\<close>

datatype ('a, 's) evaled = Value 'a 's | EvalError string 's | EvalPanic | Unbounded

definition ebind :: "('a, 's) evaled \<Rightarrow> ('a \<Rightarrow> 's \<Rightarrow> ('b, 's) evaled) \<Rightarrow> ('b, 's) evaled" where
  "ebind m f = (case m of Value x s \<Rightarrow> f x s | EvalError e s \<Rightarrow> EvalError e s | EvalPanic \<Rightarrow> EvalPanic | Unbounded \<Rightarrow> Unbounded)"

definition lift_outcome :: "'a outcome \<Rightarrow> 's \<Rightarrow> ('a, 's) evaled" where
  "lift_outcome r s = (case r of Return x \<Rightarrow> Value x s | Error e \<Rightarrow> EvalError e s | Panic \<Rightarrow> EvalPanic)"

text \<open>\<open>MetricsStore.ScanRange\<close>: metric, matchers, start and end of the window.\<close>

type_synonym 's store = "'s \<Rightarrow> string \<Rightarrow> LabelMatcher list \<Rightarrow> go_time \<Rightarrow> go_time \<Rightarrow> (Series list, 's) evaled"

section \<open>Selectors\<close>

definition query_end :: "VectorSelectorNode \<Rightarrow> EvalContext \<Rightarrow> go_time" where
  "query_end vs ctx =
     (let e = (if SelOffset vs \<noteq> 0 then cx_End ctx - SelOffset vs else cx_End ctx) in
      case Timestamp vs of
        Some ts \<Rightarrow> ts * second
      | None \<Rightarrow> if StartOrEnd vs = 1 then cx_Start ctx else if StartOrEnd vs = 2 then cx_End ctx else e)"

definition last_sample :: "Series \<Rightarrow> VectorSample list" where
  "last_sample se =
     (if se_Samples se = [] then []
      else [\<lparr>v_Labels = se_Labels se, v_Value = s_Value (last (se_Samples se)), v_Timestamp = s_Timestamp (last (se_Samples se))\<rparr>])"

definition evalVectorSelector :: "'s store \<Rightarrow> VectorSelectorNode \<Rightarrow> EvalContext \<Rightarrow> 's \<Rightarrow> (PValue, 's) evaled" where
  "evalVectorSelector scan vs ctx s =
     (let e = query_end vs ctx in
      ebind (scan s (SelName vs) (LabelMatchers vs) (e - 5 * minute) e) (\<lambda>series s1.
        Value (Vector (concat (map last_sample series))) s1))"

definition evalMatrixSelector :: "'s store \<Rightarrow> VectorSelectorNode \<Rightarrow> duration \<Rightarrow> EvalContext \<Rightarrow> 's \<Rightarrow> (PValue, 's) evaled" where
  "evalMatrixSelector scan vs rng ctx s =
     (let e = query_end vs ctx in
      ebind (scan s (SelName vs) (LabelMatchers vs) (e - rng) e) (\<lambda>series s1. Value (Matrix series) s1))"

section \<open>Operators\<close>

text \<open>\<open>pow\<close> multiplies \<open>int(exp)\<close> times.\<close>

definition pow :: "go_env \<Rightarrow> f64 \<Rightarrow> f64 \<Rightarrow> f64" where
  "pow E base ex = ((\<lambda>r. f64_mul r base) ^^ nat (f64_to_int64 (ge_out E) ex)) (Fin 1)"

abbreviation truth :: "bool \<Rightarrow> f64" where "truth b \<equiv> (if b then Fin 1 else Fin 0)"

text \<open>\<open>%\<close> converts both operands to integers and panics when the divisor becomes 0. There is no case
  for \<open>atan2\<close>.\<close>

definition computeBinop :: "go_env \<Rightarrow> BinaryOp \<Rightarrow> f64 \<Rightarrow> f64 \<Rightarrow> f64 outcome" where
  "computeBinop E op l r =
     (case op of
        OpAdd \<Rightarrow> Return (f64_add l r)
      | OpSub \<Rightarrow> Return (f64_sub l r)
      | OpMul \<Rightarrow> Return (f64_mul l r)
      | OpDiv \<Rightarrow> Return (f64_div l r)
      | OpMod \<Rightarrow> (let a = f64_to_int64 (ge_out E) l; b = f64_to_int64 (ge_out E) r
                  in if b = 0 then Panic else Return (f64_of_int (go_rem a b)))
      | OpPow \<Rightarrow> Return (pow E l r)
      | OpEql \<Rightarrow> Return (truth (f64_eq l r))
      | OpNeq \<Rightarrow> Return (truth (\<not> f64_eq l r))
      | OpLss \<Rightarrow> Return (truth (f64_less l r))
      | OpGtr \<Rightarrow> Return (truth (f64_less r l))
      | OpLte \<Rightarrow> Return (truth (f64_le l r))
      | OpGte \<Rightarrow> Return (truth (f64_le r l))
      | OpAnd \<Rightarrow> Return l
      | OpOr \<Rightarrow> Return l
      | OpUnless \<Rightarrow> Return (Fin 0)
      | OpAtan2 \<Rightarrow> Return (Fin 0))"

definition scalarBinop :: "go_env \<Rightarrow> BinaryOp \<Rightarrow> f64 \<times> go_time \<Rightarrow> f64 \<times> go_time \<Rightarrow> PValue outcome" where
  "scalarBinop E op l r = obind (computeBinop E op (fst l) (fst r)) (\<lambda>x. Return (Scalar x (snd l)))"

text \<open>One sample against a scalar: kept or dropped by a comparison without \<open>bool\<close>.\<close>

definition scalar_sample :: "go_env \<Rightarrow> BinaryOp \<Rightarrow> f64 \<Rightarrow> bool \<Rightarrow> bool \<Rightarrow> VectorSample \<Rightarrow> VectorSample list outcome" where
  "scalar_sample E op x scalarOnLeft returnBool s =
     obind (if scalarOnLeft then computeBinop E op x (v_Value s) else computeBinop E op (v_Value s) x) (\<lambda>val.
       Return (if IsComparisonOp op \<and> \<not> returnBool then (if f64_eq val (Fin 0) then [] else [s])
               else [sample_out s val]))"

definition scalarVectorBinop :: "go_env \<Rightarrow> BinaryOp \<Rightarrow> f64 \<Rightarrow> VectorSample list \<Rightarrow> bool \<Rightarrow> bool \<Rightarrow> PValue outcome" where
  "scalarVectorBinop E op x vec scalarOnLeft returnBool =
     obind (map_outcome (scalar_sample E op x scalarOnLeft returnBool) vec) (\<lambda>rs. Return (Vector (concat rs)))"

text \<open>One pair of matching samples.\<close>

definition pair_sample ::
  "go_env \<Rightarrow> BinaryOp \<Rightarrow> VectorMatching \<Rightarrow> bool \<Rightarrow> VectorSample \<Rightarrow> VectorSample \<Rightarrow> VectorSample list outcome" where
  "pair_sample E op m returnBool l r =
     obind (computeBinop E op (v_Value l) (v_Value r)) (\<lambda>val.
       Return (if IsComparisonOp op \<and> \<not> returnBool then
                 (if f64_eq val (Fin 0) then [] else [l\<lparr>v_Labels := mergeLabels (v_Labels l) (v_Labels r) m\<rparr>])
               else if IsSetOp op then (if f64_eq val (Fin 0) then [] else [l])
               else [\<lparr>v_Labels = mergeLabels (v_Labels l) (v_Labels r) m, v_Value = val, v_Timestamp = v_Timestamp l\<rparr>]))"

abbreviation default_matching :: VectorMatching where
  "default_matching \<equiv> \<lparr>Card = CardOneToOne, MatchingLabels = [], On = False, Include = []\<rparr>"

definition vectorVectorBinop ::
  "go_env \<Rightarrow> BinaryOp \<Rightarrow> VectorSample list \<Rightarrow> VectorSample list \<Rightarrow> VectorMatching option \<Rightarrow> bool \<Rightarrow> PValue outcome" where
  "vectorVectorBinop E op lhs rhs mo returnBool =
     (let m = (case mo of None \<Rightarrow> default_matching | Some m \<Rightarrow> m);
          rhsMap = group_by (\<lambda>s. matchingKey (v_Labels s) m) rhs
      in obind (map_outcome (\<lambda>l. obind (map_outcome (pair_sample E op m returnBool l)
                    (group_of rhsMap (matchingKey (v_Labels l) m))) (\<lambda>rs. Return (concat rs))) lhs)
           (\<lambda>rs. Return (Vector (concat rs))))"

text \<open>\<open>%T\<close> of the operands is not spelled out.\<close>

definition binary_values :: "go_env \<Rightarrow> BinaryOp \<Rightarrow> VectorMatching option \<Rightarrow> bool \<Rightarrow> PValue \<Rightarrow> PValue \<Rightarrow> PValue outcome" where
  "binary_values E op m returnBool l r =
     (case (l, r) of
        (Scalar x t, Scalar y u) \<Rightarrow> scalarBinop E op (x, t) (y, u)
      | (Scalar x t, Vector v) \<Rightarrow> scalarVectorBinop E op x v True returnBool
      | (Vector v, Scalar x t) \<Rightarrow> scalarVectorBinop E op x v False returnBool
      | (Vector v, Vector w) \<Rightarrow> vectorVectorBinop E op v w m returnBool
      | _ \<Rightarrow> Error ''invalid operand types'')"

definition unary_value :: "ItemType \<Rightarrow> PValue \<Rightarrow> PValue outcome" where
  "unary_value op v =
     (if op = ItemAdd then Return v
      else case v of
        Scalar x t \<Rightarrow> Return (Scalar (f64_neg x) t)
      | Vector ss \<Rightarrow> Return (Vector (map (\<lambda>s. sample_out s (f64_neg (v_Value s))) ss))
      | _ \<Rightarrow> Error ''cannot negate'')"

section \<open>Aggregation\<close>

text \<open>\<open>sqrt\<close>: ten steps of Newton's method.\<close>

definition sqrt64 :: "f64 \<Rightarrow> f64" where
  "sqrt64 x =
     (if f64_less x (Fin 0) then Fin 0
      else ((\<lambda>z. f64_div (f64_add z (f64_div x z)) (Fin 2)) ^^ 10) (f64_div x (Fin 2)))"

fun count_values :: "f64 list \<Rightarrow> (f64 \<times> nat) list" where
  "count_values [] = []"
| "count_values (x # xs) =
     (let cs = count_values xs in
      if x \<noteq> NaN \<and> x \<in> fst ` set cs then map (\<lambda>(y, n). (y, if y = x then n + 1 else n)) cs else (x, 1) # cs)"

text \<open>The result for one group; \<open>param\<close> is the evaluated parameter when it evaluated to a scalar,
  \<open>lit\<close> the parameter when it is a string literal.\<close>

definition aggregate_group :: "go_env \<Rightarrow> ItemType \<Rightarrow> f64 option \<Rightarrow> string option \<Rightarrow> lset \<Rightarrow> VectorSample list \<Rightarrow>
    VectorSample list outcome" where
  "aggregate_group E op param lit labels samples =
     (let vals = map v_Value samples; ts = v_Timestamp (hd samples);
          one = (\<lambda>x. Return [\<lparr>v_Labels = labels, v_Value = x, v_Timestamp = ts\<rparr>])
      in if op = ItemSum then one (sum_f64 vals)
         else if op = ItemAvg then one (mean_of vals)
         else if op = ItemMin then one (min_of vals)
         else if op = ItemMax then one (max_of vals)
         else if op = ItemCount then one (f64_of_int (int (length samples)))
         else if op = ItemStddev then one (sqrt64 (variance_of vals))
         else if op = ItemStdvar then one (variance_of vals)
         else if op = ItemTopK \<or> op = ItemBottomK then
           (let k = (case param of None \<Rightarrow> 1 | Some x \<Rightarrow> f64_to_int64 (ge_out E) x);
                sorted = ge_sort E (if op = ItemTopK then (\<lambda>a b. f64_less (v_Value b) (v_Value a))
                                    else (\<lambda>a b. f64_less (v_Value a) (v_Value b))) samples;
                k1 = (if int (length samples) < k then int (length samples) else k)
            in if k1 < 0 then Panic else Return (take (nat k1) sorted))
         else if op = ItemQuantile then
           one (quantile E (case param of None \<Rightarrow> Fin (1 / 2) | Some x \<Rightarrow> x) (sort vals))
         else if op = ItemCountValues then
           Return (map (\<lambda>(x, n). \<lparr>v_Labels = (case lit of None \<Rightarrow> labels | Some name \<Rightarrow> set_label name (ge_format E x) labels),
                    v_Value = f64_of_int (int n), v_Timestamp = ts\<rparr>) (count_values vals))
         else if op = ItemGroup then one (Fin 1)
         else one (Fin 0))"

section \<open>The evaluator\<close>

text \<open>The times \<open>t\<close> of a loop from \<open>start\<close> in steps up to \<open>stop\<close>; \<open>None\<close> when it never ends.\<close>

definition step_times :: "go_time \<Rightarrow> go_time \<Rightarrow> duration \<Rightarrow> go_time list option" where
  "step_times start stop step =
     (if stop < start then Some []
      else if step \<le> 0 then None
      else Some (map (\<lambda>i. start + int i * step) [0..<nat ((stop - start) div step) + 1]))"

text \<open>Samples collected by series, in order of first appearance.\<close>

fun add_sample :: "lset \<Rightarrow> Sample \<Rightarrow> Series list \<Rightarrow> Series list" where
  "add_sample ls x [] = [\<lparr>se_Labels = ls, se_Samples = [x]\<rparr>]"
| "add_sample ls x (se # ses) =
     (if labelKey (se_Labels se) = labelKey ls then se\<lparr>se_Samples := se_Samples se @ [x]\<rparr> # ses
      else se # add_sample ls x ses)"

definition subquery_step :: "duration \<Rightarrow> duration \<Rightarrow> duration" where
  "subquery_step step interval = (if step \<noteq> 0 then step else if interval \<noteq> 0 then interval else minute)"

definition range_series :: "go_env \<Rightarrow> Series list \<Rightarrow> Series list" where
  "range_series E ses =
     concat (map (\<lambda>k. filter (\<lambda>se. labelKey (se_Labels se) = k) ses) (ge_iter E (map (labelKey \<circ> se_Labels) ses)))"

fun loop_times :: "(go_time \<Rightarrow> 'a \<Rightarrow> 's \<Rightarrow> ('a, 's) evaled) \<Rightarrow> go_time list \<Rightarrow> 'a \<Rightarrow> 's \<Rightarrow> ('a, 's) evaled" where
  "loop_times f [] acc s = Value acc s"
| "loop_times f (t # ts) acc s = ebind (f t acc s) (\<lambda>acc1 s1. loop_times f ts acc1 s1)"

definition collect_vector :: "PValue \<Rightarrow> Series list \<Rightarrow> Series list" where
  "collect_vector v acc =
     (case v of
        Vector ss \<Rightarrow> fold (\<lambda>x ses. add_sample (v_Labels x) \<lparr>s_Timestamp = v_Timestamp x, s_Value = v_Value x\<rparr> ses) ss acc
      | _ \<Rightarrow> acc)"

text \<open>Evaluating the parameter of \<open>topk\<close>, \<open>bottomk\<close> or \<open>quantile\<close> for a group: an error leaves
  the default, a panic does not.\<close>

definition with_param :: "('s \<Rightarrow> (PValue, 's) evaled) option \<Rightarrow> 's \<Rightarrow> (f64 option \<Rightarrow> 's \<Rightarrow> ('b, 's) evaled) \<Rightarrow> ('b, 's) evaled" where
  "with_param po s f =
     (case po of
        None \<Rightarrow> f None s
      | Some run \<Rightarrow>
          (case run s of
             Value (Scalar x t) s1 \<Rightarrow> f (Some x) s1
           | Value v s1 \<Rightarrow> f None s1
           | EvalError e s1 \<Rightarrow> f None s1
           | EvalPanic \<Rightarrow> EvalPanic
           | Unbounded \<Rightarrow> Unbounded))"

fun aggregate_groups :: "go_env \<Rightarrow> ItemType \<Rightarrow> ('s \<Rightarrow> (PValue, 's) evaled) option \<Rightarrow> string option \<Rightarrow> string list \<Rightarrow> bool \<Rightarrow>
    (string \<times> VectorSample list) list \<Rightarrow> VectorSample list \<Rightarrow> 's \<Rightarrow> (PValue, 's) evaled" where
  "aggregate_groups E op po lit grouping without [] acc s = Value (Vector acc) s"
| "aggregate_groups E op po lit grouping without ((k, samples) # gs) acc s =
     with_param (if op = ItemTopK \<or> op = ItemBottomK \<or> op = ItemQuantile then po else None) s (\<lambda>param s1.
       ebind (lift_outcome (aggregate_group E op param lit (groupLabelSet (v_Labels (hd samples)) grouping without) samples) s1)
         (\<lambda>rs s2. aggregate_groups E op po lit grouping without gs (acc @ rs) s2))"

definition string_literal :: "Expr option \<Rightarrow> string option" where
  "string_literal po = (case po of Some (StringLiteral x p) \<Rightarrow> Some x | _ \<Rightarrow> None)"

fun eval :: "go_env \<Rightarrow> 's store \<Rightarrow> Expr \<Rightarrow> EvalContext \<Rightarrow> 's \<Rightarrow> (PValue, 's) evaled"
  and eval_args :: "go_env \<Rightarrow> 's store \<Rightarrow> Expr list \<Rightarrow> EvalContext \<Rightarrow> 's \<Rightarrow> (PValue list, 's) evaled" where
  "eval E scan (VectorSelector vs) ctx s = evalVectorSelector scan vs ctx s"
| "eval E scan (MatrixSelector vs r p) ctx s = evalMatrixSelector scan vs r ctx s"
| "eval E scan (NumberLiteral x p) ctx s = Value (Scalar x (cx_End ctx)) s"
| "eval E scan (StringLiteral x p) ctx s = Value (StringVal x (cx_End ctx)) s"
| "eval E scan (UnaryExpr op e p) ctx s =
     ebind (eval E scan e ctx s) (\<lambda>v s1. lift_outcome (unary_value op v) s1)"
| "eval E scan (BinaryExpr op l r m rb p) ctx s =
     ebind (eval E scan l ctx s) (\<lambda>lv s1. ebind (eval E scan r ctx s1) (\<lambda>rv s2.
       lift_outcome (binary_values E op m rb lv rv) s2))"
| "eval E scan (AggregateExpr op e po grouping without p) ctx s =
     ebind (eval E scan e ctx s) (\<lambda>v s1.
       case v of
         Vector vec \<Rightarrow>
           aggregate_groups E op (case po of None \<Rightarrow> None | Some pe \<Rightarrow> Some (eval E scan pe ctx)) (string_literal po) grouping
             without (range_groups E (group_by (\<lambda>x. groupKey (v_Labels x) grouping without) vec)) [] s1
       | _ \<Rightarrow> EvalError ''aggregate requires vector input'' s1)"
| "eval E scan (Call f args p) ctx s =
     ebind (eval_args E scan args ctx s) (\<lambda>vs s1. lift_outcome (call_function E (FnName f) vs ctx) s1)"
| "eval E scan (ParenExpr e p) ctx s = eval E scan e ctx s"
| "eval E scan (Subquery e rng st ofs p) ctx s =
     (let step = subquery_step st (cx_Interval ctx);
          stop = (if ofs \<noteq> 0 then cx_End ctx - ofs else cx_End ctx)
      in case step_times (stop - rng) stop step of
           None \<Rightarrow> Unbounded
         | Some ts \<Rightarrow>
             ebind (loop_times (\<lambda>t acc s1.
                 ebind (eval E scan e \<lparr>cx_Start = t - step, cx_End = t, cx_Interval = step\<rparr> s1) (\<lambda>v s2.
                   Value (collect_vector v acc) s2)) ts [] s) (\<lambda>ses s1. Value (Matrix (range_series E ses)) s1))"
| "eval_args E scan [] ctx s = Value [] s"
| "eval_args E scan (e # es) ctx s =
     ebind (eval E scan e ctx s) (\<lambda>v s1. ebind (eval_args E scan es ctx s1) (\<lambda>vs s2. Value (v # vs) s2))"

end
