(* ===== verification/Promql_Store.thy ===== *)
theory Promql_Store
  imports Promql_Eval
begin

text \<open>
  The SQL metrics store of \<open>internal/promql/translate.go\<close>: the full scan, the scan through the label
  index and the listings, over the rows that the database delivers. The statements of the source are
  translated to filters on the tables they name.
\<close>

section \<open>The tables\<close>

text \<open>A row of \<open>metrics\<close>; \<open>r_Tags\<close> is \<open>None\<close> for NULL, \<open>r_SeriesID\<close> likewise.\<close>

record metric_row =
  r_Timestamp :: go_time
  r_Name :: string
  r_Value :: f64
  r_Tags :: "string option"
  r_SeriesID :: "int option"

text \<open>The rows of \<open>metrics\<close> that can be scanned, in the order of \<open>ORDER BY name, timestamp\<close>; the
  order in which a statement without \<open>ORDER BY\<close> delivers them; what \<open>json.Unmarshal\<close> puts in a map
  for a text and whether it succeeds; the rows of \<open>series\<close> and \<open>label_index\<close>; and whether the label index exists, its
  statements run, and the others do (\<open>Some\<close> error when not).\<close>

record metrics_db =
  db_rows :: "metric_row list"
  db_unordered :: "metric_row list \<Rightarrow> metric_row list"
  db_unmarshal :: "string \<Rightarrow> lset"
  db_json_ok :: "string \<Rightarrow> bool"
  db_series :: "(int \<times> string) list"
  db_label_index :: "(int \<times> string \<times> string) list"
  db_has_index :: bool
  db_index_runs :: bool
  db_error :: "string option"

section \<open>Scanning\<close>

text \<open>The label map of a row; of the orders of its entries the sorted one stands for the map.\<close>

definition row_tags :: "metrics_db \<Rightarrow> metric_row \<Rightarrow> lset" where
  "row_tags db r =
     (case r_Tags r of
        None \<Rightarrow> [(''__name__'', r_Name r)]
      | Some j \<Rightarrow> if j = [] then [(''__name__'', r_Name r)]
                  else sort_key fst (set_label ''__name__'' (r_Name r) (db_unmarshal db j)))"

definition row_sample :: "metric_row \<Rightarrow> Sample" where
  "row_sample r = \<lparr>s_Timestamp = r_Timestamp r, s_Value = r_Value r\<rparr>"

fun collect_rows :: "go_env \<Rightarrow> metrics_db \<Rightarrow> LabelMatcher list \<Rightarrow> metric_row list \<Rightarrow> Series list \<Rightarrow> Series list outcome" where
  "collect_rows E db ms [] acc = Return acc"
| "collect_rows E db ms (r # rs) acc =
     obind (matchLabels (ge_re E) (row_tags db r) ms) (\<lambda>b.
       collect_rows E db ms rs (if b then add_sample (row_tags db r) (row_sample r) acc else acc))"

definition in_window :: "go_time \<Rightarrow> go_time \<Rightarrow> metric_row \<Rightarrow> bool" where
  "in_window start stop r \<longleftrightarrow> start \<le> r_Timestamp r \<and> r_Timestamp r \<le> stop"

definition full_rows :: "metrics_db \<Rightarrow> string \<Rightarrow> go_time \<Rightarrow> go_time \<Rightarrow> metric_row list" where
  "full_rows db metric start stop =
     filter (\<lambda>r. in_window start stop r \<and> (metric \<noteq> [] \<longrightarrow> r_Name r = metric)) (db_rows db)"

definition scanRangeFull ::
  "go_env \<Rightarrow> metrics_db \<Rightarrow> string \<Rightarrow> LabelMatcher list \<Rightarrow> go_time \<Rightarrow> go_time \<Rightarrow> Series list outcome" where
  "scanRangeFull E db metric ms start stop =
     (case db_error db of
        Some e \<Rightarrow> Error (''query error: '' @ e)
      | None \<Rightarrow> obind (collect_rows E db ms (full_rows db metric start stop) []) (\<lambda>ses. Return (range_series E ses)))"

definition extractEqualityMatchers :: "LabelMatcher list \<Rightarrow> LabelMatcher list" where
  "extractEqualityMatchers ms = filter (\<lambda>m. MatchType m = MatchEqual \<and> MatchName m \<noteq> ''__name__'') ms"

text \<open>The source compares pointers; a matcher that equals an extracted one is itself extracted.\<close>

definition filterOutEquality :: "LabelMatcher list \<Rightarrow> LabelMatcher list \<Rightarrow> LabelMatcher list" where
  "filterOutEquality all_ms eq_ms = filter (\<lambda>m. m \<notin> set eq_ms) all_ms"

text \<open>The rows joined with \<open>series\<close> whose series is in the intersection of the index look-ups.\<close>

definition indexed_row :: "metrics_db \<Rightarrow> string \<Rightarrow> LabelMatcher list \<Rightarrow> metric_row \<Rightarrow> bool" where
  "indexed_row db metric eq_ms r =
     (case r_SeriesID r of
        None \<Rightarrow> False
      | Some i \<Rightarrow> list_ex (\<lambda>(j, name). j = i \<and> (metric \<noteq> [] \<longrightarrow> name = metric)) (db_series db) \<and>
          list_all (\<lambda>m. (i, MatchName m, MatchValue m) \<in> set (db_label_index db)) eq_ms)"

definition scanRangeIndexed ::
  "go_env \<Rightarrow> metrics_db \<Rightarrow> string \<Rightarrow> LabelMatcher list \<Rightarrow> LabelMatcher list \<Rightarrow> go_time \<Rightarrow> go_time \<Rightarrow> Series list outcome" where
  "scanRangeIndexed E db metric eq_ms all_ms start stop =
     (if \<not> db_index_runs db then scanRangeFull E db metric all_ms start stop
      else obind (collect_rows E db (filterOutEquality all_ms eq_ms)
                    (filter (\<lambda>r. in_window start stop r \<and> indexed_row db metric eq_ms r) (db_rows db)) [])
             (\<lambda>ses. Return (range_series E ses)))"

definition ScanRange ::
  "go_env \<Rightarrow> metrics_db option \<Rightarrow> string \<Rightarrow> LabelMatcher list \<Rightarrow> go_time \<Rightarrow> go_time \<Rightarrow> Series list outcome" where
  "ScanRange E dbo metric ms start stop =
     (case dbo of
        None \<Rightarrow> Error ''database not configured''
      | Some db \<Rightarrow>
          (let eq_ms = extractEqualityMatchers ms in
           if eq_ms \<noteq> [] \<and> db_has_index db then scanRangeIndexed E db metric eq_ms ms start stop
           else scanRangeFull E db metric ms start stop))"

text \<open>The store as the evaluator calls it; reading leaves the database as it is.\<close>

definition sql_store :: "go_env \<Rightarrow> metrics_db option store" where
  "sql_store E dbo metric ms start stop = lift_outcome (ScanRange E dbo metric ms start stop) dbo"

section \<open>Listings\<close>

definition ListMetrics :: "metrics_db option \<Rightarrow> string list outcome" where
  "ListMetrics dbo =
     (case dbo of
        None \<Rightarrow> Return []
      | Some db \<Rightarrow> (case db_error db of Some e \<Rightarrow> Error e | None \<Rightarrow> Return (sort (remdups (map r_Name (db_rows db))))))"

text \<open>The decoded tags of the rows of a metric, in the order of delivery.\<close>

definition tag_texts :: "metrics_db \<Rightarrow> string \<Rightarrow> string option list" where
  "tag_texts db metric = map r_Tags (db_unordered db (filter (\<lambda>r. metric \<noteq> [] \<longrightarrow> r_Name r = metric) (db_rows db)))"

definition decoded_tags :: "metrics_db \<Rightarrow> string option list \<Rightarrow> lset list" where
  "decoded_tags db ts =
     concat (map (\<lambda>t. case t of None \<Rightarrow> [] | Some j \<Rightarrow> if j = [] \<or> \<not> db_json_ok db j then [] else [db_unmarshal db j]) ts)"

definition indexed_entries :: "metrics_db \<Rightarrow> string \<Rightarrow> (int \<times> string \<times> string) list" where
  "indexed_entries db metric =
     filter (\<lambda>(i, k, v). metric \<noteq> [] \<longrightarrow> list_ex (\<lambda>(j, name). j = i \<and> name = metric) (db_series db)) (db_label_index db)"

definition ListLabels :: "metrics_db option \<Rightarrow> string \<Rightarrow> string list outcome" where
  "ListLabels dbo metric =
     (case dbo of
        None \<Rightarrow> Return []
      | Some db \<Rightarrow>
          if db_has_index db \<and> db_index_runs db then
            Return (sort (''__name__'' # remdups (map (\<lambda>(i, k, v). k) (indexed_entries db metric))))
          else (case db_error db of
                  Some e \<Rightarrow> Error e
                | None \<Rightarrow> Return (sort (remdups (''__name__'' #
                    concat (map (map fst) (decoded_tags db (take 1000 (remdups (tag_texts db metric))))))))))"

definition ListLabelValues :: "metrics_db option \<Rightarrow> string \<Rightarrow> string \<Rightarrow> string list outcome" where
  "ListLabelValues dbo label metric =
     (case dbo of
        None \<Rightarrow> Return []
      | Some db \<Rightarrow>
          if label = ''__name__'' then ListMetrics dbo
          else if db_has_index db \<and> db_index_runs db then
            Return (sort (remdups (concat (map (\<lambda>(i, k, v). if k = label then [v] else []) (indexed_entries db metric)))))
          else (case db_error db of
                  Some e \<Rightarrow> Error e
                | None \<Rightarrow> Return (sort (remdups (concat (map (\<lambda>ls. case map_of ls label of None \<Rightarrow> [] | Some v \<Rightarrow> [v])
                    (decoded_tags db (take 10000 (tag_texts db metric)))))))))"

end
