(* ===== verification/Promql_Engine.thy ===== *)
theory Promql_Engine
  imports Promql_Store
begin

text \<open>
  The query engine (\<open>internal/promql/engine.go\<close>): instant and range queries, the store that caches the
  scans of a range query, series and label listings, metadata, and the response format.
\<close>

section \<open>The prefetching store\<close>

record 's prefetchStore =
  ps_inner :: 's
  ps_fullStart :: go_time
  ps_fullEnd :: go_time
  ps_cache :: "string \<rightharpoonup> Series list"

definition newPrefetchStore :: "'s \<Rightarrow> go_time \<Rightarrow> go_time \<Rightarrow> 's prefetchStore" where
  "newPrefetchStore inner fullStart fullEnd =
     \<lparr>ps_inner = inner, ps_fullStart = fullStart, ps_fullEnd = fullEnd, ps_cache = Map.empty\<rparr>"

definition prefetch_key :: "string \<Rightarrow> LabelMatcher list \<Rightarrow> string" where
  "prefetch_key metric ms = metric @ concat (map (\<lambda>m. ''|'' @ LabelMatcher_String m) ms)"

definition window_series :: "go_time \<Rightarrow> go_time \<Rightarrow> Series \<Rightarrow> Series list" where
  "window_series start stop se =
     (let samples = filter (\<lambda>x. start \<le> s_Timestamp x \<and> s_Timestamp x \<le> stop) (se_Samples se) in
      if samples = [] then [] else [\<lparr>se_Labels = se_Labels se, se_Samples = samples\<rparr>])"

definition window_filter :: "go_time \<Rightarrow> go_time \<Rightarrow> Series list \<Rightarrow> Series list" where
  "window_filter start stop ses = concat (map (window_series start stop) ses)"

definition prefetch_ScanRange :: "'s store \<Rightarrow> 's prefetchStore store" where
  "prefetch_ScanRange scan s metric ms start stop =
     (let key = prefetch_key metric ms in
      case ps_cache s key of
        Some cached \<Rightarrow> Value (window_filter start stop cached) s
      | None \<Rightarrow>
          (case scan (ps_inner s) metric ms (ps_fullStart s) (ps_fullEnd s) of
             Value result s1 \<Rightarrow>
               Value (window_filter start stop result) (s\<lparr>ps_inner := s1, ps_cache := (ps_cache s)(key \<mapsto> result)\<rparr>)
           | EvalError e s1 \<Rightarrow> EvalError e (s\<lparr>ps_inner := s1\<rparr>)
           | EvalPanic \<Rightarrow> EvalPanic
           | Unbounded \<Rightarrow> Unbounded))"

section \<open>Queries\<close>

record QueryResult =
  qr_ResultType :: string
  qr_Result :: PValue

fun resultType :: "PValue \<Rightarrow> string" where
  "resultType (Scalar x t) = ''scalar''"
| "resultType (Vector v) = ''vector''"
| "resultType (Matrix m) = ''matrix''"
| "resultType (StringVal x t) = ''string''"

text \<open>\<open>ParseError.Error\<close>; an error of \<open>ParseDuration\<close> is passed on as it is.\<close>

fun ParseErr_Error :: "ParseErr \<Rightarrow> string" where
  "ParseErr_Error (ParseError p msg q0) =
     ''parse error at line '' @ int_str (Line p) @ '', column '' @ int_str (Column p) @ '': '' @ msg"
| "ParseErr_Error (DurationError e) = e"

text \<open>A query text is parsed with the tables of the lexer; running out of the parser's fuel is \<open>Unbounded\<close>.\<close>

definition with_parsed :: "unicode_tables \<Rightarrow> go_env \<Rightarrow> string \<Rightarrow> 's \<Rightarrow> (Expr \<Rightarrow> ('a, 's) evaled) \<Rightarrow> ('a, 's) evaled" where
  "with_parsed U E q s f =
     (case Parse U (ge_out E) q of
        Parsed expr p \<Rightarrow> f expr
      | Failed e \<Rightarrow> EvalError (ParseErr_Error e) s
      | NoFuel \<Rightarrow> Unbounded)"

definition Query :: "unicode_tables \<Rightarrow> go_env \<Rightarrow> 's store \<Rightarrow> string \<Rightarrow> go_time \<Rightarrow> 's \<Rightarrow> (QueryResult, 's) evaled" where
  "Query U E scan q ts s =
     with_parsed U E q s (\<lambda>expr.
       ebind (eval E scan expr \<lparr>cx_Start = ts, cx_End = ts, cx_Interval = 0\<rparr> s) (\<lambda>v s1.
         Value \<lparr>qr_ResultType = resultType v, qr_Result = v\<rparr> s1))"

text \<open>One step of a range query: the result goes to its series with the time of the step.\<close>

definition collect_range :: "go_time \<Rightarrow> PValue \<Rightarrow> Series list \<Rightarrow> Series list" where
  "collect_range t v acc =
     (case v of
        Scalar x u \<Rightarrow> add_sample [] \<lparr>s_Timestamp = t, s_Value = x\<rparr> acc
      | Vector ss \<Rightarrow> fold (\<lambda>x ses. add_sample (v_Labels x) \<lparr>s_Timestamp = t, s_Value = v_Value x\<rparr> ses) ss acc
      | _ \<Rightarrow> acc)"

definition range_step :: "go_env \<Rightarrow> 's store \<Rightarrow> Expr \<Rightarrow> go_time \<Rightarrow> duration \<Rightarrow> go_time \<Rightarrow> Series list \<Rightarrow> 's \<Rightarrow>
    (Series list, 's) evaled" where
  "range_step E scan expr start step t acc s =
     ebind (eval E scan expr \<lparr>cx_Start = start, cx_End = t, cx_Interval = step\<rparr> s) (\<lambda>v s1. Value (collect_range t v acc) s1)"

text \<open>The caller sees the inner store after the query, not the cache.\<close>

fun drop_cache :: "('a, 's prefetchStore) evaled \<Rightarrow> ('a, 's) evaled" where
  "drop_cache (Value x s) = Value x (ps_inner s)"
| "drop_cache (EvalError e s) = EvalError e (ps_inner s)"
| "drop_cache EvalPanic = EvalPanic"
| "drop_cache Unbounded = Unbounded"

definition range_query :: "go_env \<Rightarrow> 's store \<Rightarrow> Expr \<Rightarrow> go_time \<Rightarrow> go_time \<Rightarrow> duration \<Rightarrow> 's \<Rightarrow> (QueryResult, 's) evaled" where
  "range_query E scan expr start stop step s =
     (case step_times start stop step of
        None \<Rightarrow> Unbounded
      | Some ts \<Rightarrow>
          drop_cache (ebind (loop_times (range_step E (prefetch_ScanRange scan) expr start step) ts [] (newPrefetchStore s start stop))
            (\<lambda>ses s1. Value \<lparr>qr_ResultType = ''matrix'', qr_Result = Matrix (range_series E ses)\<rparr> s1)))"

definition QueryRange :: "unicode_tables \<Rightarrow> go_env \<Rightarrow> 's store \<Rightarrow> string \<Rightarrow> go_time \<Rightarrow> go_time \<Rightarrow> duration \<Rightarrow> 's \<Rightarrow>
    (QueryResult, 's) evaled" where
  "QueryRange U E scan q start stop step s =
     with_parsed U E q s (\<lambda>expr. range_query E scan expr start stop step s)"

section \<open>Listings\<close>

definition parse_selector :: "unicode_tables \<Rightarrow> go_env \<Rightarrow> string \<Rightarrow> VectorSelectorNode option" where
  "parse_selector U E q = (case Parse U (ge_out E) q of Parsed (VectorSelector vs) p \<Rightarrow> Some vs | _ \<Rightarrow> None)"

definition selectors :: "unicode_tables \<Rightarrow> go_env \<Rightarrow> string list \<Rightarrow> VectorSelectorNode list" where
  "selectors U E qs = concat (map (\<lambda>q. case parse_selector U E q of None \<Rightarrow> [] | Some vs \<Rightarrow> [vs]) qs)"

text \<open>The first name that is not empty, and the matchers of all selectors together.\<close>

definition EngineSeries :: "unicode_tables \<Rightarrow> go_env \<Rightarrow> 's store \<Rightarrow> string list \<Rightarrow> go_time \<Rightarrow> go_time \<Rightarrow> 's \<Rightarrow>
    (lset list, 's) evaled" where
  "EngineSeries U E scan matchers start stop s =
     (let vss = selectors U E matchers;
          metricName = foldl (\<lambda>n vs. if n = [] then SelName vs else n) [] vss
      in ebind (scan s metricName (concat (map LabelMatchers vss)) start stop) (\<lambda>series s1.
           Value (map se_Labels series) s1))"

definition listing_metric :: "unicode_tables \<Rightarrow> go_env \<Rightarrow> string list \<Rightarrow> string" where
  "listing_metric U E matchers = (case selectors U E matchers of [] \<Rightarrow> [] | vs # _ \<Rightarrow> SelName vs)"

definition LabelNames :: "unicode_tables \<Rightarrow> go_env \<Rightarrow> metrics_db option \<Rightarrow> string list \<Rightarrow> string list outcome" where
  "LabelNames U E dbo matchers = ListLabels dbo (listing_metric U E matchers)"

definition LabelValues :: "unicode_tables \<Rightarrow> go_env \<Rightarrow> metrics_db option \<Rightarrow> string \<Rightarrow> string list \<Rightarrow> string list outcome" where
  "LabelValues U E dbo label matchers = ListLabelValues dbo label (listing_metric U E matchers)"

record MetricMetadata =
  md_Metric :: string
  md_Type :: string
  md_Help :: string
  md_Unit :: string

definition inferMetricType :: "string \<Rightarrow> string" where
  "inferMetricType name =
     (let lower = to_lower name in
      if has_suffix lower ''_total'' \<or> has_suffix lower ''_count'' then ''counter''
      else if has_suffix lower ''_bucket'' then ''histogram''
      else if has_suffix lower ''_sum'' then ''counter''
      else ''gauge'')"

fun metadata_loop :: "string \<Rightarrow> int \<Rightarrow> string list \<Rightarrow> MetricMetadata list \<Rightarrow> MetricMetadata list" where
  "metadata_loop metric limit [] acc = acc"
| "metadata_loop metric limit (n # ns) acc =
     (if metric \<noteq> [] \<and> n \<noteq> metric then metadata_loop metric limit ns acc
      else let acc1 = acc @ [\<lparr>md_Metric = n, md_Type = inferMetricType n, md_Help = [], md_Unit = []\<rparr>]
           in if 0 < limit \<and> limit \<le> int (length acc1) then acc1 else metadata_loop metric limit ns acc1)"

definition Metadata :: "metrics_db option \<Rightarrow> string \<Rightarrow> int \<Rightarrow> MetricMetadata list outcome" where
  "Metadata dbo metric limit = obind (ListMetrics dbo) (\<lambda>ns. Return (metadata_loop metric limit ns []))"

section \<open>Responses\<close>

datatype json = JNum f64 | JStr string | JList "json list" | JLabels lset | JObj "(string \<times> json) list"

text \<open>\<open>FormatFloat\<close> with format \<open>f\<close> of a finite number is a parameter.\<close>

definition formatFloat :: "(f64 \<Rightarrow> string) \<Rightarrow> f64 \<Rightarrow> string" where
  "formatFloat fmt v =
     (if v = NaN then ''NaN'' else if v = PosInf then ''+Inf'' else if v = NegInf then ''-Inf'' else fmt v)"

definition unix_json :: "go_time \<Rightarrow> json" where
  "unix_json t = JNum (f64_of_int (t div second))"

fun formatValue :: "(f64 \<Rightarrow> string) \<Rightarrow> PValue \<Rightarrow> json list" where
  "formatValue fmt (Scalar x t) = [JList [unix_json t, JStr (formatFloat fmt x)]]"
| "formatValue fmt (Vector v) =
     map (\<lambda>s. JObj [(''metric'', JLabels (v_Labels s)),
                    (''value'', JList [unix_json (v_Timestamp s), JStr (formatFloat fmt (v_Value s))])]) v"
| "formatValue fmt (Matrix m) =
     map (\<lambda>se. JObj [(''metric'', JLabels (se_Labels se)),
                     (''values'', JList (map (\<lambda>x. JList [unix_json (s_Timestamp x), JStr (formatFloat fmt (s_Value x))])
                        (se_Samples se)))]) m"
| "formatValue fmt (StringVal x t) = [JList [unix_json t, JStr x]]"

record QueryData =
  qd_ResultType :: string
  qd_Result :: "json list"

record PrometheusResponse =
  pr_Status :: string
  pr_Data :: "QueryData option"
  pr_ErrorType :: string
  pr_Error :: string

definition FormatQueryResult :: "(f64 \<Rightarrow> string) \<Rightarrow> QueryResult \<Rightarrow> PrometheusResponse" where
  "FormatQueryResult fmt r =
     \<lparr>pr_Status = ''success'',
      pr_Data = Some \<lparr>qd_ResultType = qr_ResultType r, qd_Result = formatValue fmt (qr_Result r)\<rparr>,
      pr_ErrorType = [], pr_Error = []\<rparr>"

definition ErrorResponse :: "string \<Rightarrow> string \<Rightarrow> PrometheusResponse" where
  "ErrorResponse errorType msg = \<lparr>pr_Status = ''error'', pr_Data = None, pr_ErrorType = errorType, pr_Error = msg\<rparr>"

text \<open>\<open>ParseFloat\<close> on any text, \<open>time.Parse\<close> with the two layouts in turn, and the clock are parameters.\<close>

definition ParseTime :: "(string \<Rightarrow> f64 option) \<Rightarrow> (string \<Rightarrow> go_time option) \<Rightarrow> (string \<Rightarrow> go_time option) \<Rightarrow> (f64 \<Rightarrow> int) \<Rightarrow>
    go_time \<Rightarrow> string \<Rightarrow> go_time outcome" where
  "ParseTime pf rfc3339 local out now s =
     (if s = [] then Return now
      else case pf s of
        Some f \<Rightarrow> (let sec = f64_to_int64 out f;
                       nsec = f64_to_int64 out (f64_mul (f64_sub f (f64_of_int sec)) (Fin 1000000000))
                   in Return (sec * second + nsec))
      | None \<Rightarrow>
          (case rfc3339 s of
             Some t \<Rightarrow> Return t
           | None \<Rightarrow>
               (case local s of
                  Some t \<Rightarrow> Return t
                | None \<Rightarrow>
                    if hd s = CHR ''-'' then obind (ParseDuration out (tl s)) (\<lambda>d. Return (now - d))
                    else Error (''cannot parse time: '' @ s))))"

definition ParseDurationParam :: "(string \<Rightarrow> f64 option) \<Rightarrow> (f64 \<Rightarrow> int) \<Rightarrow> string \<Rightarrow> duration \<Rightarrow> duration outcome" where
  "ParseDurationParam pf out s defaultVal =
     (if s = [] then Return defaultVal
      else case pf s of
        Some f \<Rightarrow> Return (f64_to_int64 out (f64_mul f (Fin 1000000000)))
      | None \<Rightarrow> ParseDuration out s)"

end
