(* ===== verification/Promql_Keys.thy ===== *)
theory Promql_Keys
  imports Promql_Engine Promql_Strings
begin

text \<open>
  The texts that stand for label sets and selectors as map keys: when two of them are equal.
\<close>

section \<open>Keys of label sets\<close>

text \<open>Labels whose key can be read back: distinct names without \<open>=\<close>, values without a comma.\<close>

definition clean_labels :: "lset \<Rightarrow> bool" where
  "clean_labels ls \<longleftrightarrow> distinct (map fst ls) \<and> list_all (\<lambda>(k, v). CHR ''='' \<notin> set k \<and> CHR '','' \<notin> set v) ls"

text \<open>The entries in the order of the key.\<close>

definition sorted_entries :: "lset \<Rightarrow> lset" where
  "sorted_entries ls = map (\<lambda>k. (k, label_of ls k)) (sort (map fst ls))"

definition render_entries :: "lset \<Rightarrow> string" where
  "render_entries es = concat (map (\<lambda>(k, v). k @ ''='' @ v @ '','') es)"

lemma labelKey_entries: "labelKey ls = render_entries (sorted_entries ls)"
  by (simp add: labelKey_def render_labels_def render_entries_def sorted_entries_def comp_def)

lemma append_marked_eq:
  assumes "c \<notin> set xs" "c \<notin> set ys" "xs @ c # us = ys @ c # vs"
  shows "xs = ys \<and> us = vs"
proof -
  have "takeWhile (\<lambda>x. x \<noteq> c) (xs @ c # us) = xs" "takeWhile (\<lambda>x. x \<noteq> c) (ys @ c # vs) = ys"
    using assms(1,2) by (auto simp: takeWhile_append2 takeWhile_tail)
  then show ?thesis using assms(3) by auto
qed

lemma render_entries_inj:
  assumes "list_all (\<lambda>(k, v). CHR ''='' \<notin> set k \<and> CHR '','' \<notin> set v) es"
    "list_all (\<lambda>(k, v). CHR ''='' \<notin> set k \<and> CHR '','' \<notin> set v) fs" "render_entries es = render_entries fs"
  shows "es = fs"
  using assms
proof (induction es arbitrary: fs)
  case Nil
  then show ?case by (cases fs) (auto simp: render_entries_def split: prod.splits)
next
  case (Cons e es)
  obtain k v where e: "e = (k, v)" by (cases e)
  show ?case
  proof (cases fs)
    case Nil
    then show ?thesis using Cons.prems(3) e by (simp add: render_entries_def)
  next
    case (Cons f gs)
    obtain l w where f: "f = (l, w)" by (cases f)
    have "k @ CHR ''='' # v @ CHR '','' # render_entries es = l @ CHR ''='' # w @ CHR '','' # render_entries gs"
      using Cons.prems(3) Cons e f by (simp add: render_entries_def)
    then have k: "k = l" and "v @ CHR '','' # render_entries es = w @ CHR '','' # render_entries gs"
      using append_marked_eq [of "CHR ''=''" k l] Cons.prems(1,2) Cons e f by auto
    then have "v = w" "render_entries es = render_entries gs"
      using append_marked_eq [of "CHR '',''" v w] Cons.prems(1,2) Cons e f by auto
    then show ?thesis using Cons.IH [of gs] Cons.prems(1,2) Cons e f k by simp
  qed
qed

lemma map_of_sorted_entries: "map_of (sorted_entries ls) = map_of ls"
proof
  fix k
  have "map_of (sorted_entries ls) k = (if k \<in> fst ` set ls then Some (label_of ls k) else None)"
    by (simp add: sorted_entries_def map_of_map_restrict restrict_map_def)
  also have "\<dots> = map_of ls k"
    using map_of_eq_None_iff [of ls k] by (cases "map_of ls k") (simp_all add: label_of_def)
  finally show "map_of (sorted_entries ls) k = map_of ls k" .
qed

lemma sorted_entries_cong:
  assumes "distinct (map fst ls)" "distinct (map fst ms)" "map_of ls = map_of ms"
  shows "sorted_entries ls = sorted_entries ms"
proof -
  have "set (map fst ls) = set (map fst ms)"
    using assms(3) by (metis dom_map_of_conv_image_fst list.set_map)
  then have "sort (map fst ls) = sort (map fst ms)"
    using assms(1,2) by (metis sorted_list_of_set_sort_remdups distinct_remdups_id)
  then show ?thesis using assms(3) by (simp add: sorted_entries_def label_of_def)
qed

lemma clean_sorted_entries:
  "clean_labels ls \<Longrightarrow> list_all (\<lambda>(k, v). CHR ''='' \<notin> set k \<and> CHR '','' \<notin> set v) (sorted_entries ls)"
  by (fastforce simp: clean_labels_def sorted_entries_def label_of_def list_all_iff split: option.splits dest: map_of_SomeD)

text \<open>The key of a label set determines it, whenever the names have no equals sign and the values no
  comma: two such label sets have the same key exactly when they are the same map. So a store or a
  query that groups samples by key never mixes two series. Without the condition it does: one label
  with the value \<open>1,b=2\<close> has the key of two labels.
\<close>

theorem labelKey_separates:
  assumes "clean_labels ls" "clean_labels ms"
  shows "labelKey ls = labelKey ms \<longleftrightarrow> map_of ls = map_of ms"
proof
  assume "labelKey ls = labelKey ms"
  then have "sorted_entries ls = sorted_entries ms"
    using assms by (intro render_entries_inj) (simp_all add: clean_sorted_entries labelKey_entries)
  then show "map_of ls = map_of ms" by (metis map_of_sorted_entries)
next
  assume "map_of ls = map_of ms"
  then show "labelKey ls = labelKey ms"
    using assms sorted_entries_cong [of ls ms] by (simp add: clean_labels_def labelKey_entries)
qed

theorem labelKey_separates_witness:
  "labelKey [(''b'', ''2''), (''a'', ''1'')] = labelKey [(''a'', ''1''), (''b'', ''2'')] \<and>
   labelKey [(''a'', ''1'')] \<noteq> labelKey [(''a'', ''2'')] \<and>
   labelKey [(''a'', ''1,b=2'')] = labelKey [(''a'', ''1''), (''b'', ''2'')]"
proof -
  have c: "clean_labels [(''b'', ''2''), (''a'', ''1'')]" "clean_labels [(''a'', ''1''), (''b'', ''2'')]"
    "clean_labels [(''a'', ''1'')]" "clean_labels [(''a'', ''2'')]" by (simp_all add: clean_labels_def)
  have "map_of [(''b'', ''2''), (''a'', ''1'')] = map_of [(''a'', ''1''), (''b'', ''2'')]" by (rule ext) simp
  then have "labelKey [(''b'', ''2''), (''a'', ''1'')] = labelKey [(''a'', ''1''), (''b'', ''2'')]"
    using labelKey_separates [OF c(1,2)] by simp
  moreover have "map_of [(''a'', ''1'')] \<noteq> map_of [(''a'', ''2'')]" by (auto dest: fun_cong [of _ _ "''a''"])
  then have "labelKey [(''a'', ''1'')] \<noteq> labelKey [(''a'', ''2'')]" using labelKey_separates [OF c(3,4)] by simp
  moreover have "labelKey [(''a'', ''1,b=2'')] = labelKey [(''a'', ''1''), (''b'', ''2'')]"
    by (simp add: labelKey_def render_labels_def label_of_def)
  ultimately show ?thesis by blast
qed

section \<open>Keys of selectors\<close>

text \<open>A quoted character can be read off the front of a text.\<close>

definition hex_value :: "char \<Rightarrow> nat" where
  "hex_value c = (let b = of_char c :: nat in if b < 58 then b - 48 else b - 87)"

definition named_escape :: "char \<Rightarrow> char" where
  "named_escape d =
     (if d = CHR ''a'' then CHR 0x07 else if d = CHR ''b'' then CHR 0x08 else if d = CHR ''f'' then CHR 0x0C
      else if d = CHR ''n'' then CHR 0x0A else if d = CHR ''r'' then CHR 0x0D else if d = CHR ''t'' then CHR 0x09
      else if d = CHR ''v'' then CHR 0x0B else d)"

fun unquote_char :: "string \<Rightarrow> char \<times> string" where
  "unquote_char (c # d # h # k # r) =
     (if c \<noteq> CHR 0x5C then (c, d # h # k # r)
      else if d = CHR ''x'' then (char_of (16 * hex_value h + hex_value k), r) else (named_escape d, h # k # r))"
| "unquote_char (c # r) = (if c \<noteq> CHR 0x5C then (c, r) else (named_escape (hd r), tl r))"
| "unquote_char [] = (CHR 0x00, [])"

lemma unquote_plain: "c \<noteq> CHR 0x5C \<Longrightarrow> unquote_char (c # r) = (c, r)"
  by (cases "c # r" rule: unquote_char.cases) auto

lemma unquote_named: "d \<noteq> CHR ''x'' \<Longrightarrow> unquote_char (CHR 0x5C # d # r) = (named_escape d, r)"
  by (cases "CHR 0x5C # d # r" rule: unquote_char.cases) auto

lemma hex_value_digit: "k < 16 \<Longrightarrow> hex_value (hex_digit k) = k"
  by (auto simp: hex_value_def hex_digit_def Let_def)

lemma unquote_quote: "unquote_char (quote_char c @ r) = (c, r)"
proof -
  let ?b = "of_char c :: nat"
  have b: "?b < 256" by simp
  have name: "c = CHR 0x07 \<or> ?b \<noteq> 7" "c = CHR 0x08 \<or> ?b \<noteq> 8" "c = CHR 0x0C \<or> ?b \<noteq> 12" "c = CHR 0x0A \<or> ?b \<noteq> 10"
    "c = CHR 0x0D \<or> ?b \<noteq> 13" "c = CHR 0x09 \<or> ?b \<noteq> 9" "c = CHR 0x0B \<or> ?b \<noteq> 11" "c = CHR 0x22 \<or> ?b \<noteq> 34" "c = CHR 0x5C \<or> ?b \<noteq> 92"
    using char_code [of c] by (auto simp: char_of_def bit_0)
  consider "?b = 34 \<or> ?b = 92" | "32 \<le> ?b \<and> ?b < 127 \<and> ?b \<noteq> 34 \<and> ?b \<noteq> 92" | "?b \<in> {7, 8, 9, 10, 11, 12, 13}"
    | "\<not> (32 \<le> ?b \<and> ?b < 127)" "?b \<notin> {7, 8, 9, 10, 11, 12, 13}" by blast
  then show ?thesis
  proof cases
    case 1
    then show ?thesis using name by (auto simp: quote_char_def unquote_named named_escape_def)
  next
    case 2
    then have "c \<noteq> CHR 0x5C" by auto
    then show ?thesis using 2 by (simp add: quote_char_def unquote_plain Let_def)
  next
    case 3
    then show ?thesis using name by (auto simp: quote_char_def unquote_named named_escape_def)
  next
    case 4
    have d: "?b div 16 < 16" "?b mod 16 < 16" using b by (simp_all add: less_mult_imp_div_less)
    have "?b \<noteq> 34" "?b \<noteq> 92" using 4 by auto
    then have "quote_char c = [CHR 0x5C, CHR ''x'', hex_digit (?b div 16), hex_digit (?b mod 16)]"
      using 4 by (auto simp: quote_char_def Let_def)
    then show ?thesis using hex_value_digit [OF d(1)] hex_value_digit [OF d(2)] by simp
  qed
qed

lemma quote_char_start: "quote_char c @ x \<noteq> CHR 0x22 # y"
  by (auto simp: quote_char_def Let_def)

lemma quoted_inj:
  "concat (map quote_char s) @ CHR 0x22 # x = concat (map quote_char t) @ CHR 0x22 # y \<Longrightarrow> s = t \<and> x = y"
proof (induction s arbitrary: t)
  case Nil
  then show ?case using quote_char_start by (cases t) (auto, metis)
next
  case (Cons c s)
  then show ?case
  proof (cases t)
    case Nil
    then show ?thesis using Cons.prems quote_char_start [of c] by simp
  next
    case (Cons d u)
    then have "(c, concat (map quote_char s) @ CHR 0x22 # x) = (d, concat (map quote_char u) @ CHR 0x22 # y)"
      using Cons.prems by (metis append.assoc concat.simps(2) list.simps(9) unquote_quote)
    then show ?thesis using Cons.IH [of u] Cons by simp
  qed
qed

text \<open>A matcher whose name has neither of the characters that start an operator.\<close>

definition clean_matcher :: "LabelMatcher \<Rightarrow> bool" where
  "clean_matcher m \<longleftrightarrow> CHR ''='' \<notin> set (MatchName m) \<and> CHR ''!'' \<notin> set (MatchName m)"

definition clean_selector :: "string \<Rightarrow> LabelMatcher list \<Rightarrow> bool" where
  "clean_selector metric ms \<longleftrightarrow> CHR ''|'' \<notin> set metric \<and> list_all clean_matcher ms"

lemma op_start: "LabelMatchType_String t @ CHR 0x22 # x = LabelMatchType_String u @ CHR 0x22 # y \<Longrightarrow> t = u \<and> x = y"
  by (cases t; cases u) auto

lemma op_text: "\<exists>c r. LabelMatchType_String t @ x = c # r \<and> (c = CHR ''='' \<or> c = CHR ''!'')"
  by (cases t) auto

lemma name_eq:
  assumes "clean_matcher m" "clean_matcher n"
    "MatchName m @ LabelMatchType_String t @ x = MatchName n @ LabelMatchType_String u @ y"
  shows "MatchName m = MatchName n \<and> LabelMatchType_String t @ x = LabelMatchType_String u @ y"
proof -
  let ?P = "\<lambda>c. c \<noteq> CHR ''='' \<and> c \<noteq> CHR ''!''"
  have take: "takeWhile ?P (MatchName m' @ LabelMatchType_String t' @ x') = MatchName m'" if "clean_matcher m'" for m' t' x'
  proof -
    obtain c r where "LabelMatchType_String t' @ x' = c # r" "\<not> ?P c" using op_text [of t' x'] by blast
    moreover have "takeWhile ?P (MatchName m' @ c # r) = MatchName m' @ takeWhile ?P (c # r)"
      using that by (intro takeWhile_append2) (auto simp: clean_matcher_def)
    ultimately show ?thesis by simp
  qed
  have "MatchName m = MatchName n" using take [OF assms(1), of t x] take [OF assms(2), of u y] assms(3) by simp
  then show ?thesis using assms(3) by simp
qed

lemma matcher_string_inj:
  assumes "clean_matcher m" "clean_matcher n" "LabelMatcher_String m @ x = LabelMatcher_String n @ y"
  shows "m = n \<and> x = y"
proof -
  have e: "MatchName m @ LabelMatchType_String (MatchType m) @ CHR 0x22 # concat (map quote_char (MatchValue m)) @ CHR 0x22 # x
    = MatchName n @ LabelMatchType_String (MatchType n) @ CHR 0x22 # concat (map quote_char (MatchValue n)) @ CHR 0x22 # y"
    using assms(3) by (simp add: LabelMatcher_String_def StringLiteral_String_def)
  note n = name_eq [OF assms(1,2) e]
  then have "MatchType m = MatchType n \<and> MatchValue m = MatchValue n \<and> x = y"
    using op_start [of "MatchType m" _ "MatchType n"] quoted_inj by blast
  then show ?thesis using n by (metis (full_types) LabelMatcher.equality unit.exhaust)
qed

lemma matcher_list_inj:
  "list_all clean_matcher ms \<Longrightarrow> list_all clean_matcher ns \<Longrightarrow>
   concat (map (\<lambda>m. ''|'' @ LabelMatcher_String m) ms) = concat (map (\<lambda>m. ''|'' @ LabelMatcher_String m) ns) \<Longrightarrow> ms = ns"
proof (induction ms arbitrary: ns)
  case Nil
  then show ?case by (cases ns) auto
next
  case (Cons m ms)
  then obtain n ks where ns: "ns = n # ks" by (cases ns) auto
  then have "m = n \<and> concat (map (\<lambda>m. ''|'' @ LabelMatcher_String m) ms) = concat (map (\<lambda>m. ''|'' @ LabelMatcher_String m) ks)"
    using Cons.prems by (intro matcher_string_inj) auto
  then show ?case using Cons.IH [of ks] Cons.prems ns by simp
qed

lemma prefetch_key_inj:
  assumes "clean_selector metric ms" "clean_selector metric' ns" "prefetch_key metric ms = prefetch_key metric' ns"
  shows "metric = metric' \<and> ms = ns"
proof -
  let ?c = "\<lambda>ms. concat (map (\<lambda>m. ''|'' @ LabelMatcher_String m) ms)"
  have take: "takeWhile (\<lambda>c. c \<noteq> CHR ''|'') (m @ ?c ks) = m" if "CHR ''|'' \<notin> set m" for m ks
    using that by (cases ks) (auto simp: takeWhile_append2 takeWhile_tail takeWhile_eq_all_conv)
  have "metric = metric'"
    using assms take [of metric ms] take [of metric' ns] by (simp add: clean_selector_def prefetch_key_def)
  then show ?thesis using assms matcher_list_inj by (simp add: clean_selector_def prefetch_key_def)
qed

end
