(* ===== verification/Promql_Scans.thy ===== *)
theory Promql_Scans
  imports Promql_Keys "HOL-Library.Multiset"
begin

text \<open>
  What a scan of the SQL store returns: its series by key, the agreement of the scan through the label
  index with the full scan, and the effect of narrowing the window of a scan.
\<close>

section \<open>Matching\<close>

text \<open>The patterns of the matchers compile.\<close>

definition compiles :: "regexps \<Rightarrow> LabelMatcher list \<Rightarrow> bool" where
  "compiles re ms \<longleftrightarrow>
     list_all (\<lambda>m. MatchType m = MatchRegexp \<or> MatchType m = MatchNotRegexp \<longrightarrow> compiledRe re m \<noteq> None) ms"

definition accepts :: "regexps \<Rightarrow> lset \<Rightarrow> LabelMatcher \<Rightarrow> bool" where
  "accepts re ls m \<longleftrightarrow> Matches re m (label_of ls (MatchName m)) = Return True"

lemma matchLabels_compiled: "compiles re ms \<Longrightarrow> matchLabels re ls ms = Return (list_all (accepts re ls) ms)"
  by (induction ms)
    (auto simp: compiles_def accepts_def Matches_def split: LabelMatchType.splits option.splits)

section \<open>Series by key\<close>

abbreviation row_key :: "metrics_db \<Rightarrow> metric_row \<Rightarrow> string" where
  "row_key db r \<equiv> labelKey (row_tags db r)"

definition rows_with :: "metrics_db \<Rightarrow> metric_row list \<Rightarrow> string \<Rightarrow> metric_row list" where
  "rows_with db rows k = filter (\<lambda>r. row_key db r = k) rows"

definition series_of :: "metrics_db \<Rightarrow> metric_row list \<Rightarrow> string \<Rightarrow> Series" where
  "series_of db rows k =
     \<lparr>se_Labels = row_tags db (hd (rows_with db rows k)), se_Samples = map row_sample (rows_with db rows k)\<rparr>"

text \<open>The keys in the order of their first row.\<close>

definition row_keys :: "metrics_db \<Rightarrow> metric_row list \<Rightarrow> string list" where
  "row_keys db rows = rev (remdups (rev (map (row_key db) rows)))"

lemma row_keys_simps [simp]:
  "distinct (row_keys db rows)" "set (row_keys db rows) = row_key db ` set rows"
  by (simp_all add: row_keys_def)

lemma row_keys_snoc:
  "row_keys db (rows @ [r]) = (if row_key db r \<in> set (row_keys db rows) then row_keys db rows else row_keys db rows @ [row_key db r])"
  by (simp add: row_keys_def)

lemma rows_with_nonempty: "k \<in> set (row_keys db rows) \<Longrightarrow> rows_with db rows k \<noteq> []"
  by (auto simp: rows_with_def filter_empty_conv)

lemma series_of_key: "k \<in> set (row_keys db rows) \<Longrightarrow> labelKey (se_Labels (series_of db rows k)) = k"
proof -
  assume "k \<in> set (row_keys db rows)"
  then have "hd (rows_with db rows k) \<in> set (rows_with db rows k)" by (simp add: rows_with_nonempty)
  then show ?thesis by (simp add: series_of_def rows_with_def)
qed

lemma add_sample_map:
  assumes "\<And>k. k \<in> set ks \<Longrightarrow> labelKey (se_Labels (F k)) = k" "distinct ks"
  shows "add_sample ls x (map F ks) =
    (if labelKey ls \<in> set ks
     then map (\<lambda>k. if k = labelKey ls then (F k)\<lparr>se_Samples := se_Samples (F k) @ [x]\<rparr> else F k) ks
     else map F ks @ [\<lparr>se_Labels = ls, se_Samples = [x]\<rparr>])"
  using assms
proof (induction ks)
  case (Cons k ks)
  show ?case
  proof (cases "k = labelKey ls")
    case True
    then have "map (\<lambda>k'. if k' = k then (F k')\<lparr>se_Samples := se_Samples (F k') @ [x]\<rparr> else F k') ks = map F ks"
      using Cons.prems by (intro map_cong) auto
    then show ?thesis using True Cons.prems by simp
  next
    case False
    then show ?thesis using Cons by auto
  qed
qed simp

lemma collect_series:
  "fold (\<lambda>r. add_sample (row_tags db r) (row_sample r)) rows [] = map (series_of db rows) (row_keys db rows)"
proof (induction rows rule: rev_induct)
  case (snoc r rows)
  let ?k = "row_key db r" and ?ks = "row_keys db rows" and ?F = "series_of db rows"
  have step: "add_sample (row_tags db r) (row_sample r) (map ?F ?ks) =
      (if ?k \<in> set ?ks
       then map (\<lambda>k. if k = ?k then (?F k)\<lparr>se_Samples := se_Samples (?F k) @ [row_sample r]\<rparr> else ?F k) ?ks
       else map ?F ?ks @ [\<lparr>se_Labels = row_tags db r, se_Samples = [row_sample r]\<rparr>])"
    by (rule add_sample_map) (use series_of_key in auto)
  have old: "series_of db (rows @ [r]) k =
      (if k = ?k then (?F k)\<lparr>se_Samples := se_Samples (?F k) @ [row_sample r]\<rparr> else ?F k)" if "k \<in> set ?ks" for k
    using rows_with_nonempty [OF that] by (auto simp: series_of_def rows_with_def)
  have new: "series_of db (rows @ [r]) ?k = \<lparr>se_Labels = row_tags db r, se_Samples = [row_sample r]\<rparr>" if "?k \<notin> set ?ks"
  proof -
    have "rows_with db rows ?k = []" using that by (simp add: rows_with_def filter_empty_conv image_iff) metis
    then show ?thesis by (simp add: series_of_def rows_with_def)
  qed
  show ?case
  proof (cases "?k \<in> set ?ks")
    case True
    then show ?thesis using snoc step old by (auto simp: row_keys_snoc intro: map_cong)
  next
    case False
    then have "series_of db (rows @ [r]) k = ?F k" if "k \<in> set ?ks" for k using old [OF that] that by (metis (lifting))
    then have "map (series_of db (rows @ [r])) ?ks = map ?F ?ks" by (intro map_cong) auto
    then show ?thesis using False snoc step new by (simp add: row_keys_snoc)
  qed
qed (simp add: row_keys_def)

text \<open>Ranging over a Go map visits every key once.\<close>

definition iterates :: "go_env \<Rightarrow> bool" where
  "iterates E \<longleftrightarrow> (\<forall>ks. distinct ks \<longrightarrow> mset (ge_iter E ks) = mset ks)"

lemma range_series_map:
  assumes "iterates E" "distinct ks" "\<And>k. k \<in> set ks \<Longrightarrow> labelKey (se_Labels (F k)) = k"
  shows "range_series E (map F ks) = map F (ge_iter E ks)"
proof -
  have keys: "map (labelKey \<circ> se_Labels) (map F ks) = ks" using assms(3) by (simp add: map_idI)
  have one: "filter (\<lambda>se. labelKey (se_Labels se) = k) (map F ks) = [F k]" if "k \<in> set ks" for k
  proof -
    have "filter (\<lambda>se. labelKey (se_Labels se) = k) (map F ks) = map F (filter (\<lambda>k'. k' = k) ks)"
      using assms(3) by (simp add: filter_map comp_def cong: filter_cong)
    moreover have "filter (\<lambda>k'. k' = k) ks = [k]" using assms(2) that by (induction ks) (auto simp: filter_empty_conv)
    ultimately show ?thesis by simp
  qed
  have "set (ge_iter E ks) = set ks" using assms(1,2) by (metis iterates_def mset_eq_setD)
  then have "map (\<lambda>k. filter (\<lambda>se. labelKey (se_Labels se) = k) (map F ks)) (ge_iter E ks) = map (\<lambda>k. [F k]) (ge_iter E ks)"
    using one by (intro map_cong) auto
  then show ?thesis unfolding range_series_def keys by (simp only: concat_map_singleton)
qed

section \<open>Scans\<close>

lemma collect_rows_compiled:
  "compiles (ge_re E) ms \<Longrightarrow> collect_rows E db ms rows acc =
     Return (fold (\<lambda>r. add_sample (row_tags db r) (row_sample r))
       (filter (\<lambda>r. list_all (accepts (ge_re E) (row_tags db r)) ms) rows) acc)"
  by (induction rows arbitrary: acc) (simp_all add: matchLabels_compiled)

definition scan_rows :: "go_env \<Rightarrow> metrics_db \<Rightarrow> string \<Rightarrow> LabelMatcher list \<Rightarrow> go_time \<Rightarrow> go_time \<Rightarrow> metric_row list" where
  "scan_rows E db metric ms a b =
     filter (\<lambda>r. list_all (accepts (ge_re E) (row_tags db r)) ms) (full_rows db metric a b)"

definition series_list :: "go_env \<Rightarrow> metrics_db \<Rightarrow> metric_row list \<Rightarrow> Series list" where
  "series_list E db rows = map (series_of db rows) (ge_iter E (row_keys db rows))"

lemma collect_range_series:
  "iterates E \<Longrightarrow> range_series E (fold (\<lambda>r. add_sample (row_tags db r) (row_sample r)) rows []) = series_list E db rows"
  unfolding collect_series series_list_def by (rule range_series_map) (use series_of_key in auto)

lemma scanRangeFull_series:
  "iterates E \<Longrightarrow> compiles (ge_re E) ms \<Longrightarrow> db_error db = None \<Longrightarrow>
   scanRangeFull E db metric ms a b = Return (series_list E db (scan_rows E db metric ms a b))"
  by (simp add: scanRangeFull_def collect_rows_compiled collect_range_series scan_rows_def)

section \<open>The label index\<close>

text \<open>What \<open>recordPoint\<close> and \<open>internSeries\<close> leave behind: a row with a series belongs to the one series of
  its name, and the index holds exactly its tags; a row without a series has no tags.\<close>

definition index_consistent :: "metrics_db \<Rightarrow> bool" where
  "index_consistent db \<longleftrightarrow>
     list_all (\<lambda>r. case r_SeriesID r of
        None \<Rightarrow> row_tags db r = [(''__name__'', r_Name r)]
      | Some i \<Rightarrow> (i, r_Name r) \<in> set (db_series db) \<and> list_all (\<lambda>(j, n). j = i \<longrightarrow> n = r_Name r) (db_series db) \<and>
          list_all (\<lambda>(k, v). k \<noteq> ''__name__'' \<longrightarrow> (i, k, v) \<in> set (db_label_index db)) (row_tags db r) \<and>
          list_all (\<lambda>(j, k, v). j = i \<longrightarrow> map_of (row_tags db r) k = Some v) (db_label_index db)) (db_rows db)"

lemma indexed_row_iff:
  assumes "index_consistent db" "r \<in> set (db_rows db)" "list_all (\<lambda>m. MatchName m \<noteq> ''__name__'' \<and> MatchValue m \<noteq> []) eq_ms" "eq_ms \<noteq> []"
  shows "indexed_row db metric eq_ms r \<longleftrightarrow>
    (metric \<noteq> [] \<longrightarrow> r_Name r = metric) \<and> list_all (\<lambda>m. label_of (row_tags db r) (MatchName m) = MatchValue m) eq_ms"
proof (cases "r_SeriesID r")
  case None
  then have "row_tags db r = [(''__name__'', r_Name r)]"
    using assms(1,2) by (auto simp: index_consistent_def list_all_iff)
  moreover have "MatchName (hd eq_ms) \<noteq> ''__name__''" "MatchValue (hd eq_ms) \<noteq> []" "hd eq_ms \<in> set eq_ms"
    using assms(3,4) by (auto simp: list_all_iff)
  ultimately show ?thesis using None by (auto simp: indexed_row_def list_all_iff label_of_def)
next
  case (Some i)
  have s: "(i, r_Name r) \<in> set (db_series db)" "\<And>n. (i, n) \<in> set (db_series db) \<Longrightarrow> n = r_Name r"
    and t: "\<And>k v. (k, v) \<in> set (row_tags db r) \<Longrightarrow> k \<noteq> ''__name__'' \<Longrightarrow> (i, k, v) \<in> set (db_label_index db)"
    and x: "\<And>k v. (i, k, v) \<in> set (db_label_index db) \<Longrightarrow> map_of (row_tags db r) k = Some v"
    using assms(1,2) Some by (fastforce simp: index_consistent_def list_all_iff)+
  have "(i, MatchName m, MatchValue m) \<in> set (db_label_index db) \<longleftrightarrow> label_of (row_tags db r) (MatchName m) = MatchValue m"
    if "m \<in> set eq_ms" for m
  proof
    assume "(i, MatchName m, MatchValue m) \<in> set (db_label_index db)"
    then show "label_of (row_tags db r) (MatchName m) = MatchValue m" using x by (simp add: label_of_def)
  next
    assume e: "label_of (row_tags db r) (MatchName m) = MatchValue m"
    have n: "MatchName m \<noteq> ''__name__''" "MatchValue m \<noteq> []" using assms(3) that by (auto simp: list_all_iff)
    then have "map_of (row_tags db r) (MatchName m) = Some (MatchValue m)" using e by (auto simp: label_of_def split: option.splits)
    then show "(i, MatchName m, MatchValue m) \<in> set (db_label_index db)" using t n map_of_SomeD by fast
  qed
  then have "list_all (\<lambda>m. (i, MatchName m, MatchValue m) \<in> set (db_label_index db)) eq_ms \<longleftrightarrow>
      list_all (\<lambda>m. label_of (row_tags db r) (MatchName m) = MatchValue m) eq_ms"
    by (auto simp: list_all_iff)
  moreover have "list_ex (\<lambda>(j, name). j = i \<and> (metric \<noteq> [] \<longrightarrow> name = metric)) (db_series db) \<longleftrightarrow>
      (\<exists>n. (i, n) \<in> set (db_series db) \<and> (metric \<noteq> [] \<longrightarrow> n = metric))"
    by (auto simp: list_ex_iff)
  moreover have "\<dots> \<longleftrightarrow> (metric \<noteq> [] \<longrightarrow> r_Name r = metric)" using s by blast
  ultimately show ?thesis using Some by (simp add: indexed_row_def)
qed

lemma accepts_equal: "MatchType m = MatchEqual \<Longrightarrow> accepts re ls m \<longleftrightarrow> label_of ls (MatchName m) = MatchValue m"
  by (simp add: accepts_def Matches_def)

lemma accepts_split:
  "list_all (accepts re ls) ms \<longleftrightarrow>
     list_all (\<lambda>m. label_of ls (MatchName m) = MatchValue m) (extractEqualityMatchers ms) \<and>
     list_all (accepts re ls) (filterOutEquality ms (extractEqualityMatchers ms))"
  by (simp add: list_all_iff extractEqualityMatchers_def filterOutEquality_def) (metis accepts_equal)

lemma compiles_rest: "compiles re ms \<Longrightarrow> compiles re (filterOutEquality ms eq_ms)"
  by (auto simp: compiles_def list_all_iff filterOutEquality_def)

lemma indexed_series:
  assumes "iterates E" "compiles (ge_re E) ms" "db_index_runs db" "index_consistent db"
    "extractEqualityMatchers ms \<noteq> []" "list_all (\<lambda>m. MatchValue m \<noteq> []) (extractEqualityMatchers ms)"
  shows "scanRangeIndexed E db metric (extractEqualityMatchers ms) ms start stop =
    Return (series_list E db (scan_rows E db metric ms start stop))"
proof -
  let ?eq = "extractEqualityMatchers ms" and ?rest = "filterOutEquality ms (extractEqualityMatchers ms)"
  have eq: "list_all (\<lambda>m. MatchName m \<noteq> ''__name__'' \<and> MatchValue m \<noteq> []) ?eq"
    using assms(6) by (auto simp: list_all_iff extractEqualityMatchers_def)
  have "filter (\<lambda>r. list_all (accepts (ge_re E) (row_tags db r)) ?rest)
          (filter (\<lambda>r. in_window start stop r \<and> indexed_row db metric ?eq r) (db_rows db)) = scan_rows E db metric ms start stop"
    unfolding scan_rows_def full_rows_def filter_filter
    using indexed_row_iff [OF assms(4) _ eq assms(5)] accepts_split [of "ge_re E" _ ms] by (intro filter_cong) auto
  then show ?thesis
    using assms(1-3) by (simp add: scanRangeIndexed_def collect_rows_compiled compiles_rest collect_range_series)
qed


section \<open>Narrowing the window\<close>

definition clean_rows :: "metrics_db \<Rightarrow> bool" where
  "clean_rows db \<longleftrightarrow> list_all (\<lambda>r. clean_labels (row_tags db r)) (db_rows db)"

lemma row_tags_sorted: "sorted (map fst (row_tags db r))"
  by (simp add: row_tags_def split: option.splits)

lemma sorted_entries_id: "sorted (map fst ls) \<Longrightarrow> distinct (map fst ls) \<Longrightarrow> sorted_entries ls = ls"
  unfolding sorted_entries_def by (auto simp: sorted_sort_id label_of_def comp_def intro!: map_idI)

text \<open>Rows with the same key have the same labels.\<close>

lemma row_key_labels:
  assumes "clean_rows db" "r \<in> set (db_rows db)" "q \<in> set (db_rows db)" "row_key db r = row_key db q"
  shows "row_tags db r = row_tags db q"
proof -
  have c: "clean_labels (row_tags db r)" "clean_labels (row_tags db q)"
    using assms(1-3) by (auto simp: clean_rows_def list_all_iff)
  then have "sorted_entries (row_tags db r) = sorted_entries (row_tags db q)"
    using assms(4) by (intro render_entries_inj) (simp_all add: clean_sorted_entries labelKey_entries)
  then show ?thesis
    using sorted_entries_id [OF row_tags_sorted] c by (metis clean_labels_def)
qed

lemma scan_rows_window:
  "filter (in_window a b) (scan_rows E db metric ms lo hi) = scan_rows E db metric ms (max a lo) (min b hi)"
  unfolding scan_rows_def full_rows_def filter_filter by (intro filter_cong) (auto simp: in_window_def)

lemma rows_with_window: "rows_with db (filter P rows) k = filter P (rows_with db rows k)"
  by (auto simp: rows_with_def intro: filter_cong)

lemma window_series_of:
  assumes "clean_rows db" "set rows \<subseteq> set (db_rows db)"
  shows "window_series a b (series_of db rows k) =
    (if k \<in> set (row_keys db (filter (in_window a b) rows)) then [series_of db (filter (in_window a b) rows) k] else [])"
proof -
  let ?rs = "rows_with db rows k" and ?ws = "rows_with db (filter (in_window a b) rows) k"
  have samples: "filter (\<lambda>x. a \<le> s_Timestamp x \<and> s_Timestamp x \<le> b) (map row_sample ?rs) = map row_sample ?ws"
    by (simp add: rows_with_window filter_map comp_def row_sample_def in_window_def [abs_def])
  have empty: "?ws = [] \<longleftrightarrow> k \<notin> set (row_keys db (filter (in_window a b) rows))"
    using rows_with_nonempty [of k db "filter (in_window a b) rows"] by (auto simp: rows_with_def filter_empty_conv)
  have "row_tags db (hd ?rs) = row_tags db (hd ?ws)" if "?ws \<noteq> []"
  proof -
    have "?rs \<noteq> []" using that by (auto simp: rows_with_window)
    then have "hd ?rs \<in> set ?rs" "hd ?ws \<in> set ?ws" using that by simp_all
    then show ?thesis using assms by (intro row_key_labels) (auto simp: rows_with_def)
  qed
  then show ?thesis using samples empty by (auto simp: window_series_def series_of_def)
qed

lemma concat_map_if: "concat (map (\<lambda>x. if P x then [f x] else []) xs) = map f (filter P xs)"
  by (induction xs) simp_all

text \<open>Filtering a scan to a window gives the series of the scan of that window, in some order.\<close>

lemma window_filter_series:
  assumes "iterates E" "clean_rows db" "set rows \<subseteq> set (db_rows db)"
  shows "mset (window_filter a b (series_list E db rows)) = mset (series_list E db (filter (in_window a b) rows))"
proof -
  let ?ws = "filter (in_window a b) rows" and ?it = "ge_iter E (row_keys db rows)"
  have perm: "mset (ge_iter E (row_keys db rs)) = mset (row_keys db rs)" for rs
    using assms(1) by (simp add: iterates_def)
  have "window_filter a b (series_list E db rows) = map (series_of db ?ws) (filter (\<lambda>k. k \<in> set (row_keys db ?ws)) ?it)"
    unfolding window_filter_def series_list_def map_map comp_def window_series_of [OF assms(2,3)]
    by (rule concat_map_if)
  moreover have "mset (filter (\<lambda>k. k \<in> set (row_keys db ?ws)) ?it) = mset (row_keys db ?ws)"
  proof (rule set_eq_iff_mset_eq_distinct [THEN iffD1])
    show "distinct (filter (\<lambda>k. k \<in> set (row_keys db ?ws)) ?it)"
      using perm [of rows] by (metis distinct_filter mset_eq_imp_distinct_iff row_keys_simps(1))
    have "set ?it = set (row_keys db rows)" using perm [of rows] by (rule mset_eq_setD)
    then show "set (filter (\<lambda>k. k \<in> set (row_keys db ?ws)) ?it) = set (row_keys db ?ws)" by auto
  qed simp
  ultimately show ?thesis using perm [of ?ws] by (simp add: series_list_def)
qed

text \<open>A database on which a scan of a metric with some matchers finds its rows.\<close>

definition scan_ready :: "go_env \<Rightarrow> metrics_db \<Rightarrow> LabelMatcher list \<Rightarrow> bool" where
  "scan_ready E db ms \<longleftrightarrow> compiles (ge_re E) ms \<and> db_error db = None \<and>
     (db_has_index db \<longrightarrow> db_index_runs db \<and> index_consistent db \<and>
       list_all (\<lambda>m. MatchValue m \<noteq> []) (extractEqualityMatchers ms))"

lemma ScanRange_series:
  "iterates E \<Longrightarrow> scan_ready E db ms \<Longrightarrow>
   ScanRange E (Some db) metric ms a b = Return (series_list E db (scan_rows E db metric ms a b))"
  by (auto simp: ScanRange_def scan_ready_def Let_def indexed_series scanRangeFull_series)

text \<open>A concrete environment, in which maps are ranged over in order of insertion and no pattern compiles.\<close>

definition plain_env :: go_env where
  "plain_env = \<lparr>ge_re = \<lambda>_. None, ge_replace = \<lambda>_ v _. v, ge_iter = \<lambda>ks. ks, ge_sort = \<lambda>_ v. v, ge_sort_buckets = \<lambda>b. b,
     ge_scan = \<lambda>_. None, ge_math = \<lambda>_ x. x, ge_out = \<lambda>_. 0, ge_calendar = \<lambda>_ _. 0, ge_format = \<lambda>_. []\<rparr>"

lemma iterates_plain: "iterates plain_env"
  by (simp add: iterates_def plain_env_def)

text \<open>Two rows of one series with a tag, and a row without tags.\<close>

definition sample_db :: metrics_db where
  "sample_db = \<lparr>db_rows =
       [\<lparr>r_Timestamp = 10, r_Name = ''up'', r_Value = Fin 1, r_Tags = Some ''j'', r_SeriesID = Some 1\<rparr>,
        \<lparr>r_Timestamp = 20, r_Name = ''up'', r_Value = Fin 2, r_Tags = Some ''j'', r_SeriesID = Some 1\<rparr>,
        \<lparr>r_Timestamp = 20, r_Name = ''up'', r_Value = Fin 5, r_Tags = None, r_SeriesID = None\<rparr>],
     db_unordered = \<lambda>rs. rs, db_unmarshal = \<lambda>_. [(''job'', ''a'')], db_json_ok = \<lambda>_. True,
     db_series = [(1, ''up'')], db_label_index = [(1, ''job'', ''a'')], db_has_index = True, db_index_runs = True,
     db_error = None\<rparr>"

abbreviation equals :: "string \<Rightarrow> string \<Rightarrow> LabelMatcher" where
  "equals k v \<equiv> \<lparr>MatchType = MatchEqual, MatchName = k, MatchValue = v\<rparr>"

abbreviation up_tags :: lset where "up_tags \<equiv> [(''__name__'', ''up''), (''job'', ''a'')]"

lemma sample_tags: "row_tags sample_db \<lparr>r_Timestamp = t, r_Name = ''up'', r_Value = x, r_Tags = Some ''j'', r_SeriesID = i\<rparr> = up_tags"
  "row_tags sample_db \<lparr>r_Timestamp = t, r_Name = ''up'', r_Value = x, r_Tags = None, r_SeriesID = i\<rparr> = [(''__name__'', ''up'')]"
  by (simp_all add: row_tags_def sample_db_def set_label_def insort_key.simps sort_key_def)

lemma sample_rows: "db_rows sample_db =
    [\<lparr>r_Timestamp = 10, r_Name = ''up'', r_Value = Fin 1, r_Tags = Some ''j'', r_SeriesID = Some 1\<rparr>,
     \<lparr>r_Timestamp = 20, r_Name = ''up'', r_Value = Fin 2, r_Tags = Some ''j'', r_SeriesID = Some 1\<rparr>,
     \<lparr>r_Timestamp = 20, r_Name = ''up'', r_Value = Fin 5, r_Tags = None, r_SeriesID = None\<rparr>]"
  by (simp add: sample_db_def)

lemma sample_db_facts: "db_error sample_db = None" "db_index_runs sample_db" "db_has_index sample_db"
    "db_series sample_db = [(1, ''up'')]" "db_label_index sample_db = [(1, ''job'', ''a'')]"
  by (simp_all add: sample_db_def)

lemma sample_consistent: "index_consistent sample_db"
  by (simp add: index_consistent_def sample_rows sample_tags sample_db_facts)


end
