(* ===== verification/Promql_Query.thy ===== *)
theory Promql_Query
  imports Promql_Scans
begin

text \<open>
  Range queries: evaluation does not see the cache of the prefetching store, and what the cache hides of
  the store below it.
\<close>

section \<open>Simulation of stores\<close>

text \<open>Two results that agree, with related stores after them.\<close>

fun matched :: "('s \<Rightarrow> 't \<Rightarrow> bool) \<Rightarrow> ('a, 's) evaled \<Rightarrow> ('a, 't) evaled \<Rightarrow> bool" where
  "matched R (Value v s) (Value w t) \<longleftrightarrow> v = w \<and> R s t"
| "matched R (EvalError e s) (EvalError f t) \<longleftrightarrow> e = f \<and> R s t"
| "matched R EvalPanic EvalPanic \<longleftrightarrow> True"
| "matched R Unbounded Unbounded \<longleftrightarrow> True"
| "matched R _ _ \<longleftrightarrow> False"

lemma matched_bind:
  assumes "matched R m n" "\<And>v s t. R s t \<Longrightarrow> matched R (f v s) (g v t)"
  shows "matched R (ebind m f) (ebind n g)"
  using assms by (cases m; cases n) (auto simp: ebind_def)

lemma matched_lift: "R s t \<Longrightarrow> matched R (lift_outcome r s) (lift_outcome r t)"
  by (cases r) (simp_all add: lift_outcome_def)

lemma matched_param:
  assumes "R s t" "\<And>p s t. R s t \<Longrightarrow> matched R (f p s) (g p t)"
    "rel_option (\<lambda>run run'. \<forall>s t. R s t \<longrightarrow> matched R (run s) (run' t)) po qo"
  shows "matched R (with_param po s f) (with_param qo t g)"
proof (cases po)
  case None
  then show ?thesis using assms by (simp add: with_param_def)
next
  case (Some run)
  then obtain run' where qo: "qo = Some run'" using assms(3) by (cases qo) auto
  then have "matched R (run s) (run' t)" using assms(1,3) Some by simp
  then show ?thesis
    using Some qo assms(2) by (cases "run s"; cases "run' t") (auto simp: with_param_def split: PValue.splits)
qed

lemma matched_groups:
  assumes "R s t" "rel_option (\<lambda>run run'. \<forall>s t. R s t \<longrightarrow> matched R (run s) (run' t)) po qo"
  shows "matched R (aggregate_groups E op po lit grouping without gs acc s) (aggregate_groups E op qo lit grouping without gs acc t)"
  using assms(1)
proof (induction gs arbitrary: acc s t)
  case (Cons g gs)
  obtain k samples where g: "g = (k, samples)" by (cases g)
  show ?case
    unfolding g aggregate_groups.simps
    using Cons.prems assms(2) by (intro matched_param [where R = R] matched_bind [where R = R]) (auto intro: matched_lift Cons.IH)
qed simp

lemma matched_loop:
  assumes "R s t" "\<And>u acc s t. R s t \<Longrightarrow> matched R (f u acc s) (g u acc t)"
  shows "matched R (loop_times f ts acc s) (loop_times g ts acc t)"
  using assms(1)
proof (induction ts arbitrary: acc s t)
  case (Cons u ts)
  then show ?case using assms(2) by (auto intro!: matched_bind)
qed simp

text \<open>A property of all selectors of an expression.\<close>

fun selectors_all :: "(string \<Rightarrow> LabelMatcher list \<Rightarrow> bool) \<Rightarrow> Expr \<Rightarrow> bool" where
  "selectors_all P (VectorSelector vs) \<longleftrightarrow> P (SelName vs) (LabelMatchers vs)"
| "selectors_all P (MatrixSelector vs r p) \<longleftrightarrow> P (SelName vs) (LabelMatchers vs)"
| "selectors_all P (NumberLiteral x p) \<longleftrightarrow> True"
| "selectors_all P (StringLiteral x p) \<longleftrightarrow> True"
| "selectors_all P (UnaryExpr op e p) \<longleftrightarrow> selectors_all P e"
| "selectors_all P (BinaryExpr op l r m rb p) \<longleftrightarrow> selectors_all P l \<and> selectors_all P r"
| "selectors_all P (AggregateExpr op e po grouping without p) \<longleftrightarrow>
     selectors_all P e \<and> (case po of None \<Rightarrow> True | Some pe \<Rightarrow> selectors_all P pe)"
| "selectors_all P (Call f args p) \<longleftrightarrow> list_all (selectors_all P) args"
| "selectors_all P (Subquery e rng st ofs p) \<longleftrightarrow> selectors_all P e"
| "selectors_all P (ParenExpr e p) \<longleftrightarrow> selectors_all P e"

locale store_simulation =
  fixes conc :: "'s store" and spec :: "'t store" and R :: "'s \<Rightarrow> 't \<Rightarrow> bool" and ok :: "string \<Rightarrow> LabelMatcher list \<Rightarrow> bool"
  assumes scan_matched: "R s t \<Longrightarrow> ok metric ms \<Longrightarrow> matched R (conc s metric ms a b) (spec t metric ms a b)"
begin

lemma eval_matched: "selectors_all ok e \<Longrightarrow> R s t \<Longrightarrow> matched R (eval E conc e ctx s) (eval E spec e ctx t)"
proof (induction e arbitrary: ctx s t)
  case (VectorSelector vs)
  then show ?case by (auto simp: evalVectorSelector_def Let_def intro!: matched_bind scan_matched)
next
  case (MatrixSelector vs r p)
  then show ?case by (auto simp: evalMatrixSelector_def Let_def intro!: matched_bind scan_matched)
next
  case (UnaryExpr op e p)
  then show ?case by (auto intro!: matched_bind matched_lift)
next
  case (BinaryExpr op l r m rb p)
  then show ?case by (auto intro!: matched_bind matched_lift)
next
  case (AggregateExpr op e po grouping without p)
  have po: "rel_option (\<lambda>run run'. \<forall>s t. R s t \<longrightarrow> matched R (run s) (run' t))
      (case po of None \<Rightarrow> None | Some pe \<Rightarrow> Some (eval E conc pe ctx)) (case po of None \<Rightarrow> None | Some pe \<Rightarrow> Some (eval E spec pe ctx))"
    using AggregateExpr.IH(2) AggregateExpr.prems(1) by (cases po) auto
  have "matched R (eval E conc e ctx s) (eval E spec e ctx t)"
    using AggregateExpr.IH(1) AggregateExpr.prems by simp
  then show ?case
    unfolding eval.simps by (rule matched_bind) (auto split: PValue.splits intro!: matched_groups po)
next
  case (Call f args p)
  have "matched R (eval_args E conc args ctx s) (eval_args E spec args ctx t)"
    using Call
  proof (induction args arbitrary: s t)
    case (Cons a args)
    have a: "matched R (eval E conc a ctx s) (eval E spec a ctx t)" using Cons.prems by simp
    have as: "matched R (eval_args E conc args ctx s') (eval_args E spec args ctx t')" if "R s' t'" for s' t'
      using Cons.prems that by (intro Cons.IH) auto
    show ?case unfolding eval_args.simps by (intro matched_bind a) (auto intro!: matched_bind as)
  qed simp
  then show ?case unfolding eval.simps by (rule matched_bind) (rule matched_lift)
next
  case (Subquery e rng st ofs p)
  show ?case
    using Subquery
    by (auto simp: Let_def split: option.splits intro!: matched_bind matched_loop)
next
  case (ParenExpr e p)
  then show ?case by simp
qed simp_all

lemma range_step_matched:
  "selectors_all ok e \<Longrightarrow> R s t \<Longrightarrow> matched R (range_step E conc e start step u acc s) (range_step E spec e start step u acc t)"
  by (auto simp: range_step_def intro!: matched_bind eval_matched)

end

section \<open>The cache\<close>

text \<open>The store without a cache: every read fetches the whole range and filters it.\<close>

definition clipped_store :: "'s store \<Rightarrow> go_time \<Rightarrow> go_time \<Rightarrow> 's store" where
  "clipped_store scan lo hi s metric ms a b = ebind (scan s metric ms lo hi) (\<lambda>r s1. Value (window_filter a b r) s1)"

text \<open>The loop of a range query over a store, without a cache.\<close>

definition plain_range_query :: "go_env \<Rightarrow> 's store \<Rightarrow> Expr \<Rightarrow> go_time \<Rightarrow> go_time \<Rightarrow> duration \<Rightarrow> 's \<Rightarrow> (QueryResult, 's) evaled" where
  "plain_range_query E scan expr start stop step s =
     (case step_times start stop step of
        None \<Rightarrow> Unbounded
      | Some ts \<Rightarrow> ebind (loop_times (range_step E scan expr start step) ts [] s)
          (\<lambda>ses s1. Value \<lparr>qr_ResultType = ''matrix'', qr_Result = Matrix (range_series E ses)\<rparr> s1))"

text \<open>A store that reading leaves as it is.\<close>

locale read_only_store =
  fixes scan :: "'s store"
  assumes keeps_value: "scan s metric ms a b = Value r s1 \<Longrightarrow> s1 = s"
    and keeps_error: "scan s metric ms a b = EvalError e s1 \<Longrightarrow> s1 = s"

locale prefetching = read_only_store +
  fixes lo hi :: go_time
begin

definition cache_sound :: "'a prefetchStore \<Rightarrow> 'a \<Rightarrow> bool" where
  "cache_sound s t \<longleftrightarrow> ps_inner s = t \<and> ps_fullStart s = lo \<and> ps_fullEnd s = hi \<and>
     (\<forall>metric ms r. clean_selector metric ms \<longrightarrow> ps_cache s (prefetch_key metric ms) = Some r \<longrightarrow>
        scan t metric ms lo hi = Value r t)"

lemma new_cache_sound: "cache_sound (newPrefetchStore t lo hi) t"
  by (simp add: cache_sound_def newPrefetchStore_def)

lemma fill_cache_sound:
  assumes "cache_sound s t" "clean_selector metric ms" "scan t metric ms lo hi = Value r t"
  shows "cache_sound (s\<lparr>ps_inner := t, ps_cache := (ps_cache s)(prefetch_key metric ms \<mapsto> r)\<rparr>) t"
proof -
  have "scan t m ns lo hi = Value r' t"
    if "clean_selector m ns" "((ps_cache s)(prefetch_key metric ms \<mapsto> r)) (prefetch_key m ns) = Some r'" for m ns r'
  proof (cases "prefetch_key m ns = prefetch_key metric ms")
    case True
    then show ?thesis using that assms prefetch_key_inj [OF that(1) assms(2)] by simp
  next
    case False
    then show ?thesis using that assms(1) by (auto simp: cache_sound_def)
  qed
  then show ?thesis using assms(1) by (simp add: cache_sound_def)
qed

end

sublocale prefetching \<subseteq> sim: store_simulation "prefetch_ScanRange scan" "clipped_store scan lo hi" cache_sound clean_selector
proof
  fix s t metric ms a b
  assume R: "cache_sound s t" and ok: "clean_selector metric ms"
  have f: "ps_inner s = t" "ps_fullStart s = lo" "ps_fullEnd s = hi" using R by (simp_all add: cache_sound_def)
  show "matched cache_sound (prefetch_ScanRange scan s metric ms a b) (clipped_store scan lo hi t metric ms a b)"
  proof (cases "ps_cache s (prefetch_key metric ms)")
    case (Some r)
    then have "scan t metric ms lo hi = Value r t" using R ok by (simp add: cache_sound_def)
    then show ?thesis using Some R by (simp add: prefetch_ScanRange_def clipped_store_def ebind_def)
  next
    case None
    show ?thesis
    proof (cases "scan t metric ms lo hi")
      case (Value r s1)
      then have "s1 = t" by (rule keeps_value)
      then show ?thesis using None Value f fill_cache_sound [OF R ok] by (simp add: prefetch_ScanRange_def clipped_store_def ebind_def)
    next
      case (EvalError e s1)
      then have "s1 = t" by (rule keeps_error)
      then show ?thesis using None EvalError f R by (simp add: prefetch_ScanRange_def clipped_store_def ebind_def cache_sound_def)
    qed (use None f in \<open>simp_all add: prefetch_ScanRange_def clipped_store_def ebind_def\<close>)
  qed
qed

context prefetching
begin

lemma drop_cache_matched: "matched cache_sound m n \<Longrightarrow> drop_cache m = n"
  by (cases m; cases n) (auto simp: cache_sound_def)

lemma range_query_uncached:
  "selectors_all clean_selector expr \<Longrightarrow>
   range_query E scan expr lo hi step t = plain_range_query E (clipped_store scan lo hi) expr lo hi step t"
  unfolding range_query_def plain_range_query_def
  by (auto split: option.splits
      intro!: drop_cache_matched matched_bind [where R = cache_sound] matched_loop [where R = cache_sound]
        sim.range_step_matched new_cache_sound)

end

interpretation sql: prefetching "sql_store E" lo hi for E lo hi
  by unfold_locales (auto simp: sql_store_def lift_outcome_def split: outcome.splits)

text \<open>C18. The cache of a range query is invisible: over the SQL store, a range query returns exactly what
  the same loop returns over a store without a cache that fetches the whole range of the query at every
  read and filters it to the window asked for. This needs that the cache never takes one selector for
  another, which holds when no metric name contains \<open>|\<close> and no label name \<open>=\<close> or \<open>!\<close>.
\<close>

theorem range_query_cache_invisible:
  assumes "selectors_all clean_selector expr"
  shows "range_query E (sql_store E) expr start stop step db =
    plain_range_query E (clipped_store (sql_store E) start stop) expr start stop step db"
  using assms by (rule sql.range_query_uncached)

definition up_selector :: Expr where
  "up_selector = VectorSelector \<lparr>SelName = ''up'', LabelMatchers = [equals ''job'' ''a''], SelOffset = 0, Timestamp = None,
     StartOrEnd = 0, SelPos = \<lparr>Offset = 0, Line = 1, Column = 1\<rparr>\<rparr>"

lemma sample_scan:
  "sql_store plain_env (Some sample_db) ''up'' [equals ''job'' ''a''] lo hi =
     Value (window_filter lo hi [\<lparr>se_Labels = up_tags, se_Samples = [\<lparr>s_Timestamp = 10, s_Value = Fin 1\<rparr>, \<lparr>s_Timestamp = 20, s_Value = Fin 2\<rparr>]\<rparr>])
       (Some sample_db)"
  by (auto simp: sql_store_def ScanRange_def extractEqualityMatchers_def scanRangeIndexed_def filterOutEquality_def in_window_def
      indexed_row_def sample_rows sample_tags row_sample_def range_series_def plain_env_def labelKey_def render_labels_def lift_outcome_def
      sample_db_facts label_of_def window_filter_def window_series_def)

theorem range_query_cache_invisible_witness:
  "range_query plain_env (sql_store plain_env) up_selector 20 40 10 (Some sample_db) =
     plain_range_query plain_env (clipped_store (sql_store plain_env) 20 40) up_selector 20 40 10 (Some sample_db) \<and>
   range_query plain_env (sql_store plain_env) up_selector 20 40 10 (Some sample_db) =
     Value \<lparr>qr_ResultType = ''matrix'', qr_Result = Matrix [\<lparr>se_Labels = up_tags, se_Samples =
       [\<lparr>s_Timestamp = 20, s_Value = Fin 2\<rparr>, \<lparr>s_Timestamp = 30, s_Value = Fin 2\<rparr>, \<lparr>s_Timestamp = 40, s_Value = Fin 2\<rparr>]\<rparr>]\<rparr>
       (Some sample_db)"
proof -
  have "selectors_all clean_selector up_selector" by (simp add: up_selector_def clean_selector_def clean_matcher_def)
  note eq = range_query_cache_invisible [OF this, of plain_env 20 40 10 "Some sample_db"]
  have "plain_range_query plain_env (clipped_store (sql_store plain_env) 20 40) up_selector 20 40 10 (Some sample_db) =
     Value \<lparr>qr_ResultType = ''matrix'', qr_Result = Matrix [\<lparr>se_Labels = up_tags, se_Samples =
       [\<lparr>s_Timestamp = 20, s_Value = Fin 2\<rparr>, \<lparr>s_Timestamp = 30, s_Value = Fin 2\<rparr>, \<lparr>s_Timestamp = 40, s_Value = Fin 2\<rparr>]\<rparr>]\<rparr>
       (Some sample_db)"
    by (simp add: plain_range_query_def step_times_def upt_rec range_step_def up_selector_def evalVectorSelector_def query_end_def
        clipped_store_def sample_scan ebind_def window_filter_def window_series_def last_sample_def collect_range_def
        labelKey_def render_labels_def label_of_def range_series_def) (simp add: plain_env_def)
  then show ?thesis using eq by simp
qed

text \<open>What a range query can see: a read of the prefetching store over the SQL store returns the series
  of the scan of the part of the window that lies inside the range of the query. Samples before its
  start, which the look-back of a selector, a range selector or an offset asks for, are not there.
\<close>

theorem prefetch_clips_window:
  assumes "iterates E" "scan_ready E db ms" "clean_rows db"
  shows "\<exists>ys zs s. prefetch_ScanRange (sql_store E) (newPrefetchStore (Some db) lo hi) metric ms a b = Value ys s \<and>
    ScanRange E (Some db) metric ms (max a lo) (min b hi) = Return zs \<and> mset ys = mset zs"
proof -
  let ?rows = "scan_rows E db metric ms lo hi"
  have "set ?rows \<subseteq> set (db_rows db)" by (auto simp: scan_rows_def full_rows_def)
  then have "mset (window_filter a b (series_list E db ?rows)) = mset (series_list E db (scan_rows E db metric ms (max a lo) (min b hi)))"
    using window_filter_series [OF assms(1,3)] by (simp add: scan_rows_window)
  then show ?thesis
    using ScanRange_series [OF assms(1,2)]
    by (simp add: prefetch_ScanRange_def newPrefetchStore_def sql_store_def lift_outcome_def)
qed

theorem prefetch_clips_window_witness:
  "(\<exists>ys zs s. prefetch_ScanRange (sql_store plain_env) (newPrefetchStore (Some sample_db) 20 40) ''up'' [equals ''job'' ''a''] 0 20 = Value ys s \<and>
     ScanRange plain_env (Some sample_db) ''up'' [equals ''job'' ''a''] (max 0 20) (min 20 40) = Return zs \<and> mset ys = mset zs) \<and>
   sql_store plain_env (Some sample_db) ''up'' [equals ''job'' ''a''] 0 20 =
     Value [\<lparr>se_Labels = up_tags, se_Samples = [\<lparr>s_Timestamp = 10, s_Value = Fin 1\<rparr>, \<lparr>s_Timestamp = 20, s_Value = Fin 2\<rparr>]\<rparr>] (Some sample_db)"
proof
  have "scan_ready plain_env sample_db [equals ''job'' ''a'']" "clean_rows sample_db"
    using sample_consistent by (simp_all add: scan_ready_def compiles_def sample_db_facts extractEqualityMatchers_def clean_rows_def
        sample_rows sample_tags clean_labels_def)
  then show "\<exists>ys zs s. prefetch_ScanRange (sql_store plain_env) (newPrefetchStore (Some sample_db) 20 40) ''up'' [equals ''job'' ''a''] 0 20 = Value ys s \<and>
     ScanRange plain_env (Some sample_db) ''up'' [equals ''job'' ''a''] (max 0 20) (min 20 40) = Return zs \<and> mset ys = mset zs"
    by (rule prefetch_clips_window [OF iterates_plain])
qed (simp add: sample_scan window_filter_def window_series_def)

end
