(* ===== verification/Promql_Vectors.thy ===== *)
theory Promql_Vectors
  imports Promql_Query
begin

text \<open>
  Binary operators between instant vectors and the aggregation of a group.
\<close>

section \<open>Grouping\<close>

lemma map_of_add_group:
  "map_of (add_group k x gs) j = (if j = k then Some (group_of gs k @ [x]) else map_of gs j)"
  by (induction gs) (auto simp: group_of_def)

lemma group_of_add: "group_of (add_group k x gs) j = (if j = k then group_of gs j @ [x] else group_of gs j)"
  by (auto simp: group_of_def map_of_add_group)

text \<open>Looking up a key in the grouped list gives the elements with that key, in order.\<close>

lemma group_of_group_by: "group_of (group_by key xs) k = filter (\<lambda>x. key x = k) xs"
proof -
  have "group_of (fold (\<lambda>x gs. add_group (key x) x gs) xs gs) k = group_of gs k @ filter (\<lambda>x. key x = k) xs" for gs
    by (induction xs arbitrary: gs) (simp_all add: group_of_add)
  then show ?thesis by (simp add: group_by_def group_of_def)
qed

section \<open>Joins\<close>

definition matching_of :: "VectorMatching option \<Rightarrow> VectorMatching" where
  "matching_of mo = (case mo of None \<Rightarrow> default_matching | Some m \<Rightarrow> m)"

definition same_key :: "VectorMatching option \<Rightarrow> VectorSample \<Rightarrow> VectorSample \<Rightarrow> bool" where
  "same_key mo l r \<longleftrightarrow> matchingKey (v_Labels l) (matching_of mo) = matchingKey (v_Labels r) (matching_of mo)"

lemma group_of_matching:
  "group_of (group_by (\<lambda>s. matchingKey (v_Labels s) (matching_of mo)) rhs) (matchingKey (v_Labels l) (matching_of mo)) =
   filter (same_key mo l) rhs"
  unfolding group_of_group_by by (intro filter_cong) (auto simp: same_key_def)

text \<open>The pairs of a nested loop over both vectors.\<close>

definition joined :: "VectorMatching option \<Rightarrow> VectorSample list \<Rightarrow> VectorSample list \<Rightarrow> (VectorSample \<times> VectorSample) list" where
  "joined mo lhs rhs = concat (map (\<lambda>l. map (\<lambda>r. (l, r)) (filter (same_key mo l) rhs)) lhs)"

lemma obind_assoc: "obind (obind m f) g = obind m (\<lambda>x. obind (f x) g)"
  by (cases m) simp_all

lemma map_outcome_append:
  "map_outcome f (xs @ ys) = obind (map_outcome f xs) (\<lambda>us. obind (map_outcome f ys) (\<lambda>vs. Return (us @ vs)))"
proof (induction xs)
  case Nil
  show ?case by (cases "map_outcome f ys") simp_all
qed (simp add: obind_assoc)

lemma map_outcome_map: "map_outcome f (map g xs) = map_outcome (\<lambda>x. f (g x)) xs"
  by (induction xs) simp_all

text \<open>A failure comes from the first pair that fails, in whichever way the loops are nested.\<close>

lemma map_outcome_nested:
  "obind (map_outcome (\<lambda>x. obind (map_outcome (f x) (h x)) (\<lambda>rs. Return (concat rs))) xs) (\<lambda>rs. Return (concat rs)) =
   obind (map_outcome (\<lambda>(x, y). f x y) (concat (map (\<lambda>x. map (\<lambda>y. (x, y)) (h x)) xs))) (\<lambda>rs. Return (concat rs))"
proof (induction xs)
  case (Cons x xs)
  let ?rest = "\<lambda>xs. map_outcome (\<lambda>(x, y). f x y) (concat (map (\<lambda>x. map (\<lambda>y. (x, y)) (h x)) xs))"
  have "obind (map_outcome (\<lambda>x. obind (map_outcome (f x) (h x)) (\<lambda>rs. Return (concat rs))) (x # xs)) (\<lambda>rs. Return (concat rs)) =
      obind (map_outcome (f x) (h x)) (\<lambda>us.
        obind (obind (map_outcome (\<lambda>x. obind (map_outcome (f x) (h x)) (\<lambda>rs. Return (concat rs))) xs) (\<lambda>rs. Return (concat rs)))
          (\<lambda>vs. Return (concat us @ vs)))"
    by (simp add: obind_assoc)
  also have "\<dots> = obind (map_outcome (f x) (h x)) (\<lambda>us. obind (?rest xs) (\<lambda>vs. Return (concat (us @ vs))))"
    by (simp only: Cons.IH obind_assoc obind.simps concat_append)
  also have "\<dots> = obind (?rest (x # xs)) (\<lambda>rs. Return (concat rs))"
    by (simp add: map_outcome_append map_outcome_map obind_assoc)
  finally show ?case .
qed simp

lemma obind_Vector: "obind m (\<lambda>rs. Return (Vector (concat rs))) = obind (obind m (\<lambda>rs. Return (concat rs))) (\<lambda>x. Return (Vector x))"
  by (simp add: obind_assoc)

text \<open>C21. The hash join of two instant vectors is a nested loop: the result of an operator between vectors is
  that of visiting every pair of a left and a right sample in order and combining those whose matching
  labels have the same key, and it fails as the first such pair does.
\<close>

theorem vector_operator_is_join:
  "vectorVectorBinop E op lhs rhs mo returnBool =
     obind (map_outcome (\<lambda>(l, r). pair_sample E op (matching_of mo) returnBool l r) (joined mo lhs rhs))
       (\<lambda>rs. Return (Vector (concat rs)))"
  unfolding vectorVectorBinop_def Let_def matching_of_def [symmetric] group_of_matching joined_def
  by (subst (1 2) obind_Vector) (simp only: map_outcome_nested)

section \<open>Set operators\<close>

lemma map_outcome_Return: "map_outcome (\<lambda>x. Return (f x)) xs = Return (map f xs)"
  by (induction xs) simp_all

text \<open>The set operators between vectors. \<open>unless\<close> returns nothing whatever its operands are. \<open>and\<close> and
  \<open>or\<close> do the same: they return each left sample whose value is not zero once for every right sample
  with its key, and never a right sample. In PromQL \<open>unless\<close> keeps the left samples without a partner,
  \<open>or\<close> adds the right samples without one, and no value is looked at.
\<close>

theorem set_operators_between_vectors:
  "vectorVectorBinop E OpUnless lhs rhs mo returnBool = Return (Vector []) \<and>
   vectorVectorBinop E OpAnd lhs rhs mo returnBool =
     Return (Vector (concat (map (\<lambda>l. if f64_eq (v_Value l) (Fin 0) then [] else replicate (length (filter (same_key mo l) rhs)) l) lhs))) \<and>
   vectorVectorBinop E OpOr lhs rhs mo returnBool = vectorVectorBinop E OpAnd lhs rhs mo returnBool"
proof -
  have p: "pair_sample E op m returnBool l r = Return (if op = OpUnless \<or> f64_eq (v_Value l) (Fin 0) then [] else [l])"
    if "op = OpUnless \<or> op = OpAnd \<or> op = OpOr" for op m l r
    using that by (auto simp: pair_sample_def computeBinop_def IsComparisonOp_def IsSetOp_def f64_eq_def)
  have row: "concat (map (\<lambda>r. if b then [] else [l]) rs) = (if b then [] else replicate (length rs) l)" for b l and rs :: "VectorSample list"
    by (induction rs) auto
  have join: "vectorVectorBinop E op lhs rhs mo returnBool =
      Return (Vector (concat (map (\<lambda>l. concat (map (\<lambda>r. if op = OpUnless \<or> f64_eq (v_Value l) (Fin 0) then [] else [l])
        (filter (same_key mo l) rhs))) lhs)))" if "op = OpUnless \<or> op = OpAnd \<or> op = OpOr" for op
    unfolding vectorVectorBinop_def Let_def matching_of_def [symmetric] group_of_matching p [OF that]
    by (simp add: map_outcome_Return)
  show ?thesis by (simp add: join row)
qed

end
