(* ===== verification/Promql_Typing.thy ===== *)
theory Promql_Typing
  imports Promql_Vectors
begin

text \<open>
  The declared types of the function registry against the implementations: a call whose arguments have
  the declared types never panics and returns a value of the declared type.
\<close>

section \<open>Types of values and calls\<close>

fun value_type :: "PValue \<Rightarrow> ValueType" where
  "value_type (Scalar x t) = ValueTypeScalar"
| "value_type (Vector v) = ValueTypeVector"
| "value_type (Matrix m) = ValueTypeMatrix"
| "value_type (StringVal x t) = ValueTypeString"

text \<open>Arguments of the declared types; with \<open>Variadic\<close> \<open>-1\<close> the last type may repeat.\<close>

definition declared_args :: "Function \<Rightarrow> PValue list \<Rightarrow> bool" where
  "declared_args f args \<longleftrightarrow>
     (if Variadic f = - 1
      then length (ArgTypes f) \<le> length args \<and> map value_type (take (length (ArgTypes f)) args) = ArgTypes f \<and>
           list_all (\<lambda>v. value_type v = last (ArgTypes f)) (drop (length (ArgTypes f)) args)
      else map value_type args = ArgTypes f)"

definition returns :: "ValueType \<Rightarrow> PValue outcome \<Rightarrow> bool" where
  "returns ty r \<longleftrightarrow> (case r of Return v \<Rightarrow> value_type v = ty | Error e \<Rightarrow> True | Panic \<Rightarrow> False)"

definition implements :: "(PValue list \<Rightarrow> EvalContext \<Rightarrow> PValue outcome) \<Rightarrow> Function \<Rightarrow> bool" where
  "implements impl f \<longleftrightarrow> (\<forall>args ctx. declared_args f args \<longrightarrow> returns (ReturnType f) (impl args ctx))"

lemma value_type_cases:
  "value_type v = ValueTypeScalar \<longleftrightarrow> (\<exists>x t. v = Scalar x t)" "value_type v = ValueTypeVector \<longleftrightarrow> (\<exists>x. v = Vector x)"
  "value_type v = ValueTypeMatrix \<longleftrightarrow> (\<exists>x. v = Matrix x)" "value_type v = ValueTypeString \<longleftrightarrow> (\<exists>x t. v = StringVal x t)"
  by (cases v; simp)+

lemma args_simps [simp]:
  "arg (v # vs) 0 = Return v" "arg (v # vs) (Suc n) = arg vs n" "arg (v # vs) 1 = arg vs 0"
  "arg (v # vs) (numeral k) = arg vs (pred_numeral k)"
  by (simp_all add: arg_def numeral_eq_Suc)

lemmas arg_defs = vector_arg_def matrix_arg_def scalar_arg_def string_arg_def

text \<open>One rule for each shape of a parameter list.\<close>

lemma implements_fixed:
  assumes "v \<noteq> - 1" "\<And>args ctx. map value_type args = ts \<Longrightarrow> returns ret (impl args ctx)"
  shows "implements impl (fn name ts v ret)"
  using assms by (auto simp: implements_def declared_args_def fn_def)

lemma implements_1:
  "v \<noteq> - 1 \<Longrightarrow> (\<And>a ctx. value_type a = t1 \<Longrightarrow> returns ret (impl [a] ctx)) \<Longrightarrow> implements impl (fn name [t1] v ret)"
  by (rule implements_fixed) (auto simp: map_eq_Cons_conv)

lemma implements_2:
  "v \<noteq> - 1 \<Longrightarrow> (\<And>a b ctx. value_type a = t1 \<Longrightarrow> value_type b = t2 \<Longrightarrow> returns ret (impl [a, b] ctx)) \<Longrightarrow>
   implements impl (fn name [t1, t2] v ret)"
  by (rule implements_fixed) (auto simp: map_eq_Cons_conv)

lemma implements_3:
  "v \<noteq> - 1 \<Longrightarrow> (\<And>a b c ctx. value_type a = t1 \<Longrightarrow> value_type b = t2 \<Longrightarrow> value_type c = t3 \<Longrightarrow> returns ret (impl [a, b, c] ctx)) \<Longrightarrow>
   implements impl (fn name [t1, t2, t3] v ret)"
  by (rule implements_fixed) (auto simp: map_eq_Cons_conv)

lemma implements_4:
  "v \<noteq> - 1 \<Longrightarrow> (\<And>a b c d ctx. value_type a = t1 \<Longrightarrow> value_type b = t2 \<Longrightarrow> value_type c = t3 \<Longrightarrow> value_type d = t4 \<Longrightarrow>
     returns ret (impl [a, b, c, d] ctx)) \<Longrightarrow> implements impl (fn name [t1, t2, t3, t4] v ret)"
  by (rule implements_fixed) (auto simp: map_eq_Cons_conv)

lemma implements_5:
  "v \<noteq> - 1 \<Longrightarrow> (\<And>a b c d e ctx. value_type a = t1 \<Longrightarrow> value_type b = t2 \<Longrightarrow> value_type c = t3 \<Longrightarrow> value_type d = t4 \<Longrightarrow>
     value_type e = t5 \<Longrightarrow> returns ret (impl [a, b, c, d, e] ctx)) \<Longrightarrow> implements impl (fn name [t1, t2, t3, t4, t5] v ret)"
  by (rule implements_fixed) (auto simp: map_eq_Cons_conv)

lemma implements_0: "v \<noteq> - 1 \<Longrightarrow> (\<And>ctx. returns ret (impl [] ctx)) \<Longrightarrow> implements impl (fn name [] v ret)"
  by (rule implements_fixed) auto

lemma string_args_typed: "list_all (\<lambda>v. value_type v = ValueTypeString) vs \<Longrightarrow> \<exists>xs. string_args vs = Return xs"
  by (induction vs) (auto simp: value_type_cases)

lemma label_pairs_typed: "list_all (\<lambda>v. value_type v = ValueTypeString) vs \<Longrightarrow> \<exists>ls1. label_pairs f vs ls = Return ls1"
  by (induction f vs ls rule: label_pairs.induct) (auto simp: value_type_cases)

lemma map_outcome_typed: "(\<And>x. x \<in> set xs \<Longrightarrow> \<exists>y. f x = Return y) \<Longrightarrow> \<exists>ys. map_outcome f xs = Return ys"
  by (induction xs) fastforce+

lemma implements_strings:
  assumes "set ts = {ValueTypeString}"
    "\<And>v rest ctx. list_all (\<lambda>v. value_type v = ValueTypeString) rest \<Longrightarrow> length ts \<le> length rest \<Longrightarrow> returns ret (impl (Vector v # rest) ctx)"
  shows "implements impl (fn name (ValueTypeVector # ts) (- 1) ret)"
  unfolding implements_def
proof (intro allI impI)
  fix args ctx
  assume d: "declared_args (fn name (ValueTypeVector # ts) (- 1) ret) args"
  then obtain a rest where args: "args = a # rest" by (cases args) (auto simp: declared_args_def fn_def)
  have ts: "ts \<noteq> []" "\<forall>t \<in> set ts. t = ValueTypeString"
    unfolding assms(1) using assms(1) by (metis empty_not_insert list.set(1)) simp
  have "last ts = ValueTypeString" using ts by simp
  then have a: "value_type a = ValueTypeVector" and r: "map value_type (take (length ts) rest) = ts" "length ts \<le> length rest"
    "list_all (\<lambda>v. value_type v = ValueTypeString) (drop (length ts) rest)"
    using d args ts(1) by (auto simp: declared_args_def fn_def)
  have "value_type v = ValueTypeString" if "v \<in> set (take (length ts) rest)" for v
    using r(1) ts(2) that by (metis image_eqI list.set_map)
  then have "list_all (\<lambda>v. value_type v = ValueTypeString) (take (length ts) rest @ drop (length ts) rest)"
    unfolding list_all_append using r(3) by (simp add: list_all_iff)
  then have "list_all (\<lambda>v. value_type v = ValueTypeString) rest" by simp
  then show "returns (ReturnType (fn name (ValueTypeVector # ts) (- 1) ret)) (impl args ctx)"
    using assms(2) r(2) a args by (auto simp: value_type_cases fn_def)
qed

lemma with_pairs_typed:
  "list_all (\<lambda>v. value_type v = ValueTypeString) rest \<Longrightarrow> returns ValueTypeVector (with_pairs f (Vector v # rest))"
proof -
  assume r: "list_all (\<lambda>v. value_type v = ValueTypeString) rest"
  have "\<exists>ys. map_outcome (\<lambda>s. obind (label_pairs f rest (v_Labels s)) (\<lambda>ls. Return (s\<lparr>v_Labels := ls\<rparr>))) v = Return ys"
    using label_pairs_typed [OF r, of f] by (intro map_outcome_typed) (metis obind.simps(1))
  then show ?thesis by (auto simp: with_pairs_def arg_defs returns_def)
qed

section \<open>The registry\<close>

lemmas call_defs = returns_def arg_defs map_values_def over_time_def aggregateOverTime_def last_two_def count_pairs_def
  with_threshold_def with_span_def per_histogram_def with_regexp_def running_def

lemmas shape_rules = implements_0 implements_1 implements_2 implements_3 implements_4 implements_5

definition sound_table :: "(string \<times> (PValue list \<Rightarrow> EvalContext \<Rightarrow> PValue outcome)) list \<Rightarrow> Function list \<Rightarrow> bool" where
  "sound_table = list_all2 (\<lambda>(n, impl) f. n = FnName f \<and> implements impl f)"

lemma sound_table_simps:
  "sound_table [] []" "sound_table ((n, impl) # es) (fn n1 ts v ret # fs) \<longleftrightarrow>
     n = n1 \<and> implements impl (fn n1 ts v ret) \<and> sound_table es fs"
  by (simp_all add: sound_table_def fn_def)

lemma calls1_sound: "sound_table (promql_calls1 E) promql_functions1"
proof -
  have lj: "implements (\<lambda>args ctx. funcLabelJoin args) (fn ''label_join'' [ValueTypeVector, ValueTypeString, ValueTypeString] (- 1) ValueTypeVector)"
  proof (rule implements_strings)
    fix v rest ctx
    assume r: "list_all (\<lambda>v. value_type v = ValueTypeString) rest" "length [ValueTypeString, ValueTypeString] \<le> length rest"
    then obtain a b more where "rest = a # b # more" by (cases rest; cases "tl rest") auto
    then show "returns ValueTypeVector (funcLabelJoin (Vector v # rest))"
      using r string_args_typed [of more] by (auto simp: funcLabelJoin_def value_type_cases call_defs)
  qed simp
  show ?thesis
    unfolding promql_calls1_def promql_functions1_def sound_table_simps(2)
    by (intro conjI refl sound_table_simps(1) lj shape_rules)
      (auto simp: value_type_cases call_defs funcRate_def funcIrate_def funcIncrease_def funcDelta_def funcIdelta_def
        funcDeriv_def funcPredictLinear_def funcResets_def funcChanges_def funcAvgOverTime_def funcSumOverTime_def
        funcMinOverTime_def funcMaxOverTime_def funcCountOverTime_def funcStddevOverTime_def funcStdvarOverTime_def
        funcQuantileOverTime_def funcLastOverTime_def funcPresentOverTime_def funcHistogramQuantile_def funcLabelReplace_def
        funcAbsent_def)
qed

lemma calls2_sound: "sound_table (promql_calls2 E) promql_functions2"
  unfolding promql_calls2_def promql_functions2_def sound_table_simps(2)
  by (intro conjI refl sound_table_simps(1) shape_rules)
    (auto simp: value_type_cases call_defs funcAbsentOverTime_def funcAbs_def funcCeil_def funcFloor_def funcRound_def funcSqrt_def
      funcLn_def funcLog2_def funcLog10_def funcExp_def funcSgn_def funcClamp_def funcClampMin_def funcClampMax_def funcScalar_def
      funcVector_def funcTime_def funcTimestamp_def calendar_func_def split: list.splits)

lemma calls3_sound: "sound_table (promql_calls3 E) promql_functions3"
  unfolding promql_calls3_def promql_functions3_def sound_table_simps(2)
  by (intro conjI refl sound_table_simps(1) shape_rules)
    (auto simp: value_type_cases call_defs calendar_func_def funcSort_def funcSortDesc_def makeSimpleMathFunc_def funcDeg_def
      funcRad_def funcPi_def)

lemma metricsql1_sound: "sound_table (metricsql_calls1 E) metricsql_functions1"
proof -
  have pairs: "implements (\<lambda>args ctx. with_pairs f args) (fn name [ValueTypeVector, ValueTypeString, ValueTypeString] (- 1) ValueTypeVector)" for f name
    by (rule implements_strings) (simp_all add: with_pairs_typed)
  have names: "implements (\<lambda>args ctx. funcLabelDel args) (fn name [ValueTypeVector, ValueTypeString] (- 1) ValueTypeVector)"
    "implements (\<lambda>args ctx. funcLabelKeep args) (fn name [ValueTypeVector, ValueTypeString] (- 1) ValueTypeVector)" for name
    by (rule implements_strings, simp, drule string_args_typed, force simp: funcLabelDel_def funcLabelKeep_def call_defs)+
  have union: "implements (\<lambda>args ctx. funcUnion args) (fn ''union'' [ValueTypeVector] (- 1) ValueTypeVector)"
    unfolding implements_def
  proof (intro allI impI)
    fix args and ctx :: EvalContext
    assume d: "declared_args (fn ''union'' [ValueTypeVector] (- 1) ValueTypeVector) args"
    then have "value_type v = ValueTypeVector" if "v \<in> set args" for v
      using that by (cases args) (auto simp: declared_args_def fn_def list_all_iff)
    then have "\<exists>ys. map_outcome (\<lambda>a. case a of Vector v \<Rightarrow> Return v | _ \<Rightarrow> Panic) args = Return ys"
      by (intro map_outcome_typed) (fastforce simp: value_type_cases)
    then show "returns (ReturnType (fn ''union'' [ValueTypeVector] (- 1) ValueTypeVector)) (funcUnion args)"
      by (auto simp: funcUnion_def returns_def fn_def)
  qed
  show ?thesis
    unfolding metricsql_calls1_def metricsql_functions1_def sound_table_simps(2) funcLabelSet_def funcLabelCopy_def funcLabelMove_def
    by (intro conjI refl sound_table_simps(1) pairs names union shape_rules)
      (auto simp: value_type_cases call_defs funcLabelTransform_def funcLabelMatch_def funcLabelMismatch_def funcRU_def funcTTF_def
        funcRangeMedian_def funcRangeFirst_def funcRangeLast_def funcRunningSum_def funcRunningMax_def funcRunningMin_def
        funcRunningAvg_def funcSmoothExponential_def funcOutliersMAD_def funcOutliersIQR_def Let_def split: option.splits)
qed

lemma metricsql2_sound: "sound_table (metricsql_calls2 E) metricsql_functions2"
  unfolding metricsql_calls2_def metricsql_functions2_def sound_table_simps(2)
  by (intro conjI refl sound_table_simps(1) shape_rules)
    (auto simp: value_type_cases call_defs funcHistogramShare_def funcHistogramAvg_def funcHistogramStdvar_def funcDurationOverTime_def
      funcShareGTOverTime_def funcShareLEOverTime_def funcCountGTOverTime_def funcCountLEOverTime_def funcLag_def funcLifetime_def
      funcScrapeInterval_def funcRangeFirst_def funcRangeMedian_def)

lemma table_sound: "sound_table (function_table E) (promql_functions @ metricsql_functions)"
  using calls1_sound [of E] calls2_sound [of E] calls3_sound [of E] metricsql1_sound [of E] metricsql2_sound [of E]
  unfolding sound_table_def function_table_def promql_functions_def metricsql_functions_def append_assoc
  by (intro list_all2_appendI)

lemma sound_lookup:
  "sound_table es fs \<Longrightarrow> f \<in> set fs \<Longrightarrow> distinct (map FnName fs) \<Longrightarrow> \<exists>impl. map_of es (FnName f) = Some impl \<and> implements impl f"
  unfolding sound_table_def
proof (induction es fs rule: list_all2_induct)
  case (Cons e es g fs)
  obtain n impl where e: "e = (n, impl)" "n = FnName g" "implements impl g" using Cons.hyps(1) by (cases e) auto
  show ?case
  proof (cases "f = g")
    case False
    then have f: "f \<in> set fs" using Cons.prems(1) by simp
    then have "FnName f \<noteq> FnName g" using Cons.prems(2) by (metis distinct.simps(2) image_eqI list.set_map list.simps(9))
    then show ?thesis using Cons.IH [OF f] Cons.prems(2) e by simp
  qed (use e in simp)
qed simp

lemma registry_distinct: "distinct (map FnName (promql_functions @ metricsql_functions))"
  by (simp add: promql_functions_def promql_functions1_def promql_functions2_def promql_functions3_def metricsql_functions_def
      metricsql_functions1_def metricsql_functions2_def fn_def)



end
