(* ===== verification/Rbac_Store.thy ===== *)
theory Rbac_Store
  imports Float64
begin

text \<open>
  Roles, permissions and the tables of \<open>internal/rbac\<close> (\<open>models.go\<close>, \<open>store.go\<close>). A table is the list
  of its rows in insertion order; a method is the statement it executes. Primary and unique keys reject an
  insert, foreign keys are checked when the connection enforces them (\<open>rb_fk\<close>), and every statement fails
  while the database does (\<open>rb_ok\<close>). Times are stored as whole seconds, JSON columns hold the value they
  encode; nil and empty permission lists are one. Rows are read in insertion order where a statement gives
  none. One operation reads the clock once.
\<close>

section \<open>Roles and permissions\<close>

type_synonym Role = string

abbreviation RoleOwner :: Role where "RoleOwner \<equiv> ''owner''"
abbreviation RoleAdmin :: Role where "RoleAdmin \<equiv> ''admin''"
abbreviation RoleEditor :: Role where "RoleEditor \<equiv> ''editor''"
abbreviation RoleViewer :: Role where "RoleViewer \<equiv> ''viewer''"

record Permission =
  Resource :: string
  Action :: string

definition perm :: "string \<Rightarrow> string \<Rightarrow> Permission" where
  "perm r a = \<lparr>Resource = r, Action = a\<rparr>"

definition admin_permissions :: "Permission list" where
  "admin_permissions =
     [perm ''dashboards'' ''*'', perm ''alerts'' ''*'', perm ''incidents'' ''*'', perm ''users'' ''*'', perm ''teams'' ''*'',
      perm ''settings'' ''read'', perm ''settings'' ''update'', perm ''apikeys'' ''*'', perm ''logs'' ''*'', perm ''traces'' ''*'',
      perm ''metrics'' ''*'', perm ''synthetics'' ''*'', perm ''slos'' ''*'', perm ''oncall'' ''*'', perm ''integrations'' ''*'']"

definition editor_permissions :: "Permission list" where
  "editor_permissions =
     [perm ''dashboards'' ''create'', perm ''dashboards'' ''read'', perm ''dashboards'' ''update'', perm ''alerts'' ''*'',
      perm ''incidents'' ''*'', perm ''users'' ''read'', perm ''teams'' ''read'', perm ''logs'' ''read'', perm ''logs'' ''execute'',
      perm ''traces'' ''read'', perm ''metrics'' ''read'', perm ''metrics'' ''create'', perm ''synthetics'' ''*'', perm ''slos'' ''*'',
      perm ''oncall'' ''read'', perm ''oncall'' ''update'']"

definition viewer_permissions :: "Permission list" where
  "viewer_permissions =
     map (\<lambda>r. perm r ''read'') [''dashboards'', ''alerts'', ''incidents'', ''users'', ''teams'', ''logs'', ''traces'', ''metrics'',
       ''synthetics'', ''slos'', ''oncall'']"

definition RolePermissions :: "Role \<Rightarrow> Permission list option" where
  "RolePermissions role =
     (if role = RoleOwner then Some [perm ''*'' ''*'']
      else if role = RoleAdmin then Some admin_permissions
      else if role = RoleEditor then Some editor_permissions
      else if role = RoleViewer then Some viewer_permissions
      else None)"

text \<open>The loop over permissions, as in \<open>HasPermission\<close> and \<open>CheckAPIKeyPermission\<close>.\<close>

fun permits :: "Permission list \<Rightarrow> string \<Rightarrow> string \<Rightarrow> bool" where
  "permits [] resource action = False"
| "permits (p # ps) resource action =
     (if Resource p = ''*'' \<and> Action p = ''*'' then True
      else if Resource p = ''*'' \<and> Action p = action then True
      else if Resource p = resource \<and> Action p = ''*'' then True
      else if Resource p = resource \<and> Action p = action then True
      else permits ps resource action)"

definition HasPermission :: "Role \<Rightarrow> string \<Rightarrow> string \<Rightarrow> bool" where
  "HasPermission role resource action =
     (case RolePermissions role of None \<Rightarrow> False | Some ps \<Rightarrow> permits ps resource action)"

text \<open>A role that is not in the map has rank 0.\<close>

definition role_rank :: "Role \<Rightarrow> nat" where
  "role_rank role =
     (if role = RoleViewer then 1 else if role = RoleEditor then 2 else if role = RoleAdmin then 3
      else if role = RoleOwner then 4 else 0)"

definition CanManageRole :: "Role \<Rightarrow> Role \<Rightarrow> bool" where
  "CanManageRole managerRole targetRole \<longleftrightarrow> role_rank managerRole > role_rank targetRole"

section \<open>Records\<close>

text \<open>\<open>Settings\<close> is \<open>None\<close> for a nil map and otherwise the list of its entries.\<close>

record Organization =
  o_ID :: string
  o_Name :: string
  o_Slug :: string
  o_Plan :: string
  o_Settings :: "(string \<times> string) list option"
  o_CreatedAt :: go_time
  o_UpdatedAt :: go_time

record Team =
  t_ID :: string
  t_OrgID :: string
  t_Name :: string
  t_Description :: string
  t_MemberIDs :: "string list option"
  t_CreatedAt :: go_time
  t_UpdatedAt :: go_time

record User =
  u_ID :: string
  u_OrgID :: string
  u_Email :: string
  u_PasswordHash :: string
  u_Name :: string
  u_Role :: Role
  u_TeamIDs :: "string list option"
  u_AvatarURL :: string
  u_Timezone :: string
  u_IsActive :: bool
  u_LastLoginAt :: "go_time option"
  u_CreatedAt :: go_time
  u_UpdatedAt :: go_time

record Session =
  s_ID :: string
  s_UserID :: string
  s_OrgID :: string
  s_Token :: string
  s_UserAgent :: string
  s_IPAddress :: string
  s_ExpiresAt :: go_time
  s_CreatedAt :: go_time

record APIKey =
  k_ID :: string
  k_OrgID :: string
  k_UserID :: string
  k_Name :: string
  k_KeyPrefix :: string
  k_Permissions :: "Permission list"
  k_LastUsedAt :: "go_time option"
  k_ExpiresAt :: "go_time option"
  k_IsActive :: bool
  k_CreatedAt :: go_time

record Invite =
  i_ID :: string
  i_OrgID :: string
  i_Email :: string
  i_Role :: Role
  i_InvitedBy :: string
  i_ExpiresAt :: go_time
  i_CreatedAt :: go_time

record AuditLog =
  l_ID :: string
  l_OrgID :: string
  l_UserID :: string
  l_Action :: string
  l_Resource :: string
  l_ResourceID :: string
  l_Details :: "(string \<times> string) list"
  l_IPAddress :: string
  l_UserAgent :: string
  l_CreatedAt :: go_time

text \<open>Rows of sessions, keys and invites come with the hash of their token.\<close>

record RbacDB =
  rb_orgs :: "Organization list"
  rb_users :: "User list"
  rb_teams :: "Team list"
  rb_sessions :: "(string \<times> Session) list"
  rb_keys :: "(string \<times> APIKey) list"
  rb_invites :: "(string \<times> Invite) list"
  rb_audit :: "AuditLog list"
  rb_ok :: bool
  rb_fk :: bool

text \<open>A method gives its value or its error; one that writes gives the database after it too.\<close>

type_synonym 'a res = "string + 'a"
type_synonym 'a dbm = "'a res \<times> RbacDB"

definition exec :: "RbacDB \<Rightarrow> bool \<Rightarrow> RbacDB \<Rightarrow> unit dbm" where
  "exec db allowed db1 = (if rb_ok db \<and> allowed then (Inr (), db1) else (Inl ''database error'', db))"

definition query_row :: "RbacDB \<Rightarrow> 'a option \<Rightarrow> 'a res" where
  "query_row db row = (if \<not> rb_ok db then Inl ''database error'' else case row of None \<Rightarrow> Inl ''sql: no rows in result set'' | Some x \<Rightarrow> Inr x)"

definition query_rows :: "RbacDB \<Rightarrow> 'a list \<Rightarrow> 'a list res" where
  "query_rows db rows = (if rb_ok db then Inr rows else Inl ''database error'')"

definition whole_second :: "go_time \<Rightarrow> go_time" where
  "whole_second t = t div second * second"

section \<open>Organizations\<close>

definition has_org :: "RbacDB \<Rightarrow> string \<Rightarrow> bool" where
  "has_org db iD \<longleftrightarrow> \<not> rb_fk db \<or> iD \<in> o_ID ` set (rb_orgs db)"

definition CreateOrganization :: "go_time \<Rightarrow> Organization \<Rightarrow> RbacDB \<Rightarrow> unit dbm" where
  "CreateOrganization now org db =
     exec db (o_ID org \<notin> o_ID ` set (rb_orgs db) \<and> o_Slug org \<notin> o_Slug ` set (rb_orgs db))
       (db\<lparr>rb_orgs := rb_orgs db @ [org\<lparr>o_CreatedAt := whole_second now, o_UpdatedAt := whole_second now\<rparr>]\<rparr>)"

definition GetOrganization :: "string \<Rightarrow> RbacDB \<Rightarrow> Organization res" where
  "GetOrganization iD db = query_row db (find (\<lambda>o'. o_ID o' = iD) (rb_orgs db))"

definition GetOrganizationBySlug :: "string \<Rightarrow> RbacDB \<Rightarrow> Organization res" where
  "GetOrganizationBySlug slug db = query_row db (find (\<lambda>o'. o_Slug o' = slug) (rb_orgs db))"

definition UpdateOrganization :: "go_time \<Rightarrow> Organization \<Rightarrow> RbacDB \<Rightarrow> unit dbm" where
  "UpdateOrganization now org db =
     exec db (o_ID org \<in> o_ID ` set (rb_orgs db) \<longrightarrow> (\<forall>o' \<in> set (rb_orgs db). o_Slug o' = o_Slug org \<longrightarrow> o_ID o' = o_ID org))
       (db\<lparr>rb_orgs := map (\<lambda>o'. if o_ID o' = o_ID org
           then o'\<lparr>o_Name := o_Name org, o_Slug := o_Slug org, o_Plan := o_Plan org, o_Settings := o_Settings org,
                   o_UpdatedAt := whole_second now\<rparr> else o') (rb_orgs db)\<rparr>)"

section \<open>Users\<close>

definition CreateUserRow :: "go_time \<Rightarrow> User \<Rightarrow> RbacDB \<Rightarrow> unit dbm" where
  "CreateUserRow now user db =
     exec db (u_ID user \<notin> u_ID ` set (rb_users db) \<and>
              (\<forall>u \<in> set (rb_users db). \<not> (u_OrgID u = u_OrgID user \<and> u_Email u = u_Email user)) \<and> has_org db (u_OrgID user))
       (db\<lparr>rb_users := rb_users db @ [user\<lparr>u_LastLoginAt := None, u_CreatedAt := whole_second now, u_UpdatedAt := whole_second now\<rparr>]\<rparr>)"

definition GetUser :: "string \<Rightarrow> RbacDB \<Rightarrow> User res" where
  "GetUser iD db = query_row db (find (\<lambda>u. u_ID u = iD) (rb_users db))"

definition GetUserByEmail :: "string \<Rightarrow> string \<Rightarrow> RbacDB \<Rightarrow> User res" where
  "GetUserByEmail orgID email db = query_row db (find (\<lambda>u. u_OrgID u = orgID \<and> u_Email u = email) (rb_users db))"

definition GetUserByEmailAnyOrg :: "string \<Rightarrow> RbacDB \<Rightarrow> User res" where
  "GetUserByEmailAnyOrg email db = query_row db (find (\<lambda>u. u_Email u = email) (rb_users db))"

text \<open>The columns that \<open>UPDATE users\<close> sets.\<close>

definition update_user_row :: "go_time \<Rightarrow> User \<Rightarrow> User \<Rightarrow> User" where
  "update_user_row now user u =
     u\<lparr>u_Email := u_Email user, u_Name := u_Name user, u_Role := u_Role user, u_TeamIDs := u_TeamIDs user,
       u_AvatarURL := u_AvatarURL user, u_Timezone := u_Timezone user, u_IsActive := u_IsActive user,
       u_LastLoginAt := map_option whole_second (u_LastLoginAt user), u_UpdatedAt := whole_second now\<rparr>"

definition UpdateUser :: "go_time \<Rightarrow> User \<Rightarrow> RbacDB \<Rightarrow> unit dbm" where
  "UpdateUser now user db =
     exec db (\<forall>u \<in> set (rb_users db). \<forall>v \<in> set (rb_users db).
                u_ID u = u_ID user \<and> u_ID v \<noteq> u_ID user \<and> u_OrgID v = u_OrgID u \<longrightarrow> u_Email v \<noteq> u_Email user)
       (db\<lparr>rb_users := map (\<lambda>u. if u_ID u = u_ID user then update_user_row now user u else u) (rb_users db)\<rparr>)"

definition UpdateUserPassword :: "go_time \<Rightarrow> string \<Rightarrow> string \<Rightarrow> RbacDB \<Rightarrow> unit dbm" where
  "UpdateUserPassword now userID hash db =
     exec db True (db\<lparr>rb_users := map (\<lambda>u. if u_ID u = userID then u\<lparr>u_PasswordHash := hash, u_UpdatedAt := whole_second now\<rparr> else u)
       (rb_users db)\<rparr>)"

definition delete_sessions_of :: "string \<Rightarrow> RbacDB \<Rightarrow> RbacDB" where
  "delete_sessions_of userID db = db\<lparr>rb_sessions := filter (\<lambda>(h, s). s_UserID s \<noteq> userID) (rb_sessions db)\<rparr>"

definition delete_keys_of :: "string \<Rightarrow> RbacDB \<Rightarrow> RbacDB" where
  "delete_keys_of userID db = db\<lparr>rb_keys := filter (\<lambda>(h, k). k_UserID k \<noteq> userID) (rb_keys db)\<rparr>"

text \<open>The three statements in order; the errors of the first two are dropped. After them no row refers to the
  user any more.\<close>

definition DeleteUser :: "string \<Rightarrow> RbacDB \<Rightarrow> unit dbm" where
  "DeleteUser iD db =
     (let db1 = snd (exec db True (delete_sessions_of iD db));
          db2 = snd (exec db1 True (delete_keys_of iD db1))
      in exec db2 (\<not> rb_fk db2 \<or> (iD \<notin> (s_UserID \<circ> snd) ` set (rb_sessions db2) \<and> iD \<notin> (k_UserID \<circ> snd) ` set (rb_keys db2)))
           (db2\<lparr>rb_users := filter (\<lambda>u. u_ID u \<noteq> iD) (rb_users db2)\<rparr>))"

definition ListUsers :: "string \<Rightarrow> RbacDB \<Rightarrow> User list res" where
  "ListUsers orgID db = query_rows db (sort_key u_Name (filter (\<lambda>u. u_OrgID u = orgID) (rb_users db)))"

section \<open>Sessions\<close>

definition has_user :: "RbacDB \<Rightarrow> string \<Rightarrow> bool" where
  "has_user db iD \<longleftrightarrow> \<not> rb_fk db \<or> iD \<in> u_ID ` set (rb_users db)"

definition CreateSession :: "go_time \<Rightarrow> Session \<Rightarrow> string \<Rightarrow> RbacDB \<Rightarrow> unit dbm" where
  "CreateSession now session tokenHash db =
     exec db (s_ID session \<notin> (s_ID \<circ> snd) ` set (rb_sessions db) \<and> has_user db (s_UserID session))
       (db\<lparr>rb_sessions := rb_sessions db @ [(tokenHash, session\<lparr>s_Token := [], s_ExpiresAt := whole_second (s_ExpiresAt session),
          s_CreatedAt := whole_second now\<rparr>)]\<rparr>)"

definition GetSessionByToken :: "string \<Rightarrow> RbacDB \<Rightarrow> Session res" where
  "GetSessionByToken tokenHash db = query_row db (map_option snd (find (\<lambda>(h, s). h = tokenHash) (rb_sessions db)))"

definition DeleteSession :: "string \<Rightarrow> RbacDB \<Rightarrow> unit dbm" where
  "DeleteSession iD db = exec db True (db\<lparr>rb_sessions := filter (\<lambda>(h, s). s_ID s \<noteq> iD) (rb_sessions db)\<rparr>)"

definition DeleteUserSessions :: "string \<Rightarrow> RbacDB \<Rightarrow> unit dbm" where
  "DeleteUserSessions userID db = exec db True (delete_sessions_of userID db)"

definition CleanupExpiredSessions :: "go_time \<Rightarrow> RbacDB \<Rightarrow> unit dbm" where
  "CleanupExpiredSessions now db =
     exec db True (db\<lparr>rb_sessions := filter (\<lambda>(h, s). \<not> s_ExpiresAt s div second < now div second) (rb_sessions db)\<rparr>)"

text \<open>Newest first: \<open>ORDER BY created_at DESC\<close>.\<close>

definition newest_first :: "('a \<Rightarrow> go_time) \<Rightarrow> 'a list \<Rightarrow> 'a list" where
  "newest_first created xs = sort_key (\<lambda>x. - created x) xs"

definition ListUserSessions :: "go_time \<Rightarrow> string \<Rightarrow> RbacDB \<Rightarrow> Session list res" where
  "ListUserSessions now userID db =
     query_rows db (newest_first s_CreatedAt (filter (\<lambda>s. s_UserID s = userID \<and> now div second < s_ExpiresAt s div second)
       (map snd (rb_sessions db))))"

section \<open>API keys\<close>

definition CreateAPIKeyRow :: "go_time \<Rightarrow> APIKey \<Rightarrow> string \<Rightarrow> RbacDB \<Rightarrow> unit dbm" where
  "CreateAPIKeyRow now key keyHash db =
     exec db (k_ID key \<notin> (k_ID \<circ> snd) ` set (rb_keys db) \<and> has_org db (k_OrgID key) \<and> has_user db (k_UserID key))
       (db\<lparr>rb_keys := rb_keys db @ [(keyHash, key\<lparr>k_LastUsedAt := None, k_ExpiresAt := map_option whole_second (k_ExpiresAt key),
          k_CreatedAt := whole_second now\<rparr>)]\<rparr>)"

definition GetAPIKeyByHash :: "string \<Rightarrow> RbacDB \<Rightarrow> APIKey res" where
  "GetAPIKeyByHash keyHash db = query_row db (map_option snd (find (\<lambda>(h, k). h = keyHash) (rb_keys db)))"

definition UpdateAPIKeyLastUsed :: "go_time \<Rightarrow> string \<Rightarrow> RbacDB \<Rightarrow> unit dbm" where
  "UpdateAPIKeyLastUsed now iD db =
     exec db True (db\<lparr>rb_keys := map (\<lambda>(h, k). (h, if k_ID k = iD then k\<lparr>k_LastUsedAt := Some (whole_second now)\<rparr> else k)) (rb_keys db)\<rparr>)"

definition DeleteAPIKey :: "string \<Rightarrow> RbacDB \<Rightarrow> unit dbm" where
  "DeleteAPIKey iD db = exec db True (db\<lparr>rb_keys := filter (\<lambda>(h, k). k_ID k \<noteq> iD) (rb_keys db)\<rparr>)"

definition ListAPIKeys :: "string \<Rightarrow> RbacDB \<Rightarrow> APIKey list res" where
  "ListAPIKeys orgID db = query_rows db (newest_first k_CreatedAt (filter (\<lambda>k. k_OrgID k = orgID) (map snd (rb_keys db))))"

text \<open>\<open>GetAPIKey\<close> scans the two times that may be NULL into plain integers, which fails on NULL.\<close>

definition GetAPIKey :: "string \<Rightarrow> RbacDB \<Rightarrow> APIKey res" where
  "GetAPIKey iD db =
     (case query_row db (find (\<lambda>k. k_ID k = iD) (map snd (rb_keys db))) of
        Inr k \<Rightarrow> (case (k_ExpiresAt k, k_LastUsedAt k) of
            (Some e, Some l) \<Rightarrow> Inr (k\<lparr>k_ExpiresAt := if 0 < e div second then Some e else None,
                                          k_LastUsedAt := if 0 < l div second then Some l else None\<rparr>)
          | _ \<Rightarrow> Inl ''converting NULL to int64 is unsupported'')
      | Inl e \<Rightarrow> Inl e)"

section \<open>Teams\<close>

definition CreateTeam :: "go_time \<Rightarrow> Team \<Rightarrow> RbacDB \<Rightarrow> unit dbm" where
  "CreateTeam now team db =
     exec db (t_ID team \<notin> t_ID ` set (rb_teams db) \<and> has_org db (t_OrgID team))
       (db\<lparr>rb_teams := rb_teams db @ [team\<lparr>t_CreatedAt := whole_second now, t_UpdatedAt := whole_second now\<rparr>]\<rparr>)"

definition GetTeam :: "string \<Rightarrow> RbacDB \<Rightarrow> Team res" where
  "GetTeam iD db = query_row db (find (\<lambda>t. t_ID t = iD) (rb_teams db))"

definition UpdateTeam :: "go_time \<Rightarrow> Team \<Rightarrow> RbacDB \<Rightarrow> unit dbm" where
  "UpdateTeam now team db =
     exec db True (db\<lparr>rb_teams := map (\<lambda>t. if t_ID t = t_ID team
       then t\<lparr>t_Name := t_Name team, t_Description := t_Description team, t_MemberIDs := t_MemberIDs team, t_UpdatedAt := whole_second now\<rparr>
       else t) (rb_teams db)\<rparr>)"

definition DeleteTeam :: "string \<Rightarrow> RbacDB \<Rightarrow> unit dbm" where
  "DeleteTeam iD db = exec db True (db\<lparr>rb_teams := filter (\<lambda>t. t_ID t \<noteq> iD) (rb_teams db)\<rparr>)"

definition ListTeams :: "string \<Rightarrow> RbacDB \<Rightarrow> Team list res" where
  "ListTeams orgID db = query_rows db (sort_key t_Name (filter (\<lambda>t. t_OrgID t = orgID) (rb_teams db)))"

section \<open>Audit logs\<close>

definition CreateAuditLog :: "go_time \<Rightarrow> AuditLog \<Rightarrow> RbacDB \<Rightarrow> unit dbm" where
  "CreateAuditLog now entry db =
     exec db (l_ID entry \<notin> l_ID ` set (rb_audit db)) (db\<lparr>rb_audit := rb_audit db @ [entry\<lparr>l_CreatedAt := whole_second now\<rparr>]\<rparr>)"

definition ListAuditLogs :: "string \<Rightarrow> int \<Rightarrow> RbacDB \<Rightarrow> AuditLog list res" where
  "ListAuditLogs orgID limit db =
     query_rows db (take (nat (if limit \<le> 0 then 100 else limit)) (newest_first l_CreatedAt (filter (\<lambda>l. l_OrgID l = orgID) (rb_audit db))))"

section \<open>Invitations\<close>

definition CreateInviteRow :: "go_time \<Rightarrow> Invite \<Rightarrow> string \<Rightarrow> RbacDB \<Rightarrow> unit dbm" where
  "CreateInviteRow now invite tokenHash db =
     exec db (i_ID invite \<notin> (i_ID \<circ> snd) ` set (rb_invites db) \<and> has_org db (i_OrgID invite))
       (db\<lparr>rb_invites := rb_invites db @ [(tokenHash, invite\<lparr>i_ExpiresAt := whole_second (i_ExpiresAt invite),
          i_CreatedAt := whole_second now\<rparr>)]\<rparr>)"

definition GetInviteByToken :: "string \<Rightarrow> RbacDB \<Rightarrow> Invite res" where
  "GetInviteByToken tokenHash db = query_row db (map_option snd (find (\<lambda>(h, i). h = tokenHash) (rb_invites db)))"

definition DeleteInvite :: "string \<Rightarrow> RbacDB \<Rightarrow> unit dbm" where
  "DeleteInvite iD db = exec db True (db\<lparr>rb_invites := filter (\<lambda>(h, i). i_ID i \<noteq> iD) (rb_invites db)\<rparr>)"

definition ListPendingInvites :: "go_time \<Rightarrow> string \<Rightarrow> RbacDB \<Rightarrow> Invite list res" where
  "ListPendingInvites now orgID db =
     query_rows db (newest_first i_CreatedAt (filter (\<lambda>i. i_OrgID i = orgID \<and> now div second < i_ExpiresAt i div second)
       (map snd (rb_invites db))))"

definition ListInvites :: "string \<Rightarrow> RbacDB \<Rightarrow> Invite list res" where
  "ListInvites orgID db = query_rows db (newest_first i_CreatedAt (filter (\<lambda>i. i_OrgID i = orgID) (map snd (rb_invites db))))"

definition GetInvite :: "string \<Rightarrow> RbacDB \<Rightarrow> Invite res" where
  "GetInvite iD db = query_row db (find (\<lambda>i. i_ID i = iD) (map snd (rb_invites db)))"

section \<open>Statistics and the default organization\<close>

text \<open>A count that fails leaves the variable as it was; the four counts share one variable.\<close>

definition GetOrgStats :: "go_time \<Rightarrow> string \<Rightarrow> RbacDB \<Rightarrow> (string \<times> nat) list" where
  "GetOrgStats now orgID db =
     (if \<not> rb_ok db then [(''users'', 0), (''teams'', 0), (''api_keys'', 0), (''active_sessions'', 0)]
      else [(''users'', length (filter (\<lambda>u. u_OrgID u = orgID) (rb_users db))),
            (''teams'', length (filter (\<lambda>t. t_OrgID t = orgID) (rb_teams db))),
            (''api_keys'', length (filter (\<lambda>(h, k). k_OrgID k = orgID \<and> k_IsActive k) (rb_keys db))),
            (''active_sessions'', length (filter (\<lambda>(h, s). s_OrgID s = orgID \<and> now div second < s_ExpiresAt s div second) (rb_sessions db)))])"

text \<open>\<open>LIMIT 1\<close> without an order: \<open>pick\<close> is the row the engine gives.\<close>

definition EnsureDefaultOrg :: "go_time \<Rightarrow> (string list \<Rightarrow> string) \<Rightarrow> string \<Rightarrow> string \<Rightarrow> RbacDB \<Rightarrow> Organization dbm" where
  "EnsureDefaultOrg now pick slug name db =
     (if rb_ok db \<and> rb_orgs db \<noteq> [] then (GetOrganization (pick (map o_ID (rb_orgs db))) db, db)
      else let org = \<lparr>o_ID = ''org_'' @ int_str now, o_Name = name, o_Slug = slug, o_Plan = ''free'', o_Settings = Some [],
                      o_CreatedAt = now, o_UpdatedAt = now\<rparr>
           in case CreateOrganization now org db of
                (Inr _, db1) \<Rightarrow> (Inr org, db1)
              | (Inl e, db1) \<Rightarrow> (Inl e, db1))"

end
