(* ===== verification/Rbac_Auth.thy ===== *)
theory Rbac_Auth
  imports Rbac_Store
begin

text \<open>
  Package \<open>internal/rbac\<close>, \<open>auth.go\<close>: passwords, tokens, sessions, API keys and invitations over the tables of
  \<open>Rbac_Store\<close>. What an operation draws from outside the package is its \<open>auth_env\<close>: the clock, 32 random bytes
  or the error of the generator, SHA-256, and the two functions of \<open>golang.org/x/crypto/bcrypt\<close>. Addresses
  are ASCII text.
\<close>

section \<open>Encodings\<close>

text \<open>\<open>base64.URLEncoding\<close> with padding, and \<open>encoding/hex\<close>.\<close>

definition b64_alphabet :: string where
  "b64_alphabet = ''ABCDEFGHIJKLMNOPQRSTUVWXYZabcdefghijklmnopqrstuvwxyz0123456789-_''"

definition b64_char :: "nat \<Rightarrow> char" where "b64_char n = b64_alphabet ! (n mod 64)"

fun base64url :: "string \<Rightarrow> string" where
  "base64url [] = []"
| "base64url [a] = (let x = of_char a * 65536 in [b64_char (x div 262144), b64_char (x div 4096), CHR ''='', CHR ''=''])"
| "base64url [a, b] =
     (let x = of_char a * 65536 + of_char b * 256
      in [b64_char (x div 262144), b64_char (x div 4096), b64_char (x div 64), CHR ''=''])"
| "base64url (a # b # c # s) =
     (let x = of_char a * 65536 + of_char b * 256 + of_char c
      in b64_char (x div 262144) # b64_char (x div 4096) # b64_char (x div 64) # b64_char x # base64url s)"

definition hex_encode :: "string \<Rightarrow> string" where
  "hex_encode s = concat (map (\<lambda>c. [''0123456789abcdef'' ! (of_char c div 16), ''0123456789abcdef'' ! (of_char c mod 16)]) s)"

text \<open>\<open>strings.TrimSpace\<close> on ASCII text, and \<open>fmt.Sscanf(s, "%d", &n)\<close>: leading blanks (not a newline), an optional
  sign, digits; what follows them is ignored.\<close>

definition is_blank :: "char \<Rightarrow> bool" where
  "is_blank c \<longleftrightarrow> (of_char c :: nat) \<in> {9, 11, 12, 13, 32}"

definition TrimSpace :: "string \<Rightarrow> string" where
  "TrimSpace s =
     (let ws = (\<lambda>c. is_blank c \<or> (of_char c :: nat) = 10)
      in rev (dropWhile ws (rev (dropWhile ws s))))"

definition sscanf_d :: "string \<Rightarrow> int option" where
  "sscanf_d s =
     (let s1 = dropWhile is_blank s;
          sign = takeWhile (\<lambda>c. c = CHR ''+'' \<or> c = CHR ''-'') (take 1 s1);
          digits = takeWhile is_digit (drop (length sign) s1)
      in if digits = [] then None else parse_int64 (sign @ digits))"

section \<open>State and environment\<close>

record Auth =
  sessionExpiry :: duration
  bcryptCost :: nat

definition defaultSessionExpiry :: duration where "defaultSessionExpiry = 7 * 24 * hour"
definition defaultBcryptCost :: nat where "defaultBcryptCost = 12"

definition NewAuth :: Auth where
  "NewAuth = \<lparr>sessionExpiry = defaultSessionExpiry, bcryptCost = defaultBcryptCost\<rparr>"

definition SetSessionExpiry :: "duration \<Rightarrow> Auth \<Rightarrow> Auth" where
  "SetSessionExpiry d a = a\<lparr>sessionExpiry := d\<rparr>"

record auth_env =
  e_now :: go_time
  e_random :: "string res"
  e_sha256 :: "string \<Rightarrow> string"
  e_bcrypt :: "nat \<Rightarrow> string \<Rightarrow> string res"
  e_compare :: "string \<Rightarrow> string \<Rightarrow> bool"

abbreviation ErrInvalidCredentials :: string where "ErrInvalidCredentials \<equiv> ''invalid email or password''"
abbreviation ErrUserNotActive :: string where "ErrUserNotActive \<equiv> ''user account is not active''"
abbreviation ErrSessionExpired :: string where "ErrSessionExpired \<equiv> ''session has expired''"
abbreviation ErrInvalidToken :: string where "ErrInvalidToken \<equiv> ''invalid token''"
abbreviation ErrAPIKeyExpired :: string where "ErrAPIKeyExpired \<equiv> ''API key has expired''"
abbreviation ErrAPIKeyInactive :: string where "ErrAPIKeyInactive \<equiv> ''API key is not active''"
abbreviation ErrInvalidInvite :: string where "ErrInvalidInvite \<equiv> ''invalid or expired invitation''"

definition HashPassword :: "Auth \<Rightarrow> auth_env \<Rightarrow> string \<Rightarrow> string res" where
  "HashPassword a e password = e_bcrypt e (bcryptCost a) password"

definition CheckPassword :: "auth_env \<Rightarrow> string \<Rightarrow> string \<Rightarrow> bool" where
  "CheckPassword e password hash \<longleftrightarrow> e_compare e hash password"

definition GenerateToken :: "auth_env \<Rightarrow> string res" where
  "GenerateToken e = (case e_random e of Inl err \<Rightarrow> Inl err | Inr bytes \<Rightarrow> Inr (base64url bytes))"

definition HashToken :: "auth_env \<Rightarrow> string \<Rightarrow> string" where
  "HashToken e token = hex_encode (e_sha256 e token)"

definition GenerateAPIKey :: "auth_env \<Rightarrow> (string \<times> string) res" where
  "GenerateAPIKey e =
     (case e_random e of
        Inl err \<Rightarrow> Inl err
      | Inr bytes \<Rightarrow> let key = ''dw_'' @ base64url bytes in Inr (key, take 11 key))"

section \<open>Sessions\<close>

record LoginResponse =
  lr_Token :: string
  lr_ExpiresAt :: go_time
  lr_User :: User

text \<open>The common end of \<open>Login\<close> and \<open>LoginAnyOrg\<close>: from the password check on. The update of the last login may
  fail; its error is dropped. \<open>UpdateUser\<close> sets the caller's \<open>UpdatedAt\<close>.\<close>

definition start_session :: "Auth \<Rightarrow> auth_env \<Rightarrow> User \<Rightarrow> string \<Rightarrow> string \<Rightarrow> string \<Rightarrow> RbacDB \<Rightarrow> LoginResponse dbm" where
  "start_session a e user password userAgent ipAddress db =
     (if \<not> CheckPassword e password (u_PasswordHash user) then (Inl ErrInvalidCredentials, db)
      else if \<not> u_IsActive user then (Inl ErrUserNotActive, db)
      else case GenerateToken e of
        Inl err \<Rightarrow> (Inl err, db)
      | Inr token \<Rightarrow>
          (let session = \<lparr>s_ID = ''sess_'' @ int_str (e_now e), s_UserID = u_ID user, s_OrgID = u_OrgID user, s_Token = token,
                          s_UserAgent = userAgent, s_IPAddress = ipAddress, s_ExpiresAt = e_now e + sessionExpiry a,
                          s_CreatedAt = zero_time\<rparr>
           in case CreateSession (e_now e) session (HashToken e token) db of
                (Inl err, db1) \<Rightarrow> (Inl err, db1)
              | (Inr _, db1) \<Rightarrow>
                  (let user1 = user\<lparr>u_LastLoginAt := Some (e_now e)\<rparr>
                   in (Inr \<lparr>lr_Token = token, lr_ExpiresAt = s_ExpiresAt session, lr_User = user1\<lparr>u_UpdatedAt := e_now e\<rparr>\<rparr>,
                       snd (UpdateUser (e_now e) user1 db1)))))"

definition Login :: "Auth \<Rightarrow> auth_env \<Rightarrow> string \<Rightarrow> string \<Rightarrow> string \<Rightarrow> string \<Rightarrow> string \<Rightarrow> RbacDB \<Rightarrow> LoginResponse dbm" where
  "Login a e orgID email password userAgent ipAddress db =
     (case GetUserByEmail orgID email db of
        Inl _ \<Rightarrow> (Inl ErrInvalidCredentials, db)
      | Inr user \<Rightarrow> start_session a e user password userAgent ipAddress db)"

definition LoginAnyOrg :: "Auth \<Rightarrow> auth_env \<Rightarrow> string \<Rightarrow> string \<Rightarrow> string \<Rightarrow> string \<Rightarrow> RbacDB \<Rightarrow> LoginResponse dbm" where
  "LoginAnyOrg a e email password userAgent ipAddress db =
     (case GetUserByEmailAnyOrg email db of
        Inl _ \<Rightarrow> (Inl ErrInvalidCredentials, db)
      | Inr user \<Rightarrow> start_session a e user password userAgent ipAddress db)"

definition ValidateSession :: "auth_env \<Rightarrow> string \<Rightarrow> RbacDB \<Rightarrow> (User \<times> Session) dbm" where
  "ValidateSession e token db =
     (case GetSessionByToken (HashToken e token) db of
        Inl _ \<Rightarrow> (Inl ErrInvalidToken, db)
      | Inr session \<Rightarrow>
          if s_ExpiresAt session < e_now e then (Inl ErrSessionExpired, snd (DeleteSession (s_ID session) db))
          else case GetUser (s_UserID session) db of
            Inl _ \<Rightarrow> (Inl ErrInvalidToken, db)
          | Inr user \<Rightarrow> if \<not> u_IsActive user then (Inl ErrUserNotActive, db) else (Inr (user, session), db))"

definition Logout :: "auth_env \<Rightarrow> string \<Rightarrow> RbacDB \<Rightarrow> unit dbm" where
  "Logout e token db =
     (case GetSessionByToken (HashToken e token) db of
        Inl _ \<Rightarrow> (Inr (), db)
      | Inr session \<Rightarrow> DeleteSession (s_ID session) db)"

definition LogoutAll :: "string \<Rightarrow> RbacDB \<Rightarrow> unit dbm" where
  "LogoutAll userID db = DeleteUserSessions userID db"

section \<open>API keys\<close>

definition ValidateAPIKey :: "auth_env \<Rightarrow> string \<Rightarrow> RbacDB \<Rightarrow> (APIKey \<times> User) dbm" where
  "ValidateAPIKey e key db =
     (case GetAPIKeyByHash (HashToken e key) db of
        Inl _ \<Rightarrow> (Inl ErrInvalidToken, db)
      | Inr apiKey \<Rightarrow>
          if \<not> k_IsActive apiKey then (Inl ErrAPIKeyInactive, db)
          else if (case k_ExpiresAt apiKey of None \<Rightarrow> False | Some t \<Rightarrow> t < e_now e) then (Inl ErrAPIKeyExpired, db)
          else case GetUser (k_UserID apiKey) db of
            Inl _ \<Rightarrow> (Inl ErrInvalidToken, db)
          | Inr user \<Rightarrow> (Inr (apiKey, user), snd (UpdateAPIKeyLastUsed (e_now e) (k_ID apiKey) db)))"

definition parseDuration :: "string \<Rightarrow> duration res" where
  "parseDuration s =
     (if length s < 2 then Inl ''invalid duration''
      else case sscanf_d (butlast s) of
        None \<Rightarrow> Inl ''expected integer''
      | Some n \<Rightarrow>
          if last s = CHR ''s'' then Inr (wrap64 (n * second))
          else if last s = CHR ''m'' then Inr (wrap64 (n * minute))
          else if last s = CHR ''h'' then Inr (wrap64 (n * hour))
          else if last s = CHR ''d'' then Inr (wrap64 (wrap64 (n * 24) * hour))
          else if last s = CHR ''w'' then Inr (wrap64 (wrap64 (wrap64 (n * 7) * 24) * hour))
          else if last s = CHR ''y'' then Inr (wrap64 (wrap64 (wrap64 (n * 365) * 24) * hour))
          else Inl ''unknown duration unit'')"

definition key_expiry :: "go_time \<Rightarrow> string \<Rightarrow> go_time option" where
  "key_expiry now expiresIn =
     (if expiresIn \<noteq> [] \<and> expiresIn \<noteq> ''never''
      then case parseDuration expiresIn of Inl _ \<Rightarrow> None | Inr d \<Rightarrow> Some (now + d)
      else None)"

definition CreateAPIKey :: "auth_env \<Rightarrow> string \<Rightarrow> string \<Rightarrow> string \<Rightarrow> Permission list \<Rightarrow> string \<Rightarrow> RbacDB \<Rightarrow> (APIKey \<times> string) dbm" where
  "CreateAPIKey e orgID userID name permissions expiresIn db =
     (case GenerateAPIKey e of
        Inl err \<Rightarrow> (Inl err, db)
      | Inr (key, prefix) \<Rightarrow>
          (let apiKey = \<lparr>k_ID = ''key_'' @ int_str (e_now e), k_OrgID = orgID, k_UserID = userID, k_Name = name, k_KeyPrefix = prefix,
                         k_Permissions = permissions, k_LastUsedAt = None, k_ExpiresAt = key_expiry (e_now e) expiresIn,
                         k_IsActive = True, k_CreatedAt = e_now e\<rparr>
           in case CreateAPIKeyRow (e_now e) apiKey (HashToken e key) db of
                (Inl err, db1) \<Rightarrow> (Inl err, db1)
              | (Inr _, db1) \<Rightarrow> (Inr (apiKey, key), db1)))"

section \<open>Users and passwords\<close>

record UserCreate =
  c_Email :: string
  c_Password :: string
  c_Name :: string
  c_Role :: Role

definition CreateUser :: "Auth \<Rightarrow> auth_env \<Rightarrow> string \<Rightarrow> UserCreate \<Rightarrow> RbacDB \<Rightarrow> User dbm" where
  "CreateUser a e orgID req db =
     (case HashPassword a e (c_Password req) of
        Inl err \<Rightarrow> (Inl err, db)
      | Inr hash \<Rightarrow>
          (let user = \<lparr>u_ID = ''user_'' @ int_str (e_now e), u_OrgID = orgID, u_Email = to_lower (TrimSpace (c_Email req)),
                       u_PasswordHash = hash, u_Name = c_Name req, u_Role = c_Role req, u_TeamIDs = None, u_AvatarURL = [],
                       u_Timezone = [], u_IsActive = True, u_LastLoginAt = None, u_CreatedAt = e_now e, u_UpdatedAt = e_now e\<rparr>
           in case CreateUserRow (e_now e) user db of
                (Inl err, db1) \<Rightarrow> (Inl err, db1)
              | (Inr _, db1) \<Rightarrow> (Inr user, db1)))"

definition ChangePassword :: "Auth \<Rightarrow> auth_env \<Rightarrow> string \<Rightarrow> string \<Rightarrow> string \<Rightarrow> RbacDB \<Rightarrow> unit dbm" where
  "ChangePassword a e userID oldPassword newPassword db =
     (case GetUser userID db of
        Inl err \<Rightarrow> (Inl err, db)
      | Inr user \<Rightarrow>
          if \<not> CheckPassword e oldPassword (u_PasswordHash user) then (Inl ErrInvalidCredentials, db)
          else case HashPassword a e newPassword of
            Inl err \<Rightarrow> (Inl err, db)
          | Inr hash \<Rightarrow> UpdateUserPassword (e_now e) userID hash db)"

definition ResetPassword :: "Auth \<Rightarrow> auth_env \<Rightarrow> string \<Rightarrow> string \<Rightarrow> RbacDB \<Rightarrow> unit dbm" where
  "ResetPassword a e userID newPassword db =
     (case HashPassword a e newPassword of
        Inl err \<Rightarrow> (Inl err, db)
      | Inr hash \<Rightarrow> UpdateUserPassword (e_now e) userID hash (snd (DeleteUserSessions userID db)))"

definition EnsureDefaultAdmin :: "Auth \<Rightarrow> auth_env \<Rightarrow> string \<Rightarrow> string \<Rightarrow> string \<Rightarrow> RbacDB \<Rightarrow> User dbm" where
  "EnsureDefaultAdmin a e orgID email password db =
     (case ListUsers orgID db of
        Inr (u # _) \<Rightarrow> (Inr u, db)
      | _ \<Rightarrow> CreateUser a e orgID \<lparr>c_Email = email, c_Password = password, c_Name = ''Admin'', c_Role = RoleOwner\<rparr> db)"

section \<open>Invitations\<close>

definition CreateInvite :: "auth_env \<Rightarrow> string \<Rightarrow> string \<Rightarrow> Role \<Rightarrow> string \<Rightarrow> RbacDB \<Rightarrow> (Invite \<times> string) dbm" where
  "CreateInvite e orgID email role invitedBy db =
     (case GenerateToken e of
        Inl err \<Rightarrow> (Inl err, db)
      | Inr token \<Rightarrow>
          (let invite = \<lparr>i_ID = ''inv_'' @ int_str (e_now e), i_OrgID = orgID, i_Email = to_lower (TrimSpace email), i_Role = role,
                         i_InvitedBy = invitedBy, i_ExpiresAt = e_now e + 7 * 24 * hour, i_CreatedAt = e_now e\<rparr>
           in case CreateInviteRow (e_now e) invite (HashToken e token) db of
                (Inl err, db1) \<Rightarrow> (Inl err, db1)
              | (Inr _, db1) \<Rightarrow> (Inr (invite, token), db1)))"

definition AcceptInvite :: "Auth \<Rightarrow> auth_env \<Rightarrow> string \<Rightarrow> string \<Rightarrow> string \<Rightarrow> RbacDB \<Rightarrow> User dbm" where
  "AcceptInvite a e token password name db =
     (case GetInviteByToken (HashToken e token) db of
        Inl _ \<Rightarrow> (Inl ErrInvalidInvite, db)
      | Inr invite \<Rightarrow>
          if i_ExpiresAt invite < e_now e then (Inl ErrInvalidInvite, snd (DeleteInvite (i_ID invite) db))
          else case GetUserByEmail (i_OrgID invite) (i_Email invite) db of
            Inr _ \<Rightarrow> (Inl ''user already exists'', snd (DeleteInvite (i_ID invite) db))
          | Inl _ \<Rightarrow>
              (case CreateUser a e (i_OrgID invite)
                      \<lparr>c_Email = i_Email invite, c_Password = password, c_Name = name, c_Role = i_Role invite\<rparr> db of
                 (Inl err, db1) \<Rightarrow> (Inl err, db1)
               | (Inr user, db1) \<Rightarrow> (Inr user, snd (DeleteInvite (i_ID invite) db1))))"

section \<open>Permissions\<close>

definition CheckPermission :: "User \<Rightarrow> string \<Rightarrow> string \<Rightarrow> bool" where
  "CheckPermission user resource action \<longleftrightarrow> HasPermission (u_Role user) resource action"

definition CheckAPIKeyPermission :: "APIKey \<Rightarrow> string \<Rightarrow> string \<Rightarrow> bool" where
  "CheckAPIKeyPermission key resource action \<longleftrightarrow> permits (k_Permissions key) resource action"

end
