(* ===== verification/Rbac_Http.thy ===== *)
theory Rbac_Http
  imports Rbac_Auth
begin

text \<open>
  Who a request acts as: \<open>internal/rbac/middleware.go\<close> and \<open>internal/web/authmiddleware.go\<close>. A request holds the
  headers the code reads (an absent header is the empty string), the session cookie, the values of its context,
  and for each type a handler decodes the body into, the decoded value or \<open>None\<close> when decoding fails. A handler
  maps the request and the database to the response and the database after it.
\<close>

section \<open>Requests and responses\<close>

record UserUpdate =
  p_Email :: string
  p_Name :: string
  p_Role :: Role
  p_TeamIDs :: "string list option"
  p_IsActive :: "bool option"
  p_Timezone :: string

record APIKeyCreate =
  a_Name :: string
  a_Permissions :: "Permission list"
  a_ExpiresIn :: string

record Body =
  b_LoginRequest :: "(string \<times> string) option"
  b_UserCreate :: "UserCreate option"
  b_UserUpdate :: "UserUpdate option"
  b_Team :: "Team option"
  b_APIKeyCreate :: "APIKeyCreate option"
  b_InviteRequest :: "(string \<times> Role) option"
  b_AcceptInvite :: "(string \<times> string \<times> string) option"
  b_Organization :: "Organization option"
  b_PasswordChange :: "(string \<times> string) option"

record Request =
  r_Method :: string
  r_Path :: string
  r_Authorization :: string
  r_APIKey :: string
  r_Cookie :: "string option"
  r_UserAgent :: string
  r_RemoteAddr :: string
  r_ForwardedFor :: string
  r_Origin :: string
  r_TLS :: bool
  r_Body :: Body
  ContextKeyUser :: "User option"
  ContextKeySession :: "Session option"
  ContextKeyAPIKey :: "APIKey option"
  ContextKeyOrgID :: "string option"

record Cookie =
  ck_Value :: string
  ck_MaxAge :: int
  ck_Secure :: bool
  ck_Strict :: bool

datatype Payload =
    NoBody
  | JLogin LoginResponse
  | JStatus string
  | JMe User "Organization option"
  | JUser User
  | JUsers "User list"
  | JTeam Team
  | JTeams "Team list"
  | JKey APIKey
  | JKeys "APIKey list"
  | JKeyCreated APIKey string
  | JInvites "Invite list"
  | JInvite Invite string
  | JOrg Organization
  | JSessions "Session list"

text \<open>\<open>HttpError\<close> is \<open>http.Error\<close> with its status and message; \<open>Aborted\<close> is a handler that panics.\<close>

datatype Response = HttpError nat string | Reply nat "Cookie option" Payload | Aborted

type_synonym handler = "Request \<Rightarrow> RbacDB \<Rightarrow> Response \<times> RbacDB"

text \<open>\<open>strings.SplitN(s, " ", 2)\<close> when it gives two parts, and the first segment of a path below a prefix.\<close>

definition split_space :: "string \<Rightarrow> (string \<times> string) option" where
  "split_space s =
     (let a = takeWhile (\<lambda>c. c \<noteq> CHR '' '') s
      in if length a = length s then None else Some (a, drop (Suc (length a)) s))"

definition path_segment :: "string \<Rightarrow> string \<Rightarrow> string" where
  "path_segment path p = takeWhile (\<lambda>c. c \<noteq> CHR ''/'') (trim_prefix path p)"

section \<open>Credentials\<close>

type_synonym credentials = "User \<times> Session option \<times> APIKey option"

definition by_session :: "auth_env \<Rightarrow> string \<Rightarrow> RbacDB \<Rightarrow> credentials dbm" where
  "by_session e token db =
     (case ValidateSession e token db of
        (Inl err, db1) \<Rightarrow> (Inl err, db1)
      | (Inr (user, session), db1) \<Rightarrow> (Inr (user, Some session, None), db1))"

definition by_api_key :: "auth_env \<Rightarrow> string \<Rightarrow> RbacDB \<Rightarrow> credentials dbm" where
  "by_api_key e token db =
     (case ValidateAPIKey e token db of
        (Inl err, db1) \<Rightarrow> (Inl err, db1)
      | (Inr (apiKey, user), db1) \<Rightarrow> (Inr (user, None, Some apiKey), db1))"

definition validateAuthHeader :: "auth_env \<Rightarrow> string \<Rightarrow> RbacDB \<Rightarrow> credentials dbm" where
  "validateAuthHeader e header db =
     (case split_space header of
        None \<Rightarrow> (Inl ErrInvalidToken, db)
      | Some (scheme, token) \<Rightarrow>
          if to_lower scheme = ''bearer'' then by_session e token db
          else if to_lower scheme = ''apikey'' then by_api_key e token db
          else if has_prefix token ''dw_'' then by_api_key e token db
          else (Inl ErrInvalidToken, db))"

definition extractAuth :: "auth_env \<Rightarrow> Request \<Rightarrow> RbacDB \<Rightarrow> credentials dbm" where
  "extractAuth e r db =
     (if r_Authorization r \<noteq> [] then validateAuthHeader e (r_Authorization r) db
      else if r_APIKey r \<noteq> [] then by_api_key e (r_APIKey r) db
      else case r_Cookie r of
        Some c \<Rightarrow> if c \<noteq> [] then by_session e c db else (Inl ErrInvalidToken, db)
      | None \<Rightarrow> (Inl ErrInvalidToken, db))"

definition with_credentials :: "credentials \<Rightarrow> Request \<Rightarrow> Request" where
  "with_credentials c r =
     (case c of (user, session, apiKey) \<Rightarrow>
        r\<lparr>ContextKeyUser := Some user, ContextKeyOrgID := Some (u_OrgID user),
          ContextKeySession := (case session of None \<Rightarrow> ContextKeySession r | Some s \<Rightarrow> Some s),
          ContextKeyAPIKey := (case apiKey of None \<Rightarrow> ContextKeyAPIKey r | Some k \<Rightarrow> Some k)\<rparr>)"

definition Authenticate :: "auth_env \<Rightarrow> handler \<Rightarrow> handler" where
  "Authenticate e handle r db =
     (case extractAuth e r db of
        (Inl _, db1) \<Rightarrow> (HttpError 401 ''unauthorized'', db1)
      | (Inr c, db1) \<Rightarrow> handle (with_credentials c r) db1)"

definition AuthenticateOptional :: "auth_env \<Rightarrow> handler \<Rightarrow> handler" where
  "AuthenticateOptional e handle r db =
     (case extractAuth e r db of
        (Inl _, db1) \<Rightarrow> handle r db1
      | (Inr c, db1) \<Rightarrow> handle (with_credentials c r) db1)"

definition RequirePermission :: "string \<Rightarrow> string \<Rightarrow> handler \<Rightarrow> handler" where
  "RequirePermission resource action handle r db =
     (case ContextKeyUser r of
        None \<Rightarrow> (HttpError 401 ''unauthorized'', db)
      | Some user \<Rightarrow>
          (case ContextKeyAPIKey r of
             Some apiKey \<Rightarrow>
               if \<not> CheckAPIKeyPermission apiKey resource action then (HttpError 403 ''permission denied'', db) else handle r db
           | None \<Rightarrow>
               if \<not> CheckPermission user resource action then (HttpError 403 ''permission denied'', db) else handle r db))"

definition RequireRole :: "Role \<Rightarrow> handler \<Rightarrow> handler" where
  "RequireRole minRole handle r db =
     (case ContextKeyUser r of
        None \<Rightarrow> (HttpError 401 ''unauthorized'', db)
      | Some user \<Rightarrow>
          if role_rank (u_Role user) < role_rank minRole then (HttpError 403 ''insufficient role'', db) else handle r db)"

definition RequireOwner :: "handler \<Rightarrow> handler" where "RequireOwner = RequireRole RoleOwner"
definition RequireAdmin :: "handler \<Rightarrow> handler" where "RequireAdmin = RequireRole RoleAdmin"

text \<open>\<open>getUserFromRequest\<close> of the handlers: the context first, then the cookie, the header and the key, going on
  to the following one when one fails.\<close>

definition user_from_cookie :: "auth_env \<Rightarrow> Request \<Rightarrow> RbacDB \<Rightarrow> User option \<times> RbacDB" where
  "user_from_cookie e r db =
     (case r_Cookie r of
        None \<Rightarrow> (None, db)
      | Some c \<Rightarrow> if c = [] then (None, db)
          else (case ValidateSession e c db of (Inr (user, _), db1) \<Rightarrow> (Some user, db1) | (Inl _, db1) \<Rightarrow> (None, db1)))"

definition user_from_api_key :: "auth_env \<Rightarrow> string \<Rightarrow> RbacDB \<Rightarrow> User option \<times> RbacDB" where
  "user_from_api_key e key db =
     (case ValidateAPIKey e key db of (Inr (_, user), db1) \<Rightarrow> (Some user, db1) | (Inl _, db1) \<Rightarrow> (None, db1))"

definition user_from_header :: "auth_env \<Rightarrow> Request \<Rightarrow> RbacDB \<Rightarrow> User option \<times> RbacDB" where
  "user_from_header e r db =
     (if r_Authorization r = [] then (None, db)
      else case split_space (r_Authorization r) of
        None \<Rightarrow> (None, db)
      | Some (scheme, token) \<Rightarrow>
          if to_lower scheme = ''bearer''
          then (case ValidateSession e token db of (Inr (user, _), db1) \<Rightarrow> (Some user, db1) | (Inl _, db1) \<Rightarrow> (None, db1))
          else if to_lower scheme = ''apikey'' then user_from_api_key e token db
          else (None, db))"

definition getUserFromRequest :: "auth_env \<Rightarrow> Request \<Rightarrow> RbacDB \<Rightarrow> User option \<times> RbacDB" where
  "getUserFromRequest e r db =
     (case ContextKeyUser r of
        Some user \<Rightarrow> (Some user, db)
      | None \<Rightarrow>
          (case user_from_cookie e r db of
             (Some user, db1) \<Rightarrow> (Some user, db1)
           | (None, db1) \<Rightarrow>
               (case user_from_header e r db1 of
                  (Some user, db2) \<Rightarrow> (Some user, db2)
                | (None, db2) \<Rightarrow> if r_APIKey r \<noteq> [] then user_from_api_key e (r_APIKey r) db2 else (None, db2))))"

section \<open>The gate in front of every route\<close>

definition publicPrefixes :: "string list" where
  "publicPrefixes = [''/health'', ''/ready'', ''/healthz'', ''/readyz'', ''/livez'', ''/app/'', ''/login'', ''/assets/'', ''/favicon.'']"

definition publicExact :: "string list" where
  "publicExact = [''/'', ''/api/health'', ''/api/ready'', ''/api/auth/login'', ''/api/auth/logout'', ''/api/auth/invite/accept'']"

definition ingestPaths :: "string list" where
  "ingestPaths = [''/v1/traces'', ''/v1/trace'', ''/v1/metrics'', ''/api/v1/write'', ''/api/logs/ingest'']"

definition ssoPrefixes :: "string list" where
  "ssoPrefixes = [''/api/auth/sso/'', ''/api/auth/saml/'', ''/api/auth/oauth/'', ''/api/auth/providers'']"

text \<open>Without a configured middleware (\<open>mw = False\<close>) every request passes.\<close>

definition AuthMiddleware :: "bool \<Rightarrow> auth_env \<Rightarrow> handler \<Rightarrow> handler" where
  "AuthMiddleware mw e handle r db =
     (if \<not> mw then handle r db
      else if r_Path r \<in> set publicExact then handle r db
      else if list_ex (has_prefix (r_Path r)) publicPrefixes then handle r db
      else if r_Path r \<in> set ingestPaths then AuthenticateOptional e handle r db
      else if r_Path r = ''/api/ws'' then AuthenticateOptional e handle r db
      else if list_ex (has_prefix (r_Path r)) ssoPrefixes then handle r db
      else if has_prefix (r_Path r) ''/api/'' then Authenticate e handle r db
      else handle r db)"

section \<open>Cross-origin requests\<close>

text \<open>The headers set on the response come first; a preflight ends here.\<close>

definition CORS :: "string list \<Rightarrow> (Request \<Rightarrow> RbacDB \<Rightarrow> 'a \<times> RbacDB) \<Rightarrow> Request \<Rightarrow> RbacDB \<Rightarrow>
    ((string \<times> string) list \<times> 'a option) \<times> RbacDB" where
  "CORS allowedOrigins handle r db =
     (let allowed = list_ex (\<lambda>o'. o' = ''*'' \<or> o' = r_Origin r) allowedOrigins;
          headers = (if allowed
            then [(''Access-Control-Allow-Origin'', r_Origin r),
                  (''Access-Control-Allow-Methods'', ''GET, POST, PUT, DELETE, PATCH, OPTIONS''),
                  (''Access-Control-Allow-Headers'', ''Content-Type, Authorization, X-API-Key''),
                  (''Access-Control-Allow-Credentials'', ''true''),
                  (''Access-Control-Max-Age'', ''86400'')]
            else [])
      in if r_Method r = ''OPTIONS'' then ((headers, None), db)
         else (case handle r db of (x, db1) \<Rightarrow> ((headers, Some x), db1)))"

end
