(* ===== verification/Web_Limits.thy ===== *)
theory Web_Limits
  imports Rbac_Http "HOL-Library.AList"
begin

text \<open>
  The two rate limiters: the sliding window of \<open>internal/rbac/middleware.go\<close> and the token bucket of
  \<open>internal/web/ratelimit.go\<close> with the limiters built from it. Maps are association lists with distinct keys. A
  request is handled under the lock of the limiter, so one request is one step; the clean-up of the background
  goroutine is a step of its own.
\<close>

section \<open>Sliding window\<close>

record RateLimiter =
  rl_requests :: "(string \<times> int list) list"
  rl_limit :: int
  rl_window :: int
  rl_maxEntries :: nat

definition NewRateLimiter :: "int \<Rightarrow> int \<Rightarrow> RateLimiter" where
  "NewRateLimiter limit windowSeconds = \<lparr>rl_requests = [], rl_limit = limit, rl_window = windowSeconds, rl_maxEntries = 10000\<rparr>"

definition recent :: "int \<Rightarrow> int list \<Rightarrow> int list" where
  "recent cutoff timestamps = filter (\<lambda>ts. cutoff < ts) timestamps"

text \<open>The times kept for a key; a key that is not in the map has none.\<close>

definition kept :: "RateLimiter \<Rightarrow> string \<Rightarrow> int list" where
  "kept rl key = (case map_of (rl_requests rl) key of None \<Rightarrow> [] | Some ts \<Rightarrow> ts)"

definition cleanup :: "int \<Rightarrow> RateLimiter \<Rightarrow> RateLimiter" where
  "cleanup now rl =
     rl\<lparr>rl_requests := filter (\<lambda>(k, ts). ts \<noteq> []) (map (\<lambda>(k, ts). (k, recent (now - rl_window rl) ts)) (rl_requests rl))\<rparr>"

text \<open>Whether a request passes, and the limiter after it.\<close>

definition Limit :: "int \<Rightarrow> string \<Rightarrow> RateLimiter \<Rightarrow> bool \<times> RateLimiter" where
  "Limit now key rl =
     (let cutoff = now - rl_window rl
      in if map_of (rl_requests rl) key = None \<and> rl_maxEntries rl \<le> length (rl_requests rl) then (False, rl)
         else let ts = recent cutoff (kept rl key)
              in if rl_limit rl \<le> int (length ts) then (False, rl)
                 else (True, rl\<lparr>rl_requests := AList.update key (ts @ [now]) (rl_requests rl)\<rparr>))"

definition limit_key :: "Request \<Rightarrow> string" where
  "limit_key r = (if r_APIKey r = [] then r_RemoteAddr r else r_APIKey r)"

section \<open>Token bucket\<close>

record tokenBucket =
  tb_tokens :: f64
  tb_lastUpdate :: go_time

record TokenLimiter =
  tl_buckets :: "(string \<times> tokenBucket) list"
  tl_rate :: int
  tl_window :: duration
  tl_burstSize :: int

record RateLimitConfig =
  rc_RequestsPerMinute :: int
  rc_BurstSize :: int
  rc_Window :: duration
  rc_SkipPaths :: "string list"
  rc_SkipIPs :: "string list"

definition DefaultRateLimitConfig :: RateLimitConfig where
  "DefaultRateLimitConfig =
     \<lparr>rc_RequestsPerMinute = 300, rc_BurstSize = 50, rc_Window = minute, rc_SkipPaths = [''/health'', ''/ready'', ''/metrics''],
      rc_SkipIPs = [''127.0.0.1'', ''::1'']\<rparr>"

definition NewTokenLimiter :: "RateLimitConfig \<Rightarrow> TokenLimiter" where
  "NewTokenLimiter config =
     \<lparr>tl_buckets = [], tl_rate = rc_RequestsPerMinute config, tl_window = rc_Window config, tl_burstSize = rc_BurstSize config\<rparr>"

definition token_rate :: "TokenLimiter \<Rightarrow> f64" where
  "token_rate rl = f64_div (f64_of_int (tl_rate rl)) (dur_seconds (tl_window rl))"

text \<open>The bucket of a key, made full when there is none, filled up to \<open>now\<close>.\<close>

definition filled :: "go_time \<Rightarrow> string \<Rightarrow> TokenLimiter \<Rightarrow> f64" where
  "filled now key rl =
     (let bucket = (case map_of (tl_buckets rl) key of
                      Some b \<Rightarrow> b
                    | None \<Rightarrow> \<lparr>tb_tokens = f64_of_int (tl_burstSize rl), tb_lastUpdate = now\<rparr>);
          elapsed = time_sub now (tb_lastUpdate bucket);
          tokens = f64_add (tb_tokens bucket) (f64_mul (dur_seconds elapsed) (token_rate rl))
      in if f64_less (f64_of_int (tl_burstSize rl)) tokens then f64_of_int (tl_burstSize rl) else tokens)"

text \<open>\<open>out\<close> is the conversion of a float out of the range of integers.\<close>

definition Allow :: "(f64 \<Rightarrow> int) \<Rightarrow> go_time \<Rightarrow> string \<Rightarrow> TokenLimiter \<Rightarrow> (bool \<times> int \<times> go_time) \<times> TokenLimiter" where
  "Allow out now key rl =
     (let tokens = filled now key rl;
          put = (\<lambda>t. rl\<lparr>tl_buckets := AList.update key \<lparr>tb_tokens = t, tb_lastUpdate = now\<rparr> (tl_buckets rl)\<rparr>)
      in if f64_le (Fin 1) tokens
         then let rest = f64_sub tokens (Fin 1) in ((True, f64_to_int64 out rest, now + tl_window rl), put rest)
         else let timeUntilToken = f64_to_int64 out (f64_mul (f64_div (f64_sub (Fin 1) tokens) (token_rate rl)) (f64_of_int second))
              in ((False, 0, now + timeUntilToken), put tokens))"

definition token_cleanup :: "go_time \<Rightarrow> TokenLimiter \<Rightarrow> TokenLimiter" where
  "token_cleanup now rl =
     rl\<lparr>tl_buckets := filter (\<lambda>(k, b). \<not> 2 * tl_window rl < time_sub now (tb_lastUpdate b)) (tl_buckets rl)\<rparr>"

section \<open>Clients\<close>

text \<open>\<open>net.SplitHostPort\<close>, its host or \<open>None\<close> for its errors.\<close>

definition index_of :: "char \<Rightarrow> string \<Rightarrow> nat option" where
  "index_of c s = (if c \<in> set s then Some (length (takeWhile (\<lambda>d. d \<noteq> c) s)) else None)"

definition last_index :: "char \<Rightarrow> string \<Rightarrow> nat option" where
  "last_index c s = map_option (\<lambda>i. length s - 1 - i) (index_of c (rev s))"

definition split_host :: "string \<Rightarrow> string option" where
  "split_host s =
     (case last_index (CHR '':'') s of
        None \<Rightarrow> None
      | Some i \<Rightarrow>
          if has_prefix s ''[''
          then (case index_of (CHR '']'') s of
                  None \<Rightarrow> None
                | Some j \<Rightarrow>
                    if Suc j \<noteq> i then None
                    else if CHR ''['' \<in> set (drop 1 s) \<or> CHR '']'' \<in> set (drop (Suc j) s) then None
                    else Some (take (j - 1) (drop 1 s)))
          else if CHR '':'' \<in> set (take i s) then None
          else if CHR ''['' \<in> set s \<or> CHR '']'' \<in> set s then None
          else Some (take i s))"

text \<open>\<open>TrimSpace\<close> of the first entry of \<open>X-Forwarded-For\<close>, \<open>X-Real-IP\<close> (\<open>realIP\<close>), or the peer.\<close>

definition getClientIP :: "string \<Rightarrow> Request \<Rightarrow> string" where
  "getClientIP realIP r =
     (if r_ForwardedFor r \<noteq> [] then
        (case index_of (CHR '','') (r_ForwardedFor r) of
           Some i \<Rightarrow> TrimSpace (take i (r_ForwardedFor r))
         | None \<Rightarrow> TrimSpace (r_ForwardedFor r))
      else if realIP \<noteq> [] then TrimSpace realIP
      else case split_host (r_RemoteAddr r) of None \<Rightarrow> r_RemoteAddr r | Some ip \<Rightarrow> ip)"

datatype limit_result =
    Unlimited
  | Within int int int
  | Exceeded int int int

text \<open>\<open>Within\<close> and \<open>Exceeded\<close> carry the headers limit, remaining, reset; the third of \<open>Exceeded\<close> is the number of seconds to
  retry after.\<close>

definition RateLimitMiddleware :: "(f64 \<Rightarrow> int) \<Rightarrow> RateLimitConfig \<Rightarrow> go_time \<Rightarrow> string \<Rightarrow> Request \<Rightarrow> TokenLimiter \<Rightarrow> limit_result \<times> TokenLimiter" where
  "RateLimitMiddleware out config now realIP r limiter =
     (if r_Path r \<in> set (rc_SkipPaths config) then (Unlimited, limiter)
      else let ip = getClientIP realIP r
           in if ip \<in> set (rc_SkipIPs config) then (Unlimited, limiter)
              else case Allow out now ip limiter of
                ((allowed, remaining, resetAt), limiter1) \<Rightarrow>
                  if allowed then (Within (rc_RequestsPerMinute config) remaining (resetAt div second), limiter1)
                  else (Exceeded (rc_RequestsPerMinute config) (resetAt div second)
                          (f64_to_int64 out (dur_seconds (time_sub resetAt now)) + 1), limiter1))"

record APIKeyRateLimiter =
  ipLimiter :: TokenLimiter
  apiKeyLimiter :: TokenLimiter

definition NewAPIKeyRateLimiter :: "RateLimitConfig option \<Rightarrow> RateLimitConfig option \<Rightarrow> APIKeyRateLimiter" where
  "NewAPIKeyRateLimiter ipConfig apiKeyConfig =
     \<lparr>ipLimiter = NewTokenLimiter (case ipConfig of None \<Rightarrow> DefaultRateLimitConfig | Some c \<Rightarrow> c),
      apiKeyLimiter = NewTokenLimiter (case apiKeyConfig of
         None \<Rightarrow> \<lparr>rc_RequestsPerMinute = 1000, rc_BurstSize = 100, rc_Window = minute, rc_SkipPaths = [], rc_SkipIPs = []\<rparr>
       | Some c \<Rightarrow> c)\<rparr>"

definition key_of_request :: "Request \<Rightarrow> string" where
  "key_of_request r =
     (if r_APIKey r = [] \<and> has_prefix (to_lower (r_Authorization r)) ''apikey ''
      then trim_prefix (trim_prefix (r_Authorization r) ''apikey '') ''ApiKey ''
      else r_APIKey r)"

definition key_Allow :: "(f64 \<Rightarrow> int) \<Rightarrow> go_time \<Rightarrow> string \<Rightarrow> Request \<Rightarrow> APIKeyRateLimiter \<Rightarrow> ((bool \<times> int \<times> go_time) \<times> int) \<times> APIKeyRateLimiter" where
  "key_Allow out now realIP r rl =
     (if key_of_request r \<noteq> []
      then (case Allow out now (''apikey:'' @ key_of_request r) (apiKeyLimiter rl) of (res, l) \<Rightarrow> ((res, 1000), rl\<lparr>apiKeyLimiter := l\<rparr>))
      else (case Allow out now (getClientIP realIP r) (ipLimiter rl) of (res, l) \<Rightarrow> ((res, 300), rl\<lparr>ipLimiter := l\<rparr>)))"

text \<open>Limiters per endpoint: the longest pattern that is a prefix of the path, in any order of the map.\<close>

fun best_match :: "string \<Rightarrow> (string \<times> 'a) list \<Rightarrow> string \<times> 'a option \<Rightarrow> string \<times> 'a option" where
  "best_match path [] best = best"
| "best_match path ((pattern, limiter) # ls) best =
     best_match path ls (if has_prefix path pattern \<and> length (fst best) < length pattern then (pattern, Some limiter) else best)"

definition GetLimiter :: "'a \<Rightarrow> (string \<times> 'a) list \<Rightarrow> string \<Rightarrow> 'a" where
  "GetLimiter fallback limiters path =
     (case snd (best_match path limiters ([], None)) of Some limiter \<Rightarrow> limiter | None \<Rightarrow> fallback)"

end
