(* ===== verification/Web_Limiting.thy ===== *)
theory Web_Limiting
  imports Web_Limits
begin

text \<open>
  The sliding window against its specification, a log of every admitted request that is never pruned, and what the
  token bucket admits.
\<close>

section \<open>Sliding window\<close>

datatype limit_event = Hit int string | Tick int

fun event_time :: "limit_event \<Rightarrow> int" where
  "event_time (Hit t k) = t"
| "event_time (Tick t) = t"

fun event_keys :: "limit_event list \<Rightarrow> string set" where
  "event_keys [] = {}"
| "event_keys (Hit t k # evs) = insert k (event_keys evs)"
| "event_keys (Tick t # evs) = event_keys evs"

text \<open>The limiter, and the requests it admitted.\<close>

fun limiter_run :: "RateLimiter \<Rightarrow> (int \<times> string) list \<Rightarrow> limit_event list \<Rightarrow> RateLimiter \<times> (int \<times> string) list" where
  "limiter_run rl hist [] = (rl, hist)"
| "limiter_run rl hist (Hit t k # evs) =
     (case Limit t k rl of (ok, rl1) \<Rightarrow> limiter_run rl1 (if ok then hist @ [(t, k)] else hist) evs)"
| "limiter_run rl hist (Tick t # evs) = limiter_run (cleanup t rl) hist evs"

definition admitted :: "(int \<times> string) list \<Rightarrow> string \<Rightarrow> int list" where
  "admitted hist k = map fst (filter (\<lambda>(t, k'). k' = k) hist)"

text \<open>The specification: a request passes when fewer than the limit were admitted for its key in the window before it.\<close>

fun spec_run :: "int \<Rightarrow> int \<Rightarrow> (int \<times> string) list \<Rightarrow> limit_event list \<Rightarrow> (int \<times> string) list" where
  "spec_run limit window hist [] = hist"
| "spec_run limit window hist (Hit t k # evs) =
     spec_run limit window (if int (length (recent (t - window) (admitted hist k))) < limit then hist @ [(t, k)] else hist) evs"
| "spec_run limit window hist (Tick t # evs) = spec_run limit window hist evs"

lemma recent_recent [simp]: "c1 \<le> c2 \<Longrightarrow> recent c2 (recent c1 ts) = recent c2 ts"
  by (auto simp: recent_def intro: filter_cong)

lemma recent_append [simp]: "recent c (xs @ ys) = recent c xs @ recent c ys"
  by (simp add: recent_def)

lemma admitted_append [simp]: "admitted (hist @ [(t, k)]) k' = (if k' = k then admitted hist k @ [t] else admitted hist k')"
  by (simp add: admitted_def)

lemma map_of_prune:
  assumes "distinct (map fst al)"
  shows "map_of (filter (\<lambda>(k, ts). ts \<noteq> []) (map (\<lambda>(k, ts). (k, f ts)) al)) k =
    (case map_of al k of None \<Rightarrow> None | Some ts \<Rightarrow> if f ts = [] then None else Some (f ts))"
  using assms
proof (induction al)
  case (Cons p al)
  then have "map_of al (fst p) = None" by (simp add: map_of_eq_None_iff)
  then show ?case using Cons by (cases p) (auto split: option.split)
qed simp

lemma distinct_prune:
  assumes "distinct (map fst al)"
  shows "distinct (map fst (filter (\<lambda>(k, ts). ts \<noteq> []) (map (\<lambda>(k, ts). (k, f ts)) al)))" (is ?D)
proof -
  have "map fst (map (\<lambda>(k, ts). (k, f ts)) al) = map fst al" by (simp add: case_prod_unfold)
  then show ?D using assms by (metis distinct_map_filter)
qed

text \<open>The limiter holds, for each key, the times of the log that are still in the window.\<close>

definition tracks :: "int \<Rightarrow> RateLimiter \<Rightarrow> (int \<times> string) list \<Rightarrow> bool" where
  "tracks now rl hist \<longleftrightarrow>
     distinct (map fst (rl_requests rl)) \<and>
     (\<forall>k. recent (now - rl_window rl) (kept rl k) = recent (now - rl_window rl) (admitted hist k))"

lemma tracks_later: "tracks now rl hist \<Longrightarrow> now \<le> now' \<Longrightarrow> tracks now' rl hist"
proof -
  assume tr: "tracks now rl hist" and le: "now \<le> now'"
  have "recent (now' - rl_window rl) ts = recent (now' - rl_window rl) (recent (now - rl_window rl) ts)" for ts using le by simp
  then show ?thesis using tr unfolding tracks_def by metis
qed

lemma cleanup_keys: "fst ` set (rl_requests (cleanup t rl)) \<subseteq> fst ` set (rl_requests rl)"
  by (force simp: cleanup_def)

lemma length_alist_update: "length (AList.update k v al) = (if k \<in> fst ` set al then length al else Suc (length al))"
  by (induction al) auto

lemma kept_cleanup:
  "distinct (map fst (rl_requests rl)) \<Longrightarrow> kept (cleanup t rl) k = recent (t - rl_window rl) (kept rl k)"
  by (simp add: kept_def cleanup_def map_of_prune recent_def split: option.split)

lemma tracks_cleanup:
  assumes "tracks now rl hist" "now \<le> t"
  shows "tracks t (cleanup t rl) hist"
  using tracks_later [OF assms] distinct_prune [of "rl_requests rl"]
  unfolding tracks_def by (simp add: kept_cleanup) (simp add: cleanup_def)

lemma Limit_cases:
  assumes "tracks t rl hist"
  obtains "Limit t k rl = (False, rl)" "map_of (rl_requests rl) k = None" "rl_maxEntries rl \<le> length (rl_requests rl)"
  | "Limit t k rl = (False, rl)" "rl_limit rl \<le> int (length (recent (t - rl_window rl) (admitted hist k)))"
  | rl1 where "Limit t k rl = (True, rl1)" "int (length (recent (t - rl_window rl) (admitted hist k))) < rl_limit rl"
      "map_of (rl_requests rl) k = None \<Longrightarrow> length (rl_requests rl) < rl_maxEntries rl"
      "rl1 = rl\<lparr>rl_requests := AList.update k (recent (t - rl_window rl) (admitted hist k) @ [t]) (rl_requests rl)\<rparr>"
proof -
  have "recent (t - rl_window rl) (kept rl k) = recent (t - rl_window rl) (admitted hist k)" using assms by (simp add: tracks_def)
  then show ?thesis using that by (cases "map_of (rl_requests rl) k = None \<and> rl_maxEntries rl \<le> length (rl_requests rl)";
      cases "rl_limit rl \<le> int (length (recent (t - rl_window rl) (admitted hist k)))") (auto simp: Limit_def Let_def not_le)
qed

lemma kept_update:
  "kept (rl\<lparr>rl_requests := AList.update k ts (rl_requests rl)\<rparr>) k' = (if k' = k then ts else kept rl k')"
  by (simp add: kept_def update_conv')

lemma tracks_admit:
  assumes "tracks t rl hist"
  shows "tracks t (rl\<lparr>rl_requests := AList.update k (recent (t - rl_window rl) (admitted hist k) @ [t]) (rl_requests rl)\<rparr>) (hist @ [(t, k)])"
  using assms by (simp add: tracks_def kept_update distinct_update)

lemma window_const [simp]:
  "rl_window (cleanup t rl) = rl_window rl" "rl_limit (cleanup t rl) = rl_limit rl" "rl_maxEntries (cleanup t rl) = rl_maxEntries rl"
  by (simp_all add: cleanup_def)

lemma limiter_run_refines:
  assumes "tracks now rl hist" "sorted_wrt (\<le>) (now # map event_time evs)" "finite K" "card K \<le> rl_maxEntries rl"
    "fst ` set (rl_requests rl) \<union> event_keys evs \<subseteq> K"
  shows "snd (limiter_run rl hist evs) = spec_run (rl_limit rl) (rl_window rl) hist evs"
  using assms
proof (induction evs arbitrary: now rl hist)
  case (Cons ev evs)
  show ?case
  proof (cases ev)
    case (Tick t)
    have "tracks t (cleanup t rl) hist" using Cons.prems(1, 2) Tick by (intro tracks_cleanup) auto
    then show ?thesis using Cons.IH [of t "cleanup t rl" hist] Cons.prems Tick cleanup_keys [of t rl] by auto
  next
    case (Hit t k)
    have tr: "tracks t rl hist" using tracks_later [OF Cons.prems(1)] Cons.prems(2) Hit by simp
    from tr show ?thesis
    proof (cases rule: Limit_cases [of t rl hist k])
      case 1
      have "card (fst ` set (rl_requests rl)) = length (rl_requests rl)"
        using tr distinct_card [of "map fst (rl_requests rl)"] by (simp add: tracks_def)
      moreover have "k \<notin> fst ` set (rl_requests rl)" using 1(2) by (simp add: map_of_eq_None_iff)
      then have "fst ` set (rl_requests rl) \<subset> K" using Cons.prems(5) Hit by auto
      then have "card (fst ` set (rl_requests rl)) < card K" using Cons.prems(3) by (rule psubset_card_mono [rotated])
      ultimately show ?thesis using 1(3) Cons.prems(4) by simp
    next
      case 2
      then show ?thesis using Cons.IH [OF tr] Cons.prems Hit by simp
    next
      case (3 rl1)
      have "tracks t rl1 (hist @ [(t, k)])" using tracks_admit [OF tr] 3(4) by simp
      moreover have "fst ` set (rl_requests rl1) \<union> event_keys evs \<subseteq> K" using Cons.prems(5) Hit 3(4) by (auto simp: dom_update)
      ultimately have "snd (limiter_run rl1 (hist @ [(t, k)]) evs) = spec_run (rl_limit rl1) (rl_window rl1) (hist @ [(t, k)]) evs"
        using Cons.prems 3(4) Hit by (intro Cons.IH) auto
      then show ?thesis using 3 Hit by simp
    qed
  qed
qed simp

lemma tracks_new: "tracks now (NewRateLimiter limit window) []"
  by (simp add: tracks_def NewRateLimiter_def kept_def admitted_def)

text \<open>C28. The sliding window implements its specification: whatever clean-ups run in between, as long as the clock does not
  go back and there are at most 10000 clients, it admits exactly the requests that a log of all admitted requests,
  never pruned, would admit.\<close>

theorem sliding_window_refines:
  assumes "sorted (map event_time evs)" "card (event_keys evs) \<le> 10000"
  shows "snd (limiter_run (NewRateLimiter limit window) [] evs) = spec_run limit window [] evs"
proof (cases evs)
  case (Cons ev evs')
  have "finite (event_keys evs)" by (induction evs rule: event_keys.induct) auto
  moreover have "sorted_wrt (\<le>) (event_time ev # map event_time evs)" using assms(1) Cons by simp
  ultimately show ?thesis
    using limiter_run_refines [OF tracks_new, of "event_time ev" evs "event_keys evs" limit window] assms(2)
    by (simp add: NewRateLimiter_def)
qed simp

theorem sliding_window_refines_witness:
  "snd (limiter_run (NewRateLimiter 2 60) [] [Hit 0 ''a'', Hit 10 ''a'', Hit 20 ''a'', Tick 30, Hit 61 ''a'']) =
     [(0, ''a''), (10, ''a''), (61, ''a'')]"
  using sliding_window_refines [of "[Hit 0 ''a'', Hit 10 ''a'', Hit 20 ''a'', Tick 30, Hit 61 ''a'']" 2 60]
  by (simp add: recent_def admitted_def)

text \<open>How many requests of a key are admitted in the window that ends at a time.\<close>

definition in_window :: "int \<Rightarrow> int \<Rightarrow> int list \<Rightarrow> nat" where
  "in_window window t ts = length (filter (\<lambda>x. t - window < x \<and> x \<le> t) ts)"

lemma in_window_recent: "in_window window t ts \<le> length (recent (t - window) ts)"
  unfolding in_window_def recent_def by (induction ts) auto

definition bounded :: "RateLimiter \<Rightarrow> (int \<times> string) list \<Rightarrow> bool" where
  "bounded rl hist \<longleftrightarrow>
     length (rl_requests rl) \<le> rl_maxEntries rl \<and> (\<forall>k t. int (in_window (rl_window rl) t (admitted hist k)) \<le> max 0 (rl_limit rl))"

lemma recent_mono: "c1 \<le> c2 \<Longrightarrow> length (recent c2 ts) \<le> length (recent c1 ts)"
  by (induction ts) (auto simp: recent_def)

lemma bounded_admit:
  assumes "bounded rl hist" "tracks t rl hist" "int (length (recent (t - rl_window rl) (admitted hist k))) < rl_limit rl"
    "map_of (rl_requests rl) k = None \<Longrightarrow> length (rl_requests rl) < rl_maxEntries rl"
  shows "bounded (rl\<lparr>rl_requests := AList.update k ts (rl_requests rl)\<rparr>) (hist @ [(t, k)])"
proof -
  have "length (AList.update k ts (rl_requests rl)) \<le> rl_maxEntries rl"
    using assms(1, 4) by (simp add: bounded_def length_alist_update map_of_eq_None_iff) force
  moreover have "int (in_window (rl_window rl) u (admitted hist k @ [t])) \<le> max 0 (rl_limit rl)" for u
  proof (cases "t \<le> u")
    case True
    have "in_window (rl_window rl) u (admitted hist k @ [t]) \<le> Suc (in_window (rl_window rl) u (admitted hist k))" by (simp add: in_window_def)
    moreover have "in_window (rl_window rl) u (admitted hist k) \<le> length (recent (t - rl_window rl) (admitted hist k))"
      using in_window_recent [of "rl_window rl" u "admitted hist k"] recent_mono [of "t - rl_window rl" "u - rl_window rl" "admitted hist k"] True by simp
    ultimately show ?thesis using assms(3) by simp
  next
    case False
    then have "in_window (rl_window rl) u (admitted hist k @ [t]) = in_window (rl_window rl) u (admitted hist k)" by (simp add: in_window_def)
    then show ?thesis using assms(1) by (simp add: bounded_def)
  qed
  ultimately show ?thesis using assms(1) by (simp add: bounded_def)
qed

lemma limiter_run_bounded:
  assumes "tracks now rl hist" "bounded rl hist" "sorted_wrt (\<le>) (now # map event_time evs)"
  shows "case limiter_run rl hist evs of (rl', hist') \<Rightarrow>
    bounded rl' hist' \<and> rl_limit rl' = rl_limit rl \<and> rl_window rl' = rl_window rl \<and> rl_maxEntries rl' = rl_maxEntries rl"
  using assms
proof (induction evs arbitrary: now rl hist)
  case (Cons ev evs)
  show ?case
  proof (cases ev)
    case (Tick t)
    have "length (rl_requests (cleanup t rl)) \<le> length (rl_requests rl)"
      by (simp add: cleanup_def)
    then have "bounded (cleanup t rl) hist" using Cons.prems(2) by (auto simp: bounded_def)
    moreover have "tracks t (cleanup t rl) hist" using Cons.prems(1, 3) Tick by (intro tracks_cleanup) auto
    ultimately show ?thesis using Cons.IH [of t "cleanup t rl" hist] Cons.prems Tick by (auto simp: case_prod_unfold)
  next
    case (Hit t k)
    have tr: "tracks t rl hist" using tracks_later [OF Cons.prems(1)] Cons.prems(3) Hit by simp
    from tr show ?thesis
    proof (cases rule: Limit_cases [of t rl hist k])
      case (3 rl1)
      have "bounded rl1 (hist @ [(t, k)])" using bounded_admit [OF Cons.prems(2) tr 3(2, 3)] 3(4) by simp
      moreover have "tracks t rl1 (hist @ [(t, k)])" using tracks_admit [OF tr] 3(4) by simp
      ultimately show ?thesis using Cons.IH [of t rl1 "hist @ [(t, k)]"] Cons.prems 3 Hit by (auto simp: case_prod_unfold)
    qed (use Cons.IH [OF tr Cons.prems(2)] Cons.prems Hit in \<open>simp_all\<close>)
  qed
qed simp

text \<open>C29. Whatever the requests and the number of clients, if the clock does not go back, no client is admitted more than the
  limit in any window, wherever it lies, and the limiter never tracks more than 10000 clients.\<close>

theorem sliding_window_bound:
  assumes "sorted (map event_time evs)" "limiter_run (NewRateLimiter limit window) [] evs = (rl, hist)"
  shows "int (length (filter (\<lambda>x. t - window < x \<and> x \<le> t) (admitted hist key))) \<le> max 0 limit \<and> length (rl_requests rl) \<le> 10000"
proof -
  have "sorted_wrt (\<le>) ((if evs = [] then 0 else event_time (hd evs)) # map event_time evs)"
    using assms(1) by (cases evs) auto
  moreover have "bounded (NewRateLimiter limit window) []" by (simp add: bounded_def NewRateLimiter_def in_window_def admitted_def)
  ultimately have b: "bounded rl hist" "rl_limit rl = limit" "rl_window rl = window" "rl_maxEntries rl = 10000"
    using limiter_run_bounded [OF tracks_new, of limit window _ evs] assms(2) by (auto simp: NewRateLimiter_def)
  then have "int (in_window window t (admitted hist key)) \<le> max 0 limit" by (simp add: bounded_def)
  then show ?thesis using b by (simp add: bounded_def in_window_def)
qed

theorem sliding_window_bound_witness:
  "length (rl_requests (fst (limiter_run (NewRateLimiter 1 60) [] [Hit 0 ''a'', Hit 1 ''b'']))) \<le> 10000"
proof -
  have "limiter_run (NewRateLimiter 1 60) [] [Hit 0 ''a'', Hit 1 ''b''] =
      (fst (limiter_run (NewRateLimiter 1 60) [] [Hit 0 ''a'', Hit 1 ''b'']), snd (limiter_run (NewRateLimiter 1 60) [] [Hit 0 ''a'', Hit 1 ''b'']))"
    by (rule surjective_pairing)
  from sliding_window_bound [OF _ this, of 5 "''a''"] show ?thesis by simp
qed

section \<open>Token bucket\<close>

text \<open>The answers to \<open>n\<close> requests of one client at one instant.\<close>

fun allows :: "(f64 \<Rightarrow> int) \<Rightarrow> go_time \<Rightarrow> string \<Rightarrow> nat \<Rightarrow> TokenLimiter \<Rightarrow> bool list" where
  "allows out now key 0 rl = []"
| "allows out now key (Suc n) rl = (case Allow out now key rl of ((ok, _), rl1) \<Rightarrow> ok # allows out now key n rl1)"

lemma f64_round_nat: "n < 2 ^ 53 \<Longrightarrow> f64_round (of_nat n) = Fin (of_nat n)"
proof -
  assume "n < 2 ^ 53"
  then have "int n < 2 ^ 53" by (simp add: zless_nat_eq_int_zless)
  then show ?thesis using f64_round_exact [of "int n" 0] by simp
qed

lemma dur_seconds_0: "dur_seconds 0 = Fin 0"
  by (simp add: dur_seconds_def go_quot_def go_rem_def f64_of_int_def f64_round_def)

text \<open>Right after an update no time has passed: the bucket holds what it was left with.\<close>

lemma filled_now:
  assumes "map_of (tl_buckets rl) key \<in> {None, Some \<lparr>tb_tokens = Fin (of_nat n), tb_lastUpdate = now\<rparr>}"
    "map_of (tl_buckets rl) key = None \<Longrightarrow> int n = tl_burstSize rl" "int n \<le> tl_burstSize rl" "tl_burstSize rl < 2 ^ 53" "token_rate rl = Fin q"
  shows "filled now key rl = Fin (of_nat n)"
proof -
  have n: "n < 2 ^ 53" using assms(3, 4) by (simp add: zless_nat_eq_int_zless)
  obtain b where b: "tl_burstSize rl = int b" using assms(3) by (metis zero_le_imp_eq_int order_trans of_nat_0_le_iff)
  have "f64_of_int (tl_burstSize rl) = Fin (of_nat b)" using assms(4) f64_round_nat [of b] by (simp add: b f64_of_int_def zless_nat_eq_int_zless)
  moreover have "f64_mul (dur_seconds (time_sub now now)) (token_rate rl) = Fin 0"
    using assms(5) by (simp add: time_sub_def dur_seconds_0 max_duration_def min_duration_def f64_round_def)
  ultimately show ?thesis using assms(1, 2, 3) f64_round_nat [OF n] b by (auto simp: filled_def Let_def)
qed

lemma Allow_now:
  assumes "filled now key rl = Fin (of_nat n)" "n < 2 ^ 53"
  shows "fst (fst (Allow out now key rl)) = (0 < n)"
    "snd (Allow out now key rl) = rl\<lparr>tl_buckets := AList.update key \<lparr>tb_tokens = Fin (of_nat (n - 1)), tb_lastUpdate = now\<rparr> (tl_buckets rl)\<rparr>"
proof -
  have "f64_sub (Fin (of_nat (Suc m))) (Fin 1) = Fin (of_nat m)" if "m < 2 ^ 53" for m
    using f64_round_nat [OF that] by (simp add: f64_sub_def)
  then have "0 < n \<Longrightarrow> f64_sub (Fin (of_nat n)) (Fin 1) = Fin (of_nat (n - 1))" using assms(2) by (cases n) auto
  then show "fst (fst (Allow out now key rl)) = (0 < n)"
    "snd (Allow out now key rl) = rl\<lparr>tl_buckets := AList.update key \<lparr>tb_tokens = Fin (of_nat (n - 1)), tb_lastUpdate = now\<rparr> (tl_buckets rl)\<rparr>"
    using assms(1) by (cases "n = 0"; auto simp: Allow_def Let_def f64_le_def f64_eq_def)+
qed

lemma allows_bucket:
  assumes "map_of (tl_buckets rl) key \<in> {None, Some \<lparr>tb_tokens = Fin (of_nat n), tb_lastUpdate = now\<rparr>}"
    "map_of (tl_buckets rl) key = None \<Longrightarrow> int n = tl_burstSize rl" "int n \<le> tl_burstSize rl" "tl_burstSize rl < 2 ^ 53" "token_rate rl = Fin q"
  shows "allows out now key m rl = replicate (min m n) True @ replicate (m - n) False"
  using assms
proof (induction m arbitrary: rl n)
  case (Suc m)
  have n: "n < 2 ^ 53" using Suc.prems(3, 4) by (simp add: zless_nat_eq_int_zless)
  have "filled now key rl = Fin (of_nat n)" by (rule filled_now [OF Suc.prems])
  note step = Allow_now [OF this n, where out = out]
  define rl1 where "rl1 = snd (Allow out now key rl)"
  have "map_of (tl_buckets rl1) key = Some \<lparr>tb_tokens = Fin (of_nat (n - 1)), tb_lastUpdate = now\<rparr>"
    unfolding rl1_def step(2) by (simp add: update_conv')
  moreover have "tl_burstSize rl1 = tl_burstSize rl" "token_rate rl1 = Fin q"
    using Suc.prems(5) unfolding rl1_def step(2) by (simp_all add: token_rate_def)
  ultimately have "allows out now key m rl1 = replicate (min m (n - 1)) True @ replicate (m - (n - 1)) False"
    using Suc.prems(3, 4) by (intro Suc.IH) auto
  moreover have "allows out now key (Suc m) rl = (0 < n) # allows out now key m rl1"
    using step(1) by (simp add: rl1_def case_prod_unfold)
  ultimately show ?case by (cases n) auto
qed simp

text \<open>A client that was not seen yet gets its burst and no more: of any number of requests at one instant exactly the
  first \<open>burstSize\<close> are allowed, computed in floating point.\<close>

theorem token_bucket_burst:
  assumes "map_of (tl_buckets rl) key = None" "tl_burstSize rl = int burst" "burst < 2 ^ 53" "token_rate rl = Fin q"
  shows "allows out now key n rl = replicate (min n burst) True @ replicate (n - burst) False"
  using assms by (intro allows_bucket) (auto simp: zless_nat_eq_int_zless)

lemma default_token_rate: "token_rate (NewTokenLimiter DefaultRateLimitConfig) = Fin 5"
proof -
  have r: "f64_round (of_nat k) = Fin (of_nat k)" if "k < 1000" for k :: nat using f64_round_nat [of k] that by simp
  show ?thesis using r [of 300] r [of 60] r [of 5]
    by (simp add: token_rate_def NewTokenLimiter_def DefaultRateLimitConfig_def dur_seconds_def go_quot_def go_rem_def f64_of_int_def
      f64_round_def [of 0])
qed

theorem token_bucket_burst_witness:
  "allows (\<lambda>x. 0) 0 ''10.0.0.1'' 60 (NewTokenLimiter DefaultRateLimitConfig) = replicate 50 True @ replicate 10 False"
  using token_bucket_burst [OF _ _ _ default_token_rate, of "''10.0.0.1''" 50 "\<lambda>x. 0" 0 60]
  by (simp add: NewTokenLimiter_def DefaultRateLimitConfig_def)

text \<open>The client names its own address: with a loopback address in \<open>X-Forwarded-For\<close> no limit applies.\<close>

lemma forwarded_loopback_unlimited:
  assumes "r_ForwardedFor r = ''127.0.0.1''"
  shows "RateLimitMiddleware out DefaultRateLimitConfig now realIP r limiter = (Unlimited, limiter)"
proof -
  have "getClientIP realIP r = ''127.0.0.1''"
    using assms by (simp add: getClientIP_def index_of_def TrimSpace_def Let_def is_blank_def)
  then show ?thesis by (simp add: RateLimitMiddleware_def DefaultRateLimitConfig_def Let_def)
qed

section \<open>Endpoints\<close>

lemma best_match_keeps: "length (fst best) \<le> length (fst (best_match path ls best))"
  by (induction path ls best rule: best_match.induct) (auto dest: order_trans [OF less_imp_le])

lemma best_match_longest: "(p, l) \<in> set ls \<Longrightarrow> has_prefix path p \<Longrightarrow> length p \<le> length (fst (best_match path ls best))"
proof (induction path ls best rule: best_match.induct)
  case (2 path pattern limiter ls best)
  let ?b = "if has_prefix path pattern \<and> length (fst best) < length pattern then (pattern, Some limiter) else best"
  have "length (fst ?b) \<le> length (fst (best_match path ls ?b))" by (rule best_match_keeps)
  then show ?case using 2 by auto
qed simp

lemma best_match_result:
  "best_match path ls best = best \<or> (\<exists>p l. (p, l) \<in> set ls \<and> has_prefix path p \<and> best_match path ls best = (p, Some l))"
  by (induction path ls best rule: best_match.induct) auto

lemma has_prefix_same_length: "has_prefix s p \<Longrightarrow> has_prefix s q \<Longrightarrow> length p = length q \<Longrightarrow> p = q"
  by (metis has_prefix_def)

text \<open>The longest pattern wins, in whatever order the map is read.\<close>

lemma GetLimiter_longest:
  assumes "distinct (map fst ls)" "(p, l) \<in> set ls" "has_prefix path p" "p \<noteq> []"
    "\<And>p' l'. (p', l') \<in> set ls \<Longrightarrow> has_prefix path p' \<Longrightarrow> length p' \<le> length p"
  shows "GetLimiter d ls path = l"
proof -
  let ?b = "best_match path ls ([], None)"
  have "length p \<le> length (fst ?b)" using best_match_longest [OF assms(2, 3)] .
  then have "?b \<noteq> ([], None)" using assms(4) by auto
  then obtain p' l' where b: "(p', l') \<in> set ls" "has_prefix path p'" "?b = (p', Some l')" using best_match_result by blast
  then have "length p' = length p" using assms(5) [OF b(1, 2)] \<open>length p \<le> length (fst ?b)\<close> by simp
  then have "p' = p" using has_prefix_same_length [OF b(2) assms(3)] by simp
  then have "l' = l" using assms(1, 2) b(1) by (metis eq_key_imp_eq_value)
  then show ?thesis using b(3) by (simp add: GetLimiter_def)
qed

end
