(* ===== verification/Rbac_Handlers.thy ===== *)
theory Rbac_Handlers
  imports Rbac_Http "HOL-Library.AList"
begin

text \<open>
  The handlers of \<open>internal/web/rbac_handlers.go\<close>. The three globals of the file are set together
  (\<open>SetRBACAuth\<close>): \<open>g\<close> is \<open>None\<close> before that. What is sent of a user leaves out the password hash, as its JSON tag
  says; \<open>UpdateUser\<close>, \<open>UpdateTeam\<close> and \<open>UpdateOrganization\<close> set \<open>UpdatedAt\<close> of the value they are given.
\<close>

abbreviation err_config :: Response where "err_config \<equiv> HttpError 503 ''rbac not configured''"
abbreviation err_auth :: Response where "err_auth \<equiv> HttpError 401 ''unauthorized''"
abbreviation err_method :: Response where "err_method \<equiv> HttpError 405 ''method not allowed''"
abbreviation err_denied :: Response where "err_denied \<equiv> HttpError 403 ''permission denied''"
abbreviation err_body :: Response where "err_body \<equiv> HttpError 400 ''invalid request body''"

definition json_user :: "User \<Rightarrow> User" where "json_user u = u\<lparr>u_PasswordHash := []\<rparr>"

text \<open>The first two checks of a protected handler, and a statement whose failure is one response.\<close>

definition protected :: "Auth option \<Rightarrow> auth_env \<Rightarrow> (Auth \<Rightarrow> User \<Rightarrow> handler) \<Rightarrow> handler" where
  "protected g e handle r db =
     (case g of
        None \<Rightarrow> (err_config, db)
      | Some a \<Rightarrow>
          (case getUserFromRequest e r db of
             (None, db1) \<Rightarrow> (err_auth, db1)
           | (Some user, db1) \<Rightarrow> handle a user r db1))"

definition finish :: "Response \<Rightarrow> ('a \<Rightarrow> Response) \<Rightarrow> 'a dbm \<Rightarrow> Response \<times> RbacDB" where
  "finish failed reply out = (case out of (Inl _, db) \<Rightarrow> (failed, db) | (Inr x, db) \<Rightarrow> (reply x, db))"

section \<open>Sessions\<close>

definition clear_cookie :: Cookie where
  "clear_cookie = \<lparr>ck_Value = [], ck_MaxAge = - 1, ck_Secure = False, ck_Strict = False\<rparr>"

definition client_address :: "Request \<Rightarrow> string" where
  "client_address r =
     (if r_ForwardedFor r \<noteq> [] then takeWhile (\<lambda>c. c \<noteq> CHR '','') (r_ForwardedFor r) else r_RemoteAddr r)"

definition handleLogin :: "Auth option \<Rightarrow> auth_env \<Rightarrow> handler" where
  "handleLogin g e r db =
     (case g of
        None \<Rightarrow> (err_config, db)
      | Some a \<Rightarrow>
          if r_Method r \<noteq> ''POST'' then (err_method, db)
          else case b_LoginRequest (r_Body r) of
            None \<Rightarrow> (err_body, db)
          | Some (email, password) \<Rightarrow>
              finish (HttpError 401 ''invalid credentials'')
                (\<lambda>resp. Reply 200 (Some \<lparr>ck_Value = lr_Token resp, ck_MaxAge = 7 * 24 * 60 * 60, ck_Secure = r_TLS r, ck_Strict = True\<rparr>)
                   (JLogin (resp\<lparr>lr_User := json_user (lr_User resp)\<rparr>)))
                (LoginAnyOrg a e email password (r_UserAgent r) (client_address r) db))"

text \<open>The token of the cookie when there is one, otherwise that of a bearer header.\<close>

definition bearer_token :: "Request \<Rightarrow> string" where
  "bearer_token r =
     (case r_Cookie r of
        Some c \<Rightarrow> c
      | None \<Rightarrow>
          if r_Authorization r = [] then []
          else (case split_space (r_Authorization r) of
                  Some (scheme, token) \<Rightarrow> if to_lower scheme = ''bearer'' then token else []
                | None \<Rightarrow> []))"

definition handleLogout :: "Auth option \<Rightarrow> auth_env \<Rightarrow> handler" where
  "handleLogout g e r db =
     (case g of
        None \<Rightarrow> (err_config, db)
      | Some _ \<Rightarrow>
          if r_Method r \<noteq> ''POST'' then (err_method, db)
          else let token = bearer_token r;
                   db1 = (if token \<noteq> [] then snd (Logout e token db) else db)
               in (Reply 200 (Some clear_cookie) (JStatus ''logged out''), db1))"

definition org_info :: "string \<Rightarrow> RbacDB \<Rightarrow> Organization option" where
  "org_info orgID db = (case GetOrganization orgID db of Inl _ \<Rightarrow> None | Inr org \<Rightarrow> Some org)"

definition handleMe :: "Auth option \<Rightarrow> auth_env \<Rightarrow> handler" where
  "handleMe g e r db =
     (case g of
        None \<Rightarrow> (err_config, db)
      | Some _ \<Rightarrow>
          if r_Method r \<noteq> ''GET'' then (err_method, db)
          else case ContextKeyUser r of
            Some user \<Rightarrow> (Reply 200 None (JMe (json_user user) (org_info (u_OrgID user) db)), db)
          | None \<Rightarrow>
              if bearer_token r = [] then (HttpError 401 ''not authenticated'', db)
              else (case ValidateSession e (bearer_token r) db of
                      (Inl _, db1) \<Rightarrow> (HttpError 401 ''invalid session'', db1)
                    | (Inr (user, _), db1) \<Rightarrow> (Reply 200 None (JMe (json_user user) (org_info (u_OrgID user) db1)), db1)))"

definition sessions_request :: "auth_env \<Rightarrow> User \<Rightarrow> handler" where
  "sessions_request e user r db =
     (if r_Method r = ''GET'' then
        (case ListUserSessions (e_now e) (u_ID user) db of
           Inl _ \<Rightarrow> (HttpError 500 ''failed to list sessions'', db)
         | Inr sessions \<Rightarrow> (Reply 200 None (JSessions sessions), db))
      else if r_Method r = ''DELETE'' then
        finish (HttpError 500 ''failed to logout'')
          (\<lambda>_. Reply 200 (Some clear_cookie) (JStatus ''all sessions logged out'')) (LogoutAll (u_ID user) db)
      else (err_method, db))"

definition handleSessions :: "Auth option \<Rightarrow> auth_env \<Rightarrow> handler" where
  "handleSessions g e = protected g e (\<lambda>_. sessions_request e)"

text \<open>The method is checked before the user.\<close>

definition handlePasswordChange :: "Auth option \<Rightarrow> auth_env \<Rightarrow> handler" where
  "handlePasswordChange g e r db =
     (case g of
        None \<Rightarrow> (err_config, db)
      | Some a \<Rightarrow>
          if r_Method r \<noteq> ''POST'' then (err_method, db)
          else case getUserFromRequest e r db of
            (None, db1) \<Rightarrow> (err_auth, db1)
          | (Some user, db1) \<Rightarrow>
              (case b_PasswordChange (r_Body r) of
                 None \<Rightarrow> (err_body, db1)
               | Some (old, new) \<Rightarrow>
                   finish (HttpError 400 ''failed to change password'') (\<lambda>_. Reply 200 None (JStatus ''password changed''))
                     (ChangePassword a e (u_ID user) old new db1)))"

section \<open>Users\<close>

definition users_request :: "Auth \<Rightarrow> auth_env \<Rightarrow> User \<Rightarrow> handler" where
  "users_request a e user r db =
     (if r_Method r = ''GET'' then
        (if \<not> HasPermission (u_Role user) ''users'' ''read'' then (err_denied, db)
         else case ListUsers (u_OrgID user) db of
           Inl _ \<Rightarrow> (HttpError 500 ''failed to list users'', db)
         | Inr users \<Rightarrow> (Reply 200 None (JUsers (map json_user users)), db))
      else if r_Method r = ''POST'' then
        (if \<not> HasPermission (u_Role user) ''users'' ''create'' then (err_denied, db)
         else case b_UserCreate (r_Body r) of
           None \<Rightarrow> (err_body, db)
         | Some req \<Rightarrow>
             if \<not> CanManageRole (u_Role user) (c_Role req) then (HttpError 403 ''cannot assign this role'', db)
             else finish (HttpError 500 ''failed to create user'') (\<lambda>u. Reply 201 None (JUser (json_user u)))
                    (CreateUser a e (u_OrgID user) req db))
      else (err_method, db))"

definition handleUsers :: "Auth option \<Rightarrow> auth_env \<Rightarrow> handler" where
  "handleUsers g e = protected g e (\<lambda>a. users_request a e)"

text \<open>The user with the given id, when it is of the caller's organization.\<close>

definition target_user :: "User \<Rightarrow> string \<Rightarrow> RbacDB \<Rightarrow> User option" where
  "target_user user iD db =
     (case GetUser iD db of Inl _ \<Rightarrow> None | Inr t \<Rightarrow> if u_OrgID t \<noteq> u_OrgID user then None else Some t)"

definition apply_update :: "UserUpdate \<Rightarrow> User \<Rightarrow> User" where
  "apply_update req t =
     (let t1 = (if p_Name req \<noteq> [] then t\<lparr>u_Name := p_Name req\<rparr> else t);
          t2 = (if p_Email req \<noteq> [] then t1\<lparr>u_Email := to_lower (TrimSpace (p_Email req))\<rparr> else t1);
          t3 = (if p_Role req \<noteq> [] then t2\<lparr>u_Role := p_Role req\<rparr> else t2);
          t4 = (if p_Timezone req \<noteq> [] then t3\<lparr>u_Timezone := p_Timezone req\<rparr> else t3);
          t5 = (case p_IsActive req of None \<Rightarrow> t4 | Some b \<Rightarrow> t4\<lparr>u_IsActive := b\<rparr>)
      in case p_TeamIDs req of None \<Rightarrow> t5 | Some ids \<Rightarrow> t5\<lparr>u_TeamIDs := Some ids\<rparr>)"

definition update_user_request :: "auth_env \<Rightarrow> User \<Rightarrow> string \<Rightarrow> handler" where
  "update_user_request e user targetUserID r db =
     (if \<not> HasPermission (u_Role user) ''users'' ''update'' \<and> u_ID user \<noteq> targetUserID then (err_denied, db)
      else case target_user user targetUserID db of
        None \<Rightarrow> (HttpError 404 ''user not found'', db)
      | Some target \<Rightarrow>
          (case b_UserUpdate (r_Body r) of
             None \<Rightarrow> (err_body, db)
           | Some req \<Rightarrow>
               if p_Role req \<noteq> [] \<and> p_Role req \<noteq> u_Role target \<and> \<not> HasPermission (u_Role user) ''users'' ''update''
               then (HttpError 403 ''cannot change role'', db)
               else if p_Role req \<noteq> [] \<and> p_Role req \<noteq> u_Role target \<and> \<not> CanManageRole (u_Role user) (p_Role req)
               then (HttpError 403 ''cannot assign this role'', db)
               else let target1 = apply_update req target
                    in finish (HttpError 500 ''failed to update user'')
                         (\<lambda>_. Reply 200 None (JUser (json_user (target1\<lparr>u_UpdatedAt := e_now e\<rparr>))))
                         (UpdateUser (e_now e) target1 db)))"

definition delete_user_request :: "User \<Rightarrow> string \<Rightarrow> handler" where
  "delete_user_request user targetUserID r db =
     (if \<not> HasPermission (u_Role user) ''users'' ''delete'' then (err_denied, db)
      else if targetUserID = u_ID user then (HttpError 400 ''cannot delete yourself'', db)
      else case target_user user targetUserID db of
        None \<Rightarrow> (HttpError 404 ''user not found'', db)
      | Some target \<Rightarrow>
          if \<not> CanManageRole (u_Role user) (u_Role target) then (HttpError 403 ''cannot delete this user'', db)
          else finish (HttpError 500 ''failed to delete user'') (\<lambda>_. Reply 204 None NoBody)
                 (DeleteUser targetUserID (snd (DeleteUserSessions targetUserID db))))"

definition user_request :: "auth_env \<Rightarrow> User \<Rightarrow> handler" where
  "user_request e user r db =
     (let targetUserID = path_segment (r_Path r) ''/api/users/''
      in if r_Method r = ''GET'' then
           (if \<not> HasPermission (u_Role user) ''users'' ''read'' \<and> u_ID user \<noteq> targetUserID then (err_denied, db)
            else case target_user user targetUserID db of
              None \<Rightarrow> (HttpError 404 ''user not found'', db)
            | Some target \<Rightarrow> (Reply 200 None (JUser (json_user target)), db))
         else if r_Method r = ''PUT'' then update_user_request e user targetUserID r db
         else if r_Method r = ''DELETE'' then delete_user_request user targetUserID r db
         else (err_method, db))"

definition handleUser :: "Auth option \<Rightarrow> auth_env \<Rightarrow> handler" where
  "handleUser g e = protected g e (\<lambda>_. user_request e)"

section \<open>Teams\<close>

definition teams_request :: "auth_env \<Rightarrow> User \<Rightarrow> handler" where
  "teams_request e user r db =
     (if r_Method r = ''GET'' then
        (if \<not> HasPermission (u_Role user) ''teams'' ''read'' then (err_denied, db)
         else case ListTeams (u_OrgID user) db of
           Inl _ \<Rightarrow> (HttpError 500 ''failed to list teams'', db)
         | Inr teams \<Rightarrow> (Reply 200 None (JTeams teams), db))
      else if r_Method r = ''POST'' then
        (if \<not> HasPermission (u_Role user) ''teams'' ''create'' then (err_denied, db)
         else case b_Team (r_Body r) of
           None \<Rightarrow> (err_body, db)
         | Some t \<Rightarrow>
             let team = t\<lparr>t_OrgID := u_OrgID user\<rparr>
             in finish (HttpError 500 ''failed to create team'')
                  (\<lambda>_. Reply 201 None (JTeam (team\<lparr>t_CreatedAt := e_now e, t_UpdatedAt := e_now e\<rparr>)))
                  (CreateTeam (e_now e) team db))
      else (err_method, db))"

definition handleTeams :: "Auth option \<Rightarrow> auth_env \<Rightarrow> handler" where
  "handleTeams g e = protected g e (\<lambda>_. teams_request e)"

definition target_team :: "User \<Rightarrow> string \<Rightarrow> RbacDB \<Rightarrow> Team option" where
  "target_team user iD db =
     (case GetTeam iD db of Inl _ \<Rightarrow> None | Inr t \<Rightarrow> if t_OrgID t \<noteq> u_OrgID user then None else Some t)"

definition apply_team_update :: "Team \<Rightarrow> Team \<Rightarrow> Team" where
  "apply_team_update update t =
     (let t1 = (if t_Name update \<noteq> [] then t\<lparr>t_Name := t_Name update\<rparr> else t);
          t2 = (if t_Description update \<noteq> [] then t1\<lparr>t_Description := t_Description update\<rparr> else t1)
      in case t_MemberIDs update of None \<Rightarrow> t2 | Some ids \<Rightarrow> t2\<lparr>t_MemberIDs := Some ids\<rparr>)"

definition team_request :: "auth_env \<Rightarrow> User \<Rightarrow> handler" where
  "team_request e user r db =
     (let teamID = path_segment (r_Path r) ''/api/teams/''; missing = HttpError 404 ''team not found''
      in if r_Method r = ''GET'' then
           (if \<not> HasPermission (u_Role user) ''teams'' ''read'' then (err_denied, db)
            else case target_team user teamID db of
              None \<Rightarrow> (missing, db)
            | Some team \<Rightarrow> (Reply 200 None (JTeam team), db))
         else if r_Method r = ''PUT'' then
           (if \<not> HasPermission (u_Role user) ''teams'' ''update'' then (err_denied, db)
            else case target_team user teamID db of
              None \<Rightarrow> (missing, db)
            | Some team \<Rightarrow>
                (case b_Team (r_Body r) of
                   None \<Rightarrow> (err_body, db)
                 | Some update \<Rightarrow>
                     let team1 = apply_team_update update team
                     in finish (HttpError 500 ''failed to update team'') (\<lambda>_. Reply 200 None (JTeam (team1\<lparr>t_UpdatedAt := e_now e\<rparr>)))
                          (UpdateTeam (e_now e) team1 db)))
         else if r_Method r = ''DELETE'' then
           (if \<not> HasPermission (u_Role user) ''teams'' ''delete'' then (err_denied, db)
            else case target_team user teamID db of
              None \<Rightarrow> (missing, db)
            | Some _ \<Rightarrow> finish (HttpError 500 ''failed to delete team'') (\<lambda>_. Reply 204 None NoBody) (DeleteTeam teamID db))
         else (err_method, db))"

definition handleTeam :: "Auth option \<Rightarrow> auth_env \<Rightarrow> handler" where
  "handleTeam g e = protected g e (\<lambda>_. team_request e)"

section \<open>API keys\<close>

definition keys_request :: "auth_env \<Rightarrow> User \<Rightarrow> handler" where
  "keys_request e user r db =
     (if r_Method r = ''GET'' then
        (if \<not> HasPermission (u_Role user) ''apikeys'' ''read'' then (err_denied, db)
         else case ListAPIKeys (u_OrgID user) db of
           Inl _ \<Rightarrow> (HttpError 500 ''failed to list api keys'', db)
         | Inr keys \<Rightarrow> (Reply 200 None (JKeys keys), db))
      else if r_Method r = ''POST'' then
        (if \<not> HasPermission (u_Role user) ''apikeys'' ''create'' then (err_denied, db)
         else case b_APIKeyCreate (r_Body r) of
           None \<Rightarrow> (err_body, db)
         | Some req \<Rightarrow>
             finish (HttpError 500 ''failed to create api key'') (\<lambda>(k, key). Reply 201 None (JKeyCreated k key))
               (CreateAPIKey e (u_OrgID user) (u_ID user) (a_Name req) (a_Permissions req) (a_ExpiresIn req) db))
      else (err_method, db))"

definition handleAPIKeys :: "Auth option \<Rightarrow> auth_env \<Rightarrow> handler" where
  "handleAPIKeys g e = protected g e (\<lambda>_. keys_request e)"

definition target_key :: "User \<Rightarrow> string \<Rightarrow> RbacDB \<Rightarrow> APIKey option" where
  "target_key user iD db =
     (case GetAPIKey iD db of Inl _ \<Rightarrow> None | Inr k \<Rightarrow> if k_OrgID k \<noteq> u_OrgID user then None else Some k)"

definition key_request :: "User \<Rightarrow> handler" where
  "key_request user r db =
     (let keyID = path_segment (r_Path r) ''/api/apikeys/''; missing = HttpError 404 ''api key not found''
      in if r_Method r = ''GET'' then
           (if \<not> HasPermission (u_Role user) ''apikeys'' ''read'' then (err_denied, db)
            else case target_key user keyID db of
              None \<Rightarrow> (missing, db)
            | Some key \<Rightarrow> (Reply 200 None (JKey key), db))
         else if r_Method r = ''DELETE'' then
           (if \<not> HasPermission (u_Role user) ''apikeys'' ''delete'' then (err_denied, db)
            else case target_key user keyID db of
              None \<Rightarrow> (missing, db)
            | Some _ \<Rightarrow> finish (HttpError 500 ''failed to delete api key'') (\<lambda>_. Reply 204 None NoBody) (DeleteAPIKey keyID db))
         else (err_method, db))"

definition handleAPIKey :: "Auth option \<Rightarrow> auth_env \<Rightarrow> handler" where
  "handleAPIKey g e = protected g e (\<lambda>_. key_request)"

section \<open>Invitations\<close>

definition invites_request :: "auth_env \<Rightarrow> User \<Rightarrow> handler" where
  "invites_request e user r db =
     (if r_Method r = ''GET'' then
        (if \<not> HasPermission (u_Role user) ''users'' ''read'' then (err_denied, db)
         else case ListInvites (u_OrgID user) db of
           Inl _ \<Rightarrow> (HttpError 500 ''failed to list invites'', db)
         | Inr invites \<Rightarrow> (Reply 200 None (JInvites invites), db))
      else if r_Method r = ''POST'' then
        (if \<not> HasPermission (u_Role user) ''users'' ''create'' then (err_denied, db)
         else case b_InviteRequest (r_Body r) of
           None \<Rightarrow> (err_body, db)
         | Some (email, role) \<Rightarrow>
             if \<not> CanManageRole (u_Role user) role then (HttpError 403 ''cannot invite this role'', db)
             else finish (HttpError 500 ''failed to create invite'') (\<lambda>(invite, token). Reply 201 None (JInvite invite token))
                    (CreateInvite e (u_OrgID user) email role (u_ID user) db))
      else (err_method, db))"

definition handleInvites :: "Auth option \<Rightarrow> auth_env \<Rightarrow> handler" where
  "handleInvites g e = protected g e (\<lambda>_. invites_request e)"

definition invite_request :: "User \<Rightarrow> handler" where
  "invite_request user r db =
     (let inviteID = path_segment (r_Path r) ''/api/auth/invites/''
      in if r_Method r \<noteq> ''DELETE'' then (err_method, db)
         else if \<not> HasPermission (u_Role user) ''users'' ''delete'' then (err_denied, db)
         else case GetInvite inviteID db of
           Inl _ \<Rightarrow> (HttpError 404 ''invite not found'', db)
         | Inr invite \<Rightarrow>
             if i_OrgID invite \<noteq> u_OrgID user then (HttpError 404 ''invite not found'', db)
             else finish (HttpError 500 ''failed to delete invite'') (\<lambda>_. Reply 204 None NoBody) (DeleteInvite inviteID db))"

definition handleInvite :: "Auth option \<Rightarrow> auth_env \<Rightarrow> handler" where
  "handleInvite g e = protected g e (\<lambda>_. invite_request)"

definition handleAcceptInvite :: "Auth option \<Rightarrow> auth_env \<Rightarrow> handler" where
  "handleAcceptInvite g e r db =
     (case g of
        None \<Rightarrow> (err_config, db)
      | Some a \<Rightarrow>
          if r_Method r \<noteq> ''POST'' then (err_method, db)
          else case b_AcceptInvite (r_Body r) of
            None \<Rightarrow> (err_body, db)
          | Some (token, password, name) \<Rightarrow>
              finish (HttpError 400 ''invalid or expired invite'') (\<lambda>u. Reply 201 None (JUser (json_user u)))
                (AcceptInvite a e token password name db))"

section \<open>The organization\<close>

text \<open>An assignment to an entry of a nil map panics; ranging over an empty map assigns nothing.\<close>

definition merge_settings :: "(string \<times> string) list \<Rightarrow> (string \<times> string) list option \<Rightarrow> (string \<times> string) list option outcome" where
  "merge_settings update settings =
     (case settings of
        Some m \<Rightarrow> Return (Some (fold (\<lambda>(k, v). AList.update k v) update m))
      | None \<Rightarrow> if update = [] then Return None else Panic)"

definition update_org_request :: "auth_env \<Rightarrow> Organization \<Rightarrow> Organization \<Rightarrow> RbacDB \<Rightarrow> Response \<times> RbacDB" where
  "update_org_request e update org db =
     (let org1 = (if o_Name update \<noteq> [] then org\<lparr>o_Name := o_Name update\<rparr> else org)
      in case (case o_Settings update of None \<Rightarrow> Return (o_Settings org1) | Some m \<Rightarrow> merge_settings m (o_Settings org1)) of
           Return settings \<Rightarrow>
             (let org2 = org1\<lparr>o_Settings := settings\<rparr>
              in finish (HttpError 500 ''failed to update organization'') (\<lambda>_. Reply 200 None (JOrg (org2\<lparr>o_UpdatedAt := e_now e\<rparr>)))
                   (UpdateOrganization (e_now e) org2 db))
         | _ \<Rightarrow> (Aborted, db))"

definition org_request :: "auth_env \<Rightarrow> User \<Rightarrow> handler" where
  "org_request e user r db =
     (let missing = HttpError 404 ''organization not found''
      in if r_Method r = ''GET'' then
           (case GetOrganization (u_OrgID user) db of
              Inl _ \<Rightarrow> (missing, db)
            | Inr org \<Rightarrow> (Reply 200 None (JOrg org), db))
         else if r_Method r = ''PUT'' then
           (if \<not> HasPermission (u_Role user) ''settings'' ''update'' then (err_denied, db)
            else case GetOrganization (u_OrgID user) db of
              Inl _ \<Rightarrow> (missing, db)
            | Inr org \<Rightarrow>
                (case b_Organization (r_Body r) of
                   None \<Rightarrow> (err_body, db)
                 | Some update \<Rightarrow> update_org_request e update org db))
         else (err_method, db))"

definition handleOrg :: "Auth option \<Rightarrow> auth_env \<Rightarrow> handler" where
  "handleOrg g e = protected g e (\<lambda>_. org_request e)"

section \<open>Routes\<close>

text \<open>The patterns of \<open>RegisterRBACRoutes\<close>: a pattern that ends in a slash matches every path below it, and the
  longest pattern that matches wins. \<open>None\<close> is a path that none of them matches.\<close>

definition rbac_route :: "string \<Rightarrow> (Auth option \<Rightarrow> auth_env \<Rightarrow> handler) option" where
  "rbac_route path =
     (if path = ''/api/auth/login'' then Some handleLogin
      else if path = ''/api/auth/logout'' then Some handleLogout
      else if path = ''/api/auth/me'' then Some handleMe
      else if path = ''/api/auth/invite/accept'' then Some handleAcceptInvite
      else if path = ''/api/auth/invites'' then Some handleInvites
      else if has_prefix path ''/api/auth/invites/'' then Some handleInvite
      else if path = ''/api/users'' then Some handleUsers
      else if has_prefix path ''/api/users/'' then Some handleUser
      else if path = ''/api/teams'' then Some handleTeams
      else if has_prefix path ''/api/teams/'' then Some handleTeam
      else if path = ''/api/apikeys'' then Some handleAPIKeys
      else if has_prefix path ''/api/apikeys/'' then Some handleAPIKey
      else if path = ''/api/org'' then Some handleOrg
      else if path = ''/api/sessions'' then Some handleSessions
      else if path = ''/api/auth/password'' then Some handlePasswordChange
      else None)"

text \<open>A request to one of these routes as the server handles it: the gate, then the handler, with no other request
  in between. The handlers of other paths (\<open>other\<close>) are outside this group; single sign-on, one of them, creates users
  of its own.\<close>

definition serve :: "Auth \<Rightarrow> (Request \<Rightarrow> Response) \<Rightarrow> auth_env \<Rightarrow> handler" where
  "serve a other e =
     AuthMiddleware True e (\<lambda>r db. case rbac_route (r_Path r) of None \<Rightarrow> (other r, db) | Some h \<Rightarrow> h (Some a) e r db)"

end
