(* ===== verification/Rbac_Tenants.thy ===== *)
theory Rbac_Tenants
  imports Rbac_Handlers
begin

text \<open>
  The contract every protected handler keeps: the tables stay well-formed, the rows of other organizations stay
  as they are, and no user or invitation gets a role that the caller's role does not outrank. Each statement of
  \<open>Rbac_Store\<close> keeps it where the handlers use it; the handlers do, one interpretation each.
\<close>

section \<open>The contract\<close>

text \<open>Ids are unique in each table, and a session or key is of the organization of its user.\<close>

definition user_orgs :: "RbacDB \<Rightarrow> (string \<times> string) set" where
  "user_orgs db = (\<lambda>u. (u_ID u, u_OrgID u)) ` set (rb_users db)"

definition user_roles :: "RbacDB \<Rightarrow> (string \<times> Role) set" where
  "user_roles db = (\<lambda>u. (u_ID u, u_Role u)) ` set (rb_users db)"

definition session_owner :: "string \<times> Session \<Rightarrow> string \<times> string" where
  "session_owner r = (s_UserID (snd r), s_OrgID (snd r))"

definition key_owner :: "string \<times> APIKey \<Rightarrow> string \<times> string" where
  "key_owner r = (k_UserID (snd r), k_OrgID (snd r))"

definition rbac_wf :: "RbacDB \<Rightarrow> bool" where
  "rbac_wf db \<longleftrightarrow>
     distinct (map o_ID (rb_orgs db)) \<and> distinct (map u_ID (rb_users db)) \<and> distinct (map t_ID (rb_teams db)) \<and>
     distinct (map (s_ID \<circ> snd) (rb_sessions db)) \<and> distinct (map (k_ID \<circ> snd) (rb_keys db)) \<and>
     distinct (map (i_ID \<circ> snd) (rb_invites db)) \<and>
     session_owner ` set (rb_sessions db) \<subseteq> user_orgs db \<and> key_owner ` set (rb_keys db) \<subseteq> user_orgs db"

text \<open>The rows of one organization.\<close>

definition org_view :: "string \<Rightarrow> RbacDB \<Rightarrow> Organization list \<times> User list \<times> Team list \<times> (string \<times> Session) list \<times>
    (string \<times> APIKey) list \<times> (string \<times> Invite) list" where
  "org_view x db =
     (filter (\<lambda>r. o_ID r = x) (rb_orgs db), filter (\<lambda>r. u_OrgID r = x) (rb_users db), filter (\<lambda>r. t_OrgID r = x) (rb_teams db),
      filter (\<lambda>r. s_OrgID (snd r) = x) (rb_sessions db), filter (\<lambda>r. k_OrgID (snd r) = x) (rb_keys db),
      filter (\<lambda>r. i_OrgID (snd r) = x) (rb_invites db))"

definition same_outside :: "string \<Rightarrow> RbacDB \<Rightarrow> RbacDB \<Rightarrow> bool" where
  "same_outside x db db' \<longleftrightarrow> (\<forall>y. y \<noteq> x \<longrightarrow> org_view y db' = org_view y db)"

text \<open>A user's role or an invitation that was not there before is below rank \<open>n\<close>.\<close>

definition grants_below :: "nat \<Rightarrow> RbacDB \<Rightarrow> RbacDB \<Rightarrow> bool" where
  "grants_below n db db' \<longleftrightarrow>
     user_roles db' \<subseteq> user_roles db \<union> {p. role_rank (snd p) < n} \<and>
     snd ` set (rb_invites db') \<subseteq> snd ` set (rb_invites db) \<union> {i. role_rank (i_Role i) < n}"

definition tenant_step :: "string \<Rightarrow> nat \<Rightarrow> RbacDB \<Rightarrow> RbacDB \<Rightarrow> bool" where
  "tenant_step x n db db' \<longleftrightarrow> rbac_wf db' \<and> same_outside x db db' \<and> grants_below n db db'"

lemma tenant_step_refl: "rbac_wf db \<Longrightarrow> tenant_step x n db db"
  by (simp add: tenant_step_def same_outside_def grants_below_def)

lemma grants_below_trans: "grants_below n db1 db2 \<Longrightarrow> grants_below n db2 db3 \<Longrightarrow> grants_below n db1 db3"
  unfolding grants_below_def by blast

lemma tenant_step_trans:
  "tenant_step x n db1 db2 \<Longrightarrow> tenant_step x n db2 db3 \<Longrightarrow> tenant_step x n db1 db3"
  unfolding tenant_step_def same_outside_def by (metis grants_below_trans)

lemma tenant_step_exec:
  assumes "rbac_wf db" "rb_ok db \<Longrightarrow> allowed \<Longrightarrow> tenant_step x n db db1"
  shows "tenant_step x n db (snd (exec db allowed db1))"
  using assms by (simp add: exec_def tenant_step_refl)

lemma filter_map_other:
  "(\<And>r. r \<in> set rs \<Longrightarrow> Q r \<Longrightarrow> \<not> P r \<and> \<not> P (f r)) \<Longrightarrow> filter P (map (\<lambda>r. if Q r then f r else r) rs) = filter P rs"
  by (induction rs) auto

lemma filter_filter_other:
  "(\<And>r. r \<in> set rs \<Longrightarrow> \<not> Q r \<Longrightarrow> \<not> P r) \<Longrightarrow> filter P (filter Q rs) = filter P rs"
  by (induction rs) auto

lemma map_if_same: "(\<And>r. f (g r) = f r) \<Longrightarrow> map f (map (\<lambda>r. if Q r then g r else r) rs) = map f rs"
  by (induction rs) auto

lemma distinct_key: "distinct (map f rs) \<Longrightarrow> r \<in> set rs \<Longrightarrow> r' \<in> set rs \<Longrightarrow> f r = f r' \<Longrightarrow> r = r'"
  by (metis distinct_map inj_on_def)

section \<open>The statements\<close>

lemma wf_user_unique:
  "rbac_wf db \<Longrightarrow> v \<in> set (rb_users db) \<Longrightarrow> w \<in> set (rb_users db) \<Longrightarrow> u_ID v = u_ID w \<Longrightarrow> v = w"
  unfolding rbac_wf_def by (metis distinct_key)

lemma user_orgs_id:
  assumes "rbac_wf db" "(i, x) \<in> user_orgs db" "(i, y) \<in> user_orgs db"
  shows "x = y"
proof -
  obtain v where "v \<in> set (rb_users db)" "i = u_ID v" "x = u_OrgID v" using assms(2) unfolding user_orgs_def by blast
  moreover obtain w where "w \<in> set (rb_users db)" "i = u_ID w" "y = u_OrgID w" using assms(3) unfolding user_orgs_def by blast
  ultimately show ?thesis using wf_user_unique [OF assms(1)] by metis
qed

text \<open>Rewriting a user in place.\<close>

lemma tenant_step_users:
  assumes wf: "rbac_wf db" and w: "w \<in> set (rb_users db)" and
    f: "\<And>v. u_ID (f v) = u_ID v" "\<And>v. u_OrgID (f v) = u_OrgID v" and
    role: "u_Role (f w) = u_Role w \<or> role_rank (u_Role (f w)) < n"
  shows "tenant_step (u_OrgID w) n db (db\<lparr>rb_users := map (\<lambda>v. if u_ID v = u_ID w then f v else v) (rb_users db)\<rparr>)"
proof -
  define us where "us = map (\<lambda>v. if u_ID v = u_ID w then f v else v) (rb_users db)"
  have only: "v = w" if "v \<in> set (rb_users db)" "u_ID v = u_ID w" for v
    using wf_user_unique [OF wf that(1) w that(2)] .
  have ids: "map u_ID us = map u_ID (rb_users db)" unfolding us_def using f by (intro map_if_same) simp
  have "map (\<lambda>u. (u_ID u, u_OrgID u)) us = map (\<lambda>u. (u_ID u, u_OrgID u)) (rb_users db)"
    unfolding us_def using f by (intro map_if_same) simp
  then have "set (map (\<lambda>u. (u_ID u, u_OrgID u)) us) = set (map (\<lambda>u. (u_ID u, u_OrgID u)) (rb_users db))" by simp
  then have orgs: "user_orgs (db\<lparr>rb_users := us\<rparr>) = user_orgs db" by (simp add: user_orgs_def)
  have "rbac_wf (db\<lparr>rb_users := us\<rparr>)" using wf orgs by (simp add: rbac_wf_def ids)
  moreover have "filter (\<lambda>r. u_OrgID r = y) us = filter (\<lambda>r. u_OrgID r = y) (rb_users db)" if "y \<noteq> u_OrgID w" for y
    unfolding us_def using only f that by (intro filter_map_other) metis
  then have "same_outside (u_OrgID w) db (db\<lparr>rb_users := us\<rparr>)"
    by (simp add: same_outside_def org_view_def)
  moreover have "(u_ID v, u_Role v) \<in> user_roles db \<or> role_rank (u_Role v) < n" if v: "v \<in> set us" for v
  proof -
    obtain v' where v': "v = (if u_ID v' = u_ID w then f v' else v')" "v' \<in> set (rb_users db)"
      using v unfolding us_def set_map by (rule imageE)
    show ?thesis
    proof (cases "u_ID v' = u_ID w")
      case True
      then have "v = f w" using v' only [OF v'(2)] by simp
      moreover have "(u_ID w, u_Role w) \<in> user_roles db" using w by (simp add: user_roles_def)
      ultimately show ?thesis using role f(1) [of w] by metis
    next
      case False
      then show ?thesis using v' unfolding user_roles_def by simp
    qed
  qed
  then have "grants_below n db (db\<lparr>rb_users := us\<rparr>)" by (simp add: grants_below_def user_roles_def image_subset_iff)
  ultimately show ?thesis by (simp add: tenant_step_def us_def)
qed

lemma tenant_step_UpdateUser:
  assumes "rbac_wf db" "w \<in> set (rb_users db)" "u_ID t = u_ID w" "u_Role t = u_Role w \<or> role_rank (u_Role t) < n"
  shows "tenant_step (u_OrgID w) n db (snd (UpdateUser now t db))"
proof -
  have "tenant_step (u_OrgID w) n db
      (db\<lparr>rb_users := map (\<lambda>v. if u_ID v = u_ID w then update_user_row now t v else v) (rb_users db)\<rparr>)"
    using assms by (intro tenant_step_users) (simp_all add: update_user_row_def)
  then show ?thesis unfolding UpdateUser_def assms(3) by (intro tenant_step_exec [OF assms(1)])
qed

lemma tenant_step_UpdateUserPassword:
  assumes "rbac_wf db" "w \<in> set (rb_users db)"
  shows "tenant_step (u_OrgID w) n db (snd (UpdateUserPassword now (u_ID w) hash db))"
  unfolding UpdateUserPassword_def using assms
  by (intro tenant_step_exec tenant_step_users) simp_all

lemma tenant_step_CreateUserRow:
  assumes wf: "rbac_wf db" and role: "role_rank (u_Role u) < n"
  shows "tenant_step (u_OrgID u) n db (snd (CreateUserRow now u db))"
  unfolding CreateUserRow_def
proof (rule tenant_step_exec [OF wf], elim conjE)
  assume new: "u_ID u \<notin> u_ID ` set (rb_users db)"
  define u' where "u' = u\<lparr>u_LastLoginAt := None, u_CreatedAt := whole_second now, u_UpdatedAt := whole_second now\<rparr>"
  have u': "u_ID u' = u_ID u" "u_OrgID u' = u_OrgID u" "u_Role u' = u_Role u" by (simp_all add: u'_def)
  have "user_orgs (db\<lparr>rb_users := rb_users db @ [u']\<rparr>) = insert (u_ID u, u_OrgID u) (user_orgs db)"
    by (simp add: user_orgs_def u')
  then have "rbac_wf (db\<lparr>rb_users := rb_users db @ [u']\<rparr>)" using wf new unfolding rbac_wf_def by (simp add: u' subset_insertI2)
  then show "tenant_step (u_OrgID u) n db (db\<lparr>rb_users := rb_users db @ [u']\<rparr>)"
    using role u' by (auto simp: tenant_step_def same_outside_def org_view_def grants_below_def user_roles_def)
qed

text \<open>Rows of the other tables: appended, rewritten or removed in the caller's organization.\<close>

lemma tenant_step_sessions:
  assumes "rbac_wf db" "distinct (map (s_ID \<circ> snd) rs)" "session_owner ` set rs \<subseteq> user_orgs db"
    "\<And>y. y \<noteq> x \<Longrightarrow> filter (\<lambda>r. s_OrgID (snd r) = y) rs = filter (\<lambda>r. s_OrgID (snd r) = y) (rb_sessions db)"
  shows "tenant_step x n db (db\<lparr>rb_sessions := rs\<rparr>)"
  using assms by (simp add: tenant_step_def rbac_wf_def same_outside_def org_view_def grants_below_def user_orgs_def user_roles_def)

lemma tenant_step_keys:
  assumes "rbac_wf db" "distinct (map (k_ID \<circ> snd) rs)" "key_owner ` set rs \<subseteq> user_orgs db"
    "\<And>y. y \<noteq> x \<Longrightarrow> filter (\<lambda>r. k_OrgID (snd r) = y) rs = filter (\<lambda>r. k_OrgID (snd r) = y) (rb_keys db)"
  shows "tenant_step x n db (db\<lparr>rb_keys := rs\<rparr>)"
  using assms by (simp add: tenant_step_def rbac_wf_def same_outside_def org_view_def grants_below_def user_orgs_def user_roles_def)

lemma tenant_step_teams:
  assumes "rbac_wf db" "distinct (map t_ID rs)"
    "\<And>y. y \<noteq> x \<Longrightarrow> filter (\<lambda>r. t_OrgID r = y) rs = filter (\<lambda>r. t_OrgID r = y) (rb_teams db)"
  shows "tenant_step x n db (db\<lparr>rb_teams := rs\<rparr>)"
  using assms by (simp add: tenant_step_def rbac_wf_def same_outside_def org_view_def grants_below_def user_orgs_def user_roles_def)

lemma tenant_step_orgs:
  assumes "rbac_wf db" "distinct (map o_ID rs)"
    "\<And>y. y \<noteq> x \<Longrightarrow> filter (\<lambda>r. o_ID r = y) rs = filter (\<lambda>r. o_ID r = y) (rb_orgs db)"
  shows "tenant_step x n db (db\<lparr>rb_orgs := rs\<rparr>)"
  using assms by (simp add: tenant_step_def rbac_wf_def same_outside_def org_view_def grants_below_def user_orgs_def user_roles_def)

lemma tenant_step_invites:
  assumes "rbac_wf db" "distinct (map (i_ID \<circ> snd) rs)"
    "\<And>y. y \<noteq> x \<Longrightarrow> filter (\<lambda>r. i_OrgID (snd r) = y) rs = filter (\<lambda>r. i_OrgID (snd r) = y) (rb_invites db)"
    "snd ` set rs \<subseteq> snd ` set (rb_invites db) \<union> {i. role_rank (i_Role i) < n}"
  shows "tenant_step x n db (db\<lparr>rb_invites := rs\<rparr>)"
  using assms by (simp add: tenant_step_def rbac_wf_def same_outside_def org_view_def grants_below_def user_orgs_def user_roles_def)

lemma wf_session_org:
  assumes "rbac_wf db" "(i, x) \<in> user_orgs db" "r \<in> set (rb_sessions db)" "s_UserID (snd r) = i"
  shows "s_OrgID (snd r) = x"
proof -
  have "session_owner r \<in> user_orgs db" using assms(1, 3) by (simp add: rbac_wf_def image_subset_iff)
  then show ?thesis using user_orgs_id [OF assms(1, 2)] assms(4) by (simp add: session_owner_def)
qed

lemma wf_key_org:
  assumes "rbac_wf db" "(i, x) \<in> user_orgs db" "r \<in> set (rb_keys db)" "k_UserID (snd r) = i"
  shows "k_OrgID (snd r) = x"
proof -
  have "key_owner r \<in> user_orgs db" using assms(1, 3) by (simp add: rbac_wf_def image_subset_iff)
  then show ?thesis using user_orgs_id [OF assms(1, 2)] assms(4) by (simp add: key_owner_def)
qed

lemma tenant_step_drop_sessions:
  assumes "rbac_wf db" "\<And>r. r \<in> set (rb_sessions db) \<Longrightarrow> \<not> P r \<Longrightarrow> s_OrgID (snd r) = x"
  shows "tenant_step x n db (db\<lparr>rb_sessions := filter P (rb_sessions db)\<rparr>)"
proof (rule tenant_step_sessions [OF assms(1)])
  show "distinct (map (s_ID \<circ> snd) (filter P (rb_sessions db)))" using assms(1) by (simp add: rbac_wf_def distinct_map_filter)
  show "session_owner ` set (filter P (rb_sessions db)) \<subseteq> user_orgs db" using assms(1) by (auto simp: rbac_wf_def)
  show "filter (\<lambda>r. s_OrgID (snd r) = y) (filter P (rb_sessions db)) = filter (\<lambda>r. s_OrgID (snd r) = y) (rb_sessions db)" if "y \<noteq> x" for y
    using assms(2) that by (intro filter_filter_other) metis
qed

lemma tenant_step_drop_keys:
  assumes "rbac_wf db" "\<And>r. r \<in> set (rb_keys db) \<Longrightarrow> \<not> P r \<Longrightarrow> k_OrgID (snd r) = x"
  shows "tenant_step x n db (db\<lparr>rb_keys := filter P (rb_keys db)\<rparr>)"
proof (rule tenant_step_keys [OF assms(1)])
  show "distinct (map (k_ID \<circ> snd) (filter P (rb_keys db)))" using assms(1) by (simp add: rbac_wf_def distinct_map_filter)
  show "key_owner ` set (filter P (rb_keys db)) \<subseteq> user_orgs db" using assms(1) by (auto simp: rbac_wf_def)
  show "filter (\<lambda>r. k_OrgID (snd r) = y) (filter P (rb_keys db)) = filter (\<lambda>r. k_OrgID (snd r) = y) (rb_keys db)" if "y \<noteq> x" for y
    using assms(2) that by (intro filter_filter_other) metis
qed

lemma tenant_step_DeleteUserSessions:
  assumes "rbac_wf db" "(i, x) \<in> user_orgs db"
  shows "tenant_step x n db (snd (DeleteUserSessions i db))"
  unfolding DeleteUserSessions_def delete_sessions_of_def
  by (intro tenant_step_exec [OF assms(1)] tenant_step_drop_sessions [OF assms(1)])
     (use wf_session_org [OF assms] in \<open>auto simp: case_prod_unfold\<close>)

lemma tenant_step_DeleteSession:
  assumes "rbac_wf db" "\<And>r. r \<in> set (rb_sessions db) \<Longrightarrow> s_ID (snd r) = i \<Longrightarrow> s_OrgID (snd r) = x"
  shows "tenant_step x n db (snd (DeleteSession i db))"
  unfolding DeleteSession_def
  by (intro tenant_step_exec [OF assms(1)] tenant_step_drop_sessions [OF assms(1)])
     (use assms(2) in \<open>auto simp: case_prod_unfold\<close>)

lemma tenant_step_DeleteAPIKey:
  assumes "rbac_wf db" "\<And>r. r \<in> set (rb_keys db) \<Longrightarrow> k_ID (snd r) = i \<Longrightarrow> k_OrgID (snd r) = x"
  shows "tenant_step x n db (snd (DeleteAPIKey i db))"
  unfolding DeleteAPIKey_def
  by (intro tenant_step_exec [OF assms(1)] tenant_step_drop_keys [OF assms(1)])
     (use assms(2) in \<open>auto simp: case_prod_unfold\<close>)

lemma tenant_step_UpdateAPIKeyLastUsed:
  assumes "rbac_wf db" "\<And>r. r \<in> set (rb_keys db) \<Longrightarrow> k_ID (snd r) = i \<Longrightarrow> k_OrgID (snd r) = x"
  shows "tenant_step x n db (snd (UpdateAPIKeyLastUsed now i db))"
proof -
  define f where "f = (\<lambda>r :: string \<times> APIKey. (fst r, snd r\<lparr>k_LastUsedAt := Some (whole_second now)\<rparr>))"
  let ?rs = "map (\<lambda>r. if k_ID (snd r) = i then f r else r) (rb_keys db)"
  have eq: "map (\<lambda>(h, k). (h, if k_ID k = i then k\<lparr>k_LastUsedAt := Some (whole_second now)\<rparr> else k)) (rb_keys db) = ?rs"
    by (simp add: f_def case_prod_unfold)
  have "tenant_step x n db (db\<lparr>rb_keys := ?rs\<rparr>)"
  proof (rule tenant_step_keys [OF assms(1)])
    have "map (k_ID \<circ> snd) ?rs = map (k_ID \<circ> snd) (rb_keys db)" by (intro map_if_same) (simp add: f_def)
    then show "distinct (map (k_ID \<circ> snd) ?rs)" using assms(1) by (simp only: rbac_wf_def)
    have "map key_owner ?rs = map key_owner (rb_keys db)" by (intro map_if_same) (simp add: f_def key_owner_def)
    then have "key_owner ` set ?rs = key_owner ` set (rb_keys db)" by (metis set_map)
    then show "key_owner ` set ?rs \<subseteq> user_orgs db" using assms(1) by (simp only: rbac_wf_def)
    show "filter (\<lambda>r. k_OrgID (snd r) = y) ?rs = filter (\<lambda>r. k_OrgID (snd r) = y) (rb_keys db)" if "y \<noteq> x" for y
      using assms(2) that by (intro filter_map_other) (auto simp: f_def)
  qed
  then show ?thesis unfolding UpdateAPIKeyLastUsed_def eq by (intro tenant_step_exec [OF assms(1)])
qed

lemma tenant_step_CreateSession:
  assumes "rbac_wf db" "(s_UserID s, s_OrgID s) \<in> user_orgs db"
  shows "tenant_step (s_OrgID s) n db (snd (CreateSession now s h db))"
  unfolding CreateSession_def
proof (rule tenant_step_exec [OF assms(1)], elim conjE)
  assume "s_ID s \<notin> (s_ID \<circ> snd) ` set (rb_sessions db)"
  then show "tenant_step (s_OrgID s) n db (db\<lparr>rb_sessions := rb_sessions db @
      [(h, s\<lparr>s_Token := [], s_ExpiresAt := whole_second (s_ExpiresAt s), s_CreatedAt := whole_second now\<rparr>)]\<rparr>)"
    using assms by (intro tenant_step_sessions) (simp_all add: rbac_wf_def session_owner_def)
qed

lemma tenant_step_CreateAPIKeyRow:
  assumes "rbac_wf db" "(k_UserID k, k_OrgID k) \<in> user_orgs db"
  shows "tenant_step (k_OrgID k) n db (snd (CreateAPIKeyRow now k h db))"
  unfolding CreateAPIKeyRow_def
proof (rule tenant_step_exec [OF assms(1)], elim conjE)
  assume "k_ID k \<notin> (k_ID \<circ> snd) ` set (rb_keys db)"
  then show "tenant_step (k_OrgID k) n db (db\<lparr>rb_keys := rb_keys db @
      [(h, k\<lparr>k_LastUsedAt := None, k_ExpiresAt := map_option whole_second (k_ExpiresAt k), k_CreatedAt := whole_second now\<rparr>)]\<rparr>)"
    using assms by (intro tenant_step_keys) (simp_all add: rbac_wf_def key_owner_def)
qed

lemma tenant_step_CreateTeam:
  assumes "rbac_wf db"
  shows "tenant_step (t_OrgID t) n db (snd (CreateTeam now t db))"
  unfolding CreateTeam_def
proof (rule tenant_step_exec [OF assms], elim conjE)
  assume "t_ID t \<notin> t_ID ` set (rb_teams db)"
  then show "tenant_step (t_OrgID t) n db (db\<lparr>rb_teams := rb_teams db @ [t\<lparr>t_CreatedAt := whole_second now, t_UpdatedAt := whole_second now\<rparr>]\<rparr>)"
    using assms by (intro tenant_step_teams) (simp_all add: rbac_wf_def)
qed

lemma tenant_step_UpdateTeam:
  assumes "rbac_wf db" "\<And>t. t \<in> set (rb_teams db) \<Longrightarrow> t_ID t = t_ID team \<Longrightarrow> t_OrgID t = x"
  shows "tenant_step x n db (snd (UpdateTeam now team db))"
  unfolding UpdateTeam_def
proof (intro tenant_step_exec [OF assms(1)] tenant_step_teams [OF assms(1)])
  let ?f = "\<lambda>t. t\<lparr>t_Name := t_Name team, t_Description := t_Description team, t_MemberIDs := t_MemberIDs team, t_UpdatedAt := whole_second now\<rparr>"
  let ?rs = "map (\<lambda>t. if t_ID t = t_ID team then ?f t else t) (rb_teams db)"
  have "map t_ID ?rs = map t_ID (rb_teams db)" by (intro map_if_same) simp
  then show "distinct (map t_ID ?rs)" using assms(1) by (simp only: rbac_wf_def)
  show "filter (\<lambda>r. t_OrgID r = y) ?rs = filter (\<lambda>r. t_OrgID r = y) (rb_teams db)" if "y \<noteq> x" for y
    using assms(2) that by (intro filter_map_other) simp
qed

lemma tenant_step_DeleteTeam:
  assumes "rbac_wf db" "\<And>t. t \<in> set (rb_teams db) \<Longrightarrow> t_ID t = i \<Longrightarrow> t_OrgID t = x"
  shows "tenant_step x n db (snd (DeleteTeam i db))"
  unfolding DeleteTeam_def
proof (intro tenant_step_exec [OF assms(1)] tenant_step_teams [OF assms(1)])
  show "distinct (map t_ID (filter (\<lambda>t. t_ID t \<noteq> i) (rb_teams db)))" using assms(1) by (simp add: rbac_wf_def distinct_map_filter)
  show "filter (\<lambda>r. t_OrgID r = y) (filter (\<lambda>t. t_ID t \<noteq> i) (rb_teams db)) = filter (\<lambda>r. t_OrgID r = y) (rb_teams db)" if "y \<noteq> x" for y
    using assms(2) that by (intro filter_filter_other) simp
qed

lemma tenant_step_CreateInviteRow:
  assumes "rbac_wf db" "role_rank (i_Role v) < n"
  shows "tenant_step (i_OrgID v) n db (snd (CreateInviteRow now v h db))"
  unfolding CreateInviteRow_def
proof (rule tenant_step_exec [OF assms(1)], elim conjE)
  assume "i_ID v \<notin> (i_ID \<circ> snd) ` set (rb_invites db)"
  then show "tenant_step (i_OrgID v) n db (db\<lparr>rb_invites := rb_invites db @
      [(h, v\<lparr>i_ExpiresAt := whole_second (i_ExpiresAt v), i_CreatedAt := whole_second now\<rparr>)]\<rparr>)"
    using assms by (intro tenant_step_invites) (simp_all add: rbac_wf_def)
qed

lemma tenant_step_DeleteInvite:
  assumes "rbac_wf db" "\<And>r. r \<in> set (rb_invites db) \<Longrightarrow> i_ID (snd r) = i \<Longrightarrow> i_OrgID (snd r) = x"
  shows "tenant_step x n db (snd (DeleteInvite i db))"
  unfolding DeleteInvite_def case_prod_unfold
proof (intro tenant_step_exec [OF assms(1)] tenant_step_invites [OF assms(1)])
  let ?rs = "filter (\<lambda>r. i_ID (snd r) \<noteq> i) (rb_invites db)"
  show "distinct (map (i_ID \<circ> snd) ?rs)" using assms(1) by (simp add: rbac_wf_def distinct_map_filter)
  show "filter (\<lambda>r. i_OrgID (snd r) = y) ?rs = filter (\<lambda>r. i_OrgID (snd r) = y) (rb_invites db)" if "y \<noteq> x" for y
    using assms(2) that by (intro filter_filter_other) simp
  show "snd ` set ?rs \<subseteq> snd ` set (rb_invites db) \<union> {v. role_rank (i_Role v) < n}" by (simp add: image_mono le_supI1)
qed

lemma tenant_step_UpdateOrganization:
  assumes "rbac_wf db"
  shows "tenant_step (o_ID org) n db (snd (UpdateOrganization now org db))"
  unfolding UpdateOrganization_def
proof (intro tenant_step_exec [OF assms] tenant_step_orgs [OF assms])
  let ?f = "\<lambda>v. v\<lparr>o_Name := o_Name org, o_Slug := o_Slug org, o_Plan := o_Plan org, o_Settings := o_Settings org, o_UpdatedAt := whole_second now\<rparr>"
  let ?rs = "map (\<lambda>v. if o_ID v = o_ID org then ?f v else v) (rb_orgs db)"
  have "map o_ID ?rs = map o_ID (rb_orgs db)" by (intro map_if_same) simp
  then show "distinct (map o_ID ?rs)" using assms by (simp only: rbac_wf_def)
  show "filter (\<lambda>r. o_ID r = y) ?rs = filter (\<lambda>r. o_ID r = y) (rb_orgs db)" if "y \<noteq> o_ID org" for y
    using that by (intro filter_map_other) simp
qed

text \<open>\<open>DeleteUser\<close>: once no session and no key names the user, its row may go.\<close>

lemma tenant_step_drop_user:
  assumes wf: "rbac_wf db" and w: "(i, x) \<in> user_orgs db" and
    gone: "i \<notin> (s_UserID \<circ> snd) ` set (rb_sessions db)" "i \<notin> (k_UserID \<circ> snd) ` set (rb_keys db)"
  shows "tenant_step x n db (db\<lparr>rb_users := filter (\<lambda>u. u_ID u \<noteq> i) (rb_users db)\<rparr>)"
proof -
  define us where "us = filter (\<lambda>u. u_ID u \<noteq> i) (rb_users db)"
  have orgs: "user_orgs (db\<lparr>rb_users := us\<rparr>) = {p \<in> user_orgs db. fst p \<noteq> i}"
    by (simp add: user_orgs_def us_def Compr_image_eq)
  have "session_owner ` set (rb_sessions db) \<subseteq> {p. fst p \<noteq> i}" "key_owner ` set (rb_keys db) \<subseteq> {p. fst p \<noteq> i}"
    using gone by (simp_all add: session_owner_def key_owner_def image_subset_iff image_iff) (metis snd_conv)+
  then have "rbac_wf (db\<lparr>rb_users := us\<rparr>)"
    using wf unfolding rbac_wf_def orgs by (simp add: us_def distinct_map_filter) blast
  moreover have "u_OrgID u = x" if "u \<in> set (rb_users db)" "u_ID u = i" for u
    using user_orgs_id [OF wf w] that by (simp add: user_orgs_def) blast
  then have "filter (\<lambda>r. u_OrgID r = y) us = filter (\<lambda>r. u_OrgID r = y) (rb_users db)" if "y \<noteq> x" for y
    unfolding us_def using that by (intro filter_filter_other) blast
  then have "same_outside x db (db\<lparr>rb_users := us\<rparr>)" by (simp add: same_outside_def org_view_def)
  moreover have "grants_below n db (db\<lparr>rb_users := us\<rparr>)" by (auto simp: grants_below_def user_roles_def us_def)
  ultimately show ?thesis by (simp add: tenant_step_def us_def)
qed

lemma tenant_step_DeleteUser:
  assumes wf: "rbac_wf db" and w: "(i, x) \<in> user_orgs db"
  shows "tenant_step x n db (snd (DeleteUser i db))"
proof -
  define db1 where "db1 = snd (exec db True (delete_sessions_of i db))"
  define db2 where "db2 = snd (exec db1 True (delete_keys_of i db1))"
  have d1: "tenant_step x n db db1"
    using tenant_step_DeleteUserSessions [OF assms] by (simp add: db1_def DeleteUserSessions_def)
  have w1: "(i, x) \<in> user_orgs db1" using w by (simp add: db1_def exec_def delete_sessions_of_def user_orgs_def)
  have wf1: "rbac_wf db1" using d1 by (simp add: tenant_step_def)
  have "tenant_step x n db1 db2"
    unfolding db2_def delete_keys_of_def
    by (intro tenant_step_exec [OF wf1] tenant_step_drop_keys [OF wf1])
       (use wf_key_org [OF wf1 w1] in \<open>auto simp: case_prod_unfold\<close>)
  then have d2: "tenant_step x n db db2" by (rule tenant_step_trans [OF d1])
  have w2: "(i, x) \<in> user_orgs db2" using w1 by (simp add: db2_def exec_def delete_keys_of_def user_orgs_def)
  have "i \<notin> (s_UserID \<circ> snd) ` set (rb_sessions db2)" "i \<notin> (k_UserID \<circ> snd) ` set (rb_keys db2)" if "rb_ok db2"
  proof -
    have "rb_ok db" using that by (simp add: db2_def db1_def exec_def split: if_splits)
    then have "db1 = delete_sessions_of i db" "db2 = delete_keys_of i db1"
      by (simp_all add: db2_def db1_def exec_def delete_sessions_of_def)
    then show "i \<notin> (s_UserID \<circ> snd) ` set (rb_sessions db2)" "i \<notin> (k_UserID \<circ> snd) ` set (rb_keys db2)"
      by (simp_all add: delete_keys_of_def delete_sessions_of_def case_prod_unfold image_iff) blast+
  qed
  then have "tenant_step x n db2 (snd (DeleteUser i db))"
    unfolding DeleteUser_def Let_def db1_def [symmetric] db2_def [symmetric]
    using d2 w2 by (intro tenant_step_exec tenant_step_drop_user) (simp_all add: tenant_step_def)
  with d2 show ?thesis by (rule tenant_step_trans)
qed

end
