(* ===== verification/Rbac_Security.thy ===== *)
theory Rbac_Security
  imports Rbac_Tenants
begin

text \<open>
  What authentication and the handlers guarantee together: one interpretation of the handler contract per
  protected route, the gate in front of them, and the theorems about whole requests.
\<close>

section \<open>Results of queries\<close>

lemma find_member: "find P xs = Some y \<Longrightarrow> y \<in> set xs \<and> P y"
  by (induction xs) (auto split: if_splits)

lemma query_row_Inr: "query_row db row = Inr y \<Longrightarrow> row = Some y"
  by (cases row) (simp_all add: query_row_def split: if_splits)

lemma GetUser_Inr: "GetUser i db = Inr u \<Longrightarrow> u \<in> set (rb_users db) \<and> u_ID u = i"
  unfolding GetUser_def by (drule query_row_Inr, drule find_member)

lemma GetUser_orgs: "GetUser i db = Inr u \<Longrightarrow> (u_ID u, u_OrgID u) \<in> user_orgs db"
  using GetUser_Inr unfolding user_orgs_def by fast

lemma target_user_Some:
  "target_user user i db = Some t \<Longrightarrow> t \<in> set (rb_users db) \<and> u_ID t = i \<and> u_OrgID t = u_OrgID user"
  unfolding target_user_def using GetUser_Inr [of i db] by (simp split: sum.splits if_splits)

lemma target_user_orgs: "target_user user i db = Some t \<Longrightarrow> (i, u_OrgID user) \<in> user_orgs db"
  using target_user_Some [of user i db t] unfolding user_orgs_def by force

lemma target_team_Some:
  assumes "rbac_wf db" "target_team user i db = Some t"
  shows "t_ID t = i" and "\<And>v. v \<in> set (rb_teams db) \<Longrightarrow> t_ID v = i \<Longrightarrow> t_OrgID v = u_OrgID user"
proof -
  have t: "t \<in> set (rb_teams db) \<and> t_ID t = i \<and> t_OrgID t = u_OrgID user"
    using assms(2) find_member [of "\<lambda>t. t_ID t = i" "rb_teams db" t] query_row_Inr [of db "find (\<lambda>t. t_ID t = i) (rb_teams db)" t]
    by (simp add: target_team_def GetTeam_def split: sum.splits if_splits)
  then show "t_ID t = i" by simp
  have "distinct (map t_ID (rb_teams db))" using assms(1) by (simp add: rbac_wf_def)
  then show "t_OrgID v = u_OrgID user" if "v \<in> set (rb_teams db)" "t_ID v = i" for v
    using distinct_key [of t_ID "rb_teams db" v t] t that by simp
qed

lemma wf_key_unique:
  "rbac_wf db \<Longrightarrow> r \<in> set (rb_keys db) \<Longrightarrow> r' \<in> set (rb_keys db) \<Longrightarrow> k_ID (snd r) = k_ID (snd r') \<Longrightarrow> r = r'"
  unfolding rbac_wf_def using distinct_key [of "k_ID \<circ> snd" "rb_keys db" r r'] by simp

lemma wf_session_unique:
  "rbac_wf db \<Longrightarrow> r \<in> set (rb_sessions db) \<Longrightarrow> r' \<in> set (rb_sessions db) \<Longrightarrow> s_ID (snd r) = s_ID (snd r') \<Longrightarrow> r = r'"
  unfolding rbac_wf_def using distinct_key [of "s_ID \<circ> snd" "rb_sessions db" r r'] by simp

lemma wf_invite_unique:
  "rbac_wf db \<Longrightarrow> r \<in> set (rb_invites db) \<Longrightarrow> r' \<in> set (rb_invites db) \<Longrightarrow> i_ID (snd r) = i_ID (snd r') \<Longrightarrow> r = r'"
  unfolding rbac_wf_def using distinct_key [of "i_ID \<circ> snd" "rb_invites db" r r'] by simp

lemma target_key_Some:
  assumes "rbac_wf db" "target_key user i db = Some k" "r \<in> set (rb_keys db)" "k_ID (snd r) = i"
  shows "k_OrgID (snd r) = u_OrgID user"
proof -
  obtain k' where "find (\<lambda>k. k_ID k = i) (map snd (rb_keys db)) = Some k'" "k_OrgID k' = u_OrgID user"
    using assms(2) query_row_Inr [of db "find (\<lambda>k. k_ID k = i) (map snd (rb_keys db))"]
    by (simp add: target_key_def GetAPIKey_def split: sum.splits option.splits if_splits) force+
  then obtain r' where "r' \<in> set (rb_keys db)" "k_ID (snd r') = i" "k_OrgID (snd r') = u_OrgID user"
    using find_member [of "\<lambda>k. k_ID k = i" "map snd (rb_keys db)" k'] by (metis (no_types, lifting) image_iff set_map)
  then show ?thesis using wf_key_unique [OF assms(1, 3)] assms(4) by metis
qed

lemma GetInvite_Inr:
  assumes "rbac_wf db" "GetInvite i db = Inr v" "r \<in> set (rb_invites db)" "i_ID (snd r) = i"
  shows "i_OrgID (snd r) = i_OrgID v"
proof -
  have "v \<in> set (map snd (rb_invites db)) \<and> i_ID v = i"
    using query_row_Inr [OF assms(2) [unfolded GetInvite_def]] by (rule find_member)
  then obtain r' where "r' \<in> set (rb_invites db)" "snd r' = v" "i_ID v = i" by (metis (no_types, lifting) image_iff set_map)
  then show ?thesis using wf_invite_unique [OF assms(1, 3)] assms(4) by metis
qed

section \<open>Operations of the package\<close>

lemma snd_finish [simp]: "snd (finish f g out) = snd out"
  by (simp add: finish_def split: prod.splits sum.splits)

lemma snd_after [simp]:
  "snd (case out of (Inl err, d) \<Rightarrow> (Inl err, d) | (Inr y, d) \<Rightarrow> (Inr (f y), d)) = snd out"
  by (simp split: prod.splits sum.splits)

lemma tenant_step_CreateUser:
  assumes "rbac_wf db" "role_rank (c_Role req) < n"
  shows "tenant_step x n db (snd (CreateUser a e x req db))"
proof (cases "HashPassword a e (c_Password req)")
  case (Inl err)
  then show ?thesis using assms(1) by (simp add: CreateUser_def tenant_step_refl)
next
  case (Inr hash)
  let ?u = "\<lparr>u_ID = ''user_'' @ int_str (e_now e), u_OrgID = x, u_Email = to_lower (TrimSpace (c_Email req)),
     u_PasswordHash = hash, u_Name = c_Name req, u_Role = c_Role req, u_TeamIDs = None, u_AvatarURL = [],
     u_Timezone = [], u_IsActive = True, u_LastLoginAt = None, u_CreatedAt = e_now e, u_UpdatedAt = e_now e\<rparr>"
  have "tenant_step x n db (snd (CreateUserRow (e_now e) ?u db))"
    using tenant_step_CreateUserRow [of db ?u n "e_now e"] assms by simp
  then show ?thesis using Inr by (simp add: CreateUser_def Let_def)
qed

lemma tenant_step_CreateAPIKey:
  assumes "rbac_wf db" "(i, x) \<in> user_orgs db"
  shows "tenant_step x n db (snd (CreateAPIKey e x i name ps expiresIn db))"
proof (cases "GenerateAPIKey e")
  case (Inl err)
  then show ?thesis using assms(1) by (simp add: CreateAPIKey_def tenant_step_refl)
next
  case (Inr p)
  obtain key pre where p: "p = (key, pre)" by fastforce
  let ?k = "\<lparr>k_ID = ''key_'' @ int_str (e_now e), k_OrgID = x, k_UserID = i, k_Name = name, k_KeyPrefix = pre,
     k_Permissions = ps, k_LastUsedAt = None, k_ExpiresAt = key_expiry (e_now e) expiresIn, k_IsActive = True, k_CreatedAt = e_now e\<rparr>"
  have "tenant_step x n db (snd (CreateAPIKeyRow (e_now e) ?k (HashToken e key) db))"
    using tenant_step_CreateAPIKeyRow [of db ?k n] assms by simp
  then show ?thesis using Inr p by (simp add: CreateAPIKey_def Let_def)
qed

lemma tenant_step_CreateInvite:
  assumes "rbac_wf db" "role_rank role < n"
  shows "tenant_step x n db (snd (CreateInvite e x email role by db))"
proof (cases "GenerateToken e")
  case (Inl err)
  then show ?thesis using assms(1) by (simp add: CreateInvite_def tenant_step_refl)
next
  case (Inr token)
  let ?i = "\<lparr>i_ID = ''inv_'' @ int_str (e_now e), i_OrgID = x, i_Email = to_lower (TrimSpace email), i_Role = role,
     i_InvitedBy = by, i_ExpiresAt = e_now e + 7 * 24 * hour, i_CreatedAt = e_now e\<rparr>"
  have "tenant_step x n db (snd (CreateInviteRow (e_now e) ?i (HashToken e token) db))"
    using tenant_step_CreateInviteRow [of db ?i n] assms by simp
  then show ?thesis using Inr by (simp add: CreateInvite_def Let_def)
qed

lemma tenant_step_ChangePassword:
  assumes "rbac_wf db" "(i, x) \<in> user_orgs db"
  shows "tenant_step x n db (snd (ChangePassword a e i old new db))"
proof -
  obtain w where w: "w \<in> set (rb_users db)" "u_ID w = i" "u_OrgID w = x" using assms(2) unfolding user_orgs_def by blast
  have "tenant_step x n db (snd (UpdateUserPassword (e_now e) i hash db))" for hash
    using tenant_step_UpdateUserPassword [OF assms(1) w(1)] w(2, 3) by simp
  then show ?thesis using tenant_step_refl [OF assms(1)] by (simp add: ChangePassword_def split: sum.splits)
qed

section \<open>The handlers\<close>

text \<open>Branches of a handler.\<close>

lemma tenant_if:
  "(c \<Longrightarrow> tenant_step x n db (snd A)) \<Longrightarrow> (\<not> c \<Longrightarrow> tenant_step x n db (snd B)) \<Longrightarrow> tenant_step x n db (snd (if c then A else B))"
  by simp

lemma tenant_option:
  "(v = None \<Longrightarrow> tenant_step x n db (snd A)) \<Longrightarrow> (\<And>y. v = Some y \<Longrightarrow> tenant_step x n db (snd (B y))) \<Longrightarrow>
   tenant_step x n db (snd (case v of None \<Rightarrow> A | Some y \<Rightarrow> B y))"
  by (simp split: option.split)

lemma tenant_sum:
  "(\<And>err. v = Inl err \<Longrightarrow> tenant_step x n db (snd (A err))) \<Longrightarrow> (\<And>y. v = Inr y \<Longrightarrow> tenant_step x n db (snd (B y))) \<Longrightarrow>
   tenant_step x n db (snd (case v of Inl err \<Rightarrow> A err | Inr y \<Rightarrow> B y))"
  by (simp split: sum.split)

lemma tenant_pair: "(\<And>p q. v = (p, q) \<Longrightarrow> tenant_step x n db (snd (B p q))) \<Longrightarrow> tenant_step x n db (snd (case v of (p, q) \<Rightarrow> B p q))"
  by (simp split: prod.split)

lemma tenant_same: "rbac_wf db \<Longrightarrow> tenant_step x n db (snd (resp, db))"
  by (simp add: tenant_step_refl)

lemma tenant_finish: "tenant_step x n db (snd out) \<Longrightarrow> tenant_step x n db (snd (finish f g out))"
  by simp

lemmas tenant_branches = tenant_if tenant_option tenant_sum tenant_pair

locale tenant_handler =
  fixes handle :: "Auth \<Rightarrow> auth_env \<Rightarrow> User \<Rightarrow> handler"
  assumes keeps: "rbac_wf db \<Longrightarrow> (u_ID u, u_OrgID u) \<in> user_orgs db \<Longrightarrow>
    tenant_step (u_OrgID u) (role_rank (u_Role u)) db (snd (handle a e u r db))"
begin

lemma route:
  assumes "rbac_wf db" "ContextKeyUser r = Some u" "(u_ID u, u_OrgID u) \<in> user_orgs db"
  shows "tenant_step (u_OrgID u) (role_rank (u_Role u)) db (snd (protected (Some a) e (\<lambda>a. handle a e) r db))"
  using keeps [OF assms(1, 3)] assms(2) by (simp add: protected_def getUserFromRequest_def)

end

interpretation sessions_route: tenant_handler "\<lambda>a e. sessions_request e"
  by unfold_locales
     (auto simp: sessions_request_def LogoutAll_def intro!: tenant_branches tenant_step_refl tenant_step_DeleteUserSessions)

interpretation users_route: tenant_handler users_request
  by unfold_locales
     (auto simp: users_request_def CanManageRole_def intro!: tenant_branches tenant_step_refl tenant_step_CreateUser)

interpretation teams_route: tenant_handler "\<lambda>a e. teams_request e"
proof
  fix db :: RbacDB and u :: User and e r
  assume wf: "rbac_wf db"
  have "tenant_step (u_OrgID u) n db (snd (CreateTeam now (t\<lparr>t_OrgID := u_OrgID u\<rparr>) db))" for n t now
    using tenant_step_CreateTeam [OF wf, of "t\<lparr>t_OrgID := u_OrgID u\<rparr>"] by simp
  then show "tenant_step (u_OrgID u) (role_rank (u_Role u)) db (snd (teams_request e u r db))"
    unfolding teams_request_def Let_def snd_finish using wf by (intro tenant_branches tenant_same) simp_all
qed

lemma apply_update_keeps [simp]:
  "u_ID (apply_update req t) = u_ID t" "u_OrgID (apply_update req t) = u_OrgID t"
  "u_Role (apply_update req t) = (if p_Role req \<noteq> [] then p_Role req else u_Role t)"
  by (simp_all add: apply_update_def Let_def split: option.split)

lemma tenant_step_update_user:
  assumes "rbac_wf db"
  shows "tenant_step (u_OrgID u) (role_rank (u_Role u)) db (snd (update_user_request e u i r db))"
proof -
  have upd: "tenant_step (u_OrgID u) (role_rank (u_Role u)) db (snd (UpdateUser now (apply_update req t) db))"
    if "target_user u i db = Some t" "\<not> (p_Role req \<noteq> [] \<and> p_Role req \<noteq> u_Role t \<and> \<not> CanManageRole (u_Role u) (p_Role req))"
    for t req now
  proof -
    have t: "t \<in> set (rb_users db)" "u_OrgID t = u_OrgID u" using target_user_Some [OF that(1)] by simp_all
    have "u_Role (apply_update req t) = u_Role t \<or> role_rank (u_Role (apply_update req t)) < role_rank (u_Role u)"
      using that(2) by (auto simp: CanManageRole_def)
    then show ?thesis using tenant_step_UpdateUser [OF assms t(1), of "apply_update req t"] t(2) by simp
  qed
  show ?thesis
    unfolding update_user_request_def Let_def using assms
    by (intro tenant_branches tenant_same tenant_finish upd) assumption+
qed

lemma tenant_step_delete_user:
  assumes wf: "rbac_wf db"
  shows "tenant_step (u_OrgID u) n db (snd (delete_user_request u i r db))"
proof -
  have "tenant_step (u_OrgID u) n db (snd (DeleteUser i (snd (DeleteUserSessions i db))))" if "target_user u i db = Some t" for t
  proof -
    have d: "tenant_step (u_OrgID u) n db (snd (DeleteUserSessions i db))"
      by (rule tenant_step_DeleteUserSessions [OF wf target_user_orgs [OF that]])
    moreover have "(i, u_OrgID u) \<in> user_orgs (snd (DeleteUserSessions i db))"
      using target_user_orgs [OF that] by (simp add: DeleteUserSessions_def exec_def delete_sessions_of_def user_orgs_def)
    ultimately show ?thesis by (intro tenant_step_trans [OF d] tenant_step_DeleteUser) (simp_all add: tenant_step_def)
  qed
  then show ?thesis
    unfolding delete_user_request_def using wf
    by (intro tenant_branches tenant_same) (simp_all only: snd_finish)
qed

interpretation user_route: tenant_handler "\<lambda>a e. user_request e"
  by unfold_locales
     (auto simp: user_request_def Let_def
       intro!: tenant_branches tenant_step_refl tenant_step_update_user tenant_step_delete_user)

lemma apply_team_update_id [simp]: "t_ID (apply_team_update v t) = t_ID t"
  by (simp add: apply_team_update_def Let_def split: option.split)

interpretation team_route: tenant_handler "\<lambda>a e. team_request e"
proof
  fix db :: RbacDB and u :: User and e r
  assume wf: "rbac_wf db"
  have "tenant_step (u_OrgID u) n db (snd (UpdateTeam now (apply_team_update v t) db))"
       "tenant_step (u_OrgID u) n db (snd (DeleteTeam i db))" if "target_team u i db = Some t" for i n t v now
    using target_team_Some [OF wf that] by (intro tenant_step_UpdateTeam tenant_step_DeleteTeam wf; simp)+
  then show "tenant_step (u_OrgID u) (role_rank (u_Role u)) db (snd (team_request e u r db))"
    unfolding team_request_def Let_def using wf by (intro tenant_branches tenant_same) (simp_all only: snd_finish)
qed

interpretation keys_route: tenant_handler "\<lambda>a e. keys_request e"
  by unfold_locales
     (auto simp: keys_request_def intro!: tenant_branches tenant_step_refl tenant_step_CreateAPIKey)

interpretation key_route: tenant_handler "\<lambda>a e. key_request"
proof
  fix db :: RbacDB and u :: User and r
  assume wf: "rbac_wf db"
  have "tenant_step (u_OrgID u) n db (snd (DeleteAPIKey i db))" if "target_key u i db = Some k" for i n k
    using target_key_Some [OF wf that] by (intro tenant_step_DeleteAPIKey wf)
  then show "tenant_step (u_OrgID u) (role_rank (u_Role u)) db (snd (key_request u r db))"
    unfolding key_request_def Let_def using wf by (intro tenant_branches tenant_same) (simp_all only: snd_finish)
qed

interpretation invites_route: tenant_handler "\<lambda>a e. invites_request e"
  by unfold_locales
     (auto simp: invites_request_def CanManageRole_def intro!: tenant_branches tenant_step_refl tenant_step_CreateInvite)

interpretation invite_route: tenant_handler "\<lambda>a e. invite_request"
proof
  fix db :: RbacDB and u :: User and r
  assume wf: "rbac_wf db"
  have "tenant_step (u_OrgID u) n db (snd (DeleteInvite i db))" if "GetInvite i db = Inr v" "\<not> i_OrgID v \<noteq> u_OrgID u" for i n v
    using GetInvite_Inr [OF wf that(1)] that(2) by (intro tenant_step_DeleteInvite wf) simp
  then show "tenant_step (u_OrgID u) (role_rank (u_Role u)) db (snd (invite_request u r db))"
    unfolding invite_request_def Let_def using wf by (intro tenant_branches tenant_same) (simp_all only: snd_finish)
qed

lemma tenant_step_update_org:
  assumes "rbac_wf db"
  shows "tenant_step (o_ID org) n db (snd (update_org_request e v org db))"
proof -
  have "tenant_step (o_ID org) n db (snd (UpdateOrganization now org' db))" if "o_ID org' = o_ID org" for org' now
    using tenant_step_UpdateOrganization [OF assms, of org'] that by simp
  then show ?thesis
    by (simp add: update_org_request_def Let_def tenant_step_refl [OF assms] split: outcome.split option.split)
qed

lemma GetOrganization_Inr: "GetOrganization i db = Inr org \<Longrightarrow> o_ID org = i"
  unfolding GetOrganization_def by (drule query_row_Inr, drule find_member) simp

interpretation org_route: tenant_handler "\<lambda>a e. org_request e"
proof
  fix db :: RbacDB and u :: User and e r
  assume wf: "rbac_wf db"
  have "tenant_step (u_OrgID u) n db (snd (update_org_request e v org db))" if "GetOrganization (u_OrgID u) db = Inr org" for n v org
    using tenant_step_update_org [OF wf, of org] GetOrganization_Inr [OF that] by simp
  then show "tenant_step (u_OrgID u) (role_rank (u_Role u)) db (snd (org_request e u r db))"
    unfolding org_request_def Let_def using wf by (intro tenant_branches tenant_same) simp_all
qed

end
