(* ===== verification/Rbac_Requests.thy ===== *)
theory Rbac_Requests
  imports Rbac_Security
begin

text \<open>
  Whole requests: what authentication changes, what the public routes change, and the theorems about a request and
  about any sequence of requests.
\<close>

section \<open>Authentication\<close>

lemma tenant_step_mono: "tenant_step x n db db' \<Longrightarrow> n \<le> m \<Longrightarrow> tenant_step x m db db'"
  unfolding tenant_step_def grants_below_def by (auto dest: order_less_le_trans)

lemma query_row_hash: "query_row db (map_option snd (find (\<lambda>(h', y). h' = h) rows)) = Inr y \<Longrightarrow> (h, y) \<in> set rows"
  by (drule query_row_Inr) (auto dest: find_member)

lemma GetSessionByToken_Inr: "GetSessionByToken h db = Inr s \<Longrightarrow> (h, s) \<in> set (rb_sessions db)"
  unfolding GetSessionByToken_def by (rule query_row_hash)

lemma GetAPIKeyByHash_Inr: "GetAPIKeyByHash h db = Inr k \<Longrightarrow> (h, k) \<in> set (rb_keys db)"
  unfolding GetAPIKeyByHash_def by (rule query_row_hash)

lemma GetInviteByToken_Inr: "GetInviteByToken h db = Inr i \<Longrightarrow> (h, i) \<in> set (rb_invites db)"
  unfolding GetInviteByToken_def by (rule query_row_hash)

lemma DeleteSession_found:
  assumes "rbac_wf db" "GetSessionByToken h db = Inr s"
  shows "tenant_step (s_OrgID s) n db (snd (DeleteSession (s_ID s) db))"
proof (rule tenant_step_DeleteSession [OF assms(1)])
  fix r assume "r \<in> set (rb_sessions db)" "s_ID (snd r) = s_ID s"
  then have "r = (h, s)" using wf_session_unique [OF assms(1) _ GetSessionByToken_Inr [OF assms(2)]] by simp
  then show "s_OrgID (snd r) = s_OrgID s" by simp
qed

lemma ValidateSession_Inr:
  assumes "ValidateSession e token db = (Inr (u, s), db1)"
  shows "db1 = db" "u \<in> set (rb_users db)" "u_IsActive u" "\<not> s_ExpiresAt s < e_now e" "(HashToken e token, s) \<in> set (rb_sessions db)"
    "u_ID u = s_UserID s"
  using assms GetUser_Inr [of "s_UserID s" db u] GetSessionByToken_Inr [of "HashToken e token" db s]
  by (simp_all add: ValidateSession_def split: sum.splits if_splits)

lemma ValidateSession_step:
  assumes "rbac_wf db"
  shows "\<exists>x. tenant_step x 0 db (snd (ValidateSession e token db))"
proof (cases "GetSessionByToken (HashToken e token) db")
  case (Inl err)
  then show ?thesis using tenant_step_refl [OF assms] by (auto simp: ValidateSession_def)
next
  case (Inr s)
  show ?thesis
  proof (cases "s_ExpiresAt s < e_now e")
    case True
    then show ?thesis using DeleteSession_found [OF assms Inr] Inr by (auto simp: ValidateSession_def)
  next
    case False
    then have "snd (ValidateSession e token db) = db" using Inr by (simp add: ValidateSession_def split: sum.split)
    then show ?thesis using tenant_step_refl [OF assms] by simp
  qed
qed

lemma ValidateAPIKey_step:
  assumes wf: "rbac_wf db"
  shows "ValidateAPIKey e key db = (Inr (k, u), db1) \<Longrightarrow> u \<in> set (rb_users db) \<and> tenant_step (u_OrgID u) 0 db db1 \<and> rb_users db1 = rb_users db"
    and "ValidateAPIKey e key db = (Inl err, db1) \<Longrightarrow> db1 = db"
proof -
  assume ok: "ValidateAPIKey e key db = (Inr (k, u), db1)"
  then have k: "GetAPIKeyByHash (HashToken e key) db = Inr k" "GetUser (k_UserID k) db = Inr u" and
    db1: "db1 = snd (UpdateAPIKeyLastUsed (e_now e) (k_ID k) db)"
    by (auto simp: ValidateAPIKey_def split: sum.splits if_splits)
  have row: "(HashToken e key, k) \<in> set (rb_keys db)" by (rule GetAPIKeyByHash_Inr [OF k(1)])
  have u: "u \<in> set (rb_users db)" "u_ID u = k_UserID k" using GetUser_Inr [OF k(2)] by simp_all
  have "k_OrgID k = u_OrgID u" using wf_key_org [OF wf GetUser_orgs [OF k(2)] row] u(2) by simp
  then have "k_OrgID (snd r) = u_OrgID u" if "r \<in> set (rb_keys db)" "k_ID (snd r) = k_ID k" for r
    using wf_key_unique [OF wf that(1) row] that(2) by simp
  then have "tenant_step (u_OrgID u) 0 db db1" unfolding db1 by (intro tenant_step_UpdateAPIKeyLastUsed wf)
  then show "u \<in> set (rb_users db) \<and> tenant_step (u_OrgID u) 0 db db1 \<and> rb_users db1 = rb_users db"
    using u(1) by (simp add: db1 UpdateAPIKeyLastUsed_def exec_def)
next
  show "ValidateAPIKey e key db = (Inl err, db1) \<Longrightarrow> db1 = db"
    by (simp add: ValidateAPIKey_def split: sum.splits if_splits)
qed

text \<open>The user of a request and the database after authentication.\<close>

definition authenticated :: "auth_env \<Rightarrow> RbacDB \<Rightarrow> credentials dbm \<Rightarrow> bool" where
  "authenticated e db out \<longleftrightarrow>
     (case out of
        (Inr (u, _), db1) \<Rightarrow> u \<in> set (rb_users db) \<and> tenant_step (u_OrgID u) 0 db db1 \<and> rb_users db1 = rb_users db
      | (Inl _, db1) \<Rightarrow> \<exists>x. tenant_step x 0 db db1)"

lemma authenticated_by_session: "rbac_wf db \<Longrightarrow> authenticated e db (by_session e token db)"
  using ValidateSession_step [of db e token] ValidateSession_Inr [of e token db] tenant_step_refl [of db]
  by (auto simp: authenticated_def by_session_def split: prod.splits sum.splits)

lemma authenticated_by_api_key: "rbac_wf db \<Longrightarrow> authenticated e db (by_api_key e token db)"
  using ValidateAPIKey_step [of db e token] tenant_step_refl [of db]
  by (auto simp: authenticated_def by_api_key_def split: prod.splits sum.splits)

lemma authenticated_extractAuth: "rbac_wf db \<Longrightarrow> authenticated e db (extractAuth e r db)"
  using authenticated_by_session authenticated_by_api_key tenant_step_refl [of db]
  by (auto simp: extractAuth_def validateAuthHeader_def authenticated_def [of _ _ "(Inl _, _)"] split: option.split)

section \<open>Public routes\<close>

definition no_owner_invites :: "RbacDB \<Rightarrow> bool" where
  "no_owner_invites db \<longleftrightarrow> (\<forall>r \<in> set (rb_invites db). i_Role (snd r) \<noteq> RoleOwner)"

lemma role_rank_owner: "role_rank role < 4 \<longleftrightarrow> role \<noteq> RoleOwner"
  by (simp add: role_rank_def)

lemma tenant_step_start_session:
  assumes wf: "rbac_wf db" and u: "u \<in> set (rb_users db)"
  shows "tenant_step (u_OrgID u) n db (snd (start_session a e u password ua ip db))"
proof -
  have "tenant_step (u_OrgID u) n db (snd (UpdateUser now u' db1))"
    if "CreateSession now s h db = (r, db1)" "s_UserID s = u_ID u" "s_OrgID s = u_OrgID u" "u_ID u' = u_ID u" "u_Role u' = u_Role u"
    for now s h r db1 u'
  proof -
    have "(u_ID u, u_OrgID u) \<in> user_orgs db" using u by (simp add: user_orgs_def)
    then have d: "tenant_step (u_OrgID u) n db db1"
      using tenant_step_CreateSession [OF wf, of s n now h] that(1-3) by simp
    have "rb_users (snd (CreateSession now s h db)) = rb_users db" by (simp add: CreateSession_def exec_def)
    then have "u \<in> set (rb_users db1)" using u that(1) by simp
    then have "tenant_step (u_OrgID u) n db1 (snd (UpdateUser now u' db1))"
      using d that(4, 5) by (intro tenant_step_UpdateUser) (simp_all add: tenant_step_def)
    with d show ?thesis by (rule tenant_step_trans)
  qed
  note upd = this
  have fail: "tenant_step (u_OrgID u) n db db1" if "CreateSession now s h db = (Inl err, db1)" for now s h err db1
    using that tenant_step_refl [OF wf] by (simp add: CreateSession_def exec_def split: if_splits)
  show ?thesis
    unfolding start_session_def Let_def using wf
    by (intro tenant_branches tenant_same) (auto intro: fail upd split: sum.split)
qed

lemma LoginAnyOrg_step:
  assumes "rbac_wf db"
  shows "\<exists>x. tenant_step x 0 db (snd (LoginAnyOrg a e email password ua ip db))"
proof (cases "GetUserByEmailAnyOrg email db")
  case (Inl err)
  then show ?thesis using tenant_step_refl [OF assms] by (auto simp: LoginAnyOrg_def)
next
  case (Inr u)
  then have "u \<in> set (rb_users db)" unfolding GetUserByEmailAnyOrg_def by (blast dest: query_row_Inr find_member)
  then show ?thesis unfolding LoginAnyOrg_def Inr sum.case by (intro exI [of _ "u_OrgID u"] tenant_step_start_session [OF assms])
qed

lemma Logout_step:
  assumes "rbac_wf db"
  shows "\<exists>x. tenant_step x 0 db (snd (Logout e token db))"
  using DeleteSession_found [OF assms, of "HashToken e token"] tenant_step_refl [OF assms]
  by (cases "GetSessionByToken (HashToken e token) db") (auto simp: Logout_def)

lemma AcceptInvite_step:
  assumes wf: "rbac_wf db" and inv: "no_owner_invites db"
  shows "\<exists>x. tenant_step x 4 db (snd (AcceptInvite a e token password name db))"
proof (cases "GetInviteByToken (HashToken e token) db")
  case (Inl err)
  then show ?thesis using tenant_step_refl [OF wf] by (auto simp: AcceptInvite_def)
next
  case (Inr i)
  have row: "(HashToken e token, i) \<in> set (rb_invites db)" by (rule GetInviteByToken_Inr [OF Inr])
  have del: "tenant_step (i_OrgID i) 4 d (snd (DeleteInvite (i_ID i) d))" if "rbac_wf d" "rb_invites d = rb_invites db" for d
  proof (rule tenant_step_DeleteInvite [OF that(1)])
    fix r assume "r \<in> set (rb_invites d)" "i_ID (snd r) = i_ID i"
    then show "i_OrgID (snd r) = i_OrgID i" using wf_invite_unique [OF wf _ row, of r] that(2) by simp
  qed
  have "i_Role i \<noteq> RoleOwner" using inv row unfolding no_owner_invites_def by force
  then have new: "tenant_step (i_OrgID i) 4 db (snd (CreateUser a e (i_OrgID i) req db))" if "c_Role req = i_Role i" for req
    using that by (intro tenant_step_CreateUser wf) (simp add: role_rank_owner)
  have keep: "rb_invites (snd (CreateUser a e x req db)) = rb_invites db" for x req
    by (simp add: CreateUser_def CreateUserRow_def exec_def Let_def split: sum.split)
  have "tenant_step (i_OrgID i) 4 db (snd (AcceptInvite a e token password name db))"
    unfolding AcceptInvite_def Inr sum.case
  proof (intro tenant_if tenant_sum)
    let ?req = "\<lparr>c_Email = i_Email i, c_Password = password, c_Name = name, c_Role = i_Role i\<rparr>"
    obtain out db1 where out: "CreateUser a e (i_OrgID i) ?req db = (out, db1)" by fastforce
    have d: "tenant_step (i_OrgID i) 4 db db1" "rb_invites db1 = rb_invites db"
      using new [of ?req] keep [of "i_OrgID i" ?req] out by simp_all
    then have "tenant_step (i_OrgID i) 4 db (snd (DeleteInvite (i_ID i) db1))"
      using tenant_step_trans [OF d(1) del [OF _ d(2)]] by (simp add: tenant_step_def)
    then show "tenant_step (i_OrgID i) 4 db (snd (case CreateUser a e (i_OrgID i) ?req db of
        (Inl err, db1) \<Rightarrow> (Inl err, db1) | (Inr user, db1) \<Rightarrow> (Inr user, snd (DeleteInvite (i_ID i) db1))))"
      using d(1) unfolding out by (simp split: sum.split)
  qed (use del wf in simp_all)
  then show ?thesis ..
qed

section \<open>Routes\<close>

lemma has_prefix_nth: "has_prefix s p \<Longrightarrow> i < length p \<Longrightarrow> s ! i = p ! i"
  unfolding has_prefix_def by (metis nth_take)

lemma has_prefix_mono:
  assumes "has_prefix s p" "has_prefix p q"
  shows "has_prefix s q"
proof -
  have "length q \<le> length p" using assms(2) unfolding has_prefix_def by (metis length_take min.cobounded1)
  then have "take (length q) s = take (length q) (take (length p) s)" by simp
  then show ?thesis using assms unfolding has_prefix_def by simp
qed

text \<open>No route of this group lies below a prefix that passes the gate without credentials.\<close>

lemma route_paths:
  assumes "rbac_route path \<noteq> None"
  shows "path \<in> {''/api/auth/login'', ''/api/auth/logout'', ''/api/auth/me'', ''/api/auth/invite/accept'', ''/api/auth/invites'',
      ''/api/users'', ''/api/teams'', ''/api/apikeys'', ''/api/org'', ''/api/sessions'', ''/api/auth/password''} \<or>
    list_ex (has_prefix path) [''/api/auth/invites/'', ''/api/users/'', ''/api/teams/'', ''/api/apikeys/'']"
  using assms by (simp add: rbac_route_def split: if_splits)

lemma route_api:
  assumes "rbac_route path \<noteq> None"
  shows "has_prefix path ''/api/''"
proof -
  have "has_prefix p ''/api/''" if "p \<in> set [''/api/auth/invites/'', ''/api/users/'', ''/api/teams/'', ''/api/apikeys/'']" for p
    using that by (auto simp: has_prefix_def)
  then have "list_ex (has_prefix path) [''/api/auth/invites/'', ''/api/users/'', ''/api/teams/'', ''/api/apikeys/''] \<Longrightarrow> has_prefix path ''/api/''"
    unfolding list_ex_iff using has_prefix_mono by blast
  with route_paths [OF assms] show ?thesis by (elim disjE) (auto simp: has_prefix_def [of "_ # _"])
qed

lemma api_not_public_prefix:
  assumes "has_prefix path ''/api/''"
  shows "\<not> list_ex (has_prefix path) publicPrefixes"
proof
  assume "list_ex (has_prefix path) publicPrefixes"
  then obtain p where p: "p \<in> set publicPrefixes" "has_prefix path p" by (auto simp: list_ex_iff)
  moreover have "path ! 1 = CHR ''a''" "path ! 2 = CHR ''p''" "path ! 3 = CHR ''i''"
    using has_prefix_nth [OF assms] by simp_all
  ultimately show False
    using has_prefix_nth [OF p(2), of 1] has_prefix_nth [OF p(2), of 2] has_prefix_nth [OF p(2), of 3]
    by (auto simp: publicPrefixes_def)
qed

lemma route_not_public_prefix: "list_ex (has_prefix path) publicPrefixes \<Longrightarrow> rbac_route path = None"
  using api_not_public_prefix route_api by blast

lemma route_not_sso:
  assumes "list_ex (has_prefix path) ssoPrefixes"
  shows "rbac_route path = None"
proof (rule ccontr)
  assume "rbac_route path \<noteq> None"
  note paths = route_paths [OF this]
  obtain p where p: "p \<in> set ssoPrefixes" "has_prefix path p" using assms by (auto simp: list_ex_iff)
  have "10 < length p \<and> p ! 5 = CHR ''a'' \<and> p ! 6 = CHR ''u'' \<and> p ! 10 \<noteq> CHR ''i''" using p(1) by (auto simp: ssoPrefixes_def)
  then have at: "path ! 5 = CHR ''a''" "path ! 6 = CHR ''u''" "path ! 10 \<noteq> CHR ''i''"
    using has_prefix_nth [OF p(2), of 5] has_prefix_nth [OF p(2), of 6] has_prefix_nth [OF p(2), of 10] by auto
  show False
  proof (cases "list_ex (has_prefix path) [''/api/auth/invites/'', ''/api/users/'', ''/api/teams/'', ''/api/apikeys/'']")
    case True
    then obtain q where q: "q \<in> set [''/api/auth/invites/'', ''/api/users/'', ''/api/teams/'', ''/api/apikeys/'']" "has_prefix path q"
      unfolding list_ex_iff by blast
    then show False using at has_prefix_nth [OF q(2), of 5] has_prefix_nth [OF q(2), of 6] has_prefix_nth [OF q(2), of 10] by auto
  next
    case False
    with paths show False using p by (auto simp: ssoPrefixes_def has_prefix_def [of "_ # _"])
  qed
qed

lemma handleMe_step: "rbac_wf db \<Longrightarrow> ContextKeyUser r = Some u \<Longrightarrow> tenant_step x n db (snd (handleMe (Some a) e r db))"
  by (simp add: handleMe_def tenant_step_refl)

lemma handlePasswordChange_step:
  assumes "rbac_wf db" "ContextKeyUser r = Some u" "(u_ID u, u_OrgID u) \<in> user_orgs db"
  shows "tenant_step (u_OrgID u) n db (snd (handlePasswordChange (Some a) e r db))"
  using tenant_step_ChangePassword [OF assms(1, 3)] tenant_step_refl [OF assms(1)] assms(2)
  by (simp add: handlePasswordChange_def getUserFromRequest_def split: option.split)

lemma route_step:
  assumes "rbac_wf db" "ContextKeyUser r = Some u" "(u_ID u, u_OrgID u) \<in> user_orgs db"
    "rbac_route (r_Path r) = Some h" "r_Path r \<notin> set publicExact"
  shows "tenant_step (u_OrgID u) (role_rank (u_Role u)) db (snd (h (Some a) e r db))"
proof -
  note routes = sessions_route.route users_route.route user_route.route teams_route.route team_route.route keys_route.route
    key_route.route invites_route.route invite_route.route org_route.route
  have "tenant_step (u_OrgID u) (role_rank (u_Role u)) db (snd (h (Some a) e r db))"
    if "h \<in> {handleMe, handlePasswordChange, handleSessions, handleUsers, handleUser, handleTeams, handleTeam, handleAPIKeys,
             handleAPIKey, handleInvites, handleInvite, handleOrg}"
    using that routes [OF assms(1-3), of a e] handleMe_step [OF assms(1, 2)] handlePasswordChange_step [OF assms(1-3)]
    by (elim insertE emptyE)
       (simp_all add: handleSessions_def handleUsers_def handleUser_def handleTeams_def handleTeam_def handleAPIKeys_def
         handleAPIKey_def handleInvites_def handleInvite_def handleOrg_def)
  then show ?thesis using assms(4, 5) by (simp add: rbac_route_def publicExact_def split: if_splits)
qed

section \<open>Requests\<close>

definition dispatch :: "Auth \<Rightarrow> (Request \<Rightarrow> Response) \<Rightarrow> auth_env \<Rightarrow> handler" where
  "dispatch a other e r db = (case rbac_route (r_Path r) of None \<Rightarrow> (other r, db) | Some h \<Rightarrow> h (Some a) e r db)"

lemma serve_dispatch: "serve a other e = AuthMiddleware True e (dispatch a other e)"
  by (simp add: serve_def dispatch_def [abs_def])

lemma dispatch_none: "rbac_route (r_Path r) = None \<Longrightarrow> snd (dispatch a other e r db) = db"
  by (simp add: dispatch_def)

lemma with_credentials_simps [simp]:
  "r_Path (with_credentials c r) = r_Path r" "ContextKeyUser (with_credentials c r) = Some (fst c)"
  by (simp_all add: with_credentials_def split: prod.split)

lemma dispatch_authenticated:
  assumes wf: "rbac_wf db" and ok: "extractAuth e r db = (Inr c, db1)" and path: "r_Path r \<notin> set publicExact"
  shows "tenant_step (u_OrgID (fst c)) (role_rank (u_Role (fst c))) db (snd (dispatch a other e (with_credentials c r) db1))"
proof -
  let ?u = "fst c" and ?r = "with_credentials c r"
  have u: "?u \<in> set (rb_users db)" "tenant_step (u_OrgID ?u) 0 db db1" "rb_users db1 = rb_users db"
    using authenticated_extractAuth [OF wf, of e r] ok by (auto simp: authenticated_def case_prod_unfold)
  have d: "tenant_step (u_OrgID ?u) (role_rank (u_Role ?u)) db db1" by (rule tenant_step_mono [OF u(2)]) simp
  have wf1: "rbac_wf db1" using u(2) by (simp add: tenant_step_def)
  have "(u_ID ?u, u_OrgID ?u) \<in> user_orgs db1" using u(1, 3) by (simp add: user_orgs_def)
  then have "tenant_step (u_OrgID ?u) (role_rank (u_Role ?u)) db1 (snd (h (Some a) e ?r db1))" if "rbac_route (r_Path r) = Some h" for h
    using that path by (intro route_step [OF wf1]) simp_all
  then have "tenant_step (u_OrgID ?u) (role_rank (u_Role ?u)) db1 (snd (dispatch a other e ?r db1))"
    using tenant_step_refl [OF wf1] by (simp add: dispatch_def split: option.split)
  with d show ?thesis by (rule tenant_step_trans)
qed

lemma serve_authenticated:
  assumes wf: "rbac_wf db" and ok: "extractAuth e r db = (Inr c, db1)" and path: "r_Path r \<notin> set publicExact"
  shows "tenant_step (u_OrgID (fst c)) (role_rank (u_Role (fst c))) db (snd (serve a other e r db))"
proof -
  have free: "tenant_step x n db (snd (dispatch a other e r db))" if "rbac_route (r_Path r) = None" for x n
    using tenant_step_refl [OF wf] by (simp add: dispatch_none [OF that])
  have "rbac_route (r_Path r) = None" if "\<not> has_prefix (r_Path r) ''/api/''" using route_api that by blast
  then show ?thesis
    using dispatch_authenticated [OF assms] path ok free route_not_public_prefix route_not_sso
    unfolding serve_dispatch AuthMiddleware_def Authenticate_def AuthenticateOptional_def
    by (intro tenant_if) simp_all
qed

lemma dispatch_public:
  assumes wf: "rbac_wf db" and inv: "no_owner_invites db" and path: "r_Path r \<in> set publicExact"
  shows "\<exists>x. tenant_step x 4 db (snd (dispatch a other e r db))"
proof -
  have refl: "\<exists>x. tenant_step x 4 db db" using tenant_step_refl [OF wf] by blast
  have weak: "\<exists>x. tenant_step x 4 db d" if "\<exists>x. tenant_step x 0 db d" for d using that tenant_step_mono by blast
  have "\<exists>x. tenant_step x 4 db (snd (handleLogin (Some a) e r db))"
    using refl weak [OF LoginAnyOrg_step [OF wf]] by (simp add: handleLogin_def split: option.split)
  moreover have "\<exists>x. tenant_step x 4 db (snd (handleLogout (Some a) e r db))"
    using refl weak [OF Logout_step [OF wf]] by (simp add: handleLogout_def Let_def)
  moreover have "\<exists>x. tenant_step x 4 db (snd (handleAcceptInvite (Some a) e r db))"
    using refl AcceptInvite_step [OF wf inv] by (simp add: handleAcceptInvite_def split: option.split)
  moreover have "rbac_route p = None \<or> rbac_route p \<in> {Some handleLogin, Some handleLogout, Some handleAcceptInvite}" if "p \<in> set publicExact" for p
    using that unfolding publicExact_def set_simps by (elim insertE emptyE) (simp_all add: rbac_route_def has_prefix_def)
  ultimately show ?thesis using path refl by (fastforce simp: dispatch_def)
qed

lemma role_rank_le: "role_rank role \<le> 4"
  by (simp add: role_rank_def)

lemma serve_step:
  assumes wf: "rbac_wf db" and inv: "no_owner_invites db"
  shows "\<exists>x. tenant_step x 4 db (snd (serve a other e r db))"
proof (cases "r_Path r \<in> set publicExact")
  case True
  then show ?thesis using dispatch_public [OF assms] by (simp add: serve_dispatch AuthMiddleware_def)
next
  case path: False
  obtain out db1 where out: "extractAuth e r db = (out, db1)" by fastforce
  show ?thesis
  proof (cases out)
    case (Inr c)
    have "tenant_step (u_OrgID (fst c)) 4 db (snd (serve a other e r db))"
      using tenant_step_mono [OF serve_authenticated [OF wf _ path] role_rank_le] out Inr by simp
    then show ?thesis ..
  next
    case (Inl err)
    have d: "\<exists>x. tenant_step x 4 db db1"
      using authenticated_extractAuth [OF wf, of e r] out Inl tenant_step_mono by (auto simp: authenticated_def) blast
    have free: "\<exists>x. tenant_step x 4 db (snd (dispatch a other e r db'))"
      if "rbac_route (r_Path r) = None" "db' = db \<or> db' = db1" for db'
      using that d tenant_step_refl [OF wf] by (auto simp: dispatch_none)
    have none: "rbac_route (r_Path r) = None" if "\<not> has_prefix (r_Path r) ''/api/''" using route_api that by blast
    have opt: "rbac_route (r_Path r) = None" if "r_Path r \<in> insert ''/api/ws'' (set ingestPaths)"
      using that by (auto simp: rbac_route_def ingestPaths_def has_prefix_def [of "_ # _"])
    have ws: "\<exists>x. tenant_step x 4 db (snd (dispatch a other e r db1))" if "r_Path r = ''/api/ws''" using free opt that by blast
    show ?thesis
      using path out Inl d free none opt ws route_not_public_prefix route_not_sso
      by (simp add: serve_dispatch AuthMiddleware_def Authenticate_def AuthenticateOptional_def)
  qed
qed

end
