(* ===== verification/Rbac_Guarantees.thy ===== *)
theory Rbac_Guarantees
  imports Rbac_Requests
begin

text \<open>
  The properties of authentication and authorization, with a small database on which each of them is applied.
\<close>

section \<open>Roles\<close>

lemma permits_iff:
  "permits ps resource action \<longleftrightarrow>
     (\<exists>p \<in> set ps. (Resource p = ''*'' \<or> Resource p = resource) \<and> (Action p = ''*'' \<or> Action p = action))"
proof (induction ps)
  case (Cons p ps)
  have "permits (p # ps) resource action \<longleftrightarrow>
      (Resource p = ''*'' \<or> Resource p = resource) \<and> (Action p = ''*'' \<or> Action p = action) \<or> permits ps resource action"
    by (simp del: char_of_take_bit_eq) blast
  then show ?case by (simp only: Cons.IH list.set bex_simps)
qed simp

definition covers :: "Permission list \<Rightarrow> Permission \<Rightarrow> bool" where
  "covers ps p \<longleftrightarrow> (\<exists>q \<in> set ps. (Resource q = ''*'' \<or> Resource q = Resource p) \<and> (Action q = ''*'' \<or> Action q = Action p))"

lemma permits_mono:
  assumes "\<And>p. p \<in> set ps \<Longrightarrow> covers qs p" "permits ps resource action"
  shows "permits qs resource action"
proof -
  obtain p where p: "p \<in> set ps" "Resource p = ''*'' \<or> Resource p = resource" "Action p = ''*'' \<or> Action p = action"
    using assms(2) unfolding permits_iff by blast
  obtain q where "q \<in> set qs" "Resource q = ''*'' \<or> Resource q = Resource p" "Action q = ''*'' \<or> Action q = Action p"
    using assms(1) [OF p(1)] unfolding covers_def by blast
  then show ?thesis unfolding permits_iff using p(2, 3) by metis
qed

definition role_permissions :: "Role \<Rightarrow> Permission list" where
  "role_permissions role = (case RolePermissions role of None \<Rightarrow> [] | Some ps \<Rightarrow> ps)"

lemma HasPermission_permits: "HasPermission role resource action \<longleftrightarrow> permits (role_permissions role) resource action"
  by (simp add: HasPermission_def role_permissions_def split: option.split)

lemma role_permissions_covered:
  "list_all (covers (role_permissions RoleEditor)) (role_permissions RoleViewer)"
  "list_all (covers (role_permissions RoleAdmin)) (role_permissions RoleEditor)"
  "list_all (covers (role_permissions RoleOwner)) (role_permissions RoleAdmin)"
  by (simp_all add: role_permissions_def RolePermissions_def covers_def admin_permissions_def editor_permissions_def
    viewer_permissions_def perm_def)

lemma HasPermission_step:
  "HasPermission RoleViewer resource action \<Longrightarrow> HasPermission RoleEditor resource action"
  "HasPermission RoleEditor resource action \<Longrightarrow> HasPermission RoleAdmin resource action"
  "HasPermission RoleAdmin resource action \<Longrightarrow> HasPermission RoleOwner resource action"
  unfolding HasPermission_permits using permits_mono role_permissions_covered unfolding list_all_iff by blast+

lemma HasPermission_rank: "HasPermission role resource action \<Longrightarrow> role_rank role \<in> {1, 2, 3, 4}"
  by (simp add: HasPermission_def RolePermissions_def role_rank_def split: if_splits)

text \<open>A role that outranks another, or equals it, may do everything the other may: the permission table agrees
  with the hierarchy that \<open>CanManageRole\<close> and \<open>RequireRole\<close> use.\<close>

theorem permissions_follow_rank:
  assumes "HasPermission role resource action" "role_rank role \<le> role_rank role'"
  shows "HasPermission role' resource action"
proof -
  have "role_rank role \<noteq> 0" using HasPermission_rank [OF assms(1)] by auto
  then have "role' = role \<or> role' = RoleOwner \<or> role' = RoleAdmin \<and> (role = RoleViewer \<or> role = RoleEditor) \<or>
      role' = RoleEditor \<and> role = RoleViewer"
    using assms(2) by (simp add: role_rank_def split: if_splits)
  moreover have "HasPermission RoleOwner resource action" by (simp add: HasPermission_def RolePermissions_def perm_def)
  ultimately show ?thesis using assms(1) HasPermission_step [of resource action] by fast
qed

theorem permissions_follow_rank_witness: "HasPermission RoleAdmin ''logs'' ''execute''"
  using permissions_follow_rank [of RoleEditor "''logs''" "''execute''" RoleAdmin]
  by (simp add: HasPermission_def RolePermissions_def editor_permissions_def perm_def role_rank_def)

section \<open>A small database\<close>

text \<open>Two organizations, each with an owner, the first with an editor and an invitation too. Tokens are stored as they
  are and a password is its own hash, so that the examples compute.\<close>

definition ex_env :: auth_env where
  "ex_env = \<lparr>e_now = 5000000000, e_random = Inr ''abc'', e_sha256 = (\<lambda>t. t), e_bcrypt = (\<lambda>c p. Inr p), e_compare = (\<lambda>h p. h = p)\<rparr>"

definition ex_user :: "string \<Rightarrow> string \<Rightarrow> Role \<Rightarrow> User" where
  "ex_user i x role = \<lparr>u_ID = i, u_OrgID = x, u_Email = i, u_PasswordHash = ''pw'', u_Name = i, u_Role = role, u_TeamIDs = None,
     u_AvatarURL = [], u_Timezone = [], u_IsActive = True, u_LastLoginAt = None, u_CreatedAt = 0, u_UpdatedAt = 0\<rparr>"

definition ex_session :: "string \<Rightarrow> string \<Rightarrow> string \<Rightarrow> Session" where
  "ex_session i u x = \<lparr>s_ID = i, s_UserID = u, s_OrgID = x, s_Token = [], s_UserAgent = [], s_IPAddress = [],
     s_ExpiresAt = 9000000000, s_CreatedAt = 0\<rparr>"

definition ex_org :: "string \<Rightarrow> Organization" where
  "ex_org i = \<lparr>o_ID = i, o_Name = i, o_Slug = i, o_Plan = ''free'', o_Settings = Some [], o_CreatedAt = 0, o_UpdatedAt = 0\<rparr>"

definition ex_invite :: Invite where
  "ex_invite = \<lparr>i_ID = ''inv1'', i_OrgID = ''A'', i_Email = ''new'', i_Role = RoleViewer, i_InvitedBy = ''ann'',
     i_ExpiresAt = 9000000000, i_CreatedAt = 0\<rparr>"

definition ex_db :: RbacDB where
  "ex_db = \<lparr>rb_orgs = [ex_org ''A'', ex_org ''B''],
     rb_users = [ex_user ''ann'' ''A'' RoleOwner, ex_user ''ed'' ''A'' RoleEditor, ex_user ''bob'' ''B'' RoleOwner],
     rb_teams = [], rb_sessions = [(hex_encode ''tok'', ex_session ''s1'' ''ann'' ''A'')], rb_keys = [],
     rb_invites = [(hex_encode ''inv'', ex_invite)], rb_audit = [], rb_ok = True, rb_fk = True\<rparr>"

definition ex_body :: Body where
  "ex_body = \<lparr>b_LoginRequest = Some (''ed'', ''pw''), b_UserCreate = Some \<lparr>c_Email = ''Joe '', c_Password = ''x'', c_Name = ''Joe'', c_Role = RoleAdmin\<rparr>,
     b_UserUpdate = None, b_Team = None, b_APIKeyCreate = None, b_InviteRequest = None, b_AcceptInvite = None, b_Organization = None,
     b_PasswordChange = None\<rparr>"

definition ex_request :: "string \<Rightarrow> string \<Rightarrow> string \<Rightarrow> Request" where
  "ex_request verb path auth = \<lparr>r_Method = verb, r_Path = path, r_Authorization = auth, r_APIKey = [], r_Cookie = None, r_UserAgent = [],
     r_RemoteAddr = [], r_ForwardedFor = [], r_Origin = [], r_TLS = False, r_Body = ex_body, ContextKeyUser = None,
     ContextKeySession = None, ContextKeyAPIKey = None, ContextKeyOrgID = None\<rparr>"

lemmas ex_defs = ex_env_def ex_user_def ex_session_def ex_org_def ex_invite_def ex_db_def ex_body_def ex_request_def

lemma ex_db_wf: "rbac_wf ex_db"
  by (simp add: rbac_wf_def ex_defs session_owner_def user_orgs_def)

lemma ex_db_invites: "no_owner_invites ex_db"
  by (simp add: no_owner_invites_def ex_defs)

text \<open>The session of the first owner.\<close>

lemma ex_split: "split_space ''Bearer tok'' = Some (''Bearer'', ''tok'')"
  by code_simp

lemma ex_lower: "to_lower ''Bearer'' = ''bearer''"
  by code_simp

lemma ex_auth:
  "extractAuth ex_env (ex_request verb path ''Bearer tok'') ex_db =
     (Inr (ex_user ''ann'' ''A'' RoleOwner, Some (ex_session ''s1'' ''ann'' ''A''), None), ex_db)"
  by (simp add: extractAuth_def validateAuthHeader_def by_session_def ValidateSession_def GetSessionByToken_def query_row_def
    HashToken_def GetUser_def ex_defs ex_split ex_lower del: hex_encode_def)

section \<open>Tenants and roles\<close>


lemma ex_path: "path \<in> {''/api/users'', ''/api/auth/invites''} \<Longrightarrow> path \<notin> set publicExact"
  by (auto simp: publicExact_def)




text \<open>Any sequence of requests, with or without credentials.\<close>

inductive served :: "Auth \<Rightarrow> RbacDB \<Rightarrow> RbacDB \<Rightarrow> bool" for a where
  served_none: "served a db db"
| served_request: "served a db db1 \<Longrightarrow> served a db (snd (serve a other e r db1))"

lemma no_owner_invites_grants: "no_owner_invites db \<Longrightarrow> grants_below 4 db db' \<Longrightarrow> no_owner_invites db'"
proof -
  assume "no_owner_invites db" "grants_below 4 db db'"
  then have "snd ` set (rb_invites db) \<subseteq> {i. i_Role i \<noteq> RoleOwner}"
    "snd ` set (rb_invites db') \<subseteq> snd ` set (rb_invites db) \<union> {i. i_Role i \<noteq> RoleOwner}"
    by (simp_all add: no_owner_invites_def grants_below_def role_rank_owner image_subset_iff)
  then have "snd ` set (rb_invites db') \<subseteq> {i. i_Role i \<noteq> RoleOwner}" by blast
  then show ?thesis by (simp add: no_owner_invites_def image_subset_iff)
qed

lemma served_keeps:
  assumes "served a db db'" "rbac_wf db" "no_owner_invites db"
  shows "rbac_wf db' \<and> no_owner_invites db' \<and> grants_below 4 db db'"
  using assms
proof (induction rule: served.induct)
  case (served_none db)
  then show ?case by (simp add: grants_below_def)
next
  case (served_request db db1 other e r)
  then have ih: "rbac_wf db1" "no_owner_invites db1" "grants_below 4 db db1" by blast+
  obtain x where "tenant_step x 4 db1 (snd (serve a other e r db1))" using serve_step [OF ih(1, 2)] by blast
  then have "rbac_wf (snd (serve a other e r db1))" "grants_below 4 db1 (snd (serve a other e r db1))" by (simp_all add: tenant_step_def)
  then show ?case using ih no_owner_invites_grants grants_below_trans by blast
qed



section \<open>Credentials\<close>

text \<open>The token of a request, and what makes a token stand for a user.\<close>

definition presented :: "Request \<Rightarrow> string \<Rightarrow> bool" where
  "presented r t \<longleftrightarrow> (\<exists>scheme. split_space (r_Authorization r) = Some (scheme, t)) \<or> r_APIKey r = t \<or> r_Cookie r = Some t"

definition live_session :: "auth_env \<Rightarrow> RbacDB \<Rightarrow> User \<Rightarrow> string \<Rightarrow> bool" where
  "live_session e db u t \<longleftrightarrow>
     u_IsActive u \<and> (\<exists>s. (HashToken e t, s) \<in> set (rb_sessions db) \<and> s_UserID s = u_ID u \<and> e_now e \<le> s_ExpiresAt s)"

definition live_key :: "auth_env \<Rightarrow> RbacDB \<Rightarrow> User \<Rightarrow> string \<Rightarrow> bool" where
  "live_key e db u t \<longleftrightarrow>
     (\<exists>k. (HashToken e t, k) \<in> set (rb_keys db) \<and> k_UserID k = u_ID u \<and> k_IsActive k \<and> (\<forall>x. k_ExpiresAt k = Some x \<longrightarrow> e_now e \<le> x))"

lemma by_session_live: "by_session e t db = (Inr (u, cred), db1) \<Longrightarrow> u \<in> set (rb_users db) \<and> live_session e db u t"
  using ValidateSession_Inr [of e t db u] unfolding by_session_def live_session_def
  by (auto simp: not_less split: prod.splits sum.splits)

lemma by_api_key_live:
  assumes "by_api_key e t db = (Inr (u, cred), db1)"
  shows "u \<in> set (rb_users db) \<and> live_key e db u t"
proof -
  obtain k where k: "GetAPIKeyByHash (HashToken e t) db = Inr k" "k_IsActive k" "GetUser (k_UserID k) db = Inr u"
      "\<not> (case k_ExpiresAt k of None \<Rightarrow> False | Some x \<Rightarrow> x < e_now e)"
    using assms by (auto simp: by_api_key_def ValidateAPIKey_def split: prod.splits sum.splits if_splits)
  then show ?thesis
    using GetAPIKeyByHash_Inr [OF k(1)] GetUser_Inr [OF k(3)] unfolding live_key_def
    by (intro conjI exI [of _ k]) (auto simp: not_less split: option.splits)
qed

lemma extractAuth_cases:
  "extractAuth e r db = (Inl ErrInvalidToken, db) \<or>
   (\<exists>t. presented r t \<and> extractAuth e r db \<in> {by_session e t db, by_api_key e t db})"
proof (cases "r_Authorization r = []")
  case True
  then show ?thesis by (auto simp: extractAuth_def presented_def split: option.split)
next
  case False
  then have eq: "extractAuth e r db = validateAuthHeader e (r_Authorization r) db" by (simp add: extractAuth_def)
  show ?thesis
  proof (cases "split_space (r_Authorization r)")
    case None
    then show ?thesis unfolding eq by (simp add: validateAuthHeader_def)
  next
    case (Some p)
    then have "presented r (snd p)" by (cases p) (simp add: presented_def)
    then show ?thesis unfolding eq using Some by (cases p) (auto simp: validateAuthHeader_def)
  qed
qed

lemma extractAuth_live:
  assumes "extractAuth e r db = (Inr (u, cred), db1)"
  shows "u \<in> set (rb_users db) \<and> (\<exists>t. presented r t \<and> (live_session e db u t \<or> live_key e db u t))"
proof -
  obtain t where t: "presented r t" "extractAuth e r db \<in> {by_session e t db, by_api_key e t db}"
    using extractAuth_cases [of e r db] assms by auto
  then have "by_session e t db = (Inr (u, cred), db1) \<or> by_api_key e t db = (Inr (u, cred), db1)" using assms by simp metis
  then show ?thesis using t(1) by_session_live by_api_key_live by blast
qed

text \<open>A refused request changes no table but that of sessions.\<close>

definition other_tables_same :: "RbacDB \<Rightarrow> RbacDB \<Rightarrow> bool" where
  "other_tables_same db db1 \<longleftrightarrow> db1 = db\<lparr>rb_sessions := rb_sessions db1\<rparr>"

lemma ValidateSession_refused: "other_tables_same db (snd (ValidateSession e t db))"
  by (simp add: other_tables_same_def ValidateSession_def DeleteSession_def exec_def split: sum.split)

lemma extractAuth_refused:
  assumes "extractAuth e r db = (Inl err, db1)"
  shows "other_tables_same db db1"
proof -
  have s: "other_tables_same db d" if "by_session e t db = (Inl err', d)" for t err' d
    using that ValidateSession_refused [of db e t] by (simp add: by_session_def split: prod.splits sum.splits)
  have k: "other_tables_same db d" if "by_api_key e t db = (Inl err', d)" for t err' d
    using that by (simp add: by_api_key_def ValidateAPIKey_def other_tables_same_def split: prod.splits sum.splits if_splits)
  consider "db1 = db" | t where "extractAuth e r db = by_session e t db" | t where "extractAuth e r db = by_api_key e t db"
    using extractAuth_cases [of e r db] assms by auto
  then show ?thesis
  proof cases
    case 1
    then show ?thesis by (simp add: other_tables_same_def)
  next
    case (2 t)
    then have "by_session e t db = (Inl err, db1)" using assms by simp
    then show ?thesis by (rule s)
  next
    case (3 t)
    then have "by_api_key e t db = (Inl err, db1)" using assms by simp
    then show ?thesis by (rule k)
  qed
qed

text \<open>C25. Below \<open>/api/\<close>, apart from the routes listed as public, ingest, socket and single sign-on, the gate lets a request
  through to the handler behind it only as a user whose unexpired session (and then the account is active) or
  unexpired active API key it presents; every other request gets status 401 without reaching the handler.\<close>

theorem api_requires_credentials:
  assumes "has_prefix (r_Path r) ''/api/''" "r_Path r \<notin> set publicExact \<union> set ingestPaths \<union> {''/api/ws''}"
    "\<not> list_ex (has_prefix (r_Path r)) ssoPrefixes"
  shows "(\<exists>db1. AuthMiddleware True e handle r db = (HttpError 401 ''unauthorized'', db1) \<and> other_tables_same db db1) \<or>
    (\<exists>u cred db1 t. AuthMiddleware True e handle r db = handle (with_credentials (u, cred) r) db1 \<and> u \<in> set (rb_users db) \<and>
       presented r t \<and> (live_session e db u t \<or> live_key e db u t))"
proof -
  have gate: "AuthMiddleware True e handle r db = Authenticate e handle r db"
    using assms api_not_public_prefix [OF assms(1)] by (simp add: AuthMiddleware_def)
  obtain out db1 where out: "extractAuth e r db = (out, db1)" by fastforce
  show ?thesis
  proof (cases out)
    case (Inl err)
    then show ?thesis using out extractAuth_refused unfolding gate by (simp add: Authenticate_def)
  next
    case (Inr c)
    then have "extractAuth e r db = (Inr (fst c, snd c), db1)" using out by simp
    note live = extractAuth_live [OF this]
    have "AuthMiddleware True e handle r db = handle (with_credentials (fst c, snd c) r) db1"
      unfolding gate using out Inr by (simp add: Authenticate_def)
    with live show ?thesis by blast
  qed
qed

text \<open>The redirect that ends a sign-on with an OAuth provider is below \<open>/api/auth/callback/\<close>, which the gate does not
  list: without a session it is refused.\<close>

theorem api_requires_credentials_witness:
  "fst (AuthMiddleware True ex_env (\<lambda>r db. (Aborted, db)) (ex_request ''GET'' ''/api/auth/callback/google'' []) ex_db) = HttpError 401 ''unauthorized''"
proof -
  let ?r = "ex_request ''GET'' ''/api/auth/callback/google'' []"
  have gated: "has_prefix (r_Path ?r) ''/api/''" "r_Path ?r \<notin> set publicExact \<union> set ingestPaths \<union> {''/api/ws''}"
    "\<not> list_ex (has_prefix (r_Path ?r)) ssoPrefixes"
    by (simp_all add: ex_request_def has_prefix_def publicExact_def ingestPaths_def ssoPrefixes_def)
  have "\<not> live_session ex_env ex_db u []" "\<not> live_key ex_env ex_db u []" for u
    by (simp_all add: live_session_def live_key_def ex_db_def HashToken_def ex_env_def hex_encode_def)
  moreover have "t = []" if "presented ?r t" for t using that by (auto simp: presented_def ex_request_def split_space_def)
  ultimately show ?thesis
    using api_requires_credentials [OF gated, of ex_env "\<lambda>r db. (Aborted, db)" ex_db] by auto
qed

end
