(* ===== verification/Rbac_Sessions.thy ===== *)
theory Rbac_Sessions
  imports Rbac_Guarantees
begin

text \<open>
  The life of a session and of an invitation: from the operation that makes the token to the one that ends it.
\<close>

section \<open>Rows\<close>

lemma find_last_hash: "h \<notin> fst ` set rows \<Longrightarrow> find (\<lambda>(h', y). h' = h) (rows @ [(h, y)]) = Some (h, y)"
  by (induction rows) auto

lemma find_no_hash: "h \<notin> fst ` set rows \<Longrightarrow> find (\<lambda>(h', y). h' = h) rows = None"
  by (induction rows) auto

lemma find_distinct: "distinct (map f rows) \<Longrightarrow> r \<in> set rows \<Longrightarrow> find (\<lambda>y. f y = f r) rows = Some r"
  by (induction rows) (auto simp: image_iff)

lemma find_map_key: "(\<And>r. key (f r) = key r) \<Longrightarrow> find (\<lambda>y. key y = i) (map f rows) = map_option f (find (\<lambda>y. key y = i) rows)"
  by (induction rows) auto

section \<open>Sessions\<close>

lemma GetUser_after_update:
  assumes "distinct (map u_ID (rb_users db))" "w \<in> set (rb_users db)" "rb_ok db" "u_ID t = u_ID w"
  shows "GetUser (u_ID w) (snd (UpdateUser now t db)) \<in> {Inr w, Inr (update_user_row now t w)}"
proof -
  have f: "find (\<lambda>u. u_ID u = u_ID w) (rb_users db) = Some w" by (rule find_distinct [OF assms(1, 2)])
  have "find (\<lambda>u. u_ID u = u_ID w) (map (\<lambda>u. if u_ID u = u_ID t then update_user_row now t u else u) (rb_users db)) =
      map_option (\<lambda>u. if u_ID u = u_ID t then update_user_row now t u else u) (find (\<lambda>u. u_ID u = u_ID w) (rb_users db))"
    by (rule find_map_key) (simp add: update_user_row_def)
  then show ?thesis using f assms(3, 4) by (simp add: GetUser_def UpdateUser_def exec_def query_row_def)
qed

text \<open>What a login that succeeds leaves behind.\<close>

lemma start_session_Inr:
  assumes "start_session a e user password ua ip db = (Inr resp, db1)" "distinct (map u_ID (rb_users db))" "user \<in> set (rb_users db)"
  obtains s where "rb_ok db1" "rb_sessions db1 = rb_sessions db @ [(HashToken e (lr_Token resp), s)]" "s_UserID s = u_ID user"
    "s_ExpiresAt s = whole_second (lr_ExpiresAt resp)" "u_ID (lr_User resp) = u_ID user" "lr_ExpiresAt resp = e_now e + sessionExpiry a"
    "\<exists>w. GetUser (u_ID user) db1 = Inr w \<and> u_IsActive w \<and> u_ID w = u_ID user \<and> u_OrgID w = u_OrgID user"
proof -
  obtain token where active: "u_IsActive user" and token: "GenerateToken e = Inr token"
    using assms(1) by (auto simp: start_session_def split: if_splits sum.splits)
  define s where "s = \<lparr>s_ID = ''sess_'' @ int_str (e_now e), s_UserID = u_ID user, s_OrgID = u_OrgID user, s_Token = token,
     s_UserAgent = ua, s_IPAddress = ip, s_ExpiresAt = e_now e + sessionExpiry a, s_CreatedAt = zero_time\<rparr>"
  define user1 where "user1 = user\<lparr>u_LastLoginAt := Some (e_now e)\<rparr>"
  obtain db2 where c: "CreateSession (e_now e) s (HashToken e token) db = (Inr (), db2)" and
    resp: "resp = \<lparr>lr_Token = token, lr_ExpiresAt = s_ExpiresAt s, lr_User = user1\<lparr>u_UpdatedAt := e_now e\<rparr>\<rparr>" and
    db1: "db1 = snd (UpdateUser (e_now e) user1 db2)"
    using assms(1) token by (auto simp: start_session_def Let_def s_def user1_def split: if_splits prod.splits sum.splits)
  let ?row = "(HashToken e token, s\<lparr>s_Token := [], s_ExpiresAt := whole_second (s_ExpiresAt s), s_CreatedAt := whole_second (e_now e)\<rparr>)"
  have ok: "rb_ok db" and db2: "db2 = db\<lparr>rb_sessions := rb_sessions db @ [?row]\<rparr>"
    using c by (simp_all add: CreateSession_def exec_def split: if_splits)
  have "GetUser (u_ID user) db1 \<in> {Inr user, Inr (update_user_row (e_now e) user1 user)}"
    unfolding db1 using assms(2, 3) ok by (intro GetUser_after_update) (simp_all add: db2 user1_def)
  then have u: "\<exists>w. GetUser (u_ID user) db1 = Inr w \<and> u_IsActive w \<and> u_ID w = u_ID user \<and> u_OrgID w = u_OrgID user"
    using active by (auto simp: update_user_row_def user1_def)
  show ?thesis
    by (rule that [of "snd ?row", OF _ _ _ _ _ _ u]) (simp_all add: db1 db2 resp UpdateUser_def exec_def ok s_def user1_def)
qed

lemma ValidateSession_last:
  assumes "rb_ok db" "rb_sessions db = rows @ [(HashToken e token, s)]" "HashToken e token \<notin> fst ` set rows"
  shows "e_now e \<le> s_ExpiresAt s \<Longrightarrow> GetUser (s_UserID s) db = Inr w \<Longrightarrow> u_IsActive w \<Longrightarrow> ValidateSession e token db = (Inr (w, s), db)"
    "s_ExpiresAt s < e_now e \<Longrightarrow> ValidateSession e token db = (Inl ErrSessionExpired, snd (DeleteSession (s_ID s) db))"
    "Logout e token db = DeleteSession (s_ID s) db"
    "fst (ValidateSession e token (snd (DeleteSession (s_ID s) db))) = Inl ErrInvalidToken"
proof -
  have g: "GetSessionByToken (HashToken e token) db = Inr s"
    using find_last_hash [OF assms(3)] assms(1, 2) by (simp add: GetSessionByToken_def query_row_def)
  show "ValidateSession e token db = (Inr (w, s), db)" if "e_now e \<le> s_ExpiresAt s" "GetUser (s_UserID s) db = Inr w" "u_IsActive w"
    using that g by (simp add: ValidateSession_def not_less)
  show "ValidateSession e token db = (Inl ErrSessionExpired, snd (DeleteSession (s_ID s) db))" if "s_ExpiresAt s < e_now e"
    using that g by (simp add: ValidateSession_def)
  show "Logout e token db = DeleteSession (s_ID s) db" using g by (simp add: Logout_def)
  have "HashToken e token \<notin> fst ` set (filter (\<lambda>(h, s'). s_ID s' \<noteq> s_ID s) (rb_sessions db))"
    using assms(2, 3) by (simp add: image_iff)
  from find_no_hash [OF this] show "fst (ValidateSession e token (snd (DeleteSession (s_ID s) db))) = Inl ErrInvalidToken"
    using assms(1) by (simp add: ValidateSession_def GetSessionByToken_def DeleteSession_def exec_def query_row_def)
qed

text \<open>C26. The token of a login stands for the user who logged in, of the organization it was asked for, until the whole second
  of its expiry; after that the first use reports the expiry and removes the session, and from then on, as after
  logging out, the token is unknown.\<close>

theorem login_session_lifecycle:
  assumes "Login a e orgID email password ua ip db = (Inr resp, db1)" "distinct (map u_ID (rb_users db))"
    "HashToken e (lr_Token resp) \<notin> fst ` set (rb_sessions db)" "e_sha256 e' = e_sha256 e"
  shows "lr_ExpiresAt resp = e_now e + sessionExpiry a \<and>
    (if e_now e' \<le> whole_second (lr_ExpiresAt resp)
     then \<exists>u s. ValidateSession e' (lr_Token resp) db1 = (Inr (u, s), db1) \<and> u_ID u = u_ID (lr_User resp) \<and> u_OrgID u = orgID
     else fst (ValidateSession e' (lr_Token resp) db1) = Inl ErrSessionExpired \<and>
       fst (ValidateSession e' (lr_Token resp) (snd (ValidateSession e' (lr_Token resp) db1))) = Inl ErrInvalidToken) \<and>
    fst (ValidateSession e' (lr_Token resp) (snd (Logout e' (lr_Token resp) db1))) = Inl ErrInvalidToken"
proof -
  obtain user where user: "GetUserByEmail orgID email db = Inr user" "start_session a e user password ua ip db = (Inr resp, db1)"
    using assms(1) by (auto simp: Login_def split: sum.splits)
  have u: "user \<in> set (rb_users db)" "u_OrgID user = orgID"
    using find_member [OF query_row_Inr [OF user(1) [unfolded GetUserByEmail_def]]] by simp_all
  obtain s w where s: "rb_ok db1" "rb_sessions db1 = rb_sessions db @ [(HashToken e' (lr_Token resp), s)]" "s_UserID s = u_ID user"
      "s_ExpiresAt s = whole_second (lr_ExpiresAt resp)" "u_ID (lr_User resp) = u_ID user" "lr_ExpiresAt resp = e_now e + sessionExpiry a"
      "GetUser (s_UserID s) db1 = Inr w" "u_IsActive w" "u_ID w = u_ID user" "u_OrgID w = u_OrgID user"
    using start_session_Inr [OF user(2) assms(2) u(1)] assms(4) unfolding HashToken_def by metis
  have fresh: "HashToken e' (lr_Token resp) \<notin> fst ` set (rb_sessions db)" using assms(3, 4) by (simp add: HashToken_def)
  note last = ValidateSession_last [OF s(1, 2) fresh]
  show ?thesis using last(1) [OF _ s(7, 8)] last(2-4) s u(2) by (simp add: not_le)
qed

text \<open>The editor of the small database logs in; at two seconds past the login the token stands for it.\<close>

definition ex_login :: "LoginResponse dbm" where
  "ex_login = Login NewAuth ex_env ''A'' ''ed'' ''pw'' [] [] ex_db"

lemma ex_login_ok: "\<exists>resp db1. ex_login = (Inr resp, db1) \<and> lr_Token resp = base64url ''abc''"
  by (simp add: ex_login_def Login_def GetUserByEmail_def query_row_def start_session_def CheckPassword_def GenerateToken_def
    CreateSession_def exec_def has_user_def Let_def ex_db_def ex_user_def ex_env_def ex_session_def)

lemma ex_base64: "base64url ''abc'' = ''YWJj''"
  by (simp add: b64_char_def b64_alphabet_def)

lemma ex_hex: "hex_encode ''YWJj'' \<noteq> hex_encode ''tok''"
  by (simp add: hex_encode_def)

theorem login_session_lifecycle_witness:
  "\<exists>resp db1 u s. ex_login = (Inr resp, db1) \<and> ValidateSession (ex_env\<lparr>e_now := 7000000000\<rparr>) (lr_Token resp) db1 = (Inr (u, s), db1) \<and> u_OrgID u = ''A''"
proof -
  obtain resp db1 where ok: "ex_login = (Inr resp, db1)" "lr_Token resp = base64url ''abc''" using ex_login_ok by blast
  have "HashToken ex_env (lr_Token resp) \<notin> fst ` set (rb_sessions ex_db)"
    unfolding ok(2) ex_base64 by (simp add: ex_db_def ex_env_def HashToken_def ex_hex)
  moreover have "distinct (map u_ID (rb_users ex_db))" using ex_db_wf by (simp add: rbac_wf_def)
  ultimately show ?thesis
    using login_session_lifecycle [OF ok(1) [unfolded ex_login_def], of "ex_env\<lparr>e_now := 7000000000\<rparr>"] ok(1)
    by (simp add: ex_env_def NewAuth_def defaultSessionExpiry_def whole_second_def split: if_splits) blast
qed

section \<open>Invitations\<close>

lemma CreateUser_Inr:
  assumes "CreateUser a e x req db = (Inr u, db2)"
  shows "u_OrgID u = x" "u_Role u = c_Role req" "u_Email u = to_lower (TrimSpace (c_Email req))" "rb_ok db"
    "u_ID u \<notin> u_ID ` set (rb_users db)" "u_ID u \<in> u_ID ` set (rb_users db2)" "rb_invites db2 = rb_invites db" "rb_ok db2"
proof -
  obtain v where v: "u_OrgID v = x" "u_Role v = c_Role req" "u_Email v = to_lower (TrimSpace (c_Email req))" and
    c: "CreateUserRow (e_now e) v db = (Inr (), db2)" "u = v"
    using assms by (simp add: CreateUser_def Let_def split: sum.splits prod.splits) (metis User.select_convs(2, 3, 6))
  then show "u_OrgID u = x" "u_Role u = c_Role req" "u_Email u = to_lower (TrimSpace (c_Email req))" by simp_all
  have "rb_ok db" "u_ID u \<notin> u_ID ` set (rb_users db)"
    "db2 = db\<lparr>rb_users := rb_users db @ [u\<lparr>u_LastLoginAt := None, u_CreatedAt := whole_second (e_now e), u_UpdatedAt := whole_second (e_now e)\<rparr>]\<rparr>"
    using c by (simp_all add: CreateUserRow_def exec_def split: if_splits)
  then show "rb_ok db" "u_ID u \<notin> u_ID ` set (rb_users db)" "u_ID u \<in> u_ID ` set (rb_users db2)" "rb_invites db2 = rb_invites db" "rb_ok db2"
    by simp_all
qed

text \<open>An invitation that is accepted was there and not expired, and makes one user, with its role, in its organization and
  with its address; the same token is then refused, whatever the password and the time.\<close>

theorem invite_accepted_once:
  assumes "AcceptInvite a e token password name db = (Inr u, db1)" "distinct (map fst (rb_invites db))" "e_sha256 e' = e_sha256 e"
  shows "\<exists>i. (HashToken e token, i) \<in> set (rb_invites db) \<and> e_now e \<le> i_ExpiresAt i \<and>
    u_OrgID u = i_OrgID i \<and> u_Role u = i_Role i \<and> u_Email u = to_lower (TrimSpace (i_Email i)) \<and>
    u_ID u \<in> u_ID ` set (rb_users db1) \<and> u_ID u \<notin> u_ID ` set (rb_users db) \<and>
    AcceptInvite a' e' token password' name' db1 = (Inl ErrInvalidInvite, db1)"
proof -
  obtain i where i: "GetInviteByToken (HashToken e token) db = Inr i" "\<not> i_ExpiresAt i < e_now e"
    using assms(1) by (auto simp: AcceptInvite_def split: sum.splits if_splits)
  let ?req = "\<lparr>c_Email = i_Email i, c_Password = password, c_Name = name, c_Role = i_Role i\<rparr>"
  obtain db2 where c: "CreateUser a e (i_OrgID i) ?req db = (Inr u, db2)" and db1: "db1 = snd (DeleteInvite (i_ID i) db2)"
    using assms(1) i by (auto simp: AcceptInvite_def split: sum.splits if_splits prod.splits)
  note u = CreateUser_Inr [OF c, simplified]
  have row: "(HashToken e token, i) \<in> set (rb_invites db)" by (rule GetInviteByToken_Inr [OF i(1)])
  have "HashToken e token \<notin> fst ` set (filter (\<lambda>(h, j). i_ID j \<noteq> i_ID i) (rb_invites db))"
  proof
    assume "HashToken e token \<in> fst ` set (filter (\<lambda>(h, j). i_ID j \<noteq> i_ID i) (rb_invites db))"
    then obtain r where r: "r \<in> set (rb_invites db)" "i_ID (snd r) \<noteq> i_ID i" "fst r = HashToken e token" by force
    then have "r = (HashToken e token, i)" using distinct_key [OF assms(2) r(1) row] by simp
    then show False using r(2) by simp
  qed
  from find_no_hash [OF this] have "GetInviteByToken (HashToken e' token) db1 = Inl ''sql: no rows in result set''"
    using u(7, 8) assms(3) by (simp add: GetInviteByToken_def db1 DeleteInvite_def exec_def query_row_def HashToken_def)
  then have "AcceptInvite a' e' token password' name' db1 = (Inl ErrInvalidInvite, db1)" by (simp add: AcceptInvite_def)
  moreover have "rb_users db1 = rb_users db2" by (simp add: db1 DeleteInvite_def exec_def)
  ultimately show ?thesis using row i(2) u by (intro exI [of _ i]) (simp add: not_less)
qed

lemma ex_trim: "to_lower (TrimSpace ''new'') = ''new''"
  by (simp add: to_lower_def TrimSpace_def Let_def is_blank_def ascii_lower_def)

theorem invite_accepted_once_witness:
  "\<exists>u db1. AcceptInvite NewAuth ex_env ''inv'' ''pw'' ''Nia'' ex_db = (Inr u, db1) \<and> u_Role u = RoleViewer \<and>
     AcceptInvite NewAuth ex_env ''inv'' ''pw'' ''Nia'' db1 = (Inl ErrInvalidInvite, db1)"
proof -
  have "\<exists>u db1. AcceptInvite NewAuth ex_env ''inv'' ''pw'' ''Nia'' ex_db = (Inr u, db1) \<and> u_Role u = RoleViewer"
    by (simp add: AcceptInvite_def GetInviteByToken_def query_row_def GetUserByEmail_def CreateUser_def HashPassword_def CreateUserRow_def
      exec_def has_org_def Let_def HashToken_def ex_defs ex_trim)
  then obtain u db1 where ok: "AcceptInvite NewAuth ex_env ''inv'' ''pw'' ''Nia'' ex_db = (Inr u, db1)" "u_Role u = RoleViewer" by blast
  then show ?thesis using invite_accepted_once [OF ok(1), of ex_env NewAuth "''pw''" "''Nia''"] by (auto simp: ex_db_def)
qed

end
