(* ===== verification/Web_Front.thy ===== *)
theory Web_Front
  imports Web_Limiting Rbac_Sessions
begin

text \<open>
  What stands in front of the routes: \<open>security.go\<close>, \<open>bodylimit.go\<close> and \<open>recovery.go\<close> of \<open>internal/web\<close>, and the chain
  that \<open>server.go\<close> builds of them, the rate limiter and the gate. The optional middleware that sheds load when memory
  is short is left out. A request comes with the headers these read beside those of \<open>Request\<close>; \<open>w_Read\<close> is the
  number of bytes a handler reads to decode the body.
\<close>

record FrontRequest =
  w_Request :: Request
  w_Accept :: string
  w_CSRF :: string
  w_Form :: string
  w_RealIP :: string
  w_Read :: int

section \<open>CSRF tokens\<close>

record CSRFTokenStore =
  cs_tokens :: "(string \<times> go_time) list"
  cs_ttl :: duration

definition NewCSRFTokenStore :: "duration \<Rightarrow> CSRFTokenStore" where
  "NewCSRFTokenStore ttl = \<lparr>cs_tokens = [], cs_ttl = ttl\<rparr>"

text \<open>\<open>b\<close> are the 32 random bytes; an error of the generator is not looked at and leaves them zero.\<close>

definition Generate :: "go_time \<Rightarrow> string \<Rightarrow> CSRFTokenStore \<Rightarrow> string \<times> CSRFTokenStore" where
  "Generate now b s = (base64url b, s\<lparr>cs_tokens := AList.update (base64url b) (now + cs_ttl s) (cs_tokens s)\<rparr>)"

definition Invalidate :: "string \<Rightarrow> CSRFTokenStore \<Rightarrow> CSRFTokenStore" where
  "Invalidate token s = s\<lparr>cs_tokens := AList.delete token (cs_tokens s)\<rparr>"

definition Validate :: "go_time \<Rightarrow> string \<Rightarrow> CSRFTokenStore \<Rightarrow> bool \<times> CSRFTokenStore" where
  "Validate now token s =
     (case map_of (cs_tokens s) token of
        None \<Rightarrow> (False, s)
      | Some expiry \<Rightarrow> if expiry < now then (False, Invalidate token s) else (True, s))"

definition csrf_cleanup :: "go_time \<Rightarrow> CSRFTokenStore \<Rightarrow> CSRFTokenStore" where
  "csrf_cleanup now s = s\<lparr>cs_tokens := filter (\<lambda>(token, expiry). \<not> expiry < now) (cs_tokens s)\<rparr>"

section \<open>Security headers and CSRF protection\<close>

record SecurityConfig =
  sc_CSPDirectives :: "(string \<times> string list) list"
  sc_FrameOptions :: string
  sc_XSSProtection :: bool
  sc_NoSniff :: bool
  sc_ReferrerPolicy :: string
  sc_CSRFEnabled :: bool
  sc_CSRFTokenName :: string
  sc_CSRFSkipPaths :: "string list"
  sc_CSRFMethods :: "string list"

definition quoted :: "string \<Rightarrow> string" where "quoted s = [CHR 0x27] @ s @ [CHR 0x27]"

definition DefaultSecurityConfig :: SecurityConfig where
  "DefaultSecurityConfig =
     \<lparr>sc_CSPDirectives =
        [(''default-src'', [quoted ''self'']), (''script-src'', [quoted ''self'']), (''style-src'', [quoted ''self'', quoted ''unsafe-inline'']),
         (''font-src'', [quoted ''self'']), (''img-src'', [quoted ''self'', ''data:'', ''blob:'']), (''connect-src'', [quoted ''self'', ''ws:'', ''wss:'']),
         (''worker-src'', [quoted ''self'', ''blob:'']), (''frame-ancestors'', [quoted ''none''])],
      sc_FrameOptions = ''DENY'', sc_XSSProtection = True, sc_NoSniff = True, sc_ReferrerPolicy = ''strict-origin-when-cross-origin'',
      sc_CSRFEnabled = True, sc_CSRFTokenName = ''X-CSRF-Token'',
      sc_CSRFSkipPaths = [''/health'', ''/ready'', ''/healthz'', ''/readyz'', ''/livez'', ''/api/health'', ''/api/ready'', ''/api/auth/login'',
        ''/api/auth/logout'', ''/v1/traces'', ''/v1/metrics'', ''/api/v1/write'', ''/api/logs/ingest''],
      sc_CSRFMethods = [''POST'', ''PUT'', ''DELETE'', ''PATCH'']\<rparr>"

text \<open>The directives in the order of the list, which stands for the order in which the map is read.\<close>

definition buildCSP :: "(string \<times> string list) list \<Rightarrow> string" where
  "buildCSP directives = join (map (\<lambda>(directive, vs). directive @ '' '' @ join vs '' '') directives) ''; ''"

definition security_headers :: "SecurityConfig \<Rightarrow> (string \<times> string) list" where
  "security_headers config =
     [(''Content-Security-Policy'', buildCSP (sc_CSPDirectives config)), (''X-Frame-Options'', sc_FrameOptions config),
      (''X-Content-Type-Options'', ''nosniff''), (''Referrer-Policy'', sc_ReferrerPolicy config)] @
     (if sc_XSSProtection config then [(''X-XSS-Protection'', ''1; mode=block'')] else [])"

definition hasAPIKeyAuth :: "Request \<Rightarrow> bool" where
  "hasAPIKeyAuth r \<longleftrightarrow>
     r_APIKey r \<noteq> [] \<or>
     (r_Authorization r \<noteq> [] \<and>
      (has_prefix (to_lower (r_Authorization r)) ''apikey '' \<or> has_prefix (to_lower (r_Authorization r)) ''bearer dw_''))"

definition isHTMLRequest :: "FrontRequest \<Rightarrow> bool" where
  "isHTMLRequest w =
     (let path = r_Path (w_Request w)
      in if path = ''/'' \<or> has_suffix path ''.html'' then True
         else contains_sub (w_Accept w) ''text/html'' \<and> \<not> has_prefix path ''/api/'' \<and> \<not> has_prefix path ''/v1/'')"

text \<open>Whether a request passes without a look at its token.\<close>

definition csrf_exempt :: "SecurityConfig \<Rightarrow> Request \<Rightarrow> bool" where
  "csrf_exempt config r \<longleftrightarrow>
     r_Path r \<in> set (sc_CSRFSkipPaths config) \<or> has_prefix (r_Path r) ''/api/folders'' \<or> has_prefix (r_Path r) ''/api/dashboards'' \<or>
     hasAPIKeyAuth r"

definition csrf_token :: "FrontRequest \<Rightarrow> string" where
  "csrf_token w = (if w_CSRF w = [] then w_Form w else w_CSRF w)"

text \<open>\<open>None\<close> when the request is refused with status 403, otherwise the cookie that is set, if any.\<close>

definition SecurityMiddleware :: "SecurityConfig \<Rightarrow> go_time \<Rightarrow> string \<Rightarrow> FrontRequest \<Rightarrow> CSRFTokenStore \<Rightarrow> Cookie option option \<times> CSRFTokenStore" where
  "SecurityMiddleware config now b w s =
     (let r = w_Request w
      in if csrf_exempt config r then (Some None, s)
         else case (if sc_CSRFEnabled config \<and> r_Method r \<in> set (sc_CSRFMethods config)
                    then (if csrf_token w = [] then (False, s) else Validate now (csrf_token w) s)
                    else (True, s)) of
           (False, s1) \<Rightarrow> (None, s1)
         | (True, s1) \<Rightarrow>
             if r_Method r = ''GET'' \<and> isHTMLRequest w
             then (case Generate now b s1 of
                     (token, s2) \<Rightarrow> (Some (Some \<lparr>ck_Value = token, ck_MaxAge = 14400, ck_Secure = r_TLS r, ck_Strict = True\<rparr>), s2))
             else (Some None, s1))"

section \<open>Bodies and panics\<close>

definition body_limit :: "int \<Rightarrow> int \<Rightarrow> Request \<Rightarrow> int option" where
  "body_limit defaultLimit ingestLimit r =
     (if r_Method r \<in> {''GET'', ''HEAD'', ''OPTIONS''} then None
      else if has_prefix (r_Path r) ''/v1/'' \<or> r_Path r = ''/api/logs/ingest'' \<or> r_Path r = ''/api/v1/write'' \<or>
              has_prefix (r_Path r) ''/api/graphite/'' \<or> has_prefix (r_Path r) ''/api/influx/'' \<or> has_prefix (r_Path r) ''/api/opentsdb/'' \<or>
              has_prefix (r_Path r) ''/api/statsd/'' \<or> has_prefix (r_Path r) ''/api/datadog/''
      then Some ingestLimit
      else Some defaultLimit)"

definition no_body :: Body where
  "no_body = \<lparr>b_LoginRequest = None, b_UserCreate = None, b_UserUpdate = None, b_Team = None, b_APIKeyCreate = None,
     b_InviteRequest = None, b_AcceptInvite = None, b_Organization = None, b_PasswordChange = None\<rparr>"

text \<open>A reader that stops at the limit: decoding that needs more bytes fails.\<close>

definition BodyLimitMiddleware :: "int \<Rightarrow> int \<Rightarrow> FrontRequest \<Rightarrow> Request" where
  "BodyLimitMiddleware defaultLimit ingestLimit w =
     (case body_limit defaultLimit ingestLimit (w_Request w) of
        None \<Rightarrow> w_Request w
      | Some n \<Rightarrow> if n < w_Read w then (w_Request w)\<lparr>r_Body := no_body\<rparr> else w_Request w)"

definition RecoveryMiddleware :: "Response \<Rightarrow> Response" where
  "RecoveryMiddleware resp = (case resp of Aborted \<Rightarrow> HttpError 500 ''Internal Server Error'' | _ \<Rightarrow> resp)"

section \<open>The chain\<close>

record Server =
  sv_auth :: Auth
  sv_db :: RbacDB
  sv_limiter :: TokenLimiter
  sv_csrf :: CSRFTokenStore

definition refused_429 :: Response where "refused_429 = HttpError 429 ''rate limit exceeded''"
definition refused_403 :: Response where "refused_403 = HttpError 403 ''invalid or missing CSRF token''"

text \<open>Rate limit, CSRF, gate, body limit, routes; \<open>b\<close> are the random bytes of a CSRF token.\<close>

definition front :: "(f64 \<Rightarrow> int) \<Rightarrow> (Request \<Rightarrow> Response) \<Rightarrow> auth_env \<Rightarrow> string \<Rightarrow> FrontRequest \<Rightarrow> Server \<Rightarrow> Response \<times> Server" where
  "front out other e b w sv =
     (case RateLimitMiddleware out DefaultRateLimitConfig (e_now e) (w_RealIP w) (w_Request w) (sv_limiter sv) of
        (Exceeded _ _ _, l) \<Rightarrow> (refused_429, sv\<lparr>sv_limiter := l\<rparr>)
      | (_, l) \<Rightarrow>
          (case SecurityMiddleware DefaultSecurityConfig (e_now e) b w (sv_csrf sv) of
             (None, s) \<Rightarrow> (refused_403, sv\<lparr>sv_limiter := l, sv_csrf := s\<rparr>)
           | (Some _, s) \<Rightarrow>
               (case serve (sv_auth sv) other e (BodyLimitMiddleware (10 * 1024 * 1024) (100 * 1024 * 1024) w) (sv_db sv) of
                  (resp, db) \<Rightarrow> (RecoveryMiddleware resp, sv\<lparr>sv_limiter := l, sv_csrf := s, sv_db := db\<rparr>))))"

definition NewServer :: "Auth \<Rightarrow> RbacDB \<Rightarrow> Server" where
  "NewServer a db =
     \<lparr>sv_auth = a, sv_db = db, sv_limiter = NewTokenLimiter DefaultRateLimitConfig, sv_csrf = NewCSRFTokenStore (4 * hour)\<rparr>"

section \<open>States of the server\<close>

text \<open>The token a request is given, if any, with the time.\<close>

definition issued_token :: "(f64 \<Rightarrow> int) \<Rightarrow> auth_env \<Rightarrow> string \<Rightarrow> FrontRequest \<Rightarrow> Server \<Rightarrow> (go_time \<times> string) list" where
  "issued_token out e b w sv =
     (case RateLimitMiddleware out DefaultRateLimitConfig (e_now e) (w_RealIP w) (w_Request w) (sv_limiter sv) of
        (Exceeded _ _ _, l) \<Rightarrow> []
      | _ \<Rightarrow>
          (case fst (SecurityMiddleware DefaultSecurityConfig (e_now e) b w (sv_csrf sv)) of
             Some (Some ck) \<Rightarrow> [(e_now e, ck_Value ck)]
           | _ \<Rightarrow> []))"

text \<open>Requests and clean-ups in any order, with the tokens given out so far.\<close>

inductive running :: "Auth \<Rightarrow> RbacDB \<Rightarrow> (go_time \<times> string) list \<Rightarrow> Server \<Rightarrow> bool" for a db where
  started: "running a db [] (NewServer a db)"
| requested: "running a db issued sv \<Longrightarrow> running a db (issued @ issued_token out e b w sv) (snd (front out other e b w sv))"
| swept: "running a db issued sv \<Longrightarrow>
    running a db issued (sv\<lparr>sv_csrf := csrf_cleanup t (sv_csrf sv), sv_limiter := token_cleanup t (sv_limiter sv)\<rparr>)"

definition tokens_issued :: "(go_time \<times> string) list \<Rightarrow> CSRFTokenStore \<Rightarrow> bool" where
  "tokens_issued issued s \<longleftrightarrow> cs_ttl s = 4 * hour \<and> (\<forall>(token, expiry) \<in> set (cs_tokens s). (expiry - 4 * hour, token) \<in> set issued)"

lemma set_alist_update: "set (AList.update k v al) \<subseteq> insert (k, v) (set al)"
  by (induction al) auto

lemma tokens_issued_mono: "tokens_issued issued s \<Longrightarrow> tokens_issued (issued @ more_issued) s"
  by (auto simp: tokens_issued_def)

lemma tokens_issued_Validate: "tokens_issued issued s \<Longrightarrow> tokens_issued issued (snd (Validate now token s))"
  by (auto simp: tokens_issued_def Validate_def Invalidate_def AList.delete_eq split: option.split)

lemma tokens_issued_Generate:
  "tokens_issued issued s \<Longrightarrow> tokens_issued (issued @ [(now, fst (Generate now b s))]) (snd (Generate now b s))"
  unfolding tokens_issued_def Generate_def using set_alist_update [of "base64url b" "now + cs_ttl s" "cs_tokens s"] by auto

lemma tokens_issued_security:
  assumes "tokens_issued issued s"
  shows "tokens_issued (issued @ (case fst (SecurityMiddleware config now b w s) of Some (Some ck) \<Rightarrow> [(now, ck_Value ck)] | _ \<Rightarrow> []))
    (snd (SecurityMiddleware config now b w s))"
proof -
  define p where "p = (if sc_CSRFEnabled config \<and> r_Method (w_Request w) \<in> set (sc_CSRFMethods config)
      then (if csrf_token w = [] then (False, s) else Validate now (csrf_token w) s) else (True, s))"
  have "tokens_issued issued (snd p)" using assms tokens_issued_Validate by (simp add: p_def)
  then show ?thesis
    using assms tokens_issued_Generate [of issued "snd p" now b] tokens_issued_mono
    unfolding SecurityMiddleware_def Let_def p_def [symmetric]
    by (cases p) (auto split: bool.split prod.split)
qed

lemma running_tokens: "running a db issued sv \<Longrightarrow> tokens_issued issued (sv_csrf sv)"
proof (induction rule: running.induct)
  case started
  then show ?case by (simp add: NewServer_def tokens_issued_def NewCSRFTokenStore_def)
next
  case (requested issued sv out e b w other)
  then show ?case
    using tokens_issued_security [OF requested.IH, where config = DefaultSecurityConfig and now = "e_now e" and b = b and w = w]
    by (auto simp: front_def issued_token_def split: prod.splits limit_result.splits option.splits)
next
  case (swept issued sv t)
  then show ?case by (auto simp: tokens_issued_def csrf_cleanup_def)
qed

lemma Validate_issued:
  assumes "tokens_issued issued s" "fst (Validate now token s)"
  shows "\<exists>t. (t, token) \<in> set issued \<and> now \<le> t + 4 * hour"
proof -
  obtain expiry where x: "map_of (cs_tokens s) token = Some expiry" "now \<le> expiry"
    using assms(2) by (auto simp: Validate_def not_less split: option.splits if_splits)
  then have "(expiry - 4 * hour, token) \<in> set issued" using assms(1) map_of_SomeD [OF x(1)] by (auto simp: tokens_issued_def)
  then show ?thesis using x(2) by (intro exI [of _ "expiry - 4 * hour"]) simp
qed

text \<open>The database of a running server is one that a sequence of requests leads to, so what holds of those holds here.\<close>

lemma front_db: "sv_auth (snd (front out other e b w sv)) = sv_auth sv"
  "sv_db (snd (front out other e b w sv)) = sv_db sv \<or>
   sv_db (snd (front out other e b w sv)) = snd (serve (sv_auth sv) other e (BodyLimitMiddleware (10 * 1024 * 1024) (100 * 1024 * 1024) w) (sv_db sv))"
  by (simp_all add: front_def split: prod.split limit_result.split option.split)

lemma running_served: "running a db issued sv \<Longrightarrow> sv_auth sv = a \<and> served a db (sv_db sv)"
proof (induction rule: running.induct)
  case started
  then show ?case by (simp add: NewServer_def served_none)
next
  case (requested issued sv out e b w other)
  then show ?case using front_db [of out other e b w sv] served_request [of a db "sv_db sv"] by (metis (no_types))
qed simp

lemma running_owners:
  assumes "running a db issued sv" "rbac_wf db" "no_owner_invites db" "(i, RoleOwner) \<in> user_roles (sv_db sv)"
  shows "(i, RoleOwner) \<in> user_roles db"
proof -
  have "grants_below 4 db (sv_db sv)" using served_keeps [OF _ assms(2, 3)] running_served [OF assms(1)] by blast
  then show ?thesis using assms(4) unfolding grants_below_def by (auto simp: role_rank_owner)
qed

text \<open>C27. Cross-site requests: in every state the server reaches, a request that changes something, on a path and with
  headers that are not exempt, is refused without touching the database unless it carries a token that the server gave
  to a page at most four hours before.\<close>

theorem csrf_protects:
  assumes "running a db issued sv" "r_Method (w_Request w) \<in> {''POST'', ''PUT'', ''DELETE'', ''PATCH''}"
    "\<not> csrf_exempt DefaultSecurityConfig (w_Request w)"
  shows "fst (front out other e b w sv) \<in> {refused_403, refused_429} \<and> sv_db (snd (front out other e b w sv)) = sv_db sv \<or>
    (\<exists>t. (t, csrf_token w) \<in> set issued \<and> e_now e \<le> t + 4 * hour)"
proof (cases "csrf_token w \<noteq> [] \<and> fst (Validate (e_now e) (csrf_token w) (sv_csrf sv))")
  case True
  then show ?thesis using Validate_issued [OF running_tokens [OF assms(1)]] by blast
next
  case False
  have "r_Method (w_Request w) \<in> set (sc_CSRFMethods DefaultSecurityConfig)" "sc_CSRFEnabled DefaultSecurityConfig"
    using assms(2) by (simp_all add: DefaultSecurityConfig_def)
  then have "fst (SecurityMiddleware DefaultSecurityConfig (e_now e) b w (sv_csrf sv)) = None"
    using False assms(3) by (auto simp: SecurityMiddleware_def Let_def split: prod.split bool.split)
  then obtain s where "SecurityMiddleware DefaultSecurityConfig (e_now e) b w (sv_csrf sv) = (None, s)" by (metis prod.collapse)
  then show ?thesis by (simp add: front_def split: prod.split limit_result.split)
qed

text \<open>The endpoint that an identity provider posts SAML assertions to is not exempt: every assertion is refused.\<close>

definition ex_acs :: FrontRequest where
  "ex_acs = \<lparr>w_Request = (ex_request ''POST'' ''/api/auth/saml/acs'' [])\<lparr>r_ForwardedFor := ''127.0.0.1''\<rparr>, w_Accept = [], w_CSRF = [], w_Form = [],
     w_RealIP = [], w_Read = 0\<rparr>"

theorem csrf_protects_witness:
  "fst (front (\<lambda>x. 0) (\<lambda>r. Aborted) ex_env ''abc'' ex_acs (NewServer NewAuth ex_db)) \<in> {refused_403, refused_429}"
proof -
  have "r_Method (w_Request ex_acs) \<in> {''POST'', ''PUT'', ''DELETE'', ''PATCH''}" by (simp add: ex_acs_def ex_request_def)
  moreover have "\<not> csrf_exempt DefaultSecurityConfig (w_Request ex_acs)"
    by (simp add: ex_acs_def ex_request_def csrf_exempt_def hasAPIKeyAuth_def has_prefix_def DefaultSecurityConfig_def)
  ultimately show ?thesis using csrf_protects [OF started, where w = ex_acs and out = "\<lambda>x. 0" and other = "\<lambda>r. Aborted" and e = ex_env and b = "''abc''" and a = NewAuth and db = ex_db] by simp
qed

end
