(* ===== verification/Oncall_Store.thy ===== *)
theory Oncall_Store
  imports Dogwatch_Prelude
begin

text \<open>
  Schedules, overrides, escalation policies and escalation states of \<open>internal/oncall\<close>: the types of
  \<open>schedule.go\<close> and \<open>escalation.go\<close> and the tables of the store. A table is the list of its rows in insertion
  order; a method is the statements it executes. A primary key rejects an insert, the foreign key of the
  overrides is checked when the connection enforces it (\<open>oc_fk\<close>), and every statement fails while the database
  does (\<open>oc_ok\<close>). Columns with a time hold whole seconds; JSON columns hold the value they encode, instants to
  the nanosecond, and nil and empty slices are one. One operation reads the clock once.
\<close>

section \<open>Types\<close>

record OncallUser =
  ou_ID :: string
  ou_Name :: string
  ou_Email :: string
  ou_Phone :: string

record Restriction =
  re_Type :: string
  re_StartTime :: string
  re_EndTime :: string
  re_StartDay :: int
  re_EndDay :: int

record Layer =
  la_ID :: string
  la_Name :: string
  la_Priority :: int
  la_RotationType :: string
  la_HandoffTime :: string
  la_HandoffDay :: int
  la_ShiftDuration :: duration
  la_StartDate :: go_time
  la_EndDate :: "go_time option"
  la_Users :: "OncallUser list"
  la_Restrictions :: "Restriction list"

record Override =
  ov_ID :: string
  ov_UserID :: string
  ov_UserName :: string
  ov_StartTime :: go_time
  ov_EndTime :: go_time
  ov_Reason :: string
  ov_CreatedBy :: string
  ov_CreatedAt :: go_time

record Schedule =
  sd_ID :: string
  sd_Name :: string
  sd_Description :: string
  sd_Timezone :: string
  sd_Teams :: "string list"
  sd_Layers :: "Layer list"
  sd_Overrides :: "Override list"
  sd_CreatedAt :: go_time
  sd_UpdatedAt :: go_time

record OnCallEntry =
  oe_User :: OncallUser
  oe_StartTime :: go_time
  oe_EndTime :: go_time
  oe_LayerID :: string
  oe_LayerName :: string
  oe_IsOverride :: bool

record Target =
  tg_Type :: string
  tg_ID :: string

record EscalationRule =
  er_Level :: int
  er_DelayMinutes :: int
  er_Targets :: "Target list"

record EscalationPolicy =
  ep_ID :: string
  ep_Name :: string
  ep_Description :: string
  ep_Teams :: "string list"
  ep_Rules :: "EscalationRule list"
  ep_RepeatEnabled :: bool
  ep_RepeatLimit :: int
  ep_CreatedAt :: go_time
  ep_UpdatedAt :: go_time

record Notification =
  nt_ID :: string
  nt_Level :: int
  nt_Target :: Target
  nt_User :: "OncallUser option"
  nt_Channel :: string
  nt_SentAt :: go_time
  nt_Status :: string
  nt_Message :: string

record EscalationState =
  es_IncidentID :: string
  es_PolicyID :: string
  es_CurrentLevel :: int
  es_RepeatCount :: int
  es_StartedAt :: go_time
  es_LastEscalation :: go_time
  es_Acknowledged :: bool
  es_AckedBy :: string
  es_AckedAt :: "go_time option"
  es_Resolved :: bool
  es_Notifications :: "Notification list"

section \<open>The database\<close>

text \<open>A row of the table \<open>overrides\<close> comes with its \<open>schedule_id\<close>.\<close>

record OncallDB =
  oc_schedules :: "Schedule list"
  oc_overrides :: "(string \<times> Override) list"
  oc_policies :: "EscalationPolicy list"
  oc_states :: "EscalationState list"
  oc_ok :: bool
  oc_fk :: bool

type_synonym 'a oncall_res = "string + 'a"

definition NewOncallStore :: "bool \<Rightarrow> OncallDB" where
  "NewOncallStore fk = \<lparr>oc_schedules = [], oc_overrides = [], oc_policies = [], oc_states = [], oc_ok = True, oc_fk = fk\<rparr>"

definition oc_exec :: "OncallDB \<Rightarrow> bool \<Rightarrow> OncallDB \<Rightarrow> unit oncall_res \<times> OncallDB" where
  "oc_exec db allowed db1 = (if oc_ok db \<and> allowed then (Inr (), db1) else (Inl ''database error'', db))"

definition oc_row :: "OncallDB \<Rightarrow> 'a option \<Rightarrow> 'a oncall_res" where
  "oc_row db row =
     (if \<not> oc_ok db then Inl ''database error''
      else case row of None \<Rightarrow> Inl ''sql: no rows in result set'' | Some x \<Rightarrow> Inr x)"

definition oc_rows :: "OncallDB \<Rightarrow> 'a list \<Rightarrow> 'a list oncall_res" where
  "oc_rows db rows = (if oc_ok db then Inr rows else Inl ''database error'')"

definition unix_second :: "go_time \<Rightarrow> go_time" where
  "unix_second t = t div second * second"

section \<open>Schedules\<close>

text \<open>The schedule that the caller holds afterwards has the new times to the nanosecond; the row has seconds.\<close>

definition CreateSchedule :: "go_time \<Rightarrow> Schedule \<Rightarrow> OncallDB \<Rightarrow> unit oncall_res \<times> OncallDB" where
  "CreateSchedule now sched db =
     oc_exec db (sd_ID sched \<notin> sd_ID ` set (oc_schedules db))
       (db\<lparr>oc_schedules := oc_schedules db @ [sched\<lparr>sd_CreatedAt := unix_second now, sd_UpdatedAt := unix_second now\<rparr>]\<rparr>)"

definition getOverridesForSchedule :: "go_time \<Rightarrow> string \<Rightarrow> OncallDB \<Rightarrow> Override list oncall_res" where
  "getOverridesForSchedule now scheduleID db =
     oc_rows db (sort_key ov_StartTime
       (map snd (filter (\<lambda>(sid, ov). sid = scheduleID \<and> now div second < ov_EndTime ov div second) (oc_overrides db))))"

definition GetSchedule :: "go_time \<Rightarrow> string \<Rightarrow> OncallDB \<Rightarrow> Schedule oncall_res" where
  "GetSchedule now iD db =
     (case oc_row db (find (\<lambda>sched. sd_ID sched = iD) (oc_schedules db)) of
        Inl err \<Rightarrow> Inl err
      | Inr sched \<Rightarrow>
          (let overrides = (case getOverridesForSchedule now iD db of Inl err \<Rightarrow> [] | Inr ovs \<Rightarrow> ovs)
           in Inr (sched\<lparr>sd_Overrides := sd_Overrides sched @ overrides\<rparr>)))"

definition UpdateSchedule :: "go_time \<Rightarrow> Schedule \<Rightarrow> OncallDB \<Rightarrow> unit oncall_res \<times> OncallDB" where
  "UpdateSchedule now sched db =
     oc_exec db True
       (db\<lparr>oc_schedules := map (\<lambda>row. if sd_ID row = sd_ID sched
              then sched\<lparr>sd_CreatedAt := sd_CreatedAt row, sd_UpdatedAt := unix_second now\<rparr> else row) (oc_schedules db)\<rparr>)"

definition DeleteSchedule :: "string \<Rightarrow> OncallDB \<Rightarrow> unit oncall_res \<times> OncallDB" where
  "DeleteSchedule iD db =
     (case oc_exec db True (db\<lparr>oc_overrides := filter (\<lambda>(sid, ov). sid \<noteq> iD) (oc_overrides db)\<rparr>) of
        (Inl err, db1) \<Rightarrow> (Inl err, db1)
      | (Inr _, db1) \<Rightarrow> oc_exec db1 True (db1\<lparr>oc_schedules := filter (\<lambda>row. sd_ID row \<noteq> iD) (oc_schedules db1)\<rparr>))"

text \<open>\<open>ListSchedules\<close> does not read the table of overrides.\<close>

definition ListSchedules :: "OncallDB \<Rightarrow> Schedule list oncall_res" where
  "ListSchedules db = oc_rows db (sort_key sd_Name (oc_schedules db))"

definition CreateOverride :: "go_time \<Rightarrow> string \<Rightarrow> Override \<Rightarrow> OncallDB \<Rightarrow> unit oncall_res \<times> OncallDB" where
  "CreateOverride now scheduleID ov db =
     oc_exec db (ov_ID ov \<notin> (ov_ID \<circ> snd) ` set (oc_overrides db) \<and> (oc_fk db \<longrightarrow> scheduleID \<in> sd_ID ` set (oc_schedules db)))
       (db\<lparr>oc_overrides := oc_overrides db @
             [(scheduleID, ov\<lparr>ov_StartTime := unix_second (ov_StartTime ov), ov_EndTime := unix_second (ov_EndTime ov),
                              ov_CreatedAt := unix_second now\<rparr>)]\<rparr>)"

definition DeleteOverride :: "string \<Rightarrow> OncallDB \<Rightarrow> unit oncall_res \<times> OncallDB" where
  "DeleteOverride iD db = oc_exec db True (db\<lparr>oc_overrides := filter (\<lambda>(sid, ov). ov_ID ov \<noteq> iD) (oc_overrides db)\<rparr>)"

section \<open>Policies\<close>

definition CreatePolicy :: "go_time \<Rightarrow> EscalationPolicy \<Rightarrow> OncallDB \<Rightarrow> unit oncall_res \<times> OncallDB" where
  "CreatePolicy now policy db =
     oc_exec db (ep_ID policy \<notin> ep_ID ` set (oc_policies db))
       (db\<lparr>oc_policies := oc_policies db @ [policy\<lparr>ep_CreatedAt := unix_second now, ep_UpdatedAt := unix_second now\<rparr>]\<rparr>)"

definition GetPolicy :: "string \<Rightarrow> OncallDB \<Rightarrow> EscalationPolicy oncall_res" where
  "GetPolicy iD db = oc_row db (find (\<lambda>policy. ep_ID policy = iD) (oc_policies db))"

definition UpdatePolicy :: "go_time \<Rightarrow> EscalationPolicy \<Rightarrow> OncallDB \<Rightarrow> unit oncall_res \<times> OncallDB" where
  "UpdatePolicy now policy db =
     oc_exec db True
       (db\<lparr>oc_policies := map (\<lambda>row. if ep_ID row = ep_ID policy
              then policy\<lparr>ep_CreatedAt := ep_CreatedAt row, ep_UpdatedAt := unix_second now\<rparr> else row) (oc_policies db)\<rparr>)"

definition DeletePolicy :: "string \<Rightarrow> OncallDB \<Rightarrow> unit oncall_res \<times> OncallDB" where
  "DeletePolicy iD db = oc_exec db True (db\<lparr>oc_policies := filter (\<lambda>row. ep_ID row \<noteq> iD) (oc_policies db)\<rparr>)"

definition ListPolicies :: "OncallDB \<Rightarrow> EscalationPolicy list oncall_res" where
  "ListPolicies db = oc_rows db (sort_key ep_Name (oc_policies db))"

section \<open>Escalation states\<close>

text \<open>What a row gives back: times in seconds, and an acknowledgement time only when it is after the epoch.\<close>

definition stored_state :: "EscalationState \<Rightarrow> EscalationState" where
  "stored_state st =
     st\<lparr>es_StartedAt := unix_second (es_StartedAt st), es_LastEscalation := unix_second (es_LastEscalation st),
        es_AckedAt := (case es_AckedAt st of None \<Rightarrow> None | Some t \<Rightarrow> if 0 < t div second then Some (unix_second t) else None)\<rparr>"

text \<open>The upsert: \<open>ON CONFLICT(incident_id) DO UPDATE\<close> sets every column but the policy and the start.\<close>

definition upsert_state :: "EscalationState \<Rightarrow> EscalationState list \<Rightarrow> EscalationState list" where
  "upsert_state row rows =
     (if es_IncidentID row \<in> es_IncidentID ` set rows
      then map (\<lambda>r. if es_IncidentID r = es_IncidentID row
                    then row\<lparr>es_PolicyID := es_PolicyID r, es_StartedAt := es_StartedAt r\<rparr> else r) rows
      else rows @ [row])"

definition SaveEscalationState :: "EscalationState \<Rightarrow> OncallDB \<Rightarrow> unit oncall_res \<times> OncallDB" where
  "SaveEscalationState st db = oc_exec db True (db\<lparr>oc_states := upsert_state (stored_state st) (oc_states db)\<rparr>)"

definition LoadActiveEscalationStates :: "OncallDB \<Rightarrow> EscalationState list oncall_res" where
  "LoadActiveEscalationStates db = oc_rows db (filter (\<lambda>row. \<not> es_Resolved row) (oc_states db))"

definition DeleteEscalationState :: "string \<Rightarrow> OncallDB \<Rightarrow> unit oncall_res \<times> OncallDB" where
  "DeleteEscalationState incidentID db =
     oc_exec db True (db\<lparr>oc_states := filter (\<lambda>row. es_IncidentID row \<noteq> incidentID) (oc_states db)\<rparr>)"

section \<open>Lemmas\<close>

lemma unix_second_idem [simp]: "unix_second (unix_second t) = unix_second t"
  by (simp add: unix_second_def)

lemma unix_second_le: "unix_second t \<le> t"
  by (simp add: unix_second_def)

lemma unix_second_div [simp]: "unix_second t div second = t div second"
  by (simp add: unix_second_def)

lemma unix_second_gt: "t - second < unix_second t"
  using mult_div_mod_eq [of second t] pos_mod_bound [of second t] unfolding unix_second_def by linarith

lemma find_map_same:
  assumes "\<And>r. g (f r) = g r"
  shows "find (\<lambda>r. g r = k) (map f rows) = map_option f (find (\<lambda>r. g r = k) rows)"
  by (induction rows) (simp_all add: assms)

lemma find_none_image: "find (\<lambda>r. g r = k) rows = None \<longleftrightarrow> k \<notin> g ` set rows"
  by (auto simp: find_None_iff)

lemma find_some_image: "find (\<lambda>r. g r = k) rows = Some r \<Longrightarrow> r \<in> set rows \<and> g r = k"
  by (auto simp: find_Some_iff)

lemma find_append: "find P (xs @ ys) = (case find P xs of None \<Rightarrow> find P ys | Some x \<Rightarrow> Some x)"
  by (induction xs) simp_all

text \<open>The row of an incident after a save, in terms of the row before.\<close>

definition merged_row :: "EscalationState \<Rightarrow> EscalationState option \<Rightarrow> EscalationState" where
  "merged_row row old =
     (case old of None \<Rightarrow> row | Some r \<Rightarrow> row\<lparr>es_PolicyID := es_PolicyID r, es_StartedAt := es_StartedAt r\<rparr>)"

definition state_row :: "string \<Rightarrow> EscalationState list \<Rightarrow> EscalationState option" where
  "state_row iD rows = find (\<lambda>r. es_IncidentID r = iD) rows"

lemma state_row_id: "state_row iD rows = Some r \<Longrightarrow> es_IncidentID r = iD"
  unfolding state_row_def by (drule find_some_image) simp

lemma state_row_upsert:
  "state_row iD (upsert_state row rows) =
     (if iD = es_IncidentID row then Some (merged_row row (state_row iD rows)) else state_row iD rows)"
proof (cases "es_IncidentID row \<in> es_IncidentID ` set rows")
  case True
  let ?f = "\<lambda>r. if es_IncidentID r = es_IncidentID row
                then row\<lparr>es_PolicyID := es_PolicyID r, es_StartedAt := es_StartedAt r\<rparr> else r"
  have m: "state_row iD (upsert_state row rows) = map_option ?f (state_row iD rows)"
    using True unfolding state_row_def upsert_state_def by (simp add: find_map_same)
  show ?thesis
  proof (cases "state_row iD rows")
    case None
    with True have "iD \<noteq> es_IncidentID row" unfolding state_row_def find_none_image by blast
    with None m show ?thesis by simp
  next
    case (Some r)
    then show ?thesis using m by (auto simp: state_row_id merged_row_def)
  qed
next
  case False
  then have "state_row (es_IncidentID row) rows = None"
    unfolding state_row_def find_none_image .
  then show ?thesis
    using False unfolding state_row_def upsert_state_def by (simp add: find_append merged_row_def split: option.split)
qed

end
