(* ===== verification/Oncall_Calc.thy ===== *)
theory Oncall_Calc
  imports Oncall_Store Float64
begin

text \<open>
  Who is on call: \<open>internal/oncall/calculator.go\<close>. A location is what its \<open>lookup\<close> says of an instant in seconds:
  the offset from UTC and the interval in which it holds. The code takes a civil date apart only to put it together
  again, so a date is the number of its day since 1 January 1970. The zone database and \<open>sort.Slice\<close> are
  parameters. The loops of \<open>getUserOnCall\<close> may run forever and an index may be out of range: a result is
  \<open>None\<close> when the call does not return, and an \<open>outcome\<close> when it does.
\<close>

section \<open>Package time\<close>

type_synonym location = "int \<Rightarrow> int \<times> int \<times> int"

definition UTC :: location where "UTC sec = (0, - (2 ^ 63), 2 ^ 63 - 1)"

definition fixed_zone :: "int \<Rightarrow> location" where "fixed_zone offset sec = (offset, - (2 ^ 63), 2 ^ 63 - 1)"

definition local_secs :: "location \<Rightarrow> go_time \<Rightarrow> int" where
  "local_secs loc t = t div second + fst (loc (t div second))"

definition local_day :: "location \<Rightarrow> go_time \<Rightarrow> int" where "local_day loc t = local_secs loc t div 86400"
definition secs_of_day :: "location \<Rightarrow> go_time \<Rightarrow> int" where "secs_of_day loc t = local_secs loc t mod 86400"

text \<open>1 January 1970 was a Thursday.\<close>

definition Weekday :: "location \<Rightarrow> go_time \<Rightarrow> int" where "Weekday loc t = (local_day loc t + 4) mod 7"
definition Hour :: "location \<Rightarrow> go_time \<Rightarrow> int" where "Hour loc t = secs_of_day loc t div 3600"
definition Minute :: "location \<Rightarrow> go_time \<Rightarrow> int" where "Minute loc t = secs_of_day loc t mod 3600 div 60"

text \<open>\<open>time.Date\<close>: the offset is looked up as if the date were in UTC, and again when it does not hold at the
  instant found.\<close>

definition Date :: "location \<Rightarrow> int \<Rightarrow> int \<Rightarrow> int \<Rightarrow> go_time" where
  "Date loc day secs nsec =
     (let unix = day * 86400 + secs;
          (offset, start, end') = loc unix;
          utc = unix - offset;
          unix1 = (if offset = 0 then unix
                   else if utc < start \<or> end' \<le> utc then unix - fst (loc utc)
                   else utc)
      in unix1 * second + nsec)"

definition AddDays :: "location \<Rightarrow> int \<Rightarrow> go_time \<Rightarrow> go_time" where
  "AddDays loc n t = Date loc (local_day loc t + n) (secs_of_day loc t) (t mod second)"

record oncall_env =
  zoneinfo :: "string \<Rightarrow> location option"
  sort_layers :: "Layer list \<Rightarrow> Layer list"
  sort_entries :: "OnCallEntry list \<Rightarrow> OnCallEntry list"

text \<open>\<open>time.LoadLocation\<close> and the fallback to UTC at its call sites.\<close>

definition LoadLocation :: "oncall_env \<Rightarrow> string \<Rightarrow> location" where
  "LoadLocation e nm = (if nm = '''' \<or> nm = ''UTC'' then UTC else case zoneinfo e nm of None \<Rightarrow> UTC | Some loc \<Rightarrow> loc)"

section \<open>Reading HH:MM\<close>

text \<open>\<open>%d\<close> of \<open>fmt.Sscanf\<close>: blanks, a sign, digits that fit an \<open>int\<close>; a newline among the blanks is an error.
  Blanks outside ASCII are not skipped.\<close>

definition blank :: "char \<Rightarrow> bool" where
  "blank c \<longleftrightarrow> of_char c \<in> {9, 11, 12, 13, 32 :: nat}"

definition scan_int :: "string \<Rightarrow> (int \<times> string) option" where
  "scan_int s =
     (let s1 = dropWhile blank s;
          sign = (if has_prefix s1 ''-'' \<or> has_prefix s1 ''+'' then take 1 s1 else []);
          s2 = drop (length sign) s1;
          ds = takeWhile is_digit s2
      in if ds = [] then None
         else case parse_int64 (sign @ ds) of None \<Rightarrow> None | Some n \<Rightarrow> Some (n, drop (length ds) s2))"

text \<open>What follows the minutes is not looked at.\<close>

definition parseTime :: "string \<Rightarrow> int \<times> int" where
  "parseTime s =
     (if s = [] then (0, 0)
      else case scan_int s of
        None \<Rightarrow> (0, 0)
      | Some (h, rest) \<Rightarrow>
          (if \<not> has_prefix rest '':'' then (0, 0)
           else case scan_int (drop 1 rest) of None \<Rightarrow> (0, 0) | Some (m, _) \<Rightarrow> (h, m)))"

section \<open>Restrictions\<close>

definition in_hours :: "int \<Rightarrow> int \<Rightarrow> int \<Rightarrow> bool" where
  "in_hours startMins endMins currentMins \<longleftrightarrow>
     (if startMins < endMins then startMins \<le> currentMins \<and> currentMins < endMins
      else startMins \<le> currentMins \<or> currentMins < endMins)"

definition matchesRestriction :: "Restriction \<Rightarrow> go_time \<Rightarrow> location \<Rightarrow> bool" where
  "matchesRestriction r at' loc =
     (let (startHour, startMin) = parseTime (re_StartTime r);
          (endHour, endMin) = parseTime (re_EndTime r);
          currentMins = Hour loc at' * 60 + Minute loc at';
          startMins = startHour * 60 + startMin;
          endMins = endHour * 60 + endMin
      in if re_Type r = ''daily'' then in_hours startMins endMins currentMins
         else if re_Type r = ''weekly'' then
           (let weekday = Weekday loc at'
            in if re_StartDay r \<le> re_EndDay r \<and> (weekday < re_StartDay r \<or> re_EndDay r < weekday) then False
               else if \<not> re_StartDay r \<le> re_EndDay r \<and> weekday < re_StartDay r \<and> re_EndDay r < weekday then False
               else if re_StartDay r = re_EndDay r then in_hours startMins endMins currentMins
               else if weekday = re_StartDay r then startMins \<le> currentMins
               else if weekday = re_EndDay r then currentMins < endMins
               else True)
         else True)"

definition isLayerActive :: "Layer \<Rightarrow> go_time \<Rightarrow> location \<Rightarrow> bool" where
  "isLayerActive layer at' loc \<longleftrightarrow>
     \<not> at' < la_StartDate layer \<and>
     \<not> (case la_EndDate layer of None \<Rightarrow> False | Some d \<Rightarrow> d < at') \<and>
     (la_Restrictions layer = [] \<or> (\<exists>r \<in> set (la_Restrictions layer). matchesRestriction r at' loc))"

section \<open>The rotation\<close>

definition shift_of :: "Layer \<Rightarrow> duration" where
  "shift_of layer =
     (if la_ShiftDuration layer \<noteq> 0 then la_ShiftDuration layer
      else if la_RotationType layer = ''weekly'' then 7 * 24 * hour
      else 24 * hour)"

text \<open>The loop that moves the first handoff to its weekday, and the one that moves it past the start date.\<close>

partial_function (option) align_day :: "location \<Rightarrow> int \<Rightarrow> go_time \<Rightarrow> go_time option" where
  "align_day loc day t = (if Weekday loc t \<noteq> day then align_day loc day (AddDays loc 1 t) else Some t)"

partial_function (option) past_start :: "duration \<Rightarrow> go_time \<Rightarrow> go_time \<Rightarrow> go_time option" where
  "past_start shift startDate t = (if t < startDate then past_start shift startDate (t + shift) else Some t)"

definition first_handoff :: "Layer \<Rightarrow> location \<Rightarrow> go_time option" where
  "first_handoff layer loc =
     (let (handoffHour, handoffMin) = parseTime (la_HandoffTime layer);
          startDate = la_StartDate layer;
          t = Date loc (local_day loc startDate) (handoffHour * 3600 + handoffMin * 60) 0
      in Option.bind (if la_RotationType layer = ''weekly'' then align_day loc (la_HandoffDay layer) t else Some t)
           (past_start (shift_of layer) startDate))"

text \<open>The code divides by a shift that may be negative; the index then is, and the access panics.\<close>

definition getUserOnCall :: "Layer \<Rightarrow> go_time \<Rightarrow> location \<Rightarrow> (OncallUser \<times> go_time \<times> go_time) option outcome option" where
  "getUserOnCall layer at' loc =
     (if la_Users layer = [] then Some (Return None)
      else Option.bind (first_handoff layer loc) (\<lambda>firstHandoff.
        (let shiftDuration = shift_of layer
         in if at' < firstHandoff
            then Some (Return (Some (hd (la_Users layer), firstHandoff - shiftDuration, firstHandoff)))
            else
              (let elapsed = time_sub at' firstHandoff;
                   shiftIndex = go_quot elapsed shiftDuration;
                   userIndex = go_rem shiftIndex (int (length (la_Users layer)));
                   shiftStart = firstHandoff + shiftIndex * shiftDuration
               in if userIndex < 0 then Some Panic
                  else Some (Return (Some (la_Users layer ! nat userIndex, shiftStart, shiftStart + shiftDuration)))))))"

section \<open>Who is on call at an instant\<close>

definition override_entry :: "Override \<Rightarrow> go_time \<Rightarrow> go_time \<Rightarrow> OnCallEntry" where
  "override_entry ov s e =
     \<lparr>oe_User = \<lparr>ou_ID = ov_UserID ov, ou_Name = ov_UserName ov, ou_Email = '''', ou_Phone = ''''\<rparr>,
      oe_StartTime = s, oe_EndTime = e, oe_LayerID = '''', oe_LayerName = '''', oe_IsOverride = True\<rparr>"

definition layer_entry :: "Layer \<Rightarrow> OncallUser \<Rightarrow> go_time \<Rightarrow> go_time \<Rightarrow> OnCallEntry" where
  "layer_entry layer user s e =
     \<lparr>oe_User = user, oe_StartTime = s, oe_EndTime = e, oe_LayerID = la_ID layer, oe_LayerName = la_Name layer,
      oe_IsOverride = False\<rparr>"

fun first_active_layer :: "Layer list \<Rightarrow> go_time \<Rightarrow> location \<Rightarrow> OnCallEntry option outcome option" where
  "first_active_layer [] at' loc = Some (Return None)"
| "first_active_layer (layer # layers) at' loc =
     (if \<not> isLayerActive layer at' loc then first_active_layer layers at' loc
      else Option.bind (getUserOnCall layer at' loc) (\<lambda>r. case r of
             Return None \<Rightarrow> first_active_layer layers at' loc
           | Return (Some (user, s, e)) \<Rightarrow> Some (Return (Some (layer_entry layer user s e)))
           | Error err \<Rightarrow> Some (Error err)
           | Panic \<Rightarrow> Some Panic))"

definition override_active :: "go_time \<Rightarrow> Override \<Rightarrow> bool" where
  "override_active at' ov \<longleftrightarrow> ov_StartTime ov < at' \<and> at' < ov_EndTime ov"

definition getOnCallAt :: "oncall_env \<Rightarrow> Schedule \<Rightarrow> go_time \<Rightarrow> OnCallEntry option outcome option" where
  "getOnCallAt e sched at' =
     (let loc = LoadLocation e (sd_Timezone sched)
      in case find (override_active at') (sd_Overrides sched) of
           Some ov \<Rightarrow> Some (Return (Some (override_entry ov (ov_StartTime ov) (ov_EndTime ov))))
         | None \<Rightarrow> first_active_layer (sort_layers e (sd_Layers sched)) at' loc)"

definition GetOnCallAt :: "oncall_env \<Rightarrow> go_time \<Rightarrow> string \<Rightarrow> go_time \<Rightarrow> OncallDB \<Rightarrow> OnCallEntry option outcome option" where
  "GetOnCallAt e now scheduleID at' db =
     (case GetSchedule now scheduleID db of Inl err \<Rightarrow> Some (Error err) | Inr sched \<Rightarrow> getOnCallAt e sched at')"

definition GetCurrentOnCall :: "oncall_env \<Rightarrow> go_time \<Rightarrow> string \<Rightarrow> OncallDB \<Rightarrow> OnCallEntry option outcome option" where
  "GetCurrentOnCall e now scheduleID db =
     (case GetSchedule now scheduleID db of Inl err \<Rightarrow> Some (Error err) | Inr sched \<Rightarrow> getOnCallAt e sched now)"

section \<open>The calendar\<close>

definition clamped_overrides :: "Override list \<Rightarrow> go_time \<Rightarrow> go_time \<Rightarrow> OnCallEntry list" where
  "clamped_overrides overrides start end' =
     map (\<lambda>ov. override_entry ov (max start (ov_StartTime ov)) (min end' (ov_EndTime ov)))
       (filter (\<lambda>ov. \<not> (ov_EndTime ov < start \<or> end' < ov_StartTime ov)) overrides)"

partial_function (option) layer_calendar ::
  "Layer \<Rightarrow> go_time \<Rightarrow> go_time \<Rightarrow> location \<Rightarrow> OnCallEntry list \<Rightarrow> go_time \<Rightarrow> OnCallEntry list outcome option" where
  "layer_calendar layer start end' loc entries current =
     (if \<not> current < end' then Some (Return entries)
      else Option.bind (getUserOnCall layer current loc) (\<lambda>r. case r of
             Return None \<Rightarrow> layer_calendar layer start end' loc entries (current + hour)
           | Return (Some (user, s, e)) \<Rightarrow>
               layer_calendar layer start end' loc
                 (if isLayerActive layer current loc then entries @ [layer_entry layer user (max start s) (min end' e)]
                  else entries)
                 (min end' e)
           | Error err \<Rightarrow> Some (Error err)
           | Panic \<Rightarrow> Some Panic))"

definition generateLayerCalendar :: "Layer \<Rightarrow> go_time \<Rightarrow> go_time \<Rightarrow> location \<Rightarrow> OnCallEntry list outcome option" where
  "generateLayerCalendar layer start end' loc =
     (if la_Users layer = [] then Some (Return []) else layer_calendar layer start end' loc [] start)"

fun layers_calendar :: "Layer list \<Rightarrow> go_time \<Rightarrow> go_time \<Rightarrow> location \<Rightarrow> OnCallEntry list outcome option" where
  "layers_calendar [] start end' loc = Some (Return [])"
| "layers_calendar (layer # layers) start end' loc =
     Option.bind (generateLayerCalendar layer start end' loc) (\<lambda>r. case r of
         Return es \<Rightarrow> Option.bind (layers_calendar layers start end' loc) (\<lambda>r'. case r' of
             Return es' \<Rightarrow> Some (Return (es @ es')) | x \<Rightarrow> Some x)
       | x \<Rightarrow> Some x)"

definition overlaps :: "OnCallEntry \<Rightarrow> Override \<Rightarrow> bool" where
  "overlaps entry ov \<longleftrightarrow> oe_StartTime entry < ov_EndTime ov \<and> ov_StartTime ov < oe_EndTime entry"

definition mergeEntries :: "OnCallEntry list \<Rightarrow> Override list \<Rightarrow> OnCallEntry list" where
  "mergeEntries entries overrides =
     filter (\<lambda>entry. \<not> (\<not> oe_IsOverride entry \<and> (\<exists>ov \<in> set overrides. overlaps entry ov)) \<or> oe_IsOverride entry) entries"

definition generateCalendar :: "oncall_env \<Rightarrow> Schedule \<Rightarrow> go_time \<Rightarrow> go_time \<Rightarrow> OnCallEntry list outcome option" where
  "generateCalendar e sched start end' =
     (let loc = LoadLocation e (sd_Timezone sched)
      in Option.bind (layers_calendar (sort_layers e (sd_Layers sched)) start end' loc) (\<lambda>r. case r of
           Return es \<Rightarrow>
             Some (Return (mergeEntries (sort_entries e (clamped_overrides (sd_Overrides sched) start end' @ es))
                             (sd_Overrides sched)))
         | x \<Rightarrow> Some x))"

definition GetCalendar ::
  "oncall_env \<Rightarrow> go_time \<Rightarrow> string \<Rightarrow> go_time \<Rightarrow> go_time \<Rightarrow> OncallDB \<Rightarrow> OnCallEntry list outcome option" where
  "GetCalendar e now scheduleID start end' db =
     (case GetSchedule now scheduleID db of Inl err \<Rightarrow> Some (Error err) | Inr sched \<Rightarrow> generateCalendar e sched start end')"

definition GetNextHandoff :: "oncall_env \<Rightarrow> go_time \<Rightarrow> string \<Rightarrow> OncallDB \<Rightarrow> OnCallEntry option outcome option" where
  "GetNextHandoff e now scheduleID db =
     (case GetSchedule now scheduleID db of
        Inl err \<Rightarrow> Some (Error err)
      | Inr sched \<Rightarrow>
          (let loc = LoadLocation e (sd_Timezone sched)
           in Option.bind (generateCalendar e sched now (AddDays loc 30 now)) (\<lambda>r. case r of
                Return calendar \<Rightarrow> Some (Return (find (\<lambda>entry. now < oe_StartTime entry) calendar))
              | Error err \<Rightarrow> Some (Error err)
              | Panic \<Rightarrow> Some Panic)))"

end
