(* ===== verification/Oncall_Escalation.thy ===== *)
theory Oncall_Escalation
  imports Oncall_Calc
begin

text \<open>
  The escalation engine of \<open>internal/oncall/escalation.go\<close>. The engine maps an incident to a pointer and the
  loop keeps pointers while handlers run, so the states are objects in a heap: \<open>eg_heap\<close> lists them in the order of
  their creation, a pointer is an index, and an object outlives the entry of the map that led to it. A
  handler is one step, and so is the check of one incident by the loop; each reads the clock once. The order in
  which the channels of a page are tried is an argument, by the number of pages of the incident so far. The
  callbacks of the engine are never set. A call that asks a schedule may not return (\<open>None\<close>) or panic.
\<close>

section \<open>Channels\<close>

datatype Channel =
    LogChannel
  | WebhookChannel string
  | SlackChannel string string
  | EmailChannel string string
  | PagerDutyChannel string string

fun channel_Name :: "Channel \<Rightarrow> string" where
  "channel_Name LogChannel = ''log''"
| "channel_Name (WebhookChannel url) = ''webhook''"
| "channel_Name (SlackChannel token dflt) = ''slack''"
| "channel_Name (EmailChannel host sender) = ''email''"
| "channel_Name (PagerDutyChannel apiKey serviceKey) = ''pagerduty''"

fun channel_Send :: "Channel \<Rightarrow> OncallUser \<Rightarrow> unit oncall_res" where
  "channel_Send (EmailChannel host sender) user =
     (if ou_Email user = '''' then Inl ''user has no email address'' else Inr ())"
| "channel_Send ch user = Inr ()"

section \<open>The engine\<close>

record Engine =
  eg_channels :: "string \<rightharpoonup> Channel"
  eg_heap :: "EscalationState list"
  eg_states :: "string \<rightharpoonup> nat"

definition NewEscalationEngine :: Engine where
  "NewEscalationEngine = \<lparr>eg_channels = Map.empty, eg_heap = [], eg_states = Map.empty\<rparr>"

definition RegisterChannel :: "Channel \<Rightarrow> Engine \<Rightarrow> Engine" where
  "RegisterChannel ch eng = eng\<lparr>eg_channels := (eg_channels eng)(channel_Name ch \<mapsto> ch)\<rparr>"

text \<open>\<open>Start\<close>: one object for each active row, and then the loop.\<close>

definition restore_state :: "EscalationState \<Rightarrow> Engine \<Rightarrow> Engine" where
  "restore_state st eng =
     eng\<lparr>eg_heap := eg_heap eng @ [st], eg_states := (eg_states eng)(es_IncidentID st \<mapsto> length (eg_heap eng))\<rparr>"

definition Start :: "OncallDB \<Rightarrow> Engine \<Rightarrow> Engine" where
  "Start db eng = (case LoadActiveEscalationStates db of Inl err \<Rightarrow> eng | Inr states \<Rightarrow> fold restore_state states eng)"

section \<open>Paging\<close>

text \<open>What drives a page: the environment of the calculator, the order of the channels, the clock.\<close>

record pager =
  pg_env :: oncall_env
  pg_order :: "nat \<Rightarrow> string list"
  pg_now :: go_time

definition try_channel :: "OncallUser \<Rightarrow> string \<times> Channel \<Rightarrow> Notification \<Rightarrow> Notification" where
  "try_channel user nc note =
     (case channel_Send (snd nc) user of
        Inl err \<Rightarrow> note\<lparr>nt_Status := ''failed''\<rparr>
      | Inr _ \<Rightarrow> note\<lparr>nt_Status := ''sent'', nt_Channel := fst nc\<rparr>)"

definition notifyUser :: "pager \<Rightarrow> (string \<rightharpoonup> Channel) \<Rightarrow> OncallUser \<Rightarrow> int \<Rightarrow> EscalationState \<Rightarrow> EscalationState" where
  "notifyUser p channels user level st =
     (let note = \<lparr>nt_ID = es_IncidentID st @ ''-'' @ int_str level @ ''-'' @ int_str (pg_now p), nt_Level = level,
                  nt_Target = \<lparr>tg_Type = ''user'', tg_ID = ou_ID user\<rparr>, nt_User = Some user, nt_Channel = '''',
                  nt_SentAt = pg_now p, nt_Status = ''pending'', nt_Message = ''''\<rparr>;
          note1 = fold (try_channel user) (range_map channels (pg_order p (length (es_Notifications st)))) note
      in st\<lparr>es_Notifications := es_Notifications st @ [note1]\<rparr>)"

definition notifyTarget ::
  "pager \<Rightarrow> (string \<rightharpoonup> Channel) \<Rightarrow> OncallDB \<Rightarrow> int \<Rightarrow> Target \<Rightarrow> EscalationState \<Rightarrow> EscalationState outcome option" where
  "notifyTarget p channels db level target st =
     (if tg_Type target = ''user'' then
        Some (Return (notifyUser p channels \<lparr>ou_ID = tg_ID target, ou_Name = tg_ID target, ou_Email = '''', ou_Phone = ''''\<rparr> level st))
      else if tg_Type target = ''schedule'' then
        Option.bind (GetCurrentOnCall (pg_env p) (pg_now p) (tg_ID target) db) (\<lambda>r. case r of
            Error err \<Rightarrow> Some (Return st)
          | Return None \<Rightarrow> Some (Return st)
          | Return (Some entry) \<Rightarrow> Some (Return (notifyUser p channels (oe_User entry) level st))
          | Panic \<Rightarrow> Some Panic)
      else Some (Return st))"

fun notifyTargets ::
  "pager \<Rightarrow> (string \<rightharpoonup> Channel) \<Rightarrow> OncallDB \<Rightarrow> int \<Rightarrow> Target list \<Rightarrow> EscalationState \<Rightarrow> EscalationState outcome option" where
  "notifyTargets p channels db level [] st = Some (Return st)"
| "notifyTargets p channels db level (target # targets) st =
     Option.bind (notifyTarget p channels db level target st) (\<lambda>r. case r of
         Return st1 \<Rightarrow> notifyTargets p channels db level targets st1
       | x \<Rightarrow> Some x)"

section \<open>Escalation\<close>

text \<open>\<open>escalateTo\<close> on the state and the database; a failed save is only logged.\<close>

definition escalateTo ::
  "pager \<Rightarrow> (string \<rightharpoonup> Channel) \<Rightarrow> EscalationRule \<Rightarrow> EscalationState \<Rightarrow> OncallDB \<Rightarrow> (EscalationState \<times> OncallDB) outcome option" where
  "escalateTo p channels rule st db =
     (let st1 = st\<lparr>es_CurrentLevel := er_Level rule, es_LastEscalation := pg_now p\<rparr>
      in Option.bind (notifyTargets p channels db (er_Level rule) (er_Targets rule) st1) (\<lambda>r. case r of
             Return st2 \<Rightarrow> Some (Return (st2, snd (SaveEscalationState st2 db)))
           | Error err \<Rightarrow> Some (Error err)
           | Panic \<Rightarrow> Some Panic))"

definition rule_at :: "int \<Rightarrow> EscalationPolicy \<Rightarrow> EscalationRule option" where
  "rule_at level policy = find (\<lambda>rule. er_Level rule = level) (ep_Rules policy)"

definition delay_of :: "EscalationRule \<Rightarrow> duration" where
  "delay_of rule = wrap64 (er_DelayMinutes rule * minute)"

definition check_state ::
  "pager \<Rightarrow> (string \<rightharpoonup> Channel) \<Rightarrow> EscalationState \<Rightarrow> OncallDB \<Rightarrow> (EscalationState \<times> OncallDB) outcome option" where
  "check_state p channels st db =
     (case GetPolicy (es_PolicyID st) db of
        Inl err \<Rightarrow> Some (Return (st, db))
      | Inr policy \<Rightarrow>
          (case rule_at (es_CurrentLevel st) policy of
             None \<Rightarrow> Some (Return (st, db))
           | Some currentRule \<Rightarrow>
               if time_sub (pg_now p) (es_LastEscalation st) < delay_of currentRule then Some (Return (st, db))
               else case rule_at (es_CurrentLevel st + 1) policy of
                 Some nextRule \<Rightarrow> escalateTo p channels nextRule st db
               | None \<Rightarrow>
                   if ep_RepeatEnabled policy \<and> (ep_RepeatLimit policy = 0 \<or> es_RepeatCount st < ep_RepeatLimit policy)
                   then (let st1 = st\<lparr>es_RepeatCount := es_RepeatCount st + 1, es_CurrentLevel := 0\<rparr>
                         in case ep_Rules policy of [] \<Rightarrow> Some (Return (st1, db))
                            | rule # _ \<Rightarrow> escalateTo p channels rule st1 db)
                   else Some (Return (st, db))))"

text \<open>\<open>checkEscalation\<close> on the object behind a pointer.\<close>

definition checkEscalation :: "pager \<Rightarrow> nat \<Rightarrow> Engine \<Rightarrow> OncallDB \<Rightarrow> (Engine \<times> OncallDB) outcome option" where
  "checkEscalation p ref eng db =
     Option.bind (check_state p (eg_channels eng) (eg_heap eng ! ref) db) (\<lambda>r. case r of
         Return (st, db1) \<Rightarrow> Some (Return (eng\<lparr>eg_heap := (eg_heap eng)[ref := st]\<rparr>, db1))
       | Error err \<Rightarrow> Some (Error err)
       | Panic \<Rightarrow> Some Panic)"

text \<open>The pointers that \<open>checkEscalations\<close> collects under the lock, and the loop over them.\<close>

definition snapshot :: "string list \<Rightarrow> Engine \<Rightarrow> nat list" where
  "snapshot order eng =
     filter (\<lambda>ref. \<not> es_Acknowledged (eg_heap eng ! ref) \<and> \<not> es_Resolved (eg_heap eng ! ref))
       (map snd (range_map (eg_states eng) order))"

fun check_all :: "pager \<Rightarrow> nat list \<Rightarrow> Engine \<Rightarrow> OncallDB \<Rightarrow> (Engine \<times> OncallDB) outcome option" where
  "check_all p [] eng db = Some (Return (eng, db))"
| "check_all p (ref # refs) eng db =
     Option.bind (checkEscalation p ref eng db) (\<lambda>r. case r of
         Return (eng1, db1) \<Rightarrow> check_all p refs eng1 db1
       | x \<Rightarrow> Some x)"

definition checkEscalations :: "pager \<Rightarrow> string list \<Rightarrow> Engine \<Rightarrow> OncallDB \<Rightarrow> (Engine \<times> OncallDB) outcome option" where
  "checkEscalations p order eng db = check_all p (snapshot order eng) eng db"

section \<open>Incidents\<close>

definition TriggerIncident ::
  "pager \<Rightarrow> string \<Rightarrow> string \<Rightarrow> Engine \<Rightarrow> OncallDB \<Rightarrow> (unit oncall_res \<times> Engine \<times> OncallDB) outcome option" where
  "TriggerIncident p incidentID policyID eng db =
     (case GetPolicy policyID db of
        Inl err \<Rightarrow> Some (Return (Inl (''policy not found: '' @ err), eng, db))
      | Inr policy \<Rightarrow>
          (case ep_Rules policy of
             [] \<Rightarrow> Some (Return (Inl ''policy has no rules'', eng, db))
           | rule # _ \<Rightarrow>
               (let st = \<lparr>es_IncidentID = incidentID, es_PolicyID = policyID, es_CurrentLevel = er_Level rule, es_RepeatCount = 0,
                          es_StartedAt = pg_now p, es_LastEscalation = pg_now p, es_Acknowledged = False, es_AckedBy = '''',
                          es_AckedAt = None, es_Resolved = False, es_Notifications = []\<rparr>
                in Option.bind (notifyTargets p (eg_channels eng) db (er_Level rule) (er_Targets rule) st) (\<lambda>r. case r of
                       Return st1 \<Rightarrow>
                         Some (Return (Inr (),
                           eng\<lparr>eg_heap := eg_heap eng @ [st1], eg_states := (eg_states eng)(incidentID \<mapsto> length (eg_heap eng))\<rparr>,
                           snd (SaveEscalationState st1 db)))
                     | Error err \<Rightarrow> Some (Error err)
                     | Panic \<Rightarrow> Some Panic))))"

definition AcknowledgeIncident :: "go_time \<Rightarrow> string \<Rightarrow> string \<Rightarrow> Engine \<Rightarrow> OncallDB \<Rightarrow> unit oncall_res \<times> Engine \<times> OncallDB" where
  "AcknowledgeIncident now incidentID userID eng db =
     (case eg_states eng incidentID of
        None \<Rightarrow> (Inl ''incident not found'', eng, db)
      | Some ref \<Rightarrow>
          (let st = eg_heap eng ! ref;
               st1 = st\<lparr>es_Acknowledged := True, es_AckedBy := userID, es_AckedAt := Some now\<rparr>
           in if es_Acknowledged st then (Inl ''incident already acknowledged'', eng, db)
              else (Inr (), eng\<lparr>eg_heap := (eg_heap eng)[ref := st1]\<rparr>, snd (SaveEscalationState st1 db))))"

definition ResolveIncident :: "string \<Rightarrow> Engine \<Rightarrow> OncallDB \<Rightarrow> unit oncall_res \<times> Engine \<times> OncallDB" where
  "ResolveIncident incidentID eng db =
     (case eg_states eng incidentID of
        None \<Rightarrow> (Inl ''incident not found'', eng, db)
      | Some ref \<Rightarrow>
          (let st1 = (eg_heap eng ! ref)\<lparr>es_Resolved := True\<rparr>
           in (Inr (), eng\<lparr>eg_heap := (eg_heap eng)[ref := st1]\<rparr>, snd (SaveEscalationState st1 db))))"

definition GetEscalationState :: "string \<Rightarrow> Engine \<Rightarrow> EscalationState oncall_res" where
  "GetEscalationState incidentID eng =
     (case eg_states eng incidentID of None \<Rightarrow> Inl ''incident not found'' | Some ref \<Rightarrow> Inr (eg_heap eng ! ref))"

definition GetActiveIncidents :: "string list \<Rightarrow> Engine \<Rightarrow> EscalationState list" where
  "GetActiveIncidents order eng =
     filter (\<lambda>st. \<not> es_Resolved st) (map (\<lambda>(iD, ref). eg_heap eng ! ref) (range_map (eg_states eng) order))"

section \<open>Runs of an engine\<close>

text \<open>The engine, the database and the pointers that the running tick has still to check. A step happens at any time;
  the store's other operations may change schedules and policies between the steps.\<close>

record Running =
  rn_engine :: Engine
  rn_db :: OncallDB
  rn_pending :: "nat list"

inductive engine_step :: "Running \<Rightarrow> Running \<Rightarrow> bool" where
  tick: "rn_pending s = [] \<Longrightarrow> range_order (eg_states (rn_engine s)) order \<Longrightarrow>
     engine_step s (s\<lparr>rn_pending := snapshot order (rn_engine s)\<rparr>)"
| check: "rn_pending s = ref # refs \<Longrightarrow> checkEscalation p ref (rn_engine s) (rn_db s) = Some (Return (eng, db)) \<Longrightarrow>
     engine_step s \<lparr>rn_engine = eng, rn_db = db, rn_pending = refs\<rparr>"
| trigger: "TriggerIncident p incidentID policyID (rn_engine s) (rn_db s) = Some (Return (res, eng, db)) \<Longrightarrow>
     engine_step s \<lparr>rn_engine = eng, rn_db = db, rn_pending = rn_pending s\<rparr>"
| acknowledge: "AcknowledgeIncident now incidentID userID (rn_engine s) (rn_db s) = (res, eng, db) \<Longrightarrow>
     engine_step s \<lparr>rn_engine = eng, rn_db = db, rn_pending = rn_pending s\<rparr>"
| resolve: "ResolveIncident incidentID (rn_engine s) (rn_db s) = (res, eng, db) \<Longrightarrow>
     engine_step s \<lparr>rn_engine = eng, rn_db = db, rn_pending = rn_pending s\<rparr>"
| edit: "oc_states db = oc_states (rn_db s) \<Longrightarrow> engine_step s (s\<lparr>rn_db := db\<rparr>)"

end
