(* ===== verification/Oncall_Rotation.thy ===== *)
theory Oncall_Rotation
  imports Oncall_Calc
begin

text \<open>
  The rotation and the calendar. In a zone with a fixed offset the first handoff of a sound layer exists and lies on
  its weekday and time of day; from there the users take turns by the clock. The calendar of a layer covers a
  range without gaps and names for every instant the user that the rotation names. Where an override
  touches a shift, the calendar loses the rest of the shift.
\<close>

section \<open>Time in a fixed zone\<close>

lemma fst_fixed_zone [simp]: "fst (fixed_zone d sec) = d"
  by (simp add: fixed_zone_def)

lemma UTC_fixed: "UTC = fixed_zone 0"
  by (rule ext) (simp add: UTC_def fixed_zone_def)

lemma Date_fixed: "Date (fixed_zone d) day secs nsec = (day * 86400 + secs - d) * second + nsec"
  by (simp add: Date_def fixed_zone_def Let_def)

lemma AddDays_fixed: "AddDays (fixed_zone d) n t = t + n * 86400 * second"
proof -
  have "(local_day (fixed_zone d) t + n) * 86400 + secs_of_day (fixed_zone d) t - d = t div second + n * 86400"
    unfolding local_day_def secs_of_day_def local_secs_def
    by (simp only: fst_fixed_zone) (simp add: algebra_simps)
  then have "AddDays (fixed_zone d) n t = (t div second + n * 86400) * second + t mod second"
    unfolding AddDays_def Date_fixed by (rule arg_cong [where f = "\<lambda>x. x * second + t mod second"])
  also have "\<dots> = t + n * 86400 * second"
    using div_mult_mod_eq [of t second] by (simp add: algebra_simps)
  finally show ?thesis .
qed

lemma local_secs_later: "local_secs (fixed_zone d) (t + n * second) = local_secs (fixed_zone d) t + n"
  by (simp add: local_secs_def)

lemma later_day:
  "local_day (fixed_zone d) (t + n * (24 * hour)) = local_day (fixed_zone d) t + n"
  "secs_of_day (fixed_zone d) (t + n * (24 * hour)) = secs_of_day (fixed_zone d) t"
proof -
  have "t + n * (24 * hour) = t + (n * 86400) * second" by simp
  then have "local_secs (fixed_zone d) (t + n * (24 * hour)) = local_secs (fixed_zone d) t + n * 86400"
    by (simp only: local_secs_later)
  then show "local_day (fixed_zone d) (t + n * (24 * hour)) = local_day (fixed_zone d) t + n"
    and "secs_of_day (fixed_zone d) (t + n * (24 * hour)) = secs_of_day (fixed_zone d) t"
    by (simp_all add: local_day_def secs_of_day_def)
qed

lemma Weekday_range: "0 \<le> Weekday loc t" "Weekday loc t < 7"
  by (simp_all add: Weekday_def)

lemma Weekday_later: "Weekday (fixed_zone d) (t + n * (24 * hour)) = (Weekday (fixed_zone d) t + n) mod 7"
  unfolding Weekday_def later_day by (simp add: mod_simps algebra_simps)

section \<open>The first handoff\<close>

lemma align_day_weekday:
  assumes "align_day loc day t = Some r"
  shows "Weekday loc r = day"
  by (rule align_day.raw_induct [where P = "\<lambda>loc day t r. Weekday loc r = day", OF _ assms])
    (auto split: if_splits)

lemma align_day_hangs: "\<not> (0 \<le> day \<and> day < 7) \<Longrightarrow> align_day loc day t = None"
  using align_day_weekday [of loc day t] Weekday_range [of loc] by (cases "align_day loc day t") auto

lemma align_day_steps:
  "n < 7 \<Longrightarrow> (Weekday (fixed_zone d) t + int n) mod 7 = day \<Longrightarrow>
     \<exists>k. k \<le> n \<and> align_day (fixed_zone d) day t = Some (t + int k * (24 * hour)) \<and>
         Weekday (fixed_zone d) (t + int k * (24 * hour)) = day"
proof (induction n arbitrary: t)
  case 0
  then have "Weekday (fixed_zone d) t = day"
    using Weekday_range [of "fixed_zone d" t] by simp
  then show ?case by (subst align_day.simps) simp
next
  case (Suc n)
  show ?case
  proof (cases "Weekday (fixed_zone d) t = day")
    case True
    then show ?thesis by (subst align_day.simps) (rule exI [of _ 0], simp)
  next
    case False
    let ?t = "t + 24 * hour"
    have "Weekday (fixed_zone d) ?t = (Weekday (fixed_zone d) t + 1) mod 7"
      using Weekday_later [of d t 1] by simp
    then have "(Weekday (fixed_zone d) ?t + int n) mod 7 = day"
      using Suc.prems(2) by (simp add: mod_simps algebra_simps)
    with Suc.IH [of ?t] Suc.prems(1) obtain k where k: "k \<le> n"
      "align_day (fixed_zone d) day ?t = Some (?t + int k * (24 * hour))"
      "Weekday (fixed_zone d) (?t + int k * (24 * hour)) = day" by auto
    have "align_day (fixed_zone d) day t = align_day (fixed_zone d) day ?t"
      using False by (subst align_day.simps) (simp add: AddDays_fixed)
    with k show ?thesis by (intro exI [of _ "Suc k"]) (simp add: algebra_simps)
  qed
qed

lemma align_day_fixed:
  assumes "0 \<le> day" "day < 7"
  shows "\<exists>k. align_day (fixed_zone d) day t = Some (t + int k * (24 * hour)) \<and>
             Weekday (fixed_zone d) (t + int k * (24 * hour)) = day"
proof -
  let ?n = "nat ((day - Weekday (fixed_zone d) t) mod 7)"
  have "(Weekday (fixed_zone d) t + int ?n) mod 7 = day"
    using assms by (simp add: mod_simps)
  moreover have "?n < 7" by simp
  ultimately show ?thesis using align_day_steps by blast
qed

lemma past_start_returns:
  assumes "0 < shift"
  shows "\<exists>k. past_start shift s t = Some (t + int k * shift) \<and> s \<le> t + int k * shift \<and> (k = 0 \<or> t + int k * shift - shift < s)"
proof (induction "nat (s - t)" arbitrary: t rule: less_induct)
  case less
  show ?case
  proof (cases "t < s")
    case False
    then show ?thesis by (subst past_start.simps) (rule exI [of _ 0], simp)
  next
    case True
    then have step: "past_start shift s t = past_start shift s (t + shift)" by (subst past_start.simps) simp
    have "nat (s - (t + shift)) < nat (s - t)" using True assms by simp
    from less [OF this] obtain k where k: "past_start shift s (t + shift) = Some (t + shift + int k * shift)"
      "s \<le> t + shift + int k * shift" "k = 0 \<or> t + shift + int k * shift - shift < s" by auto
    with step True show ?thesis
      by (intro exI [of _ "Suc k"]) (auto simp: algebra_simps)
  qed
qed

definition handoff_base :: "Layer \<Rightarrow> location \<Rightarrow> go_time" where
  "handoff_base layer loc =
     Date loc (local_day loc (la_StartDate layer))
       (fst (parseTime (la_HandoffTime layer)) * 3600 + snd (parseTime (la_HandoffTime layer)) * 60) 0"

lemma first_handoff_unfold:
  "first_handoff layer loc =
     Option.bind (if la_RotationType layer = ''weekly'' then align_day loc (la_HandoffDay layer) (handoff_base layer loc)
                  else Some (handoff_base layer loc))
       (past_start (shift_of layer) (la_StartDate layer))"
  by (simp add: first_handoff_def handoff_base_def case_prod_beta Let_def)

text \<open>A layer the code can rotate: it has users, its shifts have a positive length, and a weekly one names a weekday.\<close>

definition sound_layer :: "Layer \<Rightarrow> bool" where
  "sound_layer layer \<longleftrightarrow> la_Users layer \<noteq> [] \<and> 0 < shift_of layer \<and>
     (la_RotationType layer = ''weekly'' \<longrightarrow> 0 \<le> la_HandoffDay layer \<and> la_HandoffDay layer < 7)"

lemma first_handoff_fixed:
  assumes "sound_layer layer"
  shows "\<exists>n j. let day = handoff_base layer (fixed_zone d) + int n * (24 * hour); fh = day + int j * shift_of layer
     in first_handoff layer (fixed_zone d) = Some fh \<and> la_StartDate layer \<le> fh \<and>
        (la_RotationType layer = ''weekly'' \<longrightarrow> Weekday (fixed_zone d) day = la_HandoffDay layer)"
proof -
  let ?loc = "fixed_zone d" and ?t = "handoff_base layer (fixed_zone d)"
  obtain n where n: "(if la_RotationType layer = ''weekly'' then align_day ?loc (la_HandoffDay layer) ?t else Some ?t) =
      Some (?t + int n * (24 * hour))"
    "la_RotationType layer = ''weekly'' \<longrightarrow> Weekday ?loc (?t + int n * (24 * hour)) = la_HandoffDay layer"
  proof (cases "la_RotationType layer = ''weekly''")
    case True
    with assms align_day_fixed [of "la_HandoffDay layer" d ?t] that show ?thesis
      unfolding sound_layer_def by auto
  next
    case False
    with that [of 0] show ?thesis by simp
  qed
  have "0 < shift_of layer" using assms by (simp add: sound_layer_def)
  from past_start_returns [OF this, of "la_StartDate layer" "?t + int n * (24 * hour)"] n show ?thesis
    unfolding first_handoff_unfold Let_def n(1) by auto
qed

section \<open>Turns\<close>

lemma go_quot_nonneg: "0 \<le> a \<Longrightarrow> 0 < b \<Longrightarrow> go_quot a b = a div b"
  by (auto simp: go_quot_def sgn_if)

lemma go_rem_nonneg: "0 \<le> a \<Longrightarrow> 0 < b \<Longrightarrow> go_rem a b = a mod b"
  by (auto simp: go_rem_def sgn_if)

lemma time_sub_exact: "0 \<le> a - b \<Longrightarrow> a - b \<le> max_duration \<Longrightarrow> time_sub a b = a - b"
  by (simp add: time_sub_def min_duration_def max_duration_def)

lemma getUserOnCall_before:
  assumes "la_Users layer \<noteq> []" "first_handoff layer loc = Some fh" "t < fh"
  shows "getUserOnCall layer t loc = Some (Return (Some (hd (la_Users layer), fh - shift_of layer, fh)))"
  using assms by (simp add: getUserOnCall_def)

lemma getUserOnCall_turn:
  assumes "la_Users layer \<noteq> []" "first_handoff layer loc = Some fh" "0 < shift_of layer"
    and "fh + int k * shift_of layer \<le> t" "t < fh + (int k + 1) * shift_of layer" "t - fh \<le> max_duration"
  shows "getUserOnCall layer t loc =
    Some (Return (Some (la_Users layer ! (k mod length (la_Users layer)),
                        fh + int k * shift_of layer, fh + (int k + 1) * shift_of layer)))"
proof -
  let ?s = "shift_of layer"
  have fh: "fh \<le> t" using assms(3,4) by (smt (verit) mult_nonneg_nonneg of_nat_0_le_iff)
  have sub: "time_sub t fh = t - fh" using fh assms(6) by (simp add: time_sub_exact)
  have "(t - fh) div ?s = int k"
    using assms(3-5) by (intro int_div_pos_eq [where r = "t - fh - int k * ?s"]) (auto simp: algebra_simps)
  then have q: "go_quot (time_sub t fh) ?s = int k"
    using fh assms(3) by (simp add: sub go_quot_nonneg)
  have r: "go_rem (int k) (int (length (la_Users layer))) = int (k mod length (la_Users layer))"
    using assms(1) by (simp add: go_rem_nonneg zmod_int)
  show ?thesis
    using assms(1,2) fh by (simp add: getUserOnCall_def q r distrib_right Let_def)
qed

lemma shift_index:
  assumes "0 < (s::int)" "fh \<le> t"
  obtains k where "fh + int k * s \<le> t" "t < fh + (int k + 1) * s"
proof -
  let ?k = "nat ((t - fh) div s)"
  have "int ?k = (t - fh) div s" using assms by (simp add: pos_imp_zdiv_nonneg_iff)
  moreover have "(t - fh) div s * s \<le> t - fh" "t - fh < ((t - fh) div s + 1) * s"
  proof -
    have "(t - fh) div s * s = t - fh - (t - fh) mod s" by (simp add: minus_mod_eq_div_mult)
    then show "(t - fh) div s * s \<le> t - fh" "t - fh < ((t - fh) div s + 1) * s"
      using pos_mod_bound [OF assms(1), of "t - fh"] pos_mod_sign [OF assms(1), of "t - fh"]
      unfolding distrib_right by linarith+
  qed
  ultimately show ?thesis using that [of ?k] by simp
qed

section \<open>Handoffs keep the weekday and the time of day\<close>

lemma base_time_of_day:
  assumes "parseTime (la_HandoffTime layer) = (h, m)" "0 \<le> h" "h < 24" "0 \<le> m" "m < 60"
  shows "secs_of_day (fixed_zone d) (handoff_base layer (fixed_zone d)) = h * 3600 + m * 60"
proof -
  have "local_secs (fixed_zone d) (handoff_base layer (fixed_zone d)) =
      local_day (fixed_zone d) (la_StartDate layer) * 86400 + (h * 3600 + m * 60)"
    by (simp add: local_secs_def handoff_base_def Date_fixed assms(1))
  moreover have "0 \<le> h * 3600 + m * 60" "h * 3600 + m * 60 < 86400" using assms(2-5) by auto
  ultimately show ?thesis by (simp add: secs_of_day_def)
qed

lemma clock_of_secs:
  assumes "secs_of_day loc t = h * 3600 + m * 60" "0 \<le> m" "m < 60"
  shows "Hour loc t = h" "Minute loc t = m"
proof -
  have "(h * 3600 + m * 60) div 3600 = h" "(h * 3600 + m * 60) mod 3600 = m * 60" using assms(2,3) by simp_all
  then show "Hour loc t = h" "Minute loc t = m" by (simp_all add: Hour_def Minute_def assms(1))
qed

lemma whole_days:
  assumes "24 * hour dvd s"
  shows "secs_of_day (fixed_zone d) (t + int n * (24 * hour) + int j * s + int k * s) = secs_of_day (fixed_zone d) t"
proof -
  obtain c where s: "s = 24 * hour * c" using assms by (rule dvdE)
  have "t + int n * (24 * hour) + int j * s + int k * s = t + (int n + int j * c + int k * c) * (24 * hour)"
    by (simp add: s algebra_simps)
  then show ?thesis by (simp only: later_day)
qed

lemma whole_weeks:
  assumes "7 * (24 * hour) dvd s"
  shows "Weekday (fixed_zone d) (t + int j * s + int k * s) = Weekday (fixed_zone d) t"
proof -
  obtain c where s: "s = 7 * (24 * hour) * c" using assms by (rule dvdE)
  have "t + int j * s + int k * s = t + (7 * (int j * c + int k * c)) * (24 * hour)"
    by (simp add: s algebra_simps)
  then have "Weekday (fixed_zone d) (t + int j * s + int k * s) = (Weekday (fixed_zone d) t + 7 * (int j * c + int k * c)) mod 7"
    by (simp only: Weekday_later)
  then show ?thesis using Weekday_range [of "fixed_zone d" t]
    by (simp only: mod_mult_self2 mod_pos_pos_trivial)
qed

text \<open>C33. A sound layer rotates by the clock. In a zone with a fixed offset there is a first handoff on or after
  the start date. Before it the first user is on call; from it on, in the \<open>k\<close>-th shift, user \<open>k\<close> modulo the number
  of users is, and the result carries the bounds of that shift. When shifts are whole days every handoff is at the
  layer's time of day, and when those of a weekly layer are whole weeks every handoff is on its weekday.\<close>

theorem rotation_round_robin:
  assumes "sound_layer layer"
  shows "\<exists>fh. first_handoff layer (fixed_zone d) = Some fh \<and> la_StartDate layer \<le> fh \<and>
    (\<forall>t < fh. getUserOnCall layer t (fixed_zone d) =
        Some (Return (Some (hd (la_Users layer), fh - shift_of layer, fh)))) \<and>
    (\<forall>k t. fh + int k * shift_of layer \<le> t \<and> t < fh + (int k + 1) * shift_of layer \<and> t - fh \<le> max_duration \<longrightarrow>
        getUserOnCall layer t (fixed_zone d) =
          Some (Return (Some (la_Users layer ! (k mod length (la_Users layer)),
                              fh + int k * shift_of layer, fh + (int k + 1) * shift_of layer)))) \<and>
    (\<forall>h m k. 24 * hour dvd shift_of layer \<and> parseTime (la_HandoffTime layer) = (h, m) \<and> h \<in> {0..<24} \<and> m \<in> {0..<60} \<longrightarrow>
        Hour (fixed_zone d) (fh + int k * shift_of layer) = h \<and> Minute (fixed_zone d) (fh + int k * shift_of layer) = m) \<and>
    (\<forall>k. la_RotationType layer = ''weekly'' \<and> 7 * (24 * hour) dvd shift_of layer \<longrightarrow>
        Weekday (fixed_zone d) (fh + int k * shift_of layer) = la_HandoffDay layer)"
proof -
  let ?b = "handoff_base layer (fixed_zone d)" and ?s = "shift_of layer"
  obtain n j where fh: "first_handoff layer (fixed_zone d) = Some (?b + int n * (24 * hour) + int j * ?s)"
      "la_StartDate layer \<le> ?b + int n * (24 * hour) + int j * ?s"
      "la_RotationType layer = ''weekly'' \<longrightarrow> Weekday (fixed_zone d) (?b + int n * (24 * hour)) = la_HandoffDay layer"
    using first_handoff_fixed [OF assms, of d] unfolding Let_def by blast
  have users: "la_Users layer \<noteq> []" "0 < ?s" using assms by (simp_all add: sound_layer_def)
  show ?thesis
    by (intro exI [of _ "?b + int n * (24 * hour) + int j * ?s"] conjI allI impI fh(1,2)
          getUserOnCall_before [OF users(1) fh(1)] getUserOnCall_turn [OF users(1) fh(1) users(2)])
      (auto simp only: whole_days whole_weeks fh(3) base_time_of_day clock_of_secs atLeastLessThan_iff)
qed

section \<open>The calendar of a layer\<close>

text \<open>Entries that cover the time from \<open>c\<close> to \<open>e\<close> one after the other.\<close>

fun tiles :: "OnCallEntry list \<Rightarrow> go_time \<Rightarrow> go_time \<Rightarrow> bool" where
  "tiles [] c e \<longleftrightarrow> e \<le> c"
| "tiles (x # xs) c e \<longleftrightarrow> oe_StartTime x = c \<and> c < oe_EndTime x \<and> oe_EndTime x \<le> e \<and> tiles xs (oe_EndTime x) e"

definition covers :: "OnCallEntry \<Rightarrow> go_time \<Rightarrow> bool" where
  "covers x t \<longleftrightarrow> oe_StartTime x \<le> t \<and> t < oe_EndTime x"

lemma tiles_later: "tiles xs c e \<Longrightarrow> x \<in> set xs \<Longrightarrow> c \<le> oe_StartTime x"
  by (induction xs arbitrary: c) (auto intro: order.trans less_imp_le)

lemma tiles_cover:
  "tiles xs c e \<Longrightarrow> c \<le> t \<Longrightarrow> t < e \<Longrightarrow> \<exists>x \<in> set xs. covers x t"
proof (induction xs arbitrary: c)
  case Nil
  then show ?case by simp
next
  case (Cons x xs)
  then show ?case by (cases "t < oe_EndTime x") (auto simp: covers_def)
qed

lemma tiles_unique:
  "tiles xs c e \<Longrightarrow> x \<in> set xs \<Longrightarrow> y \<in> set xs \<Longrightarrow> covers x t \<Longrightarrow> covers y t \<Longrightarrow> x = y"
proof (induction xs arbitrary: c)
  case Nil
  then show ?case by simp
next
  case (Cons z zs)
  have "z' \<in> set zs \<Longrightarrow> covers z' t \<Longrightarrow> \<not> covers z t" for z'
    using Cons.prems(1) tiles_later [of zs "oe_EndTime z" e z'] by (auto simp: covers_def)
  with Cons show ?case by auto
qed

text \<open>Where the loop over the shifts can stand.\<close>

definition at_boundary :: "Layer \<Rightarrow> go_time \<Rightarrow> go_time \<Rightarrow> go_time \<Rightarrow> go_time \<Rightarrow> bool" where
  "at_boundary layer fh start end' c \<longleftrightarrow>
     start \<le> c \<and> (end' \<le> c \<or> c = start \<or> (\<exists>k. c = fh + int k * shift_of layer))"

lemma calendar_step:
  assumes "la_Users layer \<noteq> []" "first_handoff layer loc = Some fh" "0 < shift_of layer"
    and "fh - shift_of layer \<le> start" "end' - fh \<le> max_duration"
    and "at_boundary layer fh start end' c" "c < end'"
  shows "\<exists>u s f. (\<forall>t. c \<le> t \<and> t < min end' f \<longrightarrow> getUserOnCall layer t loc = Some (Return (Some (u, s, f)))) \<and>
    max start s = c \<and> c < f \<and> at_boundary layer fh start end' (min end' f)"
proof (cases "c < fh")
  case True
  then have c: "c = start" using assms(3,6,7) unfolding at_boundary_def
    by (smt (verit) mult_nonneg_nonneg of_nat_0_le_iff)
  have "at_boundary layer fh start end' (min end' fh)"
    using c True assms(7) by (auto simp: at_boundary_def min_def intro: exI [of _ 0])
  with c True assms(4) show ?thesis
    by (intro exI [of _ "hd (la_Users layer)"] exI [of _ "fh - shift_of layer"] exI [of _ fh])
      (auto simp: getUserOnCall_before [OF assms(1,2)])
next
  case False
  let ?s = "shift_of layer"
  obtain k where k: "fh + int k * ?s \<le> c" "c < fh + (int k + 1) * ?s" "max start (fh + int k * ?s) = c"
  proof (cases "c = start")
    case True
    have "fh \<le> c" using \<open>\<not> c < fh\<close> by simp
    from shift_index [OF assms(3) this] obtain k where "fh + int k * ?s \<le> c" "c < fh + (int k + 1) * ?s" .
    with that True show ?thesis by simp
  next
    case False
    with assms(6,7) obtain k where "c = fh + int k * ?s" "start \<le> c" unfolding at_boundary_def by auto
    with that [of k] assms(3) show ?thesis by (simp add: distrib_right)
  qed
  let ?f = "fh + (int k + 1) * ?s"
  have "at_boundary layer fh start end' (min end' ?f)"
  proof (cases "end' \<le> ?f")
    case True
    then show ?thesis using assms(6,7) by (simp add: at_boundary_def)
  next
    case False
    moreover have "?f = fh + int (Suc k) * ?s" by simp
    moreover have "start \<le> ?f" using k(2) assms(6) by (simp add: at_boundary_def)
    ultimately show ?thesis unfolding at_boundary_def by (metis min.absorb2 nle_le)
  qed
  moreover have "getUserOnCall layer t loc =
      Some (Return (Some (la_Users layer ! (k mod length (la_Users layer)), fh + int k * ?s, ?f)))"
    if "c \<le> t" "t < min end' ?f" for t
    using that k(1) assms(5) by (intro getUserOnCall_turn [OF assms(1-3)]) auto
  ultimately show ?thesis using k(2,3) by blast
qed

text \<open>An entry that says, for every instant in it, what the rotation says.\<close>

definition follows :: "Layer \<Rightarrow> location \<Rightarrow> go_time \<Rightarrow> go_time \<Rightarrow> OnCallEntry \<Rightarrow> bool" where
  "follows layer loc start end' x \<longleftrightarrow>
     (\<forall>t. covers x t \<longrightarrow> (\<exists>u s f. getUserOnCall layer t loc = Some (Return (Some (u, s, f))) \<and>
        x = layer_entry layer u (max start s) (min end' f)))"

lemma followsD:
  "follows layer loc start end' x \<Longrightarrow> covers x t \<Longrightarrow> getUserOnCall layer t loc = Some (Return (Some (u, s, f))) \<Longrightarrow>
     x = layer_entry layer u (max start s) (min end' f)"
  unfolding follows_def by fastforce

lemma layer_calendar_tiles:
  assumes "la_Users layer \<noteq> []" "first_handoff layer loc = Some fh" "0 < shift_of layer"
    and "fh - shift_of layer \<le> start" "end' - fh \<le> max_duration"
    and active: "\<And>t. start \<le> t \<Longrightarrow> t < end' \<Longrightarrow> isLayerActive layer t loc"
  shows "at_boundary layer fh start end' c \<Longrightarrow>
    \<exists>es. layer_calendar layer start end' loc acc c = Some (Return (acc @ es)) \<and> tiles es c end' \<and>
         (\<forall>x \<in> set es. follows layer loc start end' x)"
proof (induction "nat (end' - c)" arbitrary: c acc rule: less_induct)
  case less
  show ?case
  proof (cases "c < end'")
    case False
    then show ?thesis by (subst layer_calendar.simps) simp
  next
    case True
    from calendar_step [OF assms(1-5) less.prems True] obtain u s f where
      turn: "\<And>t. c \<le> t \<Longrightarrow> t < min end' f \<Longrightarrow> getUserOnCall layer t loc = Some (Return (Some (u, s, f)))"
      and f: "max start s = c" "c < f" "at_boundary layer fh start end' (min end' f)"
      by blast
    let ?x = "layer_entry layer u (max start s) (min end' f)"
    have "nat (end' - min end' f) < nat (end' - c)" using True f(2) by auto
    from less.hyps [OF this f(3), of "acc @ [?x]"] obtain es where
      es: "layer_calendar layer start end' loc (acc @ [?x]) (min end' f) = Some (Return ((acc @ [?x]) @ es))"
        "tiles es (min end' f) end'" "\<forall>x \<in> set es. follows layer loc start end' x" by blast
    have "isLayerActive layer c loc" using active [of c] less.prems True by (simp add: at_boundary_def)
    then have "layer_calendar layer start end' loc acc c = layer_calendar layer start end' loc (acc @ [?x]) (min end' f)"
      using True f(2) by (subst layer_calendar.simps) (simp add: turn)
    moreover have "tiles (?x # es) c end'" using es(2) f True by (simp add: layer_entry_def)
    moreover have "follows layer loc start end' ?x"
      using turn f(1) unfolding follows_def covers_def by (auto simp: layer_entry_def)
    ultimately show ?thesis using es by (intro exI [of _ "?x # es"]) simp
  qed
qed

lemma layer_calendar_follows:
  assumes "la_Users layer \<noteq> []" "first_handoff layer loc = Some fh" "0 < shift_of layer"
    and "fh - shift_of layer \<le> start" "end' - fh \<le> max_duration"
    and "\<And>t. start \<le> t \<Longrightarrow> t < end' \<Longrightarrow> isLayerActive layer t loc"
  obtains es where "generateLayerCalendar layer start end' loc = Some (Return es)" "tiles es start end'"
    "\<forall>x \<in> set es. follows layer loc start end' x"
proof -
  have "at_boundary layer fh start end' start" by (simp add: at_boundary_def)
  from layer_calendar_tiles [OF assms this, of "[]"] that assms(1) show ?thesis
    by (auto simp: generateLayerCalendar_def)
qed


section \<open>Overrides and the calendar\<close>

definition sorts_entries :: "oncall_env \<Rightarrow> bool" where
  "sorts_entries e \<longleftrightarrow> (\<forall>xs. set (sort_entries e xs) = set xs)"

lemma covers_override:
  assumes "x \<in> set (clamped_overrides overrides start end')" "covers x t"
  shows "\<exists>ov \<in> set overrides. ov_StartTime ov \<le> t \<and> t < ov_EndTime ov"
  using assms by (auto simp: clamped_overrides_def override_entry_def covers_def)

text \<open>The calendar and the pager disagree around an override. Whenever an override touches a shift, the calendar
  drops the shift as a whole: at every instant of the shift outside the overrides \<open>getOnCallAt\<close> names the layer's
  user, and no entry of the calendar covers the instant.\<close>

theorem calendar_loses_shift:
  assumes "sd_Layers sched = [layer]" "sort_layers e [layer] = [layer]" "sorts_entries e"
    and "LoadLocation e (sd_Timezone sched) = loc"
    and "la_Users layer \<noteq> []" "first_handoff layer loc = Some fh" "0 < shift_of layer"
    and "fh - shift_of layer \<le> start" "end' - fh \<le> max_duration"
    and "\<And>t. start \<le> t \<Longrightarrow> t < end' \<Longrightarrow> isLayerActive layer t loc"
    and "start \<le> t" "t < end'" "getUserOnCall layer t loc = Some (Return (Some (u, s, f)))"
    and "ov \<in> set (sd_Overrides sched)" "max start s < ov_EndTime ov" "ov_StartTime ov < min end' f"
    and outside: "\<forall>o' \<in> set (sd_Overrides sched). \<not> (ov_StartTime o' \<le> t \<and> t < ov_EndTime o')"
  shows "getOnCallAt e sched t = Some (Return (Some (layer_entry layer u s f))) \<and>
    (\<exists>cal. generateCalendar e sched start end' = Some (Return cal) \<and>
       (\<forall>x \<in> set cal. \<not> (oe_StartTime x \<le> t \<and> t < oe_EndTime x)))"
proof -
  obtain es where es: "generateLayerCalendar layer start end' loc = Some (Return es)" "tiles es start end'"
    "\<forall>x \<in> set es. follows layer loc start end' x"
    by (rule layer_calendar_follows [OF assms(5-10)])
  let ?all = "sort_entries e (clamped_overrides (sd_Overrides sched) start end' @ es)"
  have "generateCalendar e sched start end' = Some (Return (mergeEntries ?all (sd_Overrides sched)))"
    using es(1) by (simp add: generateCalendar_def assms(1,2,4))
  moreover have "\<not> covers x t" if "x \<in> set (mergeEntries ?all (sd_Overrides sched))" for x
  proof
    assume t: "covers x t"
    have x: "x \<in> set (clamped_overrides (sd_Overrides sched) start end') \<or> x \<in> set es"
      and m: "oe_IsOverride x \<or> \<not> overlaps x ov"
      using that assms(3,14) by (auto simp: mergeEntries_def sorts_entries_def)
    from x show False
    proof
      assume "x \<in> set (clamped_overrides (sd_Overrides sched) start end')"
      from covers_override [OF this t] outside show False by blast
    next
      assume "x \<in> set es"
      then have "x = layer_entry layer u (max start s) (min end' f)" using es(3) followsD [OF _ t assms(13)] by blast
      with m assms(15,16) show False by (simp add: layer_entry_def overlaps_def)
    qed
  qed
  moreover have "find (override_active t) (sd_Overrides sched) = None"
    using outside by (auto simp: find_None_iff override_active_def dest: less_imp_le)
  then have "getOnCallAt e sched t = Some (Return (Some (layer_entry layer u s f)))"
    using assms(10) [OF assms(11,12)] assms(13) by (simp add: getOnCallAt_def assms(1,2,4))
  ultimately show ?thesis unfolding covers_def by blast
qed

section \<open>Layers that never answer\<close>

lemma past_start_hangs:
  assumes "past_start shift s t = Some r"
  shows "0 < shift \<or> s \<le> t"
proof (rule past_start.raw_induct [where P = "\<lambda>shift s t r. 0 < shift \<or> s \<le> t", OF _ assms])
  fix f :: "duration \<Rightarrow> go_time \<Rightarrow> go_time \<Rightarrow> go_time option" and shift s t r :: int
  assume IH: "\<And>shift s t r. f shift s t = Some r \<Longrightarrow> 0 < shift \<or> s \<le> t"
    and eq: "(if t < s then f shift s (t + shift) else Some t) = Some r"
  show "0 < shift \<or> s \<le> t"
    using IH [of shift s "t + shift" r] eq by (cases "t < s") auto
qed

text \<open>A layer that no handler refuses can stop whoever asks for it: a weekly layer whose handoff day is no
  weekday, or a layer with a negative shift whose first handoff falls before its start date, never answers.\<close>

theorem unsound_layer_never_answers:
  assumes "la_Users layer \<noteq> []"
    and "la_RotationType layer = ''weekly'' \<and> \<not> (0 \<le> la_HandoffDay layer \<and> la_HandoffDay layer < 7) \<or>
         la_RotationType layer \<noteq> ''weekly'' \<and> shift_of layer < 0 \<and> handoff_base layer loc < la_StartDate layer"
  shows "getUserOnCall layer t loc = None"
proof -
  have "first_handoff layer loc = None"
  proof (cases "la_RotationType layer = ''weekly''")
    case True
    with assms(2) have "align_day loc (la_HandoffDay layer) (handoff_base layer loc) = None"
      by (intro align_day_hangs) blast
    with True show ?thesis by (simp add: first_handoff_unfold)
  next
    case False
    with assms(2) past_start_hangs [of "shift_of layer" "la_StartDate layer" "handoff_base layer loc"]
    have "past_start (shift_of layer) (la_StartDate layer) (handoff_base layer loc) = None"
      by (cases "past_start (shift_of layer) (la_StartDate layer) (handoff_base layer loc)") auto
    with False show ?thesis by (simp add: first_handoff_unfold)
  qed
  with assms(1) show ?thesis by (simp add: getUserOnCall_def)
qed

section \<open>Examples\<close>

definition ex_user :: "string \<Rightarrow> OncallUser" where
  "ex_user nm = \<lparr>ou_ID = nm, ou_Name = nm, ou_Email = [], ou_Phone = []\<rparr>"

definition ex_layer :: Layer where
  "ex_layer = \<lparr>la_ID = ''l'', la_Name = ''primary'', la_Priority = 1, la_RotationType = ''daily'', la_HandoffTime = ''09:00'',
     la_HandoffDay = 0, la_ShiftDuration = 0, la_StartDate = 0, la_EndDate = None,
     la_Users = [ex_user ''ann'', ex_user ''bob''], la_Restrictions = []\<rparr>"

lemma ex_layer_simps [simp]:
  "la_RotationType ex_layer = ''daily''" "la_StartDate ex_layer = 0" "la_Users ex_layer = [ex_user ''ann'', ex_user ''bob'']"
  "shift_of ex_layer = 24 * hour" "la_HandoffTime ex_layer = ''09:00''"
  by (simp_all add: ex_layer_def shift_of_def)

lemma ex_parse: "parseTime ''09:00'' = (9, 0)"
  by code_simp

lemma ex_sound: "sound_layer ex_layer"
  by (simp add: sound_layer_def)

lemma ex_handoff: "first_handoff ex_layer UTC = Some (9 * hour)"
proof -
  have "handoff_base ex_layer UTC = 9 * hour"
    by (simp add: handoff_base_def ex_parse UTC_fixed Date_fixed local_day_def local_secs_def)
  then show ?thesis by (simp add: first_handoff_unfold past_start.simps)
qed

lemma ex_active: "0 \<le> t \<Longrightarrow> isLayerActive ex_layer t loc"
  by (simp add: isLayerActive_def) (simp add: ex_layer_def)

theorem rotation_round_robin_witness:
  "\<exists>fh. first_handoff ex_layer (fixed_zone 3600) = Some fh \<and> 0 \<le> fh \<and> Hour (fixed_zone 3600) fh = 9 \<and>
     getUserOnCall ex_layer (fh + 25 * hour) (fixed_zone 3600) =
       Some (Return (Some (ex_user ''bob'', fh + 24 * hour, fh + 48 * hour)))"
proof -
  from rotation_round_robin [OF ex_sound, of 3600] obtain fh where
    fh: "first_handoff ex_layer (fixed_zone 3600) = Some fh" "0 \<le> fh"
    and turn: "\<forall>k t. fh + int k * (24 * hour) \<le> t \<and> t < fh + (int k + 1) * (24 * hour) \<and> t - fh \<le> max_duration \<longrightarrow>
        getUserOnCall ex_layer t (fixed_zone 3600) =
          Some (Return (Some ([ex_user ''ann'', ex_user ''bob''] ! (k mod length [ex_user ''ann'', ex_user ''bob'']),
                              fh + int k * (24 * hour), fh + (int k + 1) * (24 * hour))))"
    and clock: "\<forall>h m k. 24 * hour dvd 24 * hour \<and> parseTime ''09:00'' = (h, m) \<and> h \<in> {0..<24} \<and> m \<in> {0..<60} \<longrightarrow>
        Hour (fixed_zone 3600) (fh + int k * (24 * hour)) = h \<and> Minute (fixed_zone 3600) (fh + int k * (24 * hour)) = m"
    unfolding ex_layer_simps by blast
  have "Hour (fixed_zone 3600) fh = 9"
    using clock [rule_format, of 9 0 0] by (simp add: ex_parse)
  moreover have "getUserOnCall ex_layer (fh + 25 * hour) (fixed_zone 3600) =
       Some (Return (Some (ex_user ''bob'', fh + 24 * hour, fh + 48 * hour)))"
    using turn [rule_format, of 1 "fh + 25 * hour"] by (simp add: max_duration_def)
  ultimately show ?thesis using fh by blast
qed


definition ex_env :: oncall_env where
  "ex_env = \<lparr>zoneinfo = (\<lambda>_. None), sort_layers = (\<lambda>ls. ls), sort_entries = sort_key oe_StartTime\<rparr>"

definition ex_override :: Override where
  "ex_override = \<lparr>ov_ID = ''o'', ov_UserID = ''cat'', ov_UserName = ''cat'', ov_StartTime = 10 * hour, ov_EndTime = 11 * hour,
     ov_Reason = [], ov_CreatedBy = [], ov_CreatedAt = 0\<rparr>"

definition ex_schedule :: Schedule where
  "ex_schedule = \<lparr>sd_ID = ''s'', sd_Name = ''ops'', sd_Description = [], sd_Timezone = ''UTC'', sd_Teams = [],
     sd_Layers = [ex_layer], sd_Overrides = [ex_override], sd_CreatedAt = 0, sd_UpdatedAt = 0\<rparr>"

lemma ex_turn:
  "9 * hour + int k * (24 * hour) \<le> t \<Longrightarrow> t < 9 * hour + (int k + 1) * (24 * hour) \<Longrightarrow> t - 9 * hour \<le> max_duration \<Longrightarrow>
     getUserOnCall ex_layer t UTC =
       Some (Return (Some ([ex_user ''ann'', ex_user ''bob''] ! (k mod 2),
                           9 * hour + int k * (24 * hour), 9 * hour + (int k + 1) * (24 * hour))))"
  using getUserOnCall_turn [OF _ ex_handoff, of k t] by (simp add: numeral_2_eq_2)

theorem calendar_loses_shift_witness:
  "getOnCallAt ex_env ex_schedule (20 * hour) = Some (Return (Some (layer_entry ex_layer (ex_user ''ann'') (9 * hour) (33 * hour)))) \<and>
    (\<exists>cal. generateCalendar ex_env ex_schedule 0 (48 * hour) = Some (Return cal) \<and>
       (\<forall>x \<in> set cal. \<not> (oe_StartTime x \<le> 20 * hour \<and> 20 * hour < oe_EndTime x)))"
proof (rule calendar_loses_shift [where ov = ex_override and layer = ex_layer and loc = UTC and fh = "9 * hour"])
  show "getUserOnCall ex_layer (20 * hour) UTC = Some (Return (Some (ex_user ''ann'', 9 * hour, 33 * hour)))"
    using ex_turn [of 0 "20 * hour"] by (simp add: max_duration_def)
  show "first_handoff ex_layer UTC = Some (9 * hour)" by (rule ex_handoff)
qed (simp_all add: ex_schedule_def ex_env_def sorts_entries_def LoadLocation_def max_duration_def ex_active ex_override_def)

theorem unsound_layer_never_answers_witness:
  "getUserOnCall (ex_layer\<lparr>la_RotationType := ''weekly'', la_HandoffDay := 7\<rparr>) 0 UTC = None"
  by (rule unsound_layer_never_answers) simp_all

text \<open>Shifts are hours of the clock on the wall only while the zone keeps its offset: ten days after the start the
  clocks go forward by an hour, and the handoff at 9:00 is one at 10:00 from then on.\<close>

definition ex_zone :: location where
  "ex_zone sec = (if sec < 867600 then (0, - (2 ^ 63), 867600) else (3600, 867600, 2 ^ 63 - 1))"

lemma handoff_drifts:
  "first_handoff ex_layer ex_zone = Some (9 * hour) \<and> Hour ex_zone (9 * hour) = 9 \<and>
     Hour ex_zone (9 * hour + 11 * shift_of ex_layer) = 10"
proof -
  have "handoff_base ex_layer ex_zone = 9 * hour"
    by (simp add: handoff_base_def ex_parse Date_def local_day_def local_secs_def ex_zone_def)
  then have "first_handoff ex_layer ex_zone = Some (9 * hour)"
    by (simp add: first_handoff_unfold past_start.simps)
  then show ?thesis by (simp add: Hour_def secs_of_day_def local_secs_def ex_zone_def)
qed

text \<open>Before the first handoff the result need not contain the instant that was asked for.\<close>

lemma first_shift_misses_instant:
  "getUserOnCall (ex_layer\<lparr>la_ShiftDuration := hour\<rparr>) (30 * minute) UTC =
     Some (Return (Some (ex_user ''ann'', 8 * hour, 9 * hour)))"
proof -
  let ?l = "ex_layer\<lparr>la_ShiftDuration := hour\<rparr>"
  have l: "shift_of ?l = hour" "la_RotationType ?l = ''daily''" "la_StartDate ?l = 0" "la_HandoffTime ?l = ''09:00''"
    by (simp_all add: ex_layer_def shift_of_def)
  have "handoff_base ?l UTC = 9 * hour"
    by (simp add: handoff_base_def ex_parse UTC_fixed Date_fixed local_day_def local_secs_def)
  then have "first_handoff ?l UTC = Some (9 * hour)"
    by (simp add: first_handoff_unfold past_start.simps l)
  then show ?thesis using getUserOnCall_before [of ?l UTC "9 * hour" "30 * minute"] by (simp add: l)
qed

end
