(* ===== verification/Oncall_Levels.thy ===== *)
theory Oncall_Levels
  imports Oncall_Paging Oncall_Rotation
begin

text \<open>
  An incident that nobody takes climbs through every level of its policy, and what an engine finds in the database when
  it starts again.
\<close>

section \<open>Pages that return\<close>

text \<open>A target whose page returns: only asking a schedule may not.\<close>

definition answers :: "pager \<Rightarrow> OncallDB \<Rightarrow> Target \<Rightarrow> bool" where
  "answers p db target \<longleftrightarrow> (tg_Type target = ''schedule'' \<longrightarrow>
     (\<exists>r. GetCurrentOnCall (pg_env p) (pg_now p) (tg_ID target) db = Some r \<and> r \<noteq> Panic))"

definition paged :: "int \<Rightarrow> Target \<Rightarrow> EscalationState \<Rightarrow> bool" where
  "paged level target st \<longleftrightarrow> (\<exists>note \<in> set (es_Notifications st). nt_Level note = level \<and> nt_Target note = target)"

lemma paged_later: "pages now level st st' \<Longrightarrow> paged lv target st \<Longrightarrow> paged lv target st'"
  by (auto simp: pages_def paged_def)

lemma notifyTarget_returns:
  assumes "answers p db target"
  shows "\<exists>st'. notifyTarget p channels db level target st = Some (Return st') \<and>
    (tg_Type target = ''user'' \<longrightarrow> paged level target st')"
proof (cases "tg_Type target = ''user''")
  case True
  then have "target = \<lparr>tg_Type = ''user'', tg_ID = tg_ID target\<rparr>" by simp
  with True show ?thesis unfolding notifyTarget_def paged_def notifyUser_def Let_def by simp
next
  case False
  then show ?thesis
    using assms unfolding notifyTarget_def answers_def by (auto split: outcome.split option.split)
qed

lemma notifyTargets_return:
  "\<forall>target \<in> set targets. answers p db target \<Longrightarrow>
     \<exists>st'. notifyTargets p channels db level targets st = Some (Return st') \<and>
       (\<forall>target \<in> set targets. tg_Type target = ''user'' \<longrightarrow> paged level target st')"
proof (induction targets arbitrary: st)
  case Nil
  then show ?case by simp
next
  case (Cons target targets)
  from notifyTarget_returns [of p db target channels level st] Cons.prems obtain st1 where
    st1: "notifyTarget p channels db level target st = Some (Return st1)" "tg_Type target = ''user'' \<longrightarrow> paged level target st1"
    by auto
  from Cons obtain st' where st': "notifyTargets p channels db level targets st1 = Some (Return st')"
    "\<forall>target \<in> set targets. tg_Type target = ''user'' \<longrightarrow> paged level target st'" by force
  with st1 paged_later [OF pages_notifyTargets [OF st'(1)]] show ?case by auto
qed

section \<open>The climb\<close>

text \<open>Saves of escalation states leave schedules and policies alone.\<close>

definition same_rest :: "OncallDB \<Rightarrow> OncallDB \<Rightarrow> bool" where
  "same_rest db db' \<longleftrightarrow> (\<exists>rows. db' = db\<lparr>oc_states := rows\<rparr>)"

lemma same_rest_refl: "same_rest db db"
  unfolding same_rest_def by (rule exI [of _ "oc_states db"]) simp

lemma same_rest_save: "same_rest db db' \<Longrightarrow> same_rest db (snd (SaveEscalationState st db'))"
  by (auto simp: same_rest_def SaveEscalationState_def oc_exec_def)

lemma same_rest_policy: "same_rest db db' \<Longrightarrow> GetPolicy iD db' = GetPolicy iD db"
  by (auto simp: same_rest_def GetPolicy_def oc_row_def)

lemma same_rest_oncall:
  assumes "same_rest db db'"
  shows "GetCurrentOnCall e now iD db' = GetCurrentOnCall e now iD db"
proof -
  obtain rows where db': "db' = db\<lparr>oc_states := rows\<rparr>" using assms by (auto simp: same_rest_def)
  have "getOverridesForSchedule now iD db' = getOverridesForSchedule now iD db"
    by (simp add: db' getOverridesForSchedule_def oc_rows_def)
  moreover have "oc_row db' (find P (oc_schedules db')) = oc_row db (find P (oc_schedules db))" for P
    by (simp add: db' oc_row_def)
  ultimately have "GetSchedule now iD db' = GetSchedule now iD db"
    by (simp only: GetSchedule_def)
  then show ?thesis by (simp add: GetCurrentOnCall_def)
qed

lemma same_rest_answers: "same_rest db db' \<Longrightarrow> answers p db' target = answers p db target"
  by (simp add: answers_def same_rest_oncall)

text \<open>A policy with levels 1, 2, and so on.\<close>

definition ladder :: "EscalationPolicy \<Rightarrow> bool" where
  "ladder policy \<longleftrightarrow> (\<forall>i < length (ep_Rules policy). er_Level (ep_Rules policy ! i) = int i + 1)"

lemma ladder_rule:
  assumes "ladder policy" "i < length (ep_Rules policy)"
  shows "rule_at (int i + 1) policy = Some (ep_Rules policy ! i)"
proof -
  have "\<not> er_Level (ep_Rules policy ! j) = int i + 1" if "j < i" for j
    using assms that by (simp add: ladder_def)
  with assms show ?thesis unfolding rule_at_def find_Some_iff by (auto simp: ladder_def)
qed

text \<open>An incident that has reached rule \<open>i\<close> of its policy and paged the users of all rules up to it.\<close>

definition reached :: "EscalationPolicy \<Rightarrow> string \<Rightarrow> nat \<Rightarrow> go_time \<Rightarrow> EscalationState \<Rightarrow> bool" where
  "reached policy pid i t st \<longleftrightarrow>
     es_PolicyID st = pid \<and> es_CurrentLevel st = int i + 1 \<and> es_LastEscalation st = t \<and> es_RepeatCount st = 0 \<and>
     (\<forall>j \<le> i. \<forall>target \<in> set (er_Targets (ep_Rules policy ! j)). tg_Type target = ''user'' \<longrightarrow> paged (int j + 1) target st)"

lemma climb_step:
  assumes "GetPolicy pid db0 = Inr policy" "ladder policy" "Suc i < length (ep_Rules policy)"
    and "reached policy pid i t st" "same_rest db0 db" "delay_of (ep_Rules policy ! i) \<le> time_sub (pg_now p) t"
    and "\<forall>target \<in> set (er_Targets (ep_Rules policy ! Suc i)). answers p db0 target"
  shows "\<exists>st' db'. check_state p channels st db = Some (Return (st', db')) \<and> same_rest db0 db' \<and>
    reached policy pid (Suc i) (pg_now p) st'"
proof -
  let ?rule = "ep_Rules policy ! Suc i"
  let ?st = "st\<lparr>es_CurrentLevel := er_Level ?rule, es_LastEscalation := pg_now p\<rparr>"
  have level: "er_Level ?rule = int (Suc i) + 1" using assms(2,3) by (simp add: ladder_def)
  have st: "es_PolicyID st = pid" "es_CurrentLevel st = int i + 1" "es_LastEscalation st = t" "es_RepeatCount st = 0"
    using assms(4) by (simp_all add: reached_def)
  obtain st' where st': "notifyTargets p channels db (er_Level ?rule) (er_Targets ?rule) ?st = Some (Return st')"
    "\<forall>target \<in> set (er_Targets ?rule). tg_Type target = ''user'' \<longrightarrow> paged (er_Level ?rule) target st'"
    using notifyTargets_return [of "er_Targets ?rule" p db channels "er_Level ?rule" ?st] assms(7)
    unfolding same_rest_answers [OF assms(5)] by blast
  have "check_state p channels st db = escalateTo p channels ?rule st db"
    using assms(3,6) ladder_rule [OF assms(2), of i] ladder_rule [OF assms(2,3)]
    by (simp add: check_state_def same_rest_policy [OF assms(5)] assms(1) st)
  then have "check_state p channels st db = Some (Return (st', snd (SaveEscalationState st' db)))"
    using st'(1) by (simp add: escalateTo_def)
  moreover have "reached policy pid (Suc i) (pg_now p) st'"
    unfolding reached_def
  proof (intro conjI allI impI ballI)
    fix j target
    assume j: "j \<le> Suc i" "target \<in> set (er_Targets (ep_Rules policy ! j))" "tg_Type target = ''user''"
    show "paged (int j + 1) target st'"
    proof (cases "j = Suc i")
      case True
      with j st'(2) level show ?thesis by simp
    next
      case False
      with j assms(4) have "paged (int j + 1) target ?st" by (simp add: reached_def paged_def)
      with pages_notifyTargets [OF st'(1)] show ?thesis by (rule paged_later)
    qed
  qed (use notifyTargets_frame [OF st'(1)] st level in simp_all)
  ultimately show ?thesis using same_rest_save [OF assms(5)] by blast
qed

text \<open>Checks of one incident at successive times.\<close>

fun checks :: "pager list \<Rightarrow> nat \<Rightarrow> Engine \<Rightarrow> OncallDB \<Rightarrow> (Engine \<times> OncallDB) outcome option" where
  "checks [] ref eng db = Some (Return (eng, db))"
| "checks (p # ps) ref eng db =
     Option.bind (checkEscalation p ref eng db) (\<lambda>r. case r of
         Return (eng1, db1) \<Rightarrow> checks ps ref eng1 db1
       | x \<Rightarrow> Some x)"

lemma climb:
  assumes "GetPolicy pid db0 = Inr policy" "ladder policy"
  shows "ref < length (eg_heap eng) \<Longrightarrow> i + length ps < length (ep_Rules policy) \<Longrightarrow> reached policy pid i t (eg_heap eng ! ref) \<Longrightarrow>
    same_rest db0 db \<Longrightarrow>
    \<forall>k < length ps. delay_of (ep_Rules policy ! (i + k)) \<le> time_sub (pg_now (ps ! k)) ((t # map pg_now ps) ! k) \<Longrightarrow>
    \<forall>p \<in> set ps. \<forall>rule \<in> set (ep_Rules policy). \<forall>target \<in> set (er_Targets rule). answers p db0 target \<Longrightarrow>
    \<exists>eng' db'. checks ps ref eng db = Some (Return (eng', db')) \<and>
      reached policy pid (i + length ps) (last (t # map pg_now ps)) (eg_heap eng' ! ref)"
proof (induction ps arbitrary: i t eng db)
  case Nil
  then show ?case by simp
next
  case (Cons p ps)
  from Cons.prems(5) have due: "delay_of (ep_Rules policy ! i) \<le> time_sub (pg_now p) t" by force
  have i: "Suc i < length (ep_Rules policy)" using Cons.prems(2) by simp
  then have "\<forall>target \<in> set (er_Targets (ep_Rules policy ! Suc i)). answers p db0 target"
    using Cons.prems(6) nth_mem by fastforce
  from climb_step [OF assms i Cons.prems(3,4) due this] obtain st' db' where
    st': "check_state p (eg_channels eng) (eg_heap eng ! ref) db = Some (Return (st', db'))" "same_rest db0 db'"
      "reached policy pid (Suc i) (pg_now p) st'" by blast
  let ?eng = "eng\<lparr>eg_heap := (eg_heap eng)[ref := st']\<rparr>"
  have later: "\<forall>k < length ps. delay_of (ep_Rules policy ! (Suc i + k)) \<le> time_sub (pg_now (ps ! k)) ((pg_now p # map pg_now ps) ! k)"
  proof (intro allI impI)
    fix k assume "k < length ps"
    then show "delay_of (ep_Rules policy ! (Suc i + k)) \<le> time_sub (pg_now (ps ! k)) ((pg_now p # map pg_now ps) ! k)"
      using Cons.prems(5) [rule_format, of "Suc k"] by simp
  qed
  have "\<exists>eng' db''. checks ps ref ?eng db' = Some (Return (eng', db'')) \<and>
      reached policy pid (Suc i + length ps) (last (pg_now p # map pg_now ps)) (eg_heap eng' ! ref)"
    using Cons.prems(1,2,6) st'(2,3) later by (intro Cons.IH) simp_all
  with st'(1) show ?case by (simp add: checkEscalation_def)
qed

lemma reached_trigger:
  assumes "GetPolicy pid db = Inr policy" "ladder policy"
    and "\<forall>rule \<in> set (ep_Rules policy). \<forall>target \<in> set (er_Targets rule). answers p db target"
    and "TriggerIncident p incidentID pid eng db = Some (Return (Inr (), eng0, db0))"
  shows "reached policy pid 0 (pg_now p) (eg_heap eng0 ! length (eg_heap eng))" "length (eg_heap eng) < length (eg_heap eng0)"
    "same_rest db db0" "ep_Rules policy \<noteq> []"
proof -
  from assms(4) obtain rule rules st st1 where t: "ep_Rules policy = rule # rules"
    "st = \<lparr>es_IncidentID = incidentID, es_PolicyID = pid, es_CurrentLevel = er_Level rule, es_RepeatCount = 0,
             es_StartedAt = pg_now p, es_LastEscalation = pg_now p, es_Acknowledged = False, es_AckedBy = '''',
             es_AckedAt = None, es_Resolved = False, es_Notifications = []\<rparr>"
    "notifyTargets p (eg_channels eng) db (er_Level rule) (er_Targets rule) st = Some (Return st1)"
    "eng0 = eng\<lparr>eg_heap := eg_heap eng @ [st1], eg_states := (eg_states eng)(incidentID \<mapsto> length (eg_heap eng))\<rparr>"
    "db0 = snd (SaveEscalationState st1 db)"
    using assms(1) by (cases rule: TriggerIncident_Return) auto
  have level: "er_Level rule = 1" using assms(2) t(1) by (force simp: ladder_def)
  have "\<forall>target \<in> set (er_Targets rule). tg_Type target = ''user'' \<longrightarrow> paged (er_Level rule) target st1"
    using notifyTargets_return [of "er_Targets rule" p db "eg_channels eng" "er_Level rule" st] assms(3) t(1,3) by simp
  then show "reached policy pid 0 (pg_now p) (eg_heap eng0 ! length (eg_heap eng))"
    using notifyTargets_frame [OF t(3)] level by (simp add: reached_def t(1,2,4))
  show "length (eg_heap eng) < length (eg_heap eng0)" "same_rest db db0" "ep_Rules policy \<noteq> []"
    by (simp_all add: t same_rest_save same_rest_refl)
qed


section \<open>Restarts\<close>

lemma GetEscalationState_restore:
  "engine_wf eng \<Longrightarrow> GetEscalationState iD (restore_state st eng) = (if iD = es_IncidentID st then Inr st else GetEscalationState iD eng)"
  by (auto simp: GetEscalationState_def restore_state_def nth_append dest: engine_wfD split: option.split)

lemma GetEscalationState_restored:
  assumes "distinct (map es_IncidentID rows)"
  shows "GetEscalationState iD (fold restore_state rows NewEscalationEngine) =
    (case state_row iD rows of None \<Rightarrow> Inl ''incident not found'' | Some st \<Rightarrow> Inr st)"
  using assms
proof (induction rows rule: rev_induct)
  case Nil
  then show ?case by (simp add: state_row_def GetEscalationState_def NewEscalationEngine_def)
next
  case (snoc r rows)
  have "engine_wf (fold restore_state rows NewEscalationEngine)"
    by (rule fold_inv) (simp add: engine_wf_def NewEscalationEngine_def, rule wf_restore)
  moreover have "state_row (es_IncidentID r) rows = None"
    using snoc.prems unfolding state_row_def find_none_image by auto
  ultimately show ?case using snoc
    by (auto simp: GetEscalationState_restore state_row_def find_append split: option.split)
qed

lemma upsert_ids:
  "map es_IncidentID (upsert_state row rows) =
     (if es_IncidentID row \<in> es_IncidentID ` set rows then map es_IncidentID rows else map es_IncidentID rows @ [es_IncidentID row])"
  by (simp add: upsert_state_def)

lemma state_row_filter:
  "distinct (map es_IncidentID rows) \<Longrightarrow> state_row iD rows = Some r \<Longrightarrow> P r \<Longrightarrow> state_row iD (filter P rows) = Some r"
proof (induction rows)
  case (Cons x rows)
  then show ?case by (auto simp: state_row_def find_none_image split: if_split_asm dest: find_some_image)
qed (simp add: state_row_def)

lemma Start_saved:
  assumes "oc_ok db" "distinct (map es_IncidentID (oc_states db))" "\<not> es_Resolved st"
  shows "GetEscalationState (es_IncidentID st) (Start (snd (SaveEscalationState st db)) NewEscalationEngine) =
    Inr (merged_row (stored_state st) (state_row (es_IncidentID st) (oc_states db)))"
proof -
  let ?row = "merged_row (stored_state st) (state_row (es_IncidentID st) (oc_states db))"
  let ?rows = "upsert_state (stored_state st) (oc_states db)"
  have iD: "es_IncidentID (stored_state st) = es_IncidentID st" by (simp add: stored_state_def)
  have d: "distinct (map es_IncidentID ?rows)" using assms(2) by (auto simp: upsert_ids)
  have "state_row (es_IncidentID st) ?rows = Some ?row" by (simp add: state_row_upsert iD)
  moreover have "\<not> es_Resolved ?row"
    using assms(3) by (simp add: merged_row_def stored_state_def split: option.split)
  ultimately have "state_row (es_IncidentID st) (filter (\<lambda>row. \<not> es_Resolved row) ?rows) = Some ?row"
    using state_row_filter [OF d, where P = "\<lambda>row. \<not> es_Resolved row"] by blast
  moreover have "Start (snd (SaveEscalationState st db)) NewEscalationEngine =
      fold restore_state (filter (\<lambda>row. \<not> es_Resolved row) ?rows) NewEscalationEngine"
    using assms(1) by (simp add: Start_def SaveEscalationState_def oc_exec_def LoadActiveEscalationStates_def oc_rows_def)
  moreover have "distinct (map es_IncidentID (filter (\<lambda>row. \<not> es_Resolved row) ?rows))" using d by (rule distinct_map_filter)
  ultimately show ?thesis by (simp add: GetEscalationState_restored)
qed

text \<open>C35. What a restart brings back of a triggered incident. Without a row from before it is the live state with
  its times in whole seconds. An incident that was triggered before keeps the policy and the start of its first
  row: after a restart it escalates by the old policy.\<close>

theorem restart_keeps_first_policy:
  assumes "distinct (map es_IncidentID (oc_states db))"
    and "TriggerIncident p incidentID pid eng db = Some (Return (Inr (), eng', db'))"
  shows "GetEscalationState incidentID (Start db' NewEscalationEngine) =
    Inr (case state_row incidentID (oc_states db) of
           None \<Rightarrow> stored_state (eg_heap eng' ! length (eg_heap eng))
         | Some old \<Rightarrow> (stored_state (eg_heap eng' ! length (eg_heap eng)))
             \<lparr>es_PolicyID := es_PolicyID old, es_StartedAt := es_StartedAt old\<rparr>)"
  using assms(2)
proof (cases rule: TriggerIncident_Return)
  case (triggered policy rule rules st st1)
  have "es_IncidentID st1 = incidentID" "\<not> es_Resolved st1"
    using notifyTargets_frame(1,5) [OF triggered(5)] by (simp_all add: triggered(4))
  moreover have "oc_ok db" using triggered(2) by (simp add: GetPolicy_def oc_row_def split: if_split_asm)
  moreover have "eg_heap eng' ! length (eg_heap eng) = st1" by (simp add: triggered(6))
  ultimately show ?thesis
    using Start_saved [OF _ assms(1), of st1] by (simp add: triggered(7) merged_row_def split: option.split)
qed simp

section \<open>Examples\<close>

definition ex_rule :: "int \<Rightarrow> string \<Rightarrow> EscalationRule" where
  "ex_rule level user = \<lparr>er_Level = level, er_DelayMinutes = 5, er_Targets = [\<lparr>tg_Type = ''user'', tg_ID = user\<rparr>]\<rparr>"

definition ex_policy :: EscalationPolicy where
  "ex_policy = \<lparr>ep_ID = ''p'', ep_Name = ''page'', ep_Description = [], ep_Teams = [],
     ep_Rules = [ex_rule 1 ''ann'', ex_rule 2 ''bob''], ep_RepeatEnabled = False, ep_RepeatLimit = 0,
     ep_CreatedAt = 0, ep_UpdatedAt = 0\<rparr>"

definition ex_db :: OncallDB where "ex_db = (NewOncallStore True)\<lparr>oc_policies := [ex_policy]\<rparr>"

definition ex_pager :: "go_time \<Rightarrow> pager" where
  "ex_pager now = \<lparr>pg_env = ex_env, pg_order = (\<lambda>_. []), pg_now = now\<rparr>"

definition ex_note :: "go_time \<Rightarrow> int \<Rightarrow> string \<Rightarrow> Notification" where
  "ex_note now level user = \<lparr>nt_ID = ''i-'' @ int_str level @ ''-'' @ int_str now, nt_Level = level,
     nt_Target = \<lparr>tg_Type = ''user'', tg_ID = user\<rparr>, nt_User = Some \<lparr>ou_ID = user, ou_Name = user, ou_Email = [], ou_Phone = []\<rparr>,
     nt_Channel = [], nt_SentAt = now, nt_Status = ''pending'', nt_Message = []\<rparr>"

definition ex_state :: EscalationState where
  "ex_state = \<lparr>es_IncidentID = ''i'', es_PolicyID = ''p'', es_CurrentLevel = 1, es_RepeatCount = 0, es_StartedAt = 0,
     es_LastEscalation = 0, es_Acknowledged = False, es_AckedBy = [], es_AckedAt = None, es_Resolved = False,
     es_Notifications = [ex_note 0 1 ''ann'']\<rparr>"

lemma ex_state_simps [simp]:
  "es_IncidentID ex_state = ''i''" "es_PolicyID ex_state = ''p''" "es_CurrentLevel ex_state = 1" "es_RepeatCount ex_state = 0"
  "es_LastEscalation ex_state = 0" "\<not> es_Acknowledged ex_state" "\<not> es_Resolved ex_state"
  "es_Notifications ex_state = [ex_note 0 1 ''ann'']"
  by (simp_all add: ex_state_def)

definition ex_engine :: Engine where
  "ex_engine = \<lparr>eg_channels = Map.empty, eg_heap = [ex_state], eg_states = [''i'' \<mapsto> 0]\<rparr>"

lemma ex_pager_simps [simp]: "pg_now (ex_pager now) = now" "pg_order (ex_pager now) n = []"
  by (simp_all add: ex_pager_def)

lemma ex_policy_simps [simp]:
  "GetPolicy ''p'' ex_db = Inr ex_policy" "ep_Rules ex_policy = [ex_rule 1 ''ann'', ex_rule 2 ''bob'']" "er_Level (ex_rule lv u) = lv"
  "er_Targets (ex_rule lv u) = [\<lparr>tg_Type = ''user'', tg_ID = u\<rparr>]" "delay_of (ex_rule lv u) = 5 * minute"
  by (simp_all add: GetPolicy_def ex_db_def NewOncallStore_def oc_row_def ex_policy_def ex_rule_def delay_of_def wrap64_def)

lemma ex_trigger:
  "TriggerIncident (ex_pager 0) ''i'' ''p'' NewEscalationEngine ex_db =
     Some (Return (Inr (), ex_engine, snd (SaveEscalationState ex_state ex_db)))"
  by (simp add: TriggerIncident_def notifyTarget_def notifyUser_def NewEscalationEngine_def ex_engine_def ex_state_def ex_note_def)

lemma ex_check:
  "\<exists>r. check_state (ex_pager (5 * minute)) Map.empty ex_state ex_db = Some (Return r) \<and> r \<noteq> (ex_state, ex_db)"
  by (simp add: check_state_def ex_state_def rule_at_def escalateTo_def notifyTarget_def notifyUser_def time_sub_def
      min_duration_def max_duration_def)

theorem escalation_only_when_due_witness:
  "\<exists>r policy rule repeats. check_state (ex_pager (5 * minute)) Map.empty ex_state ex_db = Some (Return r) \<and>
     GetPolicy ''p'' ex_db = Inr policy \<and> rule \<in> set (ep_Rules policy) \<and>
     due (5 * minute) ex_state policy rule repeats \<and> escalated (5 * minute) ex_db ex_state rule repeats r"
proof -
  obtain r where r: "check_state (ex_pager (5 * minute)) Map.empty ex_state ex_db = Some (Return r)" "r \<noteq> (ex_state, ex_db)"
    using ex_check by blast
  have "es_PolicyID ex_state = ''p''" by (simp add: ex_state_def)
  with escalation_only_when_due [OF r(1)] r show ?thesis unfolding ex_pager_simps by auto
qed


lemma ex_trigger_again:
  "\<exists>eng' db'. TriggerIncident (ex_pager 0) ''i'' ''p'' NewEscalationEngine
      (ex_db\<lparr>oc_states := [ex_state\<lparr>es_PolicyID := ''old''\<rparr>]\<rparr>) = Some (Return (Inr (), eng', db'))"
proof -
  have "GetPolicy ''p'' (ex_db\<lparr>oc_states := [ex_state\<lparr>es_PolicyID := ''old''\<rparr>]\<rparr>) = Inr ex_policy"
    using ex_policy_simps(1) by (simp add: GetPolicy_def oc_row_def)
  then show ?thesis by (simp add: TriggerIncident_def notifyTarget_def notifyUser_def NewEscalationEngine_def)
qed

theorem restart_keeps_first_policy_witness:
  "\<exists>eng' db'. TriggerIncident (ex_pager 0) ''i'' ''p'' NewEscalationEngine
      (ex_db\<lparr>oc_states := [ex_state\<lparr>es_PolicyID := ''old''\<rparr>]\<rparr>) = Some (Return (Inr (), eng', db')) \<and>
    (\<exists>st. GetEscalationState ''i'' (Start db' NewEscalationEngine) = Inr st \<and> es_PolicyID st = ''old'')"
proof -
  let ?db = "ex_db\<lparr>oc_states := [ex_state\<lparr>es_PolicyID := ''old''\<rparr>]\<rparr>"
  from ex_trigger_again obtain eng' db' where
    t: "TriggerIncident (ex_pager 0) ''i'' ''p'' NewEscalationEngine ?db = Some (Return (Inr (), eng', db'))" by blast
  have "distinct (map es_IncidentID (oc_states ?db))" by simp
  moreover have "state_row ''i'' (oc_states ?db) = Some (ex_state\<lparr>es_PolicyID := ''old''\<rparr>)"
    by (simp add: state_row_def ex_state_def)
  ultimately have "\<exists>st. GetEscalationState ''i'' (Start db' NewEscalationEngine) = Inr st \<and> es_PolicyID st = ''old''"
    using restart_keeps_first_policy [OF _ t] by simp
  with t show ?thesis by blast
qed

text \<open>An acknowledgement that arrives while the tick that collected the incident runs comes too late for that tick.\<close>

lemma acknowledged_during_tick_is_paged:
  "let (res, eng, db) = AcknowledgeIncident (5 * minute) ''i'' ''ann'' ex_engine ex_db
   in res = Inr () \<and> (\<exists>eng' db'. checkEscalation (ex_pager (5 * minute)) 0 eng db = Some (Return (eng', db')) \<and>
        map nt_Level (es_Notifications (eg_heap eng' ! 0)) = [1, 2])"
proof -
  let ?st = "ex_state\<lparr>es_Acknowledged := True, es_AckedBy := ''ann'', es_AckedAt := Some (5 * minute)\<rparr>"
  let ?db = "snd (SaveEscalationState ?st ex_db)"
  have "GetPolicy ''p'' ?db = Inr ex_policy"
    using same_rest_policy [OF same_rest_save [OF same_rest_refl]] ex_policy_simps(1) by simp
  then have "\<exists>st' db'. check_state (ex_pager (5 * minute)) Map.empty ?st ?db = Some (Return (st', db')) \<and>
      map nt_Level (es_Notifications st') = [1, 2]"
    by (simp add: check_state_def rule_at_def escalateTo_def notifyTarget_def notifyUser_def time_sub_def
        min_duration_def max_duration_def ex_note_def Let_def del: bind_outcome_Return)
  moreover have "AcknowledgeIncident (5 * minute) ''i'' ''ann'' ex_engine ex_db =
      (Inr (), ex_engine\<lparr>eg_heap := [?st]\<rparr>, ?db)"
    by (simp add: AcknowledgeIncident_def ex_engine_def Let_def)
  ultimately show ?thesis by (auto simp: checkEscalation_def) (simp add: ex_engine_def)
qed


end
