(* ===== verification/Oncall_Web.thy ===== *)
theory Oncall_Web
  imports Oncall_Levels
begin

text \<open>
  The on-call endpoints of \<open>internal/web/server.go\<close> and the two engines of a running process: the one that
  \<open>SetOncallStore\<close> creates for the web API and the one that \<open>main.go\<close> creates for the alerts, both on one
  store. A request holds the body decoded for each handler, \<open>None\<close> when decoding fails, and the parsed bounds of
  the calendar query. A new identifier and the local time zone are parameters.
\<close>

section \<open>Requests\<close>

record OncallRequest =
  oq_Method :: string
  oq_Path :: string
  oq_Schedule :: "Schedule option"
  oq_Override :: "(string \<times> Override) option"
  oq_Policy :: "EscalationPolicy option"
  oq_Escalate :: "(string \<times> string) option"
  oq_Acknowledge :: "(string \<times> string) option"
  oq_Start :: "go_time option"
  oq_End :: "go_time option"

datatype OncallPayload =
    PNone
  | PSchedules "Schedule list"
  | PSchedule Schedule
  | PEntry "OnCallEntry option"
  | PCalendar string go_time go_time "OnCallEntry list"
  | POverride Override
  | PPolicies "EscalationPolicy list"
  | PPolicy EscalationPolicy
  | PMessage string

datatype OncallResponse = OcError nat string | OcReply nat OncallPayload

record web_env =
  we_pager :: pager
  we_uuid :: string
  we_local :: location

section \<open>The process\<close>

record Process =
  pr_web :: "Engine option"
  pr_alert :: "Engine option"
  pr_db :: OncallDB

definition SetOncallStore :: "Process \<Rightarrow> Process" where
  "SetOncallStore s = s\<lparr>pr_web := Some (Start (pr_db s) (RegisterChannel LogChannel NewEscalationEngine))\<rparr>"

text \<open>\<open>main\<close> gives the store to the web server and then, where it sets the alerting up, to an engine of its own.\<close>

definition connect_alerts :: "Process \<Rightarrow> Process" where
  "connect_alerts s = s\<lparr>pr_alert := Some (Start (pr_db s) (RegisterChannel LogChannel NewEscalationEngine))\<rparr>"

definition boot :: "OncallDB \<Rightarrow> Process" where
  "boot db = connect_alerts (SetOncallStore \<lparr>pr_web = None, pr_alert = None, pr_db = db\<rparr>)"

text \<open>\<open>OnCallReceiver.Send\<close> for the identifiers of the alerts in a group; \<open>main\<close> creates the receiver with an empty
  policy.\<close>

definition OnCallReceiver_Send :: "pager \<Rightarrow> string list \<Rightarrow> Process \<Rightarrow> (unit oncall_res \<times> Process) outcome option" where
  "OnCallReceiver_Send p alerts s =
     (case (pr_alert s, alerts) of
        (Some eng, alert # _) \<Rightarrow>
          Option.bind (TriggerIncident p alert '''' eng (pr_db s)) (\<lambda>r. case r of
              Return (res, eng1, db1) \<Rightarrow> Some (Return (res, s\<lparr>pr_alert := Some eng1, pr_db := db1\<rparr>))
            | Error err \<Rightarrow> Some (Error err)
            | Panic \<Rightarrow> Some Panic)
      | _ \<Rightarrow> Some (Return (Inr (), s)))"

section \<open>Handlers on the store\<close>

definition not_configured :: OncallResponse where "not_configured = OcError 503 ''On-call not configured''"
definition bad_method :: OncallResponse where "bad_method = OcError 405 ''Method not allowed''"
definition bad_body :: OncallResponse where "bad_body = OcError 400 ''Invalid request body''"

text \<open>The answer after a statement: status 500 with the error, or the reply given.\<close>

definition after_exec :: "unit oncall_res \<times> OncallDB \<Rightarrow> OncallResponse \<Rightarrow> OncallResponse \<times> OncallDB" where
  "after_exec r reply = (case r of (Inl err, db) \<Rightarrow> (OcError 500 err, db) | (Inr _, db) \<Rightarrow> (reply, db))"

definition handleOncallSchedules :: "web_env \<Rightarrow> OncallRequest \<Rightarrow> OncallDB \<Rightarrow> OncallResponse \<times> OncallDB" where
  "handleOncallSchedules w r db =
     (let now = pg_now (we_pager w)
      in if oq_Method r = ''GET'' then
           (case ListSchedules db of Inl err \<Rightarrow> (OcError 500 err, db) | Inr scheds \<Rightarrow> (OcReply 200 (PSchedules scheds), db))
         else if oq_Method r = ''POST'' then
           (case oq_Schedule r of
              None \<Rightarrow> (bad_body, db)
            | Some sched \<Rightarrow>
                (let sched1 = (if sd_ID sched = '''' then sched\<lparr>sd_ID := we_uuid w\<rparr> else sched)
                 in after_exec (CreateSchedule now sched1 db)
                      (OcReply 201 (PSchedule (sched1\<lparr>sd_CreatedAt := now, sd_UpdatedAt := now\<rparr>)))))
         else (bad_method, db))"

definition handleOncallSchedule :: "web_env \<Rightarrow> OncallRequest \<Rightarrow> OncallDB \<Rightarrow> OncallResponse \<times> OncallDB" where
  "handleOncallSchedule w r db =
     (let now = pg_now (we_pager w);
          iD = trim_prefix (oq_Path r) ''/api/oncall/schedules/''
      in if iD = '''' then (OcError 400 ''Schedule ID required'', db)
         else if oq_Method r = ''GET'' then
           (case GetSchedule now iD db of
              Inl err \<Rightarrow> (OcError 404 ''Schedule not found'', db) | Inr sched \<Rightarrow> (OcReply 200 (PSchedule sched), db))
         else if oq_Method r = ''PUT'' then
           (case oq_Schedule r of
              None \<Rightarrow> (bad_body, db)
            | Some sched \<Rightarrow>
                (let sched1 = sched\<lparr>sd_ID := iD\<rparr>
                 in after_exec (UpdateSchedule now sched1 db) (OcReply 200 (PSchedule (sched1\<lparr>sd_UpdatedAt := now\<rparr>)))))
         else if oq_Method r = ''DELETE'' then after_exec (DeleteSchedule iD db) (OcReply 204 PNone)
         else (bad_method, db))"

definition handleOncallOverrides :: "web_env \<Rightarrow> OncallRequest \<Rightarrow> OncallDB \<Rightarrow> OncallResponse \<times> OncallDB" where
  "handleOncallOverrides w r db =
     (let now = pg_now (we_pager w)
      in if oq_Method r = ''POST'' then
           (case oq_Override r of
              None \<Rightarrow> (bad_body, db)
            | Some (scheduleID, ov) \<Rightarrow>
                (let ov1 = (if ov_ID ov = '''' then ov\<lparr>ov_ID := we_uuid w\<rparr> else ov)
                 in after_exec (CreateOverride now scheduleID ov1 db) (OcReply 201 (POverride (ov1\<lparr>ov_CreatedAt := now\<rparr>)))))
         else (bad_method, db))"

definition handleOncallOverride :: "OncallRequest \<Rightarrow> OncallDB \<Rightarrow> OncallResponse \<times> OncallDB" where
  "handleOncallOverride r db =
     (let iD = trim_prefix (oq_Path r) ''/api/oncall/overrides/''
      in if iD = '''' then (OcError 400 ''Override ID required'', db)
         else if oq_Method r = ''DELETE'' then after_exec (DeleteOverride iD db) (OcReply 204 PNone)
         else (bad_method, db))"

definition handleOncallPolicies :: "web_env \<Rightarrow> OncallRequest \<Rightarrow> OncallDB \<Rightarrow> OncallResponse \<times> OncallDB" where
  "handleOncallPolicies w r db =
     (let now = pg_now (we_pager w)
      in if oq_Method r = ''GET'' then
           (case ListPolicies db of Inl err \<Rightarrow> (OcError 500 err, db) | Inr policies \<Rightarrow> (OcReply 200 (PPolicies policies), db))
         else if oq_Method r = ''POST'' then
           (case oq_Policy r of
              None \<Rightarrow> (bad_body, db)
            | Some policy \<Rightarrow>
                (let policy1 = (if ep_ID policy = '''' then policy\<lparr>ep_ID := we_uuid w\<rparr> else policy)
                 in after_exec (CreatePolicy now policy1 db)
                      (OcReply 201 (PPolicy (policy1\<lparr>ep_CreatedAt := now, ep_UpdatedAt := now\<rparr>)))))
         else (bad_method, db))"

definition handleOncallPolicy :: "web_env \<Rightarrow> OncallRequest \<Rightarrow> OncallDB \<Rightarrow> OncallResponse \<times> OncallDB" where
  "handleOncallPolicy w r db =
     (let now = pg_now (we_pager w);
          iD = trim_prefix (oq_Path r) ''/api/oncall/policies/''
      in if iD = '''' then (OcError 400 ''Policy ID required'', db)
         else if oq_Method r = ''GET'' then
           (case GetPolicy iD db of
              Inl err \<Rightarrow> (OcError 404 ''Policy not found'', db) | Inr policy \<Rightarrow> (OcReply 200 (PPolicy policy), db))
         else if oq_Method r = ''PUT'' then
           (case oq_Policy r of
              None \<Rightarrow> (bad_body, db)
            | Some policy \<Rightarrow>
                (let policy1 = policy\<lparr>ep_ID := iD\<rparr>
                 in after_exec (UpdatePolicy now policy1 db) (OcReply 200 (PPolicy (policy1\<lparr>ep_UpdatedAt := now\<rparr>)))))
         else if oq_Method r = ''DELETE'' then after_exec (DeletePolicy iD db) (OcReply 204 PNone)
         else (bad_method, db))"

section \<open>Handlers on the calculator and the engine\<close>

definition handleOncallCurrent :: "web_env \<Rightarrow> OncallRequest \<Rightarrow> OncallDB \<Rightarrow> OncallResponse outcome option" where
  "handleOncallCurrent w r db =
     (let scheduleID = trim_prefix (oq_Path r) ''/api/oncall/current/''
      in if scheduleID = '''' then Some (Return (OcError 400 ''Schedule ID required''))
         else Option.bind (GetCurrentOnCall (pg_env (we_pager w)) (pg_now (we_pager w)) scheduleID db) (\<lambda>r. case r of
             Return entry \<Rightarrow> Some (Return (OcReply 200 (PEntry entry)))
           | Error err \<Rightarrow> Some (Return (OcError 404 err))
           | Panic \<Rightarrow> Some Panic))"

definition handleOncallCalendar :: "web_env \<Rightarrow> OncallRequest \<Rightarrow> OncallDB \<Rightarrow> OncallResponse outcome option" where
  "handleOncallCalendar w r db =
     (let scheduleID = trim_prefix (oq_Path r) ''/api/oncall/calendar/'';
          now = pg_now (we_pager w);
          start = (case oq_Start r of None \<Rightarrow> now | Some t \<Rightarrow> t);
          end' = (case oq_End r of None \<Rightarrow> AddDays (we_local w) 14 now | Some t \<Rightarrow> t)
      in if scheduleID = '''' then Some (Return (OcError 400 ''Schedule ID required''))
         else Option.bind (GetCalendar (pg_env (we_pager w)) now scheduleID start end' db) (\<lambda>r. case r of
             Return entries \<Rightarrow> Some (Return (OcReply 200 (PCalendar scheduleID start end' entries)))
           | Error err \<Rightarrow> Some (Return (OcError 500 err))
           | Panic \<Rightarrow> Some Panic))"

definition handleOncallEscalate :: "web_env \<Rightarrow> OncallRequest \<Rightarrow> Process \<Rightarrow> (OncallResponse \<times> Process) outcome option" where
  "handleOncallEscalate w r s =
     (if oq_Method r \<noteq> ''POST'' then Some (Return (bad_method, s))
      else case pr_web s of
        None \<Rightarrow> Some (Return (not_configured, s))
      | Some eng \<Rightarrow>
          (case oq_Escalate r of
             None \<Rightarrow> Some (Return (bad_body, s))
           | Some (incidentID, policyID) \<Rightarrow>
               Option.bind (TriggerIncident (we_pager w) incidentID policyID eng (pr_db s)) (\<lambda>x. case x of
                   Return (res, eng1, db1) \<Rightarrow>
                     (let s1 = s\<lparr>pr_web := Some eng1, pr_db := db1\<rparr>
                      in case res of Inl err \<Rightarrow> Some (Return (OcError 500 err, s1))
                         | Inr _ \<Rightarrow> Some (Return (OcReply 200 (PMessage ''Escalation triggered''), s1)))
                 | Error err \<Rightarrow> Some (Error err)
                 | Panic \<Rightarrow> Some Panic)))"

definition handleOncallAcknowledge :: "web_env \<Rightarrow> OncallRequest \<Rightarrow> Process \<Rightarrow> OncallResponse \<times> Process" where
  "handleOncallAcknowledge w r s =
     (if oq_Method r \<noteq> ''POST'' then (bad_method, s)
      else case pr_web s of
        None \<Rightarrow> (not_configured, s)
      | Some eng \<Rightarrow>
          (case oq_Acknowledge r of
             None \<Rightarrow> (bad_body, s)
           | Some (incidentID, userID) \<Rightarrow>
               (case AcknowledgeIncident (pg_now (we_pager w)) incidentID userID eng (pr_db s) of
                  (res, eng1, db1) \<Rightarrow>
                    (let s1 = s\<lparr>pr_web := Some eng1, pr_db := db1\<rparr>
                     in case res of Inl err \<Rightarrow> (OcError 400 err, s1)
                        | Inr _ \<Rightarrow> (OcReply 200 (PMessage ''Incident acknowledged''), s1)))))"

text \<open>The routes: the patterns without a slash at their end match one path, the others every path below. Other paths lead to
  handlers that do not touch this state.\<close>

definition on_store :: "(OncallDB \<Rightarrow> OncallResponse \<times> OncallDB) \<Rightarrow> Process \<Rightarrow> (OncallResponse \<times> Process) outcome option" where
  "on_store h s =
     (if pr_web s = None then Some (Return (not_configured, s))
      else case h (pr_db s) of (resp, db) \<Rightarrow> Some (Return (resp, s\<lparr>pr_db := db\<rparr>)))"

definition on_calculator :: "(OncallDB \<Rightarrow> OncallResponse outcome option) \<Rightarrow> Process \<Rightarrow> (OncallResponse \<times> Process) outcome option" where
  "on_calculator h s =
     (if pr_web s = None then Some (Return (not_configured, s))
      else Option.bind (h (pr_db s)) (\<lambda>r. case r of
          Return resp \<Rightarrow> Some (Return (resp, s)) | Error err \<Rightarrow> Some (Error err) | Panic \<Rightarrow> Some Panic))"

definition serve_oncall :: "web_env \<Rightarrow> OncallRequest \<Rightarrow> Process \<Rightarrow> (OncallResponse \<times> Process) outcome option" where
  "serve_oncall w r s =
     (let path = oq_Path r
      in if path = ''/api/oncall/schedules'' then on_store (handleOncallSchedules w r) s
         else if has_prefix path ''/api/oncall/schedules/'' then on_store (handleOncallSchedule w r) s
         else if has_prefix path ''/api/oncall/current/'' then on_calculator (handleOncallCurrent w r) s
         else if has_prefix path ''/api/oncall/calendar/'' then on_calculator (handleOncallCalendar w r) s
         else if path = ''/api/oncall/overrides'' then on_store (handleOncallOverrides w r) s
         else if has_prefix path ''/api/oncall/overrides/'' then on_store (handleOncallOverride r) s
         else if path = ''/api/oncall/policies'' then on_store (handleOncallPolicies w r) s
         else if has_prefix path ''/api/oncall/policies/'' then on_store (handleOncallPolicy w r) s
         else if path = ''/api/oncall/escalate'' then handleOncallEscalate w r s
         else if path = ''/api/oncall/acknowledge'' then Some (Return (handleOncallAcknowledge w r s))
         else Some (Return (OcError 404 ''404 page not found'', s)))"

section \<open>Runs of the process\<close>

text \<open>New identifiers are not empty.\<close>

inductive process_step :: "Process \<Rightarrow> Process \<Rightarrow> bool" where
  request: "we_uuid w \<noteq> '''' \<Longrightarrow> serve_oncall w r s = Some (Return (resp, s')) \<Longrightarrow> process_step s s'"
| alert: "OnCallReceiver_Send p alerts s = Some (Return (res, s')) \<Longrightarrow> process_step s s'"
| web_tick: "pr_web s = Some eng \<Longrightarrow> checkEscalations p order eng (pr_db s) = Some (Return (eng', db')) \<Longrightarrow>
     process_step s (s\<lparr>pr_web := Some eng', pr_db := db'\<rparr>)"
| alert_tick: "pr_alert s = Some eng \<Longrightarrow> checkEscalations p order eng (pr_db s) = Some (Return (eng', db')) \<Longrightarrow>
     process_step s (s\<lparr>pr_alert := Some eng', pr_db := db'\<rparr>)"

inductive_cases process_stepE: "process_step s s'"

end
