(* ===== verification/Oncall_System.thy ===== *)
theory Oncall_System
  imports Oncall_Web
begin

text \<open>
  What the parts make together. The alerts ask for a policy that no handler can create, so no alert ever pages anyone. After a
  restart both engines hold every open incident, and an acknowledgement reaches only one of them.
\<close>

section \<open>Policies of a running process\<close>

definition named_policies :: "OncallDB \<Rightarrow> bool" where
  "named_policies db \<longleftrightarrow> '''' \<notin> ep_ID ` set (oc_policies db)"

lemma named_cong: "oc_policies db' = oc_policies db \<Longrightarrow> named_policies db' = named_policies db"
  by (simp add: named_policies_def)

lemma store_keeps_policies [simp]:
  "oc_policies (snd (CreateSchedule now sched db)) = oc_policies db"
  "oc_policies (snd (UpdateSchedule now sched db)) = oc_policies db"
  "oc_policies (snd (DeleteSchedule iD db)) = oc_policies db"
  "oc_policies (snd (CreateOverride now iD ov db)) = oc_policies db"
  "oc_policies (snd (DeleteOverride iD db)) = oc_policies db"
  "oc_policies (snd (SaveEscalationState st db)) = oc_policies db"
  by (simp_all add: CreateSchedule_def UpdateSchedule_def DeleteSchedule_def CreateOverride_def DeleteOverride_def
      SaveEscalationState_def oc_exec_def)

lemma snd_after_exec [simp]: "snd (after_exec r reply) = snd r"
  by (cases r) (auto simp: after_exec_def split: sum.split)

lemma handlers_keep_policies [simp]:
  "oc_policies (snd (handleOncallSchedules w r db)) = oc_policies db"
  "oc_policies (snd (handleOncallSchedule w r db)) = oc_policies db"
  "oc_policies (snd (handleOncallOverrides w r db)) = oc_policies db"
  "oc_policies (snd (handleOncallOverride r db)) = oc_policies db"
  by (simp_all add: handleOncallSchedules_def handleOncallSchedule_def handleOncallOverrides_def handleOncallOverride_def
      Let_def split: sum.split option.split)

lemma updated_policy_ids:
  "ep_ID ` set (map (\<lambda>row. if ep_ID row = ep_ID policy then policy\<lparr>ep_CreatedAt := c row, ep_UpdatedAt := u\<rparr> else row) rows) =
     ep_ID ` set rows"
proof -
  have "ep_ID (if ep_ID row = ep_ID policy then policy\<lparr>ep_CreatedAt := c row, ep_UpdatedAt := u\<rparr> else row) = ep_ID row" for row
    by simp
  then show ?thesis by (simp only: set_map image_image)
qed

lemma named_policy_ops:
  "named_policies db \<Longrightarrow> ep_ID policy \<noteq> '''' \<Longrightarrow> named_policies (snd (CreatePolicy now policy db))"
  "named_policies db \<Longrightarrow> named_policies (snd (UpdatePolicy now policy db))"
  "named_policies db \<Longrightarrow> named_policies (snd (DeletePolicy iD db))"
proof -
  assume n: "named_policies db"
  show "named_policies (snd (CreatePolicy now policy db))" if "ep_ID policy \<noteq> ''''"
    using n that by (simp add: named_policies_def CreatePolicy_def oc_exec_def)
  have "oc_policies (snd (UpdatePolicy now policy db)) = (if oc_ok db then map (\<lambda>row. if ep_ID row = ep_ID policy
      then policy\<lparr>ep_CreatedAt := ep_CreatedAt row, ep_UpdatedAt := unix_second now\<rparr> else row) (oc_policies db) else oc_policies db)"
    by (simp add: UpdatePolicy_def oc_exec_def)
  then have "ep_ID ` set (oc_policies (snd (UpdatePolicy now policy db))) = ep_ID ` set (oc_policies db)"
    by (cases "oc_ok db") (simp_all only: updated_policy_ids if_True if_False simp_thms)
  with n show "named_policies (snd (UpdatePolicy now policy db))"
    unfolding named_policies_def by (simp only: simp_thms)
  have "set (oc_policies (snd (DeletePolicy iD db))) \<subseteq> set (oc_policies db)"
    by (auto simp: DeletePolicy_def oc_exec_def)
  with n show "named_policies (snd (DeletePolicy iD db))" unfolding named_policies_def by blast
qed

text \<open>The contract of a handler on the store: it never leaves a policy without a name. What the router makes of such a handler
  keeps the names too.\<close>

locale store_handler =
  fixes h :: "web_env \<Rightarrow> OncallRequest \<Rightarrow> OncallDB \<Rightarrow> OncallResponse \<times> OncallDB"
  assumes names: "we_uuid w \<noteq> '''' \<Longrightarrow> named_policies db \<Longrightarrow> named_policies (snd (h w r db))"
begin

lemma served:
  assumes "on_store (h w r) s = Some (Return (resp, s'))" "we_uuid w \<noteq> ''''" "named_policies (pr_db s)"
  shows "named_policies (pr_db s')"
  using assms(1,3) names [OF assms(2,3), of r] by (auto simp: on_store_def split: if_split_asm prod.split_asm)

end

interpretation schedules: store_handler handleOncallSchedules
  by unfold_locales (simp add: named_policies_def)

interpretation schedule: store_handler handleOncallSchedule
  by unfold_locales (simp add: named_policies_def)

interpretation overrides: store_handler handleOncallOverrides
  by unfold_locales (simp add: named_policies_def)

interpretation override: store_handler "\<lambda>w. handleOncallOverride"
  by unfold_locales (simp add: named_policies_def)

interpretation policies: store_handler handleOncallPolicies
  by unfold_locales (simp add: handleOncallPolicies_def Let_def named_policy_ops split: sum.split option.split)

interpretation policy: store_handler handleOncallPolicy
  by unfold_locales (simp add: handleOncallPolicy_def Let_def named_policy_ops split: sum.split option.split)

lemmas store_handlers_served = schedules.served schedule.served overrides.served override.served policies.served policy.served

lemma trigger_keeps_policies:
  assumes "TriggerIncident p incidentID policyID eng db = Some (Return (res, eng', db'))"
  shows "oc_policies db' = oc_policies db"
  using assms by (cases rule: TriggerIncident_Return) simp_all

lemma check_all_keeps_policies:
  "check_all p refs eng db = Some (Return (eng', db')) \<Longrightarrow> oc_policies db' = oc_policies db"
proof (induction refs arbitrary: eng db)
  case (Cons ref refs)
  then obtain eng1 db1 where "checkEscalation p ref eng db = Some (Return (eng1, db1))"
    "check_all p refs eng1 db1 = Some (Return (eng', db'))" by auto
  then show ?case using Cons.IH by (metis checkEscalation_Return check_state_frame(3))
qed simp

lemma acknowledge_keeps_policies:
  "oc_policies (snd (snd (AcknowledgeIncident now incidentID userID eng db))) = oc_policies db"
  by (simp add: AcknowledgeIncident_def Let_def split: option.split)

lemma named_on_calculator: "on_calculator h s = Some (Return (resp, s')) \<Longrightarrow> pr_db s' = pr_db s"
  by (auto simp: on_calculator_def split: if_split_asm)

lemma sum_reply:
  "(case res of Inl err \<Rightarrow> Some (Return (f err, s)) | Inr u \<Rightarrow> Some (Return (g u, s))) =
     Some (Return (case res of Inl err \<Rightarrow> f err | Inr u \<Rightarrow> g u, s))"
  by (cases res) simp_all

lemma named_escalate:
  assumes "handleOncallEscalate w r s = Some (Return (resp, s'))"
  shows "oc_policies (pr_db s') = oc_policies (pr_db s)"
  using assms unfolding handleOncallEscalate_def Let_def sum_reply
  by (auto split: if_split_asm option.split_asm prod.split_asm dest: trigger_keeps_policies)

lemma named_acknowledge: "oc_policies (pr_db (snd (handleOncallAcknowledge w r s))) = oc_policies (pr_db s)"
  using acknowledge_keeps_policies
  by (auto simp: handleOncallAcknowledge_def Let_def split: option.split prod.split sum.split) (metis snd_conv)+

lemma serve_named:
  assumes "serve_oncall w r s = Some (Return (resp, s'))" "we_uuid w \<noteq> ''''" "named_policies (pr_db s)"
  shows "named_policies (pr_db s')"
proof -
  note same = named_cong [THEN iffD2, OF _ assms(3)]
  show ?thesis
    using assms(1) named_acknowledge [of w r s] unfolding serve_oncall_def Let_def
    by (auto split: if_split_asm intro: store_handlers_served [OF _ assms(2,3)] same named_escalate
        simp: same dest!: named_on_calculator)
qed

lemma process_named: "process_step s s' \<Longrightarrow> named_policies (pr_db s) \<Longrightarrow> named_policies (pr_db s')"
proof (induction rule: process_step.induct)
  case (request w r s resp s')
  then show ?case by (blast intro: serve_named)
next
  case (alert p alerts s res s')
  then have "oc_policies (pr_db s') = oc_policies (pr_db s)"
    by (auto simp: OnCallReceiver_Send_def split: option.split_asm list.split_asm dest: trigger_keeps_policies)
  with alert.prems show ?case by (simp add: named_policies_def)
next
  case (web_tick s eng p order eng' db')
  then have "oc_policies db' = oc_policies (pr_db s)" by (simp add: checkEscalations_def check_all_keeps_policies)
  with web_tick.prems show ?case by (simp add: named_policies_def)
next
  case (alert_tick s eng p order eng' db')
  then have "oc_policies db' = oc_policies (pr_db s)" by (simp add: checkEscalations_def check_all_keeps_policies)
  with alert_tick.prems show ?case by (simp add: named_policies_def)
qed

lemma runs_named: "process_step\<^sup>*\<^sup>* s s' \<Longrightarrow> named_policies (pr_db s) \<Longrightarrow> named_policies (pr_db s')"
  by (induction rule: rtranclp_induct) (auto intro: process_named)

lemma boot_simps [simp]:
  "pr_db (boot db) = db" "pr_alert (boot db) = Some (Start db (RegisterChannel LogChannel NewEscalationEngine))"
  "pr_web (boot db) = Some (Start db (RegisterChannel LogChannel NewEscalationEngine))"
  by (simp_all add: boot_def connect_alerts_def SetOncallStore_def)

lemma no_empty_policy: "named_policies db \<Longrightarrow> \<exists>err. GetPolicy '''' db = Inl err"
proof -
  assume "named_policies db"
  then have "find (\<lambda>policy. ep_ID policy = '''') (oc_policies db) = None"
    unfolding named_policies_def find_none_image .
  then show ?thesis by (simp add: GetPolicy_def oc_row_def)
qed

lemma alert_engine_step: "process_step s s' \<Longrightarrow> pr_alert s \<noteq> None \<Longrightarrow> pr_alert s' \<noteq> None"
proof (induction rule: process_step.induct)
  case (request w r s resp s')
  have "pr_alert s' = pr_alert s" if "on_store h s = Some (Return (resp, s'))" for h
    using that by (auto simp: on_store_def split: if_split_asm prod.split_asm)
  moreover have "pr_alert s' = pr_alert s" if "on_calculator h s = Some (Return (resp, s'))" for h
    using that by (auto simp: on_calculator_def split: if_split_asm)
  moreover have "pr_alert s' = pr_alert s" if "handleOncallEscalate w r s = Some (Return (resp, s'))"
    using that unfolding handleOncallEscalate_def Let_def sum_reply
    by (auto split: if_split_asm option.split_asm prod.split_asm)
  moreover have "pr_alert (snd (handleOncallAcknowledge w r s)) = pr_alert s"
    by (simp add: handleOncallAcknowledge_def Let_def split: option.split prod.split sum.split)
  ultimately have "pr_alert s' = pr_alert s"
    using request.hyps(2) unfolding serve_oncall_def Let_def by (auto split: if_split_asm)
  with request.prems show ?case by simp
next
  case (alert p alerts s res s')
  then show ?case by (auto simp: OnCallReceiver_Send_def split: option.split_asm list.split_asm)
qed simp_all

lemma alert_engine_runs: "process_step\<^sup>*\<^sup>* s s' \<Longrightarrow> pr_alert s \<noteq> None \<Longrightarrow> pr_alert s' \<noteq> None"
proof (induction rule: rtranclp_induct)
  case (step y z)
  then show ?case using alert_engine_step by blast
qed

text \<open>C36. No alert ever pages anyone. The receiver for alerts asks for the policy with the empty identifier; whatever
  requests, alerts and ticks a process goes through after it started on a store without such a policy, the store never has
  one, and every group of alerts that reaches the receiver is answered with an error and changes nothing.\<close>

theorem alerts_never_page:
  assumes "named_policies db" "process_step\<^sup>*\<^sup>* (boot db) s"
  shows "\<exists>err. OnCallReceiver_Send p (alert # alerts) s = Some (Return (Inl (''policy not found: '' @ err), s))"
proof -
  have "named_policies (pr_db s)" using runs_named [OF assms(2)] assms(1) by simp
  then obtain err where "GetPolicy '''' (pr_db s) = Inl err" using no_empty_policy by blast
  moreover obtain eng where "pr_alert s = Some eng" using alert_engine_runs [OF assms(2)] by auto
  ultimately show ?thesis by (simp add: OnCallReceiver_Send_def TriggerIncident_def)
qed

section \<open>Two engines on one store\<close>

lemma restored_with_channel:
  "fold restore_state rows (eng\<lparr>eg_channels := chs\<rparr>) = (fold restore_state rows eng)\<lparr>eg_channels := chs\<rparr>"
proof (induction rows arbitrary: eng)
  case (Cons a rows)
  have "restore_state a (eng\<lparr>eg_channels := chs\<rparr>) = (restore_state a eng)\<lparr>eg_channels := chs\<rparr>"
    by (cases eng) (simp add: restore_state_def)
  with Cons show ?case by simp
qed simp

lemma Start_log_channel:
  "Start db (RegisterChannel LogChannel NewEscalationEngine) = (Start db NewEscalationEngine)\<lparr>eg_channels := [''log'' \<mapsto> LogChannel]\<rparr>"
  by (auto simp: Start_def RegisterChannel_def NewEscalationEngine_def simp flip: restored_with_channel split: sum.split)

lemma Start_state:
  assumes "oc_ok db" "distinct (map es_IncidentID (oc_states db))" "state_row iD (oc_states db) = Some st" "\<not> es_Resolved st"
  shows "GetEscalationState iD (Start db NewEscalationEngine) = Inr st"
proof -
  let ?rows = "filter (\<lambda>row. \<not> es_Resolved row) (oc_states db)"
  have "state_row iD ?rows = Some st" using assms by (intro state_row_filter)
  moreover have "distinct (map es_IncidentID ?rows)" using assms(2) by (rule distinct_map_filter)
  moreover have "Start db NewEscalationEngine = fold restore_state ?rows NewEscalationEngine"
    using assms(1) by (simp add: Start_def LoadActiveEscalationStates_def oc_rows_def)
  ultimately show ?thesis by (simp add: GetEscalationState_restored)
qed

lemma GetEscalationState_Inr:
  "GetEscalationState iD eng = Inr st \<longleftrightarrow> (\<exists>ref. eg_states eng iD = Some ref \<and> eg_heap eng ! ref = st)"
  by (auto simp: GetEscalationState_def split: option.split)

lemma in_snapshot:
  assumes "eg_states eng iD = Some ref" "\<not> es_Acknowledged (eg_heap eng ! ref)" "\<not> es_Resolved (eg_heap eng ! ref)"
    "range_order (eg_states eng) order"
  shows "ref \<in> set (snapshot order eng)"
proof -
  have "(iD, ref) \<in> set (range_map (eg_states eng) order)" using assms(1,4) by simp
  then have "ref \<in> set (map snd (range_map (eg_states eng) order))" by force
  with assms(2,3) show ?thesis by (simp add: snapshot_def)
qed

text \<open>C37. After a restart an acknowledgement is not enough. When a process starts on a store with an open incident that
  nobody has acknowledged, an acknowledgement of it through the API is accepted; but the engine of the alerts has its own copy of
  the incident, still open, and the next tick of that engine checks it and escalates it as if nothing had happened.\<close>

theorem acknowledged_after_restart_still_escalates:
  assumes "oc_ok db" "distinct (map es_IncidentID (oc_states db))"
    and "state_row iD (oc_states db) = Some st" "\<not> es_Resolved st" "\<not> es_Acknowledged st"
    and "oq_Method r = ''POST''" "oq_Path r = ''/api/oncall/acknowledge''" "oq_Acknowledge r = Some (iD, userID)"
  shows "\<exists>s' eng ref. serve_oncall w r (boot db) = Some (Return (OcReply 200 (PMessage ''Incident acknowledged''), s')) \<and>
    pr_alert s' = Some eng \<and> eg_states eng iD = Some ref \<and> eg_heap eng ! ref = st \<and>
    (\<forall>order. range_order (eg_states eng) order \<longrightarrow> ref \<in> set (snapshot order eng))"
proof -
  let ?eng = "Start db (RegisterChannel LogChannel NewEscalationEngine)"
  obtain ref where ref: "eg_states ?eng iD = Some ref" "eg_heap ?eng ! ref = st"
    using Start_state [OF assms(1-4)] unfolding GetEscalationState_Inr Start_log_channel by auto
  obtain eng1 db1 where ack: "AcknowledgeIncident (pg_now (we_pager w)) iD userID ?eng db = (Inr (), eng1, db1)"
    using ref assms(5) by (simp add: AcknowledgeIncident_def Let_def)
  let ?s = "(boot db)\<lparr>pr_web := Some eng1, pr_db := db1\<rparr>"
  have "serve_oncall w r (boot db) = Some (Return (handleOncallAcknowledge w r (boot db)))"
    unfolding serve_oncall_def Let_def assms(7) by (simp add: has_prefix_def)
  also have "handleOncallAcknowledge w r (boot db) = (OcReply 200 (PMessage ''Incident acknowledged''), ?s)"
    using ack assms(6,8) by (simp add: handleOncallAcknowledge_def)
  finally show ?thesis
    using ref assms(4,5) by (intro exI [of _ ?s] exI [of _ ?eng] exI [of _ ref]) (simp add: in_snapshot)
qed

section \<open>Examples\<close>

theorem alerts_never_page_witness:
  "named_policies ex_db \<and>
   (\<exists>err. OnCallReceiver_Send (ex_pager 0) [''a''] (boot ex_db) = Some (Return (Inl (''policy not found: '' @ err), boot ex_db)))"
proof -
  have "named_policies ex_db" by (simp add: named_policies_def ex_db_def ex_policy_def)
  with alerts_never_page [of ex_db "boot ex_db" "ex_pager 0" "''a''" "[]"] show ?thesis by blast
qed

definition ex_acknowledge :: OncallRequest where
  "ex_acknowledge = \<lparr>oq_Method = ''POST'', oq_Path = ''/api/oncall/acknowledge'', oq_Schedule = None, oq_Override = None,
     oq_Policy = None, oq_Escalate = None, oq_Acknowledge = Some (''i'', ''ann''), oq_Start = None, oq_End = None\<rparr>"

definition ex_web :: web_env where
  "ex_web = \<lparr>we_pager = ex_pager 0, we_uuid = ''u'', we_local = UTC\<rparr>"

theorem acknowledged_after_restart_still_escalates_witness:
  "\<exists>s' eng ref. serve_oncall ex_web ex_acknowledge (boot (ex_db\<lparr>oc_states := [ex_state]\<rparr>)) =
      Some (Return (OcReply 200 (PMessage ''Incident acknowledged''), s')) \<and>
    pr_alert s' = Some eng \<and> eg_states eng ''i'' = Some ref \<and> eg_heap eng ! ref = ex_state \<and>
    (\<forall>order. range_order (eg_states eng) order \<longrightarrow> ref \<in> set (snapshot order eng))"
  by (rule acknowledged_after_restart_still_escalates [where userID = "''ann''"])
    (simp_all add: ex_db_def NewOncallStore_def state_row_def ex_acknowledge_def)

text \<open>A client that reads a schedule and writes it back copies the overrides of the table into the schedule: deleting
  the override then deletes only the row of the table.\<close>

lemma written_back_override_survives_deletion:
  assumes "GetSchedule now iD db = Inr sched" "ov \<in> set (sd_Overrides sched)"
  shows "\<exists>sched'. GetSchedule now iD (snd (DeleteOverride (ov_ID ov) (snd (UpdateSchedule now sched db)))) = Inr sched' \<and>
    ov \<in> set (sd_Overrides sched')"
proof -
  have ok: "oc_ok db" using assms(1) by (auto simp: GetSchedule_def oc_row_def split: sum.split_asm if_split_asm)
  obtain row where row: "find (\<lambda>sched. sd_ID sched = iD) (oc_schedules db) = Some row" "sd_ID sched = sd_ID row"
    using assms(1) ok by (auto simp: GetSchedule_def oc_row_def Let_def split: option.split_asm)
  then have "sd_ID row = iD" by (auto dest: find_some_image)
  let ?f = "\<lambda>r. if sd_ID r = sd_ID sched then sched\<lparr>sd_CreatedAt := sd_CreatedAt r, sd_UpdatedAt := unix_second now\<rparr> else r"
  let ?db = "snd (DeleteOverride (ov_ID ov) (snd (UpdateSchedule now sched db)))"
  have "find (\<lambda>sched. sd_ID sched = iD) (map ?f (oc_schedules db)) = Some (?f row)"
    using row(1) by (subst find_map_same) simp_all
  moreover have "oc_schedules ?db = map ?f (oc_schedules db)" "oc_ok ?db"
    using ok by (simp_all add: DeleteOverride_def UpdateSchedule_def oc_exec_def)
  ultimately have "oc_row ?db (find (\<lambda>sched. sd_ID sched = iD) (oc_schedules ?db)) =
      Inr (sched\<lparr>sd_CreatedAt := sd_CreatedAt row, sd_UpdatedAt := unix_second now\<rparr>)"
    using row(2) by (simp add: oc_row_def)
  with assms(2) show ?thesis by (simp add: GetSchedule_def Let_def)
qed

text \<open>A page that one channel delivers and another cannot is recorded as sent or as failed, by the order in which the map is
  visited; a user named by a rule has no address, so the e-mail channel never delivers such a page.\<close>

lemma page_status_depends_on_order:
  assumes "note = fold (try_channel \<lparr>ou_ID = u, ou_Name = u, ou_Email = '''', ou_Phone = ''''\<rparr>)"
  shows "nt_Status (note [(''slack'', SlackChannel k c), (''email'', EmailChannel h f)] n) = ''failed''"
    "nt_Status (note [(''email'', EmailChannel h f), (''slack'', SlackChannel k c)] n) = ''sent''"
  by (simp_all add: assms try_channel_def)

end
