(* ===== verification/Incident_Store.thy ===== *)
theory Incident_Store
  imports Float64
begin

text \<open>
  Paging incidents: the types and the store of \<open>internal/incidents/store.go\<close>. A table is the list of its rows in
  insertion order and a method is the statements it executes. A primary key and the partial unique index on the keys of
  deduplication reject a statement, the foreign key of the notification log is checked when the connection enforces it
  (\<open>ic_fk\<close>), and every statement fails while the database does (\<open>ic_ok\<close>). Times are stored to the nanosecond and compared as times; JSON
  columns hold the value they encode. A new identifier is that of the next row of its table (\<open>ie_uuid\<close>). One operation
  reads the clock once. The statistics of \<open>GetStats\<close> are left out.
\<close>

section \<open>Types\<close>

record TimelineEvent =
  te_Timestamp :: go_time
  te_Type :: string
  te_User :: string
  te_Message :: string

record Incident =
  in_ID :: string
  in_DedupKey :: string
  in_Title :: string
  in_Description :: string
  in_Severity :: string
  in_Status :: string
  in_Service :: string
  in_ServiceID :: string
  in_Source :: string
  in_SourceID :: string
  in_CreatedAt :: go_time
  in_UpdatedAt :: go_time
  in_AckedAt :: "go_time option"
  in_AckedBy :: string
  in_ResolvedAt :: "go_time option"
  in_ResolvedBy :: string
  in_AssignedTo :: string
  in_EscLevel :: int
  in_Tags :: "string \<rightharpoonup> string"
  in_Timeline :: "TimelineEvent list"

record Rotation =
  ro_ID :: string
  ro_Name :: string
  ro_Type :: string
  ro_StartTime :: string
  ro_Duration :: int
  ro_Users :: "string list"

record ScheduleOverride =
  so_ID :: string
  so_User :: string
  so_StartTime :: go_time
  so_EndTime :: go_time
  so_Reason :: string

record OnCallSchedule =
  os_ID :: string
  os_Name :: string
  os_Description :: string
  os_Timezone :: string
  os_Rotations :: "Rotation list"
  os_Overrides :: "ScheduleOverride list"
  os_CreatedAt :: go_time
  os_UpdatedAt :: go_time

record PageTarget =
  pt_Type :: string
  pt_ID :: string

record PageRule =
  pr_Level :: int
  pr_DelayMinutes :: int
  pr_Targets :: "PageTarget list"
  pr_NotifyChannels :: "string list"

record PagePolicy =
  pp_ID :: string
  pp_Name :: string
  pp_Description :: string
  pp_Rules :: "PageRule list"
  pp_RepeatAfter :: int
  pp_CreatedAt :: go_time
  pp_UpdatedAt :: go_time

record NotificationLog =
  nl_ID :: string
  nl_IncidentID :: string
  nl_Channel :: string
  nl_Target :: string
  nl_Status :: string
  nl_SentAt :: go_time
  nl_Message :: string

definition StatusTriggered :: string where "StatusTriggered = ''triggered''"
definition StatusAcknowledged :: string where "StatusAcknowledged = ''acknowledged''"
definition StatusResolved :: string where "StatusResolved = ''resolved''"

section \<open>The database\<close>

record IncidentDB =
  ic_incidents :: "Incident list"
  ic_schedules :: "OnCallSchedule list"
  ic_policies :: "PagePolicy list"
  ic_logs :: "NotificationLog list"
  ic_ok :: bool
  ic_fk :: bool

record incident_env =
  ie_now :: go_time
  ie_uuid :: "nat \<Rightarrow> string"

type_synonym 'a inc_res = "string + 'a"

definition NewIncidentStore :: "bool \<Rightarrow> IncidentDB" where
  "NewIncidentStore fk = \<lparr>ic_incidents = [], ic_schedules = [], ic_policies = [], ic_logs = [], ic_ok = True, ic_fk = fk\<rparr>"

definition ic_exec :: "IncidentDB \<Rightarrow> bool \<Rightarrow> IncidentDB \<Rightarrow> unit inc_res \<times> IncidentDB" where
  "ic_exec db allowed db1 = (if ic_ok db \<and> allowed then (Inr (), db1) else (Inl ''database error'', db))"

definition ic_rows :: "IncidentDB \<Rightarrow> 'a list \<Rightarrow> 'a list inc_res" where
  "ic_rows db rows = (if ic_ok db then Inr rows else Inl ''database error'')"

text \<open>The partial unique index: the keys of the rows that have one and are not resolved.\<close>

definition dedup_keys :: "Incident list \<Rightarrow> string list" where
  "dedup_keys rows = map in_DedupKey (filter (\<lambda>row. in_DedupKey row \<noteq> '''' \<and> in_Status row \<noteq> StatusResolved) rows)"

definition index_ok :: "Incident list \<Rightarrow> bool" where
  "index_ok rows \<longleftrightarrow> distinct (dedup_keys rows)"

section \<open>Incidents\<close>

definition timeline_event :: "go_time \<Rightarrow> string \<Rightarrow> string \<Rightarrow> string \<Rightarrow> TimelineEvent" where
  "timeline_event now ty user msg = \<lparr>te_Timestamp = now, te_Type = ty, te_User = user, te_Message = msg\<rparr>"

text \<open>The incident as \<open>createIncidentLocked\<close> completes it. Not every field has a column in the insert.\<close>

definition completed :: "incident_env \<Rightarrow> IncidentDB \<Rightarrow> Incident \<Rightarrow> Incident" where
  "completed e db inc =
     inc\<lparr>in_ID := (if in_ID inc = '''' then ie_uuid e (length (ic_incidents db)) else in_ID inc),
         in_CreatedAt := ie_now e, in_UpdatedAt := ie_now e,
         in_Status := (if in_Status inc = '''' then StatusTriggered else in_Status inc),
         in_Severity := (if in_Severity inc = '''' then ''medium'' else in_Severity inc),
         in_Timeline := in_Timeline inc @ [timeline_event (ie_now e) ''created'' '''' (''Incident created: '' @ in_Title inc)]\<rparr>"

definition createIncidentLocked :: "incident_env \<Rightarrow> Incident \<Rightarrow> IncidentDB \<Rightarrow> unit inc_res \<times> Incident \<times> IncidentDB" where
  "createIncidentLocked e inc db =
     (let inc1 = completed e db inc;
          row = inc1\<lparr>in_AckedAt := None, in_AckedBy := '''', in_ResolvedAt := None, in_ResolvedBy := ''''\<rparr>;
          rows = ic_incidents db @ [row];
          r = ic_exec db (in_ID inc1 \<notin> in_ID ` set (ic_incidents db) \<and> index_ok rows) (db\<lparr>ic_incidents := rows\<rparr>)
      in (fst r, inc1, snd r))"

definition CreateIncident :: "incident_env \<Rightarrow> Incident \<Rightarrow> IncidentDB \<Rightarrow> unit inc_res \<times> Incident \<times> IncidentDB" where
  "CreateIncident e inc db = createIncidentLocked e inc db"

definition find_incident :: "string \<Rightarrow> IncidentDB \<Rightarrow> Incident option" where
  "find_incident iD db = find (\<lambda>row. in_ID row = iD) (ic_incidents db)"

text \<open>No query selects the key of deduplication.\<close>

definition scanIncident :: "Incident \<Rightarrow> Incident" where
  "scanIncident row = row\<lparr>in_DedupKey := ''''\<rparr>"

definition GetIncident :: "string \<Rightarrow> IncidentDB \<Rightarrow> Incident option inc_res" where
  "GetIncident iD db = (if ic_ok db then Inr (map_option scanIncident (find_incident iD db)) else Inl ''database error'')"

text \<open>An \<open>UPDATE\<close> of the row of an incident.\<close>

definition update_incident :: "string \<Rightarrow> (Incident \<Rightarrow> Incident) \<Rightarrow> IncidentDB \<Rightarrow> unit inc_res \<times> IncidentDB" where
  "update_incident iD f db =
     (let rows = map (\<lambda>row. if in_ID row = iD then f row else row) (ic_incidents db)
      in ic_exec db (index_ok rows) (db\<lparr>ic_incidents := rows\<rparr>))"

text \<open>The methods that read the timeline of an incident, append an event to it and write the row: reading fails when there
  is no row.\<close>

definition with_event ::
  "incident_env \<Rightarrow> string \<Rightarrow> string \<Rightarrow> string \<Rightarrow> string \<Rightarrow> (Incident \<Rightarrow> Incident) \<Rightarrow> IncidentDB \<Rightarrow> unit inc_res \<times> IncidentDB" where
  "with_event e iD ty user msg f db =
     (if \<not> ic_ok db then (Inl ''database error'', db)
      else case find_incident iD db of
        None \<Rightarrow> (Inl ''sql: no rows in result set'', db)
      | Some row \<Rightarrow>
          update_incident iD (\<lambda>r. (f r)\<lparr>in_UpdatedAt := ie_now e,
            in_Timeline := in_Timeline row @ [timeline_event (ie_now e) ty user msg]\<rparr>) db)"

definition dedup_message :: "Incident \<Rightarrow> string" where
  "dedup_message inc = ''Duplicate alert suppressed (source: '' @ in_Source inc @ ''/'' @ in_SourceID inc @ '')''"

definition CreateOrDedup :: "incident_env \<Rightarrow> Incident \<Rightarrow> IncidentDB \<Rightarrow> (Incident option \<times> bool) inc_res \<times> IncidentDB" where
  "CreateOrDedup e inc db =
     (case (if in_DedupKey inc = '''' \<or> \<not> ic_ok db then None
            else find (\<lambda>row. in_DedupKey row = in_DedupKey inc \<and> in_Status row \<noteq> StatusResolved) (ic_incidents db)) of
        Some existing \<Rightarrow>
          (let db1 = snd (with_event e (in_ID existing) ''dedup'' ''''
                       (dedup_message inc) (\<lambda>r. r) db)
           in case GetIncident (in_ID existing) db1 of
                Inl err \<Rightarrow> (Inl err, db1)
              | Inr found \<Rightarrow> (Inr (found, True), db1))
      | None \<Rightarrow>
          (case createIncidentLocked e inc db of
             (Inl err, inc1, db1) \<Rightarrow> (Inl err, db1)
           | (Inr _, inc1, db1) \<Rightarrow> (Inr (Some inc1, False), db1)))"

definition newest_incidents :: "Incident list \<Rightarrow> Incident list" where
  "newest_incidents rows = map scanIncident (sort_key (\<lambda>row. - in_CreatedAt row) rows)"

definition page_limit :: "int \<Rightarrow> nat" where
  "page_limit limit = (if limit \<le> 0 then 50 else nat limit)"

definition ListIncidents :: "string \<Rightarrow> int \<Rightarrow> IncidentDB \<Rightarrow> Incident list inc_res" where
  "ListIncidents status limit db =
     ic_rows db (take (page_limit limit) (newest_incidents
       (if status \<noteq> '''' \<and> status \<noteq> ''all'' then filter (\<lambda>row. in_Status row = status) (ic_incidents db) else ic_incidents db)))"

definition severity_rank :: "string \<Rightarrow> nat" where
  "severity_rank sev = (if sev = ''critical'' then 1 else if sev = ''high'' then 2 else if sev = ''medium'' then 3 else 4)"

definition ListActiveIncidents :: "IncidentDB \<Rightarrow> Incident list inc_res" where
  "ListActiveIncidents db =
     ic_rows db (sort_key (\<lambda>row. severity_rank (in_Severity row)) (newest_incidents
       (filter (\<lambda>row. in_Status row = StatusTriggered \<or> in_Status row = StatusAcknowledged) (ic_incidents db))))"

definition ListIncidentsByService :: "string \<Rightarrow> int \<Rightarrow> IncidentDB \<Rightarrow> Incident list inc_res" where
  "ListIncidentsByService serviceID limit db =
     ic_rows db (take (page_limit limit) (newest_incidents (filter (\<lambda>row. in_ServiceID row = serviceID) (ic_incidents db))))"

definition AcknowledgeInc :: "incident_env \<Rightarrow> string \<Rightarrow> string \<Rightarrow> IncidentDB \<Rightarrow> unit inc_res \<times> IncidentDB" where
  "AcknowledgeInc e iD user db =
     with_event e iD ''acknowledged'' user (''Acknowledged by '' @ user)
       (\<lambda>r. r\<lparr>in_Status := StatusAcknowledged, in_AckedAt := Some (ie_now e), in_AckedBy := user, in_AssignedTo := user\<rparr>) db"

definition ResolveInc :: "incident_env \<Rightarrow> string \<Rightarrow> string \<Rightarrow> string \<Rightarrow> IncidentDB \<Rightarrow> unit inc_res \<times> IncidentDB" where
  "ResolveInc e iD user resolution db =
     with_event e iD ''resolved'' user (''Resolved by '' @ user @ (if resolution \<noteq> '''' then '': '' @ resolution else ''''))
       (\<lambda>r. r\<lparr>in_Status := StatusResolved, in_ResolvedAt := Some (ie_now e), in_ResolvedBy := user\<rparr>) db"

definition EscalateIncident :: "incident_env \<Rightarrow> string \<Rightarrow> int \<Rightarrow> string \<Rightarrow> IncidentDB \<Rightarrow> unit inc_res \<times> IncidentDB" where
  "EscalateIncident e iD newLevel assignTo db =
     with_event e iD ''escalated'' '''' (''Escalated to level '' @ int_str newLevel @ '', assigned to '' @ assignTo)
       (\<lambda>r. r\<lparr>in_EscLevel := newLevel, in_AssignedTo := assignTo\<rparr>) db"

definition AddNote :: "incident_env \<Rightarrow> string \<Rightarrow> string \<Rightarrow> string \<Rightarrow> IncidentDB \<Rightarrow> unit inc_res \<times> IncidentDB" where
  "AddNote e iD user note' db = with_event e iD ''note'' user note' (\<lambda>r. r) db"

definition AssignIncident :: "incident_env \<Rightarrow> string \<Rightarrow> string \<Rightarrow> string \<Rightarrow> IncidentDB \<Rightarrow> unit inc_res \<times> IncidentDB" where
  "AssignIncident e iD user assignee db =
     with_event e iD ''assigned'' user (''Assigned to '' @ assignee @ '' by '' @ user) (\<lambda>r. r\<lparr>in_AssignedTo := assignee\<rparr>) db"

section \<open>Schedules, policies and the notification log\<close>

definition CreateOnCallSchedule :: "incident_env \<Rightarrow> OnCallSchedule \<Rightarrow> IncidentDB \<Rightarrow> unit inc_res \<times> OnCallSchedule \<times> IncidentDB" where
  "CreateOnCallSchedule e sched db =
     (let sched1 = sched\<lparr>os_ID := (if os_ID sched = '''' then ie_uuid e (length (ic_schedules db)) else os_ID sched),
                         os_CreatedAt := ie_now e, os_UpdatedAt := ie_now e\<rparr>;
          r = ic_exec db (os_ID sched1 \<notin> os_ID ` set (ic_schedules db)) (db\<lparr>ic_schedules := ic_schedules db @ [sched1]\<rparr>)
      in (fst r, sched1, snd r))"

definition GetOnCallSchedule :: "string \<Rightarrow> IncidentDB \<Rightarrow> OnCallSchedule option inc_res" where
  "GetOnCallSchedule iD db = (if ic_ok db then Inr (find (\<lambda>s. os_ID s = iD) (ic_schedules db)) else Inl ''database error'')"

definition ListOnCallSchedules :: "IncidentDB \<Rightarrow> OnCallSchedule list inc_res" where
  "ListOnCallSchedules db = ic_rows db (sort_key os_Name (ic_schedules db))"

definition DeleteOnCallSchedule :: "string \<Rightarrow> IncidentDB \<Rightarrow> unit inc_res \<times> IncidentDB" where
  "DeleteOnCallSchedule iD db = ic_exec db True (db\<lparr>ic_schedules := filter (\<lambda>s. os_ID s \<noteq> iD) (ic_schedules db)\<rparr>)"

text \<open>The user of a rotation whose turns last so many seconds since 1970; before that the index is negative.\<close>

definition turn_of :: "int \<Rightarrow> string list \<Rightarrow> go_time \<Rightarrow> string outcome" where
  "turn_of secs users now =
     (let i = go_rem (go_quot (now div second) secs) (int (length users))
      in if i < 0 then Panic else Return (users ! nat i))"

fun first_rotation :: "Rotation list \<Rightarrow> go_time \<Rightarrow> string outcome option" where
  "first_rotation [] now = None"
| "first_rotation (r # rs) now =
     (if ro_Users r = [] then first_rotation rs now
      else if ro_Type r = ''weekly'' then Some (turn_of (7 * 24 * 60 * 60) (ro_Users r) now)
      else if ro_Type r = ''daily'' then Some (turn_of (24 * 60 * 60) (ro_Users r) now)
      else first_rotation rs now)"

definition CurrentOnCall :: "incident_env \<Rightarrow> string \<Rightarrow> IncidentDB \<Rightarrow> string outcome" where
  "CurrentOnCall e scheduleID db =
     (case GetOnCallSchedule scheduleID db of
        Inl err \<Rightarrow> Error err
      | Inr None \<Rightarrow> Return ''''
      | Inr (Some sched) \<Rightarrow>
          (case find (\<lambda>ov. so_StartTime ov < ie_now e \<and> ie_now e < so_EndTime ov) (os_Overrides sched) of
             Some ov \<Rightarrow> Return (so_User ov)
           | None \<Rightarrow>
               (case first_rotation (os_Rotations sched) (ie_now e) of
                  Some r \<Rightarrow> r
                | None \<Rightarrow>
                    (case os_Rotations sched of
                       r # _ \<Rightarrow> (case ro_Users r of u # _ \<Rightarrow> Return u | [] \<Rightarrow> Return '''')
                     | [] \<Rightarrow> Return ''''))))"

definition CreatePagePolicy :: "incident_env \<Rightarrow> PagePolicy \<Rightarrow> IncidentDB \<Rightarrow> unit inc_res \<times> PagePolicy \<times> IncidentDB" where
  "CreatePagePolicy e policy db =
     (let policy1 = policy\<lparr>pp_ID := (if pp_ID policy = '''' then ie_uuid e (length (ic_policies db)) else pp_ID policy),
                           pp_CreatedAt := ie_now e, pp_UpdatedAt := ie_now e\<rparr>;
          r = ic_exec db (pp_ID policy1 \<notin> pp_ID ` set (ic_policies db)) (db\<lparr>ic_policies := ic_policies db @ [policy1]\<rparr>)
      in (fst r, policy1, snd r))"

definition GetPagePolicy :: "string \<Rightarrow> IncidentDB \<Rightarrow> PagePolicy option inc_res" where
  "GetPagePolicy iD db = (if ic_ok db then Inr (find (\<lambda>p. pp_ID p = iD) (ic_policies db)) else Inl ''database error'')"

definition ListPagePolicies :: "IncidentDB \<Rightarrow> PagePolicy list inc_res" where
  "ListPagePolicies db = ic_rows db (sort_key pp_Name (ic_policies db))"

definition DeletePagePolicy :: "string \<Rightarrow> IncidentDB \<Rightarrow> unit inc_res \<times> IncidentDB" where
  "DeletePagePolicy iD db = ic_exec db True (db\<lparr>ic_policies := filter (\<lambda>p. pp_ID p \<noteq> iD) (ic_policies db)\<rparr>)"

definition LogNotification :: "incident_env \<Rightarrow> NotificationLog \<Rightarrow> IncidentDB \<Rightarrow> unit inc_res \<times> IncidentDB" where
  "LogNotification e entry db =
     (let entry1 = entry\<lparr>nl_ID := (if nl_ID entry = '''' then ie_uuid e (length (ic_logs db)) else nl_ID entry), nl_SentAt := ie_now e\<rparr>
      in ic_exec db (nl_ID entry1 \<notin> nl_ID ` set (ic_logs db) \<and>
                     (ic_fk db \<longrightarrow> nl_IncidentID entry1 \<in> in_ID ` set (ic_incidents db)))
           (db\<lparr>ic_logs := ic_logs db @ [entry1]\<rparr>))"

definition GetNotificationLogs :: "string \<Rightarrow> IncidentDB \<Rightarrow> NotificationLog list inc_res" where
  "GetNotificationLogs incidentID db =
     ic_rows db (sort_key (\<lambda>l. - nl_SentAt l) (filter (\<lambda>l. nl_IncidentID l = incidentID) (ic_logs db)))"

end
