(* ===== verification/Incident_Pager.thy ===== *)
theory Incident_Pager
  imports Incident_Store
begin

text \<open>
  The pager of \<open>internal/incidents/pager.go\<close> and the incident, schedule and policy endpoints of \<open>internal/web/server.go\<close>. Whether
  a POST to a webhook succeeds, the order in which the webhooks are visited and the text of a float are parameters; what is posted is
  not modelled, and a page to a webhook is logged in the step that sends it. A pending timer is the time at which it runs. The listing
  of incidents takes the limit that the pagination of the request gives.
\<close>

section \<open>The pager\<close>

record Pager =
  pa_defaultPolicy :: string
  pa_slackWebhook :: string
  pa_webhooks :: "string \<rightharpoonup> string"
  pa_jobs :: "string \<rightharpoonup> go_time"

definition NewPager :: Pager where
  "NewPager = \<lparr>pa_defaultPolicy = '''', pa_slackWebhook = '''', pa_webhooks = Map.empty, pa_jobs = Map.empty\<rparr>"

definition SetSlackWebhook :: "string \<Rightarrow> Pager \<Rightarrow> Pager" where "SetSlackWebhook url p = p\<lparr>pa_slackWebhook := url\<rparr>"
definition AddWebhook :: "string \<Rightarrow> string \<Rightarrow> Pager \<Rightarrow> Pager" where
  "AddWebhook nm url p = p\<lparr>pa_webhooks := (pa_webhooks p)(nm \<mapsto> url)\<rparr>"
definition SetDefaultPolicy :: "string \<Rightarrow> Pager \<Rightarrow> Pager" where "SetDefaultPolicy policyID p = p\<lparr>pa_defaultPolicy := policyID\<rparr>"

record pager_env =
  pv_env :: incident_env
  pv_post :: "string \<Rightarrow> bool"
  pv_order :: "string list"
  pv_fmt :: "f64 \<Rightarrow> string"

section \<open>Pages\<close>

definition log_page :: "pager_env \<Rightarrow> Incident \<Rightarrow> string \<Rightarrow> string \<Rightarrow> string \<Rightarrow> IncidentDB \<Rightarrow> IncidentDB" where
  "log_page v inc channel target url db =
     snd (LogNotification (pv_env v)
       \<lparr>nl_ID = '''', nl_IncidentID = in_ID inc, nl_Channel = channel, nl_Target = target,
        nl_Status = (if pv_post v url then ''sent'' else ''failed''), nl_SentAt = 0, nl_Message = in_Title inc\<rparr> db)"

definition sendSlackNotification :: "pager_env \<Rightarrow> Pager \<Rightarrow> Incident \<Rightarrow> IncidentDB \<Rightarrow> IncidentDB" where
  "sendSlackNotification v p inc db =
     (if pa_slackWebhook p = '''' then db else log_page v inc ''slack'' (pa_slackWebhook p) (pa_slackWebhook p) db)"

definition sendWebhookNotification :: "pager_env \<Rightarrow> Pager \<Rightarrow> Incident \<Rightarrow> IncidentDB \<Rightarrow> IncidentDB" where
  "sendWebhookNotification v p inc db =
     fold (\<lambda>(nm, url). log_page v inc ''webhook'' nm url) (range_map (pa_webhooks p) (pv_order v)) db"

definition notifyIncident :: "pager_env \<Rightarrow> Pager \<Rightarrow> Incident \<Rightarrow> IncidentDB \<Rightarrow> IncidentDB" where
  "notifyIncident v p inc db = sendWebhookNotification v p inc (sendSlackNotification v p inc db)"

definition notifyLevel :: "pager_env \<Rightarrow> Pager \<Rightarrow> Incident \<Rightarrow> PageRule \<Rightarrow> IncidentDB \<Rightarrow> IncidentDB" where
  "notifyLevel v p inc rule db =
     fold (\<lambda>channel db. if channel = ''slack'' then sendSlackNotification v p inc db
                        else if channel = ''webhook'' then sendWebhookNotification v p inc db else db)
       (pr_NotifyChannels rule) db"

fun resolveTargets :: "pager_env \<Rightarrow> PageTarget list \<Rightarrow> IncidentDB \<Rightarrow> string outcome" where
  "resolveTargets v [] db = Return ''''"
| "resolveTargets v (target # targets) db =
     (if pt_Type target = ''user'' then Return (pt_ID target)
      else if pt_Type target = ''schedule'' then
        (case CurrentOnCall (pv_env v) (pt_ID target) db of
           Panic \<Rightarrow> Panic
         | Error err \<Rightarrow> resolveTargets v targets db
         | Return user \<Rightarrow> if user \<noteq> '''' then Return user else resolveTargets v targets db)
      else resolveTargets v targets db)"

section \<open>Escalation\<close>

definition page_delay :: "PageRule \<Rightarrow> duration" where
  "page_delay rule = wrap64 (pr_DelayMinutes rule * minute)"

text \<open>The time at which an incident leaves a level: the delays of the levels up to it after its creation.\<close>

definition escalation_time :: "PagePolicy \<Rightarrow> Incident \<Rightarrow> nat \<Rightarrow> go_time" where
  "escalation_time policy inc level =
     in_CreatedAt inc + page_delay (pp_Rules policy ! level) + sum_list (map page_delay (take level (pp_Rules policy)))"

definition maybeEscalate :: "pager_env \<Rightarrow> Pager \<Rightarrow> Incident \<Rightarrow> IncidentDB \<Rightarrow> IncidentDB outcome" where
  "maybeEscalate v p inc db =
     (let now = ie_now (pv_env v)
      in if pa_defaultPolicy p = '''' then Return db
         else case GetPagePolicy (pa_defaultPolicy p) db of
           Inl err \<Rightarrow> Return db
         | Inr None \<Rightarrow> Return db
         | Inr (Some policy) \<Rightarrow>
             (let currentLevel = in_EscLevel inc; n = int (length (pp_Rules policy))
              in if n \<le> currentLevel then
                   (if 0 < pp_RepeatAfter policy then
                      (let cycleTime = wrap64 (pp_RepeatAfter policy * minute)
                       in if cycleTime = 0 \<or> n = 0 then Panic
                          else if go_quot currentLevel n < go_quot (time_sub now (in_CreatedAt inc)) cycleTime
                          then Return (notifyLevel v p inc (pp_Rules policy ! 0)
                                         (snd (EscalateIncident (pv_env v) (in_ID inc) 0 '''' db)))
                          else Return db)
                    else Return db)
                 else if currentLevel < 0 then Panic
                 else if escalation_time policy inc (nat currentLevel) < now then
                   (let nextLevel = currentLevel + 1
                    in if nextLevel < n then
                         (let nextRule = pp_Rules policy ! nat nextLevel
                          in case resolveTargets v (pr_Targets nextRule) db of
                               Return assignTo \<Rightarrow>
                                 Return (snd (EscalateIncident (pv_env v) (in_ID inc) nextLevel assignTo (notifyLevel v p inc nextRule db)))
                             | Error err \<Rightarrow> Error err
                             | Panic \<Rightarrow> Panic)
                       else Return (snd (EscalateIncident (pv_env v) (in_ID inc) nextLevel '''' db)))
                 else Return db))"

fun escalate_all :: "pager_env \<Rightarrow> Pager \<Rightarrow> Incident list \<Rightarrow> IncidentDB \<Rightarrow> IncidentDB outcome" where
  "escalate_all v p [] db = Return db"
| "escalate_all v p (inc # incs) db =
     (if in_Status inc \<noteq> StatusTriggered then escalate_all v p incs db
      else case maybeEscalate v p inc db of Return db1 \<Rightarrow> escalate_all v p incs db1 | x \<Rightarrow> x)"

definition pager_checkEscalations :: "pager_env \<Rightarrow> Pager \<Rightarrow> IncidentDB \<Rightarrow> IncidentDB outcome" where
  "pager_checkEscalations v p db =
     (case ListActiveIncidents db of Inl err \<Rightarrow> Return db | Inr incs \<Rightarrow> escalate_all v p incs db)"

section \<open>Triggers\<close>

definition scheduleEscalation :: "pager_env \<Rightarrow> Incident \<Rightarrow> IncidentDB \<Rightarrow> Pager \<Rightarrow> Pager" where
  "scheduleEscalation v inc db p =
     (if pa_defaultPolicy p = '''' then p
      else case GetPagePolicy (pa_defaultPolicy p) db of
        Inr (Some policy) \<Rightarrow>
          (case pp_Rules policy of
             [] \<Rightarrow> p
           | rule # _ \<Rightarrow> p\<lparr>pa_jobs := (pa_jobs p)(in_ID inc \<mapsto> ie_now (pv_env v) + page_delay rule)\<rparr>)
      | _ \<Rightarrow> p)"

definition CancelEscalation :: "string \<Rightarrow> Pager \<Rightarrow> Pager" where
  "CancelEscalation incidentID p = p\<lparr>pa_jobs := (pa_jobs p)(incidentID := None)\<rparr>"

definition Trigger :: "pager_env \<Rightarrow> Incident \<Rightarrow> Pager \<Rightarrow> IncidentDB \<Rightarrow> unit inc_res \<times> Incident \<times> Pager \<times> IncidentDB" where
  "Trigger v inc p db =
     (case CreateIncident (pv_env v) inc db of
        (Inl err, inc1, db1) \<Rightarrow> (Inl err, inc1, p, db1)
      | (Inr _, inc1, db1) \<Rightarrow>
          (let db2 = notifyIncident v p inc1 db1
           in (Inr (), inc1, scheduleEscalation v inc1 db2 p, db2)))"

definition blank_incident :: Incident where
  "blank_incident = \<lparr>in_ID = '''', in_DedupKey = '''', in_Title = '''', in_Description = '''', in_Severity = '''', in_Status = '''',
     in_Service = '''', in_ServiceID = '''', in_Source = '''', in_SourceID = '''', in_CreatedAt = zero_time, in_UpdatedAt = zero_time,
     in_AckedAt = None, in_AckedBy = '''', in_ResolvedAt = None, in_ResolvedBy = '''', in_AssignedTo = '''', in_EscLevel = 0,
     in_Tags = Map.empty, in_Timeline = []\<rparr>"

definition TriggerFromWatch ::
  "pager_env \<Rightarrow> string \<Rightarrow> string \<Rightarrow> string \<Rightarrow> string \<Rightarrow> Pager \<Rightarrow> IncidentDB \<Rightarrow> unit inc_res \<times> Incident \<times> Pager \<times> IncidentDB" where
  "TriggerFromWatch v watchID watchName message severity =
     Trigger v (blank_incident\<lparr>in_Title := ''Watch Alert: '' @ watchName, in_Description := message,
       in_Severity := (if severity \<in> {''critical'', ''high'', ''medium'', ''low''} then severity else ''high''),
       in_Source := ''watch'', in_SourceID := watchID\<rparr>)"

definition TriggerFromSLO ::
  "pager_env \<Rightarrow> string \<Rightarrow> string \<Rightarrow> f64 \<Rightarrow> Pager \<Rightarrow> IncidentDB \<Rightarrow> unit inc_res \<times> Incident \<times> Pager \<times> IncidentDB" where
  "TriggerFromSLO v sloID sloName remaining =
     Trigger v (blank_incident\<lparr>in_Title := ''SLO Breach: '' @ sloName,
       in_Description := ''Error budget remaining: '' @ pv_fmt v remaining @ ''%'',
       in_Severity := (if f64_le remaining (Fin 0) then ''critical'' else if f64_less remaining (Fin 10) then ''high'' else ''medium''),
       in_Source := ''slo'', in_SourceID := sloID\<rparr>)"

definition TriggerFromSynthetic ::
  "pager_env \<Rightarrow> string \<Rightarrow> string \<Rightarrow> string \<Rightarrow> Pager \<Rightarrow> IncidentDB \<Rightarrow> unit inc_res \<times> Incident \<times> Pager \<times> IncidentDB" where
  "TriggerFromSynthetic v checkID checkName errorMsg =
     Trigger v (blank_incident\<lparr>in_Title := ''Synthetic Check Failed: '' @ checkName, in_Description := errorMsg,
       in_Severity := ''high'', in_Source := ''synthetic'', in_SourceID := checkID\<rparr>)"

definition TriggerFromK8s ::
  "pager_env \<Rightarrow> string \<Rightarrow> string \<Rightarrow> string \<Rightarrow> string \<Rightarrow> string \<Rightarrow> Pager \<Rightarrow> IncidentDB \<Rightarrow> unit inc_res \<times> Incident \<times> Pager \<times> IncidentDB" where
  "TriggerFromK8s v namespace nm kind reason message =
     Trigger v (blank_incident\<lparr>in_Title := ''[K8s] '' @ kind @ '': '' @ namespace @ ''/'' @ nm @ '' '' @ reason, in_Description := message,
       in_Severity := (if reason \<in> {''CrashLoopBackOff'', ''OOMKilled'', ''FailedScheduling''} then ''high'' else ''medium''),
       in_Source := ''kubernetes'', in_Service := namespace @ ''/'' @ nm\<rparr>)"

section \<open>Handlers\<close>

record IncidentRequest =
  iq_Method :: string
  iq_Path :: string
  iq_Status :: string
  iq_Limit :: int
  iq_Schedule :: string
  iq_Incident :: "Incident option"
  iq_User :: "string option"
  iq_Resolve :: "(string \<times> string) option"
  iq_Note :: "(string \<times> string) option"
  iq_Assign :: "(string \<times> string) option"
  iq_OnCallSchedule :: "OnCallSchedule option"
  iq_Policy :: "PagePolicy option"

datatype IncidentPayload =
    INone
  | IPage "Incident list" int bool
  | IIncident "Incident option"
  | ILogs "NotificationLog list"
  | ISchedules "OnCallSchedule list"
  | ISchedule OnCallSchedule
  | IOnCall "(string \<times> string) list"
  | IPolicies "PagePolicy list"
  | IPolicy PagePolicy

datatype IncidentResponse = InError nat string | InReply nat IncidentPayload | InAborted

type_synonym incident_state = "Pager \<times> IncidentDB"

definition in_bad_method :: IncidentResponse where "in_bad_method = InError 405 ''Method not allowed''"

definition or_api :: "string \<Rightarrow> string" where "or_api user = (if user = '''' then ''api'' else user)"

text \<open>The reply with the incident as it is after the change; an error of that query is ignored.\<close>

definition reply_incident :: "string \<Rightarrow> IncidentDB \<Rightarrow> IncidentResponse" where
  "reply_incident iD db = InReply 200 (IIncident (case GetIncident iD db of Inl err \<Rightarrow> None | Inr inc \<Rightarrow> inc))"

definition handleIncidents :: "pager_env \<Rightarrow> IncidentRequest \<Rightarrow> incident_state \<Rightarrow> IncidentResponse \<times> incident_state" where
  "handleIncidents v r s =
     (case s of (p, db) \<Rightarrow>
        if iq_Method r = ''GET'' then
          (case ListIncidents (iq_Status r) (iq_Limit r + 1) db of
             Inl err \<Rightarrow> (InError 500 err, s)
           | Inr incs \<Rightarrow> (InReply 200 (IPage (take (nat (iq_Limit r)) incs) (iq_Limit r) (iq_Limit r < int (length incs))), s))
        else if iq_Method r = ''POST'' then
          (case iq_Incident r of
             None \<Rightarrow> (InError 400 ''Invalid JSON'', s)
           | Some inc \<Rightarrow>
               if in_Title inc = '''' then (InError 400 ''Title is required'', s)
               else (case Trigger v inc p db of
                       (Inl err, inc1, s1) \<Rightarrow> (InError 500 err, s1)
                     | (Inr _, inc1, s1) \<Rightarrow> (InReply 201 (IIncident (Some inc1)), s1)))
        else (in_bad_method, s))"

definition handleIncidentAck :: "pager_env \<Rightarrow> IncidentRequest \<Rightarrow> string \<Rightarrow> incident_state \<Rightarrow> IncidentResponse \<times> incident_state" where
  "handleIncidentAck v r iD s =
     (case s of (p, db) \<Rightarrow>
        if iq_Method r \<noteq> ''POST'' then (in_bad_method, s)
        else (case AcknowledgeInc (pv_env v) iD (case iq_User r of None \<Rightarrow> ''api'' | Some u \<Rightarrow> or_api u) db of
                (Inl err, db1) \<Rightarrow> (InError 500 err, (p, db1))
              | (Inr _, db1) \<Rightarrow> (reply_incident iD db1, (CancelEscalation iD p, db1))))"

definition handleIncidentResolve :: "pager_env \<Rightarrow> IncidentRequest \<Rightarrow> string \<Rightarrow> incident_state \<Rightarrow> IncidentResponse \<times> incident_state" where
  "handleIncidentResolve v r iD s =
     (case s of (p, db) \<Rightarrow>
        if iq_Method r \<noteq> ''POST'' then (in_bad_method, s)
        else case iq_Resolve r of
          None \<Rightarrow> (InError 400 ''invalid JSON'', s)
        | Some (user, resolution) \<Rightarrow>
            (case ResolveInc (pv_env v) iD (or_api user) resolution db of
               (Inl err, db1) \<Rightarrow> (InError 500 err, (p, db1))
             | (Inr _, db1) \<Rightarrow> (reply_incident iD db1, (CancelEscalation iD p, db1))))"

definition handleIncidentNote :: "pager_env \<Rightarrow> IncidentRequest \<Rightarrow> string \<Rightarrow> incident_state \<Rightarrow> IncidentResponse \<times> incident_state" where
  "handleIncidentNote v r iD s =
     (case s of (p, db) \<Rightarrow>
        if iq_Method r \<noteq> ''POST'' then (in_bad_method, s)
        else case iq_Note r of
          None \<Rightarrow> (InError 400 ''Invalid JSON'', s)
        | Some (user, text') \<Rightarrow>
            if text' = '''' then (InError 400 ''Note is required'', s)
            else (case AddNote (pv_env v) iD (or_api user) text' db of
                    (Inl err, db1) \<Rightarrow> (InError 500 err, (p, db1))
                  | (Inr _, db1) \<Rightarrow> (reply_incident iD db1, (p, db1))))"

definition handleIncidentAssign :: "pager_env \<Rightarrow> IncidentRequest \<Rightarrow> string \<Rightarrow> incident_state \<Rightarrow> IncidentResponse \<times> incident_state" where
  "handleIncidentAssign v r iD s =
     (case s of (p, db) \<Rightarrow>
        if iq_Method r \<noteq> ''POST'' then (in_bad_method, s)
        else case iq_Assign r of
          None \<Rightarrow> (InError 400 ''Invalid JSON'', s)
        | Some (user, assignee) \<Rightarrow>
            if assignee = '''' then (InError 400 ''Assignee is required'', s)
            else (case AssignIncident (pv_env v) iD (or_api user) assignee db of
                    (Inl err, db1) \<Rightarrow> (InError 500 err, (p, db1))
                  | (Inr _, db1) \<Rightarrow> (reply_incident iD db1, (p, db1))))"

definition handleIncidentNotifications :: "IncidentRequest \<Rightarrow> string \<Rightarrow> IncidentDB \<Rightarrow> IncidentResponse" where
  "handleIncidentNotifications r iD db =
     (if iq_Method r \<noteq> ''GET'' then in_bad_method
      else case GetNotificationLogs iD db of Inl err \<Rightarrow> InError 500 err | Inr logs \<Rightarrow> InReply 200 (ILogs logs))"

text \<open>\<open>strings.Split(s, "/")\<close>.\<close>

fun split_slash :: "string \<Rightarrow> string list" where
  "split_slash [] = [[]]"
| "split_slash (c # cs) =
     (if c = CHR ''/'' then [] # split_slash cs
      else case split_slash cs of w # ws \<Rightarrow> (c # w) # ws | [] \<Rightarrow> [[c]])"

definition handleIncident :: "pager_env \<Rightarrow> IncidentRequest \<Rightarrow> incident_state \<Rightarrow> IncidentResponse \<times> incident_state" where
  "handleIncident v r s =
     (let parts = split_slash (trim_prefix (iq_Path r) ''/api/incidents/'');
          iD = hd parts;
          sub = (if 1 < length parts then parts ! 1 else '''')
      in if iD = '''' then (InError 400 ''Incident ID required'', s)
         else if sub = ''ack'' then handleIncidentAck v r iD s
         else if sub = ''resolve'' then handleIncidentResolve v r iD s
         else if sub = ''note'' then handleIncidentNote v r iD s
         else if sub = ''assign'' then handleIncidentAssign v r iD s
         else if sub = ''notifications'' then (handleIncidentNotifications r iD (snd s), s)
         else if iq_Method r = ''GET'' then
           (case GetIncident iD (snd s) of
              Inl err \<Rightarrow> (InError 500 err, s)
            | Inr None \<Rightarrow> (InError 404 ''Incident not found'', s)
            | Inr (Some inc) \<Rightarrow> (InReply 200 (IIncident (Some inc)), s))
         else (in_bad_method, s))"

definition handleOnCallSchedules :: "pager_env \<Rightarrow> IncidentRequest \<Rightarrow> IncidentDB \<Rightarrow> IncidentResponse \<times> IncidentDB" where
  "handleOnCallSchedules v r db =
     (if iq_Method r = ''GET'' then
        (case ListOnCallSchedules db of Inl err \<Rightarrow> (InError 500 err, db) | Inr scheds \<Rightarrow> (InReply 200 (ISchedules scheds), db))
      else if iq_Method r = ''POST'' then
        (case iq_OnCallSchedule r of
           None \<Rightarrow> (InError 400 ''Invalid JSON'', db)
         | Some sched \<Rightarrow>
             if os_Name sched = '''' then (InError 400 ''Name is required'', db)
             else (case CreateOnCallSchedule (pv_env v) sched db of
                     (Inl err, sched1, db1) \<Rightarrow> (InError 500 err, db1)
                   | (Inr _, sched1, db1) \<Rightarrow> (InReply 201 (ISchedule sched1), db1)))
      else (in_bad_method, db))"

definition handleCurrentOnCall :: "pager_env \<Rightarrow> IncidentRequest \<Rightarrow> IncidentDB \<Rightarrow> IncidentResponse" where
  "handleCurrentOnCall v r db =
     (if iq_Method r \<noteq> ''GET'' then in_bad_method
      else if iq_Schedule r = '''' then
        (case ListOnCallSchedules db of
           Inl err \<Rightarrow> InError 500 err
         | Inr scheds \<Rightarrow>
             if (\<exists>sched \<in> set scheds. CurrentOnCall (pv_env v) (os_ID sched) db = Panic) then InAborted
             else InReply 200 (IOnCall (map (\<lambda>sched. (os_Name sched,
               case CurrentOnCall (pv_env v) (os_ID sched) db of Return u \<Rightarrow> u | _ \<Rightarrow> '''')) scheds)))
      else case CurrentOnCall (pv_env v) (iq_Schedule r) db of
             Return u \<Rightarrow> InReply 200 (IOnCall [(iq_Schedule r, u)])
           | Error err \<Rightarrow> InError 500 err
           | Panic \<Rightarrow> InAborted)"

definition handleOnCallSchedule :: "pager_env \<Rightarrow> IncidentRequest \<Rightarrow> IncidentDB \<Rightarrow> IncidentResponse \<times> IncidentDB" where
  "handleOnCallSchedule v r db =
     (let schedID = trim_prefix (iq_Path r) ''/api/oncall/''
      in if schedID = '''' \<or> schedID = ''current'' then (handleCurrentOnCall v r db, db)
         else if iq_Method r = ''GET'' then
           (case GetOnCallSchedule schedID db of
              Inl err \<Rightarrow> (InError 500 err, db)
            | Inr None \<Rightarrow> (InError 404 ''Schedule not found'', db)
            | Inr (Some sched) \<Rightarrow> (InReply 200 (ISchedule sched), db))
         else if iq_Method r = ''DELETE'' then
           (case DeleteOnCallSchedule schedID db of (Inl err, db1) \<Rightarrow> (InError 500 err, db1) | (Inr _, db1) \<Rightarrow> (InReply 204 INone, db1))
         else (in_bad_method, db))"

definition handleEscalationPolicies :: "pager_env \<Rightarrow> IncidentRequest \<Rightarrow> IncidentDB \<Rightarrow> IncidentResponse \<times> IncidentDB" where
  "handleEscalationPolicies v r db =
     (if iq_Method r = ''GET'' then
        (case ListPagePolicies db of Inl err \<Rightarrow> (InError 500 err, db) | Inr policies \<Rightarrow> (InReply 200 (IPolicies policies), db))
      else if iq_Method r = ''POST'' then
        (case iq_Policy r of
           None \<Rightarrow> (InError 400 ''Invalid JSON'', db)
         | Some policy \<Rightarrow>
             if pp_Name policy = '''' then (InError 400 ''Name is required'', db)
             else (case CreatePagePolicy (pv_env v) policy db of
                     (Inl err, policy1, db1) \<Rightarrow> (InError 500 err, db1)
                   | (Inr _, policy1, db1) \<Rightarrow> (InReply 201 (IPolicy policy1), db1)))
      else (in_bad_method, db))"

definition handleEscalationPolicy :: "IncidentRequest \<Rightarrow> IncidentDB \<Rightarrow> IncidentResponse \<times> IncidentDB" where
  "handleEscalationPolicy r db =
     (let policyID = trim_prefix (iq_Path r) ''/api/escalation/''
      in if policyID = '''' then (InError 400 ''Policy ID required'', db)
         else if iq_Method r = ''GET'' then
           (case GetPagePolicy policyID db of
              Inl err \<Rightarrow> (InError 500 err, db)
            | Inr None \<Rightarrow> (InError 404 ''Policy not found'', db)
            | Inr (Some policy) \<Rightarrow> (InReply 200 (IPolicy policy), db))
         else if iq_Method r = ''DELETE'' then
           (case DeletePagePolicy policyID db of (Inl err, db1) \<Rightarrow> (InError 500 err, db1) | (Inr _, db1) \<Rightarrow> (InReply 204 INone, db1))
         else (in_bad_method, db))"

section \<open>Runs\<close>

definition on_db :: "(IncidentDB \<Rightarrow> IncidentResponse \<times> IncidentDB) \<Rightarrow> incident_state \<Rightarrow> IncidentResponse \<times> incident_state" where
  "on_db h s = (case h (snd s) of (resp, db) \<Rightarrow> (resp, (fst s, db)))"

text \<open>A step of the server that \<open>SetIncidentStore\<close> sets up: a request to one of the handlers, an incident from one of the sources,
  a tick of the pager or one of its timers, or the deduplicating insert of the store, which the package offers beside the pager.\<close>

inductive incident_step :: "incident_state \<Rightarrow> incident_state \<Rightarrow> bool" where
  incidents: "handleIncidents v r s = (resp, s') \<Longrightarrow> incident_step s s'"
| incident: "handleIncident v r s = (resp, s') \<Longrightarrow> incident_step s s'"
| schedules: "on_db (handleOnCallSchedules v r) s = (resp, s') \<Longrightarrow> incident_step s s'"
| schedule: "on_db (handleOnCallSchedule v r) s = (resp, s') \<Longrightarrow> incident_step s s'"
| policies: "on_db (handleEscalationPolicies v r) s = (resp, s') \<Longrightarrow> incident_step s s'"
| policy: "on_db (handleEscalationPolicy r) s = (resp, s') \<Longrightarrow> incident_step s s'"
| source: "Trigger v inc p db = (res, inc1, s') \<Longrightarrow> incident_step (p, db) s'"
| dedup: "CreateOrDedup e inc db = (res, db') \<Longrightarrow> incident_step (p, db) (p, db')"
| tick: "pager_checkEscalations v p db = Return db' \<Longrightarrow> incident_step (p, db) (p, db')"

end
