(* ===== verification/Incident_Guarantees.thy ===== *)
theory Incident_Guarantees
  imports Incident_Pager "HOL-Library.Sublist"
begin

text \<open>
  What the incidents of a server keep: rows stay, their history only grows, an open incident has its key of deduplication for itself;
  what the pager does with its policy, and that it never has one.
\<close>

section \<open>Rows only grow\<close>

text \<open>What no operation changes of a row, and what a later row owes to an earlier one.\<close>

definition core :: "Incident \<Rightarrow> string \<times> string \<times> string \<times> go_time" where
  "core row = (in_ID row, in_DedupKey row, in_Title row, in_CreatedAt row)"

definition later_row :: "Incident \<Rightarrow> Incident \<Rightarrow> bool" where
  "later_row row row' \<longleftrightarrow> core row' = core row \<and> prefix (in_Timeline row) (in_Timeline row')"

definition grown :: "Incident list \<Rightarrow> Incident list \<Rightarrow> bool" where
  "grown rows rows' \<longleftrightarrow> length rows \<le> length rows' \<and> (\<forall>i < length rows. later_row (rows ! i) (rows' ! i))"

definition incidents_ok :: "IncidentDB \<Rightarrow> bool" where
  "incidents_ok db \<longleftrightarrow> distinct (map in_ID (ic_incidents db)) \<and> index_ok (ic_incidents db)"

definition keeps_history :: "IncidentDB \<Rightarrow> IncidentDB \<Rightarrow> bool" where
  "keeps_history db db' \<longleftrightarrow> (incidents_ok db \<longrightarrow> incidents_ok db' \<and> grown (ic_incidents db) (ic_incidents db'))"

lemma later_row_refl: "later_row row row"
  by (simp add: later_row_def)

lemma grown_refl: "grown rows rows"
  by (simp add: grown_def later_row_refl)

lemma grown_trans: "grown a b \<Longrightarrow> grown b c \<Longrightarrow> grown a c"
  unfolding grown_def later_row_def by (auto dest!: spec intro: prefix_order.trans order.strict_trans2)

lemma keeps_refl: "keeps_history db db"
  by (simp add: keeps_history_def grown_refl)

lemma keeps_trans: "keeps_history a b \<Longrightarrow> keeps_history b c \<Longrightarrow> keeps_history a c"
  unfolding keeps_history_def by (blast intro: grown_trans)

lemma keeps_same: "ic_incidents db' = ic_incidents db \<Longrightarrow> keeps_history db db'"
  by (simp add: keeps_history_def incidents_ok_def grown_refl)

lemma keeps_append:
  assumes "in_ID row \<notin> in_ID ` set (ic_incidents db)" "index_ok (ic_incidents db @ [row])"
  shows "keeps_history db (db\<lparr>ic_incidents := ic_incidents db @ [row]\<rparr>)"
  using assms by (auto simp: keeps_history_def incidents_ok_def grown_def nth_append later_row_refl)

text \<open>The contract of a change that a method makes to a row beside its timeline.\<close>

locale row_change =
  fixes f :: "Incident \<Rightarrow> Incident"
  assumes core_kept: "core (f row) = core row"
begin

lemma later:
  assumes "in_Timeline row' = in_Timeline row"
  shows "later_row row ((f row)\<lparr>in_UpdatedAt := t, in_Timeline := in_Timeline row' @ [ev]\<rparr>)"
  using assms core_kept [of row] by (simp add: later_row_def core_def)

lemma with_event_keeps: "keeps_history db (snd (with_event e iD ty user msg f db))"
proof (cases "find_incident iD db")
  case None
  then show ?thesis by (simp add: with_event_def keeps_refl)
next
  case (Some row)
  let ?g = "\<lambda>r. if in_ID r = iD then (f r)\<lparr>in_UpdatedAt := ie_now e, in_Timeline := in_Timeline row @ [timeline_event (ie_now e) ty user msg]\<rparr> else r"
  have "keeps_history db (db\<lparr>ic_incidents := map ?g (ic_incidents db)\<rparr>)" if idx: "index_ok (map ?g (ic_incidents db))"
    unfolding keeps_history_def
  proof (intro impI conjI)
    assume ok: "incidents_ok db"
    have g: "in_ID (?g r) = in_ID r" for r using core_kept [of r] by (simp add: core_def)
    with idx ok show "incidents_ok (db\<lparr>ic_incidents := map ?g (ic_incidents db)\<rparr>)"
      unfolding incidents_ok_def by (simp add: comp_def)
    have "later_row r (?g r)" if r: "r \<in> set (ic_incidents db)" for r
    proof (cases "in_ID r = iD")
      case True
      have "row \<in> set (ic_incidents db)" "in_ID row = iD"
        using Some by (auto simp: find_incident_def find_Some_iff)
      with True r ok have "r = row" unfolding incidents_ok_def distinct_map inj_on_def by blast
      with True later [of row r] show ?thesis by simp
    qed (simp add: later_row_refl)
    then show "grown (ic_incidents db) (ic_incidents (db\<lparr>ic_incidents := map ?g (ic_incidents db)\<rparr>))"
      by (simp add: grown_def)
  qed
  with Some show ?thesis
    by (simp add: with_event_def update_incident_def Let_def ic_exec_def keeps_refl)
qed

end

interpretation acknowledged: row_change "\<lambda>r. r\<lparr>in_Status := st, in_AckedAt := at', in_AckedBy := user, in_AssignedTo := user\<rparr>" for st at' user
  by unfold_locales (simp add: core_def)

interpretation resolved: row_change "\<lambda>r. r\<lparr>in_Status := st, in_ResolvedAt := at', in_ResolvedBy := user\<rparr>" for st at' user
  by unfold_locales (simp add: core_def)

interpretation escalated: row_change "\<lambda>r. r\<lparr>in_EscLevel := lv, in_AssignedTo := user\<rparr>" for lv user
  by unfold_locales (simp add: core_def)

interpretation noted: row_change "\<lambda>r. r"
  by unfold_locales simp

interpretation assigned: row_change "\<lambda>r. r\<lparr>in_AssignedTo := user\<rparr>" for user
  by unfold_locales (simp add: core_def)

lemma methods_keep [intro]:
  "keeps_history db (snd (AcknowledgeInc e iD user db))" "keeps_history db (snd (ResolveInc e iD user resolution db))"
  "keeps_history db (snd (EscalateIncident e iD level user db))" "keeps_history db (snd (AddNote e iD user note' db))"
  "keeps_history db (snd (AssignIncident e iD user assignee db))"
  unfolding AcknowledgeInc_def ResolveInc_def EscalateIncident_def AddNote_def AssignIncident_def
  by (rule acknowledged.with_event_keeps resolved.with_event_keeps escalated.with_event_keeps noted.with_event_keeps
      assigned.with_event_keeps)+

lemma create_keeps [intro]: "keeps_history db (snd (snd (createIncidentLocked e inc db)))"
proof -
  let ?row = "(completed e db inc)\<lparr>in_AckedAt := None, in_AckedBy := '''', in_ResolvedAt := None, in_ResolvedBy := ''''\<rparr>"
  have iD: "in_ID ?row = in_ID (completed e db inc)" by simp
  show ?thesis
    using keeps_append [of ?row db] unfolding iD
    by (simp add: createIncidentLocked_def Let_def ic_exec_def keeps_refl)
qed

lemma dedup_keeps: "keeps_history db (snd (CreateOrDedup e inc db))"
  using create_keeps [of db e inc] noted.with_event_keeps
  by (auto simp: CreateOrDedup_def Let_def keeps_refl split: option.split sum.split prod.split)

section \<open>The pager and the handlers\<close>

lemma log_page_incidents [simp]: "ic_incidents (log_page v inc channel target url db) = ic_incidents db"
  by (simp add: log_page_def LogNotification_def Let_def ic_exec_def)

lemma page_incidents [simp]:
  "ic_incidents (sendSlackNotification v p inc db) = ic_incidents db"
  "ic_incidents (sendWebhookNotification v p inc db) = ic_incidents db"
  by (auto simp: sendSlackNotification_def sendWebhookNotification_def intro!: fold_frame)

lemma notify_incidents [simp]:
  "ic_incidents (notifyIncident v p inc db) = ic_incidents db" "ic_incidents (notifyLevel v p inc rule db) = ic_incidents db"
  by (auto simp: notifyIncident_def notifyLevel_def intro!: fold_frame)

lemma Trigger_keeps: "keeps_history db (snd (snd (snd (Trigger v inc p db))))"
proof -
  obtain res inc1 db1 where c: "createIncidentLocked (pv_env v) inc db = (res, inc1, db1)" by (metis prod_cases3)
  then have "keeps_history db db1" using create_keeps [of db "pv_env v" inc] by simp
  then have "keeps_history db (notifyIncident v p inc1 db1)" by (rule keeps_trans) (simp add: keeps_same)
  with \<open>keeps_history db db1\<close> c show ?thesis
    by (cases res) (simp_all add: Trigger_def CreateIncident_def Let_def)
qed

lemma keeps_notified: "keeps_history db db' \<Longrightarrow> keeps_history db (notifyLevel v p inc rule db')"
  by (erule keeps_trans) (simp add: keeps_same)

lemma keeps_escalated: "keeps_history db (snd (EscalateIncident e iD level user (notifyLevel v p inc rule db)))"
  by (rule keeps_trans [of _ "notifyLevel v p inc rule db"]) (auto intro: keeps_same)

lemma maybeEscalate_keeps: "maybeEscalate v p inc db = Return db' \<Longrightarrow> keeps_history db db'"
  unfolding maybeEscalate_def Let_def
  by (auto split: if_split_asm sum.split_asm option.split_asm outcome.split_asm
      intro: keeps_refl keeps_escalated keeps_notified methods_keep)

lemma escalate_all_keeps: "escalate_all v p incs db = Return db' \<Longrightarrow> keeps_history db db'"
proof (induction incs arbitrary: db)
  case Nil
  then show ?case by (simp add: keeps_refl)
next
  case (Cons inc incs)
  then show ?case
    by (cases "maybeEscalate v p inc db") (auto split: if_split_asm intro: keeps_trans maybeEscalate_keeps)
qed

lemma tick_keeps: "pager_checkEscalations v p db = Return db' \<Longrightarrow> keeps_history db db'"
  by (auto simp: pager_checkEscalations_def keeps_refl intro: escalate_all_keeps split: sum.split_asm)

lemma handlers_keep:
  "keeps_history (snd s) (snd (snd (handleIncidents v r s)))"
  "keeps_history (snd s) (snd (snd (handleIncidentAck v r iD s)))"
  "keeps_history (snd s) (snd (snd (handleIncidentResolve v r iD s)))"
  "keeps_history (snd s) (snd (snd (handleIncidentNote v r iD s)))"
  "keeps_history (snd s) (snd (snd (handleIncidentAssign v r iD s)))"
proof -
  obtain p db where s: "s = (p, db)" by (cases s)
  note snds = Trigger_keeps [of db v _ p] methods_keep [of db]
  show "keeps_history (snd s) (snd (snd (handleIncidents v r s)))"
    using snds(1) by (auto simp: handleIncidents_def s keeps_refl split: sum.split option.split prod.split) (metis snd_conv)+
  show "keeps_history (snd s) (snd (snd (handleIncidentAck v r iD s)))"
    using snds(2) by (auto simp: handleIncidentAck_def s keeps_refl split: sum.split option.split prod.split) (metis snd_conv)+
  show "keeps_history (snd s) (snd (snd (handleIncidentResolve v r iD s)))"
    using snds(3) by (auto simp: handleIncidentResolve_def s keeps_refl split: sum.split option.split prod.split) (metis snd_conv)+
  show "keeps_history (snd s) (snd (snd (handleIncidentNote v r iD s)))"
    using snds(5) by (auto simp: handleIncidentNote_def s keeps_refl split: sum.split option.split prod.split) (metis snd_conv)+
  show "keeps_history (snd s) (snd (snd (handleIncidentAssign v r iD s)))"
    using snds(6) by (auto simp: handleIncidentAssign_def s keeps_refl split: sum.split option.split prod.split) (metis snd_conv)+
qed

lemma handleIncident_keeps: "keeps_history (snd s) (snd (snd (handleIncident v r s)))"
  by (auto simp: handleIncident_def Let_def keeps_refl handlers_keep split: sum.split option.split)

lemma admin_incidents [simp]:
  "ic_incidents (snd (handleOnCallSchedules v r db)) = ic_incidents db"
  "ic_incidents (snd (handleOnCallSchedule v r db)) = ic_incidents db"
  "ic_incidents (snd (handleEscalationPolicies v r db)) = ic_incidents db"
  "ic_incidents (snd (handleEscalationPolicy r db)) = ic_incidents db"
  by (auto simp: handleOnCallSchedules_def handleOnCallSchedule_def handleEscalationPolicies_def handleEscalationPolicy_def Let_def
      CreateOnCallSchedule_def DeleteOnCallSchedule_def CreatePagePolicy_def DeletePagePolicy_def ic_exec_def
      split: sum.split option.split prod.split)

lemma on_db_keeps: "ic_incidents (snd (h (snd s))) = ic_incidents (snd s) \<Longrightarrow> keeps_history (snd s) (snd (snd (on_db h s)))"
  by (auto simp: on_db_def intro: keeps_same split: prod.split)

lemma step_keeps: "incident_step s s' \<Longrightarrow> keeps_history (snd s) (snd s')"
proof (induction rule: incident_step.induct)
  case (incidents v r s resp s')
  then show ?case using handlers_keep(1) [of s v r] by simp
next
  case (incident v r s resp s')
  then show ?case using handleIncident_keeps [of s v r] by simp
next
  case (schedules v r s resp s')
  then show ?case using on_db_keeps [of "handleOnCallSchedules v r" s] by simp
next
  case (schedule v r s resp s')
  then show ?case using on_db_keeps [of "handleOnCallSchedule v r" s] by simp
next
  case (policies v r s resp s')
  then show ?case using on_db_keeps [of "handleEscalationPolicies v r" s] by simp
next
  case (policy r s resp s')
  then show ?case using on_db_keeps [of "handleEscalationPolicy r" s] by simp
next
  case (source v inc p db res inc1 s')
  then show ?case using Trigger_keeps [of db v inc p] by simp
next
  case (dedup e inc db res db' p)
  then show ?case using dedup_keeps [of db e inc] by simp
next
  case (tick v p db db')
  then show ?case by (simp add: tick_keeps)
qed

lemma steps_keep: "incident_step\<^sup>*\<^sup>* s s' \<Longrightarrow> keeps_history (snd s) (snd s')"
  by (induction rule: rtranclp_induct) (auto intro: keeps_refl keeps_trans step_keeps)

text \<open>C38. Incidents are never lost and their history is never rewritten. In every run of a server that starts on an empty store,
  whatever requests, sources and ticks come between two states, every incident of the first is in the second with the same identifier,
  key, title and time of creation, and its timeline there starts with its timeline in the first; and no two incidents have one
  identifier, nor two open ones one key of deduplication.\<close>

theorem incident_history_preserved:
  assumes "incident_step\<^sup>*\<^sup>* (NewPager, NewIncidentStore fk) s" "incident_step\<^sup>*\<^sup>* s s'"
  shows "(\<forall>row \<in> set (ic_incidents (snd s)). \<exists>row' \<in> set (ic_incidents (snd s')).
      core row' = core row \<and> prefix (in_Timeline row) (in_Timeline row')) \<and>
    distinct (map in_ID (ic_incidents (snd s'))) \<and> distinct (dedup_keys (ic_incidents (snd s')))"
proof -
  have "incidents_ok (snd s)"
    using steps_keep [OF assms(1)] by (simp add: keeps_history_def incidents_ok_def NewIncidentStore_def index_ok_def dedup_keys_def)
  then have ok: "incidents_ok (snd s')" and g: "grown (ic_incidents (snd s)) (ic_incidents (snd s'))"
    using steps_keep [OF assms(2)] by (auto simp: keeps_history_def)
  have "\<exists>row' \<in> set (ic_incidents (snd s')). core row' = core row \<and> prefix (in_Timeline row) (in_Timeline row')"
    if row: "row \<in> set (ic_incidents (snd s))" for row
  proof -
    obtain i where i: "i < length (ic_incidents (snd s))" "ic_incidents (snd s) ! i = row" using row unfolding in_set_conv_nth by blast
    then have "i < length (ic_incidents (snd s'))" "later_row row (ic_incidents (snd s') ! i)" using g by (auto simp: grown_def)
    then show ?thesis unfolding later_row_def using nth_mem by blast
  qed
  with ok show ?thesis unfolding incidents_ok_def index_ok_def by blast
qed

section \<open>Deduplication\<close>

lemma dedup_keys_map:
  assumes "\<And>r. in_DedupKey (g r) = in_DedupKey r" "\<And>r. in_Status (g r) = in_Status r"
  shows "dedup_keys (map g rows) = dedup_keys rows"
  unfolding dedup_keys_def by (induction rows) (simp_all add: assms)

lemma find_map_id:
  assumes "\<And>r. in_ID (g r) = in_ID r"
  shows "find (\<lambda>row. in_ID row = iD) (map g rows) = map_option g (find (\<lambda>row. in_ID row = iD) rows)"
  by (induction rows) (simp_all add: assms)

text \<open>A change of a row that leaves its identifier, its key and its status alone succeeds.\<close>

lemma with_event_row:
  assumes "ic_ok db" "index_ok (ic_incidents db)" "find_incident iD db = Some row"
    and f: "\<And>r. in_ID (f r) = in_ID r" "\<And>r. in_DedupKey (f r) = in_DedupKey r" "\<And>r. in_Status (f r) = in_Status r"
  shows "fst (with_event e iD ty user msg f db) = Inr ()"
    and "find_incident iD (snd (with_event e iD ty user msg f db)) =
      Some ((f row)\<lparr>in_UpdatedAt := ie_now e, in_Timeline := in_Timeline row @ [timeline_event (ie_now e) ty user msg]\<rparr>)"
    and "length (ic_incidents (snd (with_event e iD ty user msg f db))) = length (ic_incidents db)"
    and "ic_ok (snd (with_event e iD ty user msg f db))"
proof -
  let ?g = "\<lambda>r. if in_ID r = iD then (f r)\<lparr>in_UpdatedAt := ie_now e, in_Timeline := in_Timeline row @ [timeline_event (ie_now e) ty user msg]\<rparr> else r"
  have "dedup_keys (map ?g (ic_incidents db)) = dedup_keys (ic_incidents db)" by (rule dedup_keys_map) (simp_all add: f)
  then have idx: "index_ok (map ?g (ic_incidents db))" using assms(2) unfolding index_ok_def by argo
  then have w: "with_event e iD ty user msg f db = (Inr (), db\<lparr>ic_incidents := map ?g (ic_incidents db)\<rparr>)"
    using assms(1,3) by (simp add: with_event_def update_incident_def Let_def ic_exec_def)
  have "in_ID row = iD" using assms(3) by (auto simp: find_incident_def find_Some_iff)
  moreover have "find_incident iD (db\<lparr>ic_incidents := map ?g (ic_incidents db)\<rparr>) = Some (?g row)"
    using assms(3) unfolding find_incident_def by (simp add: find_map_id f)
  ultimately show "find_incident iD (snd (with_event e iD ty user msg f db)) =
      Some ((f row)\<lparr>in_UpdatedAt := ie_now e, in_Timeline := in_Timeline row @ [timeline_event (ie_now e) ty user msg]\<rparr>)"
    unfolding w by simp
  show "fst (with_event e iD ty user msg f db) = Inr ()"
    "length (ic_incidents (snd (with_event e iD ty user msg f db))) = length (ic_incidents db)"
    "ic_ok (snd (with_event e iD ty user msg f db))" using assms(1) by (simp_all add: w)
qed

lemma find_by_id:
  assumes "distinct (map in_ID (ic_incidents db))" "row \<in> set (ic_incidents db)"
  shows "find_incident (in_ID row) db = Some row"
proof (cases "find_incident (in_ID row) db")
  case None
  with assms(2) show ?thesis by (auto simp: find_incident_def find_None_iff)
next
  case (Some r)
  then have "r \<in> set (ic_incidents db)" "in_ID r = in_ID row" by (auto simp: find_incident_def find_Some_iff)
  with assms Some show ?thesis unfolding distinct_map inj_on_def by blast
qed

text \<open>C39. An alert with the key of an open incident is merged into it: no row is added, the caller gets that incident, marked as
  found, with an event about the duplicate at the end of its timeline.\<close>

theorem duplicate_is_merged:
  assumes "incidents_ok db" "ic_ok db" "in_DedupKey inc \<noteq> ''''"
    and "row \<in> set (ic_incidents db)" "in_DedupKey row = in_DedupKey inc" "in_Status row \<noteq> StatusResolved"
  shows "\<exists>found db'. CreateOrDedup e inc db = (Inr (Some found, True), db') \<and> length (ic_incidents db') = length (ic_incidents db) \<and>
    in_ID found = in_ID row \<and> in_Timeline found = in_Timeline row @ [timeline_event (ie_now e) ''dedup'' '''' (dedup_message inc)]"
proof -
  let ?P = "\<lambda>row. in_DedupKey row = in_DedupKey inc \<and> in_Status row \<noteq> StatusResolved"
  obtain r where r: "find ?P (ic_incidents db) = Some r" using assms(4-6) by (cases "find ?P (ic_incidents db)") (auto simp: find_None_iff)
  then have rr: "r \<in> set (ic_incidents db)" "?P r" by (auto simp: find_Some_iff)
  have "distinct (map in_DedupKey (filter (\<lambda>row. in_DedupKey row \<noteq> '''' \<and> in_Status row \<noteq> StatusResolved) (ic_incidents db)))"
    using assms(1) by (simp add: incidents_ok_def index_ok_def dedup_keys_def)
  then have "r = row" using assms(3-6) rr unfolding distinct_map inj_on_def by auto
  let ?msg = "dedup_message inc"
  let ?w = "with_event e (in_ID row) ''dedup'' '''' ?msg (\<lambda>r. r) db"
  have "find_incident (in_ID row) db = Some row" using assms(1,4) by (intro find_by_id) (simp_all add: incidents_ok_def)
  note w = with_event_row [OF assms(2) _ this, of "\<lambda>r. r" e "''dedup''" "''''" ?msg]
  have "index_ok (ic_incidents db)" using assms(1) by (simp add: incidents_ok_def)
  note w = w [OF this refl refl refl]
  have "CreateOrDedup e inc db = (case GetIncident (in_ID row) (snd ?w) of Inl err \<Rightarrow> (Inl err, snd ?w) | Inr found \<Rightarrow> (Inr (found, True), snd ?w))"
    using assms(2,3) r \<open>r = row\<close> by (simp add: CreateOrDedup_def Let_def)
  with w show ?thesis by (simp add: GetIncident_def scanIncident_def)
qed

section \<open>The policy of the pager\<close>

lemma trigger_policy: "pa_defaultPolicy (fst (snd (snd (Trigger v inc p db)))) = pa_defaultPolicy p"
  by (auto simp: Trigger_def scheduleEscalation_def Let_def split: prod.split sum.split option.split list.split)

lemma handler_policy:
  "pa_defaultPolicy (fst (snd (handleIncidents v r s))) = pa_defaultPolicy (fst s)"
  "pa_defaultPolicy (fst (snd (handleIncident v r s))) = pa_defaultPolicy (fst s)"
proof -
  obtain p db where s: "s = (p, db)" by (cases s)
  show "pa_defaultPolicy (fst (snd (handleIncidents v r s))) = pa_defaultPolicy (fst s)"
    using trigger_policy [of v _ p db]
    by (auto simp: handleIncidents_def s split: sum.split option.split prod.split) (metis fst_conv snd_conv)+
  have "pa_defaultPolicy (fst (snd (handleIncidentAck v r iD s))) = pa_defaultPolicy (fst s)"
    "pa_defaultPolicy (fst (snd (handleIncidentResolve v r iD s))) = pa_defaultPolicy (fst s)"
    "pa_defaultPolicy (fst (snd (handleIncidentNote v r iD s))) = pa_defaultPolicy (fst s)"
    "pa_defaultPolicy (fst (snd (handleIncidentAssign v r iD s))) = pa_defaultPolicy (fst s)" for iD
    by (auto simp: handleIncidentAck_def handleIncidentResolve_def handleIncidentNote_def handleIncidentAssign_def s CancelEscalation_def
        split: sum.split option.split prod.split)
  then show "pa_defaultPolicy (fst (snd (handleIncident v r s))) = pa_defaultPolicy (fst s)"
    by (auto simp: handleIncident_def Let_def split: sum.split option.split)
qed

lemma step_policy: "incident_step s s' \<Longrightarrow> pa_defaultPolicy (fst s') = pa_defaultPolicy (fst s)"
proof (induction rule: incident_step.induct)
  case (incidents v r s resp s')
  then show ?case using handler_policy(1) [of v r s] by simp
next
  case (incident v r s resp s')
  then show ?case using handler_policy(2) [of v r s] by simp
next
  case (source v inc p db res inc1 s')
  then show ?case using trigger_policy [of v inc p db] by simp
qed (auto simp: on_db_def split: prod.split_asm)

lemma steps_policy: "incident_step\<^sup>*\<^sup>* s s' \<Longrightarrow> pa_defaultPolicy (fst s') = pa_defaultPolicy (fst s)"
  by (induction rule: rtranclp_induct) (auto dest: step_policy)

lemma idle_pager: "pa_defaultPolicy p = '''' \<Longrightarrow> escalate_all v p incs db = Return db"
  by (induction incs) (simp_all add: maybeEscalate_def)

text \<open>C40. The pager of a server never escalates. No request, source or tick gives the pager a default policy, and without one a tick
  leaves every incident as it is, whatever policies the store holds.\<close>

theorem pager_never_escalates:
  assumes "incident_step\<^sup>*\<^sup>* (NewPager, db) s"
  shows "pager_checkEscalations v (fst s) (snd s) = Return (snd s)"
proof -
  have "pa_defaultPolicy (fst s) = ''''" using steps_policy [OF assms] by (simp add: NewPager_def)
  then show ?thesis by (simp add: pager_checkEscalations_def idle_pager split: sum.split)
qed

section \<open>Repeats\<close>

text \<open>An incident whose every level is overdue and that is older than two cycles of the policy.\<close>

definition overdue :: "pager_env \<Rightarrow> PagePolicy \<Rightarrow> Incident \<Rightarrow> bool" where
  "overdue v policy inc \<longleftrightarrow>
     (\<forall>level < length (pp_Rules policy). escalation_time policy inc level < ie_now (pv_env v)) \<and>
     1 < go_quot (time_sub (ie_now (pv_env v)) (in_CreatedAt inc)) (wrap64 (pp_RepeatAfter policy * minute)) \<and>
     wrap64 (pp_RepeatAfter policy * minute) \<noteq> 0"

lemma log_page_frame:
  "ic_ok (log_page v inc c t u db) = ic_ok db" "ic_policies (log_page v inc c t u db) = ic_policies db"
  by (simp_all add: log_page_def LogNotification_def Let_def ic_exec_def)

lemma page_frame:
  "ic_ok (sendSlackNotification v p inc db) = ic_ok db" "ic_ok (sendWebhookNotification v p inc db) = ic_ok db"
  by (auto simp: sendSlackNotification_def sendWebhookNotification_def log_page_frame intro!: fold_frame)

lemma notifyLevel_ok: "ic_ok (notifyLevel v p inc rule db) = ic_ok db"
  unfolding notifyLevel_def by (rule fold_frame) (simp add: page_frame)

lemma escalated_row:
  assumes "ic_ok db" "index_ok (ic_incidents db)" "find_incident iD db = Some row"
  shows "map_option in_EscLevel (find_incident iD (snd (EscalateIncident e iD level user db))) = Some level"
  using with_event_row(2) [OF assms, of "\<lambda>r. r\<lparr>in_EscLevel := level, in_AssignedTo := user\<rparr>" e]
  by (simp add: EscalateIncident_def)

lemma find_incident_notified [simp]: "find_incident iD (notifyLevel v p inc rule db) = find_incident iD db"
  by (simp add: find_incident_def)

text \<open>A policy that repeats pages without pause. Once an open incident is older than two of its cycles and than all its delays
  together, every check of it escalates it: from each level to the next, from the last out of the policy, and from there back to
  the first level, at every tick of thirty seconds and not once per cycle.\<close>

theorem repeat_escalates_at_every_tick:
  assumes "GetPagePolicy (pa_defaultPolicy p) db = Inr (Some policy)" "pa_defaultPolicy p \<noteq> ''''"
    and "pp_Rules policy \<noteq> []" "0 < pp_RepeatAfter policy"
    and "index_ok (ic_incidents db)" "find_incident (in_ID inc) db = Some row"
    and "0 \<le> in_EscLevel inc" "in_EscLevel inc \<le> int (length (pp_Rules policy))" "overdue v policy inc"
    and "\<And>rule. rule \<in> set (pp_Rules policy) \<Longrightarrow> \<exists>u. resolveTargets v (pr_Targets rule) db = Return u"
  shows "\<exists>db'. maybeEscalate v p inc db = Return db' \<and>
    map_option in_EscLevel (find_incident (in_ID inc) db') =
      Some ((in_EscLevel inc + 1) mod (int (length (pp_Rules policy)) + 1))"
proof -
  let ?n = "int (length (pp_Rules policy))"
  have ok: "ic_ok db" using assms(1) by (simp add: GetPagePolicy_def split: if_split_asm)
  have n: "0 < ?n" using assms(3) by simp
  show ?thesis
  proof (cases "in_EscLevel inc = ?n")
    case True
    have "go_quot ?n ?n = 1" using n by (simp add: go_quot_def sgn_if)
    then have "maybeEscalate v p inc db =
        Return (notifyLevel v p inc (pp_Rules policy ! 0) (snd (EscalateIncident (pv_env v) (in_ID inc) 0 '''' db)))"
      using assms(1-4,9) True n by (simp add: maybeEscalate_def Let_def overdue_def)
    then show ?thesis using escalated_row [OF ok assms(5,6)] by (simp add: True)
  next
    case False
    let ?l = "nat (in_EscLevel inc)"
    have l: "?l < length (pp_Rules policy)" "int ?l = in_EscLevel inc" using False assms(7,8) by auto
    then have due: "escalation_time policy inc ?l < ie_now (pv_env v)" using assms(9) by (simp add: overdue_def)
    have nn: "\<not> in_EscLevel inc < 0" using assms(7) by simp
    have m: "(in_EscLevel inc + 1) mod (?n + 1) = in_EscLevel inc + 1" using False assms(7,8) by simp
    show ?thesis
    proof (cases "in_EscLevel inc + 1 < ?n")
      case True
      let ?rule = "pp_Rules policy ! nat (in_EscLevel inc + 1)"
      obtain u where "resolveTargets v (pr_Targets ?rule) db = Return u" using assms(7,10) True by (metis nat_less_iff nth_mem add_nonneg_nonneg zero_le_one)
      then have "maybeEscalate v p inc db =
          Return (snd (EscalateIncident (pv_env v) (in_ID inc) (in_EscLevel inc + 1) u (notifyLevel v p inc ?rule db)))"
        using assms(1,2) nn due True by (simp add: maybeEscalate_def Let_def)
      then show ?thesis
        using escalated_row [of "notifyLevel v p inc ?rule db" "in_ID inc" row] ok assms(5,6) by (simp add: notifyLevel_ok m)
    next
      case last_level: False
      then have "maybeEscalate v p inc db = Return (snd (EscalateIncident (pv_env v) (in_ID inc) (in_EscLevel inc + 1) '''' db))"
        using assms(1,2,8) nn due False by (simp add: maybeEscalate_def Let_def)
      then show ?thesis using escalated_row [OF ok assms(5,6)] by (simp add: m)
    qed
  qed
qed

text \<open>A policy without rules that repeats, or a negative level, which the API takes from the body of a request, stops the process.\<close>

lemma pager_panics:
  assumes "GetPagePolicy (pa_defaultPolicy p) db = Inr (Some policy)" "pa_defaultPolicy p \<noteq> ''''"
    and "pp_Rules policy = [] \<and> 0 < pp_RepeatAfter policy \<and> 0 \<le> in_EscLevel inc \<or> in_EscLevel inc < 0"
  shows "maybeEscalate v p inc db = Panic"
  using assms by (auto simp: maybeEscalate_def Let_def)

section \<open>Concrete runs\<close>

text \<open>One open incident with a key, a policy of one rule that repeats every minute, and the pager with that policy three
  hours later.\<close>

definition env_at :: "go_time \<Rightarrow> pager_env" where
  "env_at t = \<lparr>pv_env = \<lparr>ie_now = t, ie_uuid = (\<lambda>i. ''id'')\<rparr>, pv_post = (\<lambda>_. True), pv_order = [], pv_fmt = (\<lambda>_. '''')\<rparr>"

definition disk_alert :: Incident where
  "disk_alert = blank_incident\<lparr>in_Title := ''disk'', in_DedupKey := ''host1''\<rparr>"

definition disk_policy :: PagePolicy where
  "disk_policy = \<lparr>pp_ID = ''p'', pp_Name = ''p'', pp_Description = '''',
     pp_Rules = [\<lparr>pr_Level = 0, pr_DelayMinutes = 5, pr_Targets = [], pr_NotifyChannels = [''slack'']\<rparr>],
     pp_RepeatAfter = 1, pp_CreatedAt = 0, pp_UpdatedAt = 0\<rparr>"

definition disk_db :: IncidentDB where
  "disk_db = (snd (snd (CreateIncident (pv_env (env_at 0)) disk_alert (NewIncidentStore True))))\<lparr>ic_policies := [disk_policy]\<rparr>"

definition disk_row :: Incident where "disk_row = hd (ic_incidents disk_db)"

definition three_hours :: go_time where "three_hours = 180 * minute"

lemmas disk_defs = disk_db_def disk_row_def disk_alert_def disk_policy_def env_at_def CreateIncident_def createIncidentLocked_def
  completed_def NewIncidentStore_def blank_incident_def Let_def ic_exec_def index_ok_def dedup_keys_def

lemma disk_db_ok:
  "ic_incidents disk_db = [disk_row]" "ic_ok disk_db" "incidents_ok disk_db" "index_ok (ic_incidents disk_db)"
  "ic_policies disk_db = [disk_policy]"
  "in_ID disk_row = ''id''" "in_DedupKey disk_row = ''host1''" "in_Status disk_row = StatusTriggered" "in_CreatedAt disk_row = 0"
  "in_EscLevel disk_row = 0"
  by (simp_all add: disk_defs incidents_ok_def StatusTriggered_def StatusResolved_def)

lemma first_incident_step:
  "incident_step (NewPager, NewIncidentStore fk)
     (NewPager, snd (snd (CreateIncident (pv_env (env_at 0)) disk_alert (NewIncidentStore fk))))"
  by (rule incident_step.source [of "env_at 0" disk_alert])
    (simp add: Trigger_def disk_defs NewPager_def notifyIncident_def sendSlackNotification_def sendWebhookNotification_def
      scheduleEscalation_def StatusTriggered_def StatusResolved_def)

theorem incident_history_preserved_witness:
  "\<exists>s s' row. incident_step\<^sup>*\<^sup>* (NewPager, NewIncidentStore True) s \<and> incident_step\<^sup>*\<^sup>* s s' \<and> row \<in> set (ic_incidents (snd s)) \<and>
    (\<exists>row' \<in> set (ic_incidents (snd s')). core row' = core row \<and> prefix (in_Timeline row) (in_Timeline row'))"
proof -
  let ?s = "(NewPager, snd (snd (CreateIncident (pv_env (env_at 0)) disk_alert (NewIncidentStore True))))"
  have steps: "incident_step\<^sup>*\<^sup>* (NewPager, NewIncidentStore True) ?s" "incident_step\<^sup>*\<^sup>* ?s ?s"
    using first_incident_step by blast+
  have "disk_row \<in> set (ic_incidents (snd ?s))"
    using disk_db_ok(1) by (simp add: disk_db_def)
  with incident_history_preserved [OF steps] steps show ?thesis by blast
qed

theorem duplicate_is_merged_witness:
  "\<exists>found db'. CreateOrDedup (pv_env (env_at three_hours)) disk_alert disk_db = (Inr (Some found, True), db') \<and>
    length (ic_incidents db') = 1 \<and> in_ID found = ''id''"
  using duplicate_is_merged [of disk_db disk_alert disk_row "pv_env (env_at three_hours)"] disk_db_ok
  by (auto simp: disk_alert_def StatusTriggered_def StatusResolved_def)

theorem pager_never_escalates_witness:
  "\<exists>s. incident_step\<^sup>*\<^sup>* (NewPager, NewIncidentStore True) s \<and> ic_incidents (snd s) \<noteq> [] \<and>
    pager_checkEscalations (env_at three_hours) (fst s) (snd s) = Return (snd s)"
proof -
  let ?s = "(NewPager, snd (snd (CreateIncident (pv_env (env_at 0)) disk_alert (NewIncidentStore True))))"
  have steps: "incident_step\<^sup>*\<^sup>* (NewPager, NewIncidentStore True) ?s" using first_incident_step by blast
  have "ic_incidents (snd ?s) \<noteq> []" using disk_db_ok(1) by (simp add: disk_db_def)
  with pager_never_escalates [OF steps, of "env_at three_hours"] steps show ?thesis by blast
qed

lemma disk_overdue: "overdue (env_at three_hours) disk_policy disk_row"
  unfolding overdue_def escalation_time_def disk_db_ok
  by (simp add: disk_policy_def env_at_def three_hours_def page_delay_def wrap64_def time_sub_def max_duration_def min_duration_def
      go_quot_def)

theorem repeat_escalates_at_every_tick_witness:
  "\<exists>db'. maybeEscalate (env_at three_hours) (SetDefaultPolicy ''p'' NewPager) disk_row disk_db = Return db' \<and>
    map_option in_EscLevel (find_incident ''id'' db') = Some 1"
  using repeat_escalates_at_every_tick [of "SetDefaultPolicy ''p'' NewPager" disk_db disk_policy disk_row disk_row "env_at three_hours"]
    disk_db_ok disk_overdue
  by (simp add: SetDefaultPolicy_def GetPagePolicy_def find_incident_def disk_policy_def)

end
