(* ===== verification/Spec2Isabelle.thy ===== *)
theory Spec2Isabelle
  imports Wal_Recovery Federation_Sync Alert_Manager Promql_Shape Promql_Typing Promql_Vectors Web_Front Oncall_System
    Incident_Guarantees
begin

text \<open>
  Verification of dogwatch, an observability server written in Go. Samples, logs and traces arrive from
  eBPF probes and HTTP endpoints, are made durable by a write-ahead log and kept in SQL tables, are
  queried in PromQL, and drive alert rules whose notifications are routed to receivers; several servers
  share incidents, node state and on-call state by gossip. The development models the parts that decide
  something: the write-ahead log, the federated state, the alerting pipeline, on-call schedules and escalation, incidents, the
  PromQL engine, and authentication, authorization and what stands in front of the routes.

  \<^bold>\<open>How the theories correspond to the source.\<close> \<open>Dogwatch_Prelude\<close> has what all share: Go's outcomes (a
  value, an error, a panic), time, float comparison, decimal numerals and string helpers.

  \<^item> \<open>Framed_Log\<close>, \<open>Wal\<close>, \<open>Wal_Recovery\<close>: \<open>internal/storage/wal.go\<close>. \<open>Framed_Log\<close> is the
    interface of a log of length-prefixed, checksummed records; \<open>Wal\<close> translates the encoding, writing,
    batching, segment rotation, checkpointing and recovery over files as byte lists, with 32- and 64-bit
    words at their width. \<open>Wal_Recovery\<close> shows that a crash loses at most what was not synced, that a torn
    or damaged record is detected, what a checkpoint keeps, and two faults of recovery.
  \<^item> \<open>Lww\<close>, \<open>Federation\<close>, \<open>Federation_Sync\<close>: \<open>internal/federation\<close>. \<open>Lww\<close> is the interface of a
    last-writer-wins map; \<open>Federation\<close> translates the shared state, its tombstones and the messages;
    \<open>Federation_Sync\<close> shows convergence of nodes that saw the same messages, growth of versions, and that
    resolved incidents stay resolved.
  \<^item> \<open>Alert_Store\<close>, \<open>Alert_Dependency\<close>, \<open>Alert_Impact\<close>, \<open>Alert_Inhibitor\<close>, \<open>Alert_Evaluator\<close>,
    \<open>Alert_Lifecycle\<close>, \<open>Alert_Router\<close>, \<open>Alert_Manager\<close>: \<open>internal/alerting\<close>. The store of rules, alerts
    and silences; the service graph with blast radius and root-cause search; matchers, silences and
    inhibition; the evaluator as a state machine over evaluations; grouping and notification; and the
    manager that composes them.
  \<^item> \<open>Promql_Lexer\<close>, \<open>Promql_Scanning\<close>, \<open>Promql_Strings\<close>, \<open>Promql_Duration\<close>, \<open>Promql_Ast\<close>,
    \<open>Promql_Parser\<close>, \<open>Promql_Parsing\<close>, \<open>Promql_Shape\<close>: \<open>lexer.go\<close>, \<open>ast.go\<close> and \<open>parser.go\<close> of
    \<open>internal/promql\<close>. The lemmas show that scanning and parsing end, what the items of the lexer say of
    the input, the shape of parsed expressions, and which literals and durations survive printing.
  \<^item> \<open>Float64\<close>: \<open>float64\<close> arithmetic as rounding of rationals, used by durations and by the evaluator.
  \<^item> \<open>Promql_Value\<close>, \<open>Promql_Functions\<close>, \<open>Promql_Metricsql\<close>, \<open>Promql_Eval\<close>, \<open>Promql_Store\<close>,
    \<open>Promql_Engine\<close>: \<open>functions.go\<close>, \<open>metricsql.go\<close>, \<open>translate.go\<close> and \<open>engine.go\<close>, the values, the
    functions, the evaluator over a store, the SQL store and the engine with its prefetching store.
    \<open>Promql_Keys\<close> and \<open>Promql_Scans\<close> show when the texts used as map keys separate label sets and
    selectors, and what a scan returns; \<open>Promql_Query\<close> that the cache of a range query is invisible;
    \<open>Promql_Vectors\<close> that operators between vectors are joins; \<open>Promql_Typing\<close> that calls of registered
    functions keep to the declared types.
  \<^item> \<open>Rbac_Store\<close>, \<open>Rbac_Auth\<close>, \<open>Rbac_Http\<close>, \<open>Rbac_Handlers\<close>: \<open>internal/rbac\<close>, \<open>authmiddleware.go\<close> and
    \<open>rbac_handlers.go\<close> of \<open>internal/web\<close>: roles and permissions, the tables, sessions, API keys and invitations,
    the gate in front of every route and the handlers behind it. \<open>Rbac_Tenants\<close> states the contract of a protected
    handler and proves it of every statement; \<open>Rbac_Security\<close> interprets it for each handler; \<open>Rbac_Requests\<close> lifts it to
    whole requests. \<open>Rbac_Guarantees\<close> and \<open>Rbac_Sessions\<close> have the theorems: isolation of organizations, no escalation of
    roles, what credentials a route asks for, and the life of sessions and invitations.
  \<^item> \<open>Web_Limits\<close>, \<open>Web_Front\<close>: the rate limiters of \<open>internal/rbac/middleware.go\<close> and \<open>internal/web/ratelimit.go\<close>,
    \<open>security.go\<close>, \<open>bodylimit.go\<close>, \<open>recovery.go\<close> and the chain \<open>server.go\<close> makes of them and of the gate.
    \<open>Web_Limiting\<close> shows that the sliding window implements a log of requests and what the token bucket admits;
    \<open>Web_Front\<close> shows that changing requests need a token of the server, and lifts the theorems on requests to it.
  \<^item> \<open>Oncall_Store\<close>, \<open>Oncall_Calc\<close>, \<open>Oncall_Escalation\<close>, \<open>Oncall_Web\<close>: \<open>internal/oncall\<close> and the on-call handlers of
    \<open>internal/web/server.go\<close>: the tables, who is on call by rotation, restriction and override in a time zone, the escalation engine
    over objects behind pointers, and the process with its two engines. \<open>Oncall_Rotation\<close> shows that users take turns by
    the clock and that the calendar says what the rotation says, except around overrides; \<open>Oncall_Paging\<close> when an incident
    escalates and that an acknowledgement stops it; \<open>Oncall_Levels\<close> that every level of a policy is reached and what a restart
    brings back; \<open>Oncall_System\<close> what alerts and acknowledgements do in a whole process.
  \<^item> \<open>Incident_Store\<close>, \<open>Incident_Pager\<close>: \<open>internal/incidents\<close> and the incident, schedule and policy handlers of
    \<open>internal/web/server.go\<close>: the rows with their timelines and keys of deduplication, the pager and the sources of incidents,
    as steps of a server. \<open>Incident_Guarantees\<close> shows that history is only added to, that duplicates are merged, and what the
    pager does with a policy and that it never has one.

  \<^bold>\<open>State and effects.\<close> A struct is a record, a method takes and returns it; fallible code returns an
  \<open>outcome\<close>, in which a panic is a value; evaluation threads the state of the store. Iteration over a Go
  map takes its order from a parameter, so nothing depends on one order.

  \<^bold>\<open>Fuel and bounds.\<close> The parser takes the length of the query plus one as fuel, which
  \<open>Promql_Parsing\<close> shows to be enough for every query. The lexer's loop gives no result when it does not
  advance. A loop over times whose step is not positive is reported as \<open>Unbounded\<close>. The loops of the on-call
  rotation and calendar have no bound: a call gives \<open>None\<close> when it does not return, and the theorems show when it does.

  \<^bold>\<open>Parameters.\<close> CRC-32, JSON, regular expressions, Unicode tables, package \<open>math\<close>, \<open>sort.Slice\<close>, the
  calendar functions of PromQL, the time zone database, number formatting, the clock, SHA-256, bcrypt, random bytes and SQLite are not part of the repository: they are arguments, and
  a statement that relies on one of their documented laws has it as a hypothesis.

  \<^bold>\<open>Not modelled.\<close> The sign of a floating-point zero; goroutine scheduling inside one component (locks make
  the modelled methods atomic; the ticks of the escalation engine do interleave with its handlers); eBPF probes and kernel interfaces; the HTTP handlers and templates other than
  those of users, roles, on-call and incidents; the statistics of incidents; storage back ends, tiering and schema migration; the log
  and trace query language, quotas and the remaining subsystems, which are listed with the reason in the manifest. Of
  these the query language and quotas are the ones with logic of their own that the development should take next.
\<close>

end
